(* ===== verification/Prelude.thy ===== *)
theory Prelude
  imports Main "HOL-Library.List_Lexorder" "HOL-Library.Char_ord" "HOL-Library.Product_Lexorder"
begin

text \<open>
  Shared vocabulary of the development.

  \<^item> Exceptions: the classes of \<^verbatim>\<open>broker/src/ops_broker/errors.py\<close> and the built-in Python
    exceptions the broker raises or catches, as one datatype; a fallible call returns
    \<open>py_exc + 'a\<close>, \<open>Inl\<close> being the raise.
  \<^item> Tables: a SQLite table is the list of its rows in rowid order, and the SQL statements the
    broker issues (\<open>SELECT ... WHERE\<close>, \<open>UPDATE ... WHERE\<close>, \<open>DELETE ... WHERE\<close>) are list functions.
  \<^item> The generic lemmas on results, lookups and keyed tables that the component theories share.
\<close>

named_theorems result_simps "unfolding rules for results and transactions"
named_theorems table_simps "lookup, update and delete on tables"
named_theorems frame_simps "fields an operation leaves unchanged"

section \<open>Exceptions and results\<close>

text \<open>
  \<open>BrokerError code message status details\<close> is the base class; the subclasses fix code and status.
  The next constructors are the non-broker exceptions that the broker raises or handles. From
  \<open>ConfigurationError\<close> on they are those of the orchestrator
  (\<^verbatim>\<open>orchestrator/src/ops_orchestrator/errors.py\<close>; \<open>ProviderBudgetExceeded provider period limit\<close> is
  its \<^verbatim>\<open>BudgetExceeded\<close>) and the built-in ones its code meets; \<open>MemoryFault code message\<close>
  is an exception of the memory service (\<^verbatim>\<open>memory/src/ops_memory/errors.py\<close>), its class named by its code; \<open>OtherError name\<close> is any further
  exception a provider adapter raises, by its class name.
\<close>

datatype py_exc =
    BrokerError string string nat "(string \<times> string list) list"
  | AuthorizationDenied string
  | NotFound string
  | Conflict string
  | ApprovalRequired string
  | BudgetExceeded string
  | PolicyValidationError string
  | RunbookValidationError string
  | RuntimeError string
  | AssertionError
  | TypeError
  | KeyError
  | ValueError
  | JSONDecodeError
  | ConfigurationError string
  | ValidationError string
  | ProviderUnavailable string
  | ProviderProtocolError string
  | ProviderBudgetExceeded string string string
  | OverflowError
  | DecimalInvalidOperation
  | IntegrityError
  | MemoryFault string string
  | OtherError string

type_synonym 'a res = "py_exc + 'a"

definition is_broker_error :: "py_exc \<Rightarrow> bool" where
  "is_broker_error e \<longleftrightarrow>
     (case e of BrokerError _ _ _ _ \<Rightarrow> True | AuthorizationDenied _ \<Rightarrow> True | NotFound _ \<Rightarrow> True
      | Conflict _ \<Rightarrow> True | ApprovalRequired _ \<Rightarrow> True | BudgetExceeded _ \<Rightarrow> True | _ \<Rightarrow> False)"

definition exc_code :: "py_exc \<Rightarrow> string" where
  "exc_code e =
     (case e of BrokerError c _ _ _ \<Rightarrow> c
      | AuthorizationDenied _ \<Rightarrow> ''authorization_denied''
      | NotFound _ \<Rightarrow> ''not_found''
      | Conflict _ \<Rightarrow> ''conflict''
      | ApprovalRequired _ \<Rightarrow> ''approval_required''
      | BudgetExceeded _ \<Rightarrow> ''budget_exhausted''
      | _ \<Rightarrow> [])"

definition exc_status_code :: "py_exc \<Rightarrow> nat option" where
  "exc_status_code e =
     (case e of BrokerError _ _ s _ \<Rightarrow> Some s
      | AuthorizationDenied _ \<Rightarrow> Some 403
      | NotFound _ \<Rightarrow> Some 404
      | Conflict _ \<Rightarrow> Some 409
      | ApprovalRequired _ \<Rightarrow> Some 409
      | BudgetExceeded _ \<Rightarrow> Some 429
      | _ \<Rightarrow> None)"

abbreviation invalid_request :: "string \<Rightarrow> py_exc" where
  "invalid_request msg \<equiv> BrokerError ''invalid_request'' msg 422 []"

abbreviation is_ok :: "'a res \<Rightarrow> bool" where
  "is_ok r \<equiv> \<exists>x. r = Inr x"

lemma is_ok_iff_not_Inl: "is_ok r \<longleftrightarrow> (\<forall>e. r \<noteq> Inl e)"
  by (cases r) auto

text \<open>Sequencing: a raise in the first call ends the block; \<open>raise_if\<close> is \<^verbatim>\<open>if c: raise e\<close>.\<close>

definition res_bind :: "'a res \<Rightarrow> ('a \<Rightarrow> 'b res) \<Rightarrow> 'b res" where
  "res_bind m f = (case m of Inl e \<Rightarrow> Inl e | Inr x \<Rightarrow> f x)"

definition raise_if :: "bool \<Rightarrow> py_exc \<Rightarrow> unit res" where
  "raise_if c e = (if c then Inl e else Inr ())"

lemma res_bind_simps [simp, result_simps]:
  "res_bind (Inl e) f = Inl e" "res_bind (Inr x) f = f x"
  by (simp_all add: res_bind_def)

lemma res_bind_Inr_iff [simp]: "res_bind m f = Inr y \<longleftrightarrow> (\<exists>x. m = Inr x \<and> f x = Inr y)"
  by (cases m) auto

lemma res_bind_Inl_iff:
  "res_bind m f = Inl e \<longleftrightarrow> m = Inl e \<or> (\<exists>x. m = Inr x \<and> f x = Inl e)"
  by (cases m) auto

lemma raise_if_Inr_iff [simp]: "raise_if c e = Inr u \<longleftrightarrow> \<not> c"
  by (simp add: raise_if_def)

lemma raise_if_Inl_iff [simp]: "raise_if c e = Inl e' \<longleftrightarrow> c \<and> e' = e"
  by (auto simp: raise_if_def)

lemma raise_if_simps [simp, result_simps]:
  "raise_if True e = Inl e" "raise_if False e = Inr ()"
  by (simp_all add: raise_if_def)

text \<open>Evaluating a Python comprehension whose body may raise: the first raise wins.\<close>

fun res_map :: "('a \<Rightarrow> 'b res) \<Rightarrow> 'a list \<Rightarrow> 'b list res" where
  "res_map f [] = Inr []"
| "res_map f (x # xs) =
     (case f x of Inl e \<Rightarrow> Inl e
      | Inr y \<Rightarrow> (case res_map f xs of Inl e \<Rightarrow> Inl e | Inr ys \<Rightarrow> Inr (y # ys)))"

lemma res_map_Inr_iff:
  "res_map f xs = Inr ys \<longleftrightarrow> list_all2 (\<lambda>x y. f x = Inr y) xs ys"
proof (induction xs arbitrary: ys)
  case Nil
  then show ?case by auto
next
  case (Cons x xs)
  then show ?case
    by (cases ys; cases "f x"; cases "res_map f xs") auto
qed

lemma res_map_Inl:
  "res_map f xs = Inl e \<Longrightarrow> \<exists>x\<in>set xs. f x = Inl e"
  by (induction xs) (auto split: sum.splits)

text \<open>A Python \<open>for\<close> loop of checks: the first element whose check raises ends it.\<close>

fun res_all :: "('a \<Rightarrow> unit res) \<Rightarrow> 'a list \<Rightarrow> unit res" where
  "res_all f [] = Inr ()"
| "res_all f (x # xs) = (case f x of Inl e \<Rightarrow> Inl e | Inr _ \<Rightarrow> res_all f xs)"

lemma res_all_Inr_iff: "res_all f xs = Inr u \<longleftrightarrow> (\<forall>x\<in>set xs. f x = Inr ())"
  by (induction xs) (auto split: sum.splits)

section \<open>Tables\<close>

definition select_one :: "('r \<Rightarrow> bool) \<Rightarrow> 'r list \<Rightarrow> 'r option" where
  "select_one P t = find P t"

definition update_where :: "('r \<Rightarrow> bool) \<Rightarrow> ('r \<Rightarrow> 'r) \<Rightarrow> 'r list \<Rightarrow> 'r list" where
  "update_where P f t = map (\<lambda>r. if P r then f r else r) t"

definition delete_where :: "('r \<Rightarrow> bool) \<Rightarrow> 'r list \<Rightarrow> 'r list" where
  "delete_where P t = filter (\<lambda>r. \<not> P r) t"

definition rowcount :: "('r \<Rightarrow> bool) \<Rightarrow> 'r list \<Rightarrow> nat" where
  "rowcount P t = length (filter P t)"

lemma select_one_Some: "select_one P t = Some r \<Longrightarrow> r \<in> set t \<and> P r"
  by (auto simp: select_one_def find_Some_iff)

lemma select_one_None [table_simps]: "select_one P t = None \<longleftrightarrow> (\<forall>r\<in>set t. \<not> P r)"
  by (auto simp: select_one_def find_None_iff)

lemma select_one_append [table_simps]:
  "select_one P (t @ u) = (case select_one P t of None \<Rightarrow> select_one P u | Some r \<Rightarrow> Some r)"
  by (induction t) (auto simp: select_one_def)

lemma select_one_Nil [simp, table_simps]: "select_one P [] = None"
  by (simp add: select_one_def)

lemma select_one_Cons [simp, table_simps]:
  "select_one P (r # t) = (if P r then Some r else select_one P t)"
  by (simp add: select_one_def)

lemma set_update_where [table_simps]:
  "set (update_where P f t) = {r \<in> set t. \<not> P r} \<union> f ` {r \<in> set t. P r}"
  by (auto simp: update_where_def)

lemma length_update_where [simp, table_simps]: "length (update_where P f t) = length t"
  by (simp add: update_where_def)

lemma update_where_Nil [simp, table_simps]: "update_where P f [] = []"
  by (simp add: update_where_def)

lemma update_where_Cons [simp, table_simps]:
  "update_where P f (r # t) = (if P r then f r else r) # update_where P f t"
  by (simp add: update_where_def)

lemma update_where_append [simp, table_simps]:
  "update_where P f (t @ u) = update_where P f t @ update_where P f u"
  by (simp add: update_where_def)

lemma update_where_idem: "(\<And>r. r \<in> set t \<Longrightarrow> \<not> P r) \<Longrightarrow> update_where P f t = t"
  by (induction t) auto

lemma map_update_where [table_simps]:
  "(\<And>r. g (f r) = g r) \<Longrightarrow> map g (update_where P f t) = map g t"
  by (induction t) auto

lemma set_delete_where [simp, table_simps]: "set (delete_where P t) = {r \<in> set t. \<not> P r}"
  by (simp add: delete_where_def)

text \<open>
  A table with a key column (\<open>PRIMARY KEY\<close> or \<open>UNIQUE\<close>): the interface through which the
  components look rows up by key and update them. The client's only obligation is that its
  update leaves the key alone.
\<close>

locale keyed_table =
  fixes key :: "'r \<Rightarrow> 'k"
begin

definition unique :: "'r list \<Rightarrow> bool" where
  "unique t \<longleftrightarrow> distinct (map key t)"

lemma unique_lookup:
  "unique t \<Longrightarrow> r \<in> set t \<Longrightarrow> select_one (\<lambda>x. key x = key r) t = Some r"
  by (induction t) (auto simp: unique_def image_iff)

lemma unique_mem_eq:
  "unique t \<Longrightarrow> r \<in> set t \<Longrightarrow> r' \<in> set t \<Longrightarrow> key r = key r' \<Longrightarrow> r = r'"
  by (auto simp: unique_def distinct_map dest: inj_onD)

lemma unique_append: "unique (t @ [r]) \<longleftrightarrow> unique t \<and> key r \<notin> key ` set t"
  by (auto simp: unique_def)

lemma unique_update: "(\<And>r. key (f r) = key r) \<Longrightarrow> unique (update_where P f t) = unique t"
  by (simp add: unique_def map_update_where)

lemma unique_delete: "unique t \<Longrightarrow> unique (delete_where P t)"
  by (simp add: unique_def delete_where_def distinct_map_filter)

lemma lookup_update:
  assumes "\<And>r. key (f r) = key r"
  shows "select_one (\<lambda>x. key x = k) (update_where (\<lambda>x. key x = k) f t) =
         map_option f (select_one (\<lambda>x. key x = k) t)"
  by (induction t) (auto simp: assms)

lemma lookup_update_other:
  assumes "\<And>r. key (f r) = key r" and "\<And>r. P r \<Longrightarrow> key r \<noteq> k"
  shows "select_one (\<lambda>x. key x = k) (update_where P f t) = select_one (\<lambda>x. key x = k) t"
  by (induction t) (auto simp: assms)

lemma rowcount_unique:
  "unique t \<Longrightarrow> rowcount (\<lambda>x. key x = k \<and> P x) t \<le> 1"
proof (induction t)
  case (Cons r t)
  have "filter (\<lambda>x. key x = key r \<and> P x) t = []" if "unique (r # t)"
    using that by (auto simp: unique_def filter_empty_conv image_iff)
  with Cons show ?case by (auto simp: rowcount_def unique_def)
qed (simp add: rowcount_def)

end

section \<open>Lists\<close>

lemma list_all2_map_eq: "list_all2 (\<lambda>x y. f x = g y) xs ys \<longleftrightarrow> map f xs = map g ys"
proof (induction xs arbitrary: ys)
  case (Cons x xs)
  then show ?case by (cases ys) auto
qed auto

lemma list_all2_set2: "list_all2 P xs ys \<Longrightarrow> y \<in> set ys \<Longrightarrow> \<exists>x\<in>set xs. P x y"
  by (metis list_all2_conv_all_nth in_set_conv_nth)

lemma list_all2_set1: "list_all2 P xs ys \<Longrightarrow> x \<in> set xs \<Longrightarrow> \<exists>y\<in>set ys. P x y"
  by (metis list_all2_conv_all_nth in_set_conv_nth)

lemma hd_conv_sort_key_le:
  assumes "sort_key f xs = y # ys" and "x \<in> set xs"
  shows "f y \<le> f x"
proof -
  have "sorted (map f (y # ys))"
    using sorted_sort_key [of f xs] assms(1) by simp
  moreover have "x \<in> set (y # ys)"
    using assms set_sort [of f xs] by simp
  ultimately show ?thesis by auto
qed

lemma takeWhile_append_stop:
  assumes "ys = [] \<or> \<not> P (hd ys)"
  shows "takeWhile P (xs @ ys) = takeWhile P xs" "dropWhile P (xs @ ys) = dropWhile P xs @ ys"
  using assms by (induction xs) (auto, (cases ys; auto)+)

section \<open>Lists that grow at the end\<close>

text \<open>The rows of \<open>xs\<close> are still there, each changed at most as \<open>P\<close> allows.\<close>

definition grows :: "('r \<Rightarrow> 'r \<Rightarrow> bool) \<Rightarrow> 'r list \<Rightarrow> 'r list \<Rightarrow> bool" where
  "grows P xs ys \<longleftrightarrow> length xs \<le> length ys \<and> list_all2 P xs (take (length xs) ys)"

lemma grows_refl: "(\<And>x. P x x) \<Longrightarrow> grows P xs xs"
  by (simp add: grows_def list.rel_refl)

lemma grows_snoc: "(\<And>x. P x x) \<Longrightarrow> grows P xs (xs @ zs)"
  by (simp add: grows_def list.rel_refl)

lemma grows_update: "(\<And>x. P x x) \<Longrightarrow> (\<And>x. Q x \<Longrightarrow> P x (f x)) \<Longrightarrow> grows P xs (update_where Q f xs)"
  by (simp add: grows_def update_where_def list_all2_conv_all_nth)

lemma grows_trans:
  assumes "\<And>x y z. P x y \<Longrightarrow> P y z \<Longrightarrow> P x z" "grows P xs ys" "grows P ys zs"
  shows "grows P xs zs"
  using assms unfolding grows_def list_all2_conv_all_nth by fastforce

end
