(* ===== verification/Py_Text.thy ===== *)
theory Py_Text
  imports Prelude
begin

text \<open>
  The Python string operations the broker uses. A Python \<^verbatim>\<open>str\<close> is a \<open>string\<close>, one \<open>char\<close> per code
  point; the model's alphabet is the code points 0 to 255, and character classification
  (\<^verbatim>\<open>str.isspace\<close>, the \<^verbatim>\<open>re\<close> classes) is that of Unicode on this alphabet.
  Also here: decimal rendering and reading of integers, UTF-8 encoding with truncation, and
  \<^verbatim>\<open>str(uuid.UUID(x))\<close>, the canonicalisation every request id goes through.
\<close>

section \<open>Characters\<close>

definition in_ranges :: "(nat \<times> nat) list \<Rightarrow> char \<Rightarrow> bool" where
  "in_ranges rs c \<longleftrightarrow> list_ex (\<lambda>(lo, hi). lo \<le> of_char c \<and> of_char c \<le> hi) rs"

definition is_space :: "char \<Rightarrow> bool" where
  "is_space c \<longleftrightarrow> in_ranges [(9, 13), (28, 32), (133, 133), (160, 160)] c"

definition is_word :: "char \<Rightarrow> bool" where
  "is_word c \<longleftrightarrow>
     in_ranges [(48, 57), (65, 90), (95, 95), (97, 122), (170, 170), (178, 179), (181, 181),
       (185, 186), (188, 190), (192, 214), (216, 246), (248, 255)] c"

definition is_digit :: "char \<Rightarrow> bool" where
  "is_digit c \<longleftrightarrow> in_ranges [(48, 57)] c"

definition to_lower :: "char \<Rightarrow> char" where
  "to_lower c = (if in_ranges [(65, 90)] c then char_of (of_char c + 32 :: nat) else c)"

text \<open>The characters \<^verbatim>\<open>\x00\<close>, \<^verbatim>\<open>\n\<close> and \<^verbatim>\<open>\r\<close>, which have no literal syntax.\<close>

abbreviation chr_nul :: char where "chr_nul \<equiv> CHR 0x00"
abbreviation chr_nl :: char where "chr_nl \<equiv> CHR 0x0A"
abbreviation chr_cr :: char where "chr_cr \<equiv> CHR 0x0D"

section \<open>Strings\<close>

text \<open>\<^verbatim>\<open>str.strip()\<close>.\<close>

definition py_strip :: "string \<Rightarrow> string" where
  "py_strip s = rev (dropWhile is_space (rev (dropWhile is_space s)))"

lemma py_strip_idem [simp]: "py_strip (py_strip s) = py_strip s"
proof -
  have kept: "dropWhile P (rev (dropWhile P (rev (dropWhile P s)))) = rev (dropWhile P (rev (dropWhile P s)))" for P :: "char \<Rightarrow> bool"
  proof (cases "rev (dropWhile P (rev (dropWhile P s)))")
    case (Cons x xs)
    let ?t = "dropWhile P s"
    obtain zs where "?t = rev (dropWhile P (rev ?t)) @ zs" by (metis rev_append rev_rev_ident takeWhile_dropWhile_id)
    then have "hd ?t = x" "?t \<noteq> []" using Cons by (metis append_Cons list.sel(1), auto)
    then have "\<not> P x" by (metis hd_dropWhile)
    then show ?thesis using Cons by simp
  next
    case Nil
    then show ?thesis by (simp only: dropWhile.simps)
  qed
  show ?thesis unfolding py_strip_def kept by simp
qed


fun starts_with :: "string \<Rightarrow> string \<Rightarrow> bool" where
  "starts_with [] s = True"
| "starts_with (p # ps) [] = False"
| "starts_with (p # ps) (c # s) = (p = c \<and> starts_with ps s)"

lemma starts_with_append [simp]: "starts_with p (p @ s)"
  by (induction p) auto

lemma starts_with_iff: "starts_with p s \<longleftrightarrow> (\<exists>t. s = p @ t)"
  by (induction p s rule: starts_with.induct) auto

fun join :: "string \<Rightarrow> string list \<Rightarrow> string" where
  "join sep [] = []"
| "join sep [x] = x"
| "join sep (x # y # xs) = x @ sep @ join sep (y # xs)"

lemma join_Cons: "xs \<noteq> [] \<Longrightarrow> join sep (x # xs) = x @ sep @ join sep xs"
  by (cases xs) auto

text \<open>\<^verbatim>\<open>s.split()\<close>: the maximal runs of non-space characters.\<close>

fun split_acc :: "string \<Rightarrow> string \<Rightarrow> string list" where
  "split_acc acc [] = (if acc = [] then [] else [rev acc])"
| "split_acc acc (c # s) =
     (if is_space c then (if acc = [] then split_acc [] s else rev acc # split_acc [] s)
      else split_acc (c # acc) s)"

definition py_split :: "string \<Rightarrow> string list" where
  "py_split s = split_acc [] s"

lemma split_acc_words:
  assumes "w \<in> set (split_acc acc s)" and "\<forall>c\<in>set acc. \<not> is_space c"
  shows "w \<noteq> [] \<and> (\<forall>c\<in>set w. \<not> is_space c)"
  using assms
proof (induction s arbitrary: acc)
  case Nil
  then show ?case by (simp split: if_splits)
next
  case (Cons c s)
  show ?case
  proof (cases "is_space c")
    case True
    show ?thesis
    proof (cases "w \<in> set (split_acc [] s)")
      case True
      with Cons.IH [of "[]"] show ?thesis by simp
    next
      case False
      with Cons.prems(1) \<open>is_space c\<close> have "acc \<noteq> []" "w = rev acc" by (simp_all split: if_splits)
      with Cons.prems(2) show ?thesis by simp
    qed
  next
    case False
    have "w \<in> set (split_acc (c # acc) s)"
      using Cons.prems(1) False by (simp only: split_acc.simps if_False)
    moreover have "\<forall>x\<in>set (c # acc). \<not> is_space x"
      using Cons.prems(2) False by (simp only: list.set ball_simps) blast
    ultimately show ?thesis by (rule Cons.IH)
  qed
qed

text \<open>\<^verbatim>\<open>s.replace(old, [])\<close> for a non-empty \<open>old\<close>: occurrences removed from left to right.\<close>

fun remove_sub :: "string \<Rightarrow> string \<Rightarrow> string" where
  "remove_sub old [] = []"
| "remove_sub old (c # s) =
     (if old \<noteq> [] \<and> starts_with old (c # s) then remove_sub old (drop (length old - 1) s)
      else c # remove_sub old s)"

section \<open>Integers in decimal\<close>

definition digit_char :: "nat \<Rightarrow> char" where
  "digit_char d = char_of (48 + d)"

definition digit_val :: "char \<Rightarrow> nat" where
  "digit_val c = of_char c - 48"

fun nat_str :: "nat \<Rightarrow> string" where
  "nat_str n = (if n < 10 then [digit_char n] else nat_str (n div 10) @ [digit_char (n mod 10)])"

declare nat_str.simps [simp del]

definition int_str :: "int \<Rightarrow> string" where
  "int_str i = (if i < 0 then CHR ''-'' # nat_str (nat (- i)) else nat_str (nat i))"

definition digits_val :: "string \<Rightarrow> nat" where
  "digits_val ds = foldl (\<lambda>n c. 10 * n + digit_val c) 0 ds"

lemma of_char_digit [simp]: "d < 10 \<Longrightarrow> of_char (digit_char d) = (48 + d :: nat)"
  by (simp add: digit_char_def)

lemma digit_val_char [simp]: "d < 10 \<Longrightarrow> digit_val (digit_char d) = d"
  by (simp add: digit_val_def)

lemma is_digit_char [simp]: "d < 10 \<Longrightarrow> is_digit (digit_char d)"
  by (simp add: is_digit_def in_ranges_def)

lemma digit_char_inj: "d < 10 \<Longrightarrow> e < 10 \<Longrightarrow> digit_char d = digit_char e \<Longrightarrow> d = e"
  by (metis digit_val_char)

lemma nat_str_nonempty [simp]: "nat_str n \<noteq> []"
  by (subst nat_str.simps) simp

lemma nat_str_digits: "c \<in> set (nat_str n) \<Longrightarrow> is_digit c"
proof (induction n rule: nat_str.induct)
  case (1 n)
  then show ?case
    by (cases "n < 10") (auto simp: nat_str.simps [of n])
qed

lemma digits_val_append [simp]: "digits_val (ds @ [c]) = 10 * digits_val ds + digit_val c"
  by (simp add: digits_val_def)

lemma digits_val_nat_str [simp]: "digits_val (nat_str n) = n"
proof (induction n rule: nat_str.induct)
  case (1 n)
  then show ?case
    by (cases "n < 10") (auto simp: nat_str.simps [of n] digits_val_def)
qed

lemma nat_str_inj: "nat_str m = nat_str n \<Longrightarrow> m = n"
  by (metis digits_val_nat_str)

text \<open>A rendered number has no leading zero, except zero itself.\<close>

lemma nat_str_leading:
  "nat_str n = c # cs \<Longrightarrow> c = CHR ''0'' \<Longrightarrow> cs = []"
proof (induction n arbitrary: cs rule: nat_str.induct)
  case (1 n)
  show ?case
  proof (cases "n < 10")
    case True
    with 1 show ?thesis by (simp add: nat_str.simps [of n])
  next
    case False
    then obtain d ds where d: "nat_str (n div 10) = d # ds"
      by (metis nat_str_nonempty neq_Nil_conv)
    with 1 False have "d = CHR ''0''" by (simp add: nat_str.simps [of n])
    with 1 False d have "ds = []" by blast
    with d \<open>d = CHR ''0''\<close> have "digits_val (nat_str (n div 10)) = 0"
      by (simp add: digits_val_def digit_val_def)
    with False show ?thesis by simp
  qed
qed

lemma is_digit_not_minus: "\<not> is_digit (CHR ''-'')"
  by (simp add: is_digit_def in_ranges_def)

lemma int_str_inj: "int_str i = int_str j \<Longrightarrow> i = j"
proof -
  have minus: "nat_str n \<noteq> CHR ''-'' # s" for n s
    using nat_str_digits [of "CHR ''-''" n] is_digit_not_minus by auto
  assume "int_str i = int_str j"
  then show "i = j"
    by (auto simp: int_str_def minus minus [symmetric] dest!: nat_str_inj split: if_splits)
qed

section \<open>UTF-8\<close>

text \<open>
  \<^verbatim>\<open>s.encode("utf-8")\<close> on the model's alphabet: one byte below 128, two bytes above.
  \<^verbatim>\<open>b[:n].decode("utf-8", errors="ignore")\<close> of an encoded text drops a trailing lead byte whose
  continuation byte was cut off.
\<close>

definition utf8_char :: "char \<Rightarrow> nat list" where
  "utf8_char c =
     (let n = of_char c :: nat in if n < 128 then [n] else [192 + n div 64, 128 + n mod 64])"

definition utf8_encode :: "string \<Rightarrow> nat list" where
  "utf8_encode s = concat (map utf8_char s)"

fun utf8_decode_ignore :: "nat list \<Rightarrow> string" where
  "utf8_decode_ignore [] = []"
| "utf8_decode_ignore [b] = (if b < 128 then [char_of b] else [])"
| "utf8_decode_ignore (b # b' # bs) =
     (if b < 128 then char_of b # utf8_decode_ignore (b' # bs)
      else if 194 \<le> b \<and> b \<le> 195 \<and> 128 \<le> b' \<and> b' < 192
      then char_of ((b - 192) * 64 + (b' - 128)) # utf8_decode_ignore bs
      else utf8_decode_ignore (b' # bs))"

definition truncate_bytes :: "nat \<Rightarrow> string \<Rightarrow> string" where
  "truncate_bytes n s = utf8_decode_ignore (take n (utf8_encode s))"

lemma utf8_encode_simps [simp]:
  "utf8_encode [] = []" "utf8_encode (c # s) = utf8_char c @ utf8_encode s"
  by (simp_all add: utf8_encode_def)

lemma utf8_encode_append [simp]: "utf8_encode (s @ t) = utf8_encode s @ utf8_encode t"
  by (simp add: utf8_encode_def)

lemma utf8_char_length: "length (utf8_char c) = (if of_char c < (128 :: nat) then 1 else 2)"
  by (simp add: utf8_char_def Let_def)

lemma utf8_lead_byte:
  assumes "\<not> of_char c < (128 :: nat)"
  shows "2 \<le> of_char c div (64 :: nat)" "of_char c div (64 :: nat) \<le> 3"
  using assms nat_of_char_less_256 [of c] by linarith+

lemma decode_encode_char:
  "utf8_decode_ignore (utf8_char c @ bs) = c # utf8_decode_ignore bs"
proof (cases "of_char c < (128 :: nat)")
  case True
  then show ?thesis by (cases bs) (simp_all add: utf8_char_def)
next
  case False
  have "char_of (of_char c div 64 * 64 + of_char c mod (64 :: nat)) = c"
    by simp
  with False utf8_lead_byte [OF False] show ?thesis
    by (simp add: utf8_char_def Let_def)
qed

lemma utf8_roundtrip: "utf8_decode_ignore (utf8_encode s) = s"
  by (induction s) (simp_all add: decode_encode_char)

lemma utf8_encode_inj: "utf8_encode s = utf8_encode t \<Longrightarrow> s = t"
  by (metis utf8_roundtrip)

text \<open>Truncation yields the longest prefix of the text whose encoding fits.\<close>

lemma truncate_bytes_prefix:
  "\<exists>k. truncate_bytes n s = take k s \<and> length (utf8_encode (take k s)) \<le> n \<and>
       (k < length s \<longrightarrow> n < length (utf8_encode (take (Suc k) s)))"
proof (induction s arbitrary: n)
  case Nil
  then show ?case by (auto simp: truncate_bytes_def)
next
  case (Cons c s)
  show ?case
  proof (cases "length (utf8_char c) \<le> n")
    case True
    from Cons.IH [of "n - length (utf8_char c)"] obtain k where
      k: "truncate_bytes (n - length (utf8_char c)) s = take k s"
         "length (utf8_encode (take k s)) \<le> n - length (utf8_char c)"
         "k < length s \<longrightarrow> n - length (utf8_char c) < length (utf8_encode (take (Suc k) s))"
      by blast
    have "truncate_bytes n (c # s) = take (Suc k) (c # s)"
      using True k(1) by (simp add: truncate_bytes_def decode_encode_char)
    with True k(2,3) show ?thesis
      by (intro exI [of _ "Suc k"]) auto
  next
    case False
    then have "n = 0 \<or> n = 1 \<and> \<not> of_char c < (128 :: nat)"
      by (auto simp: utf8_char_length split: if_splits)
    then have "truncate_bytes n (c # s) = []"
      by (auto simp: truncate_bytes_def utf8_char_def Let_def)
    with False show ?thesis
      by (intro exI [of _ 0]) auto
  qed
qed

lemma truncate_bytes_bound: "length (utf8_encode (truncate_bytes n s)) \<le> n"
  using truncate_bytes_prefix [of n s] by force

lemma truncate_bytes_id: "length (utf8_encode s) \<le> n \<Longrightarrow> truncate_bytes n s = s"
  by (simp add: truncate_bytes_def utf8_roundtrip)

end
