(* ===== verification/Py_Regex.thy ===== *)
theory Py_Regex
  imports Py_Text
begin

text \<open>
  The part of Python's \<^verbatim>\<open>re\<close> module that the broker uses: character classes, concatenation,
  ordered alternation, greedy bounded and unbounded repetition, lazy repetition, word boundaries
  and numbered groups, under an optional \<^verbatim>\<open>IGNORECASE\<close> flag. The matcher returns every match in the
  order in which the backtracking engine tries them, so that the head of the list is the match
  Python reports; \<^verbatim>\<open>fullmatch\<close>, \<^verbatim>\<open>search\<close> and \<^verbatim>\<open>sub\<close> are built on it. The second half relates \<^verbatim>\<open>fullmatch\<close>
  to the language of the expression.
\<close>

section \<open>Expressions and the backtracking matcher\<close>

datatype rx =
    RCls bool "(nat \<times> nat) list"  \<comment> \<open>negated?, code point ranges\<close>
  | REps
  | RSeq rx rx
  | RAlt rx rx
  | RRep nat "nat option" rx      \<comment> \<open>greedy; \<open>None\<close> is no upper bound\<close>
  | RLazy rx                      \<comment> \<open>\<^verbatim>\<open>*?\<close>\<close>
  | RBound                        \<comment> \<open>\<^verbatim>\<open>\b\<close>\<close>
  | RGroup nat rx

abbreviation rx_chr :: "char \<Rightarrow> rx" where
  "rx_chr c \<equiv> RCls False [(of_char c, of_char c)]"

definition rx_lit :: "string \<Rightarrow> rx" where
  "rx_lit s = foldr (\<lambda>c r. RSeq (rx_chr c) r) s REps"

definition rx_alts :: "rx list \<Rightarrow> rx" where
  "rx_alts rs = foldr RAlt (butlast rs) (last rs)"

text \<open>
  A matcher state is the captured groups (latest first), the character before the current
  position, and the rest of the subject.
\<close>

type_synonym mstate = "(nat \<times> string) list \<times> char option \<times> string"

definition to_upper :: "char \<Rightarrow> char" where
  "to_upper c = (if in_ranges [(97, 122)] c then char_of (of_char c - 32 :: nat) else c)"

definition cls_ok :: "bool \<Rightarrow> bool \<Rightarrow> (nat \<times> nat) list \<Rightarrow> char \<Rightarrow> bool" where
  "cls_ok ic neg rs c \<longleftrightarrow>
     neg \<noteq> (in_ranges rs c \<or> ic \<and> (in_ranges rs (to_lower c) \<or> in_ranges rs (to_upper c)))"

fun rx_rep :: "(mstate \<Rightarrow> mstate list) \<Rightarrow> nat \<Rightarrow> nat \<Rightarrow> mstate \<Rightarrow> mstate list" where
  "rx_rep f lo 0 st = (if lo = 0 then [st] else [])"
| "rx_rep f lo (Suc hi) st =
     concat (map (rx_rep f (lo - 1) hi) (f st)) @ (if lo = 0 then [st] else [])"

fun rx_lazy :: "(mstate \<Rightarrow> mstate list) \<Rightarrow> nat \<Rightarrow> mstate \<Rightarrow> mstate list" where
  "rx_lazy f 0 st = [st]"
| "rx_lazy f (Suc hi) st = st # concat (map (rx_lazy f hi) (f st))"

definition opt_word :: "char option \<Rightarrow> bool" where
  "opt_word c \<longleftrightarrow> (case c of None \<Rightarrow> False | Some x \<Rightarrow> is_word x)"

primrec rx_match :: "bool \<Rightarrow> rx \<Rightarrow> mstate \<Rightarrow> mstate list" where
  "rx_match ic (RCls neg rs) st =
     (case st of (caps, prev, rest) \<Rightarrow>
        (case rest of [] \<Rightarrow> [] | c # s \<Rightarrow> if cls_ok ic neg rs c then [(caps, Some c, s)] else []))"
| "rx_match ic REps st = [st]"
| "rx_match ic (RSeq a b) st = concat (map (rx_match ic b) (rx_match ic a st))"
| "rx_match ic (RAlt a b) st = rx_match ic a st @ rx_match ic b st"
| "rx_match ic (RRep lo hi r) st =
     rx_rep (rx_match ic r) lo (case hi of Some n \<Rightarrow> n | None \<Rightarrow> length (snd (snd st))) st"
| "rx_match ic (RLazy r) st = rx_lazy (rx_match ic r) (length (snd (snd st))) st"
| "rx_match ic RBound st =
     (case st of (caps, prev, rest) \<Rightarrow>
        if opt_word prev \<noteq> opt_word (case rest of [] \<Rightarrow> None | c # s \<Rightarrow> Some c) then [st] else [])"
| "rx_match ic (RGroup n r) st =
     map (\<lambda>(caps, prev, rest).
            ((n, take (length (snd (snd st)) - length rest) (snd (snd st))) # caps, prev, rest))
         (rx_match ic r st)"

section \<open>\<^verbatim>\<open>fullmatch\<close>, \<^verbatim>\<open>search\<close>, \<^verbatim>\<open>sub\<close>\<close>

definition rx_full :: "bool \<Rightarrow> rx \<Rightarrow> string \<Rightarrow> mstate option" where
  "rx_full ic r s = find (\<lambda>(caps, prev, rest). rest = []) (rx_match ic r ([], None, s))"

definition rx_fullmatch :: "rx \<Rightarrow> string \<Rightarrow> bool" where
  "rx_fullmatch r s \<longleftrightarrow> rx_full False r s \<noteq> None"

text \<open>\<^verbatim>\<open>match.group(n)\<close> after a full match.\<close>

definition rx_full_group :: "rx \<Rightarrow> nat \<Rightarrow> string \<Rightarrow> string option" where
  "rx_full_group r n s =
     (case rx_full False r s of None \<Rightarrow> None | Some (caps, _, _) \<Rightarrow> map_of caps n)"

fun rx_search_from :: "bool \<Rightarrow> rx \<Rightarrow> char option \<Rightarrow> string \<Rightarrow> bool" where
  "rx_search_from ic r prev [] = (rx_match ic r ([], prev, []) \<noteq> [])"
| "rx_search_from ic r prev (c # s) =
     (rx_match ic r ([], prev, c # s) \<noteq> [] \<or> rx_search_from ic r (Some c) s)"

definition rx_search :: "bool \<Rightarrow> rx \<Rightarrow> string \<Rightarrow> bool" where
  "rx_search ic r s = rx_search_from ic r None s"

text \<open>
  Substitution scans from left to right; the replacement may use the groups of its match. The
  patterns it is used with never match the empty string, so an empty match copies a character.
\<close>

function rx_sub_from ::
  "bool \<Rightarrow> rx \<Rightarrow> ((nat \<rightharpoonup> string) \<Rightarrow> string) \<Rightarrow> char option \<Rightarrow> string \<Rightarrow> string" where
  "rx_sub_from ic r f prev [] = []"
| "rx_sub_from ic r f prev (c # s) =
     (case rx_match ic r ([], prev, c # s) of
        [] \<Rightarrow> c # rx_sub_from ic r f (Some c) s
      | (caps, prev', rest) # _ \<Rightarrow>
          if length rest \<le> length s then f (map_of caps) @ rx_sub_from ic r f prev' rest
          else c # rx_sub_from ic r f (Some c) s)"
  by pat_completeness auto
termination
  by (relation "measure (\<lambda>(ic, r, f, prev, s). length s)") auto

definition rx_sub :: "bool \<Rightarrow> rx \<Rightarrow> ((nat \<rightharpoonup> string) \<Rightarrow> string) \<Rightarrow> string \<Rightarrow> string" where
  "rx_sub ic r f s = rx_sub_from ic r f None s"

section \<open>The language of an expression\<close>

fun lang_pow :: "string set \<Rightarrow> nat \<Rightarrow> string set" where
  "lang_pow A 0 = {[]}"
| "lang_pow A (Suc k) = {u @ v | u v. u \<in> A \<and> v \<in> lang_pow A k}"

primrec rx_lang :: "bool \<Rightarrow> rx \<Rightarrow> string set" where
  "rx_lang ic (RCls neg rs) = {[c] | c. cls_ok ic neg rs c}"
| "rx_lang ic REps = {[]}"
| "rx_lang ic (RSeq a b) = {u @ v | u v. u \<in> rx_lang ic a \<and> v \<in> rx_lang ic b}"
| "rx_lang ic (RAlt a b) = rx_lang ic a \<union> rx_lang ic b"
| "rx_lang ic (RRep lo hi r) =
     (\<Union>k \<in> (case hi of Some n \<Rightarrow> {lo..n} | None \<Rightarrow> {lo..}). lang_pow (rx_lang ic r) k)"
| "rx_lang ic (RLazy r) = (\<Union>k. lang_pow (rx_lang ic r) k)"
| "rx_lang ic RBound = {[]}"
| "rx_lang ic (RGroup n r) = rx_lang ic r"

text \<open>
  The expressions for which the language describes the matcher: no word boundary, and only
  single-character bodies under unbounded repetition.
\<close>

primrec rx_plain :: "rx \<Rightarrow> bool" where
  "rx_plain (RCls neg rs) = True"
| "rx_plain REps = True"
| "rx_plain (RSeq a b) = (rx_plain a \<and> rx_plain b)"
| "rx_plain (RAlt a b) = (rx_plain a \<and> rx_plain b)"
| "rx_plain (RRep lo hi r) = (rx_plain r \<and> (hi = None \<longrightarrow> (\<exists>neg rs. r = RCls neg rs)))"
| "rx_plain (RLazy r) = (\<exists>neg rs. r = RCls neg rs)"
| "rx_plain RBound = False"
| "rx_plain (RGroup n r) = rx_plain r"

text \<open>The rests that a matcher leaves, as a set, for a body that consumes words of \<open>A\<close>.\<close>

definition rests :: "mstate list \<Rightarrow> string set" where
  "rests sts = {rest. \<exists>caps prev. (caps, prev, rest) \<in> set sts}"

definition consumes :: "(mstate \<Rightarrow> mstate list) \<Rightarrow> string set \<Rightarrow> bool" where
  "consumes f A \<longleftrightarrow> (\<forall>caps prev s. rests (f (caps, prev, s)) = {rest. \<exists>u\<in>A. s = u @ rest})"

lemma rests_simps [simp]:
  "rests [] = {}" "rests (a @ b) = rests a \<union> rests b"
  "rests ((caps, prev, rest) # sts) = insert rest (rests sts)"
  by (auto simp: rests_def)

lemma rests_concat: "rests (concat (map g sts)) = (\<Union>st\<in>set sts. rests (g st))"
  by (auto simp: rests_def)

lemma consumes_bind:
  assumes "consumes f A" and "consumes g B"
  shows "consumes (\<lambda>st. concat (map g (f st))) {u @ v | u v. u \<in> A \<and> v \<in> B}"
  unfolding consumes_def
proof (intro allI)
  fix caps prev s
  have "rests (concat (map g (f (caps, prev, s)))) =
        (\<Union>r \<in> rests (f (caps, prev, s)). {rest. \<exists>v\<in>B. r = v @ rest})"
    using assms(2) unfolding rests_concat consumes_def by (fastforce simp: rests_def)
  also have "\<dots> = {rest. \<exists>u\<in>{u @ v | u v. u \<in> A \<and> v \<in> B}. s = u @ rest}"
    using assms(1) unfolding consumes_def by fastforce
  finally show "rests (concat (map g (f (caps, prev, s)))) =
      {rest. \<exists>u\<in>{u @ v | u v. u \<in> A \<and> v \<in> B}. s = u @ rest}" .
qed

lemma consumes_append:
  "consumes f A \<Longrightarrow> consumes g B \<Longrightarrow> consumes (\<lambda>st. f st @ g st) (A \<union> B)"
  by (auto simp: consumes_def)

lemma consumes_here: "consumes (\<lambda>st. if b then [st] else []) (if b then {[]} else {})"
  by (auto simp: consumes_def)

lemma UN_pow_Suc:
  "(\<Union>k\<in>Suc ` S. lang_pow A k) = {u @ v | u v. u \<in> A \<and> v \<in> (\<Union>k\<in>S. lang_pow A k)}"
  by auto

lemma consumes_rep:
  assumes "consumes f A"
  shows "consumes (rx_rep f lo hi) (\<Union>k\<in>{lo..hi}. lang_pow A k)"
proof (induction hi arbitrary: lo)
  case 0
  have "(\<Union>k\<in>{lo..0}. lang_pow A k) = (if lo = 0 then {[]} else {})"
    by auto
  with consumes_here [of "lo = 0"] show ?case by (simp add: fun_eq_iff cong: if_cong)
next
  case (Suc hi)
  have split: "{lo..Suc hi} = Suc ` {lo - 1..hi} \<union> (if lo = 0 then {0} else {})"
    by (auto simp: image_iff Bex_def le_diff_conv split: if_splits)
  have "(\<Union>k\<in>{lo..Suc hi}. lang_pow A k) =
      {u @ v | u v. u \<in> A \<and> v \<in> (\<Union>k\<in>{lo - 1..hi}. lang_pow A k)} \<union>
      (if lo = 0 then {[]} else {})"
    unfolding split UN_Un UN_pow_Suc by simp
  with consumes_append [OF consumes_bind [OF assms Suc.IH [of "lo - 1"]] consumes_here [of "lo = 0"]]
  show ?case by (simp cong: if_cong)
qed

lemma consumes_lazy:
  assumes "consumes f A"
  shows "consumes (rx_lazy f hi) (\<Union>k\<in>{0..hi}. lang_pow A k)"
proof (induction hi)
  case 0
  show ?case by (auto simp: consumes_def)
next
  case (Suc hi)
  have split: "{0..Suc hi} = insert 0 (Suc ` {0..hi})"
    by (auto simp: image_iff gr0_conv_Suc Bex_def)
  have "(\<Union>k\<in>{0..Suc hi}. lang_pow A k) =
      {[]} \<union> {u @ v | u v. u \<in> A \<and> v \<in> (\<Union>k\<in>{0..hi}. lang_pow A k)}"
    unfolding split UN_insert UN_pow_Suc by simp
  with consumes_append [OF _ consumes_bind [OF assms Suc.IH], of "\<lambda>st. [st]" "{[]}"]
  show ?case by (simp add: consumes_def)
qed

lemma lang_pow_single_length:
  "v \<in> lang_pow {[c] | c. P c} k \<Longrightarrow> length v = k"
  by (induction k arbitrary: v) auto

lemma consumes_unbounded:
  assumes "\<And>n. consumes (g n) (\<Union>k\<in>{lo..n}. lang_pow {[c] | c. P c} k)"
  shows "consumes (\<lambda>st. g (length (snd (snd st))) st) (\<Union>k\<in>{lo..}. lang_pow {[c] | c. P c} k)"
  unfolding consumes_def
proof (intro allI)
  fix caps prev s
  have "rests (g (length s) (caps, prev, s)) =
      {rest. \<exists>u\<in>(\<Union>k\<in>{lo..length s}. lang_pow {[c] | c. P c} k). s = u @ rest}"
    using assms [of "length s"] unfolding consumes_def by blast
  also have "\<dots> = {rest. \<exists>u\<in>(\<Union>k\<in>{lo..}. lang_pow {[c] | c. P c} k). s = u @ rest}"
    by (fastforce dest: lang_pow_single_length)
  finally show "rests (g (length (snd (snd (caps, prev, s)))) (caps, prev, s)) =
      {rest. \<exists>u\<in>(\<Union>k\<in>{lo..}. lang_pow {[c] | c. P c} k). s = u @ rest}"
    by simp
qed

lemma rests_group: "rests (map (\<lambda>(caps, prev, rest). (h rest # caps, prev, rest)) sts) = rests sts"
  by (induction sts) auto

lemma consumes_match: "rx_plain r \<Longrightarrow> consumes (rx_match ic r) (rx_lang ic r)"
proof (induction r)
  case (RCls neg rs)
  show ?case by (auto simp: consumes_def split: list.splits)
next
  case REps
  show ?case by (auto simp: consumes_def)
next
  case (RSeq a b)
  then show ?case using consumes_bind [of "rx_match ic a" _ "rx_match ic b"] by (simp add: fun_eq_iff)
next
  case (RAlt a b)
  then show ?case using consumes_append [of "rx_match ic a" _ "rx_match ic b"] by simp
next
  case (RRep lo hi r)
  then have body: "consumes (rx_match ic r) (rx_lang ic r)" by simp
  show ?case
  proof (cases hi)
    case None
    with RRep.prems obtain neg rs where r: "r = RCls neg rs" by auto
    have "consumes (rx_rep (rx_match ic r) lo n) (\<Union>k\<in>{lo..n}. lang_pow {[c] | c. cls_ok ic neg rs c} k)" for n
      using consumes_rep [OF body] r by simp
    from consumes_unbounded [OF this] None r show ?thesis by simp
  next
    case (Some n)
    with consumes_rep [OF body] show ?thesis by simp
  qed
next
  case (RLazy r)
  then obtain neg rs where r: "r = RCls neg rs" by auto
  then have body: "consumes (rx_match ic r) (rx_lang ic r)"
    using RLazy.IH by (simp only: rx_plain.simps)
  have "consumes (rx_lazy (rx_match ic r) n) (\<Union>k\<in>{0..n}. lang_pow {[c] | c. cls_ok ic neg rs c} k)" for n
    using consumes_lazy [OF body] r by simp
  from consumes_unbounded [OF this] r show ?case by (simp add: atLeast_0)
next
  case RBound
  then show ?case by simp
next
  case (RGroup n r)
  then show ?case
    by (simp add: consumes_def rests_group)
qed

theorem fullmatch_iff_lang: "rx_plain r \<Longrightarrow> rx_fullmatch r s \<longleftrightarrow> s \<in> rx_lang False r"
proof -
  assume "rx_plain r"
  then have "rests (rx_match False r ([], None, s)) = {rest. \<exists>u\<in>rx_lang False r. s = u @ rest}"
    using consumes_match unfolding consumes_def by blast
  then have "[] \<in> rests (rx_match False r ([], None, s)) \<longleftrightarrow> s \<in> rx_lang False r"
    by auto
  moreover have "rx_fullmatch r s \<longleftrightarrow> [] \<in> rests (rx_match False r ([], None, s))"
    by (fastforce simp: rx_fullmatch_def rx_full_def rests_def find_None_iff)
  ultimately show ?thesis by simp
qed

section \<open>Identifier patterns\<close>

text \<open>
  The validation patterns of the broker have one shape: a first character of one class, then
  between \<open>lo\<close> and \<open>hi\<close> characters of another.
\<close>

lemma lang_pow_cls: "lang_pow {[c] | c. P c} k = {u. length u = k \<and> (\<forall>c\<in>set u. P c)}"
proof (induction k)
  case (Suc k)
  have "lang_pow {[c] | c. P c} (Suc k) = {c # v | c v. P c \<and> v \<in> lang_pow {[c] | c. P c} k}"
    by (auto intro: exI [of _ "[c]" for c])
  with Suc show ?case by (auto simp: length_Suc_conv)
qed auto

lemma fullmatch_ident:
  "rx_fullmatch (RSeq (RCls False as) (RRep lo (Some hi) (RCls False bs))) s \<longleftrightarrow>
     (\<exists>c cs. s = c # cs \<and> in_ranges as c \<and> lo \<le> length cs \<and> length cs \<le> hi \<and>
             (\<forall>d\<in>set cs. in_ranges bs d))"
proof -
  have cons: "{u @ v | u v. u \<in> {[c] | c. P c} \<and> v \<in> B} = {c # v | c v. P c \<and> v \<in> B}" for P and B :: "string set"
    by (auto intro: exI [of _ "[c]" for c])
  have "rx_lang False (RSeq (RCls False as) (RRep lo (Some hi) (RCls False bs))) =
      {c # v | c v. in_ranges as c \<and> v \<in> (\<Union>k\<in>{lo..hi}. {u. length u = k \<and> (\<forall>d\<in>set u. in_ranges bs d)})}"
    unfolding rx_lang.simps option.case cls_ok_def cons lang_pow_cls by simp
  then show ?thesis
    by (subst fullmatch_iff_lang) auto
qed

section \<open>Evaluating a class\<close>

text \<open>For evaluation, the character is read as a number once.\<close>

lemma cls_ok_code [code]:
  "cls_ok ic neg rs c =
     (let n = of_char c; ok = (\<lambda>m. list_ex (\<lambda>(lo, hi). lo \<le> m \<and> m \<le> hi) rs)
      in neg \<noteq> (if ok n then True else if \<not> ic then False
                else if 65 \<le> n \<and> n \<le> 90 then ok (n + 32) else if 97 \<le> n \<and> n \<le> 122 then ok (n - 32) else (False :: bool)))"
proof -
  have "of_char c < (256 :: nat)" by simp
  then have "of_char (char_of (of_char c + 32 :: nat)) = (of_char c + 32 :: nat)" if "of_char c \<le> (90 :: nat)" using that by (simp add: of_char_of)
  moreover have "of_char (char_of (of_char c - 32 :: nat)) = (of_char c - 32 :: nat)" using \<open>of_char c < 256\<close> by (simp add: of_char_of mod_less less_imp_diff_less)
  ultimately show ?thesis
    unfolding cls_ok_def to_lower_def to_upper_def in_ranges_def Let_def by (auto simp del: of_char_of)
qed

section \<open>Searches that cannot match\<close>

text \<open>
  \<open>stuck cs ic r\<close>: the expression matches no text over the alphabet \<open>cs\<close>. The search over a text first asks
  whether the expression is stuck on the characters of that text, which spares the matcher when it runs.
\<close>

fun none_in :: "bool \<Rightarrow> bool \<Rightarrow> (nat \<times> nat) list \<Rightarrow> string \<Rightarrow> bool" where
  "none_in ic neg rs [] = True"
| "none_in ic neg rs (c # cs) = (if cls_ok ic neg rs c then False else none_in ic neg rs cs)"

primrec stuck :: "string \<Rightarrow> bool \<Rightarrow> rx \<Rightarrow> bool" where
  "stuck cs ic (RCls neg rs) = none_in ic neg rs cs"
| "stuck cs ic REps = False"
| "stuck cs ic (RSeq a b) = (if stuck cs ic a then True else stuck cs ic b)"
| "stuck cs ic (RAlt a b) = (if stuck cs ic a then stuck cs ic b else False)"
| "stuck cs ic (RRep lo hi r) = (if lo = 0 then False else stuck cs ic r)"
| "stuck cs ic (RLazy r) = False"
| "stuck cs ic RBound = False"
| "stuck cs ic (RGroup n r) = stuck cs ic r"

lemma none_in_iff: "none_in ic neg rs cs \<longleftrightarrow> (\<forall>c\<in>set cs. \<not> cls_ok ic neg rs c)"
  by (induction cs) auto

definition reads_on :: "(mstate \<Rightarrow> mstate list) \<Rightarrow> bool" where
  "reads_on f \<longleftrightarrow> (\<forall>st st'. st' \<in> set (f st) \<longrightarrow> set (snd (snd st')) \<subseteq> set (snd (snd st)))"

lemma reads_on_rep: "reads_on f \<Longrightarrow> reads_on (rx_rep f lo hi)"
  by (induction hi arbitrary: lo) (fastforce simp: reads_on_def split: if_splits)+

lemma reads_on_lazy: "reads_on f \<Longrightarrow> reads_on (rx_lazy f hi)"
  by (induction hi) (fastforce simp: reads_on_def)+

lemma reads_on_match: "reads_on (rx_match ic r)"
proof (induction r)
  case (RRep lo hi r)
  from reads_on_rep [OF this] show ?case by (simp add: reads_on_def)
next
  case (RLazy r)
  from reads_on_lazy [OF this] show ?case by (simp add: reads_on_def)
qed (fastforce simp: reads_on_def split: list.splits if_splits)+

lemma stuck_match: "stuck cs ic r \<Longrightarrow> set (snd (snd st)) \<subseteq> set cs \<Longrightarrow> rx_match ic r st = []"
proof (induction r arbitrary: st)
  case (RCls neg rs)
  then show ?case by (cases st) (auto simp: none_in_iff split: list.splits)
next
  case (RSeq a b)
  have "rx_match ic b st' = []" if "stuck cs ic b" "st' \<in> set (rx_match ic a st)" for st'
    using RSeq.IH(2) [OF that(1)] reads_on_match [unfolded reads_on_def, rule_format, OF that(2)] RSeq.prems(2) by blast
  then have "stuck cs ic b \<Longrightarrow> concat (map (rx_match ic b) (rx_match ic a st)) = []" by (simp add: concat_eq_Nil_conv image_subset_iff)
  moreover have "rx_match ic a st = []" if "stuck cs ic a" using RSeq.IH(1) [OF that RSeq.prems(2)] .
  ultimately show ?case using RSeq.prems(1) by (auto split: if_splits)
next
  case (RRep lo hi r)
  have "rx_rep (rx_match ic r) lo n st = []" for n using RRep by (cases n) (auto split: if_splits)
  then show ?case by simp
qed (auto split: if_splits)

lemma rx_search_skip [code]:
  "rx_search ic r s = (if stuck (remdups s) ic r then False else rx_search_from ic r None s)"
proof (cases "stuck (remdups s) ic r")
  case True
  have "set t \<subseteq> set s \<Longrightarrow> \<not> rx_search_from ic r prev t" for prev t
    by (induction t arbitrary: prev) (simp_all add: stuck_match [OF True])
  then show ?thesis using True by (simp add: rx_search_def)
qed (simp add: rx_search_def)

end
