(* ===== verification/Py_Uuid.thy ===== *)
theory Py_Uuid
  imports Py_Text
begin

text \<open>
  \<^verbatim>\<open>str(uuid.UUID(x))\<close>, which \<^verbatim>\<open>BrokerService._validate_request_id\<close>, \<^verbatim>\<open>MissionControl._request_id\<close> and
  \<^verbatim>\<open>ParameterSpec.validate\<close> use to canonicalise identifiers. The constructor of the standard
  library removes \<^verbatim>\<open>urn:\<close> and \<^verbatim>\<open>uuid:\<close>, strips braces, removes hyphens, wants 32 characters and
  reads them with \<^verbatim>\<open>int(hex, 16)\<close>; the latter accepts surrounding white space, a sign, a \<^verbatim>\<open>0x\<close>
  prefix and single underscores between digits, which the model keeps.
\<close>

section \<open>Hexadecimal digits\<close>

definition hex_char :: "nat \<Rightarrow> char" where
  "hex_char d = char_of (if d < 10 then 48 + d else 87 + d)"

definition is_hex :: "char \<Rightarrow> bool" where
  "is_hex c \<longleftrightarrow> in_ranges [(48, 57), (65, 70), (97, 102)] c"

definition hex_val :: "char \<Rightarrow> nat" where
  "hex_val c = (let n = of_char c in if n < 58 then n - 48 else if n < 71 then n - 55 else n - 87)"

fun hex_pad :: "nat \<Rightarrow> int \<Rightarrow> string" where
  "hex_pad 0 n = []"
| "hex_pad (Suc k) n = hex_pad k (n div 16) @ [hex_char (nat (n mod 16))]"

definition hexs_val :: "string \<Rightarrow> int" where
  "hexs_val ds = foldl (\<lambda>n c. 16 * n + int (hex_val c)) 0 ds"

section \<open>\<^verbatim>\<open>int(s, 16)\<close>\<close>

text \<open>Digits with single underscores between them; \<open>prev\<close> says that the last character was one.\<close>

fun underscore_digits :: "bool \<Rightarrow> string \<Rightarrow> string option" where
  "underscore_digits prev [] = (if prev then None else Some [])"
| "underscore_digits prev (c # s) =
     (if c = CHR ''_'' then (if prev then None else underscore_digits True s)
      else map_option ((#) c) (underscore_digits False s))"

definition int_space :: "string \<Rightarrow> char \<Rightarrow> bool" where
  "int_space s c \<longleftrightarrow>
     (if list_all (\<lambda>x. of_char x < (128 :: nat)) s then in_ranges [(9, 13), (32, 32)] c else is_space c)"

definition int_base16 :: "string \<Rightarrow> int option" where
  "int_base16 text =
     (let sp = int_space text;
          s = dropWhile sp text;
          s = (if s \<noteq> [] \<and> hd s \<in> {CHR ''+'', CHR ''-''} then tl s else s);
          s = (if starts_with ''0x'' s \<or> starts_with ''0X'' s
               then (if starts_with ''_'' (drop 2 s) then drop 3 s else drop 2 s) else s);
          ds = takeWhile (\<lambda>c. is_hex c \<or> c = CHR ''_'') s;
          rest = dropWhile (\<lambda>c. is_hex c \<or> c = CHR ''_'') s
      in if ds = [] \<or> hd ds = CHR ''_'' \<or> dropWhile sp rest \<noteq> [] then None
         else map_option hexs_val (underscore_digits False ds))"

section \<open>The UUID constructor and its text form\<close>

definition strip_braces :: "string \<Rightarrow> string" where
  "strip_braces s =
     (let brace = (\<lambda>c. c = CHR ''{'' \<or> c = CHR ''}'') in rev (dropWhile brace (rev (dropWhile brace s))))"

definition uuid_int :: "string \<Rightarrow> int option" where
  "uuid_int text =
     (let s = remove_sub ''uuid:'' (remove_sub ''urn:'' text);
          s = filter (\<lambda>c. c \<noteq> CHR ''-'') (strip_braces s)
      in if length s \<noteq> 32 then None else int_base16 s)"

definition uuid_str :: "int \<Rightarrow> string" where
  "uuid_str n =
     (let h = hex_pad 32 n
      in take 8 h @ ''-'' @ take 4 (drop 8 h) @ ''-'' @ take 4 (drop 12 h) @ ''-'' @
         take 4 (drop 16 h) @ ''-'' @ drop 20 h)"

definition uuid_canon :: "string \<Rightarrow> string option" where
  "uuid_canon text = map_option uuid_str (uuid_int text)"

section \<open>Canonical identifiers are fixed points\<close>

lemma hex_char_simps [simp]:
  assumes "d < 16"
  shows "is_hex (hex_char d)" "hex_val (hex_char d) = d"
  using assms by (auto simp: is_hex_def in_ranges_def hex_val_def hex_char_def Let_def)

lemma hex_pad_length [simp]: "length (hex_pad k n) = k"
  by (induction k arbitrary: n) auto

lemma hex_pad_set: "c \<in> set (hex_pad k n) \<Longrightarrow> is_hex c"
  by (induction k arbitrary: n) auto

lemma hexs_val_append [simp]: "hexs_val (ds @ [c]) = 16 * hexs_val ds + int (hex_val c)"
  by (simp add: hexs_val_def)

lemma hexs_val_pad: "hexs_val (hex_pad k n) = n mod 16 ^ k"
proof (induction k arbitrary: n)
  case 0
  then show ?case by (simp add: hexs_val_def)
next
  case (Suc k)
  have "n mod 16 ^ Suc k = 16 * (n div 16 mod 16 ^ k) + n mod 16"
    by (simp add: zmod_zmult2_eq)
  with Suc show ?case by simp
qed

lemma hex_val_less: "is_hex c \<Longrightarrow> hex_val c < 16"
  by (auto simp: is_hex_def in_ranges_def hex_val_def Let_def)

lemma hexs_val_less: "\<forall>c\<in>set ds. is_hex c \<Longrightarrow> 0 \<le> hexs_val ds \<and> hexs_val ds < 16 ^ length ds"
proof (induction ds rule: rev_induct)
  case Nil
  then show ?case by (simp add: hexs_val_def)
next
  case (snoc c ds)
  then have "0 \<le> hexs_val ds" "hexs_val ds < 16 ^ length ds" "hex_val c < 16"
    by (auto dest: hex_val_less)
  then show ?case by simp
qed

lemma underscore_digits_hex:
  "\<forall>c\<in>set ds. is_hex c \<Longrightarrow> underscore_digits False ds = Some ds"
  by (induction ds) (auto simp: is_hex_def in_ranges_def)

lemma underscore_digits_Some:
  "underscore_digits b s = Some ds \<Longrightarrow> \<forall>c\<in>set s. is_hex c \<or> c = CHR ''_'' \<Longrightarrow>
   (\<forall>c\<in>set ds. is_hex c) \<and> length ds \<le> length s"
  by (induction b s arbitrary: ds rule: underscore_digits.induct) (fastforce split: if_splits)+

lemma int_base16_hex:
  assumes "ds \<noteq> []" and hex: "\<forall>c\<in>set ds. is_hex c"
  shows "int_base16 ds = Some (hexs_val ds)"
proof -
  obtain c cs where ds: "ds = c # cs" using assms(1) by (cases ds) auto
  have c: "is_hex c" using hex ds by simp
  have all: "takeWhile (\<lambda>c. is_hex c \<or> c = CHR ''_'') ds = ds"
    "dropWhile (\<lambda>c. is_hex c \<or> c = CHR ''_'') ds = []"
    using hex by (auto simp: takeWhile_eq_all_conv dropWhile_eq_Nil_conv)
  have sp: "dropWhile (int_space ds) ds = ds"
    using c ds by (auto simp: int_space_def is_hex_def in_ranges_def is_space_def)
  have sgn: "c \<noteq> CHR ''+''" "c \<noteq> CHR ''-''" "c \<noteq> CHR ''_''"
    using c by (auto simp: is_hex_def in_ranges_def)
  have pre: "\<not> starts_with ''0x'' ds" "\<not> starts_with ''0X'' ds"
    using hex ds by (cases cs; auto simp: is_hex_def in_ranges_def)+
  have hd: "hd ds = c" by (simp add: ds)
  show ?thesis
    unfolding int_base16_def Let_def sp
    by (simp add: hd sgn pre all assms(1) underscore_digits_hex [OF hex])
qed

lemma remove_sub_id:
  assumes "x \<in> set old" and "x \<notin> set s"
  shows "remove_sub old s = s"
  using assms(2)
proof (induction s)
  case (Cons c s)
  have "\<not> starts_with old (c # s)"
  proof
    assume "starts_with old (c # s)"
    then obtain t where "c # s = old @ t" by (auto simp only: starts_with_iff)
    then have "set (c # s) = set (old @ t)" by simp
    with assms(1) Cons.prems show False by auto
  qed
  with Cons show ?case by simp
qed simp

lemma strip_braces_id:
  assumes "CHR ''{'' \<notin> set s" and "CHR ''}'' \<notin> set s"
  shows "strip_braces s = s"
proof -
  have "dropWhile (\<lambda>c. c = CHR ''{'' \<or> c = CHR ''}'') t = t" if "set t \<subseteq> set s" for t
    using that assms by (cases t) auto
  then show ?thesis by (simp add: strip_braces_def Let_def)
qed

lemma uuid_str_set: "c \<in> set (uuid_str n) \<Longrightarrow> is_hex c \<or> c = CHR ''-''"
  by (auto simp: uuid_str_def Let_def dest!: in_set_takeD in_set_dropD hex_pad_set)

lemma uuid_str_hyphens: "filter (\<lambda>c. c \<noteq> CHR ''-'') (uuid_str n) = hex_pad 32 n"
proof -
  let ?h = "hex_pad 32 n"
  have "CHR ''-'' \<notin> set ?h"
    using hex_pad_set [of "CHR ''-''" 32 n] by (auto simp: is_hex_def in_ranges_def)
  then have keep: "filter (\<lambda>c. c \<noteq> CHR ''-'') t = t" if "set t \<subseteq> set ?h" for t
    using that by (auto simp: filter_id_conv)
  have "take 8 ?h @ take 4 (drop 8 ?h) @ take 4 (drop 12 ?h) @ take 4 (drop 16 ?h) @ drop 20 ?h = ?h"
    using append_take_drop_id [of 4 "drop 16 ?h"] append_take_drop_id [of 4 "drop 12 ?h"]
      append_take_drop_id [of 4 "drop 8 ?h"] append_take_drop_id [of 8 ?h]
    by (simp del: append_take_drop_id)
  then show ?thesis
    by (simp add: uuid_str_def Let_def keep set_take_subset set_drop_subset
        subset_trans [OF set_take_subset set_drop_subset])
qed

lemma uuid_int_uuid_str: "0 \<le> n \<Longrightarrow> n < 16 ^ 32 \<Longrightarrow> uuid_int (uuid_str n) = Some n"
proof -
  assume n: "0 \<le> n" "n < 16 ^ 32"
  have no: "c \<notin> set (uuid_str n)" if "\<not> is_hex c" "c \<noteq> CHR ''-''" for c
    using uuid_str_set that by blast
  have "CHR '':'' \<notin> set (uuid_str n)" "CHR ''{'' \<notin> set (uuid_str n)" "CHR ''}'' \<notin> set (uuid_str n)"
    by (rule no; simp add: is_hex_def in_ranges_def)+
  then have "remove_sub ''uuid:'' (remove_sub ''urn:'' (uuid_str n)) = uuid_str n"
    "strip_braces (uuid_str n) = uuid_str n"
    by (simp_all add: remove_sub_id [where x = "CHR '':''"] strip_braces_id)
  moreover have "int_base16 (hex_pad 32 n) = Some n"
    using hex_pad_set int_base16_hex [of "hex_pad 32 n"] n
    by (metis hexs_val_pad hex_pad_length list.size(3) mod_pos_pos_trivial zero_neq_numeral)
  ultimately show ?thesis
    by (simp add: uuid_int_def Let_def uuid_str_hyphens)
qed

lemma int_base16_bound: "int_base16 s = Some n \<Longrightarrow> 0 \<le> n \<and> n < 16 ^ length s"
proof -
  assume a: "int_base16 s = Some n"
  define sp where "sp = int_space s"
  define s1 where "s1 = dropWhile sp s"
  define s2 where "s2 = (if s1 \<noteq> [] \<and> hd s1 \<in> {CHR ''+'', CHR ''-''} then tl s1 else s1)"
  define s3 where "s3 = (if starts_with ''0x'' s2 \<or> starts_with ''0X'' s2
               then (if starts_with ''_'' (drop 2 s2) then drop 3 s2 else drop 2 s2) else s2)"
  define ds where "ds = takeWhile (\<lambda>c. is_hex c \<or> c = CHR ''_'') s3"
  from a obtain us where us: "underscore_digits False ds = Some us" and n: "n = hexs_val us"
    unfolding int_base16_def Let_def sp_def [symmetric] s1_def [symmetric] s2_def [symmetric]
      s3_def [symmetric] ds_def [symmetric]
    by (auto split: if_splits)
  have "\<forall>c\<in>set ds. is_hex c \<or> c = CHR ''_''"
    unfolding ds_def by (auto dest: set_takeWhileD)
  with us have u: "\<forall>c\<in>set us. is_hex c" "length us \<le> length ds"
    using underscore_digits_Some by blast+
  have "length ds \<le> length s3" by (simp add: ds_def length_takeWhile_le)
  moreover have "length s3 \<le> length s2" by (simp add: s3_def)
  moreover have "length s2 \<le> length s1" by (simp add: s2_def)
  moreover have "length s1 \<le> length s" by (simp add: s1_def length_dropWhile_le)
  ultimately have "length us \<le> length s" using u(2) by linarith
  then have "(16 :: int) ^ length us \<le> 16 ^ length s" by (simp add: power_increasing)
  with hexs_val_less [OF u(1)] show ?thesis unfolding n by (blast intro: less_le_trans)
qed

lemma uuid_int_bound: "uuid_int s = Some n \<Longrightarrow> 0 \<le> n \<and> n < 16 ^ 32"
  by (auto simp: uuid_int_def Let_def dest: int_base16_bound split: if_splits)

lemma uuid_canon_idem: "uuid_canon s = Some u \<Longrightarrow> uuid_canon u = Some u"
  by (auto simp: uuid_canon_def uuid_int_uuid_str dest: uuid_int_bound)

lemma uuid_canon_chars: "uuid_canon s = Some u \<Longrightarrow> c \<in> set u \<Longrightarrow> is_hex c \<or> c = CHR ''-''"
  by (auto simp: uuid_canon_def dest: uuid_str_set)

lemma uuid_canon_length: "uuid_canon s = Some u \<Longrightarrow> length u = 36"
  by (auto simp: uuid_canon_def uuid_str_def Let_def)

lemma uuid_canon_hd: "uuid_canon s = Some u \<Longrightarrow> is_hex (hd u)"
proof -
  assume "uuid_canon s = Some u"
  then obtain n where u: "u = uuid_str n" by (auto simp: uuid_canon_def)
  have ne: "hex_pad 32 n \<noteq> []" by (metis hex_pad_length list.size(3) zero_neq_numeral)
  then have "hd u = hd (hex_pad 32 n)" by (simp add: u uuid_str_def Let_def hd_append)
  moreover have "hd (hex_pad 32 n) \<in> set (hex_pad 32 n)" using ne by simp
  ultimately show ?thesis by (simp add: hex_pad_set)
qed

end
