(* ===== verification/Py_Json.thy ===== *)
theory Py_Json
  imports Py_Uuid
begin

text \<open>
  JSON values and the two functions of the standard library the broker is built on:
  \<^verbatim>\<open>json.dumps(value, sort_keys=True, separators=(",", ":"), ensure_ascii=False)\<close>, which
  \<^verbatim>\<open>util.canonical_json\<close> wraps, and \<^verbatim>\<open>json.loads\<close>. A dict is an association list in insertion
  order. A float is carried by its \<^verbatim>\<open>repr\<close>; converting a numeric literal to that \<^verbatim>\<open>repr\<close> is done by
  the interpreter's C runtime and is the parameter \<open>frepr\<close> of the reader. The main result is
  the round trip: reading a canonical text gives the value back with its keys sorted.
\<close>

section \<open>Values\<close>

datatype json =
    JNull
  | JBool bool
  | JInt int
  | JFloat string
  | JStr string
  | JList "json list"
  | JDict "(string \<times> json) list"

type_synonym jdict = "(string \<times> json) list"

text \<open>\<^verbatim>\<open>d[k] = v\<close> on a dict, and a dict built from pairs (the last value of a key wins).\<close>

fun dict_set :: "string \<Rightarrow> 'v \<Rightarrow> (string \<times> 'v) list \<Rightarrow> (string \<times> 'v) list" where
  "dict_set k v [] = [(k, v)]"
| "dict_set k v ((k', v') # d) = (if k = k' then (k, v) # d else (k', v') # dict_set k v d)"

definition dict_of_pairs :: "(string \<times> 'v) list \<Rightarrow> (string \<times> 'v) list" where
  "dict_of_pairs ps = foldl (\<lambda>d (k, v). dict_set k v d) [] ps"

lemma map_of_dict_set [simp]: "map_of (dict_set k v d) = (map_of d)(k \<mapsto> v)"
  by (induction d) (auto simp: fun_eq_iff)

lemma keys_dict_set [simp]: "fst ` set (dict_set k v d) = insert k (fst ` set d)"
  by (induction k v d rule: dict_set.induct) auto

lemma dict_set_new: "k \<notin> fst ` set d \<Longrightarrow> dict_set k v d = d @ [(k, v)]"
  by (induction d) auto

lemma dict_of_pairs_distinct: "distinct (map fst ps) \<Longrightarrow> dict_of_pairs ps = ps"
proof -
  have "foldl (\<lambda>d (k, v). dict_set k v d) d ps = d @ ps"
    if "distinct (map fst (d @ ps))" for d
    using that
  proof (induction ps arbitrary: d)
    case (Cons p ps)
    obtain k v where p: "p = (k, v)" by (cases p)
    have "dict_set k v d = d @ [p]"
      using Cons.prems p by (auto intro: dict_set_new)
    moreover have "foldl (\<lambda>d (k, v). dict_set k v d) (d @ [p]) ps = (d @ [p]) @ ps"
      by (rule Cons.IH) (use Cons.prems in auto)
    ultimately show ?case by (simp add: p)
  qed simp
  from this [of "[]"] show "distinct (map fst ps) \<Longrightarrow> dict_of_pairs ps = ps"
    by (simp add: dict_of_pairs_def)
qed

section \<open>Writing\<close>

definition json_esc :: "char \<Rightarrow> string" where
  "json_esc c =
     (if c = CHR 0x22 then [CHR 0x5C, CHR 0x22]
      else if c = CHR 0x5C then [CHR 0x5C, CHR 0x5C]
      else if c = CHR 0x0A then [CHR 0x5C, CHR ''n'']
      else if c = CHR 0x0D then [CHR 0x5C, CHR ''r'']
      else if c = CHR 0x09 then [CHR 0x5C, CHR ''t'']
      else if c = CHR 0x0C then [CHR 0x5C, CHR ''f'']
      else if c = CHR 0x08 then [CHR 0x5C, CHR ''b'']
      else if of_char c < (32 :: nat) then [CHR 0x5C, CHR ''u''] @ hex_pad 4 (of_char c)
      else [c])"

definition json_quote :: "string \<Rightarrow> string" where
  "json_quote s = CHR 0x22 # concat (map json_esc s) @ [CHR 0x22]"

definition float_json :: "string \<Rightarrow> string" where
  "float_json f = (if f = ''nan'' then ''NaN'' else if f = ''inf'' then ''Infinity''
                   else if f = ''-inf'' then ''-Infinity'' else f)"

fun canonical_json :: "json \<Rightarrow> string" where
  "canonical_json JNull = ''null''"
| "canonical_json (JBool b) = (if b then ''true'' else ''false'')"
| "canonical_json (JInt i) = int_str i"
| "canonical_json (JFloat f) = float_json f"
| "canonical_json (JStr s) = json_quote s"
| "canonical_json (JList xs) = ''['' @ join '','' (map canonical_json xs) @ '']''"
| "canonical_json (JDict kvs) =
     ''{'' @ join '','' (map (\<lambda>(k, t). json_quote k @ '':'' @ t)
                     (sort_key fst (map (\<lambda>(k, v). (k, canonical_json v)) kvs))) @ ''}''"

text \<open>The value with the keys of every dict in ascending order.\<close>

fun json_sorted :: "json \<Rightarrow> json" where
  "json_sorted (JList xs) = JList (map json_sorted xs)"
| "json_sorted (JDict kvs) = JDict (sort_key fst (map (\<lambda>(k, v). (k, json_sorted v)) kvs))"
| "json_sorted v = v"

section \<open>Reading\<close>

definition json_ws :: "char \<Rightarrow> bool" where
  "json_ws c \<longleftrightarrow> c = CHR '' '' \<or> c = CHR 0x09 \<or> c = CHR 0x0A \<or> c = CHR 0x0D"

abbreviation skip_ws :: "string \<Rightarrow> string" where
  "skip_ws s \<equiv> dropWhile json_ws s"

definition json_unesc :: "char \<Rightarrow> char option" where
  "json_unesc e =
     (if e = CHR 0x22 then Some (CHR 0x22) else if e = CHR 0x5C then Some (CHR 0x5C)
      else if e = CHR ''/'' then Some (CHR ''/'') else if e = CHR ''n'' then Some (CHR 0x0A)
      else if e = CHR ''r'' then Some (CHR 0x0D) else if e = CHR ''t'' then Some (CHR 0x09)
      else if e = CHR ''f'' then Some (CHR 0x0C) else if e = CHR ''b'' then Some (CHR 0x08)
      else None)"

abbreviation cons_fst :: "'a \<Rightarrow> 'a list \<times> 'b \<Rightarrow> 'a list \<times> 'b" where
  "cons_fst c p \<equiv> (c # fst p, snd p)"

text \<open>The body of a string, after its opening quote. A \<^verbatim>\<open>\u\<close> escape beyond the alphabet is refused.\<close>

function scan_str :: "string \<Rightarrow> (string \<times> string) option" where
  "scan_str [] = None"
| "scan_str (c # s) =
     (if c = CHR 0x22 then Some ([], s)
      else if c = CHR 0x5C then
        (case s of [] \<Rightarrow> None
         | e # r \<Rightarrow>
             if e = CHR ''u'' then
               (if 4 \<le> length r \<and> list_all is_hex (take 4 r) \<and> hexs_val (take 4 r) < 256
                then map_option (cons_fst (char_of (hexs_val (take 4 r)))) (scan_str (drop 4 r))
                else None)
             else (case json_unesc e of None \<Rightarrow> None
                   | Some d \<Rightarrow> map_option (cons_fst d) (scan_str r)))
      else if of_char c < (32 :: nat) then None
      else map_option (cons_fst c) (scan_str s))"
  by pat_completeness auto
termination
  by (relation "measure length") auto

text \<open>
  A number: the integer part, the fraction with the exponent, and the rest; the pattern
  \<^verbatim>\<open>(-?(?:0|[1-9]\d*))(\.\d+)?([eE][-+]?\d+)?\<close> of the \<^verbatim>\<open>json\<close> scanner.
\<close>

definition scan_nat :: "string \<Rightarrow> string \<times> string" where
  "scan_nat s = (if s \<noteq> [] \<and> hd s = CHR ''0'' then ([CHR ''0''], tl s)
                 else (takeWhile is_digit s, dropWhile is_digit s))"

definition scan_frac :: "string \<Rightarrow> string \<times> string" where
  "scan_frac s =
     (if s \<noteq> [] \<and> hd s = CHR ''.'' \<and> takeWhile is_digit (tl s) \<noteq> []
      then (CHR ''.'' # takeWhile is_digit (tl s), dropWhile is_digit (tl s)) else ([], s))"

definition scan_exp :: "string \<Rightarrow> string \<times> string" where
  "scan_exp s =
     (if s \<noteq> [] \<and> hd s \<in> {CHR ''e'', CHR ''E''} then
        (let r = tl s;
             sg = (if r \<noteq> [] \<and> hd r \<in> {CHR ''+'', CHR ''-''} then [hd r] else []);
             t = drop (length sg) r
         in if takeWhile is_digit t \<noteq> [] then (hd s # sg @ takeWhile is_digit t, dropWhile is_digit t)
            else ([], s))
      else ([], s))"

definition scan_num :: "string \<Rightarrow> (string \<times> string \<times> string) option" where
  "scan_num s =
     (let sg = (if s \<noteq> [] \<and> hd s = CHR ''-'' then ''-'' else []);
          (ds, r) = scan_nat (drop (length sg) s);
          (fr, r) = scan_frac r;
          (ex, r) = scan_exp r
      in if ds = [] then None else Some (sg @ ds, fr @ ex, r))"

definition int_of_text :: "string \<Rightarrow> int" where
  "int_of_text t =
     (if t \<noteq> [] \<and> hd t = CHR ''-'' then - int (digits_val (tl t)) else int (digits_val t))"

definition p_atom :: "(string \<Rightarrow> string) \<Rightarrow> string \<Rightarrow> (json \<times> string) option" where
  "p_atom frepr s =
     (if starts_with ''null'' s then Some (JNull, drop 4 s)
      else if starts_with ''true'' s then Some (JBool True, drop 4 s)
      else if starts_with ''false'' s then Some (JBool False, drop 5 s)
      else case scan_num s of
        Some (ip, fx, r) \<Rightarrow>
          Some (if fx = [] then JInt (int_of_text ip) else JFloat (frepr (ip @ fx)), r)
      | None \<Rightarrow>
          if starts_with ''NaN'' s then Some (JFloat ''nan'', drop 3 s)
          else if starts_with ''Infinity'' s then Some (JFloat ''inf'', drop 8 s)
          else if starts_with ''-Infinity'' s then Some (JFloat ''-inf'', drop 9 s)
          else None)"

text \<open>Recursive descent. The fuel \<open>json_loads\<close> starts with is enough for every text: see \<open>p_fuel\<close> below.\<close>

fun p_value :: "(string \<Rightarrow> string) \<Rightarrow> nat \<Rightarrow> string \<Rightarrow> (json \<times> string) option"
  and p_items :: "(string \<Rightarrow> string) \<Rightarrow> nat \<Rightarrow> string \<Rightarrow> (json list \<times> string) option"
  and p_members :: "(string \<Rightarrow> string) \<Rightarrow> nat \<Rightarrow> string \<Rightarrow> (jdict \<times> string) option" where
  "p_value fr 0 s = None"
| "p_value fr (Suc n) s =
     (case s of [] \<Rightarrow> None
      | c # r \<Rightarrow>
          if c = CHR 0x22 then map_option (\<lambda>(t, r). (JStr t, r)) (scan_str r)
          else if c = CHR ''['' then
            (let r = skip_ws r in
             if starts_with '']'' r then Some (JList [], tl r)
             else map_option (\<lambda>(xs, r). (JList xs, r)) (p_items fr n r))
          else if c = CHR ''{'' then
            (let r = skip_ws r in
             if starts_with ''}'' r then Some (JDict [], tl r)
             else map_option (\<lambda>(ps, r). (JDict (dict_of_pairs ps), r)) (p_members fr n r))
          else p_atom fr s)"
| "p_items fr 0 s = None"
| "p_items fr (Suc n) s =
     (case p_value fr n s of None \<Rightarrow> None
      | Some (v, r) \<Rightarrow>
          (case skip_ws r of [] \<Rightarrow> None
           | c # r \<Rightarrow> if c = CHR '']'' then Some ([v], r)
                     else if c = CHR '','' then map_option (cons_fst v) (p_items fr n (skip_ws r))
                     else None))"
| "p_members fr 0 s = None"
| "p_members fr (Suc n) s =
     (if \<not> starts_with [CHR 0x22] s then None else
      case scan_str (tl s) of None \<Rightarrow> None
      | Some (k, r) \<Rightarrow>
          (case skip_ws r of [] \<Rightarrow> None
           | c # r \<Rightarrow> if c \<noteq> CHR '':'' then None else
               (case p_value fr n (skip_ws r) of None \<Rightarrow> None
                | Some (v, r) \<Rightarrow>
                    (case skip_ws r of [] \<Rightarrow> None
                     | c # r \<Rightarrow> if c = CHR ''}'' then Some ([(k, v)], r)
                               else if c = CHR '','' then
                                 map_option (cons_fst (k, v)) (p_members fr n (skip_ws r))
                               else None))))"

definition json_loads :: "(string \<Rightarrow> string) \<Rightarrow> string \<Rightarrow> json option" where
  "json_loads fr s =
     (let t = skip_ws s in
      case p_value fr (2 * length t + 2) t of None \<Rightarrow> None
      | Some (v, r) \<Rightarrow> if skip_ws r = [] then Some v else None)"

section \<open>The round trip\<close>

text \<open>
  A float of a value is given by its \<^verbatim>\<open>repr\<close>: the text of a non-integer number that converts to
  itself, or one of the three special values. The keys of a dict are distinct.
\<close>

definition float_ok :: "(string \<Rightarrow> string) \<Rightarrow> string \<Rightarrow> bool" where
  "float_ok fr f \<longleftrightarrow>
     f = ''nan'' \<or> f = ''inf'' \<or> f = ''-inf'' \<or>
     (case scan_num f of Some (ip, fx, r) \<Rightarrow> fx \<noteq> [] \<and> r = [] \<and> fr f = f | None \<Rightarrow> False)"

fun json_ok :: "(string \<Rightarrow> string) \<Rightarrow> json \<Rightarrow> bool" where
  "json_ok fr (JFloat f) = float_ok fr f"
| "json_ok fr (JList xs) = list_all (json_ok fr) xs"
| "json_ok fr (JDict kvs) = (distinct (map fst kvs) \<and> list_all (\<lambda>(k, v). json_ok fr v) kvs)"
| "json_ok fr v = True"

lemma sort_key_apsnd:
  "sort_key fst (map (\<lambda>(k, v). (k, g v)) kvs) = map (\<lambda>(k, v). (k, g v)) (sort_key fst kvs)"
proof -
  have ins: "insort_key fst (k, g v) (map (\<lambda>(k, v). (k, g v)) kvs) =
      map (\<lambda>(k, v). (k, g v)) (insort_key fst (k, v) kvs)" for k v kvs
    by (induction kvs) auto
  show ?thesis
    by (induction kvs) (auto simp: ins)
qed

lemma canonical_json_dict:
  "canonical_json (JDict kvs) =
     ''{'' @ join '','' (map (\<lambda>(k, v). json_quote k @ '':'' @ canonical_json v) (sort_key fst kvs)) @ ''}''"
  unfolding canonical_json.simps sort_key_apsnd map_map comp_def by (simp add: case_prod_unfold)

lemma json_sorted_dict:
  "json_sorted (JDict kvs) = JDict (map (\<lambda>(k, v). (k, json_sorted v)) (sort_key fst kvs))"
  by (simp add: sort_key_apsnd)

subsection \<open>Strings\<close>

lemma scan_str_esc: "scan_str (json_esc c @ s) = map_option (cons_fst c) (scan_str s)"
proof (cases "of_char c < (32 :: nat)")
  case True
  moreover have "(of_char c :: int) = int (of_char c)" by (simp add: of_nat_of_char)
  ultimately have "(of_char c :: int) < 32" "0 \<le> (of_char c :: int)" by linarith+
  then have "hexs_val (hex_pad 4 (of_char c)) = of_char c" "(of_char c :: int) < 256"
    by (simp_all add: hexs_val_pad)
  moreover have "list_all is_hex (hex_pad 4 (of_char c))"
    by (simp add: list_all_iff hex_pad_set)
  ultimately show ?thesis
    using True by (simp add: json_esc_def json_unesc_def)
next
  case False
  then show ?thesis
    by (simp add: json_esc_def json_unesc_def)
qed

lemma scan_str_quote: "scan_str (concat (map json_esc s) @ CHR 0x22 # rest) = Some (s, rest)"
  by (induction s) (simp_all add: scan_str_esc del: scan_str.simps(2), simp)

subsection \<open>Numbers\<close>

definition json_delim :: "string \<Rightarrow> bool" where
  "json_delim s \<longleftrightarrow> s = [] \<or> hd s = CHR '','' \<or> hd s = CHR '']'' \<or> hd s = CHR ''}''"

lemma json_delim_simps [simp]:
  "json_delim []" "json_delim (CHR '','' # s)" "json_delim (CHR '']'' # s)" "json_delim (CHR ''}'' # s)"
  by (simp_all add: json_delim_def)

lemma delim_not_digit: "json_delim s \<Longrightarrow> s = [] \<or> \<not> is_digit (hd s)"
  by (auto simp: json_delim_def is_digit_def in_ranges_def)

lemmas delim_takeWhile = takeWhile_append_stop [where P = is_digit, OF delim_not_digit]

lemma delim_takeWhile_Nil [simp]:
  "json_delim r \<Longrightarrow> takeWhile is_digit r = []" "json_delim r \<Longrightarrow> dropWhile is_digit r = r"
  using delim_takeWhile [of r "[]"] by simp_all

lemma delim_hd:
  "json_delim r \<Longrightarrow> r \<noteq> [] \<Longrightarrow> hd r \<notin> {CHR ''.'', CHR ''e'', CHR ''E'', CHR ''0'', CHR ''+'', CHR ''-''}"
  by (auto simp: json_delim_def)

lemma scan_frac_append:
  "json_delim r \<Longrightarrow> scan_frac (s @ r) = (fst (scan_frac s), snd (scan_frac s) @ r)"
  using delim_hd [of r] by (cases s) (auto simp: scan_frac_def delim_takeWhile)

lemma scan_nat_append:
  "json_delim r \<Longrightarrow> scan_nat (s @ r) = (fst (scan_nat s), snd (scan_nat s) @ r)"
  using delim_hd [of r] delim_takeWhile [of r s] by (cases s) (auto simp: scan_nat_def)

lemma scan_exp_append:
  assumes r: "json_delim r"
  shows "scan_exp (s @ r) = (fst (scan_exp s), snd (scan_exp s) @ r)"
proof (cases s)
  case Nil
  then show ?thesis using delim_hd [OF r] by (auto simp: scan_exp_def)
next
  case (Cons c cs)
  show ?thesis
  proof (cases cs)
    case Nil
    then show ?thesis
      using r delim_hd [OF r] delim_not_digit [OF r] \<open>s = c # cs\<close> by (cases r) (auto simp: scan_exp_def Let_def)
  next
    case (Cons d ds)
    then show ?thesis
      using delim_takeWhile [OF r, of ds] delim_takeWhile [OF r, of "d # ds"] \<open>s = c # cs\<close>
      by (auto simp: scan_exp_def Let_def)
  qed
qed

lemma scan_num_Cons:
  "scan_num (c # u) =
     (let sg = (if c = CHR ''-'' then ''-'' else []);
          v = (if c = CHR ''-'' then u else c # u);
          ds = fst (scan_nat v);
          fr = scan_frac (snd (scan_nat v));
          ex = scan_exp (snd fr)
      in if ds = [] then None else Some (sg @ ds, fst fr @ fst ex, snd ex))"
  by (simp add: scan_num_def Let_def case_prod_unfold)

lemma scan_num_append:
  assumes r: "json_delim r" and s: "scan_num s = Some (ip, fx, t)"
  shows "scan_num (s @ r) = Some (ip, fx, t @ r)"
proof (cases s)
  case Nil
  with s show ?thesis by (simp add: scan_num_def scan_nat_def scan_frac_def scan_exp_def)
next
  case (Cons c cs)
  have app: "(if c = CHR ''-'' then cs @ r else c # cs @ r) = (if c = CHR ''-'' then cs else c # cs) @ r"
    by simp
  show ?thesis
    using s unfolding Cons append_Cons scan_num_Cons app Let_def
    by (simp add: scan_nat_append [OF r] scan_frac_append [OF r] scan_exp_append [OF r] split: if_splits)
qed

lemma scan_num_int_str: "scan_num (int_str i) = Some (int_str i, [], [])"
proof -
  have nat: "scan_nat (nat_str n) = (nat_str n, [])" for n
  proof -
    obtain c cs where c: "nat_str n = c # cs" by (metis nat_str_nonempty neq_Nil_conv)
    have "\<forall>d\<in>set (nat_str n). is_digit d" using nat_str_digits by blast
    then have "takeWhile is_digit (nat_str n) = nat_str n" "dropWhile is_digit (nat_str n) = []"
      by (auto simp: takeWhile_eq_all_conv)
    with nat_str_leading [OF c] c show ?thesis
      by (auto simp: scan_nat_def)
  qed
  have nonneg: "hd (nat_str n) \<noteq> CHR ''-''" for n
    by (metis hd_in_set is_digit_not_minus nat_str_digits nat_str_nonempty)
  show ?thesis
    by (simp add: scan_num_def int_str_def nat nonneg scan_frac_def scan_exp_def)
qed

lemma int_of_text_int_str [simp]: "int_of_text (int_str i) = i"
proof -
  have nonneg: "hd (nat_str n) \<noteq> CHR ''-''" for n
    by (metis hd_in_set is_digit_not_minus nat_str_digits nat_str_nonempty)
  show ?thesis by (simp add: int_of_text_def int_str_def nonneg)
qed

lemma scan_num_hd:
  "scan_num s = Some (ip, fx, t) \<Longrightarrow> s \<noteq> [] \<and> (is_digit (hd s) \<or> hd s = CHR ''-'')"
proof -
  assume a: "scan_num s = Some (ip, fx, t)"
  show ?thesis
  proof (cases s)
    case Nil
    with a show ?thesis by (simp add: scan_num_def scan_nat_def scan_frac_def scan_exp_def)
  next
    case (Cons c cs)
    show ?thesis
    proof (rule ccontr)
      assume "\<not> ?thesis"
      with Cons have "\<not> is_digit c" "c \<noteq> CHR ''-''" by auto
      moreover from this have "c \<noteq> CHR ''0''" by (auto simp: is_digit_def in_ranges_def)
      ultimately show False
        using a Cons by (simp add: scan_num_def scan_nat_def case_prod_unfold)
    qed
  qed
qed

lemma p_value_atom:
  assumes "s \<noteq> []" and "hd s \<noteq> CHR 0x22" and "hd s \<noteq> CHR ''[''" and "hd s \<noteq> CHR ''{''" and "0 < n"
  shows "p_value fr n s = p_atom fr s"
  using assms by (cases n; cases s) auto

lemma p_atom_num:
  assumes "scan_num s = Some (ip, fx, r)"
  shows "p_atom fr s = Some (if fx = [] then JInt (int_of_text ip) else JFloat (fr (ip @ fx)), r)"
proof -
  from scan_num_hd [OF assms] obtain c cs where "s = c # cs" "is_digit c \<or> c = CHR ''-''"
    by (cases s) auto
  then have "\<not> starts_with ''null'' s" "\<not> starts_with ''true'' s" "\<not> starts_with ''false'' s"
    by (auto simp: is_digit_def in_ranges_def)
  with assms show ?thesis by (simp add: p_atom_def)
qed

lemma scan_num_text: "scan_num s = Some (ip, fx, []) \<Longrightarrow> ip @ fx = s"
proof -
  have nat: "fst (scan_nat v) @ snd (scan_nat v) = v" for v
    by (cases v) (auto simp: scan_nat_def)
  have frac: "fst (scan_frac v) @ snd (scan_frac v) = v" for v
    by (cases v) (auto simp: scan_frac_def)
  have ex: "fst (scan_exp v) @ snd (scan_exp v) = v" for v
    by (cases v; cases "tl v") (auto simp: scan_exp_def Let_def)
  assume a: "scan_num s = Some (ip, fx, [])"
  then obtain c u where s: "s = c # u" using scan_num_hd by (cases s) auto
  define v where "v = (if c = CHR ''-'' then u else c # u)"
  let ?ds = "fst (scan_nat v)" and ?fr = "scan_frac (snd (scan_nat v))"
  from a have ip: "ip = (if c = CHR ''-'' then ''-'' else []) @ ?ds"
    and fx: "fx = fst ?fr @ fst (scan_exp (snd ?fr))" and e: "snd (scan_exp (snd ?fr)) = []"
    unfolding s scan_num_Cons Let_def v_def [symmetric] by (auto split: if_splits)
  have "fst (scan_exp (snd ?fr)) = snd ?fr"
    using ex [of "snd ?fr"] e by simp
  then have "?ds @ fx = v"
    using fx frac [of "snd (scan_nat v)"] nat [of v] by simp
  then show "ip @ fx = s"
    by (simp add: ip s v_def split: if_splits)
qed

subsection \<open>Values\<close>

definition reads_back :: "(string \<Rightarrow> string) \<Rightarrow> json \<Rightarrow> bool" where
  "reads_back fr v \<longleftrightarrow>
     (\<forall>n rest. length (canonical_json v) \<le> n \<longrightarrow> json_delim rest \<longrightarrow>
        p_value fr n (canonical_json v @ rest) = Some (json_sorted v, rest))"

text \<open>The first character of a canonical text is neither white space nor a closing bracket.\<close>

lemma canonical_json_hd:
  assumes "json_ok fr v"
  shows "canonical_json v \<noteq> [] \<and> \<not> json_ws (hd (canonical_json v)) \<and>
     hd (canonical_json v) \<noteq> CHR '']''"
proof (cases v)
  case (JInt i)
  from scan_num_hd [OF scan_num_int_str [of i]] JInt show ?thesis
    by (auto simp: json_ws_def is_digit_def in_ranges_def)
next
  case (JFloat f)
  show ?thesis
  proof (cases "f = ''nan'' \<or> f = ''inf'' \<or> f = ''-inf''")
    case True
    with JFloat show ?thesis by (auto simp: float_json_def json_ws_def)
  next
    case False
    with assms JFloat have "scan_num f \<noteq> None"
      by (auto simp: float_ok_def split: option.splits)
    then obtain ip fx t where "scan_num f = Some (ip, fx, t)" by auto
    from scan_num_hd [OF this] JFloat False show ?thesis
      by (auto simp: float_json_def json_ws_def is_digit_def in_ranges_def)
  qed
qed (auto simp: json_quote_def json_ws_def)

lemma skip_ws_canonical:
  "json_ok fr v \<Longrightarrow> skip_ws (canonical_json v @ rest) = canonical_json v @ rest"
  using canonical_json_hd [of fr v] by (cases "canonical_json v") auto

lemma reads_back_float: "float_ok fr f \<Longrightarrow> reads_back fr (JFloat f)"
  unfolding reads_back_def
proof (intro allI impI)
  fix n rest
  assume ok: "float_ok fr f" and n: "length (canonical_json (JFloat f)) \<le> n" and d: "json_delim rest"
  show "p_value fr n (canonical_json (JFloat f) @ rest) = Some (json_sorted (JFloat f), rest)"
  proof (cases "f = ''nan'' \<or> f = ''inf'' \<or> f = ''-inf''")
    case True
    have num: "scan_num (''NaN'' @ rest) = None" "scan_num (''Infinity'' @ rest) = None"
      "scan_num (''-Infinity'' @ rest) = None"
      by (simp_all add: scan_num_def scan_nat_def case_prod_unfold is_digit_def in_ranges_def)
    show ?thesis
      using True n num by (cases n) (auto simp: float_json_def p_atom_def)
  next
    case False
    then obtain ip fx where s: "scan_num f = Some (ip, fx, [])" "fx \<noteq> []" "fr f = f"
      using ok by (auto simp: float_ok_def split: option.splits)
    have ftext: "float_json f = f" using False by (simp add: float_json_def)
    from scan_num_hd [OF s(1)] have first: "f \<noteq> []" "is_digit (hd f) \<or> hd f = CHR ''-''" by auto
    then have "p_value fr n (f @ rest) = p_atom fr (f @ rest)"
      using n ftext by (intro p_value_atom) (auto simp: is_digit_def in_ranges_def neq_Nil_conv)
    with p_atom_num [OF scan_num_append [OF d s(1)], of fr] s scan_num_text [OF s(1)] ftext
    show ?thesis by simp
  qed
qed

lemma reads_back_scalar: "reads_back fr JNull" "reads_back fr (JBool b)" "reads_back fr (JInt i)"
  "reads_back fr (JStr t)"
proof -
  show "reads_back fr JNull" "reads_back fr (JBool b)"
    unfolding reads_back_def by (auto simp: p_value_atom p_atom_def)
  show "reads_back fr (JInt i)"
    unfolding reads_back_def
  proof (intro allI impI)
    fix n rest
    assume n: "length (canonical_json (JInt i)) \<le> n" and d: "json_delim rest"
    from scan_num_hd [OF scan_num_int_str [of i]]
    have first: "int_str i \<noteq> []" "is_digit (hd (int_str i)) \<or> hd (int_str i) = CHR ''-''" by auto
    then have "p_value fr n (int_str i @ rest) = p_atom fr (int_str i @ rest)"
      using n by (intro p_value_atom) (auto simp: is_digit_def in_ranges_def neq_Nil_conv)
    with p_atom_num [OF scan_num_append [OF d scan_num_int_str [of i]], of fr]
    show "p_value fr n (canonical_json (JInt i) @ rest) = Some (json_sorted (JInt i), rest)"
      by simp
  qed
  show "reads_back fr (JStr t)"
    unfolding reads_back_def json_quote_def
    by (auto simp: scan_str_quote json_quote_def Suc_le_eq gr0_conv_Suc less_iff_Suc_add)
qed

lemma p_items_join:
  assumes "xs \<noteq> []" and "\<forall>x\<in>set xs. json_ok fr x \<and> reads_back fr x"
    and "length (join '','' (map canonical_json xs)) < n"
  shows "p_items fr n (join '','' (map canonical_json xs) @ CHR '']'' # rest) = Some (map json_sorted xs, rest)"
  using assms
proof (induction xs arbitrary: n rule: list_nonempty_induct)
  case (single x)
  then obtain m where n: "n = Suc m" and m: "length (canonical_json x) \<le> m"
    by (cases n) auto
  have "p_value fr m (canonical_json x @ CHR '']'' # rest) = Some (json_sorted x, CHR '']'' # rest)"
    using single m by (simp add: reads_back_def)
  then show ?case by (simp add: n json_ws_def)
next
  case (cons x xs)
  let ?t = "join '','' (map canonical_json xs)"
  have j: "join '','' (map canonical_json (x # xs)) = canonical_json x @ '','' @ ?t"
    using cons.hyps by (simp add: join_Cons)
  with cons.prems obtain m where n: "n = Suc m" and m: "length (canonical_json x) \<le> m" "length ?t < m"
    by (cases n) auto
  have v: "p_value fr m (canonical_json x @ CHR '','' # ?t @ CHR '']'' # rest) =
      Some (json_sorted x, CHR '','' # ?t @ CHR '']'' # rest)"
    using cons.prems m by (simp add: reads_back_def)
  have ws: "skip_ws (?t @ CHR '']'' # rest) = ?t @ CHR '']'' # rest"
  proof -
    obtain y ys where xs: "xs = y # ys" using cons.hyps by (cases xs) auto
    then obtain u where "?t = canonical_json y @ u" by (cases ys) auto
    with skip_ws_canonical [of fr y] cons.prems xs show ?thesis by simp
  qed
  have "p_items fr m (?t @ CHR '']'' # rest) = Some (map json_sorted xs, rest)"
    using cons.IH cons.prems m by simp
  with v ws show ?case unfolding j by (simp add: n json_ws_def)
qed

lemma p_members_join:
  assumes "kvs \<noteq> []" and "\<forall>(k, v)\<in>set kvs. json_ok fr v \<and> reads_back fr v"
    and "length (join '','' (map (\<lambda>(k, v). json_quote k @ '':'' @ canonical_json v) kvs)) < n"
  shows "p_members fr n (join '','' (map (\<lambda>(k, v). json_quote k @ '':'' @ canonical_json v) kvs) @ CHR ''}'' # rest) =
     Some (map (\<lambda>(k, v). (k, json_sorted v)) kvs, rest)"
  using assms
proof (induction kvs arbitrary: n rule: list_nonempty_induct)
  case (single p)
  obtain k v where p: "p = (k, v)" by (cases p)
  with single.prems obtain m where n: "n = Suc m" and m: "length (canonical_json v) \<le> m"
    by (cases n) auto
  have "p_value fr m (canonical_json v @ CHR ''}'' # rest) = Some (json_sorted v, CHR ''}'' # rest)"
    using single p m by (simp add: reads_back_def)
  then show ?case
    using single.prems p skip_ws_canonical [of fr v]
    by (simp add: n json_quote_def scan_str_quote json_ws_def)
next
  case (cons p kvs)
  obtain k v where p: "p = (k, v)" by (cases p)
  let ?f = "\<lambda>(k, v). json_quote k @ '':'' @ canonical_json v"
  let ?t = "join '','' (map ?f kvs)"
  have j: "join '','' (map ?f (p # kvs)) = json_quote k @ '':'' @ canonical_json v @ '','' @ ?t"
    using cons.hyps p by (simp add: join_Cons)
  with cons.prems obtain m where n: "n = Suc m" and m: "length (canonical_json v) \<le> m" "length ?t < m"
    by (cases n) (auto simp: json_quote_def)
  have v: "p_value fr m (canonical_json v @ CHR '','' # ?t @ CHR ''}'' # rest) =
      Some (json_sorted v, CHR '','' # ?t @ CHR ''}'' # rest)"
    using cons.prems p m by (simp add: reads_back_def)
  have ws: "skip_ws (?t @ CHR ''}'' # rest) = ?t @ CHR ''}'' # rest"
  proof -
    obtain q qs where "kvs = q # qs" using cons.hyps by (cases kvs) auto
    then obtain u where "?t = json_quote (fst q) @ u" by (cases qs; cases q) auto
    then show ?thesis by (simp add: json_quote_def json_ws_def)
  qed
  have "p_members fr m (?t @ CHR ''}'' # rest) = Some (map (\<lambda>(k, v). (k, json_sorted v)) kvs, rest)"
    using cons.IH cons.prems m by simp
  with v ws show ?case
    using cons.prems p skip_ws_canonical [of fr v] unfolding j
    by (simp add: n json_quote_def scan_str_quote json_ws_def)
qed

lemma reads_back_list:
  assumes "\<forall>x\<in>set xs. json_ok fr x \<and> reads_back fr x"
  shows "reads_back fr (JList xs)"
  unfolding reads_back_def
proof (intro allI impI)
  fix n rest
  assume "length (canonical_json (JList xs)) \<le> n"
  then obtain m where n: "n = Suc m" and m: "length (join '','' (map canonical_json xs)) < m"
    by (cases n) auto
  show "p_value fr n (canonical_json (JList xs) @ rest) = Some (json_sorted (JList xs), rest)"
  proof (cases xs)
    case Nil
    then show ?thesis by (simp add: n json_ws_def)
  next
    case (Cons x ys)
    then obtain u where u: "join '','' (map canonical_json xs) = canonical_json x @ u"
      by (cases ys) auto
    have "skip_ws (join '','' (map canonical_json xs) @ CHR '']'' # rest) =
        join '','' (map canonical_json xs) @ CHR '']'' # rest"
      using assms Cons u skip_ws_canonical [of fr x] by simp
    moreover have "\<not> starts_with '']'' (join '','' (map canonical_json xs) @ CHR '']'' # rest)"
      using assms Cons u canonical_json_hd [of fr x] by (cases "canonical_json x") auto
    ultimately show ?thesis
      using p_items_join [of xs fr m rest] assms Cons m by (simp add: n)
  qed
qed

lemma reads_back_dict:
  assumes "\<forall>(k, v)\<in>set kvs. json_ok fr v \<and> reads_back fr v" and "distinct (map fst kvs)"
  shows "reads_back fr (JDict kvs)"
  unfolding reads_back_def
proof (intro allI impI)
  fix n rest
  let ?f = "\<lambda>(k, v). json_quote k @ '':'' @ canonical_json v"
  let ?t = "join '','' (map ?f (sort_key fst kvs))"
  assume "length (canonical_json (JDict kvs)) \<le> n"
  then obtain m where n: "n = Suc m" and m: "length ?t < m"
    unfolding canonical_json_dict by (cases n) auto
  show "p_value fr n (canonical_json (JDict kvs) @ rest) = Some (json_sorted (JDict kvs), rest)"
  proof (cases "sort_key fst kvs")
    case Nil
    then have "kvs = []" by (metis length_sort length_0_conv)
    then show ?thesis by (simp add: n json_ws_def)
  next
    case (Cons p ps)
    then obtain u where "?t = json_quote (fst p) @ u" by (cases ps; cases p) auto
    then have ws: "skip_ws (?t @ CHR ''}'' # rest) = ?t @ CHR ''}'' # rest"
      "\<not> starts_with ''}'' (?t @ CHR ''}'' # rest)"
      by (auto simp: json_quote_def json_ws_def)
    have ps: "p_members fr m (?t @ CHR ''}'' # rest) =
        Some (map (\<lambda>(k, v). (k, json_sorted v)) (sort_key fst kvs), rest)"
    proof (rule p_members_join)
      show "sort_key fst kvs \<noteq> []" using Cons by simp
      show "\<forall>(k, v)\<in>set (sort_key fst kvs). json_ok fr v \<and> reads_back fr v"
        using assms(1) by simp
    qed (rule m)
    have "map fst (map (\<lambda>(k, v). (k, json_sorted v)) (sort_key fst kvs)) = map fst (sort_key fst kvs)"
      by (simp add: comp_def case_prod_unfold)
    moreover have "distinct (map fst (sort_key fst kvs))"
      by (metis assms(2) distinct_map distinct_sort set_sort)
    ultimately have "dict_of_pairs (map (\<lambda>(k, v). (k, json_sorted v)) (sort_key fst kvs)) =
        map (\<lambda>(k, v). (k, json_sorted v)) (sort_key fst kvs)"
      by (metis dict_of_pairs_distinct)
    with ws ps show ?thesis
      unfolding canonical_json_dict json_sorted_dict by (simp add: n del: starts_with.simps)
  qed
qed

lemma reads_back_ok: "json_ok fr v \<Longrightarrow> reads_back fr v"
proof (induction v rule: canonical_json.induct)
  case (6 xs)
  then show ?case by (intro reads_back_list) (auto simp: list_all_iff)
next
  case (7 kvs)
  then show ?case by (intro reads_back_dict) (auto simp: list_all_iff)
qed (auto intro: reads_back_scalar reads_back_float)

theorem json_roundtrip: "json_ok fr v \<Longrightarrow> json_loads fr (canonical_json v) = Some (json_sorted v)"
proof -
  assume ok: "json_ok fr v"
  have "p_value fr (2 * length (canonical_json v) + 2) (canonical_json v @ []) = Some (json_sorted v, [])"
    using reads_back_ok [OF ok] unfolding reads_back_def
    by (simp del: p_value.simps mult_Suc_right add_2_eq_Suc' append_Nil2)
  with skip_ws_canonical [OF ok, of "[]"] show ?thesis
    by (simp add: json_loads_def Let_def)
qed

text \<open>Sorting the keys does not change the canonical text, so canonical texts are fixed points.\<close>

lemma sort_key_sorted_map: "sort_key fst (map (\<lambda>(k, v). (k, g v)) (sort_key fst kvs)) = map (\<lambda>(k, v). (k, g v)) (sort_key fst kvs)"
  by (simp add: sort_key_apsnd sort_key_id_if_sorted)

lemma canonical_json_sorted: "canonical_json (json_sorted v) = canonical_json v"
proof (induction v rule: canonical_json.induct)
  case (6 xs)
  then have "map canonical_json (map json_sorted xs) = map canonical_json xs" by simp
  then show ?case by (simp only: json_sorted.simps canonical_json.simps)
next
  case (7 kvs)
  have "canonical_json (JDict (map (\<lambda>(k, v). (k, json_sorted v)) (sort_key fst kvs))) =
      ''{'' @ join '','' (map (\<lambda>(k, v). json_quote k @ '':'' @ canonical_json (json_sorted v)) (sort_key fst kvs)) @ ''}''"
    unfolding canonical_json_dict sort_key_sorted_map map_map comp_def by (simp add: case_prod_unfold)
  also have "map (\<lambda>(k, v). json_quote k @ '':'' @ canonical_json (json_sorted v)) (sort_key fst kvs) =
      map (\<lambda>(k, v). json_quote k @ '':'' @ canonical_json v) (sort_key fst kvs)"
    using 7 by (intro map_cong) auto
  finally show ?case
    unfolding json_sorted_dict canonical_json_dict .
qed auto

lemma json_ok_sorted: "json_ok fr v \<Longrightarrow> json_ok fr (json_sorted v)"
proof (induction v rule: json_sorted.induct)
  case (2 kvs)
  have "map fst (map (\<lambda>(k, v). (k, json_sorted v)) kvs) = map fst kvs"
    by (simp add: case_prod_unfold comp_def)
  moreover have "distinct (map fst (sort_key fst ps))" if "distinct (map fst ps)" for ps :: jdict
    using that by (metis distinct_map distinct_sort set_sort)
  ultimately have "distinct (map fst (sort_key fst (map (\<lambda>(k, v). (k, json_sorted v)) kvs)))"
    using 2(2) by (metis json_ok.simps(3))
  with 2 show ?case by (auto simp: list_all_iff)
qed (auto simp: list_all_iff)

lemma canonical_json_inj:
  "json_ok fr v \<Longrightarrow> json_ok fr w \<Longrightarrow> canonical_json v = canonical_json w \<Longrightarrow> json_sorted v = json_sorted w"
  by (metis json_roundtrip option.inject)

section \<open>The fuel is enough\<close>

lemma scan_str_shrinks: "scan_str s = Some (t, r) \<Longrightarrow> length r < length s"
proof (induction s arbitrary: t r rule: scan_str.induct)
  case (2 c s)
  show ?case
  proof (cases "c = CHR 0x5C")
    case True
    then obtain e u where s: "s = e # u" using "2.prems" by (cases s) auto
    show ?thesis
    proof (cases "e = CHR ''u''")
      case e: True
      with "2.prems" True s obtain t' where t': "scan_str (drop 4 u) = Some (t', r)" "4 \<le> length u"
        "list_all is_hex (take 4 u) \<and> hexs_val (take 4 u) < 256"
        by (auto split: if_splits)
      have "length r < length (drop 4 u)"
        by (rule "2.IH"(1) [OF _ True s e]) (use True t' in auto)
      with s show ?thesis by simp
    next
      case e: False
      with "2.prems" True s obtain d t' where d: "json_unesc e = Some d" and t': "scan_str u = Some (t', r)"
        by (auto split: option.splits)
      have "length r < length u"
        by (rule "2.IH"(2) [OF _ True s e d t']) (use True in auto)
      with s show ?thesis by simp
    qed
  next
    case False
    show ?thesis
    proof (cases "c = CHR 0x22")
      case True
      with "2.prems" show ?thesis by simp
    next
      case q: False
      with False "2.prems" obtain t' where "scan_str s = Some (t', r)" "\<not> of_char c < (32 :: nat)"
        by (auto split: if_splits)
      from "2.IH"(3) [OF q False this(2) this(1)] show ?thesis by simp
    qed
  qed
qed simp

lemma p_atom_shrinks: "p_atom fr s = Some (v, r) \<Longrightarrow> length r < length s"
proof -
  have word: "starts_with w s \<Longrightarrow> w \<noteq> [] \<Longrightarrow> length (drop (length w) s) < length s" for w
    by (auto simp: starts_with_iff)
  have num: "length r < length s" if "scan_num s = Some (ip, fx, r)" for ip fx r
  proof -
    from scan_num_hd [OF that] obtain c u where s: "s = c # u" by (cases s) auto
    define x where "x = (if c = CHR ''-'' then u else c # u)"
    have "fst (scan_nat x) @ snd (scan_nat x) = x"
      by (cases x) (auto simp: scan_nat_def)
    then have nat: "length (snd (scan_nat x)) + length (fst (scan_nat x)) = length x"
      by (metis add.commute length_append)
    have frac: "length (snd (scan_frac y)) \<le> length y" for y
      by (cases y) (auto simp: scan_frac_def length_dropWhile_le le_SucI)
    have ex: "length (snd (scan_exp y)) \<le> length y" for y
      by (auto simp: scan_exp_def Let_def intro: le_trans [OF length_dropWhile_le])
    from that have ds: "fst (scan_nat x) \<noteq> []"
      and r: "r = snd (scan_exp (snd (scan_frac (snd (scan_nat x)))))"
      unfolding s scan_num_Cons Let_def x_def [symmetric] by (auto split: if_splits)
    have "length r \<le> length (snd (scan_nat x))"
      unfolding r using le_trans [OF ex frac] by blast
    also have "\<dots> < length x" using nat ds by (metis length_greater_0_conv less_add_same_cancel1)
    also have "\<dots> \<le> length s" by (simp add: x_def s)
    finally show ?thesis .
  qed
  assume "p_atom fr s = Some (v, r)"
  then show ?thesis
    using word [of "''null''"] word [of "''true''"] word [of "''false''"] word [of "''NaN''"]
      word [of "''Infinity''"] word [of "''-Infinity''"] num
    by (auto simp: p_atom_def split: if_splits option.splits)
qed

lemma skip_ws_length: "length (skip_ws s) \<le> length s"
  by (rule length_dropWhile_le)

lemma p_shrinks:
  "p_value fr n s = Some (v, r) \<Longrightarrow> length r < length s"
  "p_items fr n s = Some (xs, r) \<Longrightarrow> length r < length s"
  "p_members fr n s = Some (ps, r) \<Longrightarrow> length r < length s"
proof (induction n arbitrary: s v r xs ps)
  case 0
  { case 1 then show ?case by simp }
  { case 2 then show ?case by simp }
  { case 3 then show ?case by simp }
next
  case (Suc n)
  { case 1
    then obtain c u where s: "s = c # u" by (cases s) auto
    have ws: "length (skip_ws u) \<le> length u" by (rule skip_ws_length)
    from 1 s show ?case
      using ws scan_str_shrinks [of u] Suc(2) [of "skip_ws u"] Suc(3) [of "skip_ws u"] p_atom_shrinks [of fr s]
      by (fastforce simp: Let_def starts_with_iff split: if_splits dest: less_le_trans) }
  { case 2
    then obtain v u where v: "p_value fr n s = Some (v, u)" by (auto split: option.splits)
    with 2 obtain c w where w: "skip_ws u = c # w" by (auto split: list.splits)
    have len: "length w < length s"
      using Suc(1) [OF v] skip_ws_length [of u] w by simp
    from 2 v w show ?case
      using len Suc(2) [of "skip_ws w"] skip_ws_length [of w]
      by (fastforce split: if_splits dest: less_le_trans) }
  { case 3
    then obtain k u where k: "scan_str (tl s) = Some (k, u)" by (auto split: option.splits if_splits)
    with 3 obtain w where w: "skip_ws u = CHR '':'' # w" by (auto split: list.splits if_splits)
    with 3 k obtain v x where v: "p_value fr n (skip_ws w) = Some (v, x)" by (auto split: option.splits if_splits)
    with 3 k w obtain c y where y: "skip_ws x = c # y" by (auto split: list.splits if_splits)
    have len: "length y < length s"
      using scan_str_shrinks [OF k] skip_ws_length [of u] skip_ws_length [of w] skip_ws_length [of x]
        Suc(1) [OF v] w y by simp
    from 3 k w v y show ?case
      using len Suc(3) [of "skip_ws y"] skip_ws_length [of y]
      by (fastforce split: if_splits dest: less_le_trans) }
qed

text \<open>
  Any two amounts of fuel beyond twice the length of the text give the same result, so a \<open>None\<close> of
  \<open>json_loads\<close> always means a text that is not JSON.
\<close>

lemma p_fuel:
  "2 * length s < n \<Longrightarrow> 2 * length s < m \<Longrightarrow> p_value fr n s = p_value fr m s"
  "2 * length s + 1 < n \<Longrightarrow> 2 * length s + 1 < m \<Longrightarrow> p_items fr n s = p_items fr m s"
  "2 * length s < n \<Longrightarrow> 2 * length s < m \<Longrightarrow> p_members fr n s = p_members fr m s"
proof (induction n arbitrary: s m)
  case 0
  { case 1 then show ?case by simp }
  { case 2 then show ?case by simp }
  { case 3 then show ?case by simp }
next
  case (Suc n)
  { case 1
    then obtain k where m: "m = Suc k" by (cases m) auto
    show ?case
    proof (cases s)
      case (Cons c u)
      have ws: "length (skip_ws u) \<le> length u" by (rule skip_ws_length)
      have "p_items fr n (skip_ws u) = p_items fr k (skip_ws u)"
        "p_members fr n (skip_ws u) = p_members fr k (skip_ws u)"
        by (rule Suc(2) Suc(3); use 1 Cons m ws in simp)+
      with Cons m show ?thesis by (simp add: Let_def)
    qed (simp add: m) }
  { case 2
    then obtain k where m: "m = Suc k" by (cases m) auto
    have v: "p_value fr n s = p_value fr k s"
      by (rule Suc(1)) (use 2 m in simp_all)
    have rest: "p_items fr n (skip_ws w) = p_items fr k (skip_ws w)"
      if "p_value fr k s = Some (x, u)" "skip_ws u = c # w" for x u c w
      by (rule Suc(2))
        (use 2 m p_shrinks(1) [OF that(1)] skip_ws_length [of u] skip_ws_length [of w] that(2) in simp_all)
    show ?case by (auto simp: m v rest simp del: dropWhile_eq_Nil_conv split: option.splits list.splits) }
  { case 3
    then obtain k where m: "m = Suc k" by (cases m) auto
    have v: "p_value fr n (skip_ws w) = p_value fr k (skip_ws w)"
      if "scan_str (tl s) = Some (key, u)" "skip_ws u = c # w" for key u c w
      by (rule Suc(1))
        (use 3 m scan_str_shrinks [OF that(1)] skip_ws_length [of u] skip_ws_length [of w] that(2) in simp_all)
    have rest: "p_members fr n (skip_ws y) = p_members fr k (skip_ws y)"
      if "scan_str (tl s) = Some (key, u)" "skip_ws u = c # w"
        "p_value fr k (skip_ws w) = Some (x, z)" "skip_ws z = d # y" for key u c w x z d y
      by (rule Suc(3))
        (use 3 m scan_str_shrinks [OF that(1)] skip_ws_length [of u] skip_ws_length [of w] that(2,4)
          p_shrinks(1) [OF that(3)] skip_ws_length [of z] skip_ws_length [of y] in simp_all)
    show ?case by (auto simp: m v rest simp del: dropWhile_eq_Nil_conv split: option.splits list.splits) }
qed

section \<open>What is read is well formed\<close>

text \<open>
  \<^verbatim>\<open>repr(float(literal))\<close> is itself a literal that reads back to the same float: the property of
  Python's shortest float \<^verbatim>\<open>repr\<close>, for the literals the scanner hands to \<^verbatim>\<open>float\<close>.
\<close>

definition frepr_ok :: "(string \<Rightarrow> string) \<Rightarrow> bool" where
  "frepr_ok fr \<longleftrightarrow> (\<forall>s ip fx r. scan_num s = Some (ip, fx, r) \<and> fx \<noteq> [] \<longrightarrow> float_ok fr (fr (ip @ fx)))"

lemma dict_set_distinct: "distinct (map fst d) \<Longrightarrow> distinct (map fst (dict_set k v d))"
proof (induction k v d rule: dict_set.induct)
  case (2 k v k' v' d)
  have "fst ` set (dict_set k v d) = insert k (fst ` set d)" by (rule keys_dict_set)
  with 2 show ?case by (cases "k = k'") simp_all
qed simp

lemma dict_set_set: "set (dict_set k v d) \<subseteq> insert (k, v) (set d)"
  by (induction k v d rule: dict_set.induct) auto

lemma dict_of_pairs_ok:
  assumes "list_all (\<lambda>(k, v). json_ok fr v) ps"
  shows "json_ok fr (JDict (dict_of_pairs ps))"
proof -
  have "distinct (map fst (foldl (\<lambda>d (k, v). dict_set k v d) d ps)) \<and>
        list_all (\<lambda>(k, v). json_ok fr v) (foldl (\<lambda>d (k, v). dict_set k v d) d ps)"
    if "distinct (map fst d)" "list_all (\<lambda>(k, v). json_ok fr v) d" for d
    using that assms
  proof (induction ps arbitrary: d)
    case (Cons p ps)
    obtain k v where p: "p = (k, v)" by (cases p)
    have "list_all (\<lambda>(k, v). json_ok fr v) (dict_set k v d)"
      using Cons.prems dict_set_set [of k v d] by (auto simp: p list_all_iff)
    with Cons show ?case by (simp add: p dict_set_distinct)
  qed simp
  from this [of "[]"] show ?thesis by (simp add: dict_of_pairs_def)
qed

lemma p_atom_ok:
  assumes "frepr_ok fr" and "p_atom fr s = Some (v, r)"
  shows "json_ok fr v"
proof (cases "scan_num s")
  case None
  with assms(2) show ?thesis by (auto simp: p_atom_def float_ok_def split: if_splits)
next
  case (Some t)
  obtain ip fx r' where t: "t = (ip, fx, r')" by (cases t)
  have "fx \<noteq> [] \<Longrightarrow> float_ok fr (fr (ip @ fx))"
    using assms(1) Some t unfolding frepr_ok_def by blast
  with assms(2) Some t show ?thesis by (auto simp: p_atom_def split: if_splits)
qed

lemma p_ok:
  assumes "frepr_ok fr"
  shows "p_value fr n s = Some (v, r) \<Longrightarrow> json_ok fr v"
    and "p_items fr n s = Some (xs, r) \<Longrightarrow> list_all (json_ok fr) xs"
    and "p_members fr n s = Some (ps, r) \<Longrightarrow> list_all (\<lambda>(k, v). json_ok fr v) ps"
proof (induction n arbitrary: s v r xs ps)
  case 0
  { case 1 then show ?case by simp }
  { case 2 then show ?case by simp }
  { case 3 then show ?case by simp }
next
  case (Suc n)
  { case 1
    then show ?case
      using Suc(2) Suc(3) dict_of_pairs_ok p_atom_ok [OF assms]
      by (fastforce simp: Let_def split: list.splits if_splits) }
  { case 2
    then show ?case
      using Suc(1) Suc(2) by (fastforce split: option.splits list.splits if_splits) }
  { case 3
    then show ?case
      using Suc(1) Suc(3) by (fastforce split: option.splits list.splits if_splits) }
qed

lemma json_loads_ok: "frepr_ok fr \<Longrightarrow> json_loads fr s = Some v \<Longrightarrow> json_ok fr v"
  by (auto simp: json_loads_def Let_def simp del: p_value.simps split: option.splits if_splits dest: p_ok)

section \<open>The codec as an interface\<close>

text \<open>
  What the store relies on: decoding an encoded value gives its normal form, and normal forms
  encode like the value. A text is canonical when decoding and encoding give it back.
\<close>

locale codec =
  fixes enc :: "'v \<Rightarrow> string" and dec :: "string \<Rightarrow> 'v option"
    and norm :: "'v \<Rightarrow> 'v" and ok :: "'v \<Rightarrow> bool"
  assumes dec_enc: "ok v \<Longrightarrow> dec (enc v) = Some (norm v)"
    and enc_norm: "enc (norm v) = enc v"
begin

lemma canonical_text: "ok v \<Longrightarrow> \<exists>u. dec (enc v) = Some u \<and> enc u = enc v"
  by (simp add: dec_enc enc_norm)

lemma enc_inj: "ok v \<Longrightarrow> ok u \<Longrightarrow> enc v = enc u \<Longrightarrow> norm v = norm u"
  by (metis dec_enc option.inject)

lemma dec_enc_norm: "ok v \<Longrightarrow> ok (norm v) \<Longrightarrow> norm (norm v) = norm v"
  by (metis dec_enc enc_norm option.inject)

end

interpretation canonical: codec canonical_json "json_loads fr" json_sorted "json_ok fr" for fr
  by unfold_locales (rule json_roundtrip, assumption, rule canonical_json_sorted)

end
