(* ===== verification/Py_Time.thy ===== *)
theory Py_Time
  imports Py_Json
begin

text \<open>
  Time stamps. An instant is a number of microseconds since 0001-01-01T00:00:00Z, the origin of Python's
  proleptic ordinals. \<^verbatim>\<open>isoformat\<close> renders it in UTC with six fractional digits and a \<^verbatim>\<open>Z\<close>; the
  calendar conversion is that of \<^verbatim>\<open>datetime\<close> (\<^verbatim>\<open>_ord2ymd\<close>). The \<open>TEXT\<close> columns of the database that
  hold such renderings are kept as instants in the model.
\<close>

type_synonym instant = int

abbreviation seconds :: "int \<Rightarrow> int" where
  "seconds n \<equiv> n * 1000000"

definition days_before_month :: "int \<Rightarrow> int" where
  "days_before_month m = [0, 0, 31, 59, 90, 120, 151, 181, 212, 243, 273, 304, 334] ! nat m"

definition days_in_month :: "int \<Rightarrow> int" where
  "days_in_month m = [0, 31, 28, 31, 30, 31, 30, 31, 31, 30, 31, 30, 31] ! nat m"

definition month_day :: "bool \<Rightarrow> int \<Rightarrow> int \<times> int" where
  "month_day leap n =
     (let month = (n + 50) div 32;
          preceding = days_before_month month + (if month > 2 \<and> leap then 1 else 0)
      in if preceding > n
         then (let month = month - 1;
                   preceding = preceding - (days_in_month month + (if month = 2 \<and> leap then 1 else 0))
               in (month, n - preceding + 1))
         else (month, n - preceding + 1))"

definition day_ymd :: "int \<Rightarrow> int \<times> int \<times> int" where
  "day_ymd d =
     (let n400 = d div 146097; n = d mod 146097;
          n100 = n div 36524; n = n mod 36524;
          n4 = n div 1461; n = n mod 1461;
          n1 = n div 365; n = n mod 365;
          year = n400 * 400 + 1 + n100 * 100 + n4 * 4 + n1
      in if n1 = 4 \<or> n100 = 4 then (year - 1, 12, 31)
         else (year, month_day (n1 = 3 \<and> (n4 \<noteq> 24 \<or> n100 = 3)) n))"

fun dec_pad :: "nat \<Rightarrow> int \<Rightarrow> string" where
  "dec_pad 0 n = []"
| "dec_pad (Suc k) n = dec_pad k (n div 10) @ [digit_char (nat (n mod 10))]"

definition isoformat :: "instant \<Rightarrow> string" where
  "isoformat t =
     (let (y, m, d) = day_ymd (t div 86400000000);
          us = t mod 86400000000;
          s = us div 1000000
      in dec_pad 4 y @ ''-'' @ dec_pad 2 m @ ''-'' @ dec_pad 2 d @ ''T'' @ dec_pad 2 (s div 3600) @ '':'' @
         dec_pad 2 (s div 60 mod 60) @ '':'' @ dec_pad 2 (s mod 60) @ ''.'' @ dec_pad 6 (us mod 1000000) @ ''Z'')"

end
