(* ===== verification/Broker_Util.thy ===== *)
theory Broker_Util
  imports Py_Regex Py_Time
begin

text \<open>
  \<^verbatim>\<open>broker/src/ops_broker/util.py\<close>: the redaction patterns, \<^verbatim>\<open>redact_text\<close>, \<^verbatim>\<open>scrub_payload\<close>,
  \<^verbatim>\<open>contains_sensitive_name\<close>, and the record of what the model takes from the
  Python runtime: SHA-256, the conversion of numeric literals and the reading of caller-supplied
  time stamps. The lemmas show that scrubbing leaves nothing under a sensitive key.
\<close>

section \<open>The runtime\<close>

text \<open>
  \<open>rt_sha256\<close> is \<^verbatim>\<open>hashlib.sha256(b).hexdigest()\<close>, \<open>rt_frepr\<close> is \<^verbatim>\<open>repr(float(literal))\<close>, and
  \<open>rt_timestamp\<close> says whether \<^verbatim>\<open>parse_timestamp\<close> accepts a caller-supplied text (\<^verbatim>\<open>False\<close> where
  \<^verbatim>\<open>datetime.fromisoformat\<close> raises \<^verbatim>\<open>ValueError\<close>).
\<close>

record runtime =
  rt_sha256 :: "nat list \<Rightarrow> string"
  rt_frepr :: "string \<Rightarrow> string"
  rt_timestamp :: "string \<Rightarrow> bool"

section \<open>Patterns\<close>

abbreviation "cls_lower \<equiv> (97, 122) :: nat \<times> nat"
abbreviation "cls_upper \<equiv> (65, 90) :: nat \<times> nat"
abbreviation "cls_digit \<equiv> (48, 57) :: nat \<times> nat"

definition cls_space :: "(nat \<times> nat) list" where
  "cls_space = [(9, 13), (28, 32), (133, 133), (160, 160)]"

definition rx_optsep :: rx where
  "rx_optsep = RRep 0 (Some 1) (RCls False [(95, 95), (45, 45)])"

definition SENSITIVE_KEY :: rx where
  "SENSITIVE_KEY =
     rx_alts [rx_lit ''password'', rx_lit ''passwd'', rx_lit ''pwd'', rx_lit ''token'',
       rx_lit ''secret'', rx_lit ''credential'', rx_lit ''authorization'',
       RSeq (rx_lit ''api'') (RSeq rx_optsep (rx_lit ''key'')),
       RSeq (rx_lit ''private'') (RSeq rx_optsep (rx_lit ''key''))]"

definition ASSIGNMENT :: rx where
  "ASSIGNMENT =
     RSeq RBound (RSeq (RGroup 1 SENSITIVE_KEY)
       (RSeq (RGroup 2 (RSeq (RRep 0 None (RCls False cls_space))
                (RSeq (RCls False [(58, 58), (61, 61)]) (RRep 0 None (RCls False cls_space)))))
             (RGroup 3 (RRep 1 None (RCls True (cls_space @ [(44, 44), (59, 59)]))))))"

definition BEARER :: rx where
  "BEARER =
     RSeq RBound (RSeq (rx_lit ''Bearer'') (RSeq (RRep 1 None (RCls False cls_space))
       (RRep 8 None (RCls False [cls_upper, cls_lower, cls_digit, (46, 46), (95, 95), (126, 126),
          (43, 43), (47, 47), (45, 45)]))))"

definition rx_b64 :: rx where
  "rx_b64 = RRep 8 None (RCls False [cls_upper, cls_lower, cls_digit, (95, 95), (45, 45)])"

definition JWT :: rx where
  "JWT =
     RSeq RBound (RSeq (rx_lit ''eyJ'') (RSeq rx_b64 (RSeq (rx_lit ''.'')
       (RSeq rx_b64 (RSeq (rx_lit ''.'') (RSeq rx_b64 RBound))))))"

definition PEM :: rx where
  "PEM =
     RSeq (rx_lit ''-----BEGIN '') (RSeq (RRep 0 None (RCls True [(45, 45)]))
       (RSeq (rx_lit ''PRIVATE KEY-----'') (RSeq (RLazy (RCls True []))
         (RSeq (rx_lit ''-----END '') (RSeq (RRep 0 None (RCls True [(45, 45)]))
            (rx_lit ''PRIVATE KEY-----''))))))"

section \<open>Redaction\<close>

definition group_text :: "(nat \<rightharpoonup> string) \<Rightarrow> nat \<Rightarrow> string" where
  "group_text g n = (case g n of None \<Rightarrow> [] | Some t \<Rightarrow> t)"

definition redact_text :: "string \<Rightarrow> string" where
  "redact_text value =
     (let value = rx_sub False PEM (\<lambda>_. ''[PRIVATE_KEY_REDACTED]'') value;
          value = rx_sub True BEARER (\<lambda>_. ''Bearer [REDACTED]'') value;
          value = rx_sub False JWT (\<lambda>_. ''[JWT_REDACTED]'') value
      in rx_sub True ASSIGNMENT (\<lambda>g. group_text g 1 @ group_text g 2 @ ''[REDACTED]'') value)"

definition contains_sensitive_name :: "string \<Rightarrow> bool" where
  "contains_sensitive_name value = rx_search True SENSITIVE_KEY value"

fun scrub_payload :: "json \<Rightarrow> json" where
  "scrub_payload (JDict kvs) =
     JDict (map (\<lambda>(k, v). (k, if contains_sensitive_name k then JStr ''[REDACTED]'' else scrub_payload v)) kvs)"
| "scrub_payload (JList xs) = JList (map scrub_payload xs)"
| "scrub_payload (JStr s) = JStr (redact_text s)"
| "scrub_payload v = v"

text \<open>No value other than the marker under a sensitive key, at any depth.\<close>

fun scrubbed :: "json \<Rightarrow> bool" where
  "scrubbed (JDict kvs) =
     list_all (\<lambda>(k, v). (contains_sensitive_name k \<longrightarrow> v = JStr ''[REDACTED]'') \<and> scrubbed v) kvs"
| "scrubbed (JList xs) = list_all scrubbed xs"
| "scrubbed v = True"

lemma scrubbed_scrub_payload: "scrubbed (scrub_payload v)"
  by (induction v rule: scrub_payload.induct) (auto simp: list_all_iff)

lemma json_ok_scrub_payload: "json_ok fr v \<Longrightarrow> json_ok fr (scrub_payload v)"
proof (induction v rule: scrub_payload.induct)
  case (1 kvs)
  have "fst \<circ> (\<lambda>(k, v). (k, if contains_sensitive_name k then JStr ''[REDACTED]'' else scrub_payload v)) = fst"
    by (auto simp: fun_eq_iff)
  with 1 show ?case by (auto simp: list_all_iff)
qed (auto simp: list_all_iff)

section \<open>JSON renderings\<close>

text \<open>JSON renderings used by the public views.\<close>

definition opt_json :: "('a \<Rightarrow> json) \<Rightarrow> 'a option \<Rightarrow> json" where
  "opt_json f x = (case x of None \<Rightarrow> JNull | Some v \<Rightarrow> f v)"

abbreviation jtime :: "instant \<Rightarrow> json" where
  "jtime t \<equiv> JStr (isoformat t)"

abbreviation jclip :: "nat \<Rightarrow> string \<Rightarrow> json" where
  "jclip n s \<equiv> JStr (take n s)"

section \<open>A sample runtime\<close>

text \<open>
  A concrete runtime on which the properties are evaluated: a digest of at most 64 characters
  that is cheap to evaluate, and a conversion that sends every literal to one float.
\<close>

definition sample_runtime :: runtime where
  "sample_runtime = \<lparr>rt_sha256 = (\<lambda>bytes. map (\<lambda>_. CHR ''f'') (take 64 bytes)), rt_frepr = (\<lambda>_. ''0.5''), rt_timestamp = (\<lambda>_. True)\<rparr>"

lemma sample_frepr_ok: "frepr_ok (rt_frepr sample_runtime)"
proof -
  have "float_ok (\<lambda>_. ''0.5'') ''0.5''" by code_simp
  then show ?thesis by (simp add: frepr_ok_def sample_runtime_def)
qed

end
