(* ===== verification/Py_Op.thy ===== *)
theory Py_Op
  imports Py_Time
begin

text \<open>
  Effects. A handler is a function from worlds to a result and a world. The world is the database of
  the service (a type parameter, one record per service), the tape of clock readings and the tape of
  \<^verbatim>\<open>uuid4\<close> values still to come; a service extends the record with what else its handlers touch.
  \<open>transaction\<close> restores the database when its body raises, which is what both services' \<^verbatim>\<open>BEGIN
  IMMEDIATE\<close> blocks do. The rules collected in \<open>op_simps\<close> and \<open>op_run\<close> follow the successful path of
  a handler, and the locale \<open>db_evolution\<close> proves a relation between the databases before and after a
  handler from its statements.
\<close>

section \<open>The world and its effects\<close>

record 'd pworld =
  w_db :: 'd
  w_clock :: "nat \<Rightarrow> instant"
  w_ticks :: nat
  w_uuids :: "nat \<Rightarrow> string"
  w_drawn :: nat

type_synonym ('d, 'z, 'a) pop = "('d, 'z) pworld_scheme \<Rightarrow> 'a res \<times> ('d, 'z) pworld_scheme"

definition op_ret :: "'a \<Rightarrow> ('d, 'z, 'a) pop" where
  "op_ret x = (\<lambda>w. (Inr x, w))"

definition op_raise :: "py_exc \<Rightarrow> ('d, 'z, 'a) pop" where
  "op_raise e = (\<lambda>w. (Inl e, w))"

definition op_bind :: "('d, 'z, 'a) pop \<Rightarrow> ('a \<Rightarrow> ('d, 'z, 'b) pop) \<Rightarrow> ('d, 'z, 'b) pop" where
  "op_bind m f = (\<lambda>w. case m w of (r, w') \<Rightarrow> (case r of Inl e \<Rightarrow> (Inl e, w') | Inr x \<Rightarrow> f x w'))"

text \<open>A computation that neither reads nor changes the world, and \<^verbatim>\<open>if c: raise e\<close>.\<close>

definition op_lift :: "'a res \<Rightarrow> ('d, 'z, 'a) pop" where
  "op_lift r = (\<lambda>w. (r, w))"

definition op_raise_if :: "bool \<Rightarrow> py_exc \<Rightarrow> ('d, 'z, unit) pop" where
  "op_raise_if c e = op_lift (raise_if c e)"

text \<open>A \<^verbatim>\<open>SELECT\<close>, and a data-changing statement.\<close>

definition op_query :: "('d \<Rightarrow> 'a) \<Rightarrow> ('d, 'z, 'a) pop" where
  "op_query f = (\<lambda>w. (Inr (f (w_db w)), w))"

definition op_exec :: "('d \<Rightarrow> 'd) \<Rightarrow> ('d, 'z, unit) pop" where
  "op_exec g = (\<lambda>w. (Inr (), w\<lparr>w_db := g (w_db w)\<rparr>))"

definition op_now :: "('d, 'z, instant) pop" where
  "op_now = (\<lambda>w. (Inr (w_clock w (w_ticks w)), w\<lparr>w_ticks := Suc (w_ticks w)\<rparr>))"

definition op_uuid4 :: "('d, 'z, string) pop" where
  "op_uuid4 = (\<lambda>w. (Inr (w_uuids w (w_drawn w)), w\<lparr>w_drawn := Suc (w_drawn w)\<rparr>))"

definition transaction :: "('d, 'z, 'a) pop \<Rightarrow> ('d, 'z, 'a) pop" where
  "transaction m = (\<lambda>w. case m w of
       (Inl e, w') \<Rightarrow> (Inl e, w'\<lparr>w_db := w_db w\<rparr>)
     | (Inr x, w') \<Rightarrow> (Inr x, w'))"

text \<open>\<^verbatim>\<open>try: m; except <matching> as exc: h(exc)\<close>.\<close>

definition op_catch :: "('d, 'z, 'a) pop \<Rightarrow> (py_exc \<Rightarrow> bool) \<Rightarrow> (py_exc \<Rightarrow> ('d, 'z, 'a) pop) \<Rightarrow> ('d, 'z, 'a) pop" where
  "op_catch m P h = (\<lambda>w. case m w of
       (Inl e, w') \<Rightarrow> if P e then h e w' else (Inl e, w')
     | (Inr x, w') \<Rightarrow> (Inr x, w'))"

fun op_iter :: "('a \<Rightarrow> ('d, 'z, unit) pop) \<Rightarrow> 'a list \<Rightarrow> ('d, 'z, unit) pop" where
  "op_iter f [] = op_ret ()"
| "op_iter f (x # xs) = op_bind (f x) (\<lambda>_. op_iter f xs)"

section \<open>Following a handler's successful path\<close>

text \<open>
  A handler that returns went through every one of its statements: these rules turn
  \<open>m w = (Inr x, w')\<close> into the facts its statements established.
\<close>

named_theorems op_simps "the successful path of a handler"

lemma op_ret_Inr [op_simps]: "op_ret x w = (Inr y, w') \<longleftrightarrow> y = x \<and> w' = w"
  by (auto simp: op_ret_def)

lemma op_raise_Inr [op_simps]: "op_raise e w \<noteq> (Inr y, w')"
  by (simp add: op_raise_def)

lemma op_bind_Inr [op_simps]:
  "op_bind m f w = (Inr y, w'') \<longleftrightarrow> (\<exists>x w'. m w = (Inr x, w') \<and> f x w' = (Inr y, w''))"
  by (auto simp: op_bind_def split: prod.splits sum.splits)

lemma op_bind_Inl:
  "op_bind m f w = (Inl e, w'') \<longleftrightarrow> m w = (Inl e, w'') \<or> (\<exists>x w'. m w = (Inr x, w') \<and> f x w' = (Inl e, w''))"
  by (auto simp: op_bind_def split: prod.splits sum.splits)

lemma op_lift_Inr [op_simps]: "op_lift r w = (Inr y, w') \<longleftrightarrow> r = Inr y \<and> w' = w"
  by (auto simp: op_lift_def)

lemma op_raise_if_Inr [op_simps]: "op_raise_if c e w = (Inr y, w') \<longleftrightarrow> \<not> c \<and> w' = w"
  by (simp add: op_raise_if_def op_lift_Inr)

lemma op_query_Inr [op_simps]: "op_query f w = (Inr y, w') \<longleftrightarrow> y = f (w_db w) \<and> w' = w"
  by (auto simp: op_query_def)

lemma op_exec_Inr [op_simps]: "op_exec g w = (Inr y, w') \<longleftrightarrow> w' = w\<lparr>w_db := g (w_db w)\<rparr>"
  by (auto simp: op_exec_def)

lemma op_now_Inr [op_simps]:
  "op_now w = (Inr y, w') \<longleftrightarrow> y = w_clock w (w_ticks w) \<and> w' = w\<lparr>w_ticks := Suc (w_ticks w)\<rparr>"
  by (auto simp: op_now_def)

lemma op_uuid4_Inr [op_simps]:
  "op_uuid4 w = (Inr y, w') \<longleftrightarrow> y = w_uuids w (w_drawn w) \<and> w' = w\<lparr>w_drawn := Suc (w_drawn w)\<rparr>"
  by (auto simp: op_uuid4_def)

lemma transaction_Inr [op_simps]: "transaction m w = (Inr x, w') \<longleftrightarrow> m w = (Inr x, w')"
  by (auto simp: transaction_def split: prod.splits sum.splits)

lemma transaction_Inl:
  "transaction m w = (Inl e, w') \<longleftrightarrow> (\<exists>w''. m w = (Inl e, w'') \<and> w' = w''\<lparr>w_db := w_db w\<rparr>)"
  by (auto simp: transaction_def split: prod.splits sum.splits)

lemma transaction_rollback: "transaction m w = (Inl e, w') \<Longrightarrow> w_db w' = w_db w"
  by (auto simp: transaction_Inl)

lemma op_catch_Inr:
  "op_catch m P h w = (Inr x, w') \<longleftrightarrow>
     m w = (Inr x, w') \<or> (\<exists>e w''. m w = (Inl e, w'') \<and> P e \<and> h e w'' = (Inr x, w'))"
  by (auto simp: op_catch_def split: prod.splits sum.splits)

section \<open>Running a handler\<close>

text \<open>The rules with which the simplifier runs a handler, statement by statement.\<close>

named_theorems op_run "running the statements of a handler"

lemma op_run_bind [op_run]:
  "op_bind (op_ret x) f w = f x w"
  "op_bind (op_raise e) f w = (Inl e, w)"
  "op_bind (op_lift (Inr x)) f w = f x w"
  "op_bind (op_lift (Inl e)) f w = (Inl e, w)"
  "op_bind (op_raise_if c e) u w = (if c then (Inl e, w) else u () w)"
  "op_bind (op_query q) f w = f (q (w_db w)) w"
  "op_bind (op_exec g) u w = u () (w\<lparr>w_db := g (w_db w)\<rparr>)"
  "op_bind op_now c1 w = c1 (w_clock w (w_ticks w)) (w\<lparr>w_ticks := Suc (w_ticks w)\<rparr>)"
  "op_bind op_uuid4 c2 w = c2 (w_uuids w (w_drawn w)) (w\<lparr>w_drawn := Suc (w_drawn w)\<rparr>)"
  "op_bind (op_bind m c3) f w = op_bind m (\<lambda>x. op_bind (c3 x) f) w"
  by (simp_all add: op_bind_def op_ret_def op_raise_def op_lift_def op_raise_if_def raise_if_def op_query_def op_exec_def
        op_now_def op_uuid4_def split: prod.splits sum.splits)

lemma op_run_last [op_run]:
  "fst (op_ret x w) = Inr x" "snd (op_ret x w) = w"
  "fst (op_raise e w) = Inl e" "snd (op_raise e w) = w"
  "fst (op_lift r w) = r" "snd (op_lift r w) = w"
  "op_raise_if c e w = (if c then (Inl e, w) else (Inr (), w))"
  "op_query q w = (Inr (q (w_db w)), w)"
  "op_exec g w = (Inr (), w\<lparr>w_db := g (w_db w)\<rparr>)"
  by (simp_all add: op_ret_def op_raise_def op_lift_def op_raise_if_def raise_if_def op_query_def op_exec_def)

text \<open>
  For evaluation, a statement runs only when it has a world: under a \<open>\<lambda>\<close> it stays as it is.
\<close>

lemma op_code [code]:
  "op_ret x w = (Inr x, w)"
  "op_raise e w = (Inl e, w)"
  "op_lift r w = (r, w)"
  "op_query q w = (Inr (q (w_db w)), w)"
  "op_exec g w = (Inr (), w\<lparr>w_db := g (w_db w)\<rparr>)"
  by (simp_all add: op_ret_def op_raise_def op_lift_def op_query_def op_exec_def)

lemma op_code_seq [code]:
  "op_bind m f w = (case m w of (Inl e, w') \<Rightarrow> (Inl e, w') | (Inr x, w') \<Rightarrow> f x w')"
  "op_catch m P h w = (case m w of (Inl e, w') \<Rightarrow> if P e then h e w' else (Inl e, w') | (Inr x, w') \<Rightarrow> (Inr x, w'))"
  "transaction m w = (case m w of (Inl e, w') \<Rightarrow> (Inl e, w'\<lparr>w_db := w_db w\<rparr>) | (Inr x, w') \<Rightarrow> (Inr x, w'))"
  by (simp_all add: op_bind_def op_catch_def transaction_def split: prod.splits sum.splits)

lemma transaction_run: "m w = (Inr x, w') \<Longrightarrow> transaction m w = (Inr x, w')"
  by (simp add: transaction_def)

lemma transaction_ok [op_run]: "is_ok (fst (transaction m w)) \<longleftrightarrow> is_ok (fst (m w))"
  by (auto simp: transaction_def split: prod.splits sum.splits)

section \<open>How a handler may change the database\<close>

text \<open>
  A relation between the database before and after. If it is reflexive and transitive, it holds of a
  handler as soon as it holds of each statement the handler issues, whichever way the handler ends.
\<close>

definition evolves :: "('d \<Rightarrow> 'd \<Rightarrow> bool) \<Rightarrow> ('d, 'z, 'a) pop \<Rightarrow> bool" where
  "evolves R m \<longleftrightarrow> (\<forall>w. R (w_db w) (w_db (snd (m w))))"

locale db_evolution =
  fixes R :: "'d \<Rightarrow> 'd \<Rightarrow> bool"
  assumes refl: "R d d"
    and trans: "R a b \<Longrightarrow> R b c \<Longrightarrow> R a c"
begin

lemma ev_ret: "evolves R (op_ret x)"
  by (simp add: evolves_def op_ret_def refl)

lemma ev_raise: "evolves R (op_raise e)"
  by (simp add: evolves_def op_raise_def refl)

lemma ev_lift: "evolves R (op_lift r)"
  by (simp add: evolves_def op_lift_def refl)

lemma ev_raise_if: "evolves R (op_raise_if c e)"
  by (simp add: op_raise_if_def ev_lift)

lemma ev_query: "evolves R (op_query f)"
  by (simp add: evolves_def op_query_def refl)

lemma ev_now: "evolves R op_now"
  by (simp add: evolves_def op_now_def refl)

lemma ev_uuid4: "evolves R op_uuid4"
  by (simp add: evolves_def op_uuid4_def refl)

lemma ev_exec: "(\<And>d. R d (g d)) \<Longrightarrow> evolves R (op_exec g)"
  by (simp add: evolves_def op_exec_def)

lemma ev_bind: "evolves R m \<Longrightarrow> (\<And>x. evolves R (f x)) \<Longrightarrow> evolves R (op_bind m f)"
proof -
  assume m: "evolves R m" and f: "\<And>x. evolves R (f x)"
  have "R (w_db w) (w_db (snd (op_bind m f w)))" for w
  proof (cases "m w")
    case (Pair r w')
    have "R (w_db w) (w_db w')" using m Pair by (metis evolves_def snd_conv)
    then show ?thesis
      using f trans Pair by (cases r) (auto simp: op_bind_def evolves_def)
  qed
  then show ?thesis by (simp add: evolves_def)
qed

text \<open>Rules that remember a value: what a check returned, and what was read just before a write.\<close>

lemma ev_bind_lift: "(\<And>x. r = Inr x \<Longrightarrow> evolves R (f x)) \<Longrightarrow> evolves R (op_bind (op_lift r) f)"
  by (cases r) (simp_all add: evolves_def op_bind_def op_lift_def refl)

lemma ev_query_exec:
  fixes k :: "'x \<Rightarrow> ('d, 'z, 'c) pop"
  assumes g: "\<And>d. R d (g (q d) d)" and k: "\<And>x. evolves R (k x)"
  shows "evolves R (op_bind (op_query q) (\<lambda>x. op_bind (op_exec (g x)) (\<lambda>_. k x)))"
  unfolding evolves_def
proof
  fix w :: "('d, 'z) pworld_scheme"
  let ?x = "q (w_db w)"
  let ?w = "w\<lparr>w_db := g ?x (w_db w)\<rparr>"
  have "R (w_db ?w) (w_db (snd (k ?x ?w)))" using k unfolding evolves_def by blast
  with g [of "w_db w"] have "R (w_db w) (w_db (snd (k ?x ?w)))" by (auto intro: trans)
  then show "R (w_db w) (w_db (snd (op_bind (op_query q) (\<lambda>x. op_bind (op_exec (g x)) (\<lambda>_. k x)) w)))"
    by (simp add: op_bind_def op_query_def op_exec_def)
qed

lemma ev_transaction: "evolves R m \<Longrightarrow> evolves R (transaction m)"
  unfolding evolves_def transaction_def
  by (auto simp: refl split: prod.splits sum.splits) (metis snd_conv)

lemma ev_catch: "evolves R m \<Longrightarrow> (\<And>e. evolves R (h e)) \<Longrightarrow> evolves R (op_catch m P h)"
  unfolding evolves_def op_catch_def
  by (auto split: prod.splits sum.splits) (metis trans snd_conv)+

lemma ev_iter: "(\<And>x. evolves R (f x)) \<Longrightarrow> evolves R (op_iter f xs)"
  by (induction xs) (simp_all add: ev_ret ev_bind)

lemma ev_if: "evolves R a \<Longrightarrow> evolves R b \<Longrightarrow> evolves R (if c then a else b)"
  by simp

lemma ev_option: "evolves R a \<Longrightarrow> (\<And>x. evolves R (b x)) \<Longrightarrow> evolves R (case z of None \<Rightarrow> a | Some x \<Rightarrow> b x)"
  by (cases z) auto

lemma ev_prod: "(\<And>x y. evolves R (b x y)) \<Longrightarrow> evolves R (case z of (x, y) \<Rightarrow> b x y)"
  by (cases z) auto

lemma ev_sum: "(\<And>x. evolves R (a x)) \<Longrightarrow> (\<And>x. evolves R (b x)) \<Longrightarrow> evolves R (case z of Inl x \<Rightarrow> a x | Inr x \<Rightarrow> b x)"
  by (cases z) auto

lemmas ev_rules = ev_ret ev_raise ev_lift ev_raise_if ev_query ev_now ev_uuid4 ev_transaction ev_catch
  ev_iter ev_if ev_option ev_prod ev_sum ev_bind

end

end
