(* ===== verification/Broker_Store.thy ===== *)
theory Broker_Store
  imports Broker_Util Py_Op
begin

text \<open>
  \<^verbatim>\<open>broker/src/ops_broker/database.py\<close>, the state store: one record per table of the schema, the
  database as the record of its tables, the world a request runs in, and the effects the handlers
  are written in. A table is the list of its rows in rowid order; columns that hold a rendering of
  the clock are kept as instants, JSON columns as their text. The world adds to the database the
  tape of clock readings and of \<^verbatim>\<open>uuid4\<close> values still to come, and the log of executor calls. A
  handler is a function from worlds to a result and a world; \<open>transaction\<close> restores the database when
  its body raises, as \<^verbatim>\<open>Database.transaction\<close> does.
\<close>

section \<open>Rows\<close>

record mission_row =
  mi_id :: string
  mi_request_id :: string
  mi_project_id :: string
  mi_title :: string
  mi_status :: string
  mi_created_by :: string
  mi_created_at :: instant
  mi_updated_at :: instant

record incident_row =
  in_id :: string
  in_request_id :: string
  in_project_id :: string
  in_title :: string
  in_severity :: string
  in_status :: string
  in_created_by :: string
  in_created_at :: instant
  in_updated_at :: instant

record action_row =
  ac_id :: string
  ac_request_id :: string
  ac_mission_id :: "string option"
  ac_incident_id :: "string option"
  ac_project_id :: string
  ac_runbook_id :: string
  ac_runbook_version :: int
  ac_action_class :: string
  ac_requested_by :: string
  ac_reason :: string
  ac_parameters_json :: string
  ac_argv_json :: "string option"
  ac_budget_key :: "string option"
  ac_status :: string
  ac_approval_deadline :: "instant option"
  ac_result_json :: "string option"
  ac_created_at :: instant
  ac_updated_at :: instant

record approval_row =
  av_id :: string
  av_request_id :: string
  av_action_id :: string
  av_actor_id :: string
  av_decision :: string
  av_source :: string
  av_source_event_id :: "string option"
  av_reason :: string
  av_created_at :: instant
  av_expires_at :: instant

record budget_row =
  bu_budget_key :: string
  bu_action_id :: string
  bu_used_at :: instant

text \<open>\<^verbatim>\<open>mission_status_changes\<close> and \<^verbatim>\<open>incident_status_changes\<close> have the same columns up to the entity's name.\<close>

record status_change_row =
  sc_request_id :: string
  sc_entity_id :: string
  sc_actor_id :: string
  sc_previous_status :: string
  sc_new_status :: string
  sc_created_at :: instant

record runtime_row =
  mr_mission_id :: string
  mr_environment :: string
  mr_priority :: int
  mr_queue_state :: string
  mr_objective :: string
  mr_summary :: string
  mr_impact :: string
  mr_risk :: string
  mr_plan_json :: string
  mr_current_step :: string
  mr_remaining_steps_json :: string
  mr_resources_json :: string
  mr_files_json :: string
  mr_next_action :: string
  mr_current_model_role :: "string option"
  mr_current_model :: "string option"
  mr_iteration_count :: int
  mr_max_iterations :: int
  mr_api_call_count :: int
  mr_max_api_calls :: int
  mr_deadline :: "string option"
  mr_claimed_by :: "string option"
  mr_claimed_at :: "instant option"
  mr_lease_until :: "instant option"
  mr_heartbeat_at :: "instant option"
  mr_updated_at :: instant

text \<open>\<^verbatim>\<open>mission_updates\<close>, \<^verbatim>\<open>action_artifact_updates\<close> and \<^verbatim>\<open>incident_updates\<close>.\<close>

record update_row =
  up_request_id :: string
  up_entity_id :: string
  up_actor_id :: string
  up_payload_json :: string
  up_created_at :: instant

record checkpoint_row =
  cp_id :: string
  cp_request_id :: string
  cp_mission_id :: string
  cp_sequence :: int
  cp_actor_id :: string
  cp_phase :: string
  cp_summary :: string
  cp_decisions_json :: string
  cp_completed_json :: string
  cp_pending_json :: string
  cp_evidence_json :: string
  cp_model_role :: "string option"
  cp_model_name :: "string option"
  cp_created_at :: instant

record record_row =
  re_id :: string
  re_request_id :: string
  re_mission_id :: string
  re_incident_id :: "string option"
  re_actor_id :: string
  re_kind :: string
  re_content :: string
  re_confidence :: "string option"  \<comment> \<open>the \<^verbatim>\<open>repr\<close> of the float\<close>
  re_evidence_json :: string
  re_model_trace_id :: "string option"
  re_created_at :: instant

record lock_row =
  lk_resource_id :: string
  lk_project_id :: string
  lk_mission_id :: string
  lk_holder_actor_id :: string
  lk_fencing_token :: int
  lk_acquired_at :: instant
  lk_heartbeat_at :: instant
  lk_lease_until :: instant

record lock_operation_row =
  lo_request_id :: string
  lo_resource_id :: string
  lo_mission_id :: string
  lo_actor_id :: string
  lo_operation :: string
  lo_result_json :: string
  lo_created_at :: instant

record claim_operation_row =
  co_request_id :: string
  co_mission_id :: "string option"
  co_actor_id :: string
  co_operation :: string
  co_result_json :: string
  co_created_at :: instant

record trace_row =
  tr_id :: string
  tr_request_id :: string
  tr_mission_id :: string
  tr_parent_trace_id :: "string option"
  tr_actor_id :: string
  tr_model_role :: string
  tr_provider :: string
  tr_model_name :: string
  tr_reason :: string
  tr_outcome :: string
  tr_confidence :: "string option"
  tr_input_tokens :: int
  tr_output_tokens :: int
  tr_cost_microunits :: int
  tr_started_at :: instant
  tr_finished_at :: "string option"

record artifacts_row =
  aa_action_id :: string
  aa_before_digest :: "string option"
  aa_after_digest :: "string option"
  aa_target_version :: "string option"
  aa_rollback_ref :: "string option"
  aa_diff_artifact :: "string option"
  aa_healthcheck_json :: string
  aa_updated_at :: instant

record details_row =
  de_incident_id :: string
  de_service :: string
  de_resource_id :: string
  de_environment :: string
  de_symptoms :: string
  de_impact :: string
  de_probable_causes_json :: string
  de_confirmed_cause :: string
  de_resolution :: string
  de_rollback :: string
  de_recommendations_json :: string
  de_versions_json :: string
  de_updated_at :: instant

text \<open>The audit log keeps the rendered time stamp, since it is part of what is hashed.\<close>

record event_row =
  ev_seq :: int
  ev_event_id :: string
  ev_occurred_at :: string
  ev_event_type :: string
  ev_actor_id :: string
  ev_entity_type :: string
  ev_entity_id :: string
  ev_payload_json :: string
  ev_previous_hash :: string
  ev_event_hash :: string

section \<open>The database\<close>

record db =
  tb_missions :: "mission_row list"
  tb_incidents :: "incident_row list"
  tb_actions :: "action_row list"
  tb_approvals :: "approval_row list"
  tb_budget_usage :: "budget_row list"
  tb_mission_status_changes :: "status_change_row list"
  tb_incident_status_changes :: "status_change_row list"
  tb_mission_runtime :: "runtime_row list"
  tb_mission_updates :: "update_row list"
  tb_mission_checkpoints :: "checkpoint_row list"
  tb_mission_records :: "record_row list"
  tb_resource_locks :: "lock_row list"
  tb_resource_lock_operations :: "lock_operation_row list"
  tb_mission_claim_operations :: "claim_operation_row list"
  tb_model_traces :: "trace_row list"
  tb_action_artifacts :: "artifacts_row list"
  tb_action_artifact_updates :: "update_row list"
  tb_incident_details :: "details_row list"
  tb_incident_updates :: "update_row list"
  tb_events :: "event_row list"
  tb_audit_head :: "(int \<times> string) option"

definition GENESIS_HASH :: string where
  "GENESIS_HASH = replicate 64 (CHR ''0'')"

definition empty_db :: db where
  "empty_db =
     \<lparr>tb_missions = [], tb_incidents = [], tb_actions = [], tb_approvals = [], tb_budget_usage = [],
      tb_mission_status_changes = [], tb_incident_status_changes = [], tb_mission_runtime = [],
      tb_mission_updates = [], tb_mission_checkpoints = [], tb_mission_records = [],
      tb_resource_locks = [], tb_resource_lock_operations = [], tb_mission_claim_operations = [],
      tb_model_traces = [], tb_action_artifacts = [], tb_action_artifact_updates = [],
      tb_incident_details = [], tb_incident_updates = [], tb_events = [], tb_audit_head = None\<rparr>"

text \<open>The \<^verbatim>\<open>DEFAULT\<close> clauses of \<^verbatim>\<open>mission_runtime\<close> and \<^verbatim>\<open>incident_details\<close>.\<close>

definition default_runtime :: "string \<Rightarrow> instant \<Rightarrow> runtime_row" where
  "default_runtime mission_id updated_at =
     \<lparr>mr_mission_id = mission_id, mr_environment = ''unknown'', mr_priority = 50,
      mr_queue_state = ''queued'', mr_objective = [], mr_summary = [], mr_impact = [], mr_risk = [],
      mr_plan_json = ''[]'', mr_current_step = [], mr_remaining_steps_json = ''[]'',
      mr_resources_json = ''[]'', mr_files_json = ''[]'', mr_next_action = [],
      mr_current_model_role = None, mr_current_model = None, mr_iteration_count = 0,
      mr_max_iterations = 12, mr_api_call_count = 0, mr_max_api_calls = 8, mr_deadline = None,
      mr_claimed_by = None, mr_claimed_at = None, mr_lease_until = None, mr_heartbeat_at = None,
      mr_updated_at = updated_at\<rparr>"

definition default_details :: "string \<Rightarrow> instant \<Rightarrow> details_row" where
  "default_details incident_id updated_at =
     \<lparr>de_incident_id = incident_id, de_service = [], de_resource_id = [], de_environment = ''unknown'',
      de_symptoms = [], de_impact = [], de_probable_causes_json = ''[]'', de_confirmed_cause = [],
      de_resolution = [], de_rollback = [], de_recommendations_json = ''[]'', de_versions_json = ''{}'',
      de_updated_at = updated_at\<rparr>"

text \<open>\<^verbatim>\<open>INSERT OR IGNORE\<close> into the two tables, as the triggers and the backfill use it.\<close>

definition ignore_runtime :: "string \<times> instant \<Rightarrow> runtime_row list \<Rightarrow> runtime_row list" where
  "ignore_runtime m t =
     (if fst m \<in> mr_mission_id ` set t then t else t @ [default_runtime (fst m) (snd m)])"

definition ignore_details :: "string \<times> instant \<Rightarrow> details_row list \<Rightarrow> details_row list" where
  "ignore_details i t =
     (if fst i \<in> de_incident_id ` set t then t else t @ [default_details (fst i) (snd i)])"

text \<open>\<^verbatim>\<open>INSERT INTO missions\<close> and \<^verbatim>\<open>INSERT INTO incidents\<close> with their triggers.\<close>

definition insert_mission :: "mission_row \<Rightarrow> db \<Rightarrow> db" where
  "insert_mission r d =
     d\<lparr>tb_missions := tb_missions d @ [r],
       tb_mission_runtime := ignore_runtime (mi_id r, mi_updated_at r) (tb_mission_runtime d)\<rparr>"

definition insert_incident :: "incident_row \<Rightarrow> db \<Rightarrow> db" where
  "insert_incident r d =
     d\<lparr>tb_incidents := tb_incidents d @ [r],
       tb_incident_details := ignore_details (in_id r, in_updated_at r) (tb_incident_details d)\<rparr>"

text \<open>
  Opening the file: \<^verbatim>\<open>executescript(_SCHEMA)\<close> on a database of a supported version (a missing table
  is an empty one, so \<^verbatim>\<open>CREATE TABLE IF NOT EXISTS\<close> is the identity), and the version-1 migration.
\<close>

definition apply_schema :: "db \<Rightarrow> db" where
  "apply_schema d =
     d\<lparr>tb_mission_runtime :=
         foldl (\<lambda>t m. ignore_runtime (mi_id m, mi_updated_at m) t) (tb_mission_runtime d) (tb_missions d),
       tb_incident_details :=
         foldl (\<lambda>t i. ignore_details (in_id i, in_updated_at i) t) (tb_incident_details d) (tb_incidents d),
       tb_audit_head := (case tb_audit_head d of None \<Rightarrow> Some (0, GENESIS_HASH) | Some h \<Rightarrow> Some h)\<rparr>"

definition fk_violation :: "db \<Rightarrow> bool" where
  "fk_violation d \<longleftrightarrow>
     list_ex (\<lambda>a. (case ac_mission_id a of None \<Rightarrow> False | Some m \<Rightarrow> m \<notin> mi_id ` set (tb_missions d)) \<or>
                  (case ac_incident_id a of None \<Rightarrow> False | Some i \<Rightarrow> i \<notin> in_id ` set (tb_incidents d)))
       (tb_actions d) \<or>
     list_ex (\<lambda>v. av_action_id v \<notin> ac_id ` set (tb_actions d)) (tb_approvals d) \<or>
     list_ex (\<lambda>b. bu_action_id b \<notin> ac_id ` set (tb_actions d)) (tb_budget_usage d)"

definition migrate_v1_to_v2 :: "db \<Rightarrow> db res" where
  "migrate_v1_to_v2 d =
     (let d' = d\<lparr>tb_missions := map (\<lambda>m. if mi_status m = ''closed'' then m\<lparr>mi_status := ''completed''\<rparr> else m)
                                (tb_missions d)\<rparr> in
      if fk_violation d' then Inl (RuntimeError ''foreign key validation failed during schema migration'')
      else Inr d')"

definition initialize :: "int \<Rightarrow> bool \<Rightarrow> db \<Rightarrow> db res" where
  "initialize version user_tables d =
     (if version \<notin> {0, 1, 2, 3} then Inl (RuntimeError ''unsupported database schema version'')
      else if version = 0 \<and> user_tables
      then Inl (RuntimeError ''refusing to upgrade an unversioned non-empty database'')
      else res_bind (if version = 1 then migrate_v1_to_v2 d else Inr d) (\<lambda>d. Inr (apply_schema d)))"

section \<open>The world\<close>

text \<open>The broker's world adds the log of executor calls.\<close>

record world = "db pworld" +
  w_runs :: "(string list \<times> int \<times> int) list"

type_synonym 'a op = "world \<Rightarrow> 'a res \<times> world"

section \<open>Keys\<close>

text \<open>The tables with a single-column key, as instances of the interface of the prelude.\<close>

interpretation missions: keyed_table mi_id .
interpretation actions: keyed_table ac_id .
interpretation runtimes: keyed_table mr_mission_id .
interpretation locks: keyed_table lk_resource_id .

section \<open>A sample world\<close>

definition sample_clock :: "nat \<Rightarrow> instant" where
  "sample_clock n = seconds (63000000000 + int n)"

definition sample_uuid :: "nat \<Rightarrow> string" where
  "sample_uuid n = ''00000000-0000-4000-8000-00000000'' @ hex_pad 4 (int n)"

definition sample_world :: "db \<Rightarrow> world" where
  "sample_world d =
     \<lparr>w_db = d, w_clock = sample_clock, w_ticks = 0, w_uuids = sample_uuid, w_drawn = 0, w_runs = []\<rparr>"

end
