(* ===== verification/Broker_Audit.thy ===== *)
theory Broker_Audit
  imports Broker_Store
begin

text \<open>
  The audit log of \<^verbatim>\<open>database.py\<close>: \<^verbatim>\<open>append_event\<close>, \<^verbatim>\<open>verify_audit_chain\<close> and \<^verbatim>\<open>_verify_snapshot\<close>. The
  locale \<open>hash_chain\<close> states what makes a list of entries a hash chain and proves, once, that chains
  grow at the end and that two chains with the same tip are equal unless two different hashed
  texts collide; it is interpreted on the events of the log.
\<close>

section \<open>Events\<close>

definition event_material ::
  "int \<Rightarrow> string \<Rightarrow> string \<Rightarrow> string \<Rightarrow> string \<Rightarrow> string \<Rightarrow> string \<Rightarrow> json \<Rightarrow> string \<Rightarrow> json" where
  "event_material seq event_id occurred_at event_type actor_id entity_type entity_id payload previous_hash =
     JDict [(''seq'', JInt seq), (''event_id'', JStr event_id), (''occurred_at'', JStr occurred_at),
       (''event_type'', JStr event_type), (''actor_id'', JStr actor_id), (''entity_type'', JStr entity_type),
       (''entity_id'', JStr entity_id), (''payload'', payload), (''previous_hash'', JStr previous_hash)]"

definition hash_json :: "runtime \<Rightarrow> json \<Rightarrow> string" where
  "hash_json rt v = rt_sha256 rt (utf8_encode (canonical_json v))"

definition append_event ::
  "runtime \<Rightarrow> string \<Rightarrow> string \<Rightarrow> string \<Rightarrow> string \<Rightarrow> string \<Rightarrow> json \<Rightarrow> string op" where
  "append_event rt occurred_at event_type actor_id entity_type entity_id payload =
     op_bind (op_query tb_audit_head) (\<lambda>head.
     case head of
       None \<Rightarrow> op_raise (RuntimeError ''audit head is missing'')
     | Some (last_seq, previous_hash) \<Rightarrow>
         op_bind op_uuid4 (\<lambda>event_id.
         let seq = last_seq + 1;
             clean_payload = scrub_payload payload;
             event_hash = hash_json rt (event_material seq event_id occurred_at event_type actor_id
                            entity_type entity_id clean_payload previous_hash);
             row = \<lparr>ev_seq = seq, ev_event_id = event_id, ev_occurred_at = occurred_at,
                    ev_event_type = event_type, ev_actor_id = actor_id, ev_entity_type = entity_type,
                    ev_entity_id = entity_id, ev_payload_json = canonical_json clean_payload,
                    ev_previous_hash = previous_hash, ev_event_hash = event_hash\<rparr> in
         op_bind (op_exec (\<lambda>d. d\<lparr>tb_events := tb_events d @ [row], tb_audit_head := Some (seq, event_hash)\<rparr>)) (\<lambda>_.
         op_ret event_id)))"

section \<open>Verification\<close>

record audit_verification =
  vf_valid :: bool
  vf_event_count :: int
  vf_failure_seq :: "int option"
  vf_reason :: "string option"

definition audit_verification_public :: "audit_verification \<Rightarrow> json" where
  "audit_verification_public v =
     JDict [(''valid'', JBool (vf_valid v)), (''event_count'', JInt (vf_event_count v)),
       (''failure_seq'', opt_json JInt (vf_failure_seq v)), (''reason'', opt_json JStr (vf_reason v))]"

definition row_material :: "event_row \<Rightarrow> json \<Rightarrow> json" where
  "row_material row payload =
     event_material (ev_seq row) (ev_event_id row) (ev_occurred_at row) (ev_event_type row) (ev_actor_id row)
       (ev_entity_type row) (ev_entity_id row) payload (ev_previous_hash row)"

text \<open>The loop of \<^verbatim>\<open>_verify_snapshot\<close>: the first bad row, or the hash of the last one.\<close>

fun verify_rows :: "runtime \<Rightarrow> int \<Rightarrow> string \<Rightarrow> int \<Rightarrow> event_row list \<Rightarrow> audit_verification + string" where
  "verify_rows rt count previous_hash expected_seq [] = Inr previous_hash"
| "verify_rows rt count previous_hash expected_seq (row # rows) =
     (let seq = ev_seq row;
          failure = (\<lambda>reason. Inl \<lparr>vf_valid = False, vf_event_count = count, vf_failure_seq = Some seq,
                                   vf_reason = Some reason\<rparr>) in
      if seq \<noteq> expected_seq then failure ''event sequence has a gap''
      else if ev_previous_hash row \<noteq> previous_hash then failure ''previous hash mismatch''
      else case json_loads (rt_frepr rt) (ev_payload_json row) of
        None \<Rightarrow> failure ''payload is not canonical JSON''
      | Some payload \<Rightarrow>
          if canonical_json payload \<noteq> ev_payload_json row then failure ''payload is not canonical JSON''
          else let calculated = hash_json rt (row_material row payload) in
            if calculated \<noteq> ev_event_hash row then failure ''event hash mismatch''
            else verify_rows rt count calculated (expected_seq + 1) rows)"

definition verify_snapshot :: "runtime \<Rightarrow> event_row list \<Rightarrow> (int \<times> string) option \<Rightarrow> audit_verification" where
  "verify_snapshot rt rows head =
     (let count = int (length rows);
          failure = (\<lambda>reason. \<lparr>vf_valid = False, vf_event_count = count, vf_failure_seq = None,
                               vf_reason = Some reason\<rparr>) in
      case verify_rows rt count GENESIS_HASH 1 rows of
        Inl v \<Rightarrow> v
      | Inr previous_hash \<Rightarrow>
          (case head of
             None \<Rightarrow> failure ''audit head is missing''
           | Some (last_seq, last_hash) \<Rightarrow>
               if last_seq \<noteq> count \<or> last_hash \<noteq> previous_hash then failure ''audit head mismatch''
               else \<lparr>vf_valid = True, vf_event_count = count, vf_failure_seq = None, vf_reason = None\<rparr>))"

definition verify_audit_chain :: "runtime \<Rightarrow> db \<Rightarrow> audit_verification" where
  "verify_audit_chain rt d = verify_snapshot rt (sort_key ev_seq (tb_events d)) (tb_audit_head d)"

section \<open>Hash chains\<close>

locale hash_chain =
  fixes genesis :: string and seq :: "'e \<Rightarrow> int" and prev :: "'e \<Rightarrow> string" and stored :: "'e \<Rightarrow> string"
    and wf :: "'e \<Rightarrow> bool" and material :: "'e \<Rightarrow> 'm" and digest :: "'m \<Rightarrow> string"
  assumes material_inj:
    "wf e \<Longrightarrow> wf e' \<Longrightarrow> stored e = stored e' \<Longrightarrow> material e = material e' \<Longrightarrow> e = e'"
begin

definition tip :: "'e list \<Rightarrow> string" where
  "tip es = (if es = [] then genesis else stored (last es))"

definition linked :: "'e list \<Rightarrow> bool" where
  "linked es \<longleftrightarrow> (\<forall>i < length es.
     seq (es ! i) = int i + 1 \<and> prev (es ! i) = tip (take i es) \<and> wf (es ! i) \<and>
     stored (es ! i) = digest (material (es ! i)))"

lemma linked_Nil: "linked []"
  by (simp add: linked_def)

lemma linked_append:
  "linked (es @ [e]) \<longleftrightarrow>
     linked es \<and> seq e = int (length es) + 1 \<and> prev e = tip es \<and> wf e \<and> stored e = digest (material e)"
  by (auto simp: linked_def nth_append less_Suc_eq)

lemma tip_append: "tip (es @ [e]) = stored e"
  by (simp add: tip_def)

text \<open>Equal tips and lengths, and no collision among the texts hashed: the chains are equal.\<close>

lemma tamper_evident:
  assumes "linked es" "linked es'" "length es = length es'" "tip es = tip es'"
    and "inj_on digest (material ` (set es \<union> set es'))"
  shows "es = es'"
  using assms
proof (induction es arbitrary: es' rule: rev_induct)
  case (snoc e es)
  then obtain fs f where es': "es' = fs @ [f]" by (cases es' rule: rev_cases) auto
  have "digest (material e) = digest (material f)"
    using snoc.prems by (simp add: es' linked_append tip_append)
  then have "material e = material f"
    by (rule inj_onD [OF snoc.prems(5)]) (simp_all add: es')
  then have "e = f"
    using snoc.prems by (intro material_inj) (simp_all add: es' linked_append tip_append)
  moreover have "es = fs"
  proof (rule snoc.IH)
    show "tip es = tip fs" using snoc.prems \<open>e = f\<close> by (simp add: es' linked_append)
    show "inj_on digest (material ` (set es \<union> set fs))"
      using snoc.prems(5) by (rule inj_on_subset) (auto simp: es')
  qed (use snoc.prems in \<open>simp_all add: es' linked_append\<close>)
  ultimately show ?case by (simp add: es')
qed simp

lemma linked_sorted: "linked es \<Longrightarrow> sorted (map seq es)"
  by (auto simp: linked_def sorted_iff_nth_mono)

end

text \<open>A payload column that decodes to a well-formed value and is that value's canonical text.\<close>

definition event_wf :: "runtime \<Rightarrow> event_row \<Rightarrow> bool" where
  "event_wf rt e \<longleftrightarrow>
     (case json_loads (rt_frepr rt) (ev_payload_json e) of None \<Rightarrow> False
      | Some v \<Rightarrow> json_ok (rt_frepr rt) v \<and> canonical_json v = ev_payload_json e)"

definition event_text :: "runtime \<Rightarrow> event_row \<Rightarrow> nat list" where
  "event_text rt e =
     utf8_encode (canonical_json (row_material e (the (json_loads (rt_frepr rt) (ev_payload_json e)))))"

lemma map_of_sort_key:
  assumes "distinct (map fst kvs)"
  shows "map_of (sort_key fst kvs) = map_of kvs"
proof -
  have "distinct (map fst (sort_key fst kvs))"
    using assms by (metis distinct_map distinct_sort set_sort)
  with assms show ?thesis by (simp add: map_of_inject_set)
qed

lemma json_sorted_lookup:
  assumes "distinct (map fst kvs)" "distinct (map fst kvs')" "json_sorted (JDict kvs) = json_sorted (JDict kvs')"
  shows "map_option json_sorted (map_of kvs k) = map_option json_sorted (map_of kvs' k)"
proof -
  have keys: "map fst (map (\<lambda>(k, v). (k, json_sorted v)) kvs) = map fst kvs" for kvs
    by (simp add: case_prod_unfold comp_def)
  have "map_of (sort_key fst (map (\<lambda>(k, v). (k, json_sorted v)) kvs)) k = map_option json_sorted (map_of kvs k)"
    if "distinct (map fst kvs)" for kvs
    using that map_of_sort_key [of "map (\<lambda>(k, v). (k, json_sorted v)) kvs"]
    unfolding keys by (simp add: map_of_map)
  with assms show ?thesis by (metis json.inject(6) json_sorted.simps(2))
qed

lemma row_material_ok: "json_ok fr v \<Longrightarrow> json_ok fr (row_material e v)"
  by (simp add: row_material_def event_material_def)

lemma row_material_inj:
  assumes "json_sorted (row_material e v) = json_sorted (row_material e' v')"
  shows "ev_seq e = ev_seq e' \<and> ev_event_id e = ev_event_id e' \<and> ev_occurred_at e = ev_occurred_at e' \<and>
    ev_event_type e = ev_event_type e' \<and> ev_actor_id e = ev_actor_id e' \<and> ev_entity_type e = ev_entity_type e' \<and>
    ev_entity_id e = ev_entity_id e' \<and> json_sorted v = json_sorted v' \<and> ev_previous_hash e = ev_previous_hash e'"
proof -
  note lookup = json_sorted_lookup [OF _ _ assms [unfolded row_material_def event_material_def], simplified]
  show ?thesis
    using lookup [of "''seq''"] lookup [of "''event_id''"] lookup [of "''occurred_at''"]
      lookup [of "''event_type''"] lookup [of "''actor_id''"] lookup [of "''entity_type''"]
      lookup [of "''entity_id''"] lookup [of "''payload''"] lookup [of "''previous_hash''"] by simp
qed

lemma event_text_inj:
  assumes "event_wf rt e" "event_wf rt e'" "ev_event_hash e = ev_event_hash e'" "event_text rt e = event_text rt e'"
  shows "e = e'"
proof -
  obtain v v' where v: "json_loads (rt_frepr rt) (ev_payload_json e) = Some v" "json_ok (rt_frepr rt) v"
      "canonical_json v = ev_payload_json e"
    and v': "json_loads (rt_frepr rt) (ev_payload_json e') = Some v'" "json_ok (rt_frepr rt) v'"
      "canonical_json v' = ev_payload_json e'"
    using assms(1,2) by (auto simp: event_wf_def split: option.splits)
  have "canonical_json (row_material e v) = canonical_json (row_material e' v')"
    using assms(4) v v' by (auto simp: event_text_def dest: utf8_encode_inj)
  then have "json_sorted (row_material e v) = json_sorted (row_material e' v')"
    by (intro canonical_json_inj [where fr = "rt_frepr rt"]) (simp_all add: v v' row_material_ok)
  then have "json_sorted v = json_sorted v'" and fields: "ev_seq e = ev_seq e'" "ev_event_id e = ev_event_id e'"
    "ev_occurred_at e = ev_occurred_at e'" "ev_event_type e = ev_event_type e'" "ev_actor_id e = ev_actor_id e'"
    "ev_entity_type e = ev_entity_type e'" "ev_entity_id e = ev_entity_id e'" "ev_previous_hash e = ev_previous_hash e'"
    by (auto dest: row_material_inj)
  then have "ev_payload_json e = ev_payload_json e'"
    using v(3) v'(3) by (metis canonical_json_sorted)
  with fields assms(3) show ?thesis by (intro event_row.equality) simp_all
qed

interpretation log: hash_chain GENESIS_HASH ev_seq ev_previous_hash ev_event_hash "event_wf rt" "event_text rt" "rt_sha256 rt" for rt
  by unfold_locales (rule event_text_inj)

section \<open>The log of a database\<close>

definition audit_ok :: "runtime \<Rightarrow> db \<Rightarrow> bool" where
  "audit_ok rt d \<longleftrightarrow> log.linked rt (tb_events d) \<and>
     tb_audit_head d = Some (int (length (tb_events d)), log.tip (tb_events d))"

lemma verify_rows_append:
  "verify_rows rt c p n (xs @ ys) =
     (case verify_rows rt c p n xs of Inl v \<Rightarrow> Inl v | Inr q \<Rightarrow> verify_rows rt c q (n + int (length xs)) ys)"
  by (induction xs arbitrary: p n) (auto simp: Let_def algebra_simps split: option.splits sum.splits)

lemma verify_rows_linked:
  "log.linked rt es \<Longrightarrow> verify_rows rt c GENESIS_HASH 1 es = Inr (log.tip es)"
proof (induction es rule: rev_induct)
  case (snoc e es)
  then have es: "log.linked rt es" and e: "ev_seq e = int (length es) + 1" "ev_previous_hash e = log.tip es"
    "event_wf rt e" "ev_event_hash e = rt_sha256 rt (event_text rt e)"
    by (simp_all add: log.linked_append)
  show ?case
    unfolding verify_rows_append snoc.IH [OF es] sum.case
    using e by (auto simp: log.tip_append event_wf_def event_text_def hash_json_def Let_def split: option.splits)
qed (simp add: log.tip_def)

text \<open>Under the property of float \<^verbatim>\<open>repr\<close>, the verifier accepts nothing but linked logs.\<close>

lemma verify_rows_Inr:
  "frepr_ok (rt_frepr rt) \<Longrightarrow> verify_rows rt c GENESIS_HASH 1 es = Inr q \<Longrightarrow> log.linked rt es \<and> q = log.tip es"
proof (induction es arbitrary: q rule: rev_induct)
  case (snoc e es)
  then obtain p where "verify_rows rt c GENESIS_HASH 1 es = Inr p"
    and step: "verify_rows rt c p (1 + int (length es)) [e] = Inr q"
    by (auto simp: verify_rows_append split: sum.splits)
  with snoc have es: "log.linked rt es" "p = log.tip es" by auto
  from step obtain v where "json_loads (rt_frepr rt) (ev_payload_json e) = Some v"
    "canonical_json v = ev_payload_json e" "ev_seq e = 1 + int (length es)" "ev_previous_hash e = p"
    "hash_json rt (row_material e v) = ev_event_hash e" "q = ev_event_hash e"
    by (auto simp: Let_def split: option.splits if_splits)
  then show ?case
    unfolding log.linked_append log.tip_append using es json_loads_ok [OF snoc.prems(1)]
    by (simp add: event_wf_def [of rt e] event_text_def [of rt e] hash_json_def)
qed (simp add: log.linked_Nil log.tip_def)

lemma verify_snapshot_valid:
  "vf_valid (verify_snapshot rt es head) \<longleftrightarrow>
     (\<exists>p. verify_rows rt (int (length es)) GENESIS_HASH 1 es = Inr p \<and> head = Some (int (length es), p))"
proof -
  have failed: "\<not> vf_valid v" if "verify_rows rt c p n rs = Inl v" for v c p n and rs
    using that by (induction rs arbitrary: p n) (auto simp: Let_def split: option.splits if_splits)
  show ?thesis
    by (cases "verify_rows rt (int (length es)) GENESIS_HASH 1 es")
       (auto simp: verify_snapshot_def Let_def dest: failed split: option.splits)
qed

lemma audit_ok_valid:
  assumes "audit_ok rt d"
  shows "vf_valid (verify_audit_chain rt d)"
proof -
  have "sort_key ev_seq (tb_events d) = tb_events d"
    using assms log.linked_sorted [of rt "tb_events d"] by (simp add: audit_ok_def sort_key_id_if_sorted)
  with assms show ?thesis
    by (simp add: audit_ok_def verify_audit_chain_def verify_snapshot_valid verify_rows_linked)
qed

text \<open>What every statement of the broker may do to the log: append scrubbed events, keeping it linked.\<close>

definition event_clean :: "event_row \<Rightarrow> bool" where
  "event_clean e \<longleftrightarrow> (\<exists>v. ev_payload_json e = canonical_json v \<and> scrubbed v)"

definition audit_extends :: "runtime \<Rightarrow> db \<Rightarrow> db \<Rightarrow> bool" where
  "audit_extends rt d d' \<longleftrightarrow>
     (\<exists>new. tb_events d' = tb_events d @ new \<and> list_all event_clean new) \<and> (audit_ok rt d \<longrightarrow> audit_ok rt d')"

interpretation audit: db_evolution "audit_extends rt" for rt
  by unfold_locales (auto simp: audit_extends_def)

lemma audit_extends_same:
  "tb_events d' = tb_events d \<Longrightarrow> tb_audit_head d' = tb_audit_head d \<Longrightarrow> audit_extends rt d d'"
  by (simp add: audit_extends_def audit_ok_def)

lemma audit_exec:
  "(\<And>d. tb_events (g d) = tb_events d \<and> tb_audit_head (g d) = tb_audit_head d) \<Longrightarrow>
   evolves (audit_extends rt) (op_exec g)"
  by (intro audit.ev_exec audit_extends_same) auto

lemma append_event_db:
  assumes "tb_audit_head (w_db w) = Some (n, h)"
  shows "append_event rt now t a et ei p w =
    (let row = \<lparr>ev_seq = n + 1, ev_event_id = w_uuids w (w_drawn w), ev_occurred_at = now, ev_event_type = t,
           ev_actor_id = a, ev_entity_type = et, ev_entity_id = ei, ev_payload_json = canonical_json (scrub_payload p),
           ev_previous_hash = h,
           ev_event_hash = hash_json rt (event_material (n + 1) (w_uuids w (w_drawn w)) now t a et ei (scrub_payload p) h)\<rparr>
     in (Inr (w_uuids w (w_drawn w)),
         w\<lparr>w_drawn := Suc (w_drawn w),
           w_db := (w_db w)\<lparr>tb_events := tb_events (w_db w) @ [row], tb_audit_head := Some (n + 1, ev_event_hash row)\<rparr>\<rparr>))"
  using assms
  by (simp add: append_event_def op_bind_def op_query_def op_uuid4_def op_exec_def op_ret_def Let_def)

lemma event_linked:
  assumes ok: "audit_ok rt d" and json: "json_ok (rt_frepr rt) p"
    and e: "e = \<lparr>ev_seq = int (length (tb_events d)) + 1, ev_event_id = u, ev_occurred_at = now, ev_event_type = t,
           ev_actor_id = a, ev_entity_type = et, ev_entity_id = ei, ev_payload_json = canonical_json p,
           ev_previous_hash = log.tip (tb_events d),
           ev_event_hash = hash_json rt (event_material (int (length (tb_events d)) + 1) u now t a et ei p
                             (log.tip (tb_events d)))\<rparr>"
  shows "log.linked rt (tb_events d @ [e])"
proof -
  have read: "json_loads (rt_frepr rt) (canonical_json p) = Some (json_sorted p)"
    using json by (rule json_roundtrip)
  have "canonical_json (row_material e (json_sorted p)) = canonical_json (row_material e p)"
    unfolding row_material_def event_material_def canonical_json.simps by (simp add: canonical_json_sorted)
  moreover have "json_ok (rt_frepr rt) (json_sorted p)"
    using json by (rule json_ok_sorted)
  ultimately show ?thesis
    using ok read
    by (simp add: log.linked_append audit_ok_def e event_wf_def event_text_def hash_json_def row_material_def
        canonical_json_sorted)
qed

text \<open>What a successful append did.\<close>

lemma append_event_Inr:
  assumes "append_event rt now t a et ei p w = (Inr u, w')"
  obtains e where "w' = w\<lparr>w_drawn := Suc (w_drawn w),
      w_db := (w_db w)\<lparr>tb_events := tb_events (w_db w) @ [e], tb_audit_head := Some (ev_seq e, ev_event_hash e)\<rparr>\<rparr>"
    "ev_event_type e = t" "ev_actor_id e = a" "ev_entity_type e = et" "ev_entity_id e = ei" "ev_occurred_at e = now"
    "ev_payload_json e = canonical_json (scrub_payload p)" "ev_event_id e = u"
proof (cases "tb_audit_head (w_db w)")
  case None
  then show ?thesis using assms by (simp add: append_event_def op_bind_def op_query_def op_raise_def)
next
  case (Some h)
  let ?e = "\<lparr>ev_seq = fst h + 1, ev_event_id = w_uuids w (w_drawn w), ev_occurred_at = now, ev_event_type = t,
           ev_actor_id = a, ev_entity_type = et, ev_entity_id = ei, ev_payload_json = canonical_json (scrub_payload p),
           ev_previous_hash = snd h,
           ev_event_hash = hash_json rt (event_material (fst h + 1) (w_uuids w (w_drawn w)) now t a et ei
                             (scrub_payload p) (snd h))\<rparr>"
  show ?thesis
    by (rule that [of ?e])
       (use Some assms append_event_db [of w "fst h" "snd h" rt now t a et ei p] in \<open>auto simp: Let_def\<close>)
qed

lemma append_event_total:
  "tb_audit_head (w_db w) = Some h \<Longrightarrow> \<exists>u w'. append_event rt now t a et ei p w = (Inr u, w')"
  using append_event_db [of w "fst h" "snd h" rt now t a et ei p] by (auto simp: Let_def)

lemma append_event_ok:
  assumes "audit_ok rt (w_db w)" "json_ok (rt_frepr rt) p" "append_event rt now t a et ei p w = (Inr u, w')"
  shows "audit_ok rt (w_db w')"
proof -
  have head: "tb_audit_head (w_db w) = Some (int (length (tb_events (w_db w))), log.tip (tb_events (w_db w)))"
    using assms(1) by (simp add: audit_ok_def)
  note linked = event_linked [OF assms(1) json_ok_scrub_payload [OF assms(2)] refl]
  show ?thesis
    using assms(3) linked unfolding append_event_db [OF head] Let_def
    by (auto simp: audit_ok_def log.tip_append)
qed

lemma audit_append_event:
  assumes "json_ok (rt_frepr rt) p"
  shows "evolves (audit_extends rt) (append_event rt now t a et ei p)"
  unfolding evolves_def
proof
  fix w
  show "audit_extends rt (w_db w) (w_db (snd (append_event rt now t a et ei p w)))"
  proof (cases "append_event rt now t a et ei p w")
    case (Pair r w')
    show ?thesis
    proof (cases r)
      case (Inl e)
      then have "w' = w"
        using Pair by (auto simp: append_event_def op_bind_def op_query_def op_raise_def op_uuid4_def op_exec_def
                       op_ret_def Let_def split: option.splits)
      with Pair show ?thesis by (simp add: audit.refl)
    next
      case (Inr u)
      then obtain e where "tb_events (w_db w') = tb_events (w_db w) @ [e]"
        "ev_payload_json e = canonical_json (scrub_payload p)"
        using Pair by (auto elim!: append_event_Inr)
      moreover have "event_clean e"
        using calculation(2) scrubbed_scrub_payload [of p] by (auto simp: event_clean_def)
      ultimately show ?thesis
        using append_event_ok [OF _ assms] Pair Inr by (auto simp: audit_extends_def)
    qed
  qed
qed

section \<open>Everything but the log\<close>

text \<open>The database without its log, and the worlds that differ only in the log and the tape of identifiers.\<close>

definition db_core :: "db \<Rightarrow> db" where
  "db_core d = d\<lparr>tb_events := [], tb_audit_head := None\<rparr>"

definition log_only :: "world \<Rightarrow> world \<Rightarrow> bool" where
  "log_only w w' \<longleftrightarrow> db_core (w_db w') = db_core (w_db w) \<and> w_clock w' = w_clock w \<and> w_ticks w' = w_ticks w \<and>
     w_uuids w' = w_uuids w \<and> w_drawn w \<le> w_drawn w' \<and> w_runs w' = w_runs w"

lemma log_only_refl: "log_only w w"
  by (simp add: log_only_def)

lemma log_only_trans: "log_only a b \<Longrightarrow> log_only b c \<Longrightarrow> log_only a c"
  by (simp add: log_only_def)

lemma db_core_tables:
  assumes "db_core d = db_core d'"
  shows "tb_missions d = tb_missions d'" and "tb_incidents d = tb_incidents d'" and "tb_actions d = tb_actions d'" and "tb_approvals d = tb_approvals d'" and "tb_budget_usage d = tb_budget_usage d'" and "tb_mission_status_changes d = tb_mission_status_changes d'" and "tb_incident_status_changes d = tb_incident_status_changes d'" and "tb_mission_runtime d = tb_mission_runtime d'" and "tb_mission_updates d = tb_mission_updates d'" and "tb_mission_checkpoints d = tb_mission_checkpoints d'" and "tb_mission_records d = tb_mission_records d'" and "tb_resource_locks d = tb_resource_locks d'" and "tb_resource_lock_operations d = tb_resource_lock_operations d'" and "tb_mission_claim_operations d = tb_mission_claim_operations d'" and "tb_model_traces d = tb_model_traces d'" and "tb_action_artifacts d = tb_action_artifacts d'" and "tb_action_artifact_updates d = tb_action_artifact_updates d'" and "tb_incident_details d = tb_incident_details d'" and "tb_incident_updates d = tb_incident_updates d'"
  using assms by (cases d; cases d'; simp add: db_core_def)+

lemma append_event_log_only:
  assumes "append_event rt now t a et ei p w = (Inr u, w')"
  shows "log_only w w'"
  using assms by (auto simp: log_only_def db_core_def elim!: append_event_Inr)

lemma op_iter_log_only:
  assumes "\<And>x w u w'. f x w = (Inr u, w') \<Longrightarrow> log_only w w'"
  shows "op_iter f xs w = (Inr u, w') \<Longrightarrow> log_only w w'"
proof (induction xs arbitrary: w)
  case (Cons x xs)
  then obtain w1 u1 where "f x w = (Inr u1, w1)" "op_iter f xs w1 = (Inr u, w')"
    by (auto simp: op_bind_Inr)
  with Cons.IH assms show ?case by (blast intro: log_only_trans)
qed (auto simp: op_ret_Inr log_only_refl)

lemma append_events_log_only:
  assumes "op_iter (\<lambda>x. op_bind (append_event rt now t a et x p) (\<lambda>_. op_ret ())) xs w = (Inr u, w')"
  shows "log_only w w'"
  by (rule op_iter_log_only [OF _ assms]) (auto simp: op_simps dest: append_event_log_only)

text \<open>The world after an event was appended, kept opaque: only its log and tape differ.\<close>

definition logged :: "runtime \<Rightarrow> string \<Rightarrow> string \<Rightarrow> string \<Rightarrow> string \<Rightarrow> string \<Rightarrow> json \<Rightarrow> world \<Rightarrow> world" where
  "logged rt now t a et ei p w = snd (append_event rt now t a et ei p w)"

lemma append_event_raise:
  "tb_audit_head (w_db w) = None \<Longrightarrow> append_event rt now t a et ei p w = (Inl (RuntimeError ''audit head is missing''), w)"
  by (simp add: append_event_def op_bind_def op_query_def op_raise_def)

lemma append_event_logged:
  "tb_audit_head (w_db w) \<noteq> None \<Longrightarrow>
   append_event rt now t a et ei p w = (Inr (w_uuids w (w_drawn w)), logged rt now t a et ei p w)"
  by (auto simp: logged_def append_event_db Let_def)

lemma append_event_run [op_run]:
  "tb_audit_head (w_db w) \<noteq> None \<Longrightarrow>
   op_bind (append_event rt now t a et ei p) f w = f (w_uuids w (w_drawn w)) (logged rt now t a et ei p w)"
  by (simp add: op_bind_def append_event_logged)

lemma log_only_logged: "log_only w (logged rt now t a et ei p w)"
proof (cases "tb_audit_head (w_db w)")
  case None
  then show ?thesis by (simp add: logged_def append_event_raise log_only_refl)
next
  case (Some h)
  then show ?thesis using append_event_log_only [OF append_event_logged] by blast
qed

lemma logged_head [simp]: "tb_audit_head (w_db (logged rt now t a et ei p w)) = None \<longleftrightarrow> tb_audit_head (w_db w) = None"
  by (cases "tb_audit_head (w_db w)") (auto simp: logged_def append_event_raise append_event_db Let_def)

lemma logged_core [simp]: "db_core (w_db (logged rt now t a et ei p w)) = db_core (w_db w)"
  using log_only_logged by (simp add: log_only_def)

lemmas logged_tables [simp] = db_core_tables [OF logged_core]

lemma logged_world [simp]:
  "w_clock (logged rt now t a et ei p w) = w_clock w" "w_ticks (logged rt now t a et ei p w) = w_ticks w"
  "w_uuids (logged rt now t a et ei p w) = w_uuids w" "w_runs (logged rt now t a et ei p w) = w_runs w"
  "w_drawn (logged rt now t a et ei p w) \<ge> w_drawn w"
  using log_only_logged [of w rt now t a et ei p] by (simp_all add: log_only_def)

lemma append_events_ok:
  "tb_audit_head (w_db w) \<noteq> None \<Longrightarrow>
   \<exists>w'. op_iter (\<lambda>x. op_bind (append_event rt now t a et x p) (\<lambda>_. op_ret ())) xs w = (Inr (), w') \<and>
     log_only w w' \<and> tb_audit_head (w_db w') \<noteq> None"
proof (induction xs arbitrary: w)
  case Nil
  then show ?case by (simp add: op_ret_def log_only_refl)
next
  case (Cons x xs)
  let ?w = "logged rt now t a et x p w"
  have head: "tb_audit_head (w_db ?w) \<noteq> None" using Cons.prems by simp
  obtain w' where "op_iter (\<lambda>x. op_bind (append_event rt now t a et x p) (\<lambda>_. op_ret ())) xs ?w = (Inr (), w')"
      "log_only ?w w'" "tb_audit_head (w_db w') \<noteq> None"
    using Cons.IH [OF head] by blast
  moreover have "log_only w w'" by (rule log_only_trans [OF log_only_logged calculation(2)])
  ultimately show ?case using Cons.prems by (simp add: op_run)
qed

section \<open>Properties\<close>

lemma linked_explicit:
  "log.linked rt rows \<longleftrightarrow> (\<forall>i < length rows. ev_seq (rows ! i) = int i + 1 \<and>
     ev_previous_hash (rows ! i) = (if i = 0 then GENESIS_HASH else ev_event_hash (rows ! (i - 1))) \<and>
     event_wf rt (rows ! i) \<and> ev_event_hash (rows ! i) = rt_sha256 rt (event_text rt (rows ! i)))"
proof -
  have "log.tip (take i rows) = (if i = 0 then GENESIS_HASH else ev_event_hash (rows ! (i - 1)))"
    if "i < length rows" for i
    using that by (auto simp: log.tip_def last_conv_nth)
  then show ?thesis by (auto simp: log.linked_def)
qed

lemma event_good:
  assumes "frepr_ok (rt_frepr rt)"
  shows "event_wf rt e \<and> ev_event_hash e = rt_sha256 rt (event_text rt e) \<longleftrightarrow>
    (\<exists>v. json_loads (rt_frepr rt) (ev_payload_json e) = Some v \<and> canonical_json v = ev_payload_json e \<and>
         ev_event_hash e = hash_json rt (row_material e v))"
  using json_loads_ok [OF assms, of "ev_payload_json e"]
  by (cases "json_loads (rt_frepr rt) (ev_payload_json e)") (simp_all add: event_wf_def event_text_def hash_json_def)

lemma verify_snapshot_valid_eq:
  assumes "vf_valid (verify_snapshot rt es head)"
  shows "verify_snapshot rt es head =
    \<lparr>vf_valid = True, vf_event_count = int (length es), vf_failure_seq = None, vf_reason = None\<rparr>"
proof -
  obtain p where "verify_rows rt (int (length es)) GENESIS_HASH 1 es = Inr p" "head = Some (int (length es), p)"
    using assms by (auto simp: verify_snapshot_valid)
  then show ?thesis by (simp add: verify_snapshot_def Let_def)
qed

definition sample_event :: event_row where
  "sample_event = hd (tb_events (w_db (snd (append_event sample_runtime ''2026-01-01T00:00:00.000000Z''
     ''mission.created'' ''hermes'' ''mission'' ''m'' (JDict []) (sample_world (apply_schema empty_db))))))"

lemma sample_event_valid:
  "vf_valid (verify_snapshot sample_runtime [sample_event] (Some (1, ev_event_hash sample_event)))"
proof -
  let ?w = "sample_world (apply_schema empty_db)"
  have empty: "tb_events (w_db ?w) = []" "tb_audit_head (w_db ?w) = Some (0, GENESIS_HASH)"
    by (simp_all add: sample_world_def apply_schema_def empty_db_def)
  then have ok: "audit_ok sample_runtime (w_db ?w)"
    by (simp add: audit_ok_def log.linked_Nil log.tip_def)
  obtain u w' where app: "append_event sample_runtime ''2026-01-01T00:00:00.000000Z'' ''mission.created'' ''hermes''
      ''mission'' ''m'' (JDict []) ?w = (Inr u, w')"
    using append_event_total [OF empty(2)] by blast
  then have "tb_events (w_db w') = [sample_event]"
    by (auto simp: sample_event_def empty elim!: append_event_Inr)
  then show ?thesis
    using append_event_ok [OF ok _ app]
    by (simp add: audit_ok_def verify_snapshot_valid verify_rows_linked log.tip_def del: verify_rows.simps)
qed

text \<open>
  C29. The verifier accepts a snapshot exactly when the rows are numbered from 1 without a gap, every
  row carries its predecessor's hash (the first one the genesis hash), its payload is canonical
  JSON, its own hash is the SHA-256 of its canonical material, and the head names the last row.
\<close>

theorem verify_snapshot_iff:
  assumes "frepr_ok (rt_frepr rt)"
  shows "vf_valid (verify_snapshot rt rows head) \<longleftrightarrow>
    (\<forall>i < length rows. ev_seq (rows ! i) = int i + 1 \<and>
       ev_previous_hash (rows ! i) = (if i = 0 then GENESIS_HASH else ev_event_hash (rows ! (i - 1))) \<and>
       (\<exists>v. json_loads (rt_frepr rt) (ev_payload_json (rows ! i)) = Some v \<and>
            canonical_json v = ev_payload_json (rows ! i) \<and>
            ev_event_hash (rows ! i) = hash_json rt (row_material (rows ! i) v))) \<and>
    head = Some (int (length rows), if rows = [] then GENESIS_HASH else ev_event_hash (last rows))"
    (is "_ \<longleftrightarrow> (\<forall>i < length rows. ?good i) \<and> ?head")
proof -
  have "?good i \<longleftrightarrow> ev_seq (rows ! i) = int i + 1 \<and>
       ev_previous_hash (rows ! i) = (if i = 0 then GENESIS_HASH else ev_event_hash (rows ! (i - 1))) \<and>
       event_wf rt (rows ! i) \<and> ev_event_hash (rows ! i) = rt_sha256 rt (event_text rt (rows ! i))" for i
    by (simp only: event_good [OF assms])
  then have "(\<forall>i < length rows. ?good i) \<longleftrightarrow> log.linked rt rows"
    by (simp add: linked_explicit)
  moreover have "vf_valid (verify_snapshot rt rows head) \<longleftrightarrow> log.linked rt rows \<and> head = Some (int (length rows), log.tip rows)"
    unfolding verify_snapshot_valid
    using verify_rows_Inr [OF assms, of "int (length rows)" rows] verify_rows_linked [of rt rows "int (length rows)"]
    by blast
  ultimately show ?thesis by (simp add: log.tip_def)
qed

theorem verify_snapshot_iff_witness:
  "frepr_ok (rt_frepr sample_runtime) \<and>
   vf_valid (verify_snapshot sample_runtime [] (Some (0, GENESIS_HASH))) \<and>
   \<not> vf_valid (verify_snapshot sample_runtime [sample_event\<lparr>ev_seq := 2\<rparr>] (Some (1, ev_event_hash sample_event)))"
  by (simp add: verify_snapshot_iff [OF sample_frepr_ok] sample_frepr_ok)

text \<open>
  C30. Tamper evidence: two snapshots that the verifier accepts under the same head are the same list
  of events, unless SHA-256 maps two different texts hashed in them to the same digest.
\<close>

theorem audit_tamper_evident:
  assumes "frepr_ok (rt_frepr rt)"
    and "vf_valid (verify_snapshot rt rows head)" "vf_valid (verify_snapshot rt rows' head)"
    and "inj_on (rt_sha256 rt) (event_text rt ` (set rows \<union> set rows'))"
  shows "rows = rows'"
proof (rule log.tamper_evident)
  show "log.linked rt rows" "log.linked rt rows'" "length rows = length rows'" "log.tip rows = log.tip rows'"
    using assms(2,3) verify_rows_Inr [OF assms(1)] by (auto simp: verify_snapshot_valid)
qed (rule assms(4))

theorem audit_tamper_evident_witness:
  "vf_valid (verify_snapshot sample_runtime [sample_event] (Some (1, ev_event_hash sample_event))) \<and>
   inj_on (rt_sha256 sample_runtime) (event_text sample_runtime ` (set [sample_event] \<union> set [sample_event])) \<and>
   [sample_event] = [sample_event]"
proof (intro conjI)
  show inj: "inj_on (rt_sha256 sample_runtime) (event_text sample_runtime ` (set [sample_event] \<union> set [sample_event]))"
    by simp
  show "[sample_event] = [sample_event]"
    by (rule audit_tamper_evident [OF sample_frepr_ok sample_event_valid sample_event_valid inj])
qed (rule sample_event_valid)

text \<open>
  C31. Appending to a log that verifies always succeeds, adds exactly one event with the scrubbed
  payload, and the log verifies again with one more event counted.
\<close>

theorem append_event_verifies:
  assumes "frepr_ok (rt_frepr rt)" and "json_ok (rt_frepr rt) payload"
    and "vf_valid (verify_snapshot rt (tb_events (w_db w)) (tb_audit_head (w_db w)))"
  shows "\<exists>e w'. append_event rt now t a et ei payload w = (Inr (ev_event_id e), w') \<and>
    tb_events (w_db w') = tb_events (w_db w) @ [e] \<and>
    ev_payload_json e = canonical_json (scrub_payload payload) \<and> scrubbed (scrub_payload payload) \<and>
    verify_audit_chain rt (w_db w') =
      \<lparr>vf_valid = True, vf_event_count = int (length (tb_events (w_db w))) + 1, vf_failure_seq = None, vf_reason = None\<rparr>"
proof -
  have ok: "audit_ok rt (w_db w)"
    using assms(3) verify_rows_Inr [OF assms(1)] by (auto simp: audit_ok_def verify_snapshot_valid)
  then obtain u w' where app: "append_event rt now t a et ei payload w = (Inr u, w')"
    using append_event_total unfolding audit_ok_def by blast
  then obtain e where e: "tb_events (w_db w') = tb_events (w_db w) @ [e]" "u = ev_event_id e"
    "ev_payload_json e = canonical_json (scrub_payload payload)"
    by (auto elim!: append_event_Inr)
  have "vf_valid (verify_audit_chain rt (w_db w'))"
    by (rule audit_ok_valid) (rule append_event_ok [OF ok assms(2) app])
  then have "verify_audit_chain rt (w_db w') =
      \<lparr>vf_valid = True, vf_event_count = int (length (tb_events (w_db w'))), vf_failure_seq = None, vf_reason = None\<rparr>"
    unfolding verify_audit_chain_def by (subst verify_snapshot_valid_eq) simp_all
  with app e scrubbed_scrub_payload [of payload] show ?thesis by auto
qed

theorem append_event_verifies_witness:
  "\<exists>e w'. append_event sample_runtime ''2026-01-01T00:00:00.000000Z'' ''mission.created'' ''hermes'' ''mission'' ''m''
      (JDict [(''token'', JStr ''abc'')]) (sample_world (apply_schema empty_db)) = (Inr (ev_event_id e), w') \<and>
    tb_events (w_db w') = tb_events (apply_schema empty_db) @ [e] \<and>
    ev_payload_json e = canonical_json (scrub_payload (JDict [(''token'', JStr ''abc'')])) \<and>
    verify_audit_chain sample_runtime (w_db w') =
      \<lparr>vf_valid = True, vf_event_count = int (length (tb_events (apply_schema empty_db))) + 1,
       vf_failure_seq = None, vf_reason = None\<rparr>"
proof -
  have "vf_valid (verify_snapshot sample_runtime (tb_events (w_db (sample_world (apply_schema empty_db))))
          (tb_audit_head (w_db (sample_world (apply_schema empty_db)))))"
    by code_simp
  moreover have "json_ok (rt_frepr sample_runtime) (JDict [(''token'', JStr ''abc'')])" by simp
  moreover have "w_db (sample_world (apply_schema empty_db)) = apply_schema empty_db" by (simp add: sample_world_def)
  ultimately show ?thesis
    using append_event_verifies [OF sample_frepr_ok, of "JDict [(''token'', JStr ''abc'')]"
        "sample_world (apply_schema empty_db)" "''2026-01-01T00:00:00.000000Z''" "''mission.created''"
        "''hermes''" "''mission''" "''m''"] by auto
qed

end
