(* ===== verification/Py_Yaml.thy ===== *)
theory Py_Yaml
  imports Prelude Py_Text
begin

text \<open>
  What \<^verbatim>\<open>yaml.safe_load\<close> returns, as the loaders of policies and runbooks read it: a document is a
  value of \<open>yaml\<close>; a \<^verbatim>\<open>dict\<close> is its list of items in insertion order, its keys being scalars and
  pairwise different. A float is kept as its \<^verbatim>\<open>repr\<close>. Dates and binary values, which the loaders
  reject like any other value of a wrong type, have no constructor.
\<close>

section \<open>Parsed YAML\<close>

datatype ykey = KNull | KBool bool | KInt int | KFloat string | KStr string

datatype yaml =
    YNull
  | YBool bool
  | YInt int
  | YFloat string
  | YStr string
  | YList "yaml list"
  | YMap "(ykey \<times> yaml) list"

type_synonym ymap = "(ykey \<times> yaml) list"

definition yget :: "ymap \<Rightarrow> string \<Rightarrow> yaml option" where
  "yget m k = map_of m (KStr k)"

text \<open>\<^verbatim>\<open>m.get(k)\<close>, with \<^verbatim>\<open>None\<close> for a missing key, and \<^verbatim>\<open>m.get(k, default)\<close>.\<close>

definition yget_none :: "ymap \<Rightarrow> string \<Rightarrow> yaml" where
  "yget_none m k = (case yget m k of None \<Rightarrow> YNull | Some v \<Rightarrow> v)"

definition yget_or :: "yaml \<Rightarrow> ymap \<Rightarrow> string \<Rightarrow> yaml" where
  "yget_or d m k = (case yget m k of None \<Rightarrow> d | Some v \<Rightarrow> v)"

text \<open>\<^verbatim>\<open>value == 1\<close> holds of \<^verbatim>\<open>True\<close> and \<^verbatim>\<open>1.0\<close> too.\<close>

definition y_is_one :: "yaml \<Rightarrow> bool" where
  "y_is_one y \<longleftrightarrow> y = YInt 1 \<or> y = YBool True \<or> y = YFloat ''1.0''"

definition y_int_in :: "yaml \<Rightarrow> int \<Rightarrow> int \<Rightarrow> bool" where
  "y_int_in y lo hi \<longleftrightarrow> (case y of YInt i \<Rightarrow> lo \<le> i \<and> i \<le> hi | _ \<Rightarrow> False)"

definition y_int_ge :: "yaml \<Rightarrow> int \<Rightarrow> bool" where
  "y_int_ge y lo \<longleftrightarrow> (case y of YInt i \<Rightarrow> lo \<le> i | _ \<Rightarrow> False)"

definition y_int :: "yaml \<Rightarrow> int option" where
  "y_int y = (case y of YInt i \<Rightarrow> Some i | _ \<Rightarrow> None)"

definition is_ystr :: "yaml \<Rightarrow> bool" where
  "is_ystr y \<longleftrightarrow> (case y of YStr _ \<Rightarrow> True | _ \<Rightarrow> False)"

definition y_string_list :: "yaml \<Rightarrow> bool" where
  "y_string_list y \<longleftrightarrow> (case y of YList xs \<Rightarrow> list_all is_ystr xs | _ \<Rightarrow> False)"

definition ystr :: "yaml \<Rightarrow> string" where
  "ystr y = (case y of YStr s \<Rightarrow> s | _ \<Rightarrow> [])"

definition ylist :: "yaml \<Rightarrow> yaml list" where
  "ylist y = (case y of YList xs \<Rightarrow> xs | _ \<Rightarrow> [])"

text \<open>
  \<^verbatim>\<open>sorted(extra)\<close> in the error messages compares the keys: strings with strings and numbers with
  numbers, and raises \<^verbatim>\<open>TypeError\<close> on a mixture.
\<close>

definition is_kstr :: "ykey \<Rightarrow> bool" where
  "is_kstr k \<longleftrightarrow> (case k of KStr _ \<Rightarrow> True | _ \<Rightarrow> False)"

definition is_knum :: "ykey \<Rightarrow> bool" where
  "is_knum k \<longleftrightarrow> (case k of KBool _ \<Rightarrow> True | KInt _ \<Rightarrow> True | KFloat _ \<Rightarrow> True | _ \<Rightarrow> False)"

definition sortable_keys :: "ykey list \<Rightarrow> bool" where
  "sortable_keys ks \<longleftrightarrow> list_all is_kstr ks \<or> list_all is_knum ks \<or> length ks \<le> 1"

definition extra_keys :: "ymap \<Rightarrow> string list \<Rightarrow> ykey list" where
  "extra_keys m allowed = filter (\<lambda>k. k \<notin> set (map KStr allowed)) (map fst m)"

definition only_keys :: "py_exc \<Rightarrow> ymap \<Rightarrow> string list \<Rightarrow> unit res" where
  "only_keys exc m allowed =
     (let extra = extra_keys m allowed in
      if extra = [] then Inr () else if sortable_keys extra then Inl exc else Inl TypeError)"

lemma only_keys_Inr: "only_keys exc m allowed = Inr u \<longleftrightarrow> fst ` set m \<subseteq> KStr ` set allowed"
  by (auto simp: only_keys_def extra_keys_def filter_empty_conv Let_def)

lemma only_keys_absent:
  "only_keys exc m allowed = Inr u \<Longrightarrow> k \<notin> set allowed \<Longrightarrow> yget m k = None"
  by (auto simp: only_keys_Inr yget_def map_of_eq_None_iff)

end
