(* ===== verification/Broker_Policy.thy ===== *)
theory Broker_Policy
  imports Py_Yaml
begin

text \<open>
  \<^verbatim>\<open>broker/src/ops_broker/policy.py\<close>: loading and validating the action-class policy and the RBAC
  policy from parsed YAML, and the access checks of the latter. Sets of strings (\<^verbatim>\<open>frozenset\<close>) are
  lists, read only through membership. Error messages keep their
  constant part; the location prefix is not modelled.
\<close>

section \<open>Helpers of \<^verbatim>\<open>policy.py\<close>\<close>

definition LIFECYCLE_CAPABILITIES :: "string list" where
  "LIFECYCLE_CAPABILITIES =
     [''mission.status.write'', ''mission.context.write'', ''mission.checkpoint.write'',
      ''mission.record.write'', ''mission.queue.claim'', ''incident.status.write'',
      ''incident.detail.write'', ''resource.lock'', ''model.trace.write'']"

definition p_mapping :: "yaml \<Rightarrow> ymap res" where
  "p_mapping v = (case v of YMap m \<Rightarrow> Inr m | _ \<Rightarrow> Inl (PolicyValidationError ''must be a mapping''))"

definition p_only_keys :: "ymap \<Rightarrow> string list \<Rightarrow> unit res" where
  "p_only_keys = only_keys (PolicyValidationError ''has unsupported keys'')"

text \<open>\<^verbatim>\<open>isinstance(item, (str, int))\<close> also accepts booleans, which \<^verbatim>\<open>str\<close> renders by name.\<close>

definition scalar_str :: "yaml \<Rightarrow> string option" where
  "scalar_str y = (case y of YStr s \<Rightarrow> Some s | YInt i \<Rightarrow> Some (int_str i)
                   | YBool b \<Rightarrow> Some (if b then ''True'' else ''False'') | _ \<Rightarrow> None)"

definition p_string_set :: "yaml \<Rightarrow> string list res" where
  "p_string_set v =
     (case v of
        YList xs \<Rightarrow> (if list_all (\<lambda>x. scalar_str x \<noteq> None) xs then Inr (map (the \<circ> scalar_str) xs)
                    else Inl (PolicyValidationError ''must be a list''))
      | _ \<Rightarrow> Inl (PolicyValidationError ''must be a list''))"

section \<open>The action policy\<close>

record class_rule =
  cr_approval :: string
  cr_max_attempts :: "int option"
  cr_window_seconds :: "int option"
  cr_approval_ttl_seconds :: "int option"

record action_policy =
  ap_classes :: "(string \<times> class_rule) list"
  ap_approval_actor_ids :: "string list"
  ap_fail_closed :: bool

abbreviation policy_error :: "string \<Rightarrow> py_exc" where
  "policy_error msg \<equiv> PolicyValidationError msg"

text \<open>The body of the loop over the three classes.\<close>

definition class_allowed_keys :: "string \<Rightarrow> string list" where
  "class_allowed_keys action_class =
     [''approval'', ''examples'']
       @ (if action_class = ''B'' then [''limits''] else [])
       @ (if action_class = ''C'' then [''approval_ttl_seconds''] else [])"

definition load_class_rule :: "ymap \<Rightarrow> string \<Rightarrow> string \<Rightarrow> class_rule res" where
  "load_class_rule classes_raw action_class expected =
     res_bind (p_mapping (yget_none classes_raw action_class)) (\<lambda>item.
     res_bind (p_only_keys item (class_allowed_keys action_class)) (\<lambda>_.
     res_bind (raise_if (yget_none item ''approval'' \<noteq> YStr expected)
                 (policy_error ''invalid approval rule'')) (\<lambda>_.
     res_bind (raise_if (\<not> y_string_list (yget_or (YList []) item ''examples''))
                 (policy_error ''examples must be a string list'')) (\<lambda>_.
     res_bind (p_mapping (yget_or (YMap []) item ''limits'')) (\<lambda>limits.
     res_bind (if action_class = ''B''
               then p_only_keys limits [''max_attempts'', ''window_seconds'', ''on_exhausted'']
               else Inr ()) (\<lambda>_.
     res_bind (raise_if (action_class = ''B'' \<and>
                         yget_or (YStr ''escalate'') limits ''on_exhausted'' \<noteq> YStr ''escalate'')
                 (policy_error ''B.on_exhausted must be escalate'')) (\<lambda>_.
     let max_attempts = yget_none limits ''max_attempts'';
         window_seconds = yget_none limits ''window_seconds'';
         ttl = yget_none item ''approval_ttl_seconds'' in
     res_bind (raise_if (action_class = ''B'' \<and> \<not> y_int_ge max_attempts 1)
                 (policy_error ''B.max_attempts is invalid'')) (\<lambda>_.
     res_bind (raise_if (action_class = ''B'' \<and> \<not> y_int_ge window_seconds 1)
                 (policy_error ''B.window_seconds is invalid'')) (\<lambda>_.
     res_bind (raise_if (action_class = ''C'' \<and> \<not> y_int_in ttl 60 86400)
                 (policy_error ''C.approval_ttl_seconds is invalid'')) (\<lambda>_.
     Inr \<lparr>cr_approval = expected, cr_max_attempts = y_int max_attempts,
          cr_window_seconds = y_int window_seconds, cr_approval_ttl_seconds = y_int ttl\<rparr>))))))))))"

definition expected_approvals :: "(string \<times> string) list" where
  "expected_approvals = [(''A'', ''none''), (''B'', ''policy_budget''), (''C'', ''human_required'')]"

text \<open>The part of \<^verbatim>\<open>from_data\<close> that reads the \<^verbatim>\<open>zulip\<close> section, in the order of its checks.\<close>

definition check_reactions :: "ymap \<Rightarrow> unit res" where
  "check_reactions reactions =
     (if reactions = [] then Inr () else
      res_bind (p_only_keys reactions [''approve'', ''reject'']) (\<lambda>_.
      raise_if (set (map fst reactions) \<noteq> {KStr ''approve'', KStr ''reject''} \<or>
                \<not> list_all (\<lambda>(_, v). is_ystr v \<and> ystr v \<noteq> []) reactions)
        (policy_error ''approval reactions are invalid'')))"

definition load_zulip :: "ymap \<Rightarrow> (string list \<times> bool) res" where
  "load_zulip raw =
     res_bind (p_mapping (yget_or (YMap []) raw ''zulip'')) (\<lambda>zulip.
     res_bind (p_only_keys zulip [''approval_reactions'', ''authorized_actor_ids'',
                                  ''fail_closed_when_unconfigured'']) (\<lambda>_.
     res_bind (p_mapping (yget_or (YMap []) zulip ''approval_reactions'')) (\<lambda>reactions.
     res_bind (check_reactions reactions) (\<lambda>_.
     res_bind (p_string_set (yget_or (YList []) zulip ''authorized_actor_ids'')) (\<lambda>actor_ids.
     res_bind (raise_if (list_ex (\<lambda>a. a = [] \<or> length a > 128 \<or> list_ex is_space a) actor_ids)
                 (policy_error ''an approval actor id is malformed'')) (\<lambda>_.
     case yget_or (YBool True) zulip ''fail_closed_when_unconfigured'' of
       YBool fail_closed \<Rightarrow>
         if \<not> fail_closed then Inl (policy_error ''V0 requires fail-closed approvals'')
         else Inr (actor_ids, fail_closed)
     | _ \<Rightarrow> Inl (policy_error ''fail_closed_when_unconfigured must be boolean'')))))))"

definition action_policy_from_data :: "yaml \<Rightarrow> action_policy res" where
  "action_policy_from_data raw_value =
     res_bind (p_mapping raw_value) (\<lambda>raw.
     res_bind (p_only_keys raw [''version'', ''default'', ''classes'', ''zulip'']) (\<lambda>_.
     res_bind (raise_if (\<not> y_is_one (yget_none raw ''version'') \<or> yget_none raw ''default'' \<noteq> YStr ''deny'')
                 (policy_error ''must be version 1 and deny by default'')) (\<lambda>_.
     res_bind (p_mapping (yget_none raw ''classes'')) (\<lambda>classes_raw.
     res_bind (raise_if (set (map fst classes_raw) \<noteq> {KStr ''A'', KStr ''B'', KStr ''C''})
                 (policy_error ''must define exactly classes A, B and C'')) (\<lambda>_.
     res_bind (res_map (\<lambda>(c, expected). map_sum id (Pair c) (load_class_rule classes_raw c expected))
                 expected_approvals) (\<lambda>classes.
     res_bind (load_zulip raw) (\<lambda>(actor_ids, fail_closed).
     Inr \<lparr>ap_classes = classes, ap_approval_actor_ids = actor_ids, ap_fail_closed = fail_closed\<rparr>)))))))"

definition class_rule_of :: "action_policy \<Rightarrow> string \<Rightarrow> class_rule res" where
  "class_rule_of ap c = (case map_of (ap_classes ap) c of None \<Rightarrow> Inl KeyError | Some r \<Rightarrow> Inr r)"

definition validate_runbook_budget :: "action_policy \<Rightarrow> int \<Rightarrow> int \<Rightarrow> unit res" where
  "validate_runbook_budget ap max_attempts window_seconds =
     (case class_rule_of ap ''B'' of Inl e \<Rightarrow> Inl e | Inr rule \<Rightarrow>
      case (cr_max_attempts rule, cr_window_seconds rule) of
        (Some m, Some w) \<Rightarrow>
          if max_attempts > m \<or> window_seconds < w
          then Inl (policy_error ''runbook B budget exceeds the global policy'') else Inr ()
      | _ \<Rightarrow> Inl AssertionError)"

definition require_approval_actor :: "action_policy \<Rightarrow> string \<Rightarrow> unit res" where
  "require_approval_actor ap actor_id =
     (if ap_approval_actor_ids ap = [] then Inl (AuthorizationDenied ''human approval actors are not configured'')
      else if actor_id \<notin> set (ap_approval_actor_ids ap)
      then Inl (AuthorizationDenied ''actor is not authorized to approve actions'')
      else Inr ())"

section \<open>The RBAC policy\<close>

record role_grant =
  rg_projects :: "string list"
  rg_runbooks :: "string list"
  rg_action_classes :: "string list"
  rg_lifecycle :: "string list"

record rbac_policy =
  rb_actors :: "(string \<times> string list) list"
  rb_roles :: "(string \<times> role_grant) list"

definition load_role :: "ykey \<times> yaml \<Rightarrow> (string \<times> role_grant) res" where
  "load_role kv =
     (case fst kv of
        KStr name \<Rightarrow>
          res_bind (p_mapping (snd kv)) (\<lambda>item.
          res_bind (p_only_keys item [''projects'', ''runbooks'', ''action_classes'',
                                      ''lifecycle_capabilities'']) (\<lambda>_.
          res_bind (p_string_set (yget_or (YList []) item ''projects'')) (\<lambda>projects.
          res_bind (p_string_set (yget_or (YList []) item ''runbooks'')) (\<lambda>runbooks.
          res_bind (p_string_set (yget_or (YList []) item ''action_classes'')) (\<lambda>classes.
          res_bind (p_string_set (yget_or (YList []) item ''lifecycle_capabilities'')) (\<lambda>caps.
          res_bind (raise_if (\<not> set classes \<subseteq> {''A'', ''B'', ''C''})
                      (policy_error ''role has an invalid action class'')) (\<lambda>_.
          res_bind (raise_if (\<not> set caps \<subseteq> set LIFECYCLE_CAPABILITIES)
                      (policy_error ''role has an invalid lifecycle capability'')) (\<lambda>_.
          Inr (name, \<lparr>rg_projects = projects, rg_runbooks = runbooks,
                      rg_action_classes = classes, rg_lifecycle = caps\<rparr>)))))))))
      | _ \<Rightarrow> Inl (policy_error ''role names must be strings''))"

definition load_actor :: "(string \<times> role_grant) list \<Rightarrow> ykey \<times> yaml \<Rightarrow> (string \<times> string list) res" where
  "load_actor roles kv =
     (case fst kv of
        KStr actor_id \<Rightarrow>
          res_bind (p_mapping (snd kv)) (\<lambda>item.
          res_bind (raise_if (set (map fst item) \<noteq> {KStr ''roles''})
                      (policy_error ''actors may only declare roles'')) (\<lambda>_.
          res_bind (p_string_set (yget_none item ''roles'')) (\<lambda>actor_roles.
          res_bind (raise_if (actor_roles = [] \<or> \<not> set actor_roles \<subseteq> fst ` set roles)
                      (policy_error ''actor references an unknown role'')) (\<lambda>_.
          Inr (actor_id, actor_roles)))))
      | _ \<Rightarrow> Inl (policy_error ''actor ids must be strings''))"

definition rbac_from_data :: "yaml \<Rightarrow> rbac_policy res" where
  "rbac_from_data raw_value =
     res_bind (p_mapping raw_value) (\<lambda>raw.
     res_bind (p_only_keys raw [''version'', ''default'', ''roles'', ''actors'']) (\<lambda>_.
     res_bind (raise_if (\<not> y_is_one (yget_none raw ''version'') \<or> yget_none raw ''default'' \<noteq> YStr ''deny'')
                 (policy_error ''must be version 1 and deny by default'')) (\<lambda>_.
     res_bind (p_mapping (yget_none raw ''roles'')) (\<lambda>roles_raw.
     res_bind (p_mapping (yget_none raw ''actors'')) (\<lambda>actors_raw.
     res_bind (res_map load_role roles_raw) (\<lambda>roles.
     res_bind (res_map (load_actor roles) actors_raw) (\<lambda>actors.
     Inr \<lparr>rb_actors = actors, rb_roles = roles\<rparr>)))))))"

text \<open>\<^verbatim>\<open>any(test(self._roles[role]) for role in roles)\<close>: an unknown role raises.\<close>

fun any_role :: "rbac_policy \<Rightarrow> (role_grant \<Rightarrow> bool) \<Rightarrow> string list \<Rightarrow> bool res" where
  "any_role rb test [] = Inr False"
| "any_role rb test (r # rs) =
     (case map_of (rb_roles rb) r of None \<Rightarrow> Inl KeyError
      | Some g \<Rightarrow> if test g then Inr True else any_role rb test rs)"

definition is_known_actor :: "rbac_policy \<Rightarrow> string \<Rightarrow> bool" where
  "is_known_actor rb actor_id \<longleftrightarrow> map_of (rb_actors rb) actor_id \<noteq> None"

definition require_project :: "rbac_policy \<Rightarrow> string \<Rightarrow> string \<Rightarrow> unit res" where
  "require_project rb actor_id project =
     (case map_of (rb_actors rb) actor_id of
        None \<Rightarrow> Inl (AuthorizationDenied ''unknown actor'')
      | Some roles \<Rightarrow>
          (case any_role rb (\<lambda>g. project \<in> set (rg_projects g)) roles of
             Inl e \<Rightarrow> Inl e
           | Inr ok \<Rightarrow> if ok then Inr () else Inl (AuthorizationDenied ''actor has no grant for this project'')))"

definition projects_for_actor :: "rbac_policy \<Rightarrow> string \<Rightarrow> string list res" where
  "projects_for_actor rb actor_id =
     (case map_of (rb_actors rb) actor_id of
        None \<Rightarrow> Inl (AuthorizationDenied ''unknown actor'')
      | Some roles \<Rightarrow>
          map_sum id concat
            (res_map (\<lambda>r. case map_of (rb_roles rb) r of None \<Rightarrow> Inl KeyError | Some g \<Rightarrow> Inr (rg_projects g)) roles))"

definition require_runbook :: "rbac_policy \<Rightarrow> string \<Rightarrow> string \<Rightarrow> string \<Rightarrow> string \<Rightarrow> unit res" where
  "require_runbook rb actor_id project runbook_id action_class =
     (case require_project rb actor_id project of Inl e \<Rightarrow> Inl e | Inr _ \<Rightarrow>
      case map_of (rb_actors rb) actor_id of None \<Rightarrow> Inl KeyError | Some roles \<Rightarrow>
      case any_role rb (\<lambda>g. project \<in> set (rg_projects g) \<and> runbook_id \<in> set (rg_runbooks g) \<and>
                            action_class \<in> set (rg_action_classes g)) roles of
        Inl e \<Rightarrow> Inl e
      | Inr ok \<Rightarrow> if ok then Inr ()
          else Inl (AuthorizationDenied ''actor has no grant for this runbook and action class''))"

definition require_lifecycle :: "rbac_policy \<Rightarrow> string \<Rightarrow> string \<Rightarrow> string \<Rightarrow> unit res" where
  "require_lifecycle rb actor_id project capability =
     (if capability \<notin> set LIFECYCLE_CAPABILITIES then Inl (AuthorizationDenied ''unknown lifecycle capability'') else
      case require_project rb actor_id project of Inl e \<Rightarrow> Inl e | Inr _ \<Rightarrow>
      case map_of (rb_actors rb) actor_id of None \<Rightarrow> Inl KeyError | Some roles \<Rightarrow>
      case any_role rb (\<lambda>g. project \<in> set (rg_projects g) \<and> capability \<in> set (rg_lifecycle g)) roles of
        Inl e \<Rightarrow> Inl e
      | Inr ok \<Rightarrow> if ok then Inr ()
          else Inl (AuthorizationDenied ''actor has no grant for this lifecycle operation''))"

definition can_runbook :: "rbac_policy \<Rightarrow> string \<Rightarrow> string \<Rightarrow> string \<Rightarrow> string \<Rightarrow> bool res" where
  "can_runbook rb actor_id project runbook_id action_class =
     (case require_runbook rb actor_id project runbook_id action_class of
        Inr _ \<Rightarrow> Inr True
      | Inl (AuthorizationDenied _) \<Rightarrow> Inr False
      | Inl e \<Rightarrow> Inl e)"

section \<open>What the loaders accept\<close>

text \<open>A loaded action policy: the three classes with their fixed approval rule and sane limits.\<close>

definition action_policy_ok :: "action_policy \<Rightarrow> bool" where
  "action_policy_ok ap \<longleftrightarrow>
     (\<exists>a b c m w t. ap_classes ap = [(''A'', a), (''B'', b), (''C'', c)] \<and>
        cr_approval a = ''none'' \<and>
        cr_approval b = ''policy_budget'' \<and> cr_max_attempts b = Some m \<and> 1 \<le> m \<and>
        cr_window_seconds b = Some w \<and> 1 \<le> w \<and>
        cr_approval c = ''human_required'' \<and> cr_approval_ttl_seconds c = Some t \<and> 60 \<le> t \<and> t \<le> 86400) \<and>
     (\<forall>i\<in>set (ap_approval_actor_ids ap). i \<noteq> [] \<and> length i \<le> 128 \<and> \<not> list_ex is_space i) \<and>
     ap_fail_closed ap"

text \<open>A loaded RBAC policy: every actor has a role, every role it names exists.\<close>

definition rbac_ok :: "rbac_policy \<Rightarrow> bool" where
  "rbac_ok rb \<longleftrightarrow>
     (\<forall>(a, rs)\<in>set (rb_actors rb). rs \<noteq> [] \<and> set rs \<subseteq> fst ` set (rb_roles rb)) \<and>
     (\<forall>(n, g)\<in>set (rb_roles rb). set (rg_action_classes g) \<subseteq> {''A'', ''B'', ''C''} \<and>
                                set (rg_lifecycle g) \<subseteq> set LIFECYCLE_CAPABILITIES)"

lemma y_int_ge_Some: "y_int_ge y lo \<Longrightarrow> \<exists>i. y_int y = Some i \<and> lo \<le> i"
  by (cases y) (auto simp: y_int_ge_def y_int_def)

lemma y_int_in_Some: "y_int_in y lo hi \<Longrightarrow> \<exists>i. y_int y = Some i \<and> lo \<le> i \<and> i \<le> hi"
  by (cases y) (auto simp: y_int_in_def y_int_def)

lemma load_class_rule_approval: "load_class_rule m c expected = Inr r \<Longrightarrow> cr_approval r = expected"
  by (auto simp: load_class_rule_def Let_def)

lemma load_class_rule_B:
  "load_class_rule m ''B'' expected = Inr r \<Longrightarrow>
   \<exists>k w. cr_max_attempts r = Some k \<and> 1 \<le> k \<and> cr_window_seconds r = Some w \<and> 1 \<le> w"
  unfolding load_class_rule_def Let_def
  by (simp, elim exE conjE, drule y_int_ge_Some, drule y_int_ge_Some) auto

lemma load_class_rule_C:
  "load_class_rule m ''C'' expected = Inr r \<Longrightarrow>
   \<exists>t. cr_approval_ttl_seconds r = Some t \<and> 60 \<le> t \<and> t \<le> 86400"
  unfolding load_class_rule_def Let_def
  by (simp, elim exE conjE, drule y_int_in_Some) auto

lemma map_sum_Inr_iff: "map_sum f g r = Inr y \<longleftrightarrow> (\<exists>x. r = Inr x \<and> y = g x)"
  by (cases r) auto

lemma load_zulip_Inr:
  assumes "load_zulip raw = Inr (ids, fc)"
  shows "fc \<and> (\<forall>i\<in>set ids. i \<noteq> [] \<and> length i \<le> 128 \<and> \<not> list_ex is_space i)"
proof -
  have "\<not> list_ex (\<lambda>a. a = [] \<or> length a > 128 \<or> list_ex is_space a) ids \<and> fc"
    using assms unfolding load_zulip_def res_bind_Inr_iff raise_if_Inr_iff
    by (elim exE conjE) (simp split: yaml.split_asm if_split_asm)
  then show ?thesis by (auto simp: list_ex_iff not_less)
qed

lemma action_policy_from_data_Inr:
  assumes "action_policy_from_data y = Inr ap"
  obtains m raw a b c where
    "load_class_rule m ''A'' ''none'' = Inr a" "load_class_rule m ''B'' ''policy_budget'' = Inr b"
    "load_class_rule m ''C'' ''human_required'' = Inr c"
    "load_zulip raw = Inr (ap_approval_actor_ids ap, ap_fail_closed ap)"
    "ap_classes ap = [(''A'', a), (''B'', b), (''C'', c)]"
proof -
  from assms obtain m raw ids fc classes where
    "res_map (\<lambda>(c, expected). map_sum id (Pair c) (load_class_rule m c expected)) expected_approvals = Inr classes"
    "load_zulip raw = Inr (ids, fc)"
    "ap = \<lparr>ap_classes = classes, ap_approval_actor_ids = ids, ap_fail_closed = fc\<rparr>"
    unfolding action_policy_from_data_def res_bind_Inr_iff by auto
  then show ?thesis
    by (auto simp: expected_approvals_def res_map_Inr_iff list_all2_Cons1 map_sum_Inr_iff
             simp del: res_map.simps intro: that)
qed

lemma action_policy_from_data_ok:
  assumes "action_policy_from_data y = Inr ap"
  shows "action_policy_ok ap"
proof -
  obtain m raw a b c where
    "load_class_rule m ''A'' ''none'' = Inr a" "load_class_rule m ''B'' ''policy_budget'' = Inr b"
    "load_class_rule m ''C'' ''human_required'' = Inr c"
    and zulip: "load_zulip raw = Inr (ap_approval_actor_ids ap, ap_fail_closed ap)"
    and classes: "ap_classes ap = [(''A'', a), (''B'', b), (''C'', c)]"
    by (rule action_policy_from_data_Inr [OF assms])
  note approvals = this(1-3) [THEN load_class_rule_approval]
  obtain k w where "cr_max_attempts b = Some k" "1 \<le> k" "cr_window_seconds b = Some w" "1 \<le> w"
    using load_class_rule_B [OF \<open>load_class_rule m ''B'' _ = _\<close>] by auto
  moreover obtain t where "cr_approval_ttl_seconds c = Some t" "60 \<le> t" "t \<le> 86400"
    using load_class_rule_C [OF \<open>load_class_rule m ''C'' _ = _\<close>] by auto
  ultimately show ?thesis
    unfolding action_policy_ok_def using approvals classes load_zulip_Inr [OF zulip] by simp
qed

lemma load_role_Inr:
  "load_role kv = Inr (n, g) \<Longrightarrow>
   set (rg_action_classes g) \<subseteq> {''A'', ''B'', ''C''} \<and> set (rg_lifecycle g) \<subseteq> set LIFECYCLE_CAPABILITIES"
  by (auto simp: load_role_def split: ykey.splits)

lemma load_actor_Inr:
  "load_actor roles kv = Inr (a, rs) \<Longrightarrow> rs \<noteq> [] \<and> set rs \<subseteq> fst ` set roles"
  by (auto simp: load_actor_def split: ykey.splits)

lemma rbac_from_data_ok:
  assumes "rbac_from_data y = Inr rb"
  shows "rbac_ok rb"
proof -
  from assms obtain roles_raw actors_raw where
    roles: "list_all2 (\<lambda>x y. load_role x = Inr y) roles_raw (rb_roles rb)"
    and actors: "list_all2 (\<lambda>x y. load_actor (rb_roles rb) x = Inr y) actors_raw (rb_actors rb)"
    by (auto simp: rbac_from_data_def res_map_Inr_iff)
  show ?thesis
    unfolding rbac_ok_def
    using list_all2_set2 [OF roles] list_all2_set2 [OF actors] load_role_Inr load_actor_Inr by fast
qed

section \<open>The access checks\<close>

text \<open>The reference notion of a grant: one role of the actor satisfies the whole test.\<close>

definition granted :: "rbac_policy \<Rightarrow> string \<Rightarrow> (role_grant \<Rightarrow> bool) \<Rightarrow> bool" where
  "granted rb actor_id test \<longleftrightarrow>
     (\<exists>roles. map_of (rb_actors rb) actor_id = Some roles \<and>
        (\<exists>r\<in>set roles. \<exists>g. map_of (rb_roles rb) r = Some g \<and> test g))"

lemma any_role_total:
  "set rs \<subseteq> fst ` set (rb_roles rb) \<Longrightarrow>
   any_role rb test rs = Inr (\<exists>r\<in>set rs. \<exists>g. map_of (rb_roles rb) r = Some g \<and> test g)"
proof (induction rs)
  case (Cons r rs)
  then obtain g where "map_of (rb_roles rb) r = Some g"
    by (auto simp: map_of_eq_None_iff dest: weak_map_of_SomeI)
  with Cons show ?case by auto
qed simp

lemma rbac_ok_roles:
  "rbac_ok rb \<Longrightarrow> map_of (rb_actors rb) a = Some rs \<Longrightarrow> set rs \<subseteq> fst ` set (rb_roles rb)"
  by (fastforce simp: rbac_ok_def dest: map_of_SomeD)

lemma any_role_granted:
  assumes "rbac_ok rb" "map_of (rb_actors rb) a = Some rs"
  shows "any_role rb test rs = Inr (granted rb a test)"
  using any_role_total [OF rbac_ok_roles [OF assms]] assms(2) by (simp add: granted_def)

lemma granted_mono: "granted rb a P \<Longrightarrow> (\<And>g. P g \<Longrightarrow> Q g) \<Longrightarrow> granted rb a Q"
  by (auto simp: granted_def)

lemma granted_known: "granted rb a P \<Longrightarrow> is_known_actor rb a"
  by (auto simp: granted_def is_known_actor_def)

definition denied :: "'a res \<Rightarrow> bool" where
  "denied r \<longleftrightarrow> (\<exists>m. r = Inl (AuthorizationDenied m))"

lemma require_project_cases:
  "rbac_ok rb \<Longrightarrow>
   if granted rb a (\<lambda>g. p \<in> set (rg_projects g)) then require_project rb a p = Inr ()
   else denied (require_project rb a p)"
  by (cases "map_of (rb_actors rb) a")
     (auto simp: require_project_def denied_def any_role_granted granted_def)

lemma require_project_Inr:
  "rbac_ok rb \<Longrightarrow> require_project rb a p = Inr u \<longleftrightarrow> granted rb a (\<lambda>g. p \<in> set (rg_projects g))"
  using require_project_cases [of rb a p] by (auto simp: denied_def split: if_splits)

lemma require_runbook_cases:
  assumes "rbac_ok rb"
  shows "if granted rb a (\<lambda>g. p \<in> set (rg_projects g) \<and> b \<in> set (rg_runbooks g) \<and> c \<in> set (rg_action_classes g))
         then require_runbook rb a p b c = Inr () else denied (require_runbook rb a p b c)"
    (is "if granted rb a ?test then _ else _")
proof (cases "granted rb a (\<lambda>g. p \<in> set (rg_projects g))")
  case True
  then obtain rs where "map_of (rb_actors rb) a = Some rs" by (auto simp: granted_def)
  with True assms show ?thesis
    using require_project_cases [OF assms, of a p]
    by (simp add: require_runbook_def any_role_granted denied_def)
next
  case False
  then have "\<not> granted rb a ?test" by (auto dest: granted_mono)
  with False require_project_cases [OF assms, of a p] show ?thesis
    by (auto simp: require_runbook_def denied_def)
qed

lemma require_lifecycle_cases:
  assumes "rbac_ok rb"
  shows "if granted rb a (\<lambda>g. p \<in> set (rg_projects g) \<and> c \<in> set (rg_lifecycle g))
         then require_lifecycle rb a p c = Inr () else denied (require_lifecycle rb a p c)"
    (is "if granted rb a ?test then _ else _")
proof (cases "granted rb a (\<lambda>g. p \<in> set (rg_projects g))")
  case True
  then obtain rs where "map_of (rb_actors rb) a = Some rs" by (auto simp: granted_def)
  moreover have "granted rb a ?test \<Longrightarrow> c \<in> set LIFECYCLE_CAPABILITIES"
    using assms by (fastforce simp: granted_def rbac_ok_def dest: map_of_SomeD)
  ultimately show ?thesis
    using require_project_cases [OF assms, of a p] True assms
    by (auto simp: require_lifecycle_def any_role_granted denied_def)
next
  case False
  then have "\<not> granted rb a ?test" by (auto dest: granted_mono)
  with False require_project_cases [OF assms, of a p] show ?thesis
    by (auto simp: require_lifecycle_def denied_def)
qed

lemma can_runbook_granted:
  assumes "rbac_ok rb"
  shows "can_runbook rb a p b c =
         Inr (granted rb a (\<lambda>g. p \<in> set (rg_projects g) \<and> b \<in> set (rg_runbooks g) \<and> c \<in> set (rg_action_classes g)))"
  using require_runbook_cases [OF assms, of a p b c]
  by (auto simp: can_runbook_def denied_def split: if_splits)

lemma projects_for_actor_granted:
  assumes "rbac_ok rb"
  shows "if is_known_actor rb a
         then \<exists>ps. projects_for_actor rb a = Inr ps \<and>
                    set ps = {p. granted rb a (\<lambda>g. p \<in> set (rg_projects g))}
         else denied (projects_for_actor rb a)"
proof (cases "map_of (rb_actors rb) a")
  case None
  then show ?thesis by (simp add: is_known_actor_def projects_for_actor_def denied_def)
next
  case (Some rs)
  let ?f = "\<lambda>r. case map_of (rb_roles rb) r of None \<Rightarrow> Inl KeyError | Some g \<Rightarrow> Inr (rg_projects g)"
  have total: "\<exists>g. map_of (rb_roles rb) r = Some g" if "r \<in> set rs" for r
    using rbac_ok_roles [OF assms Some] that map_of_eq_None_iff [of "rb_roles rb" r] by auto
  have "list_all2 (\<lambda>r y. ?f r = Inr y) rs (map (\<lambda>r. rg_projects (the (map_of (rb_roles rb) r))) rs)"
    using total by (force simp: list.rel_map intro!: list.rel_refl_strong)
  then have *: "res_map ?f rs = Inr (map (\<lambda>r. rg_projects (the (map_of (rb_roles rb) r))) rs)"
    by (simp add: res_map_Inr_iff)
  have eq: "p \<in> set (rg_projects (the (map_of (rb_roles rb) r))) \<longleftrightarrow>
      (\<exists>g. map_of (rb_roles rb) r = Some g \<and> p \<in> set (rg_projects g))" if "r \<in> set rs" for r p
    using total [OF that] by auto
  have "p \<in> set (concat (map (\<lambda>r. rg_projects (the (map_of (rb_roles rb) r))) rs)) \<longleftrightarrow>
        granted rb a (\<lambda>g. p \<in> set (rg_projects g))" for p
    by (simp add: granted_def Some eq cong: bex_cong)
  with * Some show ?thesis by (auto simp: is_known_actor_def projects_for_actor_def)
qed

lemma validate_runbook_budget_iff:
  assumes "action_policy_ok ap"
  shows "\<exists>m w. 1 \<le> m \<and> 1 \<le> w \<and> (\<forall>k s. validate_runbook_budget ap k s = Inr () \<longleftrightarrow> k \<le> m \<and> w \<le> s)"
proof -
  from assms obtain b m w where
    "map_of (ap_classes ap) ''B'' = Some b" "cr_max_attempts b = Some m" "1 \<le> m"
    "cr_window_seconds b = Some w" "1 \<le> w"
    unfolding action_policy_ok_def by auto
  then show ?thesis
    by (intro exI [of _ m] exI [of _ w]) (auto simp: validate_runbook_budget_def class_rule_of_def)
qed

lemma require_approval_actor_iff:
  "require_approval_actor ap i = Inr u \<longleftrightarrow> i \<in> set (ap_approval_actor_ids ap)"
  by (auto simp: require_approval_actor_def)

lemma require_approval_actor_denied:
  "i \<notin> set (ap_approval_actor_ids ap) \<Longrightarrow> denied (require_approval_actor ap i)"
  by (auto simp: require_approval_actor_def denied_def)

end
