(* ===== verification/Broker_Runbooks.thy ===== *)
theory Broker_Runbooks
  imports Broker_Util Py_Yaml
begin

text \<open>
  \<^verbatim>\<open>broker/src/ops_broker/runbooks.py\<close>: the executable allowlist, parameter specifications, the
  strict loader of runbook files, the registry, and what a loaded runbook does with supplied
  parameters (validation, argv rendering, budget keys). The lemmas at the end show that an argv
  rendered from a loaded runbook starts with an allowlisted program, that parameters fill whole
  arguments and cannot become options, and that validation is exact and idempotent.

  Paths are POSIX paths. A runbook file is its parsed YAML document with the three facts about the
  path that \<^verbatim>\<open>RunbookRegistry.load\<close> tests. Error messages keep their constant part.
\<close>

section \<open>Patterns\<close>

definition IDENTIFIER :: rx where
  "IDENTIFIER = RSeq (RCls False [cls_lower, cls_digit])
                 (RRep 1 (Some 127) (RCls False [cls_lower, cls_digit, (46, 46), (45, 45)]))"

definition PROJECT :: rx where
  "PROJECT = RSeq (RCls False [cls_lower, cls_digit])
              (RRep 1 (Some 63) (RCls False [cls_lower, cls_digit, (45, 45)]))"

definition PLACEHOLDER :: rx where
  "PLACEHOLDER =
     RSeq (rx_chr (CHR 0x7B))
      (RSeq (RGroup 1 (RSeq (RCls False [cls_lower, cls_upper, (95, 95)])
                            (RRep 0 None (RCls False [cls_lower, cls_upper, cls_digit, (95, 95)]))))
            (rx_chr (CHR 0x7D)))"

definition ACTOR_SAFE_VALUE :: rx where
  "ACTOR_SAFE_VALUE = RRep 1 (Some 4096) (RCls True [(0, 0), (13, 13), (10, 10)])"

definition ARGV_ENUM_VALUE :: rx where
  "ARGV_ENUM_VALUE =
     RSeq (RCls False [cls_upper, cls_lower, cls_digit])
      (RRep 0 (Some 255) (RCls False [cls_upper, cls_lower, cls_digit, (58, 58), (46, 46), (95, 95),
         (64, 64), (47, 47), (43, 43), (44, 44), (45, 45)]))"

definition SHELL_EXECUTABLES :: "string list" where
  "SHELL_EXECUTABLES =
     [''/bin/bash'', ''/bin/dash'', ''/bin/sh'', ''/bin/zsh'', ''/usr/bin/bash'', ''/usr/bin/env'',
      ''/usr/bin/fish'', ''/usr/bin/sh'', ''/usr/bin/zsh'']"

abbreviation runbook_error :: "string \<Rightarrow> py_exc" where
  "runbook_error msg \<equiv> RunbookValidationError msg"

abbreviation invalid_parameters :: "string \<Rightarrow> py_exc" where
  "invalid_parameters msg \<equiv> BrokerError ''invalid_parameters'' msg 422 []"

definition rb_mapping :: "yaml \<Rightarrow> ymap res" where
  "rb_mapping v = (case v of YMap m \<Rightarrow> Inr m | _ \<Rightarrow> Inl (runbook_error ''must be a mapping''))"

definition rb_only_keys :: "ymap \<Rightarrow> string list \<Rightarrow> unit res" where
  "rb_only_keys = only_keys (runbook_error ''has unsupported keys'')"

definition is_absolute :: "string \<Rightarrow> bool" where
  "is_absolute p = starts_with ''/'' p"

section \<open>The executable allowlist\<close>

record executable_policy =
  xp_executables :: "string list"
  xp_sudo_executable :: "string option"
  xp_sudo_required_prefix :: "string list"
  xp_sudo_helpers :: "string list"

text \<open>\<^verbatim>\<open>if self.sudo_executable\<close>: neither \<^verbatim>\<open>None\<close> nor the empty string.\<close>

definition sudo_path :: "executable_policy \<Rightarrow> string list" where
  "sudo_path xp = (case xp_sudo_executable xp of None \<Rightarrow> [] | Some s \<Rightarrow> if s = [] then [] else [s])"

definition validate_paths :: "executable_policy \<Rightarrow> unit res" where
  "validate_paths xp =
     res_bind (res_all (\<lambda>path.
        if \<not> is_absolute path then Inl (runbook_error ''allowlisted executable is not absolute'')
        else if path \<in> set SHELL_EXECUTABLES then Inl (runbook_error ''shell executables cannot be allowlisted'')
        else Inr ()) (xp_executables xp @ xp_sudo_helpers xp @ sudo_path xp)) (\<lambda>_.
     raise_if (sudo_path xp \<noteq> [] \<and> xp_sudo_required_prefix xp \<noteq> [''-n''])
       (runbook_error ''V0 requires exact non-interactive -n prefix''))"

definition load_sudo :: "yaml \<Rightarrow> (string option \<times> string list \<times> string list) res" where
  "load_sudo sudo_raw =
     (if sudo_raw = YNull then Inr (None, [''-n''], []) else
      res_bind (rb_mapping sudo_raw) (\<lambda>sudo.
      res_bind (rb_only_keys sudo [''executable'', ''required_prefix'', ''allowed_helpers'']) (\<lambda>_.
      let executable = yget_none sudo ''executable'';
          prefix = yget_or (YList [YStr ''-n'']) sudo ''required_prefix'';
          helpers = yget_or (YList []) sudo ''allowed_helpers'' in
      res_bind (raise_if (\<not> is_ystr executable) (runbook_error ''sudo.executable must be a string'')) (\<lambda>_.
      res_bind (raise_if (\<not> y_string_list prefix)
                  (runbook_error ''sudo.required_prefix must be a string list'')) (\<lambda>_.
      res_bind (raise_if (\<not> y_string_list helpers)
                  (runbook_error ''sudo.allowed_helpers must be a string list'')) (\<lambda>_.
      Inr (Some (ystr executable), map ystr (ylist prefix), map ystr (ylist helpers))))))))"

definition executable_policy_load :: "yaml \<Rightarrow> executable_policy res" where
  "executable_policy_load doc =
     res_bind (rb_mapping doc) (\<lambda>raw.
     res_bind (rb_only_keys raw [''version'', ''executables'', ''sudo'']) (\<lambda>_.
     res_bind (raise_if (\<not> y_is_one (yget_none raw ''version'')) (runbook_error ''has an unsupported version'')) (\<lambda>_.
     res_bind (raise_if (\<not> y_string_list (yget_none raw ''executables''))
                 (runbook_error ''executables must be a string list'')) (\<lambda>_.
     res_bind (load_sudo (yget_none raw ''sudo'')) (\<lambda>(sudo, prefix, helpers).
     let policy = \<lparr>xp_executables = map ystr (ylist (yget_none raw ''executables'')),
                   xp_sudo_executable = sudo, xp_sudo_required_prefix = prefix, xp_sudo_helpers = helpers\<rparr> in
     res_bind (validate_paths policy) (\<lambda>_. Inr policy))))))"

text \<open>\<^verbatim>\<open>argv\<close> is not empty at the only call.\<close>

definition validate_argv_template :: "executable_policy \<Rightarrow> string list \<Rightarrow> unit res" where
  "validate_argv_template xp argv =
     (let executable = hd argv in
      if executable \<in> set SHELL_EXECUTABLES then Inl (runbook_error ''shell execution is forbidden'')
      else if sudo_path xp = [executable] then
        (let prefix_end = 1 + length (xp_sudo_required_prefix xp) in
         if take (prefix_end - 1) (drop 1 argv) \<noteq> xp_sudo_required_prefix xp
         then Inl (runbook_error ''sudo must use the required fixed prefix'')
         else if length argv \<le> prefix_end \<or> argv ! prefix_end \<notin> set (xp_sudo_helpers xp)
         then Inl (runbook_error ''sudo helper is not allowlisted'')
         else Inr ())
      else if executable \<notin> set (xp_executables xp)
      then Inl (runbook_error ''executable is not allowlisted'')
      else Inr ())"

section \<open>Parameters\<close>

datatype param_kind = KEnum | KUuid | KString | KInteger | KBoolean

record parameter_spec =
  ps_kind :: param_kind
  ps_values :: "string list"
  ps_max_length :: int
  ps_minimum :: "int option"
  ps_maximum :: "int option"

definition param_validate :: "parameter_spec \<Rightarrow> json \<Rightarrow> json res" where
  "param_validate spec value =
     (case ps_kind spec of
        KEnum \<Rightarrow> (case value of
            JStr s \<Rightarrow> if s \<in> set (ps_values spec) then Inr value
                      else Inl (invalid_parameters ''is not an allowed value'')
          | _ \<Rightarrow> Inl (invalid_parameters ''is not an allowed value''))
      | KUuid \<Rightarrow> (case value of
            JStr s \<Rightarrow> (case uuid_canon s of Some u \<Rightarrow> Inr (JStr u)
                      | None \<Rightarrow> Inl (invalid_parameters ''must be a UUID''))
          | _ \<Rightarrow> Inl (invalid_parameters ''must be a UUID''))
      | KString \<Rightarrow> (case value of
            JStr s \<Rightarrow> if \<not> rx_fullmatch ACTOR_SAFE_VALUE s
                      then Inl (invalid_parameters ''must be a bounded text string'')
                      else if int (length s) > ps_max_length spec
                      then Inl (invalid_parameters ''is too long'') else Inr value
          | _ \<Rightarrow> Inl (invalid_parameters ''must be a bounded text string''))
      | KInteger \<Rightarrow> (case value of
            JInt i \<Rightarrow> if (case ps_minimum spec of None \<Rightarrow> False | Some m \<Rightarrow> i < m)
                      then Inl (invalid_parameters ''is below its minimum'')
                      else if (case ps_maximum spec of None \<Rightarrow> False | Some m \<Rightarrow> i > m)
                      then Inl (invalid_parameters ''is above its maximum'') else Inr value
          | _ \<Rightarrow> Inl (invalid_parameters ''must be an integer''))
      | KBoolean \<Rightarrow> (case value of JBool _ \<Rightarrow> Inr value
          | _ \<Rightarrow> Inl (invalid_parameters ''must be a boolean'')))"

definition param_kind_of :: "string \<Rightarrow> param_kind option" where
  "param_kind_of s =
     map_of [(''enum'', KEnum), (''uuid'', KUuid), (''string'', KString), (''integer'', KInteger),
             (''boolean'', KBoolean)] s"

text \<open>A membership test in a set hashes its argument: a list or a dict raises \<^verbatim>\<open>TypeError\<close>.\<close>

definition y_hashable :: "yaml \<Rightarrow> bool" where
  "y_hashable y \<longleftrightarrow> (case y of YList _ \<Rightarrow> False | YMap _ \<Rightarrow> False | _ \<Rightarrow> True)"

definition y_opt_int :: "yaml \<Rightarrow> bool" where
  "y_opt_int y \<longleftrightarrow> y = YNull \<or> y_int y \<noteq> None"

definition bare_spec :: "param_kind \<Rightarrow> parameter_spec" where
  "bare_spec k = \<lparr>ps_kind = k, ps_values = [], ps_max_length = 0, ps_minimum = None, ps_maximum = None\<rparr>"

definition kind_spec :: "param_kind \<Rightarrow> ymap \<Rightarrow> parameter_spec res" where
  "kind_spec kind raw =
     (case kind of
        KEnum \<Rightarrow>
          let values = yget_none raw ''values'' in
          res_bind (raise_if (\<not> y_string_list values \<or> ylist values = [])
                      (runbook_error ''enum values must be a non-empty string list'')) (\<lambda>_.
          res_bind (raise_if (\<not> list_all (rx_fullmatch ARGV_ENUM_VALUE) (map ystr (ylist values)))
                      (runbook_error ''enum contains an unsafe argv value'')) (\<lambda>_.
          Inr ((bare_spec kind)\<lparr>ps_values := map ystr (ylist values)\<rparr>)))
      | KString \<Rightarrow>
          let max_length = yget_none raw ''max_length'' in
          res_bind (raise_if (\<not> y_int_in max_length 1 4096)
                      (runbook_error ''string max_length must be between 1 and 4096'')) (\<lambda>_.
          Inr ((bare_spec kind)\<lparr>ps_max_length := the (y_int max_length)\<rparr>))
      | KInteger \<Rightarrow>
          let minimum = yget_none raw ''minimum''; maximum = yget_none raw ''maximum'' in
          res_bind (raise_if (\<not> y_opt_int minimum) (runbook_error ''minimum must be an integer'')) (\<lambda>_.
          res_bind (raise_if (\<not> y_opt_int maximum) (runbook_error ''maximum must be an integer'')) (\<lambda>_.
          res_bind (raise_if (case (y_int minimum, y_int maximum) of (Some a, Some b) \<Rightarrow> a > b | _ \<Rightarrow> False)
                      (runbook_error ''minimum exceeds maximum'')) (\<lambda>_.
          Inr ((bare_spec kind)\<lparr>ps_minimum := y_int minimum, ps_maximum := y_int maximum\<rparr>))))
      | _ \<Rightarrow> Inr (bare_spec kind))"

definition parameter_spec_load :: "string \<Rightarrow> yaml \<Rightarrow> parameter_spec res" where
  "parameter_spec_load name raw_value =
     (if contains_sensitive_name name then Inl (runbook_error ''secret-like parameter names are forbidden'') else
      res_bind (rb_mapping raw_value) (\<lambda>raw.
      res_bind (rb_only_keys raw [''type'', ''values'', ''max_length'', ''minimum'', ''maximum'']) (\<lambda>_.
      let kind = yget_none raw ''type'' in
      res_bind (raise_if (\<not> y_hashable kind) TypeError) (\<lambda>_.
      case param_kind_of (ystr kind) of
        None \<Rightarrow> Inl (runbook_error ''unsupported parameter type'')
      | Some k \<Rightarrow> kind_spec k raw))))"

section \<open>\<^verbatim>\<open>string.Formatter().parse\<close>\<close>

text \<open>
  The items of a format string, each a literal text followed by an optional field (name, format
  specification, conversion), and whether the iteration then ends with a \<^verbatim>\<open>ValueError\<close>.
\<close>

type_synonym fmt_field_spec = "string \<times> string \<times> char option"

abbreviation "brace_open \<equiv> CHR 0x7B"
abbreviation "brace_close \<equiv> CHR 0x7D"

fun fmt_name :: "bool \<Rightarrow> string \<Rightarrow> (string \<times> char \<times> string) option" where
  "fmt_name br [] = None"
| "fmt_name br (c # s) =
     (if br then map_option (apfst (Cons c)) (fmt_name (c \<noteq> CHR '']'') s)
      else if c = brace_open then None
      else if c = brace_close \<or> c = CHR '':'' \<or> c = CHR ''!'' then Some ([], c, s)
      else map_option (apfst (Cons c)) (fmt_name (c = CHR ''['') s))"

fun fmt_spec :: "nat \<Rightarrow> string \<Rightarrow> (string \<times> string) option" where
  "fmt_spec n [] = None"
| "fmt_spec n (c # s) =
     (if c = brace_close
      then if n = 0 then Some ([], s) else map_option (apfst (Cons c)) (fmt_spec (n - 1) s)
      else map_option (apfst (Cons c)) (fmt_spec (if c = brace_open then n + 1 else n) s))"

definition fmt_conv :: "char \<Rightarrow> char option" where
  "fmt_conv c = (if c = chr_nul then None else Some c)"

definition fmt_field :: "string \<Rightarrow> (fmt_field_spec \<times> string) option" where
  "fmt_field s =
     (case fmt_name False s of
        None \<Rightarrow> None
      | Some (name, c, r) \<Rightarrow>
          if c = brace_close then Some ((name, [], None), r)
          else if c = CHR '':'' then map_option (\<lambda>(spec, r). ((name, spec, None), r)) (fmt_spec 0 r)
          else (case r of
                  [] \<Rightarrow> None
                | [conv] \<Rightarrow> None
                | conv # d # r' \<Rightarrow>
                    if d = brace_close then Some ((name, [], fmt_conv conv), r')
                    else if d = CHR '':'' then map_option (\<lambda>(spec, r). ((name, spec, fmt_conv conv), r)) (fmt_spec 0 r')
                    else None))"

lemma fmt_name_shrinks: "fmt_name br s = Some (n, c, r) \<Longrightarrow> length r < length s"
  by (induction br s arbitrary: n c r rule: fmt_name.induct) (fastforce split: if_splits)+

lemma fmt_spec_shrinks: "fmt_spec k s = Some (n, r) \<Longrightarrow> length r < length s"
  by (induction k s arbitrary: n r rule: fmt_spec.induct) (fastforce split: if_splits)+

lemma fmt_field_shrinks: "fmt_field s = Some (f, r) \<Longrightarrow> length r < length s"
  by (fastforce simp: fmt_field_def split: option.splits if_splits list.splits
                dest: fmt_name_shrinks fmt_spec_shrinks)

lemma dropWhile_length_le: "dropWhile P s = t \<Longrightarrow> length t \<le> length s"
  by (auto simp: length_dropWhile_le)

function fmt_parse :: "string \<Rightarrow> (string \<times> fmt_field_spec option) list \<times> bool" where
  "fmt_parse s =
     (if s = [] then ([], False) else
      let brace = (\<lambda>c. c = brace_open \<or> c = brace_close);
          lit = takeWhile (Not \<circ> brace) s in
      case dropWhile (Not \<circ> brace) s of
        [] \<Rightarrow> ([(lit, None)], False)
      | [c] \<Rightarrow> ([], True)
      | c # d # r \<Rightarrow>
          if d = c then apfst (Cons (lit @ [c], None)) (fmt_parse r)
          else if c = brace_close then ([], True)
          else (case fmt_field (d # r) of
                  None \<Rightarrow> ([], True)
                | Some (f, r') \<Rightarrow> apfst (Cons (lit, Some f)) (fmt_parse r')))"
  by pat_completeness auto
termination
  by (relation "measure length") (auto dest!: fmt_field_shrinks dropWhile_length_le)

declare fmt_parse.simps [simp del]

section \<open>Runbooks\<close>

record budget_spec =
  bs_key_template :: string
  bs_max_attempts :: int
  bs_window_seconds :: int

record runbook =
  rk_id :: string
  rk_version :: int
  rk_project :: string
  rk_action_class :: string
  rk_description :: string
  rk_timeout_seconds :: int
  rk_argv_template :: "string list option"
  rk_parameters :: "(string \<times> parameter_spec) list"
  rk_budget :: "budget_spec option"
  rk_output_max_bytes :: int

definition validate_parameters :: "runbook \<Rightarrow> json \<Rightarrow> jdict res" where
  "validate_parameters rk supplied =
     (case supplied of
        JDict kvs \<Rightarrow>
          let missing = filter (\<lambda>n. n \<notin> fst ` set kvs) (map fst (rk_parameters rk));
              unknown = filter (\<lambda>n. n \<notin> fst ` set (rk_parameters rk)) (map fst kvs) in
          if missing \<noteq> [] \<or> unknown \<noteq> []
          then Inl (BrokerError ''invalid_parameters'' ''parameter names do not match the runbook schema'' 422
                     [(''missing'', sort missing), (''unknown'', sort unknown)])
          else res_map (\<lambda>(name, spec). map_sum id (Pair name) (param_validate spec (the (map_of kvs name))))
                 (rk_parameters rk)
      | _ \<Rightarrow> Inl (invalid_parameters ''parameters must be an object''))"

text \<open>\<^verbatim>\<open>str(value)\<close> of a validated parameter, which is a string, an integer or a boolean.\<close>

definition param_str :: "json \<Rightarrow> string" where
  "param_str v = (case v of JStr s \<Rightarrow> s | JInt i \<Rightarrow> int_str i
                  | JBool b \<Rightarrow> (if b then ''True'' else ''False'') | _ \<Rightarrow> [])"

definition argv_unsafe :: "string \<Rightarrow> bool" where
  "argv_unsafe s \<longleftrightarrow> chr_nul \<in> set s \<or> chr_nl \<in> set s \<or> chr_cr \<in> set s"

definition render_item :: "jdict \<Rightarrow> string \<Rightarrow> string res" where
  "render_item parameters item =
     (case rx_full_group PLACEHOLDER 1 item of
        None \<Rightarrow> Inr item
      | Some name \<Rightarrow>
          (case map_of parameters name of
             None \<Rightarrow> Inl KeyError
           | Some v \<Rightarrow>
               if starts_with ''-'' (param_str v) \<or> argv_unsafe (param_str v)
               then Inl (invalid_parameters ''parameter is unsafe in argv'')
               else Inr (param_str v)))"

definition render_argv :: "runbook \<Rightarrow> jdict \<Rightarrow> string list option res" where
  "render_argv rk parameters =
     (case rk_argv_template rk of
        None \<Rightarrow> Inr None
      | Some argv \<Rightarrow> map_sum id Some (res_map (render_item parameters) argv))"

definition render_fmt_item :: "jdict \<Rightarrow> string \<times> fmt_field_spec option \<Rightarrow> string res" where
  "render_fmt_item parameters item =
     (case snd item of
        None \<Rightarrow> Inr (fst item)
      | Some (name, spec, conv) \<Rightarrow>
          if spec \<noteq> [] \<or> conv \<noteq> None then Inl AssertionError
          else (case map_of parameters name of None \<Rightarrow> Inl KeyError
                | Some v \<Rightarrow> Inr (fst item @ param_str v)))"

definition budget_key :: "runbook \<Rightarrow> jdict \<Rightarrow> string option res" where
  "budget_key rk parameters =
     (case rk_budget rk of
        None \<Rightarrow> Inr None
      | Some b \<Rightarrow>
          res_bind (res_map (render_fmt_item parameters) (fst (fmt_parse (bs_key_template b)))) (\<lambda>parts.
          if snd (fmt_parse (bs_key_template b)) then Inl ValueError
          else Inr (Some (rk_id rk @ '':'' @ concat parts))))"

definition kind_name :: "param_kind \<Rightarrow> string" where
  "kind_name k = (case k of KEnum \<Rightarrow> ''enum'' | KUuid \<Rightarrow> ''uuid'' | KString \<Rightarrow> ''string''
                  | KInteger \<Rightarrow> ''integer'' | KBoolean \<Rightarrow> ''boolean'')"

definition public_metadata :: "runbook \<Rightarrow> json" where
  "public_metadata rk =
     JDict [(''id'', JStr (rk_id rk)), (''version'', JInt (rk_version rk)), (''project'', JStr (rk_project rk)),
       (''action_class'', JStr (rk_action_class rk)), (''description'', JStr (rk_description rk)),
       (''parameters'', JDict (map (\<lambda>(name, spec).
          (name, JDict ([(''type'', JStr (kind_name (ps_kind spec)))]
             @ (if ps_values spec \<noteq> [] then [(''values'', JList (map JStr (ps_values spec)))] else [])
             @ (if ps_max_length spec \<noteq> 0 then [(''max_length'', JInt (ps_max_length spec))] else []))))
          (rk_parameters rk)))]"

section \<open>Loading a runbook\<close>

definition load_parameters :: "yaml \<Rightarrow> (string \<times> parameter_spec) list res" where
  "load_parameters v =
     res_bind (rb_mapping v) (\<lambda>raw.
     res_bind (res_map (\<lambda>(k, y). case k of KStr name \<Rightarrow> map_sum id (Pair name) (parameter_spec_load name y)
                                 | _ \<Rightarrow> Inl TypeError)
                (filter (is_kstr \<circ> fst) raw)) (\<lambda>parameters.
     res_bind (raise_if (length parameters \<noteq> length raw) (runbook_error ''parameter names must be strings'')) (\<lambda>_.
     Inr parameters)))"

definition check_argv_item :: "(string \<times> parameter_spec) list \<Rightarrow> string \<Rightarrow> unit res" where
  "check_argv_item parameters item =
     (if item = [] \<or> argv_unsafe item then Inl (runbook_error ''argv is unsafe'')
      else if brace_open \<in> set item \<or> brace_close \<in> set item then
        (case Option.bind (rx_full_group PLACEHOLDER 1 item) (map_of parameters) of
           None \<Rightarrow> Inl (runbook_error ''argv placeholders must occupy a full argument'')
         | Some spec \<Rightarrow>
             if ps_kind spec = KString then Inl (runbook_error ''free text cannot be interpolated into argv'')
             else Inr ())
      else Inr ())"

definition load_command ::
  "executable_policy \<Rightarrow> (string \<times> parameter_spec) list \<Rightarrow> string \<Rightarrow> yaml \<Rightarrow> string list option res" where
  "load_command executables parameters action_class command_raw =
     (if command_raw = YNull then
        if action_class \<noteq> ''C'' then Inl (runbook_error ''only class C may omit a command'') else Inr None
      else
        res_bind (rb_mapping command_raw) (\<lambda>command.
        res_bind (rb_only_keys command [''argv'']) (\<lambda>_.
        let raw_argv = yget_none command ''argv''; argv = map ystr (ylist raw_argv) in
        res_bind (raise_if (\<not> y_string_list raw_argv \<or> argv = [])
                    (runbook_error ''command.argv must be a non-empty string list'')) (\<lambda>_.
        res_bind (res_all (check_argv_item parameters) argv) (\<lambda>_.
        res_bind (raise_if (\<not> is_absolute (hd argv)) (runbook_error ''argv executable must be absolute'')) (\<lambda>_.
        res_bind (validate_argv_template executables argv) (\<lambda>_. Inr (Some argv))))))))"

definition check_budget_item :: "(string \<times> parameter_spec) list \<Rightarrow> string \<times> fmt_field_spec option \<Rightarrow> unit res" where
  "check_budget_item parameters item =
     (case snd item of
        None \<Rightarrow> Inr ()
      | Some (name, spec, conv) \<Rightarrow>
          if name \<notin> fst ` set parameters then Inl (runbook_error ''unknown budget placeholder'')
          else if spec \<noteq> [] \<or> conv \<noteq> None then Inl (runbook_error ''budget formatting options are forbidden'')
          else Inr ())"

definition load_budget :: "(string \<times> parameter_spec) list \<Rightarrow> string \<Rightarrow> yaml \<Rightarrow> budget_spec option res" where
  "load_budget parameters action_class budget_raw =
     (if action_class = ''B'' then
        res_bind (rb_mapping budget_raw) (\<lambda>m.
        res_bind (rb_only_keys m [''key'', ''max_attempts'', ''window_seconds'']) (\<lambda>_.
        let key = yget_none m ''key''; max_attempts = yget_none m ''max_attempts'';
            window_seconds = yget_none m ''window_seconds'' in
        res_bind (raise_if (\<not> is_ystr key \<or> ystr key = [] \<or> length (ystr key) > 256)
                    (runbook_error ''invalid budget key'')) (\<lambda>_.
        res_bind (res_all (check_budget_item parameters) (fst (fmt_parse (ystr key)))) (\<lambda>_.
        res_bind (raise_if (snd (fmt_parse (ystr key))) ValueError) (\<lambda>_.
        res_bind (raise_if (\<not> y_int_in max_attempts 1 10) (runbook_error ''invalid max_attempts'')) (\<lambda>_.
        res_bind (raise_if (\<not> y_int_in window_seconds 1 86400) (runbook_error ''invalid window_seconds'')) (\<lambda>_.
        Inr (Some \<lparr>bs_key_template = ystr key, bs_max_attempts = the (y_int max_attempts),
                   bs_window_seconds = the (y_int window_seconds)\<rparr>))))))))
      else if budget_raw \<noteq> YNull then Inl (runbook_error ''budgets are only valid for class B'')
      else Inr None)"

definition load_output :: "yaml \<Rightarrow> int res" where
  "load_output v =
     res_bind (rb_mapping v) (\<lambda>m.
     res_bind (rb_only_keys m [''max_bytes'', ''redact'']) (\<lambda>_.
     res_bind (raise_if (\<not> y_int_in (yget_none m ''max_bytes'') 1 65536)
                 (runbook_error ''output.max_bytes must be between 1 and 65536'')) (\<lambda>_.
     res_bind (raise_if (yget_none m ''redact'' \<noteq> YBool True) (runbook_error ''output.redact must be true'')) (\<lambda>_.
     Inr (the (y_int (yget_none m ''max_bytes'')))))))"

definition check_scalars :: "ymap \<Rightarrow> unit res" where
  "check_scalars raw =
     (let runbook_id = yget_none raw ''id''; project = yget_none raw ''project'';
          action_class = yget_none raw ''action_class''; description = yget_none raw ''description'' in
      res_bind (raise_if (\<not> is_ystr runbook_id \<or> \<not> rx_fullmatch IDENTIFIER (ystr runbook_id))
                  (runbook_error ''invalid id'')) (\<lambda>_.
      res_bind (raise_if (\<not> is_ystr project \<or> \<not> rx_fullmatch PROJECT (ystr project))
                  (runbook_error ''invalid project'')) (\<lambda>_.
      res_bind (raise_if (\<not> y_int_ge (yget_none raw ''version'') 1) (runbook_error ''invalid version'')) (\<lambda>_.
      res_bind (raise_if (\<not> y_hashable action_class) TypeError) (\<lambda>_.
      res_bind (raise_if (ystr action_class \<notin> {''A'', ''B'', ''C''})
                  (runbook_error ''action_class must be A, B or C'')) (\<lambda>_.
      res_bind (raise_if (\<not> is_ystr description \<or> ystr description = [] \<or> length (ystr description) > 500)
                  (runbook_error ''description must be bounded text'')) (\<lambda>_.
      raise_if (\<not> y_int_in (yget_none raw ''timeout_seconds'') 1 300)
        (runbook_error ''timeout_seconds must be between 1 and 300''))))))))"

definition load_runbook :: "executable_policy \<Rightarrow> yaml \<Rightarrow> runbook res" where
  "load_runbook executables doc =
     res_bind (rb_mapping doc) (\<lambda>raw.
     res_bind (rb_only_keys raw [''id'', ''version'', ''project'', ''action_class'', ''description'',
                 ''timeout_seconds'', ''budget'', ''command'', ''parameters'', ''output'']) (\<lambda>_.
     res_bind (check_scalars raw) (\<lambda>_.
     let action_class = ystr (yget_none raw ''action_class'') in
     res_bind (load_parameters (yget_or (YMap []) raw ''parameters'')) (\<lambda>parameters.
     res_bind (load_command executables parameters action_class (yget_none raw ''command'')) (\<lambda>argv.
     res_bind (load_budget parameters action_class (yget_none raw ''budget'')) (\<lambda>budget.
     res_bind (load_output (yget_none raw ''output'')) (\<lambda>max_bytes.
     Inr \<lparr>rk_id = ystr (yget_none raw ''id''), rk_version = the (y_int (yget_none raw ''version'')),
          rk_project = ystr (yget_none raw ''project''), rk_action_class = action_class,
          rk_description = ystr (yget_none raw ''description''),
          rk_timeout_seconds = the (y_int (yget_none raw ''timeout_seconds'')),
          rk_argv_template = argv, rk_parameters = parameters, rk_budget = budget,
          rk_output_max_bytes = max_bytes\<rparr>)))))))"

section \<open>The registry\<close>

record runbook_file =
  rf_symlink :: bool
  rf_inside_root :: bool
  rf_size :: nat
  rf_doc :: yaml

type_synonym registry = "(string \<times> runbook) list"

text \<open>One iteration of the loop over \<^verbatim>\<open>sorted(root.rglob("*.yaml"))\<close>, and the loop.\<close>

definition registry_add :: "executable_policy \<Rightarrow> registry \<Rightarrow> runbook_file \<Rightarrow> registry res" where
  "registry_add executables runbooks f =
     res_bind (raise_if (rf_symlink f) (runbook_error ''symlinked runbook is forbidden'')) (\<lambda>_.
     res_bind (raise_if (\<not> rf_inside_root f) (runbook_error ''runbook escapes registry root'')) (\<lambda>_.
     res_bind (raise_if (rf_size f > 131072) (runbook_error ''runbook is too large'')) (\<lambda>_.
     res_bind (load_runbook executables (rf_doc f)) (\<lambda>runbook.
     res_bind (raise_if (rk_id runbook \<in> fst ` set runbooks) (runbook_error ''duplicate runbook id'')) (\<lambda>_.
     Inr (runbooks @ [(rk_id runbook, runbook)]))))))"

fun registry_fold :: "executable_policy \<Rightarrow> registry \<Rightarrow> runbook_file list \<Rightarrow> registry res" where
  "registry_fold executables runbooks [] = Inr runbooks"
| "registry_fold executables runbooks (f # fs) =
     res_bind (registry_add executables runbooks f) (\<lambda>runbooks'. registry_fold executables runbooks' fs)"

definition registry_load :: "executable_policy \<Rightarrow> runbook_file list \<Rightarrow> registry res" where
  "registry_load executables files =
     res_bind (registry_fold executables [] files) (\<lambda>runbooks.
     res_bind (raise_if (runbooks = []) (runbook_error ''no runbooks found'')) (\<lambda>_. Inr runbooks))"

definition registry_get :: "registry \<Rightarrow> string \<Rightarrow> runbook res" where
  "registry_get reg runbook_id =
     (case map_of reg runbook_id of None \<Rightarrow> Inl (NotFound ''runbook'') | Some rk \<Rightarrow> Inr rk)"

definition registry_all :: "registry \<Rightarrow> runbook list" where
  "registry_all reg = map snd (sort_key fst reg)"

section \<open>What the loaders accept\<close>

definition path_ok :: "string \<Rightarrow> bool" where
  "path_ok p \<longleftrightarrow> is_absolute p \<and> p \<notin> set SHELL_EXECUTABLES"

lemma validate_paths_Inr:
  "validate_paths xp = Inr u \<longleftrightarrow>
     (\<forall>p\<in>set (xp_executables xp) \<union> set (xp_sudo_helpers xp) \<union> set (sudo_path xp). path_ok p) \<and>
     (sudo_path xp \<noteq> [] \<longrightarrow> xp_sudo_required_prefix xp = [''-n''])"
  by (auto simp: validate_paths_def res_all_Inr_iff path_ok_def split: if_splits)

lemma executable_policy_load_Inr:
  "executable_policy_load doc = Inr xp \<Longrightarrow> validate_paths xp = Inr ()"
  by (auto simp: executable_policy_load_def Let_def)

text \<open>The program an argv runs: itself on the allowlist, or a helper behind \<^verbatim>\<open>sudo -n\<close>.\<close>

definition argv_allowed :: "executable_policy \<Rightarrow> string list \<Rightarrow> bool" where
  "argv_allowed xp argv \<longleftrightarrow> argv \<noteq> [] \<and> hd argv \<notin> set SHELL_EXECUTABLES \<and>
     (hd argv \<in> set (xp_executables xp) \<or>
      sudo_path xp = [hd argv] \<and>
      (\<exists>helper rest. argv = hd argv # xp_sudo_required_prefix xp @ helper # rest \<and> helper \<in> set (xp_sudo_helpers xp)))"

lemma validate_argv_template_Inr:
  assumes "validate_argv_template xp argv = Inr u" and "argv \<noteq> []"
  shows "argv_allowed xp argv"
proof -
  obtain x xs where argv: "argv = x # xs" using assms(2) by (cases argv) auto
  let ?k = "length (xp_sudo_required_prefix xp)"
  have "\<exists>helper rest. xs = xp_sudo_required_prefix xp @ helper # rest \<and> helper \<in> set (xp_sudo_helpers xp)"
    if "take ?k xs = xp_sudo_required_prefix xp" "?k < length xs" "xs ! ?k \<in> set (xp_sudo_helpers xp)"
    using that id_take_nth_drop [of ?k xs] by metis
  then show ?thesis
    using assms(1) by (auto simp: argv argv_allowed_def validate_argv_template_def Let_def split: if_splits)
qed

lemma cls_ok_single: "cls_ok False False [(of_char x, of_char x)] c \<longleftrightarrow> c = x"
  unfolding cls_ok_def in_ranges_def by (auto simp: of_char_eq_iff dest: le_antisym)

lemma placeholder_lang:
  assumes "rx_full_group PLACEHOLDER n s = Some g"
  shows "s \<noteq> [] \<and> hd s = brace_open \<and> brace_open \<in> set s"
proof -
  have "rx_plain PLACEHOLDER" by (auto simp: PLACEHOLDER_def)
  moreover have "rx_fullmatch PLACEHOLDER s"
    using assms by (auto simp: rx_full_group_def rx_fullmatch_def split: option.splits)
  ultimately have "s \<in> rx_lang False PLACEHOLDER" by (simp add: fullmatch_iff_lang)
  then show ?thesis unfolding PLACEHOLDER_def rx_lang.simps cls_ok_single by auto
qed

lemma no_brace_no_placeholder: "brace_open \<notin> set s \<Longrightarrow> rx_full_group PLACEHOLDER n s = None"
  using placeholder_lang [of n s] by (cases "rx_full_group PLACEHOLDER n s") auto

lemma identifier_no_colon:
  assumes "rx_fullmatch IDENTIFIER s"
  shows "CHR '':'' \<notin> set s"
  using assms by (auto simp: IDENTIFIER_def fullmatch_ident in_ranges_def dest!: bspec [of _ _ "CHR '':''"])

text \<open>The facts about a loaded runbook the later lemmas use.\<close>

definition runbook_ok :: "executable_policy \<Rightarrow> runbook \<Rightarrow> bool" where
  "runbook_ok xp rk \<longleftrightarrow>
     rx_fullmatch IDENTIFIER (rk_id rk) \<and> rx_fullmatch PROJECT (rk_project rk) \<and>
     rk_action_class rk \<in> {''A'', ''B'', ''C''} \<and>
     1 \<le> rk_timeout_seconds rk \<and> rk_timeout_seconds rk \<le> 300 \<and>
     1 \<le> rk_output_max_bytes rk \<and> rk_output_max_bytes rk \<le> 65536 \<and>
     (case rk_argv_template rk of
        None \<Rightarrow> rk_action_class rk = ''C''
      | Some argv \<Rightarrow> is_absolute (hd argv) \<and> argv_allowed xp argv \<and>
          (\<forall>item\<in>set argv. check_argv_item (rk_parameters rk) item = Inr ())) \<and>
     (case rk_budget rk of
        None \<Rightarrow> rk_action_class rk \<noteq> ''B''
      | Some b \<Rightarrow> rk_action_class rk = ''B'' \<and> 1 \<le> bs_max_attempts b \<and> bs_max_attempts b \<le> 10 \<and>
          1 \<le> bs_window_seconds b \<and> bs_window_seconds b \<le> 86400 \<and>
          \<not> snd (fmt_parse (bs_key_template b)) \<and>
          (\<forall>item\<in>set (fst (fmt_parse (bs_key_template b))). check_budget_item (rk_parameters rk) item = Inr ()))"

lemma y_int_in_iff: "y_int_in y lo hi \<longleftrightarrow> (\<exists>i. y_int y = Some i \<and> lo \<le> i \<and> i \<le> hi)"
  by (cases y) (auto simp: y_int_in_def y_int_def)

lemma load_command_Inr:
  assumes "load_command xp ps c v = Inr a"
  shows "case a of None \<Rightarrow> c = ''C''
    | Some argv \<Rightarrow> is_absolute (hd argv) \<and> argv_allowed xp argv \<and> (\<forall>i\<in>set argv. check_argv_item ps i = Inr ())"
  using assms
  by (auto simp: load_command_def Let_def res_all_Inr_iff intro: validate_argv_template_Inr split: if_splits)

lemma load_budget_Inr:
  assumes "load_budget ps c v = Inr b"
  shows "case b of None \<Rightarrow> c \<noteq> ''B''
    | Some b \<Rightarrow> c = ''B'' \<and> 1 \<le> bs_max_attempts b \<and> bs_max_attempts b \<le> 10 \<and>
        1 \<le> bs_window_seconds b \<and> bs_window_seconds b \<le> 86400 \<and> \<not> snd (fmt_parse (bs_key_template b)) \<and>
        (\<forall>i\<in>set (fst (fmt_parse (bs_key_template b))). check_budget_item ps i = Inr ())"
proof (cases "c = ''B''")
  case True
  show ?thesis
    using assms unfolding load_budget_def Let_def
    by (clarsimp simp: True res_all_Inr_iff y_int_in_iff)
next
  case False
  with assms show ?thesis by (simp add: load_budget_def split: if_splits)
qed

lemma load_output_Inr: "load_output v = Inr n \<Longrightarrow> 1 \<le> n \<and> n \<le> 65536"
  by (auto simp: load_output_def y_int_in_iff)

lemma check_scalars_Inr:
  assumes "check_scalars raw = Inr u"
  shows "rx_fullmatch IDENTIFIER (ystr (yget_none raw ''id''))"
    and "rx_fullmatch PROJECT (ystr (yget_none raw ''project''))"
    and "ystr (yget_none raw ''action_class'') \<in> {''A'', ''B'', ''C''}"
    and "1 \<le> the (y_int (yget_none raw ''timeout_seconds''))" "the (y_int (yget_none raw ''timeout_seconds'')) \<le> 300"
  using assms unfolding check_scalars_def Let_def res_bind_Inr_iff raise_if_Inr_iff y_int_in_iff
  by auto

lemma load_runbook_ok:
  assumes "load_runbook xp doc = Inr rk"
  shows "runbook_ok xp rk"
proof -
  from assms obtain raw where
    scalars: "check_scalars raw = Inr ()"
    and command: "load_command xp (rk_parameters rk) (rk_action_class rk) (yget_none raw ''command'') = Inr (rk_argv_template rk)"
    and budget: "load_budget (rk_parameters rk) (rk_action_class rk) (yget_none raw ''budget'') = Inr (rk_budget rk)"
    and out: "load_output (yget_none raw ''output'') = Inr (rk_output_max_bytes rk)"
    and fields: "rk_id rk = ystr (yget_none raw ''id'')" "rk_project rk = ystr (yget_none raw ''project'')"
      "rk_action_class rk = ystr (yget_none raw ''action_class'')"
      "rk_timeout_seconds rk = the (y_int (yget_none raw ''timeout_seconds''))"
    unfolding load_runbook_def Let_def res_bind_Inr_iff by auto
  show ?thesis
    unfolding runbook_ok_def
    using check_scalars_Inr [OF scalars] load_command_Inr [OF command] load_budget_Inr [OF budget]
      load_output_Inr [OF out] by (simp add: fields)
qed

section \<open>Parameters of a loaded runbook\<close>

lemma param_validate_idem: "param_validate spec v = Inr w \<Longrightarrow> param_validate spec w = Inr w"
  by (cases "ps_kind spec"; cases v)
     (auto simp: param_validate_def uuid_canon_idem split: if_splits option.splits)

text \<open>Names are kept in the schema's order; each value is the validated supplied one.\<close>

lemma validate_parameters_Inr:
  "validate_parameters rk s = Inr ps \<longleftrightarrow>
     (\<exists>kvs. s = JDict kvs \<and> fst ` set kvs = fst ` set (rk_parameters rk) \<and>
        list_all2 (\<lambda>np nv. fst nv = fst np \<and> param_validate (snd np) (the (map_of kvs (fst np))) = Inr (snd nv))
          (rk_parameters rk) ps)"
proof -
  have rel: "(case np of (n, spec) \<Rightarrow> map_sum id (Pair n) (param_validate spec (the (map_of kvs n)))) = Inr nv \<longleftrightarrow>
      fst nv = fst np \<and> param_validate (snd np) (the (map_of kvs (fst np))) = Inr (snd nv)"
    for kvs :: jdict and np :: "string \<times> parameter_spec" and nv :: "string \<times> json"
    by (cases np; cases nv; cases "param_validate (snd np) (the (map_of kvs (fst np)))") auto
  have empty: "filter (\<lambda>n. n \<notin> A) (map fst xs) = [] \<longleftrightarrow> fst ` set xs \<subseteq> A"
    for A :: "string set" and xs :: "(string \<times> 'a) list"
    by (auto simp: filter_empty_conv)
  show ?thesis
  proof (cases s)
    case (JDict kvs)
    have "fst ` set (rk_parameters rk) \<subseteq> fst ` set kvs \<and> fst ` set kvs \<subseteq> fst ` set (rk_parameters rk) \<longleftrightarrow>
        fst ` set kvs = fst ` set (rk_parameters rk)" by auto
    then show ?thesis
      unfolding JDict validate_parameters_def json.case Let_def empty
      by (auto simp: res_map_Inr_iff rel)
  qed (simp_all add: validate_parameters_def)
qed

lemma list_all2_map_of:
  assumes "list_all2 (\<lambda>a b. fst b = fst a \<and> P (fst a) (snd a) (snd b)) as bs" and "map_of as k = Some x"
  shows "\<exists>y. map_of bs k = Some y \<and> P k x y"
  using assms by (induction rule: list_all2_induct) (auto split: if_splits)

lemma list_all2_fst_eq:
  "list_all2 (\<lambda>a b. fst b = fst a \<and> P a b) as bs \<Longrightarrow> map fst bs = map fst as"
  by (induction rule: list_all2_induct) auto

lemma validated_names:
  "validate_parameters rk s = Inr ps \<Longrightarrow> map fst ps = map fst (rk_parameters rk)"
  by (auto simp: validate_parameters_Inr dest: list_all2_fst_eq)

lemma validated_value:
  assumes "validate_parameters rk s = Inr ps" and "map_of (rk_parameters rk) n = Some spec"
  shows "\<exists>v. map_of ps n = Some v \<and> param_validate spec v = Inr v"
proof -
  obtain kvs where "list_all2 (\<lambda>np nv. fst nv = fst np \<and>
      param_validate (snd np) (the (map_of kvs (fst np))) = Inr (snd nv)) (rk_parameters rk) ps"
    using assms(1) by (auto simp: validate_parameters_Inr)
  from list_all2_map_of [where P = "\<lambda>k x y. param_validate x (the (map_of kvs k)) = Inr y", OF this assms(2)]
  show ?thesis by (auto intro: param_validate_idem)
qed

lemma validate_parameters_idem:
  assumes ok: "validate_parameters rk s = Inr ps" and dist: "distinct (map fst (rk_parameters rk))"
  shows "validate_parameters rk (JDict ps) = Inr ps"
proof -
  have names: "map fst ps = map fst (rk_parameters rk)" using ok by (rule validated_names)
  have "param_validate (snd (rk_parameters rk ! i)) (the (map_of ps (fst (rk_parameters rk ! i)))) = Inr (snd (ps ! i))"
    if i: "i < length (rk_parameters rk)" for i
  proof -
    have len: "length ps = length (rk_parameters rk)" using names by (metis length_map)
    have "map_of (rk_parameters rk) (fst (rk_parameters rk ! i)) = Some (snd (rk_parameters rk ! i))"
      using dist i by (simp add: map_of_eq_Some_iff)
    moreover have fst: "fst (ps ! i) = fst (rk_parameters rk ! i)"
      using names len i by (metis nth_map)
    moreover have "map_of ps (fst (ps ! i)) = Some (snd (ps ! i))"
      using dist i len by (simp add: map_of_eq_Some_iff names)
    ultimately show ?thesis using validated_value [OF ok] by fastforce
  qed
  moreover have "fst ` set ps = fst ` set (rk_parameters rk)"
    using names by (metis list.set_map)
  ultimately show ?thesis
    using names by (auto simp: validate_parameters_Inr list_all2_conv_all_nth) (metis length_map nth_map)+
qed

lemma param_validate_scalar:
  "param_validate spec v = Inr w \<Longrightarrow> (\<exists>s. w = JStr s) \<or> (\<exists>i. w = JInt i) \<or> (\<exists>b. w = JBool b)"
  by (cases "ps_kind spec"; cases v) (auto simp: param_validate_def split: if_splits option.splits)

section \<open>Rendered command lines\<close>

lemma render_item_literal: "item = [] \<or> hd item \<noteq> brace_open \<Longrightarrow> render_item ps item = Inr item"
  using placeholder_lang [of 1 item]
  by (cases "rx_full_group PLACEHOLDER 1 item") (auto simp: render_item_def)

lemma absolute_not_brace: "is_absolute p \<Longrightarrow> hd p \<noteq> brace_open"
  by (cases p) (auto simp: is_absolute_def)

text \<open>Where a parameter may appear, and what it may be, in argument \<open>i\<close> of a rendered argv.\<close>

definition arg_ok :: "runbook \<Rightarrow> jdict \<Rightarrow> string \<Rightarrow> string \<Rightarrow> bool" where
  "arg_ok rk ps item arg \<longleftrightarrow> arg = item \<or>
     (\<exists>n spec v. rx_full_group PLACEHOLDER 1 item = Some n \<and> map_of (rk_parameters rk) n = Some spec \<and>
        ps_kind spec \<noteq> KString \<and> map_of ps n = Some v \<and> arg = param_str v \<and> \<not> starts_with ''-'' arg)"

lemma check_argv_item_placeholder:
  assumes "check_argv_item params item = Inr ()" and "rx_full_group PLACEHOLDER 1 item = Some n"
  shows "\<exists>spec. map_of params n = Some spec \<and> ps_kind spec \<noteq> KString"
  using assms placeholder_lang [OF assms(2)]
  by (auto simp: check_argv_item_def split: if_splits option.splits)

lemma check_argv_item_safe: "check_argv_item params item = Inr () \<Longrightarrow> \<not> argv_unsafe item"
  by (auto simp: check_argv_item_def split: if_splits)

lemma render_item_arg_ok:
  assumes "check_argv_item (rk_parameters rk) item = Inr ()" and "render_item ps item = Inr arg"
  shows "arg_ok rk ps item arg \<and> \<not> argv_unsafe arg"
  using assms check_argv_item_placeholder [OF assms(1)] check_argv_item_safe [OF assms(1)]
  by (fastforce simp: arg_ok_def render_item_def split: option.splits if_splits)

lemma list_all2_fixed_prefix:
  assumes "list_all2 (\<lambda>x y. f x = Inr y) (as @ bs) ys" and "\<And>a. a \<in> set as \<Longrightarrow> f a = Inr a"
  shows "\<exists>ys'. ys = as @ ys'"
  using assms by (induction as arbitrary: ys) (fastforce simp: list_all2_Cons1)+

lemma render_argv_allowed:
  assumes xp: "validate_paths xp = Inr ()" and allowed: "argv_allowed xp tmpl" and abs: "is_absolute (hd tmpl)"
    and rendered: "list_all2 (\<lambda>x y. render_item ps x = Inr y) tmpl argv"
  shows "argv_allowed xp argv"
proof -
  obtain x xs where tmpl: "tmpl = x # xs" using allowed by (cases tmpl) (auto simp: argv_allowed_def)
  have lit: "render_item ps p = Inr p" if "is_absolute p \<or> p = ''-n''" for p
    using that absolute_not_brace [of p] by (intro render_item_literal) auto
  have hd: "\<exists>ys. argv = x # ys"
    using list_all2_fixed_prefix [of "render_item ps" "[x]" xs argv] rendered lit abs by (auto simp: tmpl)
  show ?thesis
  proof (cases "x \<in> set (xp_executables xp)")
    case True
    with hd allowed show ?thesis by (auto simp: argv_allowed_def tmpl)
  next
    case False
    then obtain helper rest where sudo: "sudo_path xp = [x]"
      and xs: "xs = xp_sudo_required_prefix xp @ helper # rest" and helper: "helper \<in> set (xp_sudo_helpers xp)"
      using allowed by (auto simp: argv_allowed_def tmpl)
    have "xp_sudo_required_prefix xp = [''-n'']" and "is_absolute helper"
      using xp sudo helper by (auto simp: validate_paths_Inr path_ok_def)
    then have "\<exists>ys. argv = (x # xp_sudo_required_prefix xp @ [helper]) @ ys"
      using list_all2_fixed_prefix [of "render_item ps" "x # xp_sudo_required_prefix xp @ [helper]" rest argv]
        rendered lit abs by (auto simp: tmpl xs)
    with sudo helper allowed show ?thesis by (auto simp: argv_allowed_def tmpl)
  qed
qed

lemma render_argv_Inr:
  "render_argv rk ps = Inr (Some argv) \<longleftrightarrow>
     (\<exists>tmpl. rk_argv_template rk = Some tmpl \<and> list_all2 (\<lambda>x y. render_item ps x = Inr y) tmpl argv)"
  by (cases "rk_argv_template rk"; cases "res_map (render_item ps) (the (rk_argv_template rk))")
     (auto simp: render_argv_def simp flip: res_map_Inr_iff)

text \<open>The only way rendering fails on validated parameters is the guard on the argument's text.\<close>

lemma render_argv_total:
  assumes "runbook_ok xp rk" and "validate_parameters rk s = Inr ps"
  shows "is_ok (render_argv rk ps) \<or> render_argv rk ps = Inl (invalid_parameters ''parameter is unsafe in argv'')"
proof (cases "rk_argv_template rk")
  case (Some tmpl)
  have item: "e = invalid_parameters ''parameter is unsafe in argv''"
    if "item \<in> set tmpl" "render_item ps item = Inl e" for item e
  proof -
    have ok: "check_argv_item (rk_parameters rk) item = Inr ()"
      using assms(1) that(1) Some by (simp add: runbook_ok_def)
    show ?thesis
      using that(2) check_argv_item_placeholder [OF ok] validated_value [OF assms(2)]
      by (fastforce simp: render_item_def split: option.splits if_splits)
  qed
  show ?thesis
    using Some item res_map_Inl [of "render_item ps" tmpl]
    by (cases "res_map (render_item ps) tmpl") (auto simp: render_argv_def)
qed (simp add: render_argv_def)

section \<open>Budget keys\<close>

lemma budget_key_total:
  assumes "runbook_ok xp rk" and "validate_parameters rk s = Inr ps"
  shows "if rk_action_class rk = ''B'' then \<exists>k. budget_key rk ps = Inr (Some (rk_id rk @ '':'' @ k))
         else budget_key rk ps = Inr None"
proof (cases "rk_budget rk")
  case (Some b)
  have item: "is_ok (render_fmt_item ps item)" if "item \<in> set (fst (fmt_parse (bs_key_template b)))" for item
  proof -
    have "check_budget_item (rk_parameters rk) item = Inr ()"
      using assms(1) Some that by (simp add: runbook_ok_def)
    then show ?thesis
      using validated_names [OF assms(2)]
      by (auto simp: check_budget_item_def render_fmt_item_def split: option.splits if_splits)
         (metis image_set map_of_eq_None_iff fst_conv imageI)
  qed
  then have "is_ok (res_map (render_fmt_item ps) (fst (fmt_parse (bs_key_template b))))"
    using res_map_Inl is_ok_iff_not_Inl by metis
  with Some assms(1) show ?thesis by (auto simp: runbook_ok_def budget_key_def)
qed (use assms(1) in \<open>auto simp: runbook_ok_def budget_key_def\<close>)

lemma colon_prefix_eq:
  assumes "a @ CHR '':'' # x = b @ CHR '':'' # y" "CHR '':'' \<notin> set a" "CHR '':'' \<notin> set b"
  shows "a = b"
proof -
  have "takeWhile (\<lambda>c. c \<noteq> CHR '':'') (u @ CHR '':'' # v) = u" if "CHR '':'' \<notin> set u" for u v
    using that by (subst takeWhile_append2) auto
  then show ?thesis using assms by metis
qed

lemma budget_key_shape: "budget_key rk ps = Inr (Some k) \<Longrightarrow> \<exists>t. k = rk_id rk @ CHR '':'' # t"
  by (auto simp: budget_key_def split: option.splits if_splits)

lemma budget_key_id:
  assumes "runbook_ok xp rk" "runbook_ok xp' rk'"
    and "budget_key rk ps = Inr (Some k)" "budget_key rk' ps' = Inr (Some k)"
  shows "rk_id rk = rk_id rk'"
proof -
  obtain t t' where "rk_id rk @ CHR '':'' # t = rk_id rk' @ CHR '':'' # t'"
    using assms(3,4) [THEN budget_key_shape] by auto
  moreover have "CHR '':'' \<notin> set (rk_id rk)" "CHR '':'' \<notin> set (rk_id rk')"
    using assms(1,2) by (simp_all add: runbook_ok_def identifier_no_colon)
  ultimately show ?thesis by (rule colon_prefix_eq)
qed

section \<open>The loaded registry\<close>

definition registry_ok :: "executable_policy \<Rightarrow> registry \<Rightarrow> bool" where
  "registry_ok xp reg \<longleftrightarrow> distinct (map fst reg) \<and> (\<forall>(k, rk)\<in>set reg. k = rk_id rk \<and> runbook_ok xp rk)"

lemma registry_fold_ok:
  "registry_ok xp reg \<Longrightarrow> registry_fold xp reg fs = Inr reg' \<Longrightarrow> registry_ok xp reg'"
proof (induction fs arbitrary: reg)
  case (Cons f fs)
  then obtain rk where "load_runbook xp (rf_doc f) = Inr rk" "rk_id rk \<notin> fst ` set reg"
    and rest: "registry_fold xp (reg @ [(rk_id rk, rk)]) fs = Inr reg'"
    by (auto simp: registry_add_def)
  then have "registry_ok xp (reg @ [(rk_id rk, rk)])"
    using Cons.prems(1) load_runbook_ok by (auto simp: registry_ok_def)
  then show ?case using Cons.IH rest by blast
qed simp

lemma registry_load_ok: "registry_load xp fs = Inr reg \<Longrightarrow> registry_ok xp reg \<and> reg \<noteq> []"
  using registry_fold_ok [of xp "[]" fs] by (auto simp: registry_load_def registry_ok_def)

lemma registry_get_ok:
  "registry_ok xp reg \<Longrightarrow> registry_get reg i = Inr rk \<Longrightarrow> rk_id rk = i \<and> runbook_ok xp rk"
  by (auto simp: registry_ok_def registry_get_def split: option.splits dest!: map_of_SomeD)

lemma registry_all_ok:
  assumes "registry_ok xp reg"
  shows "sorted (map rk_id (registry_all reg)) \<and> set (registry_all reg) = snd ` set reg"
proof -
  have "map rk_id (registry_all reg) = map fst (sort_key fst reg)"
    using assms by (auto simp: registry_all_def registry_ok_def)
  then have "sorted (map rk_id (registry_all reg))" by (simp only: sorted_sort_key)
  then show ?thesis by (simp add: registry_all_def)
qed

end
