(* ===== verification/Broker_Base.thy ===== *)
theory Broker_Base
  imports Broker_Audit Broker_Policy Broker_Runbooks
begin

text \<open>
  What the handlers of \<^verbatim>\<open>service.py\<close> and \<^verbatim>\<open>mission_control.py\<close> share: the configuration of a
  \<^verbatim>\<open>BrokerService\<close>, the validators of request fields, the audited denial, and the public views of
  missions, incidents, status changes and actions. Arguments have the types of the signatures, so
  the \<^verbatim>\<open>isinstance\<close> tests that only restate an annotation are always true; integers are \<open>int\<close> and
  booleans are no integers here.
\<close>

section \<open>Configuration\<close>

record execution_result =
  xr_return_code :: int
  xr_stdout :: string
  xr_stderr :: string
  xr_timed_out :: bool
  xr_truncated :: bool

text \<open>
  The executor is an argument: given how many commands ran before and its three arguments, its
  result, or \<open>None\<close> where it raises.
\<close>

record broker =
  bk_rt :: runtime
  bk_registry :: registry
  bk_rbac :: rbac_policy
  bk_action_policy :: action_policy
  bk_executor :: "nat \<Rightarrow> string list \<Rightarrow> int \<Rightarrow> int \<Rightarrow> execution_result option"

definition op_execute :: "broker \<Rightarrow> string list \<Rightarrow> int \<Rightarrow> int \<Rightarrow> execution_result option op" where
  "op_execute bk argv timeout_seconds max_bytes = (\<lambda>w.
     (Inr (bk_executor bk (length (w_runs w)) argv timeout_seconds max_bytes),
      w\<lparr>w_runs := w_runs w @ [(argv, timeout_seconds, max_bytes)]\<rparr>))"

section \<open>Validators\<close>

definition ACTOR_ID :: rx where
  "ACTOR_ID = RSeq (RCls False [cls_upper, cls_lower, cls_digit])
     (RRep 0 (Some 127) (RCls False [cls_upper, cls_lower, cls_digit, (58, 58), (46, 46), (95, 95), (45, 45)]))"

definition PROJECT_ID :: rx where
  "PROJECT_ID = RSeq (RCls False [cls_lower, cls_digit])
     (RRep 1 (Some 63) (RCls False [cls_lower, cls_digit, (45, 45)]))"

definition SOURCE :: rx where
  "SOURCE = RSeq (RCls False [cls_lower])
     (RRep 0 (Some 31) (RCls False [cls_lower, cls_digit, (46, 46), (95, 95), (45, 45)]))"

definition validate_actor :: "string \<Rightarrow> unit res" where
  "validate_actor actor_id =
     raise_if (\<not> rx_fullmatch ACTOR_ID actor_id) (AuthorizationDenied ''actor id is malformed'')"

definition validate_request_id :: "string \<Rightarrow> string res" where
  "validate_request_id request_id =
     (case uuid_canon request_id of
        None \<Rightarrow> Inl (BrokerError ''invalid_request_id'' ''request_id must be a UUID'' 422 [])
      | Some u \<Rightarrow> Inr u)"

definition bounded_text :: "nat \<Rightarrow> nat \<Rightarrow> string \<Rightarrow> string res" where
  "bounded_text minimum maximum value =
     (if \<not> (minimum \<le> length value \<and> length value \<le> maximum) \<or> chr_nul \<in> set value
      then Inl (invalid_request ''must be bounded text'') else Inr (redact_text value))"

definition validate_limit :: "int \<Rightarrow> int res" where
  "validate_limit limit =
     (if 1 \<le> limit \<and> limit \<le> 50 then Inr limit else Inl (invalid_request ''limit must be an integer from 1 to 50''))"

definition validate_offset :: "int \<Rightarrow> int res" where
  "validate_offset offset =
     (if 0 \<le> offset \<and> offset \<le> 10000 then Inr offset
      else Inl (invalid_request ''offset must be an integer from 0 to 10000''))"

section \<open>Public views\<close>

abbreviation jstamp :: "instant \<Rightarrow> json" where
  "jstamp t \<equiv> jclip 40 (isoformat t)"

definition mission_dict :: "mission_row \<Rightarrow> json" where
  "mission_dict r =
     JDict [(''id'', JStr (mi_id r)), (''request_id'', JStr (mi_request_id r)), (''project_id'', JStr (mi_project_id r)),
       (''title'', JStr (mi_title r)), (''status'', JStr (mi_status r)), (''created_by'', JStr (mi_created_by r)),
       (''created_at'', jtime (mi_created_at r)), (''updated_at'', jtime (mi_updated_at r))]"

definition incident_dict :: "incident_row \<Rightarrow> json" where
  "incident_dict r =
     JDict [(''id'', JStr (in_id r)), (''request_id'', JStr (in_request_id r)), (''project_id'', JStr (in_project_id r)),
       (''title'', JStr (in_title r)), (''severity'', JStr (in_severity r)), (''status'', JStr (in_status r)),
       (''created_by'', JStr (in_created_by r)), (''created_at'', jtime (in_created_at r)),
       (''updated_at'', jtime (in_updated_at r))]"

definition mission_public :: "mission_row \<Rightarrow> json" where
  "mission_public r =
     JDict [(''id'', jclip 36 (mi_id r)), (''project_id'', jclip 64 (mi_project_id r)),
       (''title'', jclip 240 (mi_title r)), (''status'', jclip 16 (mi_status r)),
       (''created_at'', jstamp (mi_created_at r)), (''updated_at'', jstamp (mi_updated_at r))]"

definition incident_public :: "incident_row \<Rightarrow> json" where
  "incident_public r =
     JDict [(''id'', jclip 36 (in_id r)), (''project_id'', jclip 64 (in_project_id r)),
       (''title'', jclip 240 (in_title r)), (''severity'', jclip 16 (in_severity r)), (''status'', jclip 16 (in_status r)),
       (''created_at'', jstamp (in_created_at r)), (''updated_at'', jstamp (in_updated_at r))]"

definition status_change_public :: "string \<Rightarrow> string \<Rightarrow> bool \<Rightarrow> status_change_row \<Rightarrow> json" where
  "status_change_public entity_key current_status replayed r =
     (let previous_status = take 16 (sc_previous_status r); requested_status = take 16 (sc_new_status r) in
      JDict [(''request_id'', jclip 36 (sc_request_id r)), (entity_key, jclip 36 (sc_entity_id r)),
        (''previous_status'', JStr previous_status), (''status'', JStr requested_status),
        (''current_status'', jclip 16 current_status), (''changed'', JBool (previous_status \<noteq> requested_status)),
        (''replayed'', JBool replayed), (''updated_at'', jstamp (sc_created_at r))])"

text \<open>\<^verbatim>\<open>json.loads\<close> of a column: the model raises \<^verbatim>\<open>JSONDecodeError\<close> like the code.\<close>

definition loads_column :: "runtime \<Rightarrow> string \<Rightarrow> json res" where
  "loads_column rt t = (case json_loads (rt_frepr rt) t of None \<Rightarrow> Inl JSONDecodeError | Some v \<Rightarrow> Inr v)"

definition loads_result :: "runtime \<Rightarrow> action_row \<Rightarrow> json res" where
  "loads_result rt r =
     (case ac_result_json r of None \<Rightarrow> Inr JNull | Some t \<Rightarrow> if t = [] then Inr JNull else loads_column rt t)"

definition action_public :: "runtime \<Rightarrow> action_row \<Rightarrow> json res" where
  "action_public rt r =
     res_bind (loads_result rt r) (\<lambda>result.
     res_bind (loads_column rt (ac_parameters_json r)) (\<lambda>parameters.
     Inr (JDict [(''id'', JStr (ac_id r)), (''request_id'', JStr (ac_request_id r)),
       (''mission_id'', opt_json JStr (ac_mission_id r)), (''incident_id'', opt_json JStr (ac_incident_id r)),
       (''project_id'', JStr (ac_project_id r)), (''runbook_id'', JStr (ac_runbook_id r)),
       (''runbook_version'', JInt (ac_runbook_version r)), (''action_class'', JStr (ac_action_class r)),
       (''requested_by'', JStr (ac_requested_by r)), (''reason'', JStr (ac_reason r)), (''parameters'', parameters),
       (''status'', JStr (ac_status r)), (''approval_deadline'', opt_json jtime (ac_approval_deadline r)),
       (''result'', result), (''created_at'', jtime (ac_created_at r)), (''updated_at'', jtime (ac_updated_at r))])))"

definition jget :: "jdict \<Rightarrow> string \<Rightarrow> json" where
  "jget d k = (case map_of d k of None \<Rightarrow> JNull | Some v \<Rightarrow> v)"

text \<open>\<^verbatim>\<open>str(x)[:n] if x else None\<close>: an empty string is falsy.\<close>

definition truthy_clip :: "nat \<Rightarrow> string option \<Rightarrow> json" where
  "truthy_clip n x = (case x of None \<Rightarrow> JNull | Some s \<Rightarrow> if s = [] then JNull else jclip n s)"

definition action_summary_public :: "runtime \<Rightarrow> action_row \<Rightarrow> json res" where
  "action_summary_public rt r =
     res_bind (loads_result rt r) (\<lambda>stored_result.
     let result = (case stored_result of
           JDict d \<Rightarrow> JDict [(''return_code'', jget d ''return_code''), (''timed_out'', jget d ''timed_out''),
                            (''truncated'', jget d ''truncated'')]
         | _ \<Rightarrow> JNull) in
     Inr (JDict [(''id'', jclip 36 (ac_id r)), (''mission_id'', truthy_clip 36 (ac_mission_id r)),
       (''incident_id'', truthy_clip 36 (ac_incident_id r)), (''project_id'', jclip 64 (ac_project_id r)),
       (''runbook_id'', jclip 128 (ac_runbook_id r)), (''runbook_version'', JInt (ac_runbook_version r)),
       (''action_class'', jclip 1 (ac_action_class r)), (''requested_by'', jclip 128 (ac_requested_by r)),
       (''status'', jclip 32 (ac_status r)),
       (''approval_deadline'', opt_json jstamp (ac_approval_deadline r)), (''result'', result),
       (''created_at'', jstamp (ac_created_at r)), (''updated_at'', jstamp (ac_updated_at r))]))"

section \<open>Audited denials\<close>

definition audit_denial ::
  "broker \<Rightarrow> string \<Rightarrow> string \<Rightarrow> string \<Rightarrow> string \<Rightarrow> string \<Rightarrow> string option \<Rightarrow> unit op" where
  "audit_denial bk actor_id event_type entity_type entity_id code request_id =
     op_bind op_now (\<lambda>now.
     transaction (op_bind (append_event (bk_rt bk) (isoformat now) event_type actor_id entity_type entity_id
         (JDict [(''decision'', JStr ''deny''), (''code'', JStr code), (''request_id'', opt_json JStr request_id)])) (\<lambda>_.
       op_ret ())))"

text \<open>\<^verbatim>\<open>try: m; except E as exc: self._audit_denial(..., code=exc.code, ...); raise\<close>.\<close>

definition or_audit_denial ::
  "broker \<Rightarrow> (py_exc \<Rightarrow> bool) \<Rightarrow> string \<Rightarrow> string \<Rightarrow> string \<Rightarrow> string \<Rightarrow> string option \<Rightarrow> 'a op \<Rightarrow> 'a op" where
  "or_audit_denial bk P actor_id event_type entity_type entity_id request_id m =
     op_catch m P (\<lambda>exc.
       op_bind (audit_denial bk actor_id event_type entity_type entity_id (exc_code exc) request_id) (\<lambda>_.
       op_raise exc))"

definition is_denial :: "py_exc \<Rightarrow> bool" where
  "is_denial e \<longleftrightarrow> (case e of AuthorizationDenied _ \<Rightarrow> True | _ \<Rightarrow> False)"

section \<open>Shared lemmas\<close>

lemma validate_actor_Inr [op_simps]: "validate_actor a = Inr u \<longleftrightarrow> rx_fullmatch ACTOR_ID a"
  by (simp add: validate_actor_def)

lemma validate_request_id_Inr [op_simps]: "validate_request_id r = Inr u \<longleftrightarrow> uuid_canon r = Some u"
  by (auto simp: validate_request_id_def split: option.splits)

lemma bounded_text_Inr [op_simps]:
  "bounded_text lo hi s = Inr t \<longleftrightarrow> lo \<le> length s \<and> length s \<le> hi \<and> chr_nul \<notin> set s \<and> t = redact_text s"
  by (auto simp: bounded_text_def)

lemma op_execute_Inr [op_simps]:
  "op_execute bk argv t m w = (Inr y, w') \<longleftrightarrow>
     y = bk_executor bk (length (w_runs w)) argv t m \<and> w' = w\<lparr>w_runs := w_runs w @ [(argv, t, m)]\<rparr>"
  by (auto simp: op_execute_def)

lemma or_audit_denial_Inr [op_simps]:
  "or_audit_denial bk P a et en ei rq m w = (Inr x, w') \<longleftrightarrow> m w = (Inr x, w')"
  by (auto simp: or_audit_denial_def op_catch_Inr op_bind_Inr op_raise_Inr)

lemma audit_execute: "evolves (audit_extends rt) (op_execute bk argv t m)"
  by (simp add: evolves_def op_execute_def audit.refl)

lemma json_ok_opt_str [simp]: "json_ok fr (opt_json JStr x)"
  by (cases x) (simp_all add: opt_json_def)

lemma json_ok_opt_time [simp]: "json_ok fr (opt_json jtime x)"
  by (cases x) (simp_all add: opt_json_def)

lemma audit_denial_evolves: "evolves (audit_extends (bk_rt bk)) (audit_denial bk a et en ei c rq)"
  unfolding audit_denial_def
  by (intro audit.ev_rules audit_append_event) simp_all

lemma or_audit_denial_evolves:
  "evolves (audit_extends (bk_rt bk)) m \<Longrightarrow> evolves (audit_extends (bk_rt bk)) (or_audit_denial bk P a et en ei rq m)"
  unfolding or_audit_denial_def by (intro audit.ev_rules audit_denial_evolves)

lemmas audit_rules = audit.ev_rules audit_execute audit_denial_evolves or_audit_denial_evolves

end
