(* ===== verification/Broker_Lifecycle.thy ===== *)
theory Broker_Lifecycle
  imports Broker_Base
begin

text \<open>
  The mission and incident handlers of \<^verbatim>\<open>service.py\<close>: creation, listing, lookup, and
  \<^verbatim>\<open>_set_entity_status\<close> with its two status machines. The read before a transaction and the
  transaction itself are separate statements here as in the code; requests run one after another.
\<close>

section \<open>Status machines\<close>

datatype entity = Mission | Incident

definition entity_type :: "entity \<Rightarrow> string" where
  "entity_type e = (case e of Mission \<Rightarrow> ''mission'' | Incident \<Rightarrow> ''incident'')"

definition entity_key :: "entity \<Rightarrow> string" where
  "entity_key e = (case e of Mission \<Rightarrow> ''mission_id'' | Incident \<Rightarrow> ''incident_id'')"

definition MISSION_TRANSITIONS :: "(string \<times> string list) list" where
  "MISSION_TRANSITIONS =
     [(''open'', [''paused'', ''completed'']), (''paused'', [''open'', ''completed'']), (''completed'', [])]"

definition INCIDENT_TRANSITIONS :: "(string \<times> string list) list" where
  "INCIDENT_TRANSITIONS =
     [(''open'', [''monitoring'', ''resolved'']), (''monitoring'', [''open'', ''resolved'']), (''resolved'', [])]"

definition allowed_transitions :: "entity \<Rightarrow> (string \<times> string list) list" where
  "allowed_transitions e = (case e of Mission \<Rightarrow> MISSION_TRANSITIONS | Incident \<Rightarrow> INCIDENT_TRANSITIONS)"

definition allowed_statuses :: "entity \<Rightarrow> string list" where
  "allowed_statuses e =
     (case e of Mission \<Rightarrow> [''open'', ''paused'', ''completed''] | Incident \<Rightarrow> [''open'', ''monitoring'', ''resolved''])"

section \<open>Creation\<close>

definition create_mission :: "broker \<Rightarrow> string \<Rightarrow> string \<Rightarrow> string \<Rightarrow> string \<Rightarrow> json op" where
  "create_mission bk actor_id request_id project_id title =
     op_bind (op_lift (validate_actor actor_id)) (\<lambda>_.
     op_bind (op_lift (validate_request_id request_id)) (\<lambda>request_id.
     op_bind (op_raise_if (\<not> rx_fullmatch PROJECT_ID project_id) (invalid_request ''project_id is malformed'')) (\<lambda>_.
     op_bind (op_lift (bounded_text 1 240 title)) (\<lambda>title.
     op_bind (or_audit_denial bk is_denial actor_id ''mission.denied'' ''mission'' request_id (Some request_id)
                (op_lift (require_project (bk_rbac bk) actor_id project_id))) (\<lambda>_.
     op_bind (op_query (\<lambda>d. select_one (\<lambda>r. mi_request_id r = request_id) (tb_missions d))) (\<lambda>existing.
     case existing of
       Some r \<Rightarrow>
         if mi_created_by r = actor_id \<and> mi_project_id r = project_id \<and> mi_title r = title
         then op_ret (mission_dict r)
         else op_raise (Conflict ''request_id was already used for a different mission'')
     | None \<Rightarrow>
         op_bind op_uuid4 (\<lambda>mission_id.
         op_bind op_now (\<lambda>now.
         transaction (
           op_bind (op_exec (insert_mission
              \<lparr>mi_id = mission_id, mi_request_id = request_id, mi_project_id = project_id, mi_title = title,
               mi_status = ''open'', mi_created_by = actor_id, mi_created_at = now, mi_updated_at = now\<rparr>)) (\<lambda>_.
           op_bind (append_event (bk_rt bk) (isoformat now) ''mission.created'' actor_id ''mission'' mission_id
              (JDict [(''request_id'', JStr request_id), (''project_id'', JStr project_id)])) (\<lambda>_.
           op_bind (op_query (\<lambda>d. select_one (\<lambda>r. mi_id r = mission_id) (tb_missions d))) (\<lambda>row.
           case row of None \<Rightarrow> op_raise AssertionError | Some r \<Rightarrow> op_ret (mission_dict r)))))))))))))"

definition create_incident :: "broker \<Rightarrow> string \<Rightarrow> string \<Rightarrow> string \<Rightarrow> string \<Rightarrow> string \<Rightarrow> json op" where
  "create_incident bk actor_id request_id project_id title severity =
     op_bind (op_lift (validate_actor actor_id)) (\<lambda>_.
     op_bind (op_lift (validate_request_id request_id)) (\<lambda>request_id.
     op_bind (op_raise_if (\<not> rx_fullmatch PROJECT_ID project_id) (invalid_request ''project_id is malformed'')) (\<lambda>_.
     op_bind (op_raise_if (severity \<notin> {''info'', ''warning'', ''critical''}) (invalid_request ''severity is invalid'')) (\<lambda>_.
     op_bind (op_lift (bounded_text 1 240 title)) (\<lambda>title.
     op_bind (or_audit_denial bk is_denial actor_id ''incident.denied'' ''incident'' request_id (Some request_id)
                (op_lift (require_project (bk_rbac bk) actor_id project_id))) (\<lambda>_.
     op_bind (op_query (\<lambda>d. select_one (\<lambda>r. in_request_id r = request_id) (tb_incidents d))) (\<lambda>existing.
     case existing of
       Some r \<Rightarrow>
         if in_created_by r = actor_id \<and> in_project_id r = project_id \<and> in_title r = title \<and> in_severity r = severity
         then op_ret (incident_dict r)
         else op_raise (Conflict ''request_id was already used for a different incident'')
     | None \<Rightarrow>
         op_bind op_uuid4 (\<lambda>incident_id.
         op_bind op_now (\<lambda>now.
         transaction (
           op_bind (op_exec (insert_incident
              \<lparr>in_id = incident_id, in_request_id = request_id, in_project_id = project_id, in_title = title,
               in_severity = severity, in_status = ''open'', in_created_by = actor_id, in_created_at = now,
               in_updated_at = now\<rparr>)) (\<lambda>_.
           op_bind (append_event (bk_rt bk) (isoformat now) ''incident.created'' actor_id ''incident'' incident_id
              (JDict [(''request_id'', JStr request_id), (''project_id'', JStr project_id),
                      (''severity'', JStr severity)])) (\<lambda>_.
           op_bind (op_query (\<lambda>d. select_one (\<lambda>r. in_id r = incident_id) (tb_incidents d))) (\<lambda>row.
           case row of None \<Rightarrow> op_raise AssertionError | Some r \<Rightarrow> op_ret (incident_dict r))))))))))))))"

section \<open>Listing and lookup\<close>

definition authorized_project_filter :: "broker \<Rightarrow> string \<Rightarrow> string option \<Rightarrow> string list res" where
  "authorized_project_filter bk actor_id project_id =
     res_bind (validate_actor actor_id) (\<lambda>_.
     case project_id of
       Some p \<Rightarrow>
         res_bind (raise_if (\<not> rx_fullmatch PROJECT_ID p) (invalid_request ''project_id is malformed'')) (\<lambda>_.
         res_bind (require_project (bk_rbac bk) actor_id p) (\<lambda>_. Inr [p]))
     | None \<Rightarrow> map_sum id (\<lambda>ps. sort (remdups ps)) (projects_for_actor (bk_rbac bk) actor_id))"

definition list_runbooks :: "broker \<Rightarrow> string \<Rightarrow> json list res" where
  "list_runbooks bk actor_id =
     res_bind (validate_actor actor_id) (\<lambda>_.
     res_bind (raise_if (\<not> is_known_actor (bk_rbac bk) actor_id) (AuthorizationDenied ''unknown actor'')) (\<lambda>_.
     res_bind (res_map (\<lambda>rk. map_sum id (Pair rk)
                  (can_runbook (bk_rbac bk) actor_id (rk_project rk) (rk_id rk) (rk_action_class rk)))
                (registry_all (bk_registry bk))) (\<lambda>flags.
     Inr (map (public_metadata \<circ> fst) (filter snd flags)))))"

definition runtime_of :: "db \<Rightarrow> string \<Rightarrow> runtime_row option" where
  "runtime_of d mission_id = select_one (\<lambda>r. mr_mission_id r = mission_id) (tb_mission_runtime d)"

text \<open>\<^verbatim>\<open>missions AS m JOIN mission_runtime AS r ON r.mission_id = m.id\<close>, \<^verbatim>\<open>mission_id\<close> being the key of the latter.\<close>

definition joined_missions :: "db \<Rightarrow> (mission_row \<times> runtime_row) list" where
  "joined_missions d =
     List.map_filter (\<lambda>m. map_option (Pair m) (runtime_of d (mi_id m))) (tb_missions d)"

definition list_open_missions :: "broker \<Rightarrow> string \<Rightarrow> string option \<Rightarrow> int \<Rightarrow> json list op" where
  "list_open_missions bk actor_id project_id limit =
     op_bind (op_lift (validate_limit limit)) (\<lambda>limit.
     op_bind (op_lift (authorized_project_filter bk actor_id project_id)) (\<lambda>projects.
     if projects = [] then op_ret [] else
     op_query (\<lambda>d.
       map (mission_public \<circ> fst) (take (nat limit) (rev (sort_key
         (\<lambda>(m, r). (mr_priority r, mi_updated_at m, mi_id m))
         (filter (\<lambda>(m, r). mi_status m \<in> {''open'', ''paused''} \<and> mi_project_id m \<in> set projects)
           (joined_missions d))))))))"

text \<open>Row identifiers are positions: \<^verbatim>\<open>missions\<close> and \<^verbatim>\<open>mission_records\<close> never lose a row.\<close>

definition with_rowid :: "'r list \<Rightarrow> (int \<times> 'r) list" where
  "with_rowid t = zip (map int [1..<Suc (length t)]) t"

definition page_after :: "int \<Rightarrow> int \<Rightarrow> ('r \<Rightarrow> bool) \<Rightarrow> 'r list \<Rightarrow> (int \<times> 'r) list" where
  "page_after after limit P t = take (nat limit) (filter (\<lambda>(i, r). i > after \<and> P r) (with_rowid t))"

definition list_memory_missions :: "broker \<Rightarrow> string \<Rightarrow> string \<Rightarrow> int \<Rightarrow> int \<Rightarrow> json op" where
  "list_memory_missions bk actor_id project_id after limit =
     op_bind (op_lift (validate_limit limit)) (\<lambda>limit.
     op_bind (op_lift (authorized_project_filter bk actor_id (Some project_id))) (\<lambda>projects.
     op_bind (op_raise_if (\<not> (0 \<le> after \<and> after < 2 ^ 63)) (invalid_request ''invalid mission cursor'')) (\<lambda>_.
     if projects = [] then op_ret (JDict [(''missions'', JList []), (''next_cursor'', JInt after)]) else
     op_query (\<lambda>d.
       let rows = page_after after limit (\<lambda>m. mi_project_id m = project_id) (tb_missions d) in
       JDict [(''missions'', JList (map (mission_public \<circ> snd) rows)),
              (''next_cursor'', JInt (if rows = [] then after else fst (last rows)))]))))"

definition list_open_incidents :: "broker \<Rightarrow> string \<Rightarrow> string option \<Rightarrow> int \<Rightarrow> json list op" where
  "list_open_incidents bk actor_id project_id limit =
     op_bind (op_lift (validate_limit limit)) (\<lambda>limit.
     op_bind (op_lift (authorized_project_filter bk actor_id project_id)) (\<lambda>projects.
     if projects = [] then op_ret [] else
     op_query (\<lambda>d.
       map incident_public (take (nat limit) (rev (sort_key (\<lambda>r. (in_updated_at r, in_id r))
         (filter (\<lambda>r. in_status r \<in> {''open'', ''monitoring''} \<and> in_project_id r \<in> set projects)
           (tb_incidents d))))))))"

definition get_mission :: "broker \<Rightarrow> string \<Rightarrow> string \<Rightarrow> json op" where
  "get_mission bk actor_id mission_id =
     op_bind (op_lift (validate_actor actor_id)) (\<lambda>_.
     op_bind (op_query (\<lambda>d. select_one (\<lambda>r. mi_id r = mission_id) (tb_missions d))) (\<lambda>row.
     case row of None \<Rightarrow> op_raise (NotFound ''mission'')
     | Some r \<Rightarrow>
         op_bind (op_lift (require_project (bk_rbac bk) actor_id (mi_project_id r))) (\<lambda>_.
         op_ret (mission_public r))))"

definition get_incident :: "broker \<Rightarrow> string \<Rightarrow> string \<Rightarrow> json op" where
  "get_incident bk actor_id incident_id =
     op_bind (op_lift (validate_actor actor_id)) (\<lambda>_.
     op_bind (op_query (\<lambda>d. select_one (\<lambda>r. in_id r = incident_id) (tb_incidents d))) (\<lambda>row.
     case row of None \<Rightarrow> op_raise (NotFound ''incident'')
     | Some r \<Rightarrow>
         op_bind (op_lift (require_project (bk_rbac bk) actor_id (in_project_id r))) (\<lambda>_.
         op_ret (incident_public r))))"

section \<open>Status changes\<close>

text \<open>The table a status handler works on, chosen by the entity: the row's project and status.\<close>

definition entity_row :: "entity \<Rightarrow> string \<Rightarrow> db \<Rightarrow> (string \<times> string) option" where
  "entity_row e entity_id d =
     (case e of
        Mission \<Rightarrow> map_option (\<lambda>r. (mi_project_id r, mi_status r)) (select_one (\<lambda>r. mi_id r = entity_id) (tb_missions d))
      | Incident \<Rightarrow> map_option (\<lambda>r. (in_project_id r, in_status r)) (select_one (\<lambda>r. in_id r = entity_id) (tb_incidents d)))"

definition status_changes :: "entity \<Rightarrow> db \<Rightarrow> status_change_row list" where
  "status_changes e d = (case e of Mission \<Rightarrow> tb_mission_status_changes d | Incident \<Rightarrow> tb_incident_status_changes d)"

definition insert_status_change :: "entity \<Rightarrow> status_change_row \<Rightarrow> db \<Rightarrow> db" where
  "insert_status_change e r d =
     (case e of
        Mission \<Rightarrow> d\<lparr>tb_mission_status_changes := tb_mission_status_changes d @ [r]\<rparr>
      | Incident \<Rightarrow> d\<lparr>tb_incident_status_changes := tb_incident_status_changes d @ [r]\<rparr>)"

definition update_entity_status :: "entity \<Rightarrow> string \<Rightarrow> string \<Rightarrow> instant \<Rightarrow> db \<Rightarrow> db" where
  "update_entity_status e entity_id status now d =
     (case e of
        Mission \<Rightarrow> d\<lparr>tb_missions := update_where (\<lambda>r. mi_id r = entity_id)
                     (\<lambda>r. r\<lparr>mi_status := status, mi_updated_at := now\<rparr>) (tb_missions d)\<rparr>
      | Incident \<Rightarrow> d\<lparr>tb_incidents := update_where (\<lambda>r. in_id r = entity_id)
                     (\<lambda>r. r\<lparr>in_status := status, in_updated_at := now\<rparr>) (tb_incidents d)\<rparr>)"

definition queue_state_for :: "string \<Rightarrow> string" where
  "queue_state_for status =
     (if status = ''open'' then ''queued'' else if status = ''paused'' then ''blocked'' else ''done'')"

definition reset_claim :: "string \<Rightarrow> instant \<Rightarrow> runtime_row \<Rightarrow> runtime_row" where
  "reset_claim queue_state now r =
     r\<lparr>mr_queue_state := queue_state, mr_claimed_by := None, mr_claimed_at := None, mr_heartbeat_at := None,
       mr_lease_until := None, mr_updated_at := now\<rparr>"

text \<open>The part of the handler that only missions have: the queue entry and the resource locks.\<close>

definition mission_status_effects :: "broker \<Rightarrow> string \<Rightarrow> string \<Rightarrow> string \<Rightarrow> instant \<Rightarrow> unit op" where
  "mission_status_effects bk actor_id mission_id status now =
     op_bind (op_exec (\<lambda>d. d\<lparr>tb_mission_runtime := update_where (\<lambda>r. mr_mission_id r = mission_id)
                (reset_claim (queue_state_for status) now) (tb_mission_runtime d)\<rparr>)) (\<lambda>_.
     if status \<in> {''paused'', ''completed''} then
       op_bind (op_query (\<lambda>d. map lk_resource_id (filter (\<lambda>l. lk_mission_id l = mission_id) (tb_resource_locks d)))) (\<lambda>held_locks.
       op_bind (op_exec (\<lambda>d. d\<lparr>tb_resource_locks := delete_where (\<lambda>l. lk_mission_id l = mission_id) (tb_resource_locks d)\<rparr>)) (\<lambda>_.
       op_iter (\<lambda>resource_id.
         op_bind (append_event (bk_rt bk) (isoformat now) ''resource_lock.released_on_mission_status'' actor_id
            ''resource'' resource_id (JDict [(''mission_id'', JStr mission_id), (''status'', JStr status)])) (\<lambda>_.
         op_ret ())) held_locks))
     else op_ret ())"

definition set_entity_status :: "broker \<Rightarrow> entity \<Rightarrow> string \<Rightarrow> string \<Rightarrow> string \<Rightarrow> string \<Rightarrow> json op" where
  "set_entity_status bk e actor_id request_id entity_id status =
     op_bind (op_lift (validate_actor actor_id)) (\<lambda>_.
     op_bind (op_lift (validate_request_id request_id)) (\<lambda>request_id.
     op_bind (op_raise_if (status \<notin> set (allowed_statuses e)) (invalid_request ''invalid status'')) (\<lambda>_.
     op_bind (op_query (entity_row e entity_id)) (\<lambda>entity.
     case entity of None \<Rightarrow> op_raise (NotFound (entity_type e)) | Some (project_id, _) \<Rightarrow>
     op_bind (or_audit_denial bk is_denial actor_id (entity_type e @ ''.status_denied'') (entity_type e) entity_id
                (Some request_id)
                (op_lift (require_lifecycle (bk_rbac bk) actor_id project_id (entity_type e @ ''.status.write'')))) (\<lambda>_.
     transaction (
       op_bind (op_query (entity_row e entity_id)) (\<lambda>current.
       case current of None \<Rightarrow> op_raise (NotFound (entity_type e)) | Some (project_id, current_status) \<Rightarrow>
       op_bind (op_query (\<lambda>d. select_one (\<lambda>r. sc_request_id r = request_id) (status_changes e d))) (\<lambda>existing.
       case existing of
         Some r \<Rightarrow>
           if sc_entity_id r = entity_id \<and> sc_actor_id r = actor_id \<and> sc_new_status r = status
           then op_ret (status_change_public (entity_key e) current_status True r)
           else op_raise (Conflict ''request_id was already used for a different status'')
       | None \<Rightarrow>
           let changed = (current_status \<noteq> status) in
           op_bind (if changed then
                      (case map_of (allowed_transitions e) current_status of
                         None \<Rightarrow> op_raise KeyError
                       | Some targets \<Rightarrow> op_raise_if (status \<notin> set targets) (Conflict ''cannot transition''))
                    else op_ret ()) (\<lambda>_.
           op_bind op_now (\<lambda>now.
           op_bind (op_exec (insert_status_change e
              \<lparr>sc_request_id = request_id, sc_entity_id = entity_id, sc_actor_id = actor_id,
               sc_previous_status = current_status, sc_new_status = status, sc_created_at = now\<rparr>)) (\<lambda>_.
           op_bind (if changed then
                      op_bind (op_exec (update_entity_status e entity_id status now)) (\<lambda>_.
                      if e = Mission then mission_status_effects bk actor_id entity_id status now else op_ret ())
                    else op_ret ()) (\<lambda>_.
           op_bind (append_event (bk_rt bk) (isoformat now)
              (entity_type e @ (if changed then ''.status_changed'' else ''.status_unchanged''))
              actor_id (entity_type e) entity_id
              (JDict [(''request_id'', JStr request_id), (''project_id'', JStr project_id),
                 (''previous_status'', JStr current_status), (''status'', JStr status), (''changed'', JBool changed)])) (\<lambda>_.
           op_bind (op_query (\<lambda>d. select_one (\<lambda>r. sc_request_id r = request_id) (status_changes e d))) (\<lambda>stored.
           case stored of None \<Rightarrow> op_raise AssertionError
           | Some r \<Rightarrow> op_ret (status_change_public (entity_key e) status False r)))))))))))))))"

definition set_mission_status :: "broker \<Rightarrow> string \<Rightarrow> string \<Rightarrow> string \<Rightarrow> string \<Rightarrow> json op" where
  "set_mission_status bk = set_entity_status bk Mission"

definition set_incident_status :: "broker \<Rightarrow> string \<Rightarrow> string \<Rightarrow> string \<Rightarrow> string \<Rightarrow> json op" where
  "set_incident_status bk = set_entity_status bk Incident"

section \<open>The log grows and stays linked\<close>

lemma create_mission_evolves: "evolves (audit_extends (bk_rt bk)) (create_mission bk a rq p t)"
  unfolding create_mission_def
  by (intro audit_rules audit_exec audit_append_event) (simp_all add: insert_mission_def)

lemma create_incident_evolves: "evolves (audit_extends (bk_rt bk)) (create_incident bk a rq p t s)"
  unfolding create_incident_def
  by (intro audit_rules audit_exec audit_append_event) (simp_all add: insert_incident_def)

lemma set_entity_status_evolves: "evolves (audit_extends (bk_rt bk)) (set_entity_status bk e a rq i s)"
  unfolding set_entity_status_def mission_status_effects_def Let_def
  by (intro audit_rules audit_exec audit_append_event)
     (simp_all add: insert_status_change_def update_entity_status_def split: entity.splits)

end
