(* ===== verification/Broker_Actions.thy ===== *)
theory Broker_Actions
  imports Broker_Lifecycle
begin

text \<open>
  The action handlers of \<^verbatim>\<open>service.py\<close>: \<^verbatim>\<open>request_action\<close> with the class B budget, \<^verbatim>\<open>execute_action\<close>
  with its integrity and approval checks, \<^verbatim>\<open>decide_approval\<close>, and the listings. \<^verbatim>\<open>execute_action\<close> is
  composed of the steps between which it lets go of the database: the checks, the claim (a
  transaction), the run of the command, and the recording of its result (a transaction).
\<close>

section \<open>Lookups and small updates\<close>

definition action_of :: "string \<Rightarrow> db \<Rightarrow> action_row option" where
  "action_of action_id d = select_one (\<lambda>r. ac_id r = action_id) (tb_actions d)"

definition update_actions :: "(action_row \<Rightarrow> bool) \<Rightarrow> (action_row \<Rightarrow> action_row) \<Rightarrow> db \<Rightarrow> db" where
  "update_actions P f d = d\<lparr>tb_actions := update_where P f (tb_actions d)\<rparr>"

definition set_action_status :: "string \<Rightarrow> instant \<Rightarrow> action_row \<Rightarrow> action_row" where
  "set_action_status status now r = r\<lparr>ac_status := status, ac_updated_at := now\<rparr>"

definition argv_text :: "string list option \<Rightarrow> string option" where
  "argv_text argv = map_option (\<lambda>a. canonical_json (JList (map JStr a))) argv"

definition log_action :: "broker \<Rightarrow> instant \<Rightarrow> string \<Rightarrow> string \<Rightarrow> string \<Rightarrow> json \<Rightarrow> unit op" where
  "log_action bk now event_type actor_id action_id payload =
     op_bind (append_event (bk_rt bk) (isoformat now) event_type actor_id ''action'' action_id payload) (\<lambda>_. op_ret ())"

section \<open>Executing\<close>

text \<open>The exceptions \<^verbatim>\<open>execute_action\<close> turns into an integrity conflict.\<close>

definition is_integrity_exc :: "py_exc \<Rightarrow> bool" where
  "is_integrity_exc e \<longleftrightarrow>
     is_broker_error e \<or>
     (case e of JSONDecodeError \<Rightarrow> True | TypeError \<Rightarrow> True | ValueError \<Rightarrow> True
      | PolicyValidationError _ \<Rightarrow> True | RunbookValidationError _ \<Rightarrow> True | _ \<Rightarrow> False)"

definition expected_argv :: "runtime \<Rightarrow> runbook \<Rightarrow> action_row \<Rightarrow> string list option res" where
  "expected_argv rt rk row =
     res_bind (loads_column rt (ac_parameters_json row)) (\<lambda>stored.
     res_bind (validate_parameters rk stored) (\<lambda>validated.
     render_argv rk validated))"

definition integrity_conflict :: "broker \<Rightarrow> string \<Rightarrow> action_row \<Rightarrow> 'a op" where
  "integrity_conflict bk actor_id row =
     op_bind (audit_denial bk actor_id ''action.execution_denied'' ''action'' (ac_id row) ''action_integrity_mismatch''
                (Some (ac_request_id row))) (\<lambda>_.
     op_raise (Conflict ''stored action no longer matches its runbook''))"

definition check_integrity :: "broker \<Rightarrow> string \<Rightarrow> runbook \<Rightarrow> action_row \<Rightarrow> string list option op" where
  "check_integrity bk actor_id rk row =
     op_bind (op_catch (op_lift (expected_argv (bk_rt bk) rk row)) is_integrity_exc
                (\<lambda>_. integrity_conflict bk actor_id row)) (\<lambda>argv.
     if rk_version rk \<noteq> ac_runbook_version row \<or> rk_project rk \<noteq> ac_project_id row \<or>
        rk_action_class rk \<noteq> ac_action_class row \<or> argv_text argv \<noteq> ac_argv_json row
     then integrity_conflict bk actor_id row else op_ret argv)"

text \<open>The refusals by status, including the expiry of a pending request.\<close>

definition refuse_pending :: "broker \<Rightarrow> string \<Rightarrow> action_row \<Rightarrow> unit op" where
  "refuse_pending bk actor_id row =
     op_bind op_now (\<lambda>now.
     if (case ac_approval_deadline row of None \<Rightarrow> False | Some deadline \<Rightarrow> deadline \<le> now) then
       op_bind (transaction (
         op_bind (op_query (\<lambda>d. rowcount (\<lambda>r. ac_id r = ac_id row \<and> ac_status r = ''pending_approval'') (tb_actions d))) (\<lambda>changed.
         op_bind (op_exec (update_actions (\<lambda>r. ac_id r = ac_id row \<and> ac_status r = ''pending_approval'')
                    (set_action_status ''approval_expired'' now))) (\<lambda>_.
         if changed = 1 then log_action bk now ''action.approval_expired'' actor_id (ac_id row) (JDict [(''decision'', JStr ''deny'')])
         else op_ret ())))) (\<lambda>_.
       op_raise (ApprovalRequired ''the human approval request expired''))
     else op_raise (ApprovalRequired ''a valid human approval is required''))"

definition refuse_by_status :: "broker \<Rightarrow> string \<Rightarrow> action_row \<Rightarrow> unit op" where
  "refuse_by_status bk actor_id row =
     (let status = ac_status row in
      if status = ''pending_approval'' then refuse_pending bk actor_id row
      else if status = ''rejected'' then op_raise (AuthorizationDenied ''the action was rejected'')
      else if status = ''approval_expired'' then op_raise (ApprovalRequired ''the human approval expired'')
      else if status = ''budget_exhausted'' then op_raise (BudgetExceeded (ac_id row))
      else if status = ''running'' then op_raise (Conflict ''action is already running'')
      else op_raise_if (status \<notin> {''authorized'', ''approved''}) (Conflict ''action cannot be executed from its current state''))"

definition latest_approval :: "string \<Rightarrow> db \<Rightarrow> approval_row option" where
  "latest_approval action_id d =
     (case rev (sort_key av_created_at
             (filter (\<lambda>v. av_action_id v = action_id \<and> av_decision v = ''approve'') (tb_approvals d))) of
        [] \<Rightarrow> None | v # _ \<Rightarrow> Some v)"

definition check_class_c_approval :: "broker \<Rightarrow> string \<Rightarrow> action_row \<Rightarrow> unit op" where
  "check_class_c_approval bk actor_id row =
     (if ac_action_class row \<noteq> ''C'' then op_ret () else
      op_bind op_now (\<lambda>now.
      op_bind (op_query (latest_approval (ac_id row))) (\<lambda>approval.
      case approval of
        None \<Rightarrow> op_raise (ApprovalRequired ''a valid human approval is required'')
      | Some v \<Rightarrow>
          if av_expires_at v \<le> now then
            op_bind (transaction (
              op_bind (op_exec (update_actions (\<lambda>r. ac_id r = ac_id row) (set_action_status ''approval_expired'' now))) (\<lambda>_.
              log_action bk now ''action.approval_expired'' actor_id (ac_id row) (JDict [(''decision'', JStr ''deny'')])))) (\<lambda>_.
            op_raise (ApprovalRequired ''the human approval expired''))
          else op_ret ())))"

text \<open>The claim: \<^verbatim>\<open>UPDATE ... WHERE id = ? AND status IN ('authorized', 'approved')\<close>, rowcount 1.\<close>

definition claim_action :: "broker \<Rightarrow> string \<Rightarrow> string \<Rightarrow> string \<Rightarrow> unit op" where
  "claim_action bk actor_id action_id runbook_id =
     op_bind op_now (\<lambda>now.
     transaction (
       op_bind (op_query (\<lambda>d. rowcount (\<lambda>r. ac_id r = action_id \<and> ac_status r \<in> {''authorized'', ''approved''}) (tb_actions d))) (\<lambda>changed.
       op_bind (op_exec (update_actions (\<lambda>r. ac_id r = action_id \<and> ac_status r \<in> {''authorized'', ''approved''})
                  (set_action_status ''running'' now))) (\<lambda>_.
       op_bind (op_raise_if (changed \<noteq> 1) (Conflict ''action was concurrently claimed'')) (\<lambda>_.
       log_action bk now ''action.started'' actor_id action_id (JDict [(''runbook_id'', JStr runbook_id)]))))))"

text \<open>Redaction and truncation of what the executor returned; an exception becomes a failure.\<close>

definition bound_result :: "int \<Rightarrow> execution_result option \<Rightarrow> execution_result" where
  "bound_result max_bytes raw =
     (let result = (case raw of None \<Rightarrow> \<lparr>xr_return_code = -1, xr_stdout = [], xr_stderr = ''executor failed'',
                                        xr_timed_out = False, xr_truncated = False\<rparr>
                    | Some r \<Rightarrow> r);
          stdout = redact_text (xr_stdout result);
          stderr = redact_text (xr_stderr result);
          truncated = (xr_truncated result \<or> int (length (utf8_encode stdout)) > max_bytes \<or>
                       int (length (utf8_encode stderr)) > max_bytes) in
      \<lparr>xr_return_code = xr_return_code result, xr_stdout = truncate_bytes (nat max_bytes) stdout,
       xr_stderr = truncate_bytes (nat max_bytes) stderr, xr_timed_out = xr_timed_out result, xr_truncated = truncated\<rparr>)"

definition result_payload :: "execution_result \<Rightarrow> json" where
  "result_payload result =
     JDict [(''return_code'', JInt (xr_return_code result)), (''stdout'', JStr (xr_stdout result)),
       (''stderr'', JStr (xr_stderr result)), (''timed_out'', JBool (xr_timed_out result)),
       (''truncated'', JBool (xr_truncated result))]"

definition finish_action :: "broker \<Rightarrow> string \<Rightarrow> string \<Rightarrow> execution_result \<Rightarrow> json op" where
  "finish_action bk actor_id action_id result =
     (let status = (if xr_return_code result = 0 \<and> \<not> xr_timed_out result then ''succeeded'' else ''failed'') in
      op_bind op_now (\<lambda>finished_at.
      op_bind (transaction (
        op_bind (op_exec (update_actions (\<lambda>r. ac_id r = action_id)
           (\<lambda>r. r\<lparr>ac_status := status, ac_result_json := Some (canonical_json (result_payload result)),
                  ac_updated_at := finished_at\<rparr>))) (\<lambda>_.
        op_bind (log_action bk finished_at (''action.'' @ status) actor_id action_id
           (JDict [(''return_code'', JInt (xr_return_code result)), (''timed_out'', JBool (xr_timed_out result)),
                   (''truncated'', JBool (xr_truncated result))])) (\<lambda>_.
        op_query (action_of action_id))))) (\<lambda>finished.
      case finished of None \<Rightarrow> op_raise AssertionError | Some r \<Rightarrow> op_lift (action_public (bk_rt bk) r))))"

definition run_action :: "broker \<Rightarrow> string \<Rightarrow> string \<Rightarrow> runbook \<Rightarrow> string list option \<Rightarrow> json op" where
  "run_action bk actor_id action_id rk argv =
     op_bind (op_execute bk (case argv of None \<Rightarrow> [] | Some a \<Rightarrow> a) (rk_timeout_seconds rk) (rk_output_max_bytes rk)) (\<lambda>raw.
     finish_action bk actor_id action_id (bound_result (rk_output_max_bytes rk) raw))"

text \<open>
  \<open>prepare_action\<close> is everything \<^verbatim>\<open>execute_action\<close> does before its claim: \<open>Inl\<close> a finished action's
  view, or \<open>Inr\<close> the runbook and the command line that will run.
\<close>

definition prepare_action :: "broker \<Rightarrow> string \<Rightarrow> string \<Rightarrow> (json + runbook \<times> string list option) op" where
  "prepare_action bk actor_id action_id =
     op_bind (op_lift (validate_actor actor_id)) (\<lambda>_.
     op_bind (op_query (action_of action_id)) (\<lambda>found.
     case found of None \<Rightarrow> op_raise (NotFound ''action'') | Some row \<Rightarrow>
     op_bind (if actor_id \<noteq> ac_requested_by row then
                op_bind (audit_denial bk actor_id ''action.execution_denied'' ''action'' action_id ''actor_mismatch''
                           (Some (ac_request_id row))) (\<lambda>_.
                op_raise (AuthorizationDenied ''only the requesting actor may execute this action''))
              else op_ret ()) (\<lambda>_.
     op_bind (op_lift (registry_get (bk_registry bk) (ac_runbook_id row))) (\<lambda>rk.
     op_bind (or_audit_denial bk is_denial actor_id ''action.execution_denied'' ''action'' action_id (Some (ac_request_id row))
                (op_lift (require_runbook (bk_rbac bk) actor_id (ac_project_id row) (ac_runbook_id row) (ac_action_class row)))) (\<lambda>_.
     if ac_status row \<in> {''succeeded'', ''failed''}
     then op_bind (op_lift (action_public (bk_rt bk) row)) (\<lambda>v. op_ret (Inl v)) else
     op_bind (check_integrity bk actor_id rk row) (\<lambda>argv.
     op_bind (refuse_by_status bk actor_id row) (\<lambda>_.
     op_bind (check_class_c_approval bk actor_id row) (\<lambda>_.
     op_ret (Inr (rk, argv))))))))))"

definition execute_action :: "broker \<Rightarrow> string \<Rightarrow> string \<Rightarrow> json op" where
  "execute_action bk actor_id action_id =
     op_bind (prepare_action bk actor_id action_id) (\<lambda>p.
     case p of Inl v \<Rightarrow> op_ret v | Inr (rk, argv) \<Rightarrow>
     op_bind (claim_action bk actor_id action_id (rk_id rk)) (\<lambda>_.
     run_action bk actor_id action_id rk argv))"

section \<open>Requesting\<close>

definition validate_linked_entities :: "string \<Rightarrow> string option \<Rightarrow> string option \<Rightarrow> db \<Rightarrow> unit res" where
  "validate_linked_entities project_id incident_id mission_id d =
     res_bind (case incident_id of None \<Rightarrow> Inr () | Some i \<Rightarrow>
       (case select_one (\<lambda>r. in_id r = i) (tb_incidents d) of
          None \<Rightarrow> Inl (NotFound ''incident'')
        | Some r \<Rightarrow> raise_if (in_project_id r \<noteq> project_id) (Conflict ''incident belongs to a different project''))) (\<lambda>_.
     case mission_id of None \<Rightarrow> Inr () | Some m \<Rightarrow>
       (case select_one (\<lambda>r. mi_id r = m) (tb_missions d) of
          None \<Rightarrow> Inl (NotFound ''mission'')
        | Some r \<Rightarrow> raise_if (mi_project_id r \<noteq> project_id) (Conflict ''mission belongs to a different project'')))"

text \<open>The first \<^verbatim>\<open>try\<close> block: runbook, parameters, grant, command line.\<close>

definition authorize_request :: "broker \<Rightarrow> string \<Rightarrow> string \<Rightarrow> json \<Rightarrow> (runbook \<times> jdict \<times> string list option) res" where
  "authorize_request bk actor_id runbook_id parameters =
     res_bind (registry_get (bk_registry bk) runbook_id) (\<lambda>rk.
     res_bind (validate_parameters rk parameters) (\<lambda>validated.
     res_bind (require_runbook (bk_rbac bk) actor_id (rk_project rk) (rk_id rk) (rk_action_class rk)) (\<lambda>_.
     res_bind (render_argv rk validated) (\<lambda>argv. Inr (rk, validated, argv)))))"

definition link_incident :: "string option \<Rightarrow> jdict \<Rightarrow> string option res" where
  "link_incident incident_id validated =
     (case map_of validated ''incident_id'' of
        None \<Rightarrow> Inr incident_id
      | Some v \<Rightarrow>
          (case incident_id of
             None \<Rightarrow> Inr (Some (param_str v))
           | Some i \<Rightarrow> if v = JStr i then Inr incident_id
                       else Inl (invalid_parameters ''incident_id does not match the runbook parameter'')))"

definition class_c_deadline :: "broker \<Rightarrow> runbook \<Rightarrow> instant \<Rightarrow> instant option res" where
  "class_c_deadline bk rk now =
     (if rk_action_class rk = ''C'' then
        res_bind (class_rule_of (bk_action_policy bk) ''C'') (\<lambda>rule.
        case cr_approval_ttl_seconds rule of None \<Rightarrow> Inl AssertionError | Some ttl \<Rightarrow> Inr (Some (now + seconds ttl)))
      else Inr None)"

definition used_attempts :: "string \<Rightarrow> instant \<Rightarrow> db \<Rightarrow> int" where
  "used_attempts key cutoff d = int (rowcount (\<lambda>b. bu_budget_key b = key \<and> bu_used_at b \<ge> cutoff) (tb_budget_usage d))"

text \<open>The class B block of the transaction; the result says whether the budget was exhausted.\<close>

definition reserve_budget :: "broker \<Rightarrow> string \<Rightarrow> string \<Rightarrow> runbook \<Rightarrow> string option \<Rightarrow> instant \<Rightarrow> bool op" where
  "reserve_budget bk actor_id action_id rk key now =
     (if rk_action_class rk \<noteq> ''B'' then op_ret False else
      case (rk_budget rk, key) of
        (Some b, Some k) \<Rightarrow>
          op_bind (op_query (used_attempts k (now - seconds (bs_window_seconds b)))) (\<lambda>used.
          if used \<ge> bs_max_attempts b then
            op_bind (op_exec (update_actions (\<lambda>r. ac_id r = action_id) (set_action_status ''budget_exhausted'' now))) (\<lambda>_.
            op_bind (log_action bk now ''action.denied'' actor_id action_id
               (JDict [(''decision'', JStr ''escalate''), (''code'', JStr ''budget_exhausted'')])) (\<lambda>_.
            op_ret True))
          else
            op_bind (op_exec (\<lambda>d. d\<lparr>tb_budget_usage := tb_budget_usage d @
               [\<lparr>bu_budget_key = k, bu_action_id = action_id, bu_used_at = now\<rparr>]\<rparr>)) (\<lambda>_.
            op_bind (log_action bk now ''action.budget_reserved'' actor_id action_id
               (JDict [(''max_attempts'', JInt (bs_max_attempts b))])) (\<lambda>_.
            op_ret False)))
      | _ \<Rightarrow> op_raise AssertionError)"

definition insert_action :: "action_row \<Rightarrow> db \<Rightarrow> db" where
  "insert_action r d = d\<lparr>tb_actions := tb_actions d @ [r]\<rparr>"

definition new_action :: "string \<Rightarrow> string \<Rightarrow> string \<Rightarrow> runbook \<Rightarrow> string \<Rightarrow> string option \<Rightarrow> string option \<Rightarrow> string \<Rightarrow>
    string option \<Rightarrow> string option \<Rightarrow> instant option \<Rightarrow> instant \<Rightarrow> action_row" where
  "new_action action_id request_id actor_id rk reason mission_id incident_id parameters_json argv_json key deadline now =
     \<lparr>ac_id = action_id, ac_request_id = request_id, ac_mission_id = mission_id, ac_incident_id = incident_id,
      ac_project_id = rk_project rk, ac_runbook_id = rk_id rk, ac_runbook_version = rk_version rk,
      ac_action_class = rk_action_class rk, ac_requested_by = actor_id, ac_reason = reason,
      ac_parameters_json = parameters_json, ac_argv_json = argv_json, ac_budget_key = key,
      ac_status = (if rk_action_class rk = ''C'' then ''pending_approval'' else ''authorized''),
      ac_approval_deadline = deadline, ac_result_json = None, ac_created_at = now, ac_updated_at = now\<rparr>"

text \<open>The insertion, its audit event and the budget, in one transaction.\<close>

definition store_action :: "broker \<Rightarrow> action_row \<Rightarrow> runbook \<Rightarrow> bool op" where
  "store_action bk row rk =
     transaction (
       op_bind (op_exec (insert_action row)) (\<lambda>_.
       op_bind (log_action bk (ac_created_at row) ''action.requested'' (ac_requested_by row) (ac_id row)
          (JDict [(''request_id'', JStr (ac_request_id row)), (''runbook_id'', JStr (rk_id rk)),
                  (''project_id'', JStr (rk_project rk)), (''action_class'', JStr (rk_action_class rk))])) (\<lambda>_.
       reserve_budget bk (ac_requested_by row) (ac_id row) rk (ac_budget_key row) (ac_created_at row))))"

definition same_request :: "action_row \<Rightarrow> string \<Rightarrow> runbook \<Rightarrow> string \<Rightarrow> string \<Rightarrow> string option \<Rightarrow> string option \<Rightarrow>
    string option \<Rightarrow> bool" where
  "same_request r actor_id rk reason parameters_json argv_json incident_id mission_id \<longleftrightarrow>
     ac_requested_by r = actor_id \<and> ac_runbook_id r = rk_id rk \<and> ac_runbook_version r = rk_version rk \<and>
     ac_project_id r = rk_project rk \<and> ac_reason r = reason \<and> ac_parameters_json r = parameters_json \<and>
     ac_argv_json r = argv_json \<and> ac_incident_id r = incident_id \<and> ac_mission_id r = mission_id"

definition request_action ::
  "broker \<Rightarrow> string \<Rightarrow> string \<Rightarrow> string \<Rightarrow> json \<Rightarrow> string \<Rightarrow> string option \<Rightarrow> string option \<Rightarrow> json op" where
  "request_action bk actor_id request_id runbook_id parameters reason incident_id mission_id =
     op_bind (op_lift (validate_actor actor_id)) (\<lambda>_.
     op_bind (op_lift (validate_request_id request_id)) (\<lambda>request_id.
     op_bind (op_lift (bounded_text 3 1000 reason)) (\<lambda>reason.
     op_bind (or_audit_denial bk is_broker_error actor_id ''action.denied'' ''action_request'' request_id (Some request_id)
                (op_lift (authorize_request bk actor_id runbook_id parameters))) (\<lambda>(rk, validated, argv).
     op_bind (op_lift (link_incident incident_id validated)) (\<lambda>incident_id.
     op_bind (or_audit_denial bk is_broker_error actor_id ''action.denied'' ''action_request'' request_id (Some request_id)
                (op_bind (op_query (validate_linked_entities (rk_project rk) incident_id mission_id)) op_lift)) (\<lambda>_.
     let parameters_json = canonical_json (scrub_payload (JDict validated)); argv_json = argv_text argv in
     op_bind (op_query (\<lambda>d. select_one (\<lambda>r. ac_request_id r = request_id) (tb_actions d))) (\<lambda>existing.
     case existing of
       Some r \<Rightarrow>
         op_bind (op_raise_if (\<not> same_request r actor_id rk reason parameters_json argv_json incident_id mission_id)
                    (Conflict ''request_id was already used for a different action'')) (\<lambda>_.
         op_bind (op_raise_if (ac_status r = ''budget_exhausted'') (BudgetExceeded (ac_id r))) (\<lambda>_.
         op_lift (action_public (bk_rt bk) r)))
     | None \<Rightarrow>
         op_bind op_uuid4 (\<lambda>action_id.
         op_bind op_now (\<lambda>now.
         op_bind (op_lift (class_c_deadline bk rk now)) (\<lambda>deadline.
         op_bind (op_lift (budget_key rk validated)) (\<lambda>key.
         op_bind (store_action bk (new_action action_id request_id actor_id rk reason mission_id incident_id
                     parameters_json argv_json key deadline now) rk) (\<lambda>exhausted.
         op_bind (op_raise_if exhausted (BudgetExceeded action_id)) (\<lambda>_.
         if rk_action_class rk \<in> {''A'', ''B''} then execute_action bk actor_id action_id
         else op_bind (op_query (action_of action_id)) (\<lambda>row.
              case row of None \<Rightarrow> op_raise AssertionError | Some r \<Rightarrow> op_lift (action_public (bk_rt bk) r)))))))))))))))"

section \<open>Approvals\<close>

definition approval_dict :: "approval_row \<Rightarrow> json" where
  "approval_dict v =
     JDict [(''id'', JStr (av_id v)), (''request_id'', JStr (av_request_id v)), (''action_id'', JStr (av_action_id v)),
       (''actor_id'', JStr (av_actor_id v)), (''decision'', JStr (av_decision v)), (''source'', JStr (av_source v)),
       (''source_event_id'', opt_json JStr (av_source_event_id v)), (''reason'', JStr (av_reason v)),
       (''created_at'', jtime (av_created_at v)), (''expires_at'', jtime (av_expires_at v))]"

text \<open>How the transaction of \<^verbatim>\<open>decide_approval\<close> ends; denial and expiry are raised after the commit.\<close>

datatype approval_outcome = Replayed json | Denied py_exc | Expired | Decided json

definition check_approver :: "broker \<Rightarrow> string \<Rightarrow> action_row \<Rightarrow> unit res" where
  "check_approver bk actor_id action =
     res_bind (require_approval_actor (bk_action_policy bk) actor_id) (\<lambda>_.
     res_bind (raise_if (actor_id = ac_requested_by action)
                 (AuthorizationDenied ''an action requester cannot approve its own action'')) (\<lambda>_.
     res_bind (raise_if (ac_action_class action \<noteq> ''C'')
                 (AuthorizationDenied ''only class C actions accept human approval'')) (\<lambda>_.
     raise_if (ac_status action \<noteq> ''pending_approval'') (Conflict ''action is not awaiting approval''))))"

definition same_decision :: "approval_row \<Rightarrow> string \<Rightarrow> string \<Rightarrow> string \<Rightarrow> string \<Rightarrow> string option \<Rightarrow> string \<Rightarrow> bool" where
  "same_decision prior action_id actor_id decision source source_event_id reason \<longleftrightarrow>
     av_action_id prior = action_id \<and> av_actor_id prior = actor_id \<and> av_decision prior = decision \<and>
     av_source prior = source \<and> av_source_event_id prior = source_event_id \<and> av_reason prior = reason"

text \<open>The first of \<^verbatim>\<open>(duplicate, source_duplicate)\<close> that exists.\<close>

definition prior_approval :: "string \<Rightarrow> string option \<Rightarrow> db \<Rightarrow> approval_row option" where
  "prior_approval request_id source_event_id d =
     (case select_one (\<lambda>v. av_request_id v = request_id) (tb_approvals d) of
        Some v \<Rightarrow> Some v
      | None \<Rightarrow>
          (case source_event_id of None \<Rightarrow> None
           | Some s \<Rightarrow> select_one (\<lambda>v. av_source_event_id v = Some s) (tb_approvals d)))"

definition expire_request :: "broker \<Rightarrow> string \<Rightarrow> string \<Rightarrow> string \<Rightarrow> instant \<Rightarrow> approval_outcome op" where
  "expire_request bk actor_id request_id action_id now =
     op_bind (op_exec (update_actions (\<lambda>r. ac_id r = action_id) (set_action_status ''approval_expired'' now))) (\<lambda>_.
     op_bind (log_action bk now ''approval.expired'' actor_id action_id
        (JDict [(''decision'', JStr ''deny''), (''request_id'', JStr request_id)])) (\<lambda>_.
     op_ret Expired))"

definition record_decision :: "broker \<Rightarrow> approval_row \<Rightarrow> approval_outcome op" where
  "record_decision bk v =
     (let action_id = av_action_id v; now = av_created_at v;
          action_status = (if av_decision v = ''approve'' then ''approved'' else ''rejected'') in
      op_bind (op_exec (\<lambda>d. d\<lparr>tb_approvals := tb_approvals d @ [v]\<rparr>)) (\<lambda>_.
      op_bind (op_query (\<lambda>d. rowcount (\<lambda>r. ac_id r = action_id \<and> ac_status r = ''pending_approval'') (tb_actions d))) (\<lambda>changed.
      op_bind (op_exec (update_actions (\<lambda>r. ac_id r = action_id \<and> ac_status r = ''pending_approval'')
                 (set_action_status action_status now))) (\<lambda>_.
      op_bind (op_raise_if (changed \<noteq> 1) (Conflict ''action approval was concurrently decided'')) (\<lambda>_.
      op_bind (log_action bk now (if av_decision v = ''approve'' then ''approval.approved'' else ''approval.rejected'')
         (av_actor_id v) action_id
         (JDict [(''approval_id'', JStr (av_id v)), (''request_id'', JStr (av_request_id v)),
                 (''source'', JStr (av_source v)), (''source_event_id'', opt_json JStr (av_source_event_id v))])) (\<lambda>_.
      op_bind (op_query (\<lambda>d. select_one (\<lambda>r. av_id r = av_id v) (tb_approvals d))) (\<lambda>row.
      case row of None \<Rightarrow> op_raise AssertionError | Some r \<Rightarrow> op_ret (Decided (approval_dict r)))))))))"

definition decide_in_transaction ::
  "broker \<Rightarrow> string \<Rightarrow> string \<Rightarrow> string \<Rightarrow> string \<Rightarrow> string \<Rightarrow> string option \<Rightarrow> string \<Rightarrow> instant \<Rightarrow> string \<Rightarrow> approval_outcome op" where
  "decide_in_transaction bk actor_id request_id action_id decision source source_event_id reason now approval_id =
     transaction (
       op_bind (op_query (action_of action_id)) (\<lambda>found.
       case found of None \<Rightarrow> op_raise (NotFound ''action'') | Some action \<Rightarrow>
       op_bind (op_query (prior_approval request_id source_event_id)) (\<lambda>prior.
       case prior of
         Some v \<Rightarrow>
           if same_decision v action_id actor_id decision source source_event_id reason
           then op_ret (Replayed (approval_dict v))
           else op_raise (Conflict ''approval request or source event was already consumed'')
       | None \<Rightarrow>
           (case check_approver bk actor_id action of
              Inl exc \<Rightarrow>
                if is_broker_error exc then
                  op_bind (log_action bk now ''approval.denied'' actor_id action_id
                     (JDict [(''decision'', JStr ''deny''), (''code'', JStr (exc_code exc)), (''request_id'', JStr request_id)])) (\<lambda>_.
                  op_ret (Denied exc))
                else op_raise exc
            | Inr _ \<Rightarrow>
                (case ac_approval_deadline action of
                   None \<Rightarrow> op_ret (Denied (Conflict ''class C action has no approval deadline''))
                 | Some expires_at \<Rightarrow>
                     if expires_at \<le> now then expire_request bk actor_id request_id action_id now
                     else record_decision bk
                       \<lparr>av_id = approval_id, av_request_id = request_id, av_action_id = action_id,
                        av_actor_id = actor_id, av_decision = decision, av_source = source,
                        av_source_event_id = source_event_id, av_reason = reason, av_created_at = now,
                        av_expires_at = expires_at\<rparr>)))))"

definition check_source_event :: "string option \<Rightarrow> string option res" where
  "check_source_event source_event_id =
     (case source_event_id of None \<Rightarrow> Inr None | Some s \<Rightarrow> map_sum id Some (bounded_text 1 200 s))"

definition decide_approval ::
  "broker \<Rightarrow> string \<Rightarrow> string \<Rightarrow> string \<Rightarrow> string \<Rightarrow> string \<Rightarrow> string option \<Rightarrow> string \<Rightarrow> json op" where
  "decide_approval bk actor_id request_id action_id decision source source_event_id reason =
     op_bind (op_lift (validate_actor actor_id)) (\<lambda>_.
     op_bind (op_lift (validate_request_id request_id)) (\<lambda>request_id.
     op_bind (op_raise_if (decision \<notin> {''approve'', ''reject''}) (invalid_request ''decision must be approve or reject'')) (\<lambda>_.
     op_bind (op_raise_if (\<not> rx_fullmatch SOURCE source) (invalid_request ''source is malformed'')) (\<lambda>_.
     op_bind (op_lift (check_source_event source_event_id)) (\<lambda>source_event_id.
     op_bind (op_raise_if (source = ''zulip'' \<and> source_event_id = None)
                (invalid_request ''source_event_id is required for Zulip approvals'')) (\<lambda>_.
     op_bind (op_lift (bounded_text 1 500 reason)) (\<lambda>reason.
     op_bind op_now (\<lambda>now.
     op_bind op_uuid4 (\<lambda>approval_id.
     op_bind (decide_in_transaction bk actor_id request_id action_id decision source source_event_id reason now approval_id) (\<lambda>outcome.
     case outcome of
       Replayed v \<Rightarrow> op_ret v
     | Denied exc \<Rightarrow> op_raise exc
     | Expired \<Rightarrow> op_raise (ApprovalRequired ''the approval request expired'')
     | Decided v \<Rightarrow> op_ret v))))))))))"

section \<open>Listings\<close>

definition awaiting :: "instant \<Rightarrow> action_row \<Rightarrow> bool" where
  "awaiting now r \<longleftrightarrow> ac_action_class r = ''C'' \<and> ac_status r = ''pending_approval'' \<and>
     (case ac_approval_deadline r of None \<Rightarrow> False | Some deadline \<Rightarrow> deadline > now)"

definition pending_approvals :: "broker \<Rightarrow> string \<Rightarrow> json list op" where
  "pending_approvals bk actor_id =
     op_bind (op_lift (validate_actor actor_id)) (\<lambda>_.
     op_bind (op_lift (require_approval_actor (bk_action_policy bk) actor_id)) (\<lambda>_.
     op_bind op_now (\<lambda>now.
     op_bind (op_query (\<lambda>d. sort_key ac_created_at (filter (awaiting now) (tb_actions d)))) (\<lambda>rows.
     op_lift (res_map (action_public (bk_rt bk)) rows)))))"

definition publication_text :: "string \<Rightarrow> nat \<Rightarrow> string \<Rightarrow> string" where
  "publication_text value maximum fallback =
     (let collapsed = join '' '' (py_split (redact_text value));
          collapsed = (if collapsed = [] then fallback else collapsed) in
      take maximum collapsed)"

abbreviation e_grave :: char where
  "e_grave \<equiv> CHR 0xE0"

definition fallback_summary :: string where
  "fallback_summary = ''Changement de classe C '' @ [e_grave] @ '' valider''"

definition fallback_impact :: string where
  "fallback_impact = ''Impact '' @ [e_grave] @ '' valider dans le runbook''"

definition fallback_rollback :: string where
  "fallback_rollback = ''Rollback d'' @ [CHR 0xE9] @ ''fini par le runbook''"

text \<open>\<^verbatim>\<open>str(uuid.UUID(s, version=4))\<close>: the version and variant bits are set before printing.\<close>

definition uuid4_canon :: "string \<Rightarrow> string option" where
  "uuid4_canon s =
     map_option (\<lambda>n. uuid_str
       (let n = n div 2 ^ 64 * 2 ^ 64 + n mod 2 ^ 62 + 2 ^ 63 in
        n div 2 ^ 80 * 2 ^ 80 + 4 * 2 ^ 76 + n mod 2 ^ 76)) (uuid_int s)"

definition text_param :: "jdict \<Rightarrow> string \<Rightarrow> string \<Rightarrow> string" where
  "text_param parameters name otherwise = (case map_of parameters name of Some (JStr s) \<Rightarrow> s | _ \<Rightarrow> otherwise)"

text \<open>One iteration of the loop: \<open>None\<close> is a \<^verbatim>\<open>continue\<close>, \<open>Inl\<close> an exception the loop does not catch.\<close>

definition public_approval :: "broker \<Rightarrow> instant \<Rightarrow> action_row \<Rightarrow> json option res" where
  "public_approval bk now row =
     (case uuid4_canon (ac_id row) of None \<Rightarrow> Inr None | Some action_id \<Rightarrow>
      if action_id \<noteq> ac_id row then Inr None else
      case registry_get (bk_registry bk) (ac_runbook_id row) of Inl _ \<Rightarrow> Inr None | Inr rk \<Rightarrow>
      if rk_action_class rk \<noteq> ''C'' \<or> rk_version rk \<noteq> ac_runbook_version row \<or> rk_project rk \<noteq> ac_project_id row
      then Inr None else
      case res_bind (loads_column (bk_rt bk) (ac_parameters_json row)) (validate_parameters rk) of
        Inl e \<Rightarrow> if is_integrity_exc e then Inr None else Inl e
      | Inr parameters \<Rightarrow>
          (case ac_approval_deadline row of None \<Rightarrow> Inr None | Some deadline \<Rightarrow>
           if deadline \<le> now then Inr None else
           Inr (Some (JDict [(''action_id'', JStr action_id),
             (''summary'', JStr (publication_text (text_param parameters ''summary'' (rk_description rk)) 240 fallback_summary)),
             (''impact'', JStr (publication_text (text_param parameters ''impact'' fallback_impact) 1000 fallback_impact)),
             (''rollback'', JStr (publication_text (text_param parameters ''rollback'' fallback_rollback) 1000 fallback_rollback)),
             (''deadline'', jclip 64 (isoformat deadline))]))))"

definition pending_public_approvals :: "broker \<Rightarrow> int \<Rightarrow> int \<Rightarrow> json list op" where
  "pending_public_approvals bk limit offset =
     op_bind (op_lift (validate_limit limit)) (\<lambda>limit.
     op_bind (op_lift (validate_offset offset)) (\<lambda>offset.
     op_bind op_now (\<lambda>now.
     op_bind (op_query (\<lambda>d. take (nat limit) (drop (nat offset)
                 (sort_key (\<lambda>r. (ac_created_at r, ac_id r)) (filter (awaiting now) (tb_actions d)))))) (\<lambda>rows.
     op_bind (op_lift (res_map (public_approval bk now) rows)) (\<lambda>public.
     op_ret (List.map_filter id public))))))"

definition get_action :: "broker \<Rightarrow> string \<Rightarrow> string \<Rightarrow> json op" where
  "get_action bk actor_id action_id =
     op_bind (op_lift (validate_actor actor_id)) (\<lambda>_.
     op_bind (op_query (action_of action_id)) (\<lambda>found.
     case found of None \<Rightarrow> op_raise (NotFound ''action'') | Some row \<Rightarrow>
     op_bind (if actor_id \<notin> set (ap_approval_actor_ids (bk_action_policy bk))
              then op_lift (require_runbook (bk_rbac bk) actor_id (ac_project_id row) (ac_runbook_id row) (ac_action_class row))
              else op_ret ()) (\<lambda>_.
     op_lift (action_public (bk_rt bk) row))))"

definition list_actions_for_entity :: "broker \<Rightarrow> entity \<Rightarrow> string \<Rightarrow> string \<Rightarrow> int \<Rightarrow> int \<Rightarrow> json list op" where
  "list_actions_for_entity bk e actor_id entity_id limit offset =
     op_bind (op_lift (validate_actor actor_id)) (\<lambda>_.
     op_bind (op_lift (validate_limit limit)) (\<lambda>limit.
     op_bind (op_raise_if (\<not> (0 \<le> offset \<and> offset \<le> 1000000)) (invalid_request ''invalid action page offset'')) (\<lambda>_.
     op_bind (op_query (entity_row e entity_id)) (\<lambda>entity.
     case entity of None \<Rightarrow> op_raise (NotFound (entity_type e)) | Some (project_id, _) \<Rightarrow>
     op_bind (op_lift (require_project (bk_rbac bk) actor_id project_id)) (\<lambda>_.
     op_bind (op_query (\<lambda>d. take (nat limit) (drop (nat offset) (rev (sort_key (\<lambda>r. (ac_created_at r, ac_id r))
        (filter (\<lambda>r. (case e of Mission \<Rightarrow> ac_mission_id r | Incident \<Rightarrow> ac_incident_id r) = Some entity_id \<and>
                      ac_project_id r = project_id) (tb_actions d))))))) (\<lambda>rows.
     op_lift (res_map (action_summary_public (bk_rt bk)) rows)))))))"

section \<open>The log grows and stays linked\<close>

lemma audit_log_action:
  "json_ok (rt_frepr (bk_rt bk)) p \<Longrightarrow> evolves (audit_extends (bk_rt bk)) (log_action bk now t a i p)"
  unfolding log_action_def by (intro audit_rules audit_append_event)

lemma audit_update_actions: "evolves (audit_extends rt) (op_exec (update_actions P f))"
  by (rule audit_exec) (simp add: update_actions_def)

lemmas action_audit_rules = audit_rules audit_update_actions audit_log_action

lemma prepare_action_evolves: "evolves (audit_extends (bk_rt bk)) (prepare_action bk a i)"
  unfolding prepare_action_def check_integrity_def integrity_conflict_def refuse_by_status_def refuse_pending_def
    check_class_c_approval_def Let_def
  by (intro action_audit_rules) simp_all

lemma claim_action_evolves: "evolves (audit_extends (bk_rt bk)) (claim_action bk a i k)"
  unfolding claim_action_def by (intro action_audit_rules) simp_all

lemma run_action_evolves: "evolves (audit_extends (bk_rt bk)) (run_action bk a i rk argv)"
  unfolding run_action_def finish_action_def Let_def by (intro action_audit_rules) simp_all

lemma execute_action_evolves: "evolves (audit_extends (bk_rt bk)) (execute_action bk a i)"
  unfolding execute_action_def
  by (intro action_audit_rules prepare_action_evolves claim_action_evolves run_action_evolves)

lemma store_action_evolves: "evolves (audit_extends (bk_rt bk)) (store_action bk row rk)"
  unfolding store_action_def reserve_budget_def
  by (intro action_audit_rules audit_exec) (simp_all add: insert_action_def)

lemma request_action_evolves: "evolves (audit_extends (bk_rt bk)) (request_action bk a rq rb ps rs i m)"
  unfolding request_action_def Let_def
  by (intro action_audit_rules store_action_evolves execute_action_evolves)

lemma decide_in_transaction_evolves:
  "evolves (audit_extends (bk_rt bk)) (decide_in_transaction bk a rq i dc src sid rs now v)"
  unfolding decide_in_transaction_def expire_request_def record_decision_def Let_def
  by (intro action_audit_rules audit_exec) simp_all

lemma ev_outcome:
  "(\<And>v. evolves R (a v)) \<Longrightarrow> (\<And>e. evolves R (b e)) \<Longrightarrow> evolves R c \<Longrightarrow> (\<And>v. evolves R (d v)) \<Longrightarrow>
   evolves R (case z of Replayed v \<Rightarrow> a v | Denied e \<Rightarrow> b e | Expired \<Rightarrow> c | Decided v \<Rightarrow> d v)"
  by (cases z) auto

lemma decide_approval_evolves: "evolves (audit_extends (bk_rt bk)) (decide_approval bk a rq i dc src sid rs)"
  unfolding decide_approval_def
  by (intro action_audit_rules decide_in_transaction_evolves ev_outcome)

end
