(* ===== verification/Sample_Broker.thy ===== *)
theory Sample_Broker
  imports Broker_Actions "HOL-Library.Code_Target_Nat"
begin

text \<open>
  A small configuration, taken from the repository's own \<^verbatim>\<open>policies/actions.yaml\<close>, \<^verbatim>\<open>rbac.yaml\<close>,
  \<^verbatim>\<open>executables.yaml\<close> and runbooks, loaded by the model's loaders, and the worlds that the witnesses
  of the properties run their requests in.
\<close>

abbreviation ymap_of :: "(string \<times> yaml) list \<Rightarrow> yaml" where
  "ymap_of kvs \<equiv> YMap (map (\<lambda>(k, v). (KStr k, v)) kvs)"

abbreviation ystrs :: "string list \<Rightarrow> yaml" where
  "ystrs xs \<equiv> YList (map YStr xs)"

definition sample_rbac_doc :: yaml where
  "sample_rbac_doc = ymap_of
     [(''version'', YInt 1), (''default'', YStr ''deny''),
      (''roles'', ymap_of
         [(''coordinator'', ymap_of [(''projects'', ystrs [''infra-shared'']),
             (''runbooks'', ystrs [''local.health.v1'', ''shared.change-request.v1'']),
             (''action_classes'', ystrs [''A'', ''C'']),
             (''lifecycle_capabilities'', ystrs LIFECYCLE_CAPABILITIES)]),
          (''infra-operator'', ymap_of [(''projects'', ystrs [''infra-shared'']),
             (''runbooks'', ystrs [''local.restart-once.v1'']), (''action_classes'', ystrs [''B''])])]),
      (''actors'', ymap_of
         [(''hermes'', ymap_of [(''roles'', ystrs [''coordinator''])]),
          (''infra'', ymap_of [(''roles'', ystrs [''infra-operator''])])])]"

definition sample_policy_doc :: yaml where
  "sample_policy_doc = ymap_of
     [(''version'', YInt 1), (''default'', YStr ''deny''),
      (''classes'', ymap_of
         [(''A'', ymap_of [(''approval'', YStr ''none''), (''examples'', ystrs [''read_metrics''])]),
          (''B'', ymap_of [(''approval'', YStr ''policy_budget''),
             (''limits'', ymap_of [(''max_attempts'', YInt 1), (''window_seconds'', YInt 3600),
                                  (''on_exhausted'', YStr ''escalate'')])]),
          (''C'', ymap_of [(''approval'', YStr ''human_required''), (''approval_ttl_seconds'', YInt 1800)])]),
      (''zulip'', ymap_of [(''authorized_actor_ids'', YList [YStr ''zulip:8'']),
         (''fail_closed_when_unconfigured'', YBool True)])]"

definition sample_executables_doc :: yaml where
  "sample_executables_doc = ymap_of
     [(''version'', YInt 1), (''executables'', ystrs [''/usr/local/libexec/ops-runbooks/local-health'']),
      (''sudo'', ymap_of [(''executable'', YStr ''/usr/bin/sudo''), (''required_prefix'', ystrs [''-n'']),
         (''allowed_helpers'', ystrs [''/usr/local/libexec/ops-runbooks/restart-service''])])]"

definition sample_health_doc :: yaml where
  "sample_health_doc = ymap_of
     [(''id'', YStr ''local.health.v1''), (''version'', YInt 1), (''project'', YStr ''infra-shared''),
      (''action_class'', YStr ''A''), (''description'', YStr ''Etat borne du poste de controle''),
      (''timeout_seconds'', YInt 20),
      (''command'', ymap_of [(''argv'', ystrs [''/usr/local/libexec/ops-runbooks/local-health''])]),
      (''parameters'', YMap []), (''output'', ymap_of [(''max_bytes'', YInt 32768), (''redact'', YBool True)])]"

definition sample_restart_doc :: yaml where
  "sample_restart_doc = ymap_of
     [(''id'', YStr ''local.restart-once.v1''), (''version'', YInt 1), (''project'', YStr ''infra-shared''),
      (''action_class'', YStr ''B''), (''description'', YStr ''Redemarrer une seule fois un service''),
      (''timeout_seconds'', YInt 45),
      (''budget'', ymap_of [(''key'', YStr ''restart:{service}''), (''max_attempts'', YInt 1),
                           (''window_seconds'', YInt 3600)]),
      (''command'', ymap_of [(''argv'', ystrs [''/usr/bin/sudo'', ''-n'',
         ''/usr/local/libexec/ops-runbooks/restart-service'', ''{service}''])]),
      (''parameters'', ymap_of [(''service'', ymap_of [(''type'', YStr ''enum''),
         (''values'', ystrs [''ollama.service'', ''ops-broker.service''])])]),
      (''output'', ymap_of [(''max_bytes'', YInt 16384), (''redact'', YBool True)])]"

definition sample_change_doc :: yaml where
  "sample_change_doc = ymap_of
     [(''id'', YStr ''shared.change-request.v1''), (''version'', YInt 1), (''project'', YStr ''infra-shared''),
      (''action_class'', YStr ''C''), (''description'', YStr ''Enregistrer une demande de changement''),
      (''timeout_seconds'', YInt 5), (''command'', YNull),
      (''parameters'', ymap_of [(''summary'', ymap_of [(''type'', YStr ''string''), (''max_length'', YInt 240)])]),
      (''output'', ymap_of [(''max_bytes'', YInt 8192), (''redact'', YBool True)])]"

definition sample_rbac :: rbac_policy where
  "sample_rbac =
     \<lparr>rb_actors = [(''hermes'', [''coordinator'']), (''infra'', [''infra-operator''])],
      rb_roles =
        [(''coordinator'', \<lparr>rg_projects = [''infra-shared''],
            rg_runbooks = [''local.health.v1'', ''shared.change-request.v1''],
            rg_action_classes = [''A'', ''C''], rg_lifecycle = LIFECYCLE_CAPABILITIES\<rparr>),
         (''infra-operator'', \<lparr>rg_projects = [''infra-shared''], rg_runbooks = [''local.restart-once.v1''],
            rg_action_classes = [''B''], rg_lifecycle = []\<rparr>)]\<rparr>"

definition sample_action_policy :: action_policy where
  "sample_action_policy =
     \<lparr>ap_classes =
        [(''A'', \<lparr>cr_approval = ''none'', cr_max_attempts = None, cr_window_seconds = None, cr_approval_ttl_seconds = None\<rparr>),
         (''B'', \<lparr>cr_approval = ''policy_budget'', cr_max_attempts = Some 1, cr_window_seconds = Some 3600,
                 cr_approval_ttl_seconds = None\<rparr>),
         (''C'', \<lparr>cr_approval = ''human_required'', cr_max_attempts = None, cr_window_seconds = None,
                 cr_approval_ttl_seconds = Some 1800\<rparr>)],
      ap_approval_actor_ids = [''zulip:8''], ap_fail_closed = True\<rparr>"

definition sample_executables :: executable_policy where
  "sample_executables =
     \<lparr>xp_executables = [''/usr/local/libexec/ops-runbooks/local-health''], xp_sudo_executable = Some ''/usr/bin/sudo'',
      xp_sudo_required_prefix = [''-n''], xp_sudo_helpers = [''/usr/local/libexec/ops-runbooks/restart-service'']\<rparr>"

definition sample_health :: runbook where
  "sample_health =
     \<lparr>rk_id = ''local.health.v1'', rk_version = 1, rk_project = ''infra-shared'', rk_action_class = ''A'',
      rk_description = ''Etat borne du poste de controle'', rk_timeout_seconds = 20,
      rk_argv_template = Some [''/usr/local/libexec/ops-runbooks/local-health''], rk_parameters = [],
      rk_budget = None, rk_output_max_bytes = 32768\<rparr>"

definition sample_restart :: runbook where
  "sample_restart =
     \<lparr>rk_id = ''local.restart-once.v1'', rk_version = 1, rk_project = ''infra-shared'', rk_action_class = ''B'',
      rk_description = ''Redemarrer une seule fois un service'', rk_timeout_seconds = 45,
      rk_argv_template = Some [''/usr/bin/sudo'', ''-n'', ''/usr/local/libexec/ops-runbooks/restart-service'', ''{service}''],
      rk_parameters = [(''service'', \<lparr>ps_kind = KEnum, ps_values = [''ollama.service'', ''ops-broker.service''],
                                      ps_max_length = 0, ps_minimum = None, ps_maximum = None\<rparr>)],
      rk_budget = Some \<lparr>bs_key_template = ''restart:{service}'', bs_max_attempts = 1, bs_window_seconds = 3600\<rparr>,
      rk_output_max_bytes = 16384\<rparr>"

definition sample_change :: runbook where
  "sample_change =
     \<lparr>rk_id = ''shared.change-request.v1'', rk_version = 1, rk_project = ''infra-shared'', rk_action_class = ''C'',
      rk_description = ''Enregistrer une demande de changement'', rk_timeout_seconds = 5, rk_argv_template = None,
      rk_parameters = [(''summary'', \<lparr>ps_kind = KString, ps_values = [], ps_max_length = 240,
                                      ps_minimum = None, ps_maximum = None\<rparr>)],
      rk_budget = None, rk_output_max_bytes = 8192\<rparr>"

definition sample_file :: "yaml \<Rightarrow> runbook_file" where
  "sample_file doc = \<lparr>rf_symlink = False, rf_inside_root = True, rf_size = 400, rf_doc = doc\<rparr>"

definition sample_files :: "runbook_file list" where
  "sample_files = map sample_file [sample_health_doc, sample_restart_doc, sample_change_doc]"

definition sample_registry :: registry where
  "sample_registry = map (\<lambda>rk. (rk_id rk, rk)) [sample_health, sample_restart, sample_change]"

definition sample_executor :: "nat \<Rightarrow> string list \<Rightarrow> int \<Rightarrow> int \<Rightarrow> execution_result option" where
  "sample_executor n argv timeout max_bytes =
     Some \<lparr>xr_return_code = 0, xr_stdout = ''ok'', xr_stderr = [], xr_timed_out = False, xr_truncated = False\<rparr>"

definition sample_broker :: broker where
  "sample_broker = \<lparr>bk_rt = sample_runtime, bk_registry = sample_registry, bk_rbac = sample_rbac,
     bk_action_policy = sample_action_policy, bk_executor = sample_executor\<rparr>"

lemma sample_rbac_loaded: "rbac_from_data sample_rbac_doc = Inr sample_rbac"
  by code_simp

lemma sample_action_policy_loaded: "action_policy_from_data sample_policy_doc = Inr sample_action_policy"
  by code_simp

lemma sample_executables_loaded: "executable_policy_load sample_executables_doc = Inr sample_executables"
  by code_simp

lemma sample_health_loaded: "load_runbook sample_executables sample_health_doc = Inr sample_health"
  by code_simp

lemma sample_restart_loaded: "load_runbook sample_executables sample_restart_doc = Inr sample_restart"
  by code_simp

lemma sample_change_loaded: "load_runbook sample_executables sample_change_doc = Inr sample_change"
  by code_simp

lemma sample_registry_loaded: "registry_load sample_executables sample_files = Inr sample_registry"
proof -
  have "registry_add sample_executables reg (sample_file doc) = Inr (reg @ [(rk_id rk, rk)])"
    if "load_runbook sample_executables doc = Inr rk" "rk_id rk \<notin> fst ` set reg" for reg doc rk
    using that by (simp add: registry_add_def sample_file_def)
  note add = this [OF sample_health_loaded] this [OF sample_restart_loaded] this [OF sample_change_loaded]
  have "registry_fold sample_executables [] sample_files = Inr sample_registry"
    unfolding sample_files_def sample_registry_def
    by (simp add: add) (simp add: sample_health_def sample_restart_def sample_change_def add)
  then show ?thesis by (simp add: registry_load_def sample_registry_def)
qed

lemma sample_rbac_ok: "rbac_ok (bk_rbac sample_broker)"
  using rbac_from_data_ok [OF sample_rbac_loaded] by (simp add: sample_broker_def)

lemma sample_action_policy_ok: "action_policy_ok (bk_action_policy sample_broker)"
  using action_policy_from_data_ok [OF sample_action_policy_loaded] by (simp add: sample_broker_def)

lemma sample_registry_ok: "registry_ok sample_executables (bk_registry sample_broker)"
  using registry_load_ok [OF sample_registry_loaded] by (simp add: sample_broker_def)

section \<open>Facts the sample requests need\<close>

definition request_1 :: string where
  "request_1 = ''10000000-0000-4000-8000-000000000001''"

definition request_2 :: string where
  "request_2 = ''10000000-0000-4000-8000-000000000002''"

lemma sample_checks:
  "rx_fullmatch ACTOR_ID ''hermes''" "rx_fullmatch ACTOR_ID ''infra''" "rx_fullmatch ACTOR_ID ''zulip:8''"
  "rx_fullmatch PROJECT_ID ''infra-shared''"
  by code_simp+

lemma sample_uuids:
  "uuid_canon request_1 = Some request_1" "uuid_canon request_2 = Some request_2" "request_1 \<noteq> request_2"
  by code_simp+

lemma sample_grants:
  "require_project sample_rbac ''hermes'' ''infra-shared'' = Inr ()"
  "require_lifecycle sample_rbac ''hermes'' ''infra-shared'' ''mission.status.write'' = Inr ()"
  "require_lifecycle sample_rbac ''hermes'' ''infra-shared'' ''mission.queue.claim'' = Inr ()"
  "require_lifecycle sample_rbac ''hermes'' ''infra-shared'' ''resource.lock'' = Inr ()"
  "require_runbook sample_rbac ''hermes'' ''infra-shared'' ''local.health.v1'' ''A'' = Inr ()"
  "require_runbook sample_rbac ''hermes'' ''infra-shared'' ''shared.change-request.v1'' ''C'' = Inr ()"
  "require_runbook sample_rbac ''infra'' ''infra-shared'' ''local.restart-once.v1'' ''B'' = Inr ()"
  by code_simp+

lemma sample_denied: "require_project sample_rbac ''mallory'' ''infra-shared'' = Inl (AuthorizationDenied ''unknown actor'')"
  by code_simp

lemma sample_broker_fields [simp]:
  "bk_rt sample_broker = sample_runtime" "bk_registry sample_broker = sample_registry"
  "bk_rbac sample_broker = sample_rbac" "bk_action_policy sample_broker = sample_action_policy"
  "bk_executor sample_broker = sample_executor"
  by (simp_all add: sample_broker_def)

section \<open>Worlds\<close>

definition empty_world :: world where
  "empty_world = sample_world (apply_schema empty_db)"

definition sample_mission :: mission_row where
  "sample_mission = \<lparr>mi_id = ''m1'', mi_request_id = request_1, mi_project_id = ''infra-shared'',
     mi_title = ''Rotate logs'', mi_status = ''open'', mi_created_by = ''hermes'',
     mi_created_at = seconds 62000000000, mi_updated_at = seconds 62000000000\<rparr>"

definition mission_world :: world where
  "mission_world = sample_world (insert_mission sample_mission (apply_schema empty_db))"

lemma empty_world_simps [simp]:
  "w_db empty_world = apply_schema empty_db" "w_clock empty_world = sample_clock" "w_ticks empty_world = 0"
  "w_uuids empty_world = sample_uuid" "w_drawn empty_world = 0" "w_runs empty_world = []"
  by (simp_all add: empty_world_def sample_world_def)

lemma sample_mission_simps [simp]:
  "mi_id sample_mission = ''m1''" "mi_request_id sample_mission = request_1" "mi_project_id sample_mission = ''infra-shared''"
  "mi_status sample_mission = ''open''" "mi_created_by sample_mission = ''hermes''" "mi_title sample_mission = ''Rotate logs''"
  by (simp_all add: sample_mission_def)

lemma mission_world_simps [simp]:
  "tb_missions (w_db mission_world) = [sample_mission]"
  "tb_mission_runtime (w_db mission_world) = [default_runtime ''m1'' (seconds 62000000000)]"
  "tb_mission_status_changes (w_db mission_world) = []"
  "tb_mission_claim_operations (w_db mission_world) = []" "tb_resource_locks (w_db mission_world) = []"
  "tb_resource_lock_operations (w_db mission_world) = []" "tb_actions (w_db mission_world) = []"
  "tb_audit_head (w_db mission_world) = Some (0, GENESIS_HASH)" "tb_events (w_db mission_world) = []"
  "w_clock mission_world = sample_clock" "w_ticks mission_world = 0"
  "w_uuids mission_world = sample_uuid" "w_drawn mission_world = 0"
  by (simp_all add: mission_world_def sample_world_def insert_mission_def apply_schema_def empty_db_def ignore_runtime_def)
     (simp add: sample_mission_def)

lemmas sample_facts = sample_checks sample_uuids sample_grants validate_actor_def validate_request_id_def

end
