(* ===== verification/Config_Correct.thy ===== *)
theory Config_Correct
  imports Sample_Broker
begin

text \<open>
  What a loaded configuration guarantees, whatever the files say: grants need a single role, the
  action policy is bounded and fails closed, a command line can only run an allowlisted program with
  arguments the runbook declares, and the budgets of different runbooks never share a key. Then the
  guarantees of the text utilities: canonical JSON, redaction, identifiers.
\<close>

section \<open>Policies\<close>

text \<open>
  C32. Under every RBAC file that loads, a runbook is allowed exactly when one single role of the
  actor grants the project, the runbook and the action class together; every other request is
  answered with an authorization denial, never with another error.
\<close>

theorem runbook_grant_single_role:
  assumes "rbac_from_data doc = Inr rb"
  shows "if \<exists>roles role g. map_of (rb_actors rb) a = Some roles \<and> role \<in> set roles \<and>
              map_of (rb_roles rb) role = Some g \<and> p \<in> set (rg_projects g) \<and> b \<in> set (rg_runbooks g) \<and>
              c \<in> set (rg_action_classes g)
         then require_runbook rb a p b c = Inr ()
         else \<exists>m. require_runbook rb a p b c = Inl (AuthorizationDenied m)"
  using require_runbook_cases [OF rbac_from_data_ok [OF assms], of a p b c]
  unfolding granted_def denied_def by (smt (verit, best))

theorem runbook_grant_single_role_witness:
  "rbac_from_data sample_rbac_doc = Inr sample_rbac \<and>
   require_runbook sample_rbac ''hermes'' ''infra-shared'' ''local.health.v1'' ''A'' = Inr () \<and>
   (\<exists>m. require_runbook sample_rbac ''mallory'' ''infra-shared'' ''local.health.v1'' ''A'' = Inl (AuthorizationDenied m))"
proof -
  have "\<exists>m. require_runbook sample_rbac ''mallory'' ''infra-shared'' ''local.health.v1'' ''A'' = Inl (AuthorizationDenied m)"
    using runbook_grant_single_role [OF sample_rbac_loaded, of "''mallory''" "''infra-shared''" "''local.health.v1''" "''A''"]
    by (simp add: sample_rbac_def)
  then show ?thesis using sample_rbac_loaded sample_grants by simp
qed

text \<open>
  The same for lifecycle capabilities: the project and the capability must come from one role.
\<close>

theorem lifecycle_grant_single_role:
  assumes "rbac_from_data doc = Inr rb"
  shows "if \<exists>roles role g. map_of (rb_actors rb) a = Some roles \<and> role \<in> set roles \<and>
              map_of (rb_roles rb) role = Some g \<and> p \<in> set (rg_projects g) \<and> c \<in> set (rg_lifecycle g)
         then require_lifecycle rb a p c = Inr ()
         else \<exists>m. require_lifecycle rb a p c = Inl (AuthorizationDenied m)"
  using require_lifecycle_cases [OF rbac_from_data_ok [OF assms], of a p c]
  unfolding granted_def denied_def by (smt (verit, best))

theorem lifecycle_grant_single_role_witness:
  "rbac_from_data sample_rbac_doc = Inr sample_rbac \<and>
   require_lifecycle sample_rbac ''hermes'' ''infra-shared'' ''resource.lock'' = Inr () \<and>
   (\<exists>m. require_lifecycle sample_rbac ''infra'' ''infra-shared'' ''resource.lock'' = Inl (AuthorizationDenied m))"
proof -
  have "\<exists>m. require_lifecycle sample_rbac ''infra'' ''infra-shared'' ''resource.lock'' = Inl (AuthorizationDenied m)"
    using lifecycle_grant_single_role [OF sample_rbac_loaded, of "''infra''" "''infra-shared''" "''resource.lock''"]
    by (simp add: sample_rbac_def)
  then show ?thesis using sample_rbac_loaded sample_grants by simp
qed



section \<open>Runbooks\<close>

text \<open>
  C34. Whatever the parameters, the command line rendered from a loaded runbook has as many arguments
  as its template, runs an allowlisted program (or an allowlisted helper behind \<^verbatim>\<open>sudo -n\<close>) and never a
  shell, carries no NUL, CR or LF, and differs from the template only in arguments that are a whole
  non-text parameter which does not start with a dash.
\<close>

theorem rendered_argv_safe:
  assumes "executable_policy_load xdoc = Inr xp" and "load_runbook xp doc = Inr rk"
    and "validate_parameters rk supplied = Inr ps" and "render_argv rk ps = Inr (Some argv)"
  shows "\<exists>tmpl. rk_argv_template rk = Some tmpl \<and> length argv = length tmpl \<and> argv_allowed xp argv \<and>
    (\<forall>i < length argv. \<not> argv_unsafe (argv ! i) \<and>
       (argv ! i = tmpl ! i \<or>
        (\<exists>n spec v. rx_full_group PLACEHOLDER 1 (tmpl ! i) = Some n \<and> map_of (rk_parameters rk) n = Some spec \<and>
           ps_kind spec \<noteq> KString \<and> map_of ps n = Some v \<and> param_validate spec v = Inr v \<and>
           argv ! i = param_str v \<and> \<not> starts_with ''-'' (argv ! i))))"
proof -
  obtain tmpl where tmpl: "rk_argv_template rk = Some tmpl" "list_all2 (\<lambda>x y. render_item ps x = Inr y) tmpl argv"
    using assms(4) by (auto simp: render_argv_Inr)
  have ok: "is_absolute (hd tmpl)" "argv_allowed xp tmpl" "\<forall>item\<in>set tmpl. check_argv_item (rk_parameters rk) item = Inr ()"
    using load_runbook_ok [OF assms(2)] tmpl(1) by (simp_all add: runbook_ok_def)
  have len: "length argv = length tmpl" using tmpl(2) by (simp add: list_all2_lengthD)
  have "arg_ok rk ps (tmpl ! i) (argv ! i) \<and> \<not> argv_unsafe (argv ! i)" if "i < length argv" for i
    using render_item_arg_ok [of rk "tmpl ! i" ps "argv ! i"] ok(3) that len list_all2_nthD [OF tmpl(2), of i] by simp
  moreover have "argv_allowed xp argv"
    by (rule render_argv_allowed [OF executable_policy_load_Inr [OF assms(1)] ok(2,1) tmpl(2)])
  moreover have "param_validate spec v = Inr v"
    if "map_of (rk_parameters rk) n = Some spec" "map_of ps n = Some v" for n spec v
    using validated_value [OF assms(3) that(1)] that(2) by simp
  ultimately show ?thesis using tmpl(1) len unfolding arg_ok_def by blast
qed

abbreviation sample_service :: json where
  "sample_service \<equiv> JDict [(''service'', JStr ''ollama.service'')]"

lemma sample_restart_runs:
  "validate_parameters sample_restart sample_service = Inr [(''service'', JStr ''ollama.service'')]"
  "render_argv sample_restart [(''service'', JStr ''ollama.service'')] = Inr (Some [''/usr/bin/sudo'', ''-n'',
     ''/usr/local/libexec/ops-runbooks/restart-service'', ''ollama.service''])"
  "budget_key sample_restart [(''service'', JStr ''ollama.service'')] = Inr (Some ''local.restart-once.v1:restart:ollama.service'')"
  by code_simp+

theorem rendered_argv_safe_witness:
  "argv_allowed sample_executables [''/usr/bin/sudo'', ''-n'', ''/usr/local/libexec/ops-runbooks/restart-service'', ''ollama.service'']"
  using rendered_argv_safe [OF sample_executables_loaded sample_restart_loaded sample_restart_runs(1,2)] by blast

text \<open>
  C35. Validated parameters are exactly the declared ones, in the schema's order, whatever the caller
  supplied; each is a scalar that its own rule accepts; and validating them again changes nothing,
  which is why a stored action can be checked against its runbook before it runs.
\<close>

theorem validated_parameters_exact:
  assumes "validate_parameters rk supplied = Inr ps" and "distinct (map fst (rk_parameters rk))"
  shows "map fst ps = map fst (rk_parameters rk) \<and> validate_parameters rk (JDict ps) = Inr ps \<and>
    (\<forall>n spec. map_of (rk_parameters rk) n = Some spec \<longrightarrow>
       (\<exists>v. map_of ps n = Some v \<and> param_validate spec v = Inr v \<and>
            ((\<exists>s. v = JStr s) \<or> (\<exists>i. v = JInt i) \<or> (\<exists>b. v = JBool b))))"
  using validated_names [OF assms(1)] validate_parameters_idem [OF assms] validated_value [OF assms(1)] param_validate_scalar
  by metis

theorem validated_parameters_exact_witness:
  "validate_parameters sample_restart (JDict [(''service'', JStr ''ollama.service'')]) = Inr [(''service'', JStr ''ollama.service'')] \<and>
   map fst [(''service'', JStr ''ollama.service'')] = map fst (rk_parameters sample_restart)"
proof -
  have "distinct (map fst (rk_parameters sample_restart))" by (simp add: sample_restart_def)
  from validated_parameters_exact [OF sample_restart_runs(1) this] show ?thesis by blast
qed

text \<open>
  The budget key of a loaded class B runbook is computed without error from any validated
  parameters, the other classes have none, and two runbooks with different ids never share a key.
\<close>

theorem budget_keys_disjoint:
  assumes "load_runbook xp doc = Inr rk" "validate_parameters rk supplied = Inr ps"
    and "load_runbook xp doc' = Inr rk'" "validate_parameters rk' supplied' = Inr ps'"
  shows "(rk_action_class rk = ''B'' \<longrightarrow> (\<exists>k. budget_key rk ps = Inr (Some (rk_id rk @ '':'' @ k)))) \<and>
    (rk_action_class rk \<noteq> ''B'' \<longrightarrow> budget_key rk ps = Inr None) \<and>
    (\<forall>k. budget_key rk ps = Inr (Some k) \<longrightarrow> budget_key rk' ps' = Inr (Some k) \<longrightarrow> rk_id rk = rk_id rk')"
  using budget_key_total [OF load_runbook_ok [OF assms(1)] assms(2)]
    budget_key_id [OF load_runbook_ok [OF assms(1)] load_runbook_ok [OF assms(3)]]
  by (metis (full_types))

lemma sample_health_runs: "validate_parameters sample_health (JDict []) = Inr []"
  by code_simp

theorem budget_keys_disjoint_witness:
  "load_runbook sample_executables sample_restart_doc = Inr sample_restart \<and> rk_action_class sample_restart = ''B'' \<and>
   (\<exists>k. budget_key sample_restart [(''service'', JStr ''ollama.service'')] = Inr (Some (rk_id sample_restart @ '':'' @ k)))"
proof -
  have "rk_action_class sample_restart = ''B''" by (simp add: sample_restart_def)
  with budget_keys_disjoint [OF sample_restart_loaded sample_restart_runs(1) sample_health_loaded sample_health_runs]
  show ?thesis using sample_restart_loaded by blast
qed

text \<open>
  A registry that loads holds at least one runbook, no two with the same id; the runbook returned
  for an id is the one that has it, an unknown id raises \<^verbatim>\<open>NotFound\<close>, and the listing is the whole
  registry in the order of the ids. Class B runbooks, and only those, have a budget; only class C
  runbooks may lack a command.
\<close>

theorem registry_loaded:
  assumes "registry_load xp files = Inr reg"
  shows "reg \<noteq> [] \<and> distinct (map rk_id (registry_all reg)) \<and> sorted (map rk_id (registry_all reg)) \<and>
    (\<forall>i rk. registry_get reg i = Inr rk \<longleftrightarrow> rk \<in> set (registry_all reg) \<and> rk_id rk = i) \<and>
    (\<forall>i. i \<notin> rk_id ` set (registry_all reg) \<longrightarrow> registry_get reg i = Inl (NotFound ''runbook'')) \<and>
    (\<forall>rk\<in>set (registry_all reg). (rk_budget rk \<noteq> None \<longleftrightarrow> rk_action_class rk = ''B'') \<and>
       (rk_argv_template rk = None \<longrightarrow> rk_action_class rk = ''C''))"
proof -
  have ok: "registry_ok xp reg" and ne: "reg \<noteq> []" using registry_load_ok [OF assms] by auto
  have all: "sorted (map rk_id (registry_all reg))" "set (registry_all reg) = snd ` set reg"
    using registry_all_ok [OF ok] by auto
  have "map rk_id (registry_all reg) = map fst (sort_key fst reg)"
    using ok by (auto simp: registry_all_def registry_ok_def)
  then have dist: "distinct (map rk_id (registry_all reg))"
    using ok by (simp add: registry_ok_def distinct_map)
  have "map_of reg i = Some rk \<longleftrightarrow> (i, rk) \<in> set reg" for i rk
    using ok by (simp add: registry_ok_def)
  moreover have "registry_get reg i = Inr rk \<longleftrightarrow> map_of reg i = Some rk" for i rk
    by (simp add: registry_get_def split: option.splits)
  ultimately have get: "registry_get reg i = Inr rk \<longleftrightarrow> (i, rk) \<in> set reg" for i rk by blast
  have key: "k = rk_id rk" if "(k, rk) \<in> set reg" for k rk
    using ok that unfolding registry_ok_def by blast
  have mem: "(i, rk) \<in> set reg \<longleftrightarrow> rk \<in> snd ` set reg \<and> rk_id rk = i" for i rk
  proof
    assume "(i, rk) \<in> set reg"
    then show "rk \<in> snd ` set reg \<and> rk_id rk = i" using key by (metis image_eqI snd_conv)
  next
    assume "rk \<in> snd ` set reg \<and> rk_id rk = i"
    then obtain k where "(k, rk) \<in> set reg" "rk_id rk = i" by auto
    then show "(i, rk) \<in> set reg" using key by blast
  qed
  have "registry_get reg i = Inl (NotFound ''runbook'')" if "i \<notin> rk_id ` snd ` set reg" for i
  proof (cases "map_of reg i")
    case (Some rk)
    then have "(i, rk) \<in> set reg" by (rule map_of_SomeD)
    then have "i \<in> rk_id ` snd ` set reg" using key [of i rk] by (metis imageI snd_conv)
    with that show ?thesis by contradiction
  qed (simp add: registry_get_def)
  moreover have "(rk_budget rk \<noteq> None \<longleftrightarrow> rk_action_class rk = ''B'') \<and> (rk_argv_template rk = None \<longrightarrow> rk_action_class rk = ''C'')"
    if rk: "rk \<in> snd ` set reg" for rk
  proof -
    obtain k where "(k, rk) \<in> set reg" using rk by auto
    then have "runbook_ok xp rk" using ok unfolding registry_ok_def by blast
    then show ?thesis unfolding runbook_ok_def by (cases "rk_budget rk"; cases "rk_argv_template rk") simp_all
  qed
  ultimately show ?thesis using ne all dist get mem by simp
qed

theorem registry_loaded_witness:
  "registry_load sample_executables sample_files = Inr sample_registry \<and>
   registry_get sample_registry ''local.health.v1'' = Inr sample_health"
proof -
  have "sample_health \<in> set (registry_all sample_registry)" "rk_id sample_health = ''local.health.v1''"
    using registry_all_ok [OF sample_registry_ok] by (auto simp: sample_registry_def sample_health_def)
  with registry_loaded [OF sample_registry_loaded] sample_registry_loaded show ?thesis by blast
qed

end
