(* ===== verification/Lifecycle_Correct.thy ===== *)
theory Lifecycle_Correct
  imports Sample_Broker
begin

text \<open>
  What the mission and incident handlers guarantee: status changes follow the state machines and
  are recorded once, leaving the active state releases queue entry and locks, requests can be
  retried, and denials are audited and change nothing else.
\<close>

section \<open>Status changes\<close>

text \<open>The effects of a mission's status change besides the status itself, up to the log.\<close>

definition mission_effects :: "string \<Rightarrow> string \<Rightarrow> instant \<Rightarrow> db \<Rightarrow> db" where
  "mission_effects mission_id status now d =
     d\<lparr>tb_mission_runtime := update_where (\<lambda>r. mr_mission_id r = mission_id)
         (reset_claim (queue_state_for status) now) (tb_mission_runtime d),
       tb_resource_locks := (if status \<in> {''paused'', ''completed''}
         then delete_where (\<lambda>l. lk_mission_id l = mission_id) (tb_resource_locks d) else tb_resource_locks d)\<rparr>"

lemma mission_status_effects_Inr:
  assumes "mission_status_effects bk a i s now w = (Inr u, w')"
  shows "log_only (w\<lparr>w_db := mission_effects i s now (w_db w)\<rparr>) w'"
  using assms unfolding mission_status_effects_def mission_effects_def
  by (auto simp: op_simps log_only_refl split: if_splits dest!: append_events_log_only)

definition new_change :: "string \<Rightarrow> string \<Rightarrow> string \<Rightarrow> string \<Rightarrow> string \<Rightarrow> instant \<Rightarrow> status_change_row" where
  "new_change request_id entity_id actor_id previous status now =
     \<lparr>sc_request_id = request_id, sc_entity_id = entity_id, sc_actor_id = actor_id, sc_previous_status = previous,
      sc_new_status = status, sc_created_at = now\<rparr>"

text \<open>The database after a fresh status change, up to the log.\<close>

definition status_applied :: "entity \<Rightarrow> string \<Rightarrow> string \<Rightarrow> string \<Rightarrow> string \<Rightarrow> string \<Rightarrow> instant \<Rightarrow> db \<Rightarrow> db" where
  "status_applied e request_id entity_id actor_id previous status now d =
     (let d = insert_status_change e (new_change request_id entity_id actor_id previous status now) d in
      if previous = status then d else
      let d = update_entity_status e entity_id status now d in
      if e = Mission then mission_effects entity_id status now d else d)"

lemma map_of_transitions:
  "map_of (allowed_transitions e) s = Some ts \<Longrightarrow> t \<in> set ts \<Longrightarrow>
   s \<in> set (allowed_statuses e) \<and> t \<in> set (allowed_statuses e) \<and> s \<noteq> last (allowed_statuses e) \<and> s \<noteq> t"
  by (cases e) (auto simp: allowed_transitions_def allowed_statuses_def MISSION_TRANSITIONS_def INCIDENT_TRANSITIONS_def
                  split: if_splits)

lemma log_only_core: "log_only w w' \<Longrightarrow> db_core (w_db w') = db_core (w_db w)"
  by (simp add: log_only_def)

lemma status_changes_core: "db_core d = db_core d' \<Longrightarrow> status_changes e d = status_changes e d'"
  by (cases e) (auto simp: status_changes_def dest: db_core_tables)

lemma status_changes_applied:
  "status_changes e (status_applied e rq i a p s now d) = status_changes e d @ [new_change rq i a p s now]"
  by (cases e) (simp_all add: status_applied_def status_changes_def insert_status_change_def update_entity_status_def
                  mission_effects_def Let_def)

definition fresh_status :: "broker \<Rightarrow> entity \<Rightarrow> string \<Rightarrow> string \<Rightarrow> string \<Rightarrow> string \<Rightarrow> string \<Rightarrow> string \<Rightarrow> instant \<Rightarrow> json op" where
  "fresh_status bk e actor_id request_id entity_id project_id current_status status now =
     op_bind (op_exec (insert_status_change e (new_change request_id entity_id actor_id current_status status now))) (\<lambda>_.
     op_bind (if current_status \<noteq> status then
                op_bind (op_exec (update_entity_status e entity_id status now)) (\<lambda>_.
                if e = Mission then mission_status_effects bk actor_id entity_id status now else op_ret ())
              else op_ret ()) (\<lambda>_.
     op_bind (append_event (bk_rt bk) (isoformat now)
        (entity_type e @ (if current_status \<noteq> status then ''.status_changed'' else ''.status_unchanged''))
        actor_id (entity_type e) entity_id
        (JDict [(''request_id'', JStr request_id), (''project_id'', JStr project_id),
           (''previous_status'', JStr current_status), (''status'', JStr status), (''changed'', JBool (current_status \<noteq> status))])) (\<lambda>_.
     op_bind (op_query (\<lambda>d. select_one (\<lambda>r. sc_request_id r = request_id) (status_changes e d))) (\<lambda>stored.
     case stored of None \<Rightarrow> op_raise AssertionError
     | Some r \<Rightarrow> op_ret (status_change_public (entity_key e) status False r)))))"

lemma fresh_status_Inr:
  assumes "fresh_status bk e a rq i p cur s now w = (Inr v, w')"
    and "select_one (\<lambda>r. sc_request_id r = rq) (status_changes e (w_db w)) = None"
  shows "db_core (w_db w') = db_core (status_applied e rq i a cur s now (w_db w)) \<and>
    v = status_change_public (entity_key e) s False (new_change rq i a cur s now)"
proof -
  let ?d = "status_applied e rq i a cur s now (w_db w)"
  from assms(1) obtain r where core: "db_core (w_db w') = db_core ?d"
    and r: "select_one (\<lambda>r. sc_request_id r = rq) (status_changes e (w_db w')) = Some r"
      "v = status_change_public (entity_key e) s False r"
    unfolding fresh_status_def status_applied_def Let_def
    by (auto simp: op_simps split: if_splits option.splits
             dest!: mission_status_effects_Inr append_event_log_only log_only_core)
  have "r = new_change rq i a cur s now"
    using r(1) assms(2) unfolding status_changes_core [OF core] status_changes_applied
    by (auto simp: select_one_append new_change_def)
  with core r(2) show ?thesis by simp
qed

text \<open>The two ways a status request can be answered: from the record of an earlier one, or afresh.\<close>

definition status_answer :: "broker \<Rightarrow> entity \<Rightarrow> string \<Rightarrow> string \<Rightarrow> string \<Rightarrow> string \<Rightarrow> string \<Rightarrow> string \<Rightarrow> json \<Rightarrow> world \<Rightarrow> world \<Rightarrow> bool" where
  "status_answer bk e a rq i p cur s v w w' \<longleftrightarrow>
     (case select_one (\<lambda>r. sc_request_id r = rq) (status_changes e (w_db w)) of
        Some r \<Rightarrow> sc_entity_id r = i \<and> sc_actor_id r = a \<and> sc_new_status r = s \<and> w' = w \<and>
          v = status_change_public (entity_key e) cur True r
      | None \<Rightarrow> (cur = s \<or> (\<exists>ts. map_of (allowed_transitions e) cur = Some ts \<and> s \<in> set ts)) \<and>
          fresh_status bk e a rq i p cur s (w_clock w (w_ticks w)) (w\<lparr>w_ticks := Suc (w_ticks w)\<rparr>) = (Inr v, w'))"

lemma set_entity_status_Inr:
  assumes "set_entity_status bk e a rq i s w = (Inr v, w')"
  shows "\<exists>rq' p cur. rx_fullmatch ACTOR_ID a \<and> uuid_canon rq = Some rq' \<and> s \<in> set (allowed_statuses e) \<and>
    entity_row e i (w_db w) = Some (p, cur) \<and>
    require_lifecycle (bk_rbac bk) a p (entity_type e @ ''.status.write'') = Inr () \<and>
    status_answer bk e a rq' i p cur s v w w'"
proof -
  from assms obtain rq' p cur where main: "rx_fullmatch ACTOR_ID a"
    "uuid_canon rq = Some rq'" "s \<in> set (allowed_statuses e)" "entity_row e i (w_db w) = Some (p, cur)"
    "require_lifecycle (bk_rbac bk) a p (entity_type e @ ''.status.write'') = Inr ()"
    unfolding set_entity_status_def by (auto simp: op_simps split: option.splits)
  have "status_answer bk e a rq' i p cur s v w w'"
  proof (cases "select_one (\<lambda>r. sc_request_id r = rq') (status_changes e (w_db w))")
    case None
    with assms main show ?thesis
      unfolding set_entity_status_def Let_def status_answer_def fresh_status_def new_change_def
      by (cases "cur = s"; cases "map_of (allowed_transitions e) cur") (simp_all add: op_simps)
  next
    case (Some r)
    with assms main show ?thesis
      unfolding set_entity_status_def status_answer_def by (auto simp: op_simps split: if_splits)
  qed
  with main show ?thesis by blast
qed

lemma entity_row_core: "db_core d = db_core d' \<Longrightarrow> entity_row e i d = entity_row e i d'"
  by (cases e) (auto simp: entity_row_def dest: db_core_tables)

lemma lookup_id_update:
  assumes "\<And>r. key (f r) = key r"
  shows "select_one (\<lambda>x. key x = k) (update_where (\<lambda>x. key x = k) f t) = map_option f (select_one (\<lambda>x. key x = k) t)"
  using assms by (induction t) auto

lemma entity_row_applied:
  "entity_row e i d = Some (p, cur) \<Longrightarrow> entity_row e i (status_applied e rq i a cur s now d) = Some (p, s)"
  by (cases e)
     (auto simp: entity_row_def status_applied_def insert_status_change_def update_entity_status_def mission_effects_def
           Let_def lookup_id_update [where key = mi_id] lookup_id_update [where key = in_id])

lemma fresh_status_effect:
  assumes "fresh_status bk e a rq i p cur s now w = (Inr v, w')"
    and "select_one (\<lambda>r. sc_request_id r = rq) (status_changes e (w_db w)) = None"
    and "entity_row e i (w_db w) = Some (p, cur)"
  shows "entity_row e i (w_db w') = Some (p, s)"
    and "status_changes e (w_db w') = status_changes e (w_db w) @ [new_change rq i a cur s now]"
    and "v = status_change_public (entity_key e) s False (new_change rq i a cur s now)"
proof -
  have core: "db_core (w_db w') = db_core (status_applied e rq i a cur s now (w_db w))"
    and v: "v = status_change_public (entity_key e) s False (new_change rq i a cur s now)"
    using fresh_status_Inr [OF assms(1,2)] by auto
  show "entity_row e i (w_db w') = Some (p, s)"
    unfolding entity_row_core [OF core] by (rule entity_row_applied) (rule assms(3))
  show "status_changes e (w_db w') = status_changes e (w_db w) @ [new_change rq i a cur s now]"
    unfolding status_changes_core [OF core] by (rule status_changes_applied)
  show "v = status_change_public (entity_key e) s False (new_change rq i a cur s now)" by (rule v)
qed

text \<open>
  C37. A status request that succeeds was granted to its actor, found the entity in a state from
  which the requested one is reachable in the state machine (or already in it), leaves the entity
  in the requested state and appends exactly one change row; or it repeats a recorded request, and
  then nothing is changed.
\<close>

theorem set_status_follows_machine:
  assumes "rbac_ok (bk_rbac bk)" and "set_entity_status bk e a rq i s w = (Inr v, w')"
  shows "\<exists>p cur rq'. entity_row e i (w_db w) = Some (p, cur) \<and> uuid_canon rq = Some rq' \<and>
    granted (bk_rbac bk) a (\<lambda>g. p \<in> set (rg_projects g) \<and> (entity_type e @ ''.status.write'') \<in> set (rg_lifecycle g)) \<and>
    (if \<exists>r\<in>set (status_changes e (w_db w)). sc_request_id r = rq'
     then w_db w' = w_db w \<and> (\<exists>r\<in>set (status_changes e (w_db w)).
            sc_request_id r = rq' \<and> sc_entity_id r = i \<and> sc_actor_id r = a \<and> sc_new_status r = s)
     else (cur = s \<or> s \<in> set (the (map_of (allowed_transitions e) cur))) \<and>
          entity_row e i (w_db w') = Some (p, s) \<and>
          (\<exists>now. status_changes e (w_db w') = status_changes e (w_db w) @
             [\<lparr>sc_request_id = rq', sc_entity_id = i, sc_actor_id = a, sc_previous_status = cur,
               sc_new_status = s, sc_created_at = now\<rparr>]))"
proof -
  from set_entity_status_Inr [OF assms(2)] obtain rq' p cur where
    main: "uuid_canon rq = Some rq'" "entity_row e i (w_db w) = Some (p, cur)"
      "require_lifecycle (bk_rbac bk) a p (entity_type e @ ''.status.write'') = Inr ()"
    and answer: "status_answer bk e a rq' i p cur s v w w'"
    by blast
  have grant: "granted (bk_rbac bk) a (\<lambda>g. p \<in> set (rg_projects g) \<and> (entity_type e @ ''.status.write'') \<in> set (rg_lifecycle g))"
    using require_lifecycle_cases [OF assms(1), of a p "entity_type e @ ''.status.write''"] main(3)
    by (auto simp: denied_def split: if_splits)
  show ?thesis
  proof (cases "select_one (\<lambda>r. sc_request_id r = rq') (status_changes e (w_db w))")
    case (Some r)
    with main grant answer show ?thesis by (auto simp: status_answer_def dest!: select_one_Some)
  next
    case None
    with answer have step: "cur = s \<or> (\<exists>ts. map_of (allowed_transitions e) cur = Some ts \<and> s \<in> set ts)"
      and fresh: "fresh_status bk e a rq' i p cur s (w_clock w (w_ticks w)) (w\<lparr>w_ticks := Suc (w_ticks w)\<rparr>) = (Inr v, w')"
      by (auto simp: status_answer_def)
    have "\<not> (\<exists>r\<in>set (status_changes e (w_db w)). sc_request_id r = rq')"
      using None by (auto simp: select_one_None)
    moreover have "cur = s \<or> s \<in> set (the (map_of (allowed_transitions e) cur))" using step by auto
    ultimately show ?thesis
      using main grant fresh_status_effect [OF fresh] None by (auto simp: new_change_def)
  qed
qed

lemma mission_status_effects_ok:
  assumes "tb_audit_head (w_db w) \<noteq> None"
  shows "\<exists>w'. mission_status_effects bk a i s now w = (Inr (), w') \<and> tb_audit_head (w_db w') \<noteq> None"
proof -
  let ?w = "w\<lparr>w_db := mission_effects i s now (w_db w)\<rparr>"
  have "tb_audit_head (w_db ?w) \<noteq> None" using assms by (simp add: mission_effects_def)
  from append_events_ok [OF this] show ?thesis
    using assms by (fastforce simp: mission_status_effects_def mission_effects_def op_run op_ret_Inr)
qed

lemma or_audit_denial_lift [op_run]:
  "op_bind (or_audit_denial bk P a et en ei rq (op_lift (Inr x))) f w = f x w"
  by (simp add: or_audit_denial_def op_catch_def op_lift_def op_bind_def)

lemma pause_succeeds:
  "is_ok (fst (set_entity_status sample_broker Mission ''hermes'' request_1 ''m1'' ''paused'' mission_world))"
  unfolding set_entity_status_def mission_status_effects_def
  by (simp add: op_run sample_facts allowed_statuses_def entity_row_def entity_type_def status_changes_def
     allowed_transitions_def MISSION_TRANSITIONS_def insert_status_change_def update_entity_status_def)

theorem set_status_follows_machine_witness:
  "\<exists>v w'. set_entity_status sample_broker Mission ''hermes'' request_1 ''m1'' ''paused'' mission_world = (Inr v, w') \<and>
     entity_row Mission ''m1'' (w_db w') = Some (''infra-shared'', ''paused'')"
proof -
  obtain v w' where run: "set_entity_status sample_broker Mission ''hermes'' request_1 ''m1'' ''paused'' mission_world = (Inr v, w')"
    using pause_succeeds by (metis prod.collapse)
  have "entity_row Mission ''m1'' (w_db mission_world) = Some (''infra-shared'', ''open'')"
    "status_changes Mission (w_db mission_world) = []"
    by (simp_all add: entity_row_def status_changes_def)
  with set_status_follows_machine [OF sample_rbac_ok run] run show ?thesis by auto
qed

section \<open>What else a mission's status change does\<close>

lemma fresh_mission_tables:
  assumes "fresh_status bk Mission a rq i p cur s now w = (Inr v, w')" "cur \<noteq> s"
    and "select_one (\<lambda>r. sc_request_id r = rq) (status_changes Mission (w_db w)) = None"
  shows "tb_mission_runtime (w_db w') = update_where (\<lambda>r. mr_mission_id r = i) (reset_claim (queue_state_for s) now) (tb_mission_runtime (w_db w))"
    and "tb_resource_locks (w_db w') = (if s \<in> {''paused'', ''completed''}
           then delete_where (\<lambda>l. lk_mission_id l = i) (tb_resource_locks (w_db w)) else tb_resource_locks (w_db w))"
    and "tb_missions (w_db w') = update_where (\<lambda>r. mi_id r = i) (\<lambda>r. r\<lparr>mi_status := s, mi_updated_at := now\<rparr>) (tb_missions (w_db w))"
    and "tb_actions (w_db w') = tb_actions (w_db w)" "tb_incidents (w_db w') = tb_incidents (w_db w)"
proof -
  note core = db_core_tables [OF fresh_status_Inr [OF assms(1,3), THEN conjunct1]]
  show "tb_mission_runtime (w_db w') = update_where (\<lambda>r. mr_mission_id r = i) (reset_claim (queue_state_for s) now) (tb_mission_runtime (w_db w))"
    "tb_resource_locks (w_db w') = (if s \<in> {''paused'', ''completed''}
           then delete_where (\<lambda>l. lk_mission_id l = i) (tb_resource_locks (w_db w)) else tb_resource_locks (w_db w))"
    "tb_missions (w_db w') = update_where (\<lambda>r. mi_id r = i) (\<lambda>r. r\<lparr>mi_status := s, mi_updated_at := now\<rparr>) (tb_missions (w_db w))"
    "tb_actions (w_db w') = tb_actions (w_db w)" "tb_incidents (w_db w') = tb_incidents (w_db w)"
    unfolding core using assms(2)
    by (simp_all add: status_applied_def mission_effects_def insert_status_change_def update_entity_status_def Let_def)
qed

lemma reset_claim_simps [simp]:
  "mr_mission_id (reset_claim q now r) = mr_mission_id r" "mr_queue_state (reset_claim q now r) = q"
  "mr_claimed_by (reset_claim q now r) = None" "mr_lease_until (reset_claim q now r) = None"
  by (simp_all add: reset_claim_def)

lemma reset_claim_rows:
  assumes "r \<in> set (update_where (\<lambda>r. mr_mission_id r = i) (reset_claim q now) t)" and "mr_mission_id r = i"
  shows "mr_queue_state r = q \<and> mr_claimed_by r = None \<and> mr_lease_until r = None"
proof -
  obtain x where "r = reset_claim q now x" using assms unfolding set_update_where by blast
  then show ?thesis by (metis reset_claim_simps(2-4))
qed

lemma reset_claim_others:
  assumes "mr_mission_id r \<noteq> i"
  shows "r \<in> set (update_where (\<lambda>r. mr_mission_id r = i) (reset_claim q now) t) \<longleftrightarrow> r \<in> set t"
proof -
  have "r \<noteq> reset_claim q now x" if "mr_mission_id x = i" for x
    using assms that reset_claim_simps(1) by metis
  with assms show ?thesis unfolding set_update_where by blast
qed

text \<open>
  C38. When a mission is paused or completed, its queue entry is no longer claimed and shows the state
  that belongs to the new status, every resource lock the mission held is gone, the locks of other
  missions stay, and no queue entry of another mission changes. In the table of missions exactly that
  mission gets the new status, as of this request; every other mission, all incidents and all actions
  stay as they were.
\<close>

theorem leaving_open_releases:
  assumes "set_entity_status bk Mission a rq i s w = (Inr v, w')" and "s \<in> {''paused'', ''completed''}"
    and "entity_row Mission i (w_db w) = Some (p, cur)" "cur \<noteq> s"
    and "\<forall>r\<in>set (tb_mission_status_changes (w_db w)). Some (sc_request_id r) \<noteq> uuid_canon rq"
  shows "(\<forall>r\<in>set (tb_mission_runtime (w_db w')). mr_mission_id r = i \<longrightarrow>
           mr_queue_state r = (if s = ''paused'' then ''blocked'' else ''done'') \<and> mr_claimed_by r = None \<and> mr_lease_until r = None) \<and>
    set (tb_resource_locks (w_db w')) = {l \<in> set (tb_resource_locks (w_db w)). lk_mission_id l \<noteq> i} \<and>
    (\<forall>r. mr_mission_id r \<noteq> i \<longrightarrow> (r \<in> set (tb_mission_runtime (w_db w')) \<longleftrightarrow> r \<in> set (tb_mission_runtime (w_db w)))) \<and>
    tb_missions (w_db w') = map (\<lambda>m. if mi_id m = i then m\<lparr>mi_status := s, mi_updated_at := w_clock w (w_ticks w)\<rparr> else m) (tb_missions (w_db w)) \<and>
    tb_incidents (w_db w') = tb_incidents (w_db w) \<and> tb_actions (w_db w') = tb_actions (w_db w)"
proof -
  from set_entity_status_Inr [OF assms(1)] obtain rq' p' cur' where rq: "uuid_canon rq = Some rq'"
    and row: "entity_row Mission i (w_db w) = Some (p', cur')" and answer: "status_answer bk Mission a rq' i p' cur' s v w w'"
    by blast
  have eq: "p' = p" "cur' = cur" using row assms(3) by simp_all
  have none: "select_one (\<lambda>r. sc_request_id r = rq') (status_changes Mission (w_db w)) = None"
    using assms(5) rq by (simp add: select_one_None status_changes_def)
  with answer have fresh: "fresh_status bk Mission a rq' i p cur s (w_clock w (w_ticks w)) (w\<lparr>w_ticks := Suc (w_ticks w)\<rparr>) = (Inr v, w')"
    by (simp add: status_answer_def eq)
  note tables = fresh_mission_tables [OF fresh assms(4), simplified, OF none]
  have queue: "queue_state_for s = (if s = ''paused'' then ''blocked'' else ''done'')"
    using assms(2) by (auto simp: queue_state_for_def)
  have locks: "tb_resource_locks (w_db w') = delete_where (\<lambda>l. lk_mission_id l = i) (tb_resource_locks (w_db w))"
    using tables(2) assms(2) by simp
  have missions: "tb_missions (w_db w') =
      map (\<lambda>m. if mi_id m = i then m\<lparr>mi_status := s, mi_updated_at := w_clock w (w_ticks w)\<rparr> else m) (tb_missions (w_db w))"
    using tables(3) by (simp add: update_where_def)
  show ?thesis
    unfolding tables(1,4,5) locks queue missions set_delete_where
    using reset_claim_rows [of _ i] reset_claim_others [of _ i] by blast
qed

theorem leaving_open_releases_witness:
  "\<exists>v w'. set_entity_status sample_broker Mission ''hermes'' request_1 ''m1'' ''paused'' mission_world = (Inr v, w') \<and>
     (\<forall>r\<in>set (tb_mission_runtime (w_db w')). mr_mission_id r = ''m1'' \<longrightarrow> mr_queue_state r = ''blocked'') \<and>
     tb_incidents (w_db w') = tb_incidents (w_db mission_world) \<and> tb_actions (w_db w') = tb_actions (w_db mission_world)"
proof -
  obtain v w' where run: "set_entity_status sample_broker Mission ''hermes'' request_1 ''m1'' ''paused'' mission_world = (Inr v, w')"
    using pause_succeeds by (metis prod.collapse)
  have "entity_row Mission ''m1'' (w_db mission_world) = Some (''infra-shared'', ''open'')"
    by (simp add: entity_row_def)
  from leaving_open_releases [OF run _ this] run show ?thesis by fastforce
qed

section \<open>Creation\<close>

text \<open>
  C39. Retrying a mission request that succeeded, with the same arguments, returns the same answer and
  changes nothing, provided the identifier drawn for it was fresh.
\<close>

theorem create_mission_retry:
  assumes "create_mission bk a rq p t w = (Inr v, w')"
    and "w_uuids w (w_drawn w) \<notin> mi_id ` set (tb_missions (w_db w))"
  shows "create_mission bk a rq p t w' = (Inr v, w')"
proof -
  from assms(1) obtain rq' where checks: "rx_fullmatch ACTOR_ID a" "uuid_canon rq = Some rq'" "rx_fullmatch PROJECT_ID p"
    "bounded_text 1 240 t = Inr (redact_text t)" "require_project (bk_rbac bk) a p = Inr ()"
    unfolding create_mission_def by (auto simp: op_simps)
  have retry: "create_mission bk a rq p t w' = (Inr (mission_dict r), w')"
    if "select_one (\<lambda>r. mi_request_id r = rq') (tb_missions (w_db w')) = Some r"
      "mi_created_by r = a" "mi_project_id r = p" "mi_title r = redact_text t" for r
    using checks that
    by (simp add: create_mission_def validate_actor_def validate_request_id_def op_run or_audit_denial_lift op_ret_def)
  show ?thesis
  proof (cases "select_one (\<lambda>r. mi_request_id r = rq') (tb_missions (w_db w))")
    case (Some r)
    with assms(1) checks have "w' = w" "v = mission_dict r" "mi_created_by r = a" "mi_project_id r = p" "mi_title r = redact_text t"
      unfolding create_mission_def
      by (simp_all add: validate_actor_def validate_request_id_def op_run or_audit_denial_lift op_simps split: if_splits)
    with Some retry show ?thesis by simp
  next
    case None
    define r where "r = \<lparr>mi_id = w_uuids w (w_drawn w), mi_request_id = rq', mi_project_id = p, mi_title = redact_text t,
       mi_status = ''open'', mi_created_by = a, mi_created_at = w_clock w (w_ticks w), mi_updated_at = w_clock w (w_ticks w)\<rparr>"
    from assms(1) checks None obtain w1 u where
      event: "append_event (bk_rt bk) (isoformat (w_clock w (w_ticks w))) ''mission.created'' a ''mission'' (mi_id r)
          (JDict [(''request_id'', JStr rq'), (''project_id'', JStr p)])
          (w\<lparr>w_drawn := Suc (w_drawn w), w_ticks := Suc (w_ticks w), w_db := insert_mission r (w_db w)\<rparr>) = (Inr u, w')"
      and row: "select_one (\<lambda>r. mi_id r = w_uuids w (w_drawn w)) (tb_missions (w_db w')) = Some w1" "v = mission_dict w1"
      unfolding create_mission_def r_def
      by (auto simp: validate_actor_def validate_request_id_def op_run or_audit_denial_lift op_simps split: option.splits)
    have table: "tb_missions (w_db w') = tb_missions (w_db w) @ [r]"
      using db_core_tables(1) [OF log_only_core [OF append_event_log_only [OF event]]] by (simp add: insert_mission_def)
    have "select_one (\<lambda>r. mi_request_id r = rq') (tb_missions (w_db w')) = Some r"
      using None by (simp add: table select_one_append r_def)
    moreover have "w1 = r"
    proof -
      have "select_one (\<lambda>r. mi_id r = w_uuids w (w_drawn w)) (tb_missions (w_db w)) = None"
        using assms(2) unfolding select_one_None by (metis imageI)
      then show ?thesis using row(1) by (simp add: table select_one_append r_def)
    qed
    ultimately show ?thesis using retry [of r] row(2) by (simp add: r_def)
  qed
qed

theorem create_mission_retry_witness:
  "\<exists>v w'. create_mission sample_broker ''hermes'' request_1 ''infra-shared'' ''Rotate logs'' empty_world = (Inr v, w') \<and>
     create_mission sample_broker ''hermes'' request_1 ''infra-shared'' ''Rotate logs'' w' = (Inr v, w')"
proof -
  have "is_ok (fst (create_mission sample_broker ''hermes'' request_1 ''infra-shared'' ''Rotate logs'' empty_world))"
    unfolding create_mission_def
    by (simp add: op_run or_audit_denial_lift sample_facts bounded_text_def insert_mission_def apply_schema_def empty_db_def)
  then obtain v w' where run: "create_mission sample_broker ''hermes'' request_1 ''infra-shared'' ''Rotate logs'' empty_world = (Inr v, w')"
    by (metis prod.collapse)
  have "w_uuids empty_world (w_drawn empty_world) \<notin> mi_id ` set (tb_missions (w_db empty_world))"
    by (simp add: apply_schema_def empty_db_def)
  from create_mission_retry [OF run this] run show ?thesis by blast
qed

lemma or_audit_denial_run:
  assumes "tb_audit_head (w_db w) \<noteq> None"
  shows "op_bind (or_audit_denial bk P a et en ei rq (op_lift (Inl e))) f w =
    (Inl e, if P e then logged (bk_rt bk) (isoformat (w_clock w (w_ticks w))) et a en ei
       (JDict [(''decision'', JStr ''deny''), (''code'', JStr (exc_code e)), (''request_id'', opt_json JStr rq)])
       (w\<lparr>w_ticks := Suc (w_ticks w)\<rparr>) else w)"
  using assms
  by (simp add: or_audit_denial_def op_catch_def op_bind_def op_lift_def audit_denial_def op_now_def transaction_def
        append_event_logged op_ret_def op_raise_def)

text \<open>
  C40. A mission request of an actor without a grant for the project is refused, and all that remains
  of it is one \<^verbatim>\<open>mission.denied\<close> event: no table changes.
\<close>

theorem create_mission_denied:
  assumes "rbac_ok (bk_rbac bk)" and "\<not> granted (bk_rbac bk) a (\<lambda>g. p \<in> set (rg_projects g))"
    and "rx_fullmatch ACTOR_ID a" "uuid_canon rq \<noteq> None" "rx_fullmatch PROJECT_ID p"
    and "1 \<le> length t" "length t \<le> 240" "chr_nul \<notin> set t" and "tb_audit_head (w_db w) \<noteq> None"
  shows "\<exists>m w' e. create_mission bk a rq p t w = (Inl (AuthorizationDenied m), w') \<and>
    db_core (w_db w') = db_core (w_db w) \<and> tb_events (w_db w') = tb_events (w_db w) @ [e] \<and>
    ev_event_type e = ''mission.denied'' \<and> ev_actor_id e = a"
proof -
  obtain rq' where rq: "uuid_canon rq = Some rq'" using assms(4) by blast
  obtain m where m: "require_project (bk_rbac bk) a p = Inl (AuthorizationDenied m)"
    using require_project_cases [OF assms(1), of a p] assms(2) by (auto simp: denied_def)
  let ?w = "w\<lparr>w_ticks := Suc (w_ticks w)\<rparr>"
  let ?w' = "logged (bk_rt bk) (isoformat (w_clock w (w_ticks w))) ''mission.denied'' a ''mission'' rq'
     (JDict [(''decision'', JStr ''deny''), (''code'', JStr ''authorization_denied''), (''request_id'', opt_json JStr (Some rq'))]) ?w"
  have "bounded_text 1 240 t = Inr (redact_text t)" using assms(6-8) by (simp add: bounded_text_Inr)
  then have run: "create_mission bk a rq p t w = (Inl (AuthorizationDenied m), ?w')"
    using assms(3,5,9) rq m
    by (simp add: create_mission_def validate_actor_def validate_request_id_def op_run or_audit_denial_run is_denial_def exc_code_def)
  obtain h where "tb_audit_head (w_db w) = Some h" using assms(9) by blast
  then have "\<exists>e. tb_events (w_db ?w') = tb_events (w_db w) @ [e] \<and> ev_event_type e = ''mission.denied'' \<and> ev_actor_id e = a"
    by (cases h) (simp add: logged_def append_event_db Let_def)
  with run show ?thesis by fastforce
qed

theorem create_mission_denied_witness:
  "\<exists>m w' e. create_mission sample_broker ''mallory'' request_1 ''infra-shared'' ''Rotate logs'' empty_world =
      (Inl (AuthorizationDenied m), w') \<and>
    tb_events (w_db w') = tb_events (w_db empty_world) @ [e] \<and> ev_event_type e = ''mission.denied''"
proof -
  have "rx_fullmatch ACTOR_ID ''mallory''" by code_simp
  moreover have "\<not> granted (bk_rbac sample_broker) ''mallory'' (\<lambda>g. ''infra-shared'' \<in> set (rg_projects g))"
    by (simp add: granted_def sample_rbac_def)
  moreover have "uuid_canon request_1 \<noteq> None" "1 \<le> length ''Rotate logs''" "length ''Rotate logs'' \<le> 240"
    "chr_nul \<notin> set ''Rotate logs''" "tb_audit_head (w_db empty_world) \<noteq> None"
    by (simp_all add: sample_uuids apply_schema_def empty_db_def)
  ultimately show ?thesis
    using create_mission_denied [OF sample_rbac_ok _ _ _ sample_checks(4)] by blast
qed

end
