(* ===== verification/Broker_Missions.thy ===== *)
theory Broker_Missions
  imports Broker_Lifecycle
begin

text \<open>
  \<^verbatim>\<open>mission_control.py\<close>, first part: validators, the joined mission row and its public view, context
  updates, checkpoints and records. An update handler collects the columns to set in a dict
  (\<^verbatim>\<open>values\<close>); here it is the list of its items in the same order, applied to the row by column name.
\<close>

section \<open>Validators\<close>

definition RESOURCE_ID :: rx where
  "RESOURCE_ID = RSeq (RCls False [cls_lower, cls_digit])
     (RRep 1 (Some 191) (RCls False [cls_lower, cls_digit, (58, 58), (46, 46), (95, 95), (47, 47), (45, 45)]))"

definition MODEL_ROLE :: rx where
  "MODEL_ROLE = RSeq (rx_lit ''ROLE_'') (rx_alts [rx_lit ''TINY'', rx_lit ''LOCAL_OPS'', rx_lit ''REASONING'',
     rx_lit ''CODER'', rx_lit ''EMBEDDING'', rx_lit ''RERANKER''])"

definition PROVIDER :: rx where
  "PROVIDER = RSeq (RCls False [cls_lower, cls_digit])
     (RRep 0 (Some 63) (RCls False [cls_lower, cls_digit, (46, 46), (95, 95), (45, 45)]))"

definition ENVIRONMENT :: rx where
  "ENVIRONMENT = RSeq (RCls False [cls_lower, cls_digit])
     (RRep 0 (Some 63) (RCls False [cls_lower, cls_digit, (46, 46), (95, 95), (45, 45)]))"

definition RECORD_KINDS :: "string list" where
  "RECORD_KINDS = [''observation'', ''analysis'', ''decision'', ''handoff'', ''escalation'']"

definition TRACE_OUTCOMES :: "string list" where
  "TRACE_OUTCOMES = [''selected'', ''succeeded'', ''failed'', ''escalated'', ''refused'']"

definition string_list :: "string list \<Rightarrow> string list res" where
  "string_list value =
     (if length value > 64 then Inl (invalid_request ''is invalid'') else res_map (bounded_text 0 1000) value)"

definition json_column :: "json \<Rightarrow> string res" where
  "json_column value =
     (let encoded = canonical_json (scrub_payload value) in
      if length (utf8_encode encoded) > 32768 then Inl (invalid_request ''is too large'') else Inr encoded)"

definition string_list_json :: "string list \<Rightarrow> string res" where
  "string_list_json value = res_bind (string_list value) (\<lambda>items. json_column (JList (map JStr items)))"

definition check_model_role :: "string option \<Rightarrow> unit res" where
  "check_model_role role =
     (case role of None \<Rightarrow> Inr () | Some r \<Rightarrow>
        raise_if (\<not> rx_fullmatch MODEL_ROLE r) (invalid_request ''model_role is invalid''))"

text \<open>
  \<^verbatim>\<open>confidence\<close>: an integer or a float between 0 and 1, kept as the \<^verbatim>\<open>repr\<close> of its float. Whether a
  float given by its \<^verbatim>\<open>repr\<close> lies there is decided on its text, which is \<^verbatim>\<open>0.\<close>\<open>digits\<close>, \<^verbatim>\<open>1.0\<close>, or a
  number with a negative exponent.
\<close>

definition unit_float :: "string \<Rightarrow> bool" where
  "unit_float f \<longleftrightarrow>
     (case scan_num f of
        Some (ip, fx, []) \<Rightarrow>
          f = ''1.0'' \<or> f = ''-0.0'' \<or> ip = ''0'' \<and> CHR ''e'' \<notin> set f \<or>
          hd ip \<noteq> CHR ''-'' \<and> CHR ''e'' \<in> set fx \<and> CHR ''-'' \<in> set fx
      | _ \<Rightarrow> False)"

definition confidence_float :: "json option \<Rightarrow> string option res" where
  "confidence_float confidence =
     (case confidence of
        None \<Rightarrow> Inr None
      | Some (JInt i) \<Rightarrow> if 0 \<le> i \<and> i \<le> 1 then Inr (Some (int_str i @ ''.0'')) else Inl (invalid_request ''confidence must be 0..1'')
      | Some (JFloat f) \<Rightarrow> if unit_float f then Inr (Some f) else Inl (invalid_request ''confidence must be 0..1'')
      | _ \<Rightarrow> Inl (invalid_request ''confidence must be 0..1''))"

section \<open>The mission row\<close>

definition mission_join :: "string \<Rightarrow> db \<Rightarrow> (mission_row \<times> runtime_row) option" where
  "mission_join mission_id d =
     Option.bind (select_one (\<lambda>m. mi_id m = mission_id) (tb_missions d)) (\<lambda>m.
       map_option (Pair m) (runtime_of d (mi_id m)))"

definition op_mission :: "string \<Rightarrow> (mission_row \<times> runtime_row) op" where
  "op_mission mission_id =
     op_bind (op_query (mission_join mission_id)) (\<lambda>row.
     case row of None \<Rightarrow> op_raise (NotFound ''mission'') | Some r \<Rightarrow> op_ret r)"

definition runtime_public :: "runtime \<Rightarrow> bool option \<Rightarrow> mission_row \<times> runtime_row \<Rightarrow> json res" where
  "runtime_public rt replayed row =
     (case row of (m, r) \<Rightarrow>
      res_bind (loads_column rt (mr_plan_json r)) (\<lambda>plan.
      res_bind (loads_column rt (mr_remaining_steps_json r)) (\<lambda>remaining.
      res_bind (loads_column rt (mr_resources_json r)) (\<lambda>resources.
      res_bind (loads_column rt (mr_files_json r)) (\<lambda>files.
      Inr (JDict ([(''id'', jclip 36 (mi_id m)), (''project_id'', jclip 64 (mi_project_id m)),
        (''title'', jclip 240 (mi_title m)), (''status'', jclip 16 (mi_status m)),
        (''environment'', jclip 64 (mr_environment r)), (''priority'', JInt (mr_priority r)),
        (''queue_state'', jclip 16 (mr_queue_state r)), (''objective'', jclip 4000 (mr_objective r)),
        (''summary'', jclip 4000 (mr_summary r)), (''impact'', jclip 2000 (mr_impact r)), (''risk'', jclip 2000 (mr_risk r)),
        (''plan'', plan), (''current_step'', jclip 1000 (mr_current_step r)), (''remaining_steps'', remaining),
        (''resources'', resources), (''files'', files), (''next_action'', jclip 1000 (mr_next_action r)),
        (''current_model_role'', opt_json JStr (mr_current_model_role r)),
        (''current_model'', opt_json JStr (mr_current_model r)), (''iteration_count'', JInt (mr_iteration_count r)),
        (''max_iterations'', JInt (mr_max_iterations r)), (''api_call_count'', JInt (mr_api_call_count r)),
        (''max_api_calls'', JInt (mr_max_api_calls r)), (''deadline'', opt_json JStr (mr_deadline r)),
        (''claimed_by'', opt_json JStr (mr_claimed_by r)), (''lease_until'', opt_json jtime (mr_lease_until r)),
        (''created_at'', jstamp (mi_created_at m)), (''updated_at'', jstamp (mi_updated_at m))]
        @ (case replayed of None \<Rightarrow> [] | Some b \<Rightarrow> [(''replayed'', JBool b)]))))))))"

definition get_mission_state :: "broker \<Rightarrow> string \<Rightarrow> string \<Rightarrow> json op" where
  "get_mission_state bk actor_id mission_id =
     op_bind (op_lift (validate_actor actor_id)) (\<lambda>_.
     op_bind (op_mission mission_id) (\<lambda>row.
     op_bind (op_lift (require_project (bk_rbac bk) actor_id (mi_project_id (fst row)))) (\<lambda>_.
     op_lift (runtime_public (bk_rt bk) None row))))"

definition update_runtime :: "string \<Rightarrow> (runtime_row \<Rightarrow> runtime_row) \<Rightarrow> db \<Rightarrow> db" where
  "update_runtime mission_id f d =
     d\<lparr>tb_mission_runtime := update_where (\<lambda>r. mr_mission_id r = mission_id) f (tb_mission_runtime d)\<rparr>"

section \<open>Context updates\<close>

record mission_patch =
  pt_environment :: "string option"
  pt_priority :: "int option"
  pt_objective :: "string option"
  pt_summary :: "string option"
  pt_impact :: "string option"
  pt_risk :: "string option"
  pt_plan :: "string list option"
  pt_current_step :: "string option"
  pt_remaining_steps :: "string list option"
  pt_resources :: "string list option"
  pt_files :: "string list option"
  pt_next_action :: "string option"
  pt_current_model_role :: "string option"
  pt_current_model :: "string option"
  pt_max_iterations :: "int option"
  pt_max_api_calls :: "int option"
  pt_deadline :: "string option"

text \<open>\<^verbatim>\<open>if value is not None: values[name] = f(value)\<close>, and a run of such statements.\<close>

definition opt_column :: "string \<Rightarrow> ('a \<Rightarrow> json res) \<Rightarrow> 'a option \<Rightarrow> jdict res" where
  "opt_column name f x = (case x of None \<Rightarrow> Inr [] | Some v \<Rightarrow> map_sum id (\<lambda>j. [(name, j)]) (f v))"

definition columns :: "jdict res list \<Rightarrow> jdict res" where
  "columns cs = map_sum id concat (res_map id cs)"

definition text_column :: "nat \<Rightarrow> nat \<Rightarrow> string \<Rightarrow> json res" where
  "text_column minimum maximum value = map_sum id JStr (bounded_text minimum maximum value)"

definition list_column :: "string list \<Rightarrow> json res" where
  "list_column value = map_sum id JStr (string_list_json value)"

definition pattern_column :: "rx \<Rightarrow> string \<Rightarrow> string \<Rightarrow> json res" where
  "pattern_column r msg value = (if rx_fullmatch r value then Inr (JStr value) else Inl (invalid_request msg))"

definition int_column :: "int \<Rightarrow> int \<Rightarrow> string \<Rightarrow> int \<Rightarrow> json res" where
  "int_column lo hi msg value = (if lo \<le> value \<and> value \<le> hi then Inr (JInt value) else Inl (invalid_request msg))"

definition timestamp_column :: "runtime \<Rightarrow> string \<Rightarrow> json res" where
  "timestamp_column rt value = (if rt_timestamp rt value then Inr (JStr value) else Inl (invalid_request ''deadline is invalid''))"

definition mission_columns :: "runtime \<Rightarrow> mission_patch \<Rightarrow> jdict res" where
  "mission_columns rt p =
     columns [opt_column ''environment'' (pattern_column ENVIRONMENT ''environment is malformed'') (pt_environment p),
       opt_column ''priority'' (int_column 0 100 ''priority must be 0..100'') (pt_priority p),
       opt_column ''objective'' (text_column 0 4000) (pt_objective p),
       opt_column ''summary'' (text_column 0 4000) (pt_summary p),
       opt_column ''impact'' (text_column 0 2000) (pt_impact p),
       opt_column ''risk'' (text_column 0 2000) (pt_risk p),
       opt_column ''current_step'' (text_column 0 1000) (pt_current_step p),
       opt_column ''next_action'' (text_column 0 1000) (pt_next_action p),
       opt_column ''current_model'' (text_column 0 200) (pt_current_model p),
       opt_column ''plan_json'' list_column (pt_plan p),
       opt_column ''remaining_steps_json'' list_column (pt_remaining_steps p),
       opt_column ''resources_json'' list_column (pt_resources p),
       opt_column ''files_json'' list_column (pt_files p),
       opt_column ''current_model_role'' (pattern_column MODEL_ROLE ''current_model_role is invalid'') (pt_current_model_role p),
       opt_column ''max_iterations'' (int_column 1 100 ''max_iterations must be 1..100'') (pt_max_iterations p),
       opt_column ''max_api_calls'' (int_column 0 100 ''max_api_calls must be 0..100'') (pt_max_api_calls p),
       opt_column ''deadline'' (timestamp_column rt) (pt_deadline p)]"

definition jstr :: "json \<Rightarrow> string" where
  "jstr v = (case v of JStr s \<Rightarrow> s | _ \<Rightarrow> [])"

definition jint :: "json \<Rightarrow> int" where
  "jint v = (case v of JInt i \<Rightarrow> i | _ \<Rightarrow> 0)"

text \<open>\<^verbatim>\<open>SET column = ?\<close>: a string into a text column, an integer into an integer column.\<close>

definition set_runtime_column :: "runtime_row \<Rightarrow> string \<times> json \<Rightarrow> runtime_row" where
  "set_runtime_column r cv =
     (case cv of (c, v) \<Rightarrow>
      if c = ''environment'' then r\<lparr>mr_environment := jstr v\<rparr>
      else if c = ''priority'' then r\<lparr>mr_priority := jint v\<rparr>
      else if c = ''objective'' then r\<lparr>mr_objective := jstr v\<rparr>
      else if c = ''summary'' then r\<lparr>mr_summary := jstr v\<rparr>
      else if c = ''impact'' then r\<lparr>mr_impact := jstr v\<rparr>
      else if c = ''risk'' then r\<lparr>mr_risk := jstr v\<rparr>
      else if c = ''current_step'' then r\<lparr>mr_current_step := jstr v\<rparr>
      else if c = ''next_action'' then r\<lparr>mr_next_action := jstr v\<rparr>
      else if c = ''current_model'' then r\<lparr>mr_current_model := Some (jstr v)\<rparr>
      else if c = ''plan_json'' then r\<lparr>mr_plan_json := jstr v\<rparr>
      else if c = ''remaining_steps_json'' then r\<lparr>mr_remaining_steps_json := jstr v\<rparr>
      else if c = ''resources_json'' then r\<lparr>mr_resources_json := jstr v\<rparr>
      else if c = ''files_json'' then r\<lparr>mr_files_json := jstr v\<rparr>
      else if c = ''current_model_role'' then r\<lparr>mr_current_model_role := Some (jstr v)\<rparr>
      else if c = ''max_iterations'' then r\<lparr>mr_max_iterations := jint v\<rparr>
      else if c = ''max_api_calls'' then r\<lparr>mr_max_api_calls := jint v\<rparr>
      else if c = ''deadline'' then r\<lparr>mr_deadline := Some (jstr v)\<rparr>
      else r)"

definition set_runtime_columns :: "jdict \<Rightarrow> instant \<Rightarrow> runtime_row \<Rightarrow> runtime_row" where
  "set_runtime_columns values now r = (foldl set_runtime_column r values)\<lparr>mr_updated_at := now\<rparr>"

definition fields_payload :: "string \<Rightarrow> jdict \<Rightarrow> json" where
  "fields_payload request_id values =
     JDict [(''request_id'', JStr request_id), (''fields'', JList (map JStr (sort (map fst values))))]"

definition update_mission_state :: "broker \<Rightarrow> string \<Rightarrow> string \<Rightarrow> string \<Rightarrow> mission_patch \<Rightarrow> json op" where
  "update_mission_state bk actor_id request_id mission_id patch =
     op_bind (op_lift (validate_actor actor_id)) (\<lambda>_.
     op_bind (op_lift (validate_request_id request_id)) (\<lambda>request_id.
     op_bind (op_lift (mission_columns (bk_rt bk) patch)) (\<lambda>values.
     op_bind (op_raise_if (values = []) (invalid_request ''at least one mission field is required'')) (\<lambda>_.
     op_bind (op_lift (json_column (JDict values))) (\<lambda>payload_json.
     op_bind op_now (\<lambda>now.
     op_bind (transaction (
       op_bind (op_mission mission_id) (\<lambda>row.
       op_bind (op_lift (require_lifecycle (bk_rbac bk) actor_id (mi_project_id (fst row)) ''mission.context.write'')) (\<lambda>_.
       op_bind (op_query (\<lambda>d. select_one (\<lambda>u. up_request_id u = request_id) (tb_mission_updates d))) (\<lambda>prior.
       case prior of
         Some u \<Rightarrow>
           if up_entity_id u = mission_id \<and> up_actor_id u = actor_id \<and> up_payload_json u = payload_json
           then op_ret (True, row)
           else op_raise (Conflict ''request_id was already used for another mission update'')
       | None \<Rightarrow>
           op_bind (op_exec (update_runtime mission_id (set_runtime_columns values now))) (\<lambda>_.
           op_bind (op_exec (\<lambda>d. d\<lparr>tb_mission_updates := tb_mission_updates d @
              [\<lparr>up_request_id = request_id, up_entity_id = mission_id, up_actor_id = actor_id,
                up_payload_json = payload_json, up_created_at = now\<rparr>]\<rparr>)) (\<lambda>_.
           op_bind (append_event (bk_rt bk) (isoformat now) ''mission.context_updated'' actor_id ''mission'' mission_id
              (fields_payload request_id values)) (\<lambda>_.
           op_bind (op_mission mission_id) (\<lambda>updated. op_ret (False, updated)))))))))) (\<lambda>(replayed, row).
     op_lift (runtime_public (bk_rt bk) (Some replayed) row))))))))"

section \<open>Checkpoints\<close>

definition checkpoint_public :: "runtime \<Rightarrow> bool \<Rightarrow> checkpoint_row \<Rightarrow> json res" where
  "checkpoint_public rt replayed c =
     res_bind (loads_column rt (cp_decisions_json c)) (\<lambda>decisions.
     res_bind (loads_column rt (cp_completed_json c)) (\<lambda>completed.
     res_bind (loads_column rt (cp_pending_json c)) (\<lambda>pending.
     res_bind (loads_column rt (cp_evidence_json c)) (\<lambda>evidence.
     Inr (JDict [(''id'', jclip 36 (cp_id c)), (''mission_id'', jclip 36 (cp_mission_id c)), (''sequence'', JInt (cp_sequence c)),
       (''phase'', jclip 120 (cp_phase c)), (''summary'', jclip 4000 (cp_summary c)), (''decisions'', decisions),
       (''completed'', completed), (''pending'', pending), (''evidence'', evidence),
       (''model_role'', opt_json JStr (cp_model_role c)), (''model_name'', opt_json JStr (cp_model_name c)),
       (''created_at'', jstamp (cp_created_at c)), (''replayed'', JBool replayed)])))))"

text \<open>\<^verbatim>\<open>SELECT COALESCE(MAX(sequence), 0) + 1\<close>.\<close>

definition next_sequence :: "string \<Rightarrow> db \<Rightarrow> int" where
  "next_sequence mission_id d =
     foldl max 0 (map cp_sequence (filter (\<lambda>c. cp_mission_id c = mission_id) (tb_mission_checkpoints d))) + 1"

definition coalesce :: "'a option \<Rightarrow> 'a option \<Rightarrow> 'a option" where
  "coalesce x y = (case x of None \<Rightarrow> y | Some v \<Rightarrow> Some v)"

definition same_checkpoint :: "checkpoint_row \<Rightarrow> checkpoint_row \<Rightarrow> bool" where
  "same_checkpoint a b \<longleftrightarrow>
     cp_mission_id a = cp_mission_id b \<and> cp_actor_id a = cp_actor_id b \<and> cp_phase a = cp_phase b \<and>
     cp_summary a = cp_summary b \<and> cp_decisions_json a = cp_decisions_json b \<and>
     cp_completed_json a = cp_completed_json b \<and> cp_pending_json a = cp_pending_json b \<and>
     cp_evidence_json a = cp_evidence_json b \<and> cp_model_role a = cp_model_role b \<and> cp_model_name a = cp_model_name b"

text \<open>The transaction, given the row to insert up to its sequence number, and the pending steps.\<close>

definition store_checkpoint :: "broker \<Rightarrow> checkpoint_row \<Rightarrow> string list \<Rightarrow> (bool \<times> checkpoint_row) op" where
  "store_checkpoint bk c pending_list =
     transaction (
       op_bind (op_mission (cp_mission_id c)) (\<lambda>row.
       op_bind (op_lift (require_lifecycle (bk_rbac bk) (cp_actor_id c) (mi_project_id (fst row)) ''mission.checkpoint.write'')) (\<lambda>_.
       op_bind (op_query (\<lambda>d. select_one (\<lambda>r. cp_request_id r = cp_request_id c) (tb_mission_checkpoints d))) (\<lambda>prior.
       case prior of
         Some p \<Rightarrow>
           if \<not> same_checkpoint p c then op_raise (Conflict ''request_id was already used for another checkpoint'')
           else op_ret (True, p)
       | None \<Rightarrow>
           op_bind (op_query (next_sequence (cp_mission_id c))) (\<lambda>sequence.
           op_bind (op_exec (\<lambda>d. d\<lparr>tb_mission_checkpoints := tb_mission_checkpoints d @ [c\<lparr>cp_sequence := sequence\<rparr>]\<rparr>)) (\<lambda>_.
           op_bind (op_exec (update_runtime (cp_mission_id c) (\<lambda>r. r\<lparr>mr_summary := cp_summary c,
              mr_current_step := cp_phase c, mr_remaining_steps_json := cp_pending_json c,
              mr_next_action := (case pending_list of [] \<Rightarrow> [] | p # _ \<Rightarrow> p),
              mr_current_model_role := coalesce (cp_model_role c) (mr_current_model_role r),
              mr_current_model := coalesce (cp_model_name c) (mr_current_model r), mr_updated_at := cp_created_at c\<rparr>))) (\<lambda>_.
           op_bind (append_event (bk_rt bk) (isoformat (cp_created_at c)) ''mission.checkpoint_created'' (cp_actor_id c) ''mission''
              (cp_mission_id c) (JDict [(''checkpoint_id'', JStr (cp_id c)), (''sequence'', JInt sequence), (''phase'', JStr (cp_phase c))])) (\<lambda>_.
           op_bind (op_query (\<lambda>d. select_one (\<lambda>r. cp_id r = cp_id c) (tb_mission_checkpoints d))) (\<lambda>stored.
           case stored of None \<Rightarrow> op_raise AssertionError | Some r \<Rightarrow> op_ret (False, r))))))))))"

definition create_checkpoint ::
  "broker \<Rightarrow> string \<Rightarrow> string \<Rightarrow> string \<Rightarrow> string \<Rightarrow> string \<Rightarrow> string list \<Rightarrow> string list \<Rightarrow> string list \<Rightarrow> string list \<Rightarrow>
   string option \<Rightarrow> string option \<Rightarrow> json op" where
  "create_checkpoint bk actor_id request_id mission_id phase summary decisions completed pending evidence model_role model_name =
     op_bind (op_lift (validate_actor actor_id)) (\<lambda>_.
     op_bind (op_lift (validate_request_id request_id)) (\<lambda>request_id.
     op_bind (op_lift (bounded_text 1 120 phase)) (\<lambda>phase.
     op_bind (op_lift (bounded_text 1 4000 summary)) (\<lambda>summary.
     op_bind (op_lift (string_list_json decisions)) (\<lambda>decisions_json.
     op_bind (op_lift (string_list_json completed)) (\<lambda>completed_json.
     op_bind (op_lift (string_list pending)) (\<lambda>pending_list.
     op_bind (op_lift (json_column (JList (map JStr pending_list)))) (\<lambda>pending_json.
     op_bind (op_lift (string_list_json evidence)) (\<lambda>evidence_json.
     op_bind (op_lift (check_model_role model_role)) (\<lambda>_.
     op_bind (op_lift (case model_name of None \<Rightarrow> Inr None | Some n \<Rightarrow> map_sum id Some (bounded_text 0 200 n))) (\<lambda>model_name.
     op_bind op_uuid4 (\<lambda>checkpoint_id.
     op_bind op_now (\<lambda>now.
     op_bind (store_checkpoint bk
        \<lparr>cp_id = checkpoint_id, cp_request_id = request_id, cp_mission_id = mission_id, cp_sequence = 0,
         cp_actor_id = actor_id, cp_phase = phase, cp_summary = summary, cp_decisions_json = decisions_json,
         cp_completed_json = completed_json, cp_pending_json = pending_json, cp_evidence_json = evidence_json,
         cp_model_role = model_role, cp_model_name = model_name, cp_created_at = now\<rparr> pending_list) (\<lambda>(replayed, row).
     op_lift (checkpoint_public (bk_rt bk) replayed row)))))))))))))))"

definition check_page :: "int \<Rightarrow> int \<Rightarrow> unit res" where
  "check_page hi limit = raise_if (\<not> (1 \<le> limit \<and> limit \<le> hi)) (invalid_request ''limit is out of range'')"

definition op_readable_mission :: "broker \<Rightarrow> string \<Rightarrow> string \<Rightarrow> unit op" where
  "op_readable_mission bk actor_id mission_id =
     op_bind (op_mission mission_id) (\<lambda>row.
     op_lift (require_project (bk_rbac bk) actor_id (mi_project_id (fst row))))"

definition list_checkpoints :: "broker \<Rightarrow> string \<Rightarrow> string \<Rightarrow> int \<Rightarrow> json list op" where
  "list_checkpoints bk actor_id mission_id limit =
     op_bind (op_lift (validate_actor actor_id)) (\<lambda>_.
     op_bind (op_lift (check_page 50 limit)) (\<lambda>_.
     op_bind (op_readable_mission bk actor_id mission_id) (\<lambda>_.
     op_bind (op_query (\<lambda>d. take (nat limit) (rev (sort_key cp_sequence
        (filter (\<lambda>c. cp_mission_id c = mission_id) (tb_mission_checkpoints d)))))) (\<lambda>rows.
     op_lift (res_map (checkpoint_public (bk_rt bk) False) rows)))))"

section \<open>Records\<close>

definition record_public :: "runtime \<Rightarrow> bool \<Rightarrow> record_row \<Rightarrow> jdict res" where
  "record_public rt replayed r =
     res_bind (loads_column rt (re_evidence_json r)) (\<lambda>evidence.
     Inr [(''id'', jclip 36 (re_id r)), (''mission_id'', jclip 36 (re_mission_id r)),
       (''incident_id'', opt_json JStr (re_incident_id r)), (''kind'', jclip 16 (re_kind r)),
       (''content'', jclip 8000 (re_content r)), (''confidence'', opt_json JFloat (re_confidence r)),
       (''evidence'', evidence), (''model_trace_id'', opt_json JStr (re_model_trace_id r)),
       (''created_at'', jstamp (re_created_at r)), (''replayed'', JBool replayed)])"

definition check_incident_link :: "string \<Rightarrow> string option \<Rightarrow> db \<Rightarrow> unit res" where
  "check_incident_link project_id incident_id d =
     (case incident_id of None \<Rightarrow> Inr () | Some i \<Rightarrow>
        (case select_one (\<lambda>r. in_id r = i) (tb_incidents d) of
           None \<Rightarrow> Inl (NotFound ''incident'')
         | Some r \<Rightarrow> raise_if (in_project_id r \<noteq> project_id) (Conflict ''incident belongs to another project'')))"

text \<open>Python's \<^verbatim>\<open>0.0 == -0.0\<close>.\<close>

definition same_float :: "string option \<Rightarrow> string option \<Rightarrow> bool" where
  "same_float a b \<longleftrightarrow> a = b \<or> a \<in> {Some ''0.0'', Some ''-0.0''} \<and> b \<in> {Some ''0.0'', Some ''-0.0''}"

definition same_record :: "record_row \<Rightarrow> record_row \<Rightarrow> bool" where
  "same_record a b \<longleftrightarrow>
     re_mission_id a = re_mission_id b \<and> re_incident_id a = re_incident_id b \<and> re_actor_id a = re_actor_id b \<and>
     re_kind a = re_kind b \<and> re_content a = re_content b \<and> same_float (re_confidence a) (re_confidence b) \<and>
     re_evidence_json a = re_evidence_json b \<and> re_model_trace_id a = re_model_trace_id b"

definition store_record :: "broker \<Rightarrow> record_row \<Rightarrow> json option \<Rightarrow> (bool \<times> record_row) op" where
  "store_record bk r confidence =
     transaction (
       op_bind (op_mission (re_mission_id r)) (\<lambda>row.
       op_bind (op_lift (require_lifecycle (bk_rbac bk) (re_actor_id r) (mi_project_id (fst row)) ''mission.record.write'')) (\<lambda>_.
       op_bind (op_bind (op_query (check_incident_link (mi_project_id (fst row)) (re_incident_id r))) op_lift) (\<lambda>_.
       op_bind (op_query (\<lambda>d. select_one (\<lambda>p. re_request_id p = re_request_id r) (tb_mission_records d))) (\<lambda>prior.
       case prior of
         Some p \<Rightarrow>
           if \<not> same_record p r then op_raise (Conflict ''request_id was already used for another mission record'')
           else op_ret (True, p)
       | None \<Rightarrow>
           op_bind (op_exec (\<lambda>d. d\<lparr>tb_mission_records := tb_mission_records d @ [r]\<rparr>)) (\<lambda>_.
           op_bind (append_event (bk_rt bk) (isoformat (re_created_at r)) (''mission.'' @ re_kind r @ ''_recorded'') (re_actor_id r)
              ''mission'' (re_mission_id r)
              (JDict [(''record_id'', JStr (re_id r)), (''confidence'', opt_json id confidence)])) (\<lambda>_.
           op_bind (op_query (\<lambda>d. select_one (\<lambda>p. re_id p = re_id r) (tb_mission_records d))) (\<lambda>stored.
           case stored of None \<Rightarrow> op_raise AssertionError | Some p \<Rightarrow> op_ret (False, p)))))))))"

definition add_record ::
  "broker \<Rightarrow> string \<Rightarrow> string \<Rightarrow> string \<Rightarrow> string \<Rightarrow> string \<Rightarrow> string list \<Rightarrow> string option \<Rightarrow> json option \<Rightarrow> string option \<Rightarrow> json op" where
  "add_record bk actor_id request_id mission_id kind content evidence incident_id confidence model_trace_id =
     op_bind (op_lift (validate_actor actor_id)) (\<lambda>_.
     op_bind (op_lift (validate_request_id request_id)) (\<lambda>request_id.
     op_bind (op_raise_if (kind \<notin> set RECORD_KINDS) (invalid_request ''record kind is invalid'')) (\<lambda>_.
     op_bind (op_lift (bounded_text 1 8000 content)) (\<lambda>content.
     op_bind (op_lift (string_list_json evidence)) (\<lambda>evidence_json.
     op_bind (op_lift (confidence_float confidence)) (\<lambda>conf.
     op_bind op_uuid4 (\<lambda>record_id.
     op_bind op_now (\<lambda>now.
     op_bind (store_record bk
        \<lparr>re_id = record_id, re_request_id = request_id, re_mission_id = mission_id, re_incident_id = incident_id,
         re_actor_id = actor_id, re_kind = kind, re_content = content, re_confidence = conf,
         re_evidence_json = evidence_json, re_model_trace_id = model_trace_id, re_created_at = now\<rparr> confidence) (\<lambda>(replayed, row).
     op_bind (op_lift (record_public (bk_rt bk) replayed row)) (\<lambda>d. op_ret (JDict d)))))))))))"

definition list_records :: "broker \<Rightarrow> string \<Rightarrow> string \<Rightarrow> int \<Rightarrow> json list op" where
  "list_records bk actor_id mission_id limit =
     op_bind (op_lift (validate_actor actor_id)) (\<lambda>_.
     op_bind (op_lift (check_page 100 limit)) (\<lambda>_.
     op_bind (op_readable_mission bk actor_id mission_id) (\<lambda>_.
     op_bind (op_query (\<lambda>d. take (nat limit) (rev (sort_key (\<lambda>r. (re_created_at r, re_id r))
        (filter (\<lambda>r. re_mission_id r = mission_id) (tb_mission_records d)))))) (\<lambda>rows.
     op_lift (map_sum id (map JDict) (res_map (record_public (bk_rt bk) False) rows))))))"

text \<open>\<^verbatim>\<open>BrokerService.list_memory_history\<close>, which pages over the records of a project.\<close>

definition list_memory_history :: "broker \<Rightarrow> string \<Rightarrow> string \<Rightarrow> int \<Rightarrow> int \<Rightarrow> json op" where
  "list_memory_history bk actor_id project_id after limit =
     op_bind (op_lift (validate_limit limit)) (\<lambda>limit.
     op_bind (op_lift (authorized_project_filter bk actor_id (Some project_id))) (\<lambda>projects.
     op_bind (op_raise_if (\<not> (0 \<le> after \<and> after < 2 ^ 63)) (invalid_request ''invalid history cursor'')) (\<lambda>_.
     if projects = [] then op_ret (JDict [(''records'', JList []), (''next_cursor'', JInt after)]) else
     op_bind (op_query (\<lambda>d. page_after after limit
        (\<lambda>r. list_ex (\<lambda>m. mi_id m = re_mission_id r \<and> mi_project_id m = project_id) (tb_missions d)) (tb_mission_records d))) (\<lambda>rows.
     op_bind (op_lift (res_map (\<lambda>(_, r). record_public (bk_rt bk) False r) rows)) (\<lambda>views.
     op_ret (JDict [(''records'', JList (map (\<lambda>v. JDict (v @ [(''project_id'', JStr project_id)])) views)),
                    (''next_cursor'', JInt (if rows = [] then after else fst (last rows)))]))))))"

section \<open>The log grows and stays linked\<close>

lemma audit_update_runtime: "evolves (audit_extends rt) (op_exec (update_runtime i f))"
  by (rule audit_exec) (simp add: update_runtime_def)

lemma op_mission_evolves: "evolves (audit_extends rt) (op_mission i)"
  unfolding op_mission_def by (intro audit_rules)

lemmas mission_audit_rules = audit_rules audit_update_runtime op_mission_evolves

lemma json_ok_fields_payload: "json_ok fr (fields_payload rq vs)"
  by (simp add: fields_payload_def list_all_iff)

lemma update_mission_state_evolves: "evolves (audit_extends (bk_rt bk)) (update_mission_state bk a rq i p)"
  unfolding update_mission_state_def
  by (intro mission_audit_rules audit_exec audit_append_event json_ok_fields_payload) simp_all

lemma create_checkpoint_evolves:
  "evolves (audit_extends (bk_rt bk)) (create_checkpoint bk a rq i ph su de co pe ev ro na)"
  unfolding create_checkpoint_def store_checkpoint_def
  by (intro mission_audit_rules audit_exec audit_append_event) simp_all

text \<open>The confidence of a request is a JSON number: a float of it is given by its \<^verbatim>\<open>repr\<close>.\<close>

lemma add_record_evolves:
  assumes "\<And>v. confidence = Some v \<Longrightarrow> json_ok (rt_frepr (bk_rt bk)) v"
  shows "evolves (audit_extends (bk_rt bk)) (add_record bk a rq i k c ev inc confidence tr)"
  unfolding add_record_def store_record_def
  by (intro mission_audit_rules audit_exec audit_append_event)
     (use assms in \<open>simp_all add: opt_json_def split: option.splits\<close>)

end
