(* ===== verification/Broker_Leases.thy ===== *)
theory Broker_Leases
  imports Broker_Missions
begin

text \<open>
  \<^verbatim>\<open>mission_control.py\<close>, second part: the mission queue (\<^verbatim>\<open>claim_next\<close>, \<^verbatim>\<open>mission_lease\<close>), resource locks
  with fencing tokens, and \<^verbatim>\<open>recover_after_restart\<close>.
\<close>

section \<open>The mission queue\<close>

definition check_lease_seconds :: "int \<Rightarrow> unit res" where
  "check_lease_seconds n = raise_if (\<not> (30 \<le> n \<and> n \<le> 3600)) (invalid_request ''lease_seconds must be 30..3600'')"

text \<open>
  \<^verbatim>\<open>result = json.loads(...); result["replayed"] = True\<close>: item assignment raises \<^verbatim>\<open>TypeError\<close> on anything
  but a dict.
\<close>

definition mark_replayed :: "json \<Rightarrow> json res" where
  "mark_replayed v = (case v of JDict d \<Rightarrow> Inr (JDict (dict_set ''replayed'' (JBool True) d)) | _ \<Rightarrow> Inl TypeError)"

definition replay_result :: "runtime \<Rightarrow> string \<Rightarrow> json res" where
  "replay_result rt result_json = res_bind (loads_column rt result_json) mark_replayed"

definition claimable :: "string list \<Rightarrow> instant \<Rightarrow> mission_row \<times> runtime_row \<Rightarrow> bool" where
  "claimable projects now row =
     (case row of (m, r) \<Rightarrow>
        mi_status m = ''open'' \<and> mi_project_id m \<in> set projects \<and>
        (mr_queue_state r = ''queued'' \<or>
         mr_queue_state r = ''claimed'' \<and> (case mr_lease_until r of None \<Rightarrow> False | Some t \<Rightarrow> t \<le> now)))"

definition claim_order :: "mission_row \<times> runtime_row \<Rightarrow> int \<times> instant \<times> string" where
  "claim_order row = (case row of (m, r) \<Rightarrow> (- mr_priority r, mi_created_at m, mi_id m))"

definition claim_candidate :: "string list \<Rightarrow> instant \<Rightarrow> db \<Rightarrow> mission_row option" where
  "claim_candidate projects now d =
     (case sort_key claim_order (filter (claimable projects now) (joined_missions d)) of
        [] \<Rightarrow> None | row # _ \<Rightarrow> Some (fst row))"

definition insert_claim_operation :: "claim_operation_row \<Rightarrow> db \<Rightarrow> db" where
  "insert_claim_operation r d = d\<lparr>tb_mission_claim_operations := tb_mission_claim_operations d @ [r]\<rparr>"

definition take_claim :: "string \<Rightarrow> instant \<Rightarrow> instant \<Rightarrow> runtime_row \<Rightarrow> runtime_row" where
  "take_claim actor_id now lease_until r =
     r\<lparr>mr_queue_state := ''claimed'', mr_claimed_by := Some actor_id, mr_claimed_at := Some now,
       mr_heartbeat_at := Some now, mr_lease_until := Some lease_until, mr_updated_at := now\<rparr>"

definition claim_projects :: "broker \<Rightarrow> string \<Rightarrow> string option \<Rightarrow> string list res" where
  "claim_projects bk actor_id project_id =
     res_bind (projects_for_actor (bk_rbac bk) actor_id) (\<lambda>projects.
     case project_id of None \<Rightarrow> Inr projects
     | Some p \<Rightarrow> res_bind (require_project (bk_rbac bk) actor_id p) (\<lambda>_. Inr [p]))"

definition claim_in_transaction :: "broker \<Rightarrow> string \<Rightarrow> string \<Rightarrow> string list \<Rightarrow> instant \<Rightarrow> instant \<Rightarrow> json op" where
  "claim_in_transaction bk actor_id request_id projects now lease_until =
     transaction (
       op_bind (op_query (\<lambda>d. select_one (\<lambda>r. co_request_id r = request_id) (tb_mission_claim_operations d))) (\<lambda>prior.
       case prior of
         Some r \<Rightarrow> op_lift (replay_result (bk_rt bk) (co_result_json r))
       | None \<Rightarrow>
           op_bind (op_query (claim_candidate projects now)) (\<lambda>candidate.
           case candidate of
             None \<Rightarrow>
               op_bind (op_exec (insert_claim_operation
                  \<lparr>co_request_id = request_id, co_mission_id = None, co_actor_id = actor_id, co_operation = ''claim'',
                   co_result_json = ''null'', co_created_at = now\<rparr>)) (\<lambda>_.
               op_ret JNull)
           | Some m \<Rightarrow>
               op_bind (op_lift (require_lifecycle (bk_rbac bk) actor_id (mi_project_id m) ''mission.queue.claim'')) (\<lambda>_.
               op_bind (op_exec (update_runtime (mi_id m) (take_claim actor_id now lease_until))) (\<lambda>_.
               op_bind (op_mission (mi_id m)) (\<lambda>claimed.
               op_bind (op_lift (runtime_public (bk_rt bk) (Some False) claimed)) (\<lambda>result.
               op_bind (op_lift (json_column result)) (\<lambda>result_json.
               op_bind (op_exec (insert_claim_operation
                  \<lparr>co_request_id = request_id, co_mission_id = Some (mi_id m), co_actor_id = actor_id,
                   co_operation = ''claim'', co_result_json = result_json, co_created_at = now\<rparr>)) (\<lambda>_.
               op_bind (append_event (bk_rt bk) (isoformat now) ''mission.claimed'' actor_id ''mission'' (mi_id m)
                  (JDict [(''request_id'', JStr request_id), (''lease_until'', jtime lease_until)])) (\<lambda>_.
               op_ret result))))))))))"

definition claim_next :: "broker \<Rightarrow> string \<Rightarrow> string \<Rightarrow> int \<Rightarrow> string option \<Rightarrow> json op" where
  "claim_next bk actor_id request_id lease_seconds project_id =
     op_bind (op_lift (validate_actor actor_id)) (\<lambda>_.
     op_bind (op_lift (validate_request_id request_id)) (\<lambda>request_id.
     op_bind (op_lift (check_lease_seconds lease_seconds)) (\<lambda>_.
     op_bind (op_lift (claim_projects bk actor_id project_id)) (\<lambda>projects.
     if projects = [] then op_ret JNull else
     op_bind op_now (\<lambda>now.
     claim_in_transaction bk actor_id request_id projects now (now + seconds lease_seconds))))))"

definition mission_lease :: "broker \<Rightarrow> string \<Rightarrow> string \<Rightarrow> string \<Rightarrow> string \<Rightarrow> int \<Rightarrow> json op" where
  "mission_lease bk actor_id request_id mission_id operation lease_seconds =
     op_bind (op_lift (validate_actor actor_id)) (\<lambda>_.
     op_bind (op_lift (validate_request_id request_id)) (\<lambda>request_id.
     op_bind (op_raise_if (operation \<notin> {''heartbeat'', ''release''}) (invalid_request ''lease operation is invalid'')) (\<lambda>_.
     op_bind (op_lift (check_lease_seconds lease_seconds)) (\<lambda>_.
     op_bind op_now (\<lambda>now.
     transaction (
       op_bind (op_mission mission_id) (\<lambda>row.
       op_bind (op_lift (require_lifecycle (bk_rbac bk) actor_id (mi_project_id (fst row)) ''mission.queue.claim'')) (\<lambda>_.
       op_bind (op_query (\<lambda>d. select_one (\<lambda>r. co_request_id r = request_id) (tb_mission_claim_operations d))) (\<lambda>prior.
       case prior of
         Some r \<Rightarrow>
           if co_mission_id r \<noteq> Some mission_id \<or> co_actor_id r \<noteq> actor_id \<or> co_operation r \<noteq> operation
           then op_raise (Conflict ''request_id was already used for another lease operation'')
           else op_lift (replay_result (bk_rt bk) (co_result_json r))
       | None \<Rightarrow>
           op_bind (op_raise_if (mr_queue_state (snd row) \<noteq> ''claimed'' \<or> mr_claimed_by (snd row) \<noteq> Some actor_id)
                      (Conflict ''mission is not claimed by this actor'')) (\<lambda>_.
           op_bind (op_exec (update_runtime mission_id (\<lambda>r.
              if operation = ''heartbeat''
              then r\<lparr>mr_heartbeat_at := Some now, mr_lease_until := Some (now + seconds lease_seconds), mr_updated_at := now\<rparr>
              else reset_claim (if mi_status (fst row) = ''completed'' then ''done'' else ''queued'') now r))) (\<lambda>_.
           op_bind (op_mission mission_id) (\<lambda>updated.
           op_bind (op_lift (runtime_public (bk_rt bk) (Some False) updated)) (\<lambda>result.
           op_bind (op_lift (json_column result)) (\<lambda>result_json.
           op_bind (op_exec (insert_claim_operation
              \<lparr>co_request_id = request_id, co_mission_id = Some mission_id, co_actor_id = actor_id,
               co_operation = operation, co_result_json = result_json, co_created_at = now\<rparr>)) (\<lambda>_.
           op_bind (append_event (bk_rt bk) (isoformat now) (''mission.'' @ operation) actor_id ''mission'' mission_id
              (JDict [(''request_id'', JStr request_id)])) (\<lambda>_.
           op_ret result))))))))))))))))"

section \<open>Resource locks\<close>

definition lock_public :: "lock_row \<Rightarrow> jdict" where
  "lock_public l =
     [(''resource_id'', jclip 192 (lk_resource_id l)), (''project_id'', jclip 64 (lk_project_id l)),
      (''mission_id'', jclip 36 (lk_mission_id l)), (''holder_actor_id'', jclip 128 (lk_holder_actor_id l)),
      (''fencing_token'', JInt (lk_fencing_token l)), (''acquired_at'', jstamp (lk_acquired_at l)),
      (''heartbeat_at'', jstamp (lk_heartbeat_at l)), (''lease_until'', jstamp (lk_lease_until l)),
      (''replayed'', JBool False)]"

definition lock_of :: "string \<Rightarrow> db \<Rightarrow> lock_row option" where
  "lock_of resource_id d = select_one (\<lambda>l. lk_resource_id l = resource_id) (tb_resource_locks d)"

definition held_by :: "string \<Rightarrow> string \<Rightarrow> lock_row \<Rightarrow> bool" where
  "held_by mission_id actor_id l \<longleftrightarrow> lk_mission_id l = mission_id \<and> lk_holder_actor_id l = actor_id"

text \<open>\<^verbatim>\<open>INSERT ... ON CONFLICT(resource_id) DO UPDATE\<close> of every other column.\<close>

definition upsert_lock :: "lock_row \<Rightarrow> db \<Rightarrow> db" where
  "upsert_lock l d =
     d\<lparr>tb_resource_locks :=
        (if lock_of (lk_resource_id l) d = None then tb_resource_locks d @ [l]
         else update_where (\<lambda>r. lk_resource_id r = lk_resource_id l) (\<lambda>_. l) (tb_resource_locks d))\<rparr>"

definition acquire_lock :: "string \<Rightarrow> string \<Rightarrow> string \<Rightarrow> string \<Rightarrow> instant \<Rightarrow> instant \<Rightarrow> jdict op" where
  "acquire_lock actor_id project_id mission_id resource_id now lease_until =
     op_bind (op_query (lock_of resource_id)) (\<lambda>lock.
     op_bind (op_raise_if (case lock of None \<Rightarrow> False
                | Some l \<Rightarrow> lk_lease_until l > now \<and> \<not> held_by mission_id actor_id l)
                (Conflict ''resource is locked by another mission'')) (\<lambda>_.
     let token = (case lock of None \<Rightarrow> 1
                  | Some l \<Rightarrow> if held_by mission_id actor_id l then lk_fencing_token l else lk_fencing_token l + 1) in
     op_bind (op_exec (upsert_lock
        \<lparr>lk_resource_id = resource_id, lk_project_id = project_id, lk_mission_id = mission_id,
         lk_holder_actor_id = actor_id, lk_fencing_token = token, lk_acquired_at = now,
         lk_heartbeat_at = now, lk_lease_until = lease_until\<rparr>)) (\<lambda>_.
     op_bind (op_query (lock_of resource_id)) (\<lambda>stored.
     case stored of None \<Rightarrow> op_raise AssertionError | Some l \<Rightarrow> op_ret (lock_public l)))))"

definition renew_or_release_lock :: "string \<Rightarrow> string \<Rightarrow> string \<Rightarrow> string \<Rightarrow> instant \<Rightarrow> instant \<Rightarrow> jdict op" where
  "renew_or_release_lock actor_id mission_id resource_id operation now lease_until =
     op_bind (op_query (lock_of resource_id)) (\<lambda>lock.
     case lock of
       None \<Rightarrow> op_raise (NotFound ''resource lock'')
     | Some l \<Rightarrow>
         op_bind (op_raise_if (\<not> held_by mission_id actor_id l)
                    (AuthorizationDenied ''resource lock belongs to another mission or actor'')) (\<lambda>_.
         if operation = ''renew'' then
           op_bind (op_exec (\<lambda>d. d\<lparr>tb_resource_locks := update_where (\<lambda>r. lk_resource_id r = resource_id)
              (\<lambda>r. r\<lparr>lk_heartbeat_at := now, lk_lease_until := lease_until\<rparr>) (tb_resource_locks d)\<rparr>)) (\<lambda>_.
           op_bind (op_query (lock_of resource_id)) (\<lambda>stored.
           case stored of None \<Rightarrow> op_raise AssertionError | Some r \<Rightarrow> op_ret (lock_public r)))
         else
           op_bind (op_exec (\<lambda>d. d\<lparr>tb_resource_locks := delete_where (\<lambda>r. lk_resource_id r = resource_id)
              (tb_resource_locks d)\<rparr>)) (\<lambda>_.
           op_ret (lock_public l @ [(''released'', JBool True)]))))"

definition resource_lock_operation :: "broker \<Rightarrow> string \<Rightarrow> string \<Rightarrow> string \<Rightarrow> string \<Rightarrow> string \<Rightarrow> int \<Rightarrow> json op" where
  "resource_lock_operation bk actor_id request_id mission_id resource_id operation lease_seconds =
     op_bind (op_lift (validate_actor actor_id)) (\<lambda>_.
     op_bind (op_lift (validate_request_id request_id)) (\<lambda>request_id.
     op_bind (op_raise_if (\<not> rx_fullmatch RESOURCE_ID resource_id) (invalid_request ''resource_id is malformed'')) (\<lambda>_.
     op_bind (op_lift (check_lease_seconds lease_seconds)) (\<lambda>_.
     op_bind op_now (\<lambda>now.
     transaction (
       op_bind (op_mission mission_id) (\<lambda>row.
       op_bind (op_lift (require_lifecycle (bk_rbac bk) actor_id (mi_project_id (fst row)) ''resource.lock'')) (\<lambda>_.
       op_bind (op_query (\<lambda>d. select_one (\<lambda>r. lo_request_id r = request_id) (tb_resource_lock_operations d))) (\<lambda>prior.
       case prior of
         Some r \<Rightarrow>
           if lo_resource_id r \<noteq> resource_id \<or> lo_mission_id r \<noteq> mission_id \<or> lo_actor_id r \<noteq> actor_id \<or> lo_operation r \<noteq> operation
           then op_raise (Conflict ''request_id was already used for another lock operation'')
           else op_lift (replay_result (bk_rt bk) (lo_result_json r))
       | None \<Rightarrow>
           op_bind (if operation = ''acquire''
                    then acquire_lock actor_id (mi_project_id (fst row)) mission_id resource_id now (now + seconds lease_seconds)
                    else renew_or_release_lock actor_id mission_id resource_id operation now (now + seconds lease_seconds)) (\<lambda>result.
           op_bind (op_lift (json_column (JDict result))) (\<lambda>result_json.
           op_bind (op_exec (\<lambda>d. d\<lparr>tb_resource_lock_operations := tb_resource_lock_operations d @
              [\<lparr>lo_request_id = request_id, lo_resource_id = resource_id, lo_mission_id = mission_id, lo_actor_id = actor_id,
                lo_operation = operation, lo_result_json = result_json, lo_created_at = now\<rparr>]\<rparr>)) (\<lambda>_.
           op_bind (append_event (bk_rt bk) (isoformat now) (''resource_lock.'' @ operation) actor_id ''resource'' resource_id
              (JDict [(''mission_id'', JStr mission_id), (''request_id'', JStr request_id)])) (\<lambda>_.
           op_ret (JDict result))))))))))))))"

definition acquire_resource_lock :: "broker \<Rightarrow> string \<Rightarrow> string \<Rightarrow> string \<Rightarrow> string \<Rightarrow> int \<Rightarrow> json op" where
  "acquire_resource_lock bk actor_id request_id mission_id resource_id lease_seconds =
     resource_lock_operation bk actor_id request_id mission_id resource_id ''acquire'' lease_seconds"

definition resource_lock_lease :: "broker \<Rightarrow> string \<Rightarrow> string \<Rightarrow> string \<Rightarrow> string \<Rightarrow> string \<Rightarrow> int \<Rightarrow> json op" where
  "resource_lock_lease bk actor_id request_id mission_id resource_id operation lease_seconds =
     op_bind (op_raise_if (operation \<notin> {''renew'', ''release''}) (invalid_request ''lock operation is invalid'')) (\<lambda>_.
     resource_lock_operation bk actor_id request_id mission_id resource_id operation lease_seconds)"

section \<open>Recovery\<close>

definition interrupted_result :: json where
  "interrupted_result =
     JDict [(''return_code'', JInt (-1)), (''stdout'', JStr []),
       (''stderr'', JStr ''interrupted by control-plane restart; state requires verification''),
       (''timed_out'', JBool False), (''truncated'', JBool False), (''interrupted'', JBool True)]"

definition interrupt_action :: "broker \<Rightarrow> string \<Rightarrow> instant \<Rightarrow> string \<Rightarrow> unit op" where
  "interrupt_action bk actor_id now action_id =
     op_bind (op_exec (\<lambda>d. d\<lparr>tb_actions := update_where (\<lambda>r. ac_id r = action_id)
        (\<lambda>r. r\<lparr>ac_status := ''failed'', ac_result_json := Some (canonical_json interrupted_result), ac_updated_at := now\<rparr>)
        (tb_actions d)\<rparr>)) (\<lambda>_.
     op_bind (append_event (bk_rt bk) (isoformat now) ''action.interrupted'' actor_id ''action'' action_id
        (JDict [(''decision'', JStr ''stop_and_verify'')])) (\<lambda>_. op_ret ()))"

definition requeue_mission :: "broker \<Rightarrow> string \<Rightarrow> instant \<Rightarrow> string \<Rightarrow> unit op" where
  "requeue_mission bk actor_id now mission_id =
     op_bind (op_exec (update_runtime mission_id (reset_claim ''queued'' now))) (\<lambda>_.
     op_bind (append_event (bk_rt bk) (isoformat now) ''mission.requeued_after_restart'' actor_id ''mission'' mission_id
        (JDict [(''reason'', JStr ''expired_lease'')])) (\<lambda>_. op_ret ()))"

definition expire_lock :: "broker \<Rightarrow> string \<Rightarrow> instant \<Rightarrow> string \<Rightarrow> unit op" where
  "expire_lock bk actor_id now resource_id =
     op_bind (op_exec (\<lambda>d. d\<lparr>tb_resource_locks := delete_where (\<lambda>r. lk_resource_id r = resource_id) (tb_resource_locks d)\<rparr>)) (\<lambda>_.
     op_bind (append_event (bk_rt bk) (isoformat now) ''resource_lock.expired'' actor_id ''resource'' resource_id
        (JDict [(''reason'', JStr ''expired_lease'')])) (\<lambda>_. op_ret ()))"

definition running_actions :: "db \<Rightarrow> string list" where
  "running_actions d = sort (map ac_id (filter (\<lambda>r. ac_status r = ''running'') (tb_actions d)))"

definition expired_claims :: "instant \<Rightarrow> db \<Rightarrow> string list" where
  "expired_claims now d = sort (map mr_mission_id (filter (\<lambda>r. mr_queue_state r = ''claimed'' \<and>
     (case mr_lease_until r of None \<Rightarrow> False | Some t \<Rightarrow> t \<le> now)) (tb_mission_runtime d)))"

definition expired_locks :: "instant \<Rightarrow> db \<Rightarrow> string list" where
  "expired_locks now d = sort (map lk_resource_id (filter (\<lambda>l. lk_lease_until l \<le> now) (tb_resource_locks d)))"

definition recover_after_restart :: "broker \<Rightarrow> string \<Rightarrow> json op" where
  "recover_after_restart bk actor_id =
     op_bind (op_lift (validate_actor actor_id)) (\<lambda>_.
     op_bind op_now (\<lambda>now.
     transaction (
       op_bind (op_query running_actions) (\<lambda>running.
       op_bind (op_iter (interrupt_action bk actor_id now) running) (\<lambda>_.
       op_bind (op_query (expired_claims now)) (\<lambda>claims.
       op_bind (op_iter (requeue_mission bk actor_id now) claims) (\<lambda>_.
       op_bind (op_query (expired_locks now)) (\<lambda>locks.
       op_bind (op_iter (expire_lock bk actor_id now) locks) (\<lambda>_.
       op_ret (JDict [(''interrupted_actions'', JInt (int (length running))),
         (''requeued_missions'', JInt (int (length claims))),
         (''expired_resource_locks'', JInt (int (length locks)))]))))))))))"

text \<open>\<^verbatim>\<open>BrokerService.__init__\<close>: recovery, then the check of every class B budget against the policy.\<close>

definition check_budgets :: "broker \<Rightarrow> unit res" where
  "check_budgets bk =
     res_all (\<lambda>rk. if rk_action_class rk = ''B'' then
                     (case rk_budget rk of None \<Rightarrow> Inl AssertionError
                      | Some b \<Rightarrow> validate_runbook_budget (bk_action_policy bk) (bs_max_attempts b) (bs_window_seconds b))
                   else Inr ())
       (registry_all (bk_registry bk))"

definition broker_init :: "broker \<Rightarrow> json op" where
  "broker_init bk =
     op_bind (recover_after_restart bk ''system-recovery'') (\<lambda>report.
     op_bind (op_lift (check_budgets bk)) (\<lambda>_. op_ret report))"

section \<open>The log grows and stays linked\<close>

lemma claim_next_evolves: "evolves (audit_extends (bk_rt bk)) (claim_next bk a rq n p)"
  unfolding claim_next_def claim_in_transaction_def
  by (intro mission_audit_rules audit_exec audit_append_event) (simp_all add: insert_claim_operation_def)

lemma mission_lease_evolves: "evolves (audit_extends (bk_rt bk)) (mission_lease bk a rq i oper n)"
  unfolding mission_lease_def
  by (intro mission_audit_rules audit_exec audit_append_event) (simp_all add: insert_claim_operation_def)

lemma resource_lock_operation_evolves:
  "evolves (audit_extends (bk_rt bk)) (resource_lock_operation bk a rq m r oper n)"
  unfolding resource_lock_operation_def acquire_lock_def renew_or_release_lock_def Let_def
  by (intro mission_audit_rules audit_exec audit_append_event) (simp_all add: upsert_lock_def)

lemma resource_lock_lease_evolves:
  "evolves (audit_extends (bk_rt bk)) (resource_lock_lease bk a rq m r oper n)"
  unfolding resource_lock_lease_def by (intro mission_audit_rules resource_lock_operation_evolves)

lemma recover_after_restart_evolves: "evolves (audit_extends (bk_rt bk)) (recover_after_restart bk a)"
  unfolding recover_after_restart_def interrupt_action_def requeue_mission_def expire_lock_def
  by (intro mission_audit_rules audit_exec audit_append_event) simp_all

text \<open>The three loops of a recovery that returns.\<close>

lemma recover_after_restart_Inr:
  assumes "recover_after_restart bk a w = (Inr x, w')"
  obtains w1 w2 where
    "op_iter (interrupt_action bk a (w_clock w (w_ticks w))) (running_actions (w_db w)) (w\<lparr>w_ticks := Suc (w_ticks w)\<rparr>) = (Inr (), w1)"
    "op_iter (requeue_mission bk a (w_clock w (w_ticks w))) (expired_claims (w_clock w (w_ticks w)) (w_db w1)) w1 = (Inr (), w2)"
    "op_iter (expire_lock bk a (w_clock w (w_ticks w))) (expired_locks (w_clock w (w_ticks w)) (w_db w2)) w2 = (Inr (), w')"
  using assms unfolding recover_after_restart_def by (auto simp: op_simps)

end
