(* ===== verification/Action_Machine.thy ===== *)
theory Action_Machine
  imports Lifecycle_Correct Broker_Leases
begin

text \<open>
  The life of an action under concurrency. The handlers of \<^verbatim>\<open>service.py\<close> let go of the database
  between their transactions, so requests interleave there. \<open>act_step\<close> is the abstract machine: what
  may happen to the actions, the approvals and the started commands. Each transaction of the broker
  is shown to be such a step, whatever state it finds, and the safety of the machine gives the
  safety of every interleaving.
\<close>

section \<open>The abstract machine\<close>

record act_state =
  as_actions :: "action_row list"
  as_approvals :: "approval_row list"
  as_started :: "string list"

text \<open>A change of status: the columns that say what was asked for, and by whom, stay.\<close>

definition sets_status :: "string \<Rightarrow> (action_row \<Rightarrow> action_row) \<Rightarrow> bool" where
  "sets_status s f \<longleftrightarrow> (\<forall>r. f r = r\<lparr>ac_status := s, ac_result_json := ac_result_json (f r), ac_updated_at := ac_updated_at (f r)\<rparr>)"

definition fresh_action :: "action_row \<Rightarrow> bool" where
  "fresh_action r \<longleftrightarrow> (if ac_action_class r = ''C'' then ac_status r = ''pending_approval''
                      else ac_status r \<in> {''authorized'', ''budget_exhausted''})"

definition approves :: "string list \<Rightarrow> approval_row \<Rightarrow> action_row \<Rightarrow> bool" where
  "approves approvers v r \<longleftrightarrow> av_action_id v = ac_id r \<and> av_decision v = ''approve'' \<and> av_actor_id v \<in> set approvers \<and>
     av_actor_id v \<noteq> ac_requested_by r"

abbreviation claimable_status :: "action_row \<Rightarrow> bool" where
  "claimable_status r \<equiv> ac_status r \<in> {''authorized'', ''approved''}"

inductive act_step :: "string list \<Rightarrow> act_state \<Rightarrow> act_state \<Rightarrow> bool" for approvers where
  idle: "act_step approvers st st"
| requested: "ac_id r \<notin> ac_id ` set (as_actions st) \<Longrightarrow> fresh_action r \<Longrightarrow>
    act_step approvers st (st\<lparr>as_actions := as_actions st @ [r]\<rparr>)"
| started: "sets_status ''running'' f \<Longrightarrow> \<exists>r\<in>set (as_actions st). ac_id r = i \<and> claimable_status r \<Longrightarrow>
    act_step approvers st (st\<lparr>as_actions := update_where (\<lambda>r. ac_id r = i \<and> claimable_status r) f (as_actions st),
      as_started := as_started st @ [i]\<rparr>)"
| finished: "s \<in> {''succeeded'', ''failed''} \<Longrightarrow> sets_status s f \<Longrightarrow> i \<in> set (as_started st) \<Longrightarrow>
    act_step approvers st (st\<lparr>as_actions := update_where (\<lambda>r. ac_id r = i) f (as_actions st)\<rparr>)"
| expired: "sets_status ''approval_expired'' f \<Longrightarrow>
    \<forall>r\<in>set (as_actions st). P r \<longrightarrow> ac_action_class r = ''C'' \<or> ac_status r = ''pending_approval'' \<Longrightarrow>
    act_step approvers st (st\<lparr>as_actions := update_where P f (as_actions st)\<rparr>)"
| decided: "sets_status (if av_decision v = ''approve'' then ''approved'' else ''rejected'') f \<Longrightarrow>
    av_actor_id v \<in> set approvers \<Longrightarrow>
    \<exists>r\<in>set (as_actions st). ac_id r = av_action_id v \<and> ac_status r = ''pending_approval'' \<and>
       ac_action_class r = ''C'' \<and> ac_requested_by r \<noteq> av_actor_id v \<Longrightarrow>
    act_step approvers st (st\<lparr>as_actions := update_where (\<lambda>r. ac_id r = av_action_id v \<and> ac_status r = ''pending_approval'') f (as_actions st),
      as_approvals := as_approvals st @ [v]\<rparr>)"

section \<open>Its invariant\<close>

definition row_ok :: "string list \<Rightarrow> approval_row list \<Rightarrow> string set \<Rightarrow> action_row \<Rightarrow> bool" where
  "row_ok approvers vs S r \<longleftrightarrow>
     (ac_status r \<in> {''pending_approval'', ''authorized'', ''approved'', ''rejected'', ''budget_exhausted''} \<longrightarrow> ac_id r \<notin> S) \<and>
     (ac_status r \<in> {''running'', ''succeeded'', ''failed''} \<longrightarrow> ac_id r \<in> S) \<and>
     (ac_status r = ''pending_approval'' \<longrightarrow> ac_action_class r = ''C'' \<and> ac_id r \<notin> av_action_id ` set vs) \<and>
     (ac_action_class r = ''C'' \<longrightarrow> ac_status r \<noteq> ''authorized'' \<and>
        (ac_status r = ''approved'' \<or> ac_id r \<in> S \<longrightarrow> (\<exists>v\<in>set vs. approves approvers v r)))"

definition act_ok :: "string list \<Rightarrow> act_state \<Rightarrow> bool" where
  "act_ok approvers st \<longleftrightarrow>
     actions.unique (as_actions st) \<and> distinct (as_started st) \<and> set (as_started st) \<subseteq> ac_id ` set (as_actions st) \<and>
     distinct (map av_action_id (as_approvals st)) \<and> av_action_id ` set (as_approvals st) \<subseteq> ac_id ` set (as_actions st) \<and>
     (\<forall>r\<in>set (as_actions st). row_ok approvers (as_approvals st) (set (as_started st)) r)"

lemma sets_statusD:
  assumes "sets_status s f"
  shows "ac_id (f r) = ac_id r" "ac_action_class (f r) = ac_action_class r" "ac_requested_by (f r) = ac_requested_by r"
    "ac_status (f r) = s"
proof -
  have eq: "f r = r\<lparr>ac_status := s, ac_result_json := ac_result_json (f r), ac_updated_at := ac_updated_at (f r)\<rparr>"
    using assms unfolding sets_status_def by blast
  show "ac_id (f r) = ac_id r" by (subst eq) simp
  show "ac_action_class (f r) = ac_action_class r" by (subst eq) simp
  show "ac_requested_by (f r) = ac_requested_by r" by (subst eq) simp
  show "ac_status (f r) = s" by (subst eq) simp
qed

lemma ids_update: "sets_status s f \<Longrightarrow> ac_id ` set (update_where P f t) = ac_id ` set t"
  by (metis sets_statusD(1) map_update_where list.set_map)

lemma unique_actions_update: "sets_status s f \<Longrightarrow> actions.unique (update_where P f t) = actions.unique t"
  by (rule actions.unique_update) (rule sets_statusD(1))

lemma approves_status: "sets_status s f \<Longrightarrow> approves ap v (f r) = approves ap v r"
  by (simp add: approves_def sets_statusD)

text \<open>Every step that changes rows in place is covered by one lemma: check the rows it touches.\<close>

lemma act_ok_update:
  assumes ok: "act_ok ap st" and f: "sets_status s f"
    and vs: "distinct (map av_action_id vs)" "av_action_id ` set vs \<subseteq> ac_id ` set (as_actions st)"
    and S: "distinct S" "set S \<subseteq> ac_id ` set (as_actions st)"
    and touched: "\<And>r. r \<in> set (as_actions st) \<Longrightarrow> P r \<Longrightarrow> row_ok ap vs (set S) (f r)"
    and rest: "\<And>r. r \<in> set (as_actions st) \<Longrightarrow> \<not> P r \<Longrightarrow> row_ok ap vs (set S) r"
  shows "act_ok ap \<lparr>as_actions = update_where P f (as_actions st), as_approvals = vs, as_started = S\<rparr>"
proof -
  have "\<forall>r\<in>set (update_where P f (as_actions st)). row_ok ap vs (set S) r"
    using touched rest by (auto simp: set_update_where)
  then show ?thesis
    using ok vs S unfolding act_ok_def by (simp add: unique_actions_update [OF f] ids_update [OF f])
qed

lemma row_ok_mono:
  assumes "row_ok ap vs S r" "set vs \<subseteq> set vs'" "ac_id r \<in> S' \<longleftrightarrow> ac_id r \<in> S"
    and "ac_status r = ''pending_approval'' \<Longrightarrow> ac_id r \<notin> av_action_id ` set vs'"
  shows "row_ok ap vs' S' r"
  using assms unfolding row_ok_def by blast

lemma act_ok_started:
  assumes ok: "act_ok ap st" and f: "sets_status ''running'' f"
    and r: "r \<in> set (as_actions st)" "ac_id r = i" "claimable_status r"
  shows "act_ok ap \<lparr>as_actions = update_where (\<lambda>r. ac_id r = i \<and> claimable_status r) f (as_actions st),
    as_approvals = as_approvals st, as_started = as_started st @ [i]\<rparr>"
proof (rule act_ok_update [OF ok f])
  have row: "row_ok ap (as_approvals st) (set (as_started st)) x" if "x \<in> set (as_actions st)" for x
    using ok that by (simp add: act_ok_def)
  have new: "i \<notin> set (as_started st)" using row [OF r(1)] r(2,3) by (auto simp: row_ok_def)
  show "distinct (as_started st @ [i])" using ok new by (simp add: act_ok_def)
  show "set (as_started st @ [i]) \<subseteq> ac_id ` set (as_actions st)" using ok r(1,2) by (auto simp: act_ok_def)
  show "row_ok ap (as_approvals st) (set (as_started st @ [i])) (f x)"
    if "x \<in> set (as_actions st)" "ac_id x = i \<and> claimable_status x" for x
    using row [OF that(1)] that(2) unfolding row_ok_def by (auto simp: sets_statusD [OF f] approves_status [OF f])
  show "row_ok ap (as_approvals st) (set (as_started st @ [i])) x"
    if "x \<in> set (as_actions st)" "\<not> (ac_id x = i \<and> claimable_status x)" for x
  proof -
    have "ac_id x \<noteq> i" using actions.unique_mem_eq [of "as_actions st" x r] ok that r by (auto simp: act_ok_def)
    then show ?thesis using row_ok_mono [OF row [OF that(1)]] row [OF that(1)] by (auto simp: row_ok_def)
  qed
qed (use ok in \<open>simp_all add: act_ok_def\<close>)

lemma act_ok_finished:
  assumes ok: "act_ok ap st" and f: "sets_status s f" "s \<in> {''succeeded'', ''failed''}" and i: "i \<in> set (as_started st)"
  shows "act_ok ap \<lparr>as_actions = update_where (\<lambda>r. ac_id r = i) f (as_actions st),
    as_approvals = as_approvals st, as_started = as_started st\<rparr>"
proof (rule act_ok_update [OF ok f(1)])
  have row: "row_ok ap (as_approvals st) (set (as_started st)) x" if "x \<in> set (as_actions st)" for x
    using ok that by (simp add: act_ok_def)
  show "row_ok ap (as_approvals st) (set (as_started st)) (f x)" if "x \<in> set (as_actions st)" "ac_id x = i" for x
    using row [OF that(1)] that(2) i f(2) unfolding row_ok_def
    by (auto simp: sets_statusD [OF f(1)] approves_status [OF f(1)])
qed (use ok in \<open>simp_all add: act_ok_def\<close>)

lemma act_ok_expired:
  assumes ok: "act_ok ap st" and f: "sets_status ''approval_expired'' f"
  shows "act_ok ap \<lparr>as_actions = update_where P f (as_actions st), as_approvals = as_approvals st, as_started = as_started st\<rparr>"
proof (rule act_ok_update [OF ok f])
  have row: "row_ok ap (as_approvals st) (set (as_started st)) x" if "x \<in> set (as_actions st)" for x
    using ok that by (simp add: act_ok_def)
  show "row_ok ap (as_approvals st) (set (as_started st)) (f x)" if "x \<in> set (as_actions st)" "P x" for x
    using row [OF that(1)] unfolding row_ok_def by (auto simp: sets_statusD [OF f] approves_status [OF f])
qed (use ok in \<open>simp_all add: act_ok_def\<close>)

lemma act_ok_decided:
  assumes ok: "act_ok ap st" and f: "sets_status (if av_decision v = ''approve'' then ''approved'' else ''rejected'') f"
    and v: "av_actor_id v \<in> set ap"
    and r: "r \<in> set (as_actions st)" "ac_id r = av_action_id v" "ac_status r = ''pending_approval''" "ac_requested_by r \<noteq> av_actor_id v"
  shows "act_ok ap \<lparr>as_actions = update_where (\<lambda>r. ac_id r = av_action_id v \<and> ac_status r = ''pending_approval'') f (as_actions st),
    as_approvals = as_approvals st @ [v], as_started = as_started st\<rparr>"
proof (rule act_ok_update [OF ok f])
  have row: "row_ok ap (as_approvals st) (set (as_started st)) x" if "x \<in> set (as_actions st)" for x
    using ok that by (simp add: act_ok_def)
  have new: "av_action_id v \<notin> av_action_id ` set (as_approvals st)" "av_action_id v \<notin> set (as_started st)"
    using row [OF r(1)] r(2,3) unfolding row_ok_def by auto
  have same: "x = r" if "x \<in> set (as_actions st)" "ac_id x = av_action_id v" for x
    using actions.unique_mem_eq [of "as_actions st" x r] ok that r by (simp add: act_ok_def)
  show "distinct (map av_action_id (as_approvals st @ [v]))" using ok new(1) by (simp add: act_ok_def)
  show "av_action_id ` set (as_approvals st @ [v]) \<subseteq> ac_id ` set (as_actions st)"
    using ok r(1,2) unfolding act_ok_def by (metis (no_types, lifting) image_eqI image_insert insert_subset list.simps(15) rotate1.simps(2) set_rotate1)
  show "row_ok ap (as_approvals st @ [v]) (set (as_started st)) (f x)"
    if "x \<in> set (as_actions st)" "ac_id x = av_action_id v \<and> ac_status x = ''pending_approval''" for x
    using same [OF that(1)] that(2) new(2) v r(2,4) unfolding row_ok_def
    by (auto simp: sets_statusD [OF f] approves_status [OF f] approves_def)
  show "row_ok ap (as_approvals st @ [v]) (set (as_started st)) x"
    if "x \<in> set (as_actions st)" "\<not> (ac_id x = av_action_id v \<and> ac_status x = ''pending_approval'')" for x
    using row_ok_mono [OF row [OF that(1)], of "as_approvals st @ [v]"] row [OF that(1)] that same r(3)
    by (auto simp: row_ok_def)
qed (use ok in \<open>simp_all add: act_ok_def\<close>)

lemma act_ok_requested:
  assumes ok: "act_ok ap st" and r: "ac_id r \<notin> ac_id ` set (as_actions st)" "fresh_action r"
  shows "act_ok ap (st\<lparr>as_actions := as_actions st @ [r]\<rparr>)"
proof -
  have "ac_id r \<notin> set (as_started st)" "ac_id r \<notin> av_action_id ` set (as_approvals st)"
    using ok r(1) by (auto simp: act_ok_def)
  with r(2) have "row_ok ap (as_approvals st) (set (as_started st)) r"
    by (auto simp: fresh_action_def row_ok_def split: if_splits)
  with ok r(1) show ?thesis by (auto simp: act_ok_def actions.unique_append)
qed

lemma act_step_ok: "act_step ap st st' \<Longrightarrow> act_ok ap st \<Longrightarrow> act_ok ap st'"
proof (induction rule: act_step.induct)
  case (requested r st)
  then show ?case by (intro act_ok_requested)
next
  case (started f st i)
  then obtain r where "r \<in> set (as_actions st)" "ac_id r = i" "claimable_status r" by blast
  with act_ok_started [OF started(3,1) this] show ?case by (cases st) simp
next
  case (finished s f i st)
  from act_ok_finished [OF this(4,2,1,3)] show ?case by (cases st) simp
next
  case (expired f st P)
  from act_ok_expired [OF this(3,1), of P] show ?case by (cases st) simp
next
  case (decided v f st)
  then obtain r where "r \<in> set (as_actions st)" "ac_id r = av_action_id v" "ac_status r = ''pending_approval''"
    "ac_requested_by r \<noteq> av_actor_id v" by blast
  with act_ok_decided [OF decided(4,1,2) this] show ?case by (cases st) simp
qed

section \<open>The transactions of the broker are its steps\<close>

definition started_ids :: "db \<Rightarrow> string list" where
  "started_ids d = map ev_entity_id (filter (\<lambda>e. ev_event_type e = ''action.started'') (tb_events d))"

definition act_view :: "db \<Rightarrow> act_state" where
  "act_view d = \<lparr>as_actions = tb_actions d, as_approvals = tb_approvals d, as_started = started_ids d\<rparr>"

abbreviation approvers_of :: "broker \<Rightarrow> string list" where
  "approvers_of bk \<equiv> ap_approval_actor_ids (bk_action_policy bk)"

abbreviation db_step :: "broker \<Rightarrow> db \<Rightarrow> db \<Rightarrow> bool" where
  "db_step bk d d' \<equiv> act_step (approvers_of bk) (act_view d) (act_view d')"

lemma act_view_simps [simp]:
  "as_actions (act_view d) = tb_actions d" "as_approvals (act_view d) = tb_approvals d" "as_started (act_view d) = started_ids d"
  by (simp_all add: act_view_def)

lemma transaction_cases:
  assumes "transaction m w = (r, w')"
  obtains (rollback) e where "r = Inl e" "w_db w' = w_db w" | (commit) x where "r = Inr x" "m w = (Inr x, w')"
  using assms by (cases r) (auto simp: transaction_Inr transaction_Inl)

text \<open>The steps on explicit tables.\<close>

lemma table_steps:
  fixes A V S
  defines "st \<equiv> \<lparr>as_actions = A, as_approvals = V, as_started = S\<rparr>"
  shows step_started: "sets_status ''running'' f \<Longrightarrow> \<exists>r\<in>set A. ac_id r = i \<and> claimable_status r \<Longrightarrow>
      act_step ap st \<lparr>as_actions = update_where (\<lambda>r. ac_id r = i \<and> claimable_status r) f A, as_approvals = V, as_started = S @ [i]\<rparr>"
    and step_finished: "s \<in> {''succeeded'', ''failed''} \<Longrightarrow> sets_status s f \<Longrightarrow> i \<in> set S \<Longrightarrow>
      act_step ap st \<lparr>as_actions = update_where (\<lambda>r. ac_id r = i) f A, as_approvals = V, as_started = S\<rparr>"
    and step_expired: "sets_status ''approval_expired'' f \<Longrightarrow>
      \<forall>r\<in>set A. P r \<longrightarrow> ac_action_class r = ''C'' \<or> ac_status r = ''pending_approval'' \<Longrightarrow>
      act_step ap st \<lparr>as_actions = update_where P f A, as_approvals = V, as_started = S\<rparr>"
    and step_decided: "sets_status (if av_decision v = ''approve'' then ''approved'' else ''rejected'') f \<Longrightarrow>
      av_actor_id v \<in> set ap \<Longrightarrow> \<exists>r\<in>set A. ac_id r = av_action_id v \<and> ac_status r = ''pending_approval'' \<and>
         ac_action_class r = ''C'' \<and> ac_requested_by r \<noteq> av_actor_id v \<Longrightarrow>
      act_step ap st \<lparr>as_actions = update_where (\<lambda>r. ac_id r = av_action_id v \<and> ac_status r = ''pending_approval'') f A,
        as_approvals = V @ [v], as_started = S\<rparr>"
    and step_requested: "ac_id r \<notin> ac_id ` set A \<Longrightarrow> fresh_action r \<Longrightarrow>
      act_step ap st \<lparr>as_actions = A @ [r], as_approvals = V, as_started = S\<rparr>"
  using act_step.started [of f st i ap] act_step.finished [of s f i st ap] act_step.expired [of f st P ap]
    act_step.decided [of v f ap st] act_step.requested [of r st ap]
  by (simp_all add: st_def)

lemma log_action_tables:
  assumes "log_action bk now t a i p w = (Inr u, w')"
  shows "started_ids (w_db w') = started_ids (w_db w) @ (if t = ''action.started'' then [i] else [])"
    and "tb_actions (w_db w') = tb_actions (w_db w)" and "tb_approvals (w_db w') = tb_approvals (w_db w)"
    and "tb_budget_usage (w_db w') = tb_budget_usage (w_db w)"
proof -
  from assms obtain v where ev: "append_event (bk_rt bk) (isoformat now) t a ''action'' i p w = (Inr v, w')"
    by (auto simp: log_action_def op_simps)
  note tables = db_core_tables [OF log_only_core [OF append_event_log_only [OF ev]]]
  from ev obtain e where "tb_events (w_db w') = tb_events (w_db w) @ [e]" "ev_event_type e = t" "ev_entity_id e = i"
    by (auto elim!: append_event_Inr)
  then show "started_ids (w_db w') = started_ids (w_db w) @ (if t = ''action.started'' then [i] else [])"
    by (simp add: started_ids_def)
qed (use assms in \<open>auto simp: log_action_def op_simps dest!: append_event_log_only log_only_core dest: db_core_tables\<close>)

lemma log_action_view:
  "log_action bk now t a i p w = (Inr u, w') \<Longrightarrow> t \<noteq> ''action.started'' \<Longrightarrow> act_view (w_db w') = act_view (w_db w)"
  using log_action_tables [of bk now t a i p w u w'] by (simp add: act_view_def)

lemma append_event_view:
  assumes "append_event rt ts t a et i p w = (Inr v, w')" "t \<noteq> ''action.started''"
  shows "act_view (w_db w') = act_view (w_db w)"
proof -
  note tables = db_core_tables [OF log_only_core [OF append_event_log_only [OF assms(1)]]]
  from assms obtain e where "tb_events (w_db w') = tb_events (w_db w) @ [e]" "ev_event_type e = t"
    by (auto elim!: append_event_Inr)
  with tables assms(2) show ?thesis by (simp add: act_view_def started_ids_def)
qed

lemma update_actions_tables [simp]:
  "tb_actions (update_actions P f d) = update_where P f (tb_actions d)" "tb_approvals (update_actions P f d) = tb_approvals d"
  "started_ids (update_actions P f d) = started_ids d" "tb_budget_usage (update_actions P f d) = tb_budget_usage d"
  by (simp_all add: update_actions_def started_ids_def)

lemma started_ids_frame [simp]:
  "started_ids (d\<lparr>tb_approvals := v\<rparr>) = started_ids d" "started_ids (d\<lparr>tb_actions := t\<rparr>) = started_ids d"
  "started_ids (d\<lparr>tb_budget_usage := b\<rparr>) = started_ids d"
  by (simp_all add: started_ids_def)

lemma act_view_frame [simp]:
  "act_view (d\<lparr>tb_mission_runtime := t1\<rparr>) = act_view d" "act_view (d\<lparr>tb_resource_locks := t2\<rparr>) = act_view d"
  "act_view (d\<lparr>tb_budget_usage := t3\<rparr>) = act_view d"
  by (simp_all add: act_view_def started_ids_def)

lemma sets_set_action_status: "sets_status s (set_action_status s now)"
  by (simp add: sets_status_def set_action_status_def)

lemma rowcount_one: "rowcount P t = 1 \<Longrightarrow> \<exists>r\<in>set t. P r"
  by (metis One_nat_def filter_empty_conv list.size(3) rowcount_def zero_neq_one)

lemma claim_action_step:
  assumes "claim_action bk a i k w = (r, w')"
  shows "db_step bk (w_db w) (w_db w') \<and> (r = Inr () \<longrightarrow> i \<in> set (started_ids (w_db w')))"
proof -
  let ?w = "w\<lparr>w_ticks := Suc (w_ticks w)\<rparr>"
  let ?now = "w_clock w (w_ticks w)"
  let ?P = "\<lambda>r. ac_id r = i \<and> claimable_status r"
  obtain m where m: "transaction m ?w = (r, w')" and "m =
       op_bind (op_query (\<lambda>d. rowcount ?P (tb_actions d))) (\<lambda>changed.
       op_bind (op_exec (update_actions ?P (set_action_status ''running'' ?now))) (\<lambda>_.
       op_bind (op_raise_if (changed \<noteq> 1) (Conflict ''action was concurrently claimed'')) (\<lambda>_.
       log_action bk ?now ''action.started'' a i (JDict [(''runbook_id'', JStr k)]))))"
    using assms by (simp add: claim_action_def op_run)
  from m show ?thesis
  proof (cases rule: transaction_cases)
    case rollback
    then show ?thesis by (simp add: act_step.idle)
  next
    case (commit x)
    with \<open>m = _\<close> have count: "rowcount ?P (tb_actions (w_db w)) = 1"
      and log: "log_action bk ?now ''action.started'' a i (JDict [(''runbook_id'', JStr k)])
        (?w\<lparr>w_db := update_actions ?P (set_action_status ''running'' ?now) (w_db w)\<rparr>) = (Inr x, w')"
      by (auto simp: op_simps)
    show ?thesis
      using step_started [OF sets_set_action_status rowcount_one [OF count]]
      by (simp add: act_view_def log_action_tables [OF log])
  qed
qed

lemma op_bind_cases:
  assumes "op_bind m f w = (r, w')"
  obtains e where "m w = (Inl e, w')" "r = Inl e" | x w1 where "m w = (Inr x, w1)" "f x w1 = (r, w')"
  using assms by (cases r) (auto simp: op_bind_Inr op_bind_Inl)

lemma op_tail:
  assumes "op_bind (transaction m) f w = (r, w')" and "\<And>x w. snd (f x w) = w"
  obtains r1 where "transaction m w = (r1, w')"
  using assms(1) by (rule op_bind_cases) (use assms(2) in \<open>metis snd_conv\<close>)+

lemma finish_action_step:
  assumes "finish_action bk a i res w = (r, w')" and "i \<in> set (started_ids (w_db w))"
  shows "db_step bk (w_db w) (w_db w')"
proof -
  let ?w = "w\<lparr>w_ticks := Suc (w_ticks w)\<rparr>"
  let ?now = "w_clock w (w_ticks w)"
  let ?s = "if xr_return_code res = 0 \<and> \<not> xr_timed_out res then ''succeeded'' else ''failed''"
  let ?f = "\<lambda>r. r\<lparr>ac_status := ?s, ac_result_json := Some (canonical_json (result_payload res)), ac_updated_at := ?now\<rparr>"
  let ?p = "JDict [(''return_code'', JInt (xr_return_code res)), (''timed_out'', JBool (xr_timed_out res)),
                   (''truncated'', JBool (xr_truncated res))]"
  define m where "m = op_bind (op_exec (update_actions (\<lambda>r. ac_id r = i) ?f)) (\<lambda>_.
        op_bind (log_action bk ?now (''action.'' @ ?s) a i ?p) (\<lambda>_. op_query (action_of i)))"
  have "op_bind (transaction m) (\<lambda>finished. case finished of None \<Rightarrow> op_raise AssertionError
      | Some r \<Rightarrow> op_lift (action_public (bk_rt bk) r)) ?w = (r, w')"
    using assms(1) by (simp add: finish_action_def op_run m_def Let_def)
  then obtain r1 where "transaction m ?w = (r1, w')"
    by (rule op_tail) (auto simp: op_raise_def op_lift_def split: option.splits)
  then show ?thesis
  proof (cases rule: transaction_cases)
    case rollback
    then show ?thesis by (simp add: act_step.idle)
  next
    case (commit x)
    then obtain u where log: "log_action bk ?now (''action.'' @ ?s) a i ?p (?w\<lparr>w_db := update_actions (\<lambda>r. ac_id r = i) ?f (w_db w)\<rparr>) = (Inr u, w')"
      by (auto simp: m_def op_simps)
    have "sets_status ?s ?f" by (simp add: sets_status_def)
    moreover have "?s \<in> {''succeeded'', ''failed''}" "''action.'' @ ?s \<noteq> ''action.started''" by simp_all
    ultimately show ?thesis
      using step_finished [of ?s ?f i] assms(2) log_action_tables [OF log] by (simp add: act_view_def)
  qed
qed

lemma refuse_pending_step:
  assumes "refuse_pending bk a row w = (r, w')"
  shows "db_step bk (w_db w) (w_db w')"
proof (cases "case ac_approval_deadline row of None \<Rightarrow> False | Some deadline \<Rightarrow> deadline \<le> w_clock w (w_ticks w)")
  case False
  then show ?thesis using assms by (auto simp: refuse_pending_def op_run op_raise_def act_step.idle)
next
  case True
  let ?w = "w\<lparr>w_ticks := Suc (w_ticks w)\<rparr>"
  let ?now = "w_clock w (w_ticks w)"
  let ?P = "\<lambda>r. ac_id r = ac_id row \<and> ac_status r = ''pending_approval''"
  define m where "m = op_bind (op_query (\<lambda>d. rowcount ?P (tb_actions d))) (\<lambda>changed.
         op_bind (op_exec (update_actions ?P (set_action_status ''approval_expired'' ?now))) (\<lambda>_.
         if changed = 1 then log_action bk ?now ''action.approval_expired'' a (ac_id row) (JDict [(''decision'', JStr ''deny'')])
         else op_ret ()))"
  have "op_bind (transaction m) (\<lambda>_. op_raise (ApprovalRequired ''the human approval request expired'')) ?w = (r, w')"
    using assms True by (simp add: refuse_pending_def op_run m_def)
  then obtain r1 where "transaction m ?w = (r1, w')" by (rule op_tail) (simp add: op_raise_def)
  then show ?thesis
  proof (cases rule: transaction_cases)
    case rollback
    then show ?thesis by (simp add: act_step.idle)
  next
    case (commit x)
    let ?d = "update_actions ?P (set_action_status ''approval_expired'' ?now) (w_db w)"
    have "act_view (w_db w') = act_view ?d"
      using commit by (auto simp: m_def op_simps log_action_view split: if_splits)
    then show ?thesis
      using step_expired [OF sets_set_action_status, of "tb_actions (w_db w)" ?P] by (simp add: act_view_def)
  qed
qed

lemma check_class_c_approval_step:
  assumes "check_class_c_approval bk a row w = (r, w')"
    and "\<forall>x\<in>set (tb_actions (w_db w)). ac_id x = ac_id row \<longrightarrow> ac_action_class x = ac_action_class row"
  shows "db_step bk (w_db w) (w_db w')"
proof -
  let ?now = "w_clock w (w_ticks w)"
  let ?w = "w\<lparr>w_ticks := Suc (w_ticks w)\<rparr>"
  define m where "m = op_bind (op_exec (update_actions (\<lambda>r. ac_id r = ac_id row) (set_action_status ''approval_expired'' ?now))) (\<lambda>_.
      log_action bk ?now ''action.approval_expired'' a (ac_id row) (JDict [(''decision'', JStr ''deny'')]))"
  consider "w_db w' = w_db w"
    | "ac_action_class row = ''C''" "op_bind (transaction m) (\<lambda>_. op_raise (ApprovalRequired ''the human approval expired'')) ?w = (r, w')"
    using assms(1)
    by (auto simp: check_class_c_approval_def op_run op_ret_def op_raise_def m_def split: if_splits option.splits)
  then show ?thesis
  proof cases
    case 1
    then show ?thesis by (simp add: act_step.idle)
  next
    case 2
    from 2(2) obtain r1 where "transaction m ?w = (r1, w')" by (rule op_tail) (simp add: op_raise_def)
    then show ?thesis
    proof (cases rule: transaction_cases)
      case rollback
      then show ?thesis by (simp add: act_step.idle)
    next
      case (commit x)
      then have "act_view (w_db w') = act_view (update_actions (\<lambda>r. ac_id r = ac_id row) (set_action_status ''approval_expired'' ?now) (w_db w))"
        by (auto simp: m_def op_simps log_action_view)
      then show ?thesis
        using step_expired [OF sets_set_action_status, of "tb_actions (w_db w)" "\<lambda>r. ac_id r = ac_id row"] assms(2) 2(1)
        by (simp add: act_view_def)
    qed
  qed
qed

lemma check_approver_Inr:
  "check_approver bk a r = Inr u \<longleftrightarrow> a \<in> set (approvers_of bk) \<and> ac_requested_by r \<noteq> a \<and> ac_action_class r = ''C'' \<and>
     ac_status r = ''pending_approval''"
  by (auto simp: check_approver_def require_approval_actor_def)

lemma action_of_Some: "action_of i d = Some r \<Longrightarrow> r \<in> set (tb_actions d) \<and> ac_id r = i"
  unfolding action_of_def by (rule select_one_Some)

lemma record_decision_step:
  assumes "record_decision bk v w = (Inr x, w')"
    and "av_actor_id v \<in> set (approvers_of bk)"
    and "\<exists>r\<in>set (tb_actions (w_db w)). ac_id r = av_action_id v \<and> ac_status r = ''pending_approval'' \<and>
       ac_action_class r = ''C'' \<and> ac_requested_by r \<noteq> av_actor_id v"
  shows "db_step bk (w_db w) (w_db w')"
proof -
  let ?f = "set_action_status (if av_decision v = ''approve'' then ''approved'' else ''rejected'') (av_created_at v)"
  let ?P = "\<lambda>r. ac_id r = av_action_id v \<and> ac_status r = ''pending_approval''"
  have "act_view (w_db w') = act_view (update_actions ?P ?f ((w_db w)\<lparr>tb_approvals := tb_approvals (w_db w) @ [v]\<rparr>))"
    using assms(1) unfolding record_decision_def Let_def
    by (auto simp: op_simps log_action_view split: option.splits if_splits)
  then show ?thesis
    using step_decided [OF sets_set_action_status assms(2,3)] by (simp add: act_view_def del: if_split_asm)
qed

lemma expire_request_step:
  assumes "expire_request bk a rq i now w = (Inr x, w')"
    and "\<forall>r\<in>set (tb_actions (w_db w)). ac_id r = i \<longrightarrow> ac_action_class r = ''C''"
  shows "db_step bk (w_db w) (w_db w')"
proof -
  have "act_view (w_db w') = act_view (update_actions (\<lambda>r. ac_id r = i) (set_action_status ''approval_expired'' now) (w_db w))"
    using assms(1) unfolding expire_request_def by (auto simp: op_simps log_action_view)
  then show ?thesis
    using step_expired [OF sets_set_action_status, of "tb_actions (w_db w)" "\<lambda>r. ac_id r = i"] assms(2)
    by (simp add: act_view_def)
qed

lemma decide_in_transaction_step:
  assumes "decide_in_transaction bk a rq i dc src sid rs now vid w = (r, w')" and "actions.unique (tb_actions (w_db w))"
  shows "db_step bk (w_db w) (w_db w')"
  using assms(1) unfolding decide_in_transaction_def
proof (cases rule: transaction_cases)
  case rollback
  then show ?thesis by (simp add: act_step.idle)
next
  case (commit x)
  then obtain act where act: "action_of i (w_db w) = Some act" by (auto simp: op_simps split: option.splits)
  note mem = action_of_Some [OF act]
  have same: "\<forall>r\<in>set (tb_actions (w_db w)). ac_id r = i \<longrightarrow> r = act"
    using actions.unique_mem_eq assms(2) mem by blast
  show ?thesis
  proof (cases "check_approver bk a act")
    case (Inl e)
    then have "act_view (w_db w') = act_view (w_db w)"
      using commit(2) act by (auto simp: op_simps log_action_view split: option.splits if_splits)
    then show ?thesis by (simp add: act_step.idle)
  next
    case (Inr u)
    note ok = Inr [unfolded check_approver_Inr]
    consider "w' = w" | "expire_request bk a rq i now w = (Inr x, w')"
      | v where "record_decision bk v w = (Inr x, w')" "av_actor_id v = a" "av_action_id v = i"
      using commit(2) act Inr by (auto simp: op_simps split: option.splits if_splits)
    then show ?thesis
    proof cases
      case 1
      then show ?thesis by (simp add: act_step.idle)
    next
      case 2
      then show ?thesis by (rule expire_request_step) (use same ok in blast)
    next
      case 3
      from 3(1) show ?thesis by (rule record_decision_step) (use 3(2,3) mem ok in blast)+
    qed
  qed
qed

text \<open>A request: the row, or the row already marked as out of budget.\<close>

lemma store_action_step:
  assumes store: "store_action bk row rk w = (r, w')"
    and fresh: "ac_id row \<notin> ac_id ` set (tb_actions (w_db w))"
    and row: "ac_action_class row = rk_action_class rk" "fresh_action row"
  shows "db_step bk (w_db w) (w_db w')"
  using store unfolding store_action_def
proof (cases rule: transaction_cases)
  case rollback
  then show ?thesis by (simp add: act_step.idle)
next
  case (commit x)
  then obtain u w1 p where ev: "log_action bk (ac_created_at row) ''action.requested'' (ac_requested_by row) (ac_id row) p
      (w\<lparr>w_db := insert_action row (w_db w)\<rparr>) = (Inr u, w1)"
    and res: "reserve_budget bk (ac_requested_by row) (ac_id row) rk (ac_budget_key row) (ac_created_at row) w1 = (Inr x, w')"
    by (auto simp: op_simps)
  from log_action_view [OF ev] have log: "act_view (w_db w1) = act_view (insert_action row (w_db w))" by simp
  let ?f = "set_action_status ''budget_exhausted'' (ac_created_at row)"
  consider "act_view (w_db w') = act_view (w_db w1)"
    | "rk_action_class rk = ''B''" "act_view (w_db w') = act_view (update_actions (\<lambda>r. ac_id r = ac_id row) ?f (w_db w1))"
    using res unfolding reserve_budget_def
    by (auto simp: op_simps log_action_view split: if_splits option.splits)
  then obtain row' where row': "ac_id row' = ac_id row" "fresh_action row'"
    and view: "act_view (w_db w') = (act_view (w_db w))\<lparr>as_actions := tb_actions (w_db w) @ [row']\<rparr>"
  proof cases
    case 1
    with log row(2) that [of row] show ?thesis by (simp add: act_view_def insert_action_def)
  next
    case 2
    have "update_where (\<lambda>r. ac_id r = ac_id row) ?f (tb_actions (w_db w)) = tb_actions (w_db w)"
      by (rule update_where_idem) (use fresh in \<open>metis imageI\<close>)
    with 2 log row that [of "?f row"] show ?thesis
      by (simp add: act_view_def insert_action_def fresh_action_def set_action_status_def)
  qed
  then show ?thesis
    using act_step.requested [of row' "act_view (w_db w)" "approvers_of bk"] fresh by simp
qed

text \<open>A restart: every running action fails, and nothing else changes for actions.\<close>

lemma interrupt_action_step:
  assumes "interrupt_action bk a now i w = (Inr u, w')" "i \<in> set (started_ids (w_db w))"
  shows "db_step bk (w_db w) (w_db w') \<and> started_ids (w_db w') = started_ids (w_db w)"
proof -
  let ?f = "\<lambda>r. r\<lparr>ac_status := ''failed'', ac_result_json := Some (canonical_json interrupted_result), ac_updated_at := now\<rparr>"
  let ?d = "(w_db w)\<lparr>tb_actions := update_where (\<lambda>r. ac_id r = i) ?f (tb_actions (w_db w))\<rparr>"
  have view: "act_view (w_db w') = act_view ?d"
    using assms(1) unfolding interrupt_action_def by (auto simp: op_simps append_event_view)
  have "sets_status ''failed'' ?f" by (simp add: sets_status_def)
  with view step_finished [of "''failed''" ?f i] assms(2) show ?thesis by (simp add: act_view_def)
qed

lemma interrupt_actions_steps:
  "op_iter (interrupt_action bk a now) is w = (Inr u, w') \<Longrightarrow> set is \<subseteq> set (started_ids (w_db w)) \<Longrightarrow>
   (db_step bk)\<^sup>*\<^sup>* (w_db w) (w_db w')"
proof (induction "is" arbitrary: w)
  case (Cons i "is")
  then obtain u' w1 where first: "interrupt_action bk a now i w = (Inr u', w1)"
    and rest: "op_iter (interrupt_action bk a now) is w1 = (Inr u, w')" by (auto simp: op_simps)
  have step: "db_step bk (w_db w) (w_db w1) \<and> started_ids (w_db w1) = started_ids (w_db w)"
    using interrupt_action_step [OF first] Cons.prems(2) by simp
  with Cons.IH [OF rest] Cons.prems(2) have "(db_step bk)\<^sup>*\<^sup>* (w_db w1) (w_db w')" by simp
  with step show ?case by (blast intro: converse_rtranclp_into_rtranclp)
qed (simp add: op_simps)

lemma iter_view:
  assumes "\<And>x w u w'. f x w = (Inr u, w') \<Longrightarrow> act_view (w_db w') = act_view (w_db w)"
  shows "op_iter f xs w = (Inr u, w') \<Longrightarrow> act_view (w_db w') = act_view (w_db w)"
  by (induction xs arbitrary: w) (auto simp: op_simps dest: assms)

lemma requeue_mission_view: "requeue_mission bk a now i w = (Inr u, w') \<Longrightarrow> act_view (w_db w') = act_view (w_db w)"
  unfolding requeue_mission_def
  by (auto simp: op_simps append_event_view update_runtime_def)

lemma expire_lock_view: "expire_lock bk a now i w = (Inr u, w') \<Longrightarrow> act_view (w_db w') = act_view (w_db w)"
  unfolding expire_lock_def by (auto simp: op_simps append_event_view)

lemma recover_after_restart_steps:
  assumes "recover_after_restart bk a w = (r, w')" "act_ok (approvers_of bk) (act_view (w_db w))"
  shows "(db_step bk)\<^sup>*\<^sup>* (w_db w) (w_db w')"
proof (cases r)
  case (Inl e)
  with assms(1) have "w_db w' = w_db w"
    by (auto simp: recover_after_restart_def op_bind_Inl op_lift_def op_now_def dest: transaction_rollback)
  then show ?thesis by simp
next
  case (Inr x)
  from assms(1) [unfolded Inr] obtain w1 w2 where
    int: "op_iter (interrupt_action bk a (w_clock w (w_ticks w))) (running_actions (w_db w)) (w\<lparr>w_ticks := Suc (w_ticks w)\<rparr>) = (Inr (), w1)"
    and rq: "op_iter (requeue_mission bk a (w_clock w (w_ticks w))) (expired_claims (w_clock w (w_ticks w)) (w_db w1)) w1 = (Inr (), w2)"
    and lk: "op_iter (expire_lock bk a (w_clock w (w_ticks w))) (expired_locks (w_clock w (w_ticks w)) (w_db w2)) w2 = (Inr (), w')"
    by (rule recover_after_restart_Inr)
  have rest: "act_view (w_db w') = act_view (w_db w1)"
    using iter_view [OF requeue_mission_view rq] iter_view [OF expire_lock_view lk] by simp
  have "set (running_actions (w_db w)) \<subseteq> set (started_ids (w_db w))"
    using assms(2) by (auto simp: running_actions_def act_ok_def row_ok_def)
  then have "(db_step bk)\<^sup>*\<^sup>* (w_db w) (w_db w1)" using interrupt_actions_steps [OF int] by simp
  moreover have "db_step bk (w_db w1) (w_db w')" by (simp add: rest act_step.idle)
  ultimately show ?thesis by (rule rtranclp.rtrancl_into_rtrancl)
qed

end
