(* ===== verification/Action_Interleaving.thy ===== *)
theory Action_Interleaving
  imports Action_Machine
begin

text \<open>
  Requests served at the same time. A handler reads an action's row, then runs its transactions; in
  between, other handlers run theirs, and the process may die and recover. \<open>sys_step\<close> takes any
  transaction of any handler at any moment: the rows read so far are kept, as the handlers act on
  what they read and not on what the table now holds, and so are the actions whose command is
  running in this process. The safety theorems hold of every state it reaches, and the handlers of
  \<^verbatim>\<open>service.py\<close> are runs of it.
\<close>

section \<open>The interleaving of transactions\<close>

record sys =
  sy_world :: world
  sy_seen :: "action_row list"
  sy_live :: "string list"

abbreviation sy_db :: "sys \<Rightarrow> db" where
  "sy_db s \<equiv> w_db (sy_world s)"

inductive sys_step :: "broker \<Rightarrow> sys \<Rightarrow> sys \<Rightarrow> bool" for bk where
  reads: "row \<in> set (tb_actions (sy_db s)) \<Longrightarrow> sys_step bk s (s\<lparr>sy_seen := row # sy_seen s\<rparr>)"
| requests: "store_action bk (new_action i rq a rk rs m inc pj aj key deadline now) rk (sy_world s) = (res, w') \<Longrightarrow>
    i \<notin> ac_id ` set (tb_actions (sy_db s)) \<Longrightarrow> sys_step bk s (s\<lparr>sy_world := w'\<rparr>)"
| refuses: "row \<in> set (sy_seen s) \<Longrightarrow> refuse_pending bk a row (sy_world s) = (res, w') \<Longrightarrow>
    sys_step bk s (s\<lparr>sy_world := w'\<rparr>)"
| checks: "row \<in> set (sy_seen s) \<Longrightarrow> check_class_c_approval bk a row (sy_world s) = (res, w') \<Longrightarrow>
    sys_step bk s (s\<lparr>sy_world := w'\<rparr>)"
| claims: "claim_action bk a i k (sy_world s) = (res, w') \<Longrightarrow>
    sys_step bk s (s\<lparr>sy_world := w', sy_live := (if res = Inr () then i # sy_live s else sy_live s)\<rparr>)"
| finishes: "i \<in> set (sy_live s) \<Longrightarrow> finish_action bk a i xr (sy_world s) = (res, w') \<Longrightarrow>
    sys_step bk s (s\<lparr>sy_world := w', sy_live := remove1 i (sy_live s)\<rparr>)"
| decides: "decide_in_transaction bk a rq i dc src sid rs now v (sy_world s) = (res, w') \<Longrightarrow>
    sys_step bk s (s\<lparr>sy_world := w'\<rparr>)"
| restarts: "recover_after_restart bk a (sy_world s) = (res, w') \<Longrightarrow>
    sys_step bk s \<lparr>sy_world = w', sy_seen = [], sy_live = []\<rparr>"
| others: "act_view (w_db w') = act_view (sy_db s) \<Longrightarrow> sys_step bk s (s\<lparr>sy_world := w'\<rparr>)"

text \<open>A fresh database; nothing read, nothing running.\<close>

definition sys_init :: "sys \<Rightarrow> bool" where
  "sys_init s \<longleftrightarrow> tb_actions (sy_db s) = [] \<and> tb_approvals (sy_db s) = [] \<and> started_ids (sy_db s) = [] \<and>
     sy_seen s = [] \<and> sy_live s = []"

definition sys_reachable :: "broker \<Rightarrow> sys \<Rightarrow> bool" where
  "sys_reachable bk s \<longleftrightarrow> (\<exists>s0. sys_init s0 \<and> (sys_step bk)\<^sup>*\<^sup>* s0 s)"

definition sys_ok :: "broker \<Rightarrow> sys \<Rightarrow> bool" where
  "sys_ok bk s \<longleftrightarrow> act_ok (approvers_of bk) (act_view (sy_db s)) \<and>
     distinct (sy_live s) \<and> set (sy_live s) \<subseteq> set (started_ids (sy_db s)) \<and>
     (\<forall>row\<in>set (sy_seen s). \<exists>r\<in>set (tb_actions (sy_db s)). ac_id r = ac_id row \<and> ac_action_class r = ac_action_class row)"

section \<open>What no step takes back\<close>

lemma update_keeps:
  assumes "sets_status s f" "r \<in> set t"
  shows "\<exists>r'\<in>set (update_where P f t). ac_id r' = ac_id r \<and> ac_action_class r' = ac_action_class r"
  using assms(2) sets_statusD [OF assms(1)] by (cases "P r") (auto simp: set_update_where)

lemma act_step_keeps:
  "act_step ap st st' \<Longrightarrow>
   set (as_started st) \<subseteq> set (as_started st') \<and>
   (\<forall>r\<in>set (as_actions st). \<exists>r'\<in>set (as_actions st'). ac_id r' = ac_id r \<and> ac_action_class r' = ac_action_class r)"
  by (induction rule: act_step.induct) (auto simp: update_keeps)

lemma act_steps_keep:
  "(act_step ap)\<^sup>*\<^sup>* st st' \<Longrightarrow>
   set (as_started st) \<subseteq> set (as_started st') \<and>
   (\<forall>r\<in>set (as_actions st). \<exists>r'\<in>set (as_actions st'). ac_id r' = ac_id r \<and> ac_action_class r' = ac_action_class r)"
proof (induction rule: rtranclp_induct)
  case (step y z)
  from act_step_keeps [OF step(2)] step(3) show ?case by (metis subset_trans)
qed auto

lemma act_steps_ok: "(act_step ap)\<^sup>*\<^sup>* st st' \<Longrightarrow> act_ok ap st \<Longrightarrow> act_ok ap st'"
  by (induction rule: rtranclp_induct) (auto dest: act_step_ok)

lemma db_steps_act: "(db_step bk)\<^sup>*\<^sup>* d d' \<Longrightarrow> (act_step (approvers_of bk))\<^sup>*\<^sup>* (act_view d) (act_view d')"
  by (induction rule: rtranclp_induct) auto

section \<open>Every step of the system is a run of the abstract machine\<close>

lemma fresh_new_action: "fresh_action (new_action i rq a rk rs m inc pj aj key deadline now)"
  by (simp add: fresh_action_def new_action_def)

lemma sys_ok_seen:
  assumes "sys_ok bk s" "row \<in> set (sy_seen s)"
  shows "\<forall>x\<in>set (tb_actions (sy_db s)). ac_id x = ac_id row \<longrightarrow> ac_action_class x = ac_action_class row"
proof -
  from assms obtain r where r: "r \<in> set (tb_actions (sy_db s))" "ac_id r = ac_id row" "ac_action_class r = ac_action_class row"
    by (auto simp: sys_ok_def)
  have "x = r" if "x \<in> set (tb_actions (sy_db s))" "ac_id x = ac_id row" for x
    using actions.unique_mem_eq [of "tb_actions (sy_db s)" x r] assms(1) that r by (simp add: sys_ok_def act_ok_def)
  with r(3) show ?thesis by blast
qed

lemma sys_step_acts:
  assumes "sys_step bk s s'" "sys_ok bk s"
  shows "(act_step (approvers_of bk))\<^sup>*\<^sup>* (act_view (sy_db s)) (act_view (sy_db s'))"
  using assms
proof (induction rule: sys_step.cases)
  case (requests i rq a rk rs m inc pj aj key deadline now s res w')
  from requests(3) have "db_step bk (sy_db s) (w_db w')"
    by (rule store_action_step) (use requests(4) in \<open>simp_all add: fresh_new_action\<close>, simp_all add: new_action_def)
  with requests show ?case by auto
next
  case (refuses row s a res w')
  from refuse_pending_step [OF refuses(4)] refuses show ?case by auto
next
  case (checks row s a res w')
  from check_class_c_approval_step [OF checks(4) sys_ok_seen] checks show ?case by auto
next
  case (claims a i k s res w')
  from claim_action_step [OF claims(3)] claims show ?case by auto
next
  case (finishes i s a xr res w')
  then have "i \<in> set (started_ids (sy_db s))" by (auto simp: sys_ok_def)
  from finish_action_step [OF finishes(4) this] finishes show ?case by auto
next
  case (decides a rq i dc src sid rs now v s res w')
  then have "actions.unique (tb_actions (sy_db s))" by (simp add: sys_ok_def act_ok_def)
  from decide_in_transaction_step [OF decides(3) this] decides show ?case by auto
next
  case (restarts a s res w')
  then have "act_ok (approvers_of bk) (act_view (sy_db s))" by (simp add: sys_ok_def)
  from db_steps_act [OF recover_after_restart_steps [OF restarts(3) this]] restarts show ?case by simp
qed auto

lemma sys_ok_frame:
  assumes ok: "sys_ok bk s" and steps: "(act_step (approvers_of bk))\<^sup>*\<^sup>* (act_view (sy_db s)) (act_view (w_db w'))"
    and seen: "set seen \<subseteq> set (sy_seen s) \<union> set (tb_actions (w_db w'))"
    and live: "distinct live" "set live \<subseteq> set (started_ids (w_db w'))"
  shows "sys_ok bk \<lparr>sy_world = w', sy_seen = seen, sy_live = live\<rparr>"
proof -
  have "act_ok (approvers_of bk) (act_view (w_db w'))" using act_steps_ok [OF steps] ok by (simp add: sys_ok_def)
  moreover have "\<exists>r\<in>set (tb_actions (w_db w')). ac_id r = ac_id row \<and> ac_action_class r = ac_action_class row"
    if row: "row \<in> set seen" for row
  proof (cases "row \<in> set (tb_actions (w_db w'))")
    case False
    then obtain r where "r \<in> set (tb_actions (sy_db s))" "ac_id r = ac_id row" "ac_action_class r = ac_action_class row"
      using ok seen row unfolding sys_ok_def by blast
    with act_steps_keep [OF steps] show ?thesis by (metis act_view_simps(1))
  qed blast
  ultimately show ?thesis using live by (simp add: sys_ok_def)
qed

lemma claim_action_new:
  assumes "claim_action bk a i k w = (Inr u, w')" "act_ok ap (act_view (w_db w))"
  shows "i \<notin> set (started_ids (w_db w))"
proof -
  from assms(1) have "rowcount (\<lambda>r. ac_id r = i \<and> claimable_status r) (tb_actions (w_db w)) = 1"
    by (auto simp: claim_action_def op_simps)
  then obtain r where "r \<in> set (tb_actions (w_db w))" "ac_id r = i" "claimable_status r" using rowcount_one by blast
  with assms(2) show ?thesis by (auto simp: act_ok_def row_ok_def)
qed

lemma sys_step_ok:
  assumes "sys_step bk s s'" "sys_ok bk s"
  shows "sys_ok bk s'"
proof -
  note steps = sys_step_acts [OF assms]
  have live: "distinct (sy_live s)" "set (sy_live s) \<subseteq> set (started_ids (sy_db s'))"
    using assms(2) act_steps_keep [OF steps] by (auto simp: sys_ok_def)
  have "distinct (sy_live s') \<and> set (sy_live s') \<subseteq> set (started_ids (sy_db s'))"
    using assms(1)
  proof cases
    case (claims a i k res w')
    with claim_action_new [of bk a i k "sy_world s" "()" w' "approvers_of bk"] claim_action_step [OF claims(2)] assms(2) live
    show ?thesis by (auto simp: sys_ok_def)
  next
    case (finishes i a xr res w')
    with live show ?thesis using set_remove1_subset by fastforce
  qed (use live in auto)
  moreover have "set (sy_seen s') \<subseteq> set (sy_seen s) \<union> set (tb_actions (sy_db s'))"
    using assms(1) by cases auto
  ultimately show ?thesis using sys_ok_frame [OF assms(2) steps] by (cases s') auto
qed

lemma sys_init_ok: "sys_init s \<Longrightarrow> sys_ok bk s"
  by (simp add: sys_init_def sys_ok_def act_ok_def actions.unique_def)

lemma sys_steps_ok: "(sys_step bk)\<^sup>*\<^sup>* s s' \<Longrightarrow> sys_ok bk s \<Longrightarrow> sys_ok bk s'"
  by (induction rule: rtranclp_induct) (auto intro: sys_step_ok)

lemma reachable_ok: "sys_reachable bk s \<Longrightarrow> sys_ok bk s"
  unfolding sys_reachable_def by (metis sys_init_ok sys_steps_ok)

section \<open>A sample history\<close>

text \<open>A class C request, its approval by a configured approver and its start.\<close>

definition sample_action :: action_row where
  "sample_action = new_action ''a1'' request_1 ''hermes'' sample_change ''Renew the certificates'' None None ''{}'' None None
     (Some (seconds 62000001800)) (seconds 62000000000)"

definition sample_approval :: approval_row where
  "sample_approval = \<lparr>av_id = ''v1'', av_request_id = request_2, av_action_id = ''a1'', av_actor_id = ''zulip:8'',
     av_decision = ''approve'', av_source = ''zulip'', av_source_event_id = Some ''77'', av_reason = ''reviewed'',
     av_created_at = seconds 62000000600, av_expires_at = seconds 62000001800\<rparr>"

lemma started_logged [simp]:
  assumes "tb_audit_head (w_db w) \<noteq> None"
  shows "started_ids (w_db (logged rt now t a et i p w)) = started_ids (w_db w) @ (if t = ''action.started'' then [i] else [])"
  using assms by (auto simp: logged_def append_event_db Let_def started_ids_def)

lemma log_action_run [op_run]:
  assumes "tb_audit_head (w_db w) \<noteq> None"
  shows "log_action bk now t a i p w = (Inr (), logged (bk_rt bk) (isoformat now) t a ''action'' i p w)"
    and "op_bind (log_action bk now t a i p) f w = f () (logged (bk_rt bk) (isoformat now) t a ''action'' i p w)"
  using assms by (simp_all add: log_action_def op_run) (simp_all add: op_ret_def)

lemma sample_request_runs:
  obtains w where "store_action sample_broker sample_action sample_change empty_world = (Inr False, w)"
    "tb_actions (w_db w) = [sample_action]" "tb_approvals (w_db w) = []" "started_ids (w_db w) = []"
    "tb_audit_head (w_db w) \<noteq> None"
proof
  let ?w = "empty_world\<lparr>w_db := insert_action sample_action (apply_schema empty_db)\<rparr>"
  let ?p = "JDict [(''request_id'', JStr (ac_request_id sample_action)), (''runbook_id'', JStr (rk_id sample_change)),
                  (''project_id'', JStr (rk_project sample_change)), (''action_class'', JStr (rk_action_class sample_change))]"
  let ?l = "logged sample_runtime (isoformat (ac_created_at sample_action)) ''action.requested'' (ac_requested_by sample_action) ''action'' (ac_id sample_action) ?p ?w"
  have head: "tb_audit_head (w_db ?w) \<noteq> None" by (simp add: insert_action_def apply_schema_def empty_db_def)
  have "rk_action_class sample_change \<noteq> ''B''" by (simp add: sample_change_def)
  with head show "store_action sample_broker sample_action sample_change empty_world = (Inr False, ?l)"
    by (simp add: store_action_def reserve_budget_def op_run op_ret_def transaction_run)
  show "tb_actions (w_db ?l) = [sample_action]" "tb_approvals (w_db ?l) = []" "started_ids (w_db ?l) = []" "tb_audit_head (w_db ?l) \<noteq> None"
    using head by (simp_all add: insert_action_def apply_schema_def empty_db_def) (simp add: started_ids_def)
qed

lemma sample_approval_runs:
  assumes "tb_actions (w_db w) = [sample_action]" "tb_approvals (w_db w) = []" "started_ids (w_db w) = []"
    "tb_audit_head (w_db w) \<noteq> None"
  obtains w' res where
    "decide_in_transaction sample_broker ''zulip:8'' request_2 ''a1'' ''approve'' ''zulip'' (Some ''77'') ''reviewed''
       (seconds 62000000600) ''v1'' w = (Inr res, w')"
    "tb_actions (w_db w') = [set_action_status ''approved'' (seconds 62000000600) sample_action]"
    "tb_approvals (w_db w') = [sample_approval]" "started_ids (w_db w') = []" "tb_audit_head (w_db w') \<noteq> None"
proof -
  let ?w = "w\<lparr>w_db := update_actions (\<lambda>r. ac_id r = ''a1'' \<and> ac_status r = ''pending_approval'')
       (set_action_status ''approved'' (seconds 62000000600)) ((w_db w)\<lparr>tb_approvals := [sample_approval]\<rparr>)\<rparr>"
  let ?l = "logged sample_runtime (isoformat (seconds 62000000600)) ''approval.approved'' ''zulip:8'' ''action'' ''a1''
     (JDict [(''approval_id'', JStr ''v1''), (''request_id'', JStr request_2), (''source'', JStr ''zulip''),
             (''source_event_id'', JStr ''77'')]) ?w"
  have row: "ac_id sample_action = ''a1''" "ac_status sample_action = ''pending_approval''"
    "ac_approval_deadline sample_action = Some (seconds 62000001800)"
    by (simp_all add: sample_action_def new_action_def sample_change_def)
  have appr: "check_approver sample_broker ''zulip:8'' sample_action = Inr ()"
    by (simp add: check_approver_Inr sample_action_policy_def sample_action_def new_action_def sample_change_def)
  have rec: "record_decision sample_broker sample_approval w = (Inr (Decided (approval_dict sample_approval)), ?l)"
    using assms row unfolding record_decision_def Let_def
    by (simp add: op_run op_ret_def sample_approval_def rowcount_def update_actions_def opt_json_def)
  have "decide_in_transaction sample_broker ''zulip:8'' request_2 ''a1'' ''approve'' ''zulip'' (Some ''77'') ''reviewed''
       (seconds 62000000600) ''v1'' w = (Inr (Decided (approval_dict sample_approval)), ?l)"
    using assms row appr rec unfolding decide_in_transaction_def
    by (simp add: op_run transaction_run action_of_def prior_approval_def sample_approval_def)
  then show thesis
    by (rule that [of _ ?l]) (use assms row in \<open>simp_all add: update_actions_def\<close>)
qed

lemma sample_claim_runs:
  assumes "tb_actions (w_db w) = [r]" "ac_id r = ''a1''" "claimable_status r" "tb_audit_head (w_db w) \<noteq> None" "started_ids (w_db w) = []"
  obtains w' where "claim_action sample_broker ''hermes'' ''a1'' ''shared.change-request.v1'' w = (Inr (), w')"
    "started_ids (w_db w') = [''a1'']" "tb_actions (w_db w') = [set_action_status ''running'' (w_clock w (w_ticks w)) r]"
    "tb_approvals (w_db w') = tb_approvals (w_db w)"
proof -
  let ?w = "w\<lparr>w_ticks := Suc (w_ticks w), w_db := update_actions (\<lambda>r. ac_id r = ''a1'' \<and> claimable_status r)
       (set_action_status ''running'' (w_clock w (w_ticks w))) (w_db w)\<rparr>"
  let ?l = "logged sample_runtime (isoformat (w_clock w (w_ticks w))) ''action.started'' ''hermes'' ''action'' ''a1''
     (JDict [(''runbook_id'', JStr ''shared.change-request.v1'')]) ?w"
  have head: "tb_audit_head (w_db ?w) \<noteq> None" using assms(4) by (simp add: update_actions_def)
  then have "claim_action sample_broker ''hermes'' ''a1'' ''shared.change-request.v1'' w = (Inr (), ?l)"
    using assms(1-3) unfolding claim_action_def by (simp add: op_run transaction_run rowcount_def)
  then show thesis
    by (rule that [of ?l]) (use head assms in \<open>simp_all add: update_actions_def\<close>)
qed

abbreviation sample_sys :: sys where
  "sample_sys \<equiv> \<lparr>sy_world = empty_world, sy_seen = [], sy_live = []\<rparr>"

lemma sample_init: "sys_init sample_sys"
  by (simp add: sys_init_def apply_schema_def empty_db_def started_ids_def)

lemma sample_request_step:
  obtains w where "sys_step sample_broker sample_sys \<lparr>sy_world = w, sy_seen = [], sy_live = []\<rparr>"
    "tb_actions (w_db w) = [sample_action]" "tb_approvals (w_db w) = []" "started_ids (w_db w) = []" "tb_audit_head (w_db w) \<noteq> None"
proof -
  obtain w where run: "store_action sample_broker sample_action sample_change empty_world = (Inr False, w)"
    and tables: "tb_actions (w_db w) = [sample_action]" "tb_approvals (w_db w) = []" "started_ids (w_db w) = []" "tb_audit_head (w_db w) \<noteq> None"
    by (rule sample_request_runs)
  have "sys_step sample_broker sample_sys (sample_sys\<lparr>sy_world := w\<rparr>)"
    by (rule sys_step.requests) (use run in \<open>simp add: sample_action_def\<close>, simp add: apply_schema_def empty_db_def)
  with tables that show thesis by simp
qed

lemma sample_history:
  obtains s where "sys_reachable sample_broker s" "sy_live s = [''a1'']" "started_ids (sy_db s) = [''a1'']"
    "tb_approvals (sy_db s) = [sample_approval]"
    "map ac_status (tb_actions (sy_db s)) = [''running'']" "map ac_action_class (tb_actions (sy_db s)) = [''C'']"
    "map ac_id (tb_actions (sy_db s)) = [''a1'']"
proof -
  let ?sys = "\<lambda>w live. \<lparr>sy_world = w, sy_seen = [], sy_live = live\<rparr>"
  obtain w1 where 1: "sys_step sample_broker sample_sys (?sys w1 [])"
    "tb_actions (w_db w1) = [sample_action]" "tb_approvals (w_db w1) = []" "started_ids (w_db w1) = []" "tb_audit_head (w_db w1) \<noteq> None"
    by (rule sample_request_step)
  let ?r = "set_action_status ''approved'' (seconds 62000000600) sample_action"
  obtain w2 res where 2: "decide_in_transaction sample_broker ''zulip:8'' request_2 ''a1'' ''approve'' ''zulip'' (Some ''77'') ''reviewed''
       (seconds 62000000600) ''v1'' w1 = (Inr res, w2)" "tb_actions (w_db w2) = [?r]"
    "tb_approvals (w_db w2) = [sample_approval]" "started_ids (w_db w2) = []" "tb_audit_head (w_db w2) \<noteq> None"
    by (rule sample_approval_runs [OF 1(2-)])
  have row: "ac_id ?r = ''a1''" "claimable_status ?r" "ac_action_class ?r = ''C''"
    by (simp_all add: set_action_status_def sample_action_def new_action_def sample_change_def)
  obtain w3 where 3: "claim_action sample_broker ''hermes'' ''a1'' ''shared.change-request.v1'' w2 = (Inr (), w3)"
    "started_ids (w_db w3) = [''a1'']" "tb_actions (w_db w3) = [set_action_status ''running'' (w_clock w2 (w_ticks w2)) ?r]"
    "tb_approvals (w_db w3) = tb_approvals (w_db w2)"
    by (rule sample_claim_runs [OF 2(2) row(1,2) 2(5,4)])
  have "sys_step sample_broker (?sys w1 []) (?sys w2 [])" using sys_step.decides [of sample_broker _ _ _ _ _ _ _ _ _ "?sys w1 []"] 2(1) by fastforce
  moreover have "sys_step sample_broker (?sys w2 []) (?sys w3 [''a1''])" using sys_step.claims [of sample_broker _ _ _ "?sys w2 []"] 3(1) by fastforce
  ultimately have "(sys_step sample_broker)\<^sup>*\<^sup>* sample_sys (?sys w3 [''a1''])" using 1(1) by (metis (no_types) rtranclp.simps)
  then have "sys_reachable sample_broker (?sys w3 [''a1''])" using sample_init unfolding sys_reachable_def by blast
  then show thesis by (rule that) (use 2 3 row in \<open>simp_all add: set_action_status_def\<close>)
qed

section \<open>Safety of every interleaving\<close>

text \<open>
  C13. Refinement: whatever transaction runs next, for whatever handler and with whatever outcome, the
  tables of actions and approvals and the started commands change by steps of the abstract machine,
  and the invariant of the system is kept.
\<close>

theorem sys_step_refines:
  assumes "sys_step bk s s'" "sys_ok bk s"
  shows "(act_step (approvers_of bk))\<^sup>*\<^sup>* (act_view (sy_db s)) (act_view (sy_db s')) \<and> sys_ok bk s'"
  using sys_step_acts [OF assms] sys_step_ok [OF assms] by blast

theorem sys_step_refines_witness:
  "\<exists>s. sys_step sample_broker sample_sys s \<and> sys_ok sample_broker s \<and> tb_actions (sy_db s) = [sample_action]"
proof -
  obtain w where step: "sys_step sample_broker sample_sys \<lparr>sy_world = w, sy_seen = [], sy_live = []\<rparr>"
    and "tb_actions (w_db w) = [sample_action]" by (rule sample_request_step)
  with sys_step_refines [OF step sys_init_ok [OF sample_init]] show ?thesis by auto
qed

text \<open>
  C2. No command is started twice: in every reachable state each action has at most one start event,
  at most one command of it is running, an action that is still to be decided or claimed has not been
  started, and one that runs or ended has.
\<close>

theorem action_started_once:
  assumes "sys_reachable bk s"
  shows "distinct (started_ids (sy_db s)) \<and> distinct (sy_live s) \<and> set (sy_live s) \<subseteq> set (started_ids (sy_db s)) \<and>
    (\<forall>r\<in>set (tb_actions (sy_db s)).
       (ac_status r \<in> {''pending_approval'', ''authorized'', ''approved'', ''rejected'', ''budget_exhausted''} \<longrightarrow> ac_id r \<notin> set (started_ids (sy_db s))) \<and>
       (ac_status r \<in> {''running'', ''succeeded'', ''failed''} \<longrightarrow> ac_id r \<in> set (started_ids (sy_db s))))"
  using reachable_ok [OF assms] by (simp add: sys_ok_def act_ok_def row_ok_def)

theorem action_started_once_witness:
  "\<exists>s. sys_reachable sample_broker s \<and> started_ids (sy_db s) = [''a1''] \<and> distinct (started_ids (sy_db s)) \<and> sy_live s = [''a1'']"
proof -
  obtain s where s: "sys_reachable sample_broker s" "sy_live s = [''a1'']" "started_ids (sy_db s) = [''a1'']" by (rule sample_history)
  with action_started_once [OF s(1)] show ?thesis by blast
qed

text \<open>
  C1. A class C command starts only after a person approved it: in every reachable state, a started
  class C action has an approval by one of the configured approvers who is not the requester, and no
  action has more than one decision.
\<close>

theorem class_c_needs_approval:
  assumes "sys_reachable bk s" "r \<in> set (tb_actions (sy_db s))" "ac_action_class r = ''C''" "ac_id r \<in> set (started_ids (sy_db s))"
  shows "(\<exists>v\<in>set (tb_approvals (sy_db s)). av_action_id v = ac_id r \<and> av_decision v = ''approve'' \<and>
       av_actor_id v \<in> set (approvers_of bk) \<and> av_actor_id v \<noteq> ac_requested_by r) \<and>
    distinct (map av_action_id (tb_approvals (sy_db s)))"
  using reachable_ok [OF assms(1)] assms(2-) by (simp add: sys_ok_def act_ok_def row_ok_def approves_def)

theorem class_c_needs_approval_witness:
  "\<exists>s r. sys_reachable sample_broker s \<and> r \<in> set (tb_actions (sy_db s)) \<and> ac_action_class r = ''C'' \<and> ac_id r = ''a1'' \<and>
     (\<exists>v\<in>set (tb_approvals (sy_db s)). av_action_id v = ''a1'' \<and> av_decision v = ''approve'' \<and> av_actor_id v \<noteq> ac_requested_by r)"
proof -
  obtain s where s: "sys_reachable sample_broker s" "started_ids (sy_db s) = [''a1'']"
    "map ac_action_class (tb_actions (sy_db s)) = [''C'']" "map ac_id (tb_actions (sy_db s)) = [''a1'']" by (rule sample_history)
  then obtain r where r: "r \<in> set (tb_actions (sy_db s))" "ac_action_class r = ''C''" "ac_id r = ''a1''" by (auto simp: map_eq_Cons_conv)
  with class_c_needs_approval [OF s(1) r(1,2)] s show ?thesis by (metis list.set_intros(1))
qed

end
