(* ===== verification/Action_Handlers.thy ===== *)
theory Action_Handlers
  imports Action_Interleaving
begin

text \<open>
  The handlers \<^verbatim>\<open>request_action\<close>, \<^verbatim>\<open>execute_action\<close> and \<^verbatim>\<open>decide_approval\<close> of \<^verbatim>\<open>service.py\<close>, run alone,
  are runs of the system of transactions: no write of theirs to actions or approvals escapes it.
\<close>

section \<open>Statements that do not touch actions\<close>

abbreviation keeps_actions :: "'a op \<Rightarrow> bool" where
  "keeps_actions \<equiv> evolves (\<lambda>d d'. act_view d' = act_view d)"

interpretation act_frame: db_evolution "\<lambda>d d'. act_view d' = act_view d"
  by unfold_locales auto

lemma keeps_append_event:
  assumes "t \<noteq> ''action.started''"
  shows "keeps_actions (append_event rt now t a et i p)"
proof -
  have "act_view (w_db (snd (append_event rt now t a et i p w))) = act_view (w_db w)" for w
  proof (cases "tb_audit_head (w_db w) = None")
    case True
    then show ?thesis by (simp add: append_event_raise)
  next
    case False
    from append_event_view [OF append_event_logged [OF this] assms] append_event_logged [OF this] show ?thesis by simp
  qed
  then show ?thesis by (simp add: evolves_def)
qed

lemma keeps_execute: "keeps_actions (op_execute bk argv t m)"
  by (simp add: evolves_def op_execute_def)

lemma keeps_denial: "t \<noteq> ''action.started'' \<Longrightarrow> keeps_actions (audit_denial bk a t et i c rq)"
  unfolding audit_denial_def by (intro act_frame.ev_rules keeps_append_event)

lemma keeps_or_denial: "t \<noteq> ''action.started'' \<Longrightarrow> keeps_actions m \<Longrightarrow> keeps_actions (or_audit_denial bk P a t et i rq m)"
  unfolding or_audit_denial_def by (intro act_frame.ev_rules keeps_denial)

lemma keeps_check_integrity: "keeps_actions (check_integrity bk a rk row)"
  unfolding check_integrity_def integrity_conflict_def by (intro act_frame.ev_rules keeps_denial) simp_all

section \<open>Runs\<close>

text \<open>\<open>m\<close>, started in \<open>w\<close> by a handler that has read the rows \<open>S\<close>, is a run of the system.\<close>

definition run_at :: "broker \<Rightarrow> action_row set \<Rightarrow> 'a op \<Rightarrow> world \<Rightarrow> bool" where
  "run_at bk S m w \<longleftrightarrow> (\<forall>seen live. S \<subseteq> set seen \<longrightarrow>
     (\<exists>seen'. set seen \<subseteq> set seen' \<and>
        (sys_step bk)\<^sup>*\<^sup>* \<lparr>sy_world = w, sy_seen = seen, sy_live = live\<rparr> \<lparr>sy_world = snd (m w), sy_seen = seen', sy_live = live\<rparr>))"

lemma run_at_step:
  assumes "\<And>seen live. S \<subseteq> set seen \<Longrightarrow>
    sys_step bk \<lparr>sy_world = w, sy_seen = seen, sy_live = live\<rparr> \<lparr>sy_world = snd (m w), sy_seen = seen, sy_live = live\<rparr>"
  shows "run_at bk S m w"
  using assms unfolding run_at_def by blast

lemma run_at_keeps: "keeps_actions m \<Longrightarrow> run_at bk S m w"
  by (rule run_at_step)
    (use sys_step.others [of "snd (m w)" "\<lparr>sy_world = w, sy_seen = _, sy_live = _\<rparr>"] in \<open>simp add: evolves_def\<close>)

lemma run_at_bind:
  assumes m: "run_at bk S m w" and f: "\<And>x w'. m w = (Inr x, w') \<Longrightarrow> run_at bk S (f x) w'"
  shows "run_at bk S (op_bind m f) w"
proof (cases "m w")
  case (Pair r w')
  show ?thesis
  proof (cases r)
    case (Inl e)
    with Pair m show ?thesis by (simp add: run_at_def op_bind_def)
  next
    case (Inr x)
    have "run_at bk S (f x) w'" using f Pair Inr by simp
    moreover have "snd (op_bind m f w) = snd (f x w')" using Pair Inr by (simp add: op_bind_def)
    ultimately show ?thesis using m Pair unfolding run_at_def
      by (metis (no_types, lifting) rtranclp_trans snd_conv subset_trans)
  qed
qed

lemma run_at_keeps_bind:
  "keeps_actions m \<Longrightarrow> (\<And>x w'. m w = (Inr x, w') \<Longrightarrow> run_at bk S (f x) w') \<Longrightarrow> run_at bk S (op_bind m f) w"
  by (rule run_at_bind [OF run_at_keeps])

lemma run_at_read:
  assumes none: "run_at bk S (f None) w"
    and some: "\<And>r. r \<in> set (tb_actions (w_db w)) \<Longrightarrow> run_at bk (insert r S) (f (Some r)) w"
  shows "run_at bk S (op_bind (op_query (action_of i)) f) w"
proof (cases "action_of i (w_db w)")
  case None
  with none show ?thesis by (simp add: run_at_def op_run)
next
  case (Some r)
  note mem = action_of_Some [OF Some, THEN conjunct1]
  show ?thesis unfolding run_at_def
  proof (intro allI impI)
    fix seen live
    assume "S \<subseteq> set seen"
    then obtain seen' where "set (r # seen) \<subseteq> set seen'" "(sys_step bk)\<^sup>*\<^sup>* \<lparr>sy_world = w, sy_seen = r # seen, sy_live = live\<rparr>
        \<lparr>sy_world = snd (f (Some r) w), sy_seen = seen', sy_live = live\<rparr>"
      using some [OF mem] unfolding run_at_def by (metis (no_types) insert_mono list.simps(15))
    moreover have "sys_step bk \<lparr>sy_world = w, sy_seen = seen, sy_live = live\<rparr> \<lparr>sy_world = w, sy_seen = r # seen, sy_live = live\<rparr>"
      using sys_step.reads [of r "\<lparr>sy_world = w, sy_seen = seen, sy_live = live\<rparr>" bk] mem by simp
    ultimately show "\<exists>seen'. set seen \<subseteq> set seen' \<and> (sys_step bk)\<^sup>*\<^sup>* \<lparr>sy_world = w, sy_seen = seen, sy_live = live\<rparr>
        \<lparr>sy_world = snd (op_bind (op_query (action_of i)) f w), sy_seen = seen', sy_live = live\<rparr>"
      using Some by (auto simp: op_run intro: converse_rtranclp_into_rtranclp)
  qed
qed

section \<open>The handlers\<close>

lemma run_refuse_pending: "row \<in> S \<Longrightarrow> run_at bk S (refuse_pending bk a row) w"
  by (rule run_at_step)
    (use sys_step.refuses [of row "\<lparr>sy_world = w, sy_seen = _, sy_live = _\<rparr>" bk a "fst (refuse_pending bk a row w)"] in auto)

lemma run_check_class_c_approval: "row \<in> S \<Longrightarrow> run_at bk S (check_class_c_approval bk a row) w"
  by (rule run_at_step)
    (use sys_step.checks [of row "\<lparr>sy_world = w, sy_seen = _, sy_live = _\<rparr>" bk a "fst (check_class_c_approval bk a row w)"] in auto)

lemma run_refuse_by_status: "row \<in> S \<Longrightarrow> run_at bk S (refuse_by_status bk a row) w"
  unfolding refuse_by_status_def Let_def
  by (simp add: run_refuse_pending run_at_keeps act_frame.ev_raise act_frame.ev_raise_if)

text \<open>The end of a handler that returns or raises without a statement.\<close>

lemmas run_leaf = run_at_keeps [OF act_frame.ev_ret] run_at_keeps [OF act_frame.ev_raise] run_at_keeps [OF act_frame.ev_lift]

lemma run_at_if: "(c \<Longrightarrow> run_at bk S m w) \<Longrightarrow> (\<not> c \<Longrightarrow> run_at bk S n w) \<Longrightarrow> run_at bk S (if c then m else n) w"
  by simp

lemma run_checks:
  assumes "r \<in> S"
  shows "run_at bk S (op_bind (check_integrity bk a rk r) (\<lambda>argv. op_bind (refuse_by_status bk a r) (\<lambda>_.
      op_bind (check_class_c_approval bk a r) (\<lambda>_. op_ret (Inr (rk, argv)))))) w"
  using assms
  by (intro run_at_keeps_bind [OF keeps_check_integrity] run_at_bind run_refuse_by_status run_check_class_c_approval run_leaf)

lemma run_prepare_action: "run_at bk S (prepare_action bk a i) w"
  unfolding prepare_action_def
proof (rule run_at_keeps_bind [OF act_frame.ev_lift], rule run_at_read, goal_cases)
  case (2 x w' r)
  show ?case unfolding option.case
    by (rule run_at_keeps_bind, (intro act_frame.ev_rules keeps_denial keeps_or_denial; simp)[1])+
      (intro run_at_if run_checks run_at_keeps_bind [OF act_frame.ev_lift] run_leaf, simp)
qed (simp add: run_leaf)

text \<open>The claim and the run of the command: what was claimed is live until its result is recorded.\<close>

lemma run_claimed: "run_at bk S (op_bind (claim_action bk a i k) (\<lambda>_. run_action bk a i rk argv)) w"
  unfolding run_at_def
proof (intro allI impI)
  fix seen live
  let ?sys = "\<lambda>w live. \<lparr>sy_world = w, sy_seen = seen, sy_live = live\<rparr>"
  obtain r w1 where claim: "claim_action bk a i k w = (r, w1)" by fastforce
  have "(sys_step bk)\<^sup>*\<^sup>* (?sys w live) (?sys (snd (op_bind (claim_action bk a i k) (\<lambda>_. run_action bk a i rk argv) w)) live)"
  proof (cases r)
    case (Inl e)
    with claim sys_step.claims [of bk a i k "?sys w live" r w1] show ?thesis by (auto simp: op_bind_def)
  next
    case (Inr u)
    define w2 xr where "w2 = snd (op_execute bk (case argv of None \<Rightarrow> [] | Some a \<Rightarrow> a) (rk_timeout_seconds rk) (rk_output_max_bytes rk) w1)"
      and "xr = bound_result (rk_output_max_bytes rk)
        (bk_executor bk (length (w_runs w1)) (case argv of None \<Rightarrow> [] | Some a \<Rightarrow> a) (rk_timeout_seconds rk) (rk_output_max_bytes rk))"
    have end_w: "snd (op_bind (claim_action bk a i k) (\<lambda>_. run_action bk a i rk argv) w) = snd (finish_action bk a i xr w2)"
      using claim Inr by (simp add: op_bind_def run_action_def op_execute_def w2_def xr_def)
    have "sys_step bk (?sys w live) (?sys w1 (i # live))"
      using sys_step.claims [of bk a i k "?sys w live" r w1] claim Inr by simp
    moreover have "sys_step bk (?sys w1 (i # live)) (?sys w2 (i # live))"
      using sys_step.others [of w2 "?sys w1 (i # live)" bk] by (simp add: w2_def op_execute_def)
    moreover have "sys_step bk (?sys w2 (i # live)) (?sys (snd (finish_action bk a i xr w2)) live)"
      using sys_step.finishes [of i "?sys w2 (i # live)" bk a xr "fst (finish_action bk a i xr w2)"] by simp
    ultimately show ?thesis unfolding end_w by (meson converse_rtranclp_into_rtranclp rtranclp.rtrancl_refl)
  qed
  then show "\<exists>seen'. set seen \<subseteq> set seen' \<and> (sys_step bk)\<^sup>*\<^sup>* (?sys w live)
      \<lparr>sy_world = snd (op_bind (claim_action bk a i k) (\<lambda>_. run_action bk a i rk argv) w), sy_seen = seen', sy_live = live\<rparr>"
    by blast
qed

lemma run_execute_action: "run_at bk S (execute_action bk a i) w"
  unfolding execute_action_def
  by (intro run_at_bind run_prepare_action) (auto simp: run_leaf run_claimed split: sum.split)

lemma run_decide_in_transaction: "run_at bk S (decide_in_transaction bk a rq i dc src sid rs now v) w"
  by (rule run_at_step)
    (use sys_step.decides [of bk a rq i dc src sid rs now v "\<lparr>sy_world = w, sy_seen = _, sy_live = _\<rparr>"
        "fst (decide_in_transaction bk a rq i dc src sid rs now v w)"] in auto)

lemma run_decide_approval: "run_at bk S (decide_approval bk a rq i dc src sid rs) w"
  unfolding decide_approval_def
  by (rule run_at_keeps_bind, (intro act_frame.ev_rules; simp)[1])+
    (auto intro!: run_at_bind run_decide_in_transaction simp: run_leaf split: approval_outcome.split)

lemma run_store_action:
  assumes "i \<notin> ac_id ` set (tb_actions (w_db w))"
  shows "run_at bk S (store_action bk (new_action i rq a rk rs m inc pj aj key deadline now) rk) w"
  by (rule run_at_step)
    (use sys_step.requests [of bk i rq a rk rs m inc pj aj key deadline now "\<lparr>sy_world = w, sy_seen = _, sy_live = _\<rparr>"
        "fst (store_action bk (new_action i rq a rk rs m inc pj aj key deadline now) rk w)"] assms in auto)

text \<open>A check that returns leaves the world as it was.\<close>

lemma run_at_check_bind:
  assumes "keeps_actions m" "\<And>x w'. m w = (Inr x, w') \<Longrightarrow> w' = w" "\<And>x. run_at bk S (f x) w"
  shows "run_at bk S (op_bind m f) w"
  using assms by (intro run_at_keeps_bind) auto

lemma run_at_case:
  "(\<And>x y. run_at bk S (f x y) w) \<Longrightarrow> run_at bk S (case p of (x, y) \<Rightarrow> f x y) w"
  "run_at bk S n w \<Longrightarrow> (\<And>x. run_at bk S (g x) w) \<Longrightarrow> run_at bk S (case z of None \<Rightarrow> n | Some x \<Rightarrow> g x) w"
  by (auto split: prod.split option.split)

lemma run_after_store:
  "run_at bk S (op_bind (op_raise_if exhausted e) (\<lambda>_. if c then execute_action bk a i
     else op_bind (op_query (action_of i)) (\<lambda>row.
       case row of None \<Rightarrow> op_raise AssertionError | Some r \<Rightarrow> op_lift (action_public (bk_rt bk) r)))) w"
  by (intro run_at_keeps_bind [OF act_frame.ev_raise_if] run_at_if run_execute_action run_at_keeps act_frame.ev_rules)

lemma run_request_action:
  assumes fresh: "w_uuids w (w_drawn w) \<notin> ac_id ` set (tb_actions (w_db w))"
  shows "run_at bk S (request_action bk a rq rb ps rs inc m) w"
proof -
  have store: "run_at bk S (op_bind op_uuid4 (\<lambda>i. op_bind op_now (\<lambda>now.
         op_bind (op_lift (class_c_deadline bk rk now)) (\<lambda>deadline.
         op_bind (op_lift (budget_key rk validated)) (\<lambda>key.
         op_bind (store_action bk (new_action i rq' a rk rs' m inc' pj aj key deadline now) rk) (\<lambda>exhausted.
         op_bind (op_raise_if exhausted (BudgetExceeded i)) (\<lambda>_.
         if rk_action_class rk \<in> {''A'', ''B''} then execute_action bk a i
         else op_bind (op_query (action_of i)) (\<lambda>row.
              case row of None \<Rightarrow> op_raise AssertionError | Some r \<Rightarrow> op_lift (action_public (bk_rt bk) r)))))))))
      w" for rk validated rq' rs' inc' pj aj
    by (rule run_at_keeps_bind, (intro act_frame.ev_rules)[1])+
      (rule run_at_bind [OF run_store_action run_after_store], auto simp: op_simps fresh)
  show ?thesis unfolding request_action_def Let_def
    by (rule store run_at_check_bind run_at_case run_leaf, ((intro act_frame.ev_rules keeps_or_denial; simp)[1], (auto simp: op_simps)[1])?)+
qed

lemma run_at_reaches:
  assumes "run_at bk {} m (sy_world s)" "sys_reachable bk s"
  shows "\<exists>seen. sys_reachable bk \<lparr>sy_world = snd (m (sy_world s)), sy_seen = seen, sy_live = sy_live s\<rparr>"
proof -
  obtain seen' where "(sys_step bk)\<^sup>*\<^sup>* \<lparr>sy_world = sy_world s, sy_seen = sy_seen s, sy_live = sy_live s\<rparr>
      \<lparr>sy_world = snd (m (sy_world s)), sy_seen = seen', sy_live = sy_live s\<rparr>"
    using assms(1) unfolding run_at_def by blast
  then have "(sys_step bk)\<^sup>*\<^sup>* s \<lparr>sy_world = snd (m (sy_world s)), sy_seen = seen', sy_live = sy_live s\<rparr>" by (cases s) simp
  then show ?thesis using assms(2) unfolding sys_reachable_def by (blast intro: rtranclp_trans)
qed

text \<open>
  C14. The handlers are covered: a request, an execution or a decision served in a reachable state,
  whatever its arguments and however it ends, leads to a reachable state with the same commands
  running, provided the identifier a request draws is new.
\<close>

theorem handlers_stay_reachable:
  assumes "sys_reachable bk s"
    and "w_uuids (sy_world s) (w_drawn (sy_world s)) \<notin> ac_id ` set (tb_actions (sy_db s))"
    and "m \<in> {request_action bk a rq rb ps rs inc mi, execute_action bk a i, decide_approval bk a rq i dc src sid rs}"
  shows "\<exists>seen. sys_reachable bk \<lparr>sy_world = snd (m (sy_world s)), sy_seen = seen, sy_live = sy_live s\<rparr>"
proof -
  have "run_at bk {} m (sy_world s)"
    using assms(3) by (elim insertE emptyE) (simp_all add: run_request_action [OF assms(2)] run_execute_action run_decide_approval)
  then show ?thesis by (rule run_at_reaches [OF _ assms(1)])
qed

theorem handlers_stay_reachable_witness:
  "\<exists>seen. sys_reachable sample_broker \<lparr>sy_world =
     snd (request_action sample_broker ''hermes'' request_1 ''local.health.v1'' (JDict []) ''nightly check'' None None empty_world),
     sy_seen = seen, sy_live = []\<rparr>"
proof -
  have reach: "sys_reachable sample_broker sample_sys" using sample_init unfolding sys_reachable_def by blast
  have fresh: "w_uuids (sy_world sample_sys) (w_drawn (sy_world sample_sys)) \<notin> ac_id ` set (tb_actions (sy_db sample_sys))"
    using sample_init by (simp add: sys_init_def)
  show ?thesis using handlers_stay_reachable [OF reach fresh insertI1] by simp
qed

section \<open>A race the interleaving allows\<close>

text \<open>
  C27. When the approval a handler found has expired by its clock, the action becomes
  \<^verbatim>\<open>approval_expired\<close> whatever its status is by then: the update has no condition on the status, so an
  action that a concurrent call claimed meanwhile is overwritten while its command runs.
\<close>

theorem expiry_overwrites_running:
  assumes "ac_action_class row = ''C''" "latest_approval (ac_id row) (w_db w) = Some v"
    and "av_expires_at v \<le> w_clock w (w_ticks w)" "tb_audit_head (w_db w) \<noteq> None"
    and "r \<in> set (tb_actions (w_db w))" "ac_id r = ac_id row" "ac_status r = ''running''"
  shows "\<exists>w' r'. check_class_c_approval bk a row w = (Inl (ApprovalRequired ''the human approval expired''), w') \<and>
    r' \<in> set (tb_actions (w_db w')) \<and> ac_id r' = ac_id r \<and> ac_status r' = ''approval_expired''"
proof -
  let ?f = "set_action_status ''approval_expired'' (w_clock w (w_ticks w))"
  let ?w = "w\<lparr>w_ticks := Suc (w_ticks w), w_db := update_actions (\<lambda>r. ac_id r = ac_id row) ?f (w_db w)\<rparr>"
  have head: "tb_audit_head (w_db ?w) \<noteq> None" using assms(4) by (simp add: update_actions_def)
  define w' where "w' = logged (bk_rt bk) (isoformat (w_clock w (w_ticks w))) ''action.approval_expired'' a ''action'' (ac_id row)
     (JDict [(''decision'', JStr ''deny'')]) ?w"
  have "check_class_c_approval bk a row w = (Inl (ApprovalRequired ''the human approval expired''), w')"
    using assms(1-3) head unfolding check_class_c_approval_def w'_def
    by (simp add: op_run) (simp add: op_bind_def transaction_def op_exec_def log_action_run(1) op_raise_def)
  moreover have "?f r \<in> set (tb_actions (w_db w'))" "ac_id (?f r) = ac_id r" "ac_status (?f r) = ''approval_expired''"
    using assms(5,6) by (simp_all add: w'_def set_update_where set_action_status_def)
  ultimately show ?thesis by blast
qed

definition running_world :: world where
  "running_world = sample_world ((apply_schema empty_db)\<lparr>tb_actions := [set_action_status ''running'' 0 sample_action],
     tb_approvals := [sample_approval]\<rparr>)"

theorem expiry_overwrites_running_witness:
  "\<exists>w' r'. check_class_c_approval sample_broker ''hermes'' sample_action running_world =
       (Inl (ApprovalRequired ''the human approval expired''), w') \<and>
     r' \<in> set (tb_actions (w_db w')) \<and> ac_id r' = ''a1'' \<and> ac_status r' = ''approval_expired''"
proof -
  have row: "ac_action_class sample_action = ''C''" "ac_id sample_action = ''a1''"
    by (simp_all add: sample_action_def new_action_def sample_change_def)
  have "latest_approval (ac_id sample_action) (w_db running_world) = Some sample_approval"
    "av_expires_at sample_approval \<le> w_clock running_world (w_ticks running_world)"
    "tb_audit_head (w_db running_world) \<noteq> None"
    "set_action_status ''running'' 0 sample_action \<in> set (tb_actions (w_db running_world))"
    by (simp_all add: latest_approval_def running_world_def sample_world_def row sample_approval_def sample_clock_def apply_schema_def empty_db_def)
  from expiry_overwrites_running [OF row(1) this] row show ?thesis by (simp add: set_action_status_def)
qed

end
