(* ===== verification/Action_Budget.thy ===== *)
theory Action_Budget
  imports Action_Handlers Config_Correct
begin

text \<open>
  The class B budget of \<^verbatim>\<open>request_action\<close> as a bound on every window of time, and the bound on the
  output that \<^verbatim>\<open>execute_action\<close> keeps.
\<close>

section \<open>The budget of one request\<close>

lemma log_action_usage:
  "log_action bk now t a i p w = (Inr u, w') \<Longrightarrow>
   tb_budget_usage (w_db w') = tb_budget_usage (w_db w) \<and> tb_actions (w_db w') = tb_actions (w_db w)"
  using log_action_tables(2,4) by blast

lemma reserve_budget_B:
  assumes "reserve_budget bk a i rk (Some k) now w = (Inr exhausted, w')" "rk_action_class rk = ''B''" "rk_budget rk = Some b"
  shows "exhausted = (used_attempts k (now - seconds (bs_window_seconds b)) (w_db w) \<ge> bs_max_attempts b)"
    and "tb_budget_usage (w_db w') = (if exhausted then tb_budget_usage (w_db w)
       else tb_budget_usage (w_db w) @ [\<lparr>bu_budget_key = k, bu_action_id = i, bu_used_at = now\<rparr>])"
    and "tb_actions (w_db w') = (if exhausted
       then update_where (\<lambda>r. ac_id r = i) (set_action_status ''budget_exhausted'' now) (tb_actions (w_db w)) else tb_actions (w_db w))"
  using assms unfolding reserve_budget_def by (auto simp: op_simps split: if_splits dest!: log_action_usage)

lemma reserve_budget_other:
  "reserve_budget bk a i rk key now w = (Inr x, w') \<Longrightarrow> rk_action_class rk \<noteq> ''B'' \<Longrightarrow> w' = w"
  by (simp add: reserve_budget_def op_simps)

lemma store_action_Inr:
  assumes "store_action bk row rk w = (Inr x, w')"
  obtains w1 where "reserve_budget bk (ac_requested_by row) (ac_id row) rk (ac_budget_key row) (ac_created_at row) w1 = (Inr x, w')"
    "tb_budget_usage (w_db w1) = tb_budget_usage (w_db w)" "tb_actions (w_db w1) = tb_actions (w_db w) @ [row]"
proof -
  from assms obtain u w1 p where ev: "log_action bk (ac_created_at row) ''action.requested'' (ac_requested_by row) (ac_id row) p
      (w\<lparr>w_db := insert_action row (w_db w)\<rparr>) = (Inr u, w1)"
    and res: "reserve_budget bk (ac_requested_by row) (ac_id row) rk (ac_budget_key row) (ac_created_at row) w1 = (Inr x, w')"
    by (auto simp: store_action_def op_simps)
  from that [OF res] log_action_usage [OF ev] show thesis by (simp add: insert_action_def)
qed

text \<open>
  C20. A class B request is out of budget exactly when the attempts recorded for its key within the
  window reach the runbook's limit. Then the action is stored as \<^verbatim>\<open>budget_exhausted\<close> and uses nothing;
  otherwise it is stored as authorized and one attempt is recorded, in the same transaction.
\<close>

theorem class_b_budget_enforced:
  assumes "store_action bk row rk w = (Inr exhausted, w')" "rk_action_class rk = ''B''" "rk_budget rk = Some b"
    and "ac_budget_key row = Some k" "ac_id row \<notin> ac_id ` set (tb_actions (w_db w))"
  shows "exhausted = (used_attempts k (ac_created_at row - seconds (bs_window_seconds b)) (w_db w) \<ge> bs_max_attempts b) \<and>
    (if exhausted
     then tb_actions (w_db w') = tb_actions (w_db w) @ [set_action_status ''budget_exhausted'' (ac_created_at row) row] \<and>
       tb_budget_usage (w_db w') = tb_budget_usage (w_db w)
     else tb_actions (w_db w') = tb_actions (w_db w) @ [row] \<and>
       tb_budget_usage (w_db w') = tb_budget_usage (w_db w) @
         [\<lparr>bu_budget_key = k, bu_action_id = ac_id row, bu_used_at = ac_created_at row\<rparr>])"
proof -
  obtain w1 where res: "reserve_budget bk (ac_requested_by row) (ac_id row) rk (Some k) (ac_created_at row) w1 = (Inr exhausted, w')"
    and w1: "tb_budget_usage (w_db w1) = tb_budget_usage (w_db w)" "tb_actions (w_db w1) = tb_actions (w_db w) @ [row]"
    using store_action_Inr [OF assms(1)] assms(4) by metis
  have "used_attempts k c (w_db w1) = used_attempts k c (w_db w)" for c by (simp add: used_attempts_def w1)
  moreover have "update_where (\<lambda>r. ac_id r = ac_id row) f (tb_actions (w_db w)) = tb_actions (w_db w)" for f
    by (rule update_where_idem) (use assms(5) in \<open>metis imageI\<close>)
  ultimately show ?thesis using reserve_budget_B [OF res assms(2,3)] by (simp add: w1)
qed

definition restart_action :: action_row where
  "restart_action = new_action ''a2'' request_1 ''infra'' sample_restart ''service is stuck'' None None ''{}'' None
     (Some ''local.restart-once.v1:restart:ollama.service'') None (seconds 62000000000)"

theorem class_b_budget_enforced_witness:
  "\<exists>w'. store_action sample_broker restart_action sample_restart empty_world = (Inr False, w') \<and>
     tb_budget_usage (w_db w') = [\<lparr>bu_budget_key = ''local.restart-once.v1:restart:ollama.service'', bu_action_id = ''a2'',
       bu_used_at = seconds 62000000000\<rparr>]"
proof -
  have rk: "rk_action_class sample_restart = ''B''"
    "rk_budget sample_restart = Some \<lparr>bs_key_template = ''restart:{service}'', bs_max_attempts = 1, bs_window_seconds = 3600\<rparr>"
    by (simp_all add: sample_restart_def)
  have row: "ac_budget_key restart_action = Some ''local.restart-once.v1:restart:ollama.service''"
    "ac_id restart_action = ''a2''" "ac_created_at restart_action = seconds 62000000000"
    by (simp_all add: restart_action_def new_action_def)
  have db: "tb_actions (w_db empty_world) = []" "tb_budget_usage (w_db empty_world) = []" "tb_audit_head (w_db empty_world) \<noteq> None"
    by (simp_all add: apply_schema_def empty_db_def)
  have "is_ok (fst (store_action sample_broker restart_action sample_restart empty_world))"
    unfolding store_action_def reserve_budget_def row rk using db by (simp add: op_run insert_action_def used_attempts_def rowcount_def) blast
  then obtain x w' where run: "store_action sample_broker restart_action sample_restart empty_world = (Inr x, w')"
    by (metis prod.collapse)
  have "ac_id restart_action \<notin> ac_id ` set (tb_actions (w_db empty_world))" unfolding db by simp
  from class_b_budget_enforced [OF run rk row(1) this] db run show ?thesis
    by (auto simp: used_attempts_def rowcount_def row split: if_splits)
qed

section \<open>The budget over time\<close>

text \<open>In no interval as long as the window were there more attempts for the key than the limit.\<close>

definition within_budget :: "string \<Rightarrow> budget_spec \<Rightarrow> db \<Rightarrow> bool" where
  "within_budget k b d \<longleftrightarrow> (\<forall>t. int (rowcount (\<lambda>u. bu_budget_key u = k \<and> t - seconds (bs_window_seconds b) \<le> bu_used_at u \<and> bu_used_at u \<le> t)
     (tb_budget_usage d)) \<le> bs_max_attempts b)"

lemma rowcount_append: "rowcount P (xs @ ys) = rowcount P xs + rowcount P ys"
  by (simp add: rowcount_def)

lemma rowcount_mono: "(\<And>x. P x \<Longrightarrow> Q x) \<Longrightarrow> rowcount P xs \<le> rowcount Q xs"
  unfolding rowcount_def by (induction xs) auto

text \<open>
  The check of a request looks at all attempts since the window's start, so an attempt it lets
  through is within the budget in every interval, whatever the order of the clock's values.
\<close>

lemma within_budget_step:
  assumes ok: "within_budget k b d" and used: "used_attempts k (now - seconds (bs_window_seconds b)) d < bs_max_attempts b"
    and usage: "tb_budget_usage d' = tb_budget_usage d @ [\<lparr>bu_budget_key = k, bu_action_id = i, bu_used_at = now\<rparr>]"
  shows "within_budget k b d'"
  unfolding within_budget_def
proof
  fix t
  let ?W = "seconds (bs_window_seconds b)"
  let ?P = "\<lambda>u. bu_budget_key u = k \<and> t - ?W \<le> bu_used_at u \<and> bu_used_at u \<le> t"
  show "int (rowcount ?P (tb_budget_usage d')) \<le> bs_max_attempts b"
  proof (cases "now \<le> t")
    case True
    then have "rowcount ?P (tb_budget_usage d) \<le> rowcount (\<lambda>u. bu_budget_key u = k \<and> bu_used_at u \<ge> now - ?W) (tb_budget_usage d)"
      by (intro rowcount_mono) auto
    moreover have "rowcount ?P [\<lparr>bu_budget_key = k, bu_action_id = i, bu_used_at = now\<rparr>] \<le> 1" by (simp add: rowcount_def)
    ultimately show ?thesis using used by (simp add: usage rowcount_append used_attempts_def)
  next
    case False
    then have "rowcount ?P [\<lparr>bu_budget_key = k, bu_action_id = i, bu_used_at = now\<rparr>] = 0" by (simp add: rowcount_def)
    then show ?thesis using ok by (simp add: usage rowcount_append within_budget_def)
  qed
qed

lemma within_budget_usage: "tb_budget_usage d' = tb_budget_usage d \<Longrightarrow> within_budget k b d' = within_budget k b d"
  by (simp add: within_budget_def)

lemma within_budget_other:
  "tb_budget_usage d' = tb_budget_usage d @ [\<lparr>bu_budget_key = k', bu_action_id = i, bu_used_at = now\<rparr>] \<Longrightarrow> k' \<noteq> k \<Longrightarrow>
   within_budget k b d' = within_budget k b d"
  by (simp add: within_budget_def rowcount_append) (simp add: rowcount_def)

lemma store_action_within_budget:
  assumes store: "store_action bk row rk w = (r, w')" and ok: "within_budget k b (w_db w)"
    and key: "ac_budget_key row = Some k \<Longrightarrow> rk_budget rk = Some b"
  shows "within_budget k b (w_db w')"
proof (cases r)
  case (Inl e)
  with store ok show ?thesis by (auto simp: store_action_def dest: transaction_rollback)
next
  case (Inr x)
  obtain w1 where res: "reserve_budget bk (ac_requested_by row) (ac_id row) rk (ac_budget_key row) (ac_created_at row) w1 = (Inr x, w')"
    and w1: "tb_budget_usage (w_db w1) = tb_budget_usage (w_db w)"
    using store_action_Inr [OF store [unfolded Inr]] by metis
  have ok1: "within_budget k b (w_db w1)" using ok w1 by (simp add: within_budget_def)
  show ?thesis
  proof (cases "rk_action_class rk = ''B''")
    case False
    with reserve_budget_other [OF res] ok1 show ?thesis by simp
  next
    case True
    with res obtain k' b' where k': "ac_budget_key row = Some k'" "rk_budget rk = Some b'"
      by (auto simp: reserve_budget_def op_simps split: option.splits)
    note facts = reserve_budget_B [OF res [unfolded k'(1)] True k'(2)]
    show ?thesis
    proof (cases x)
      case True
      with facts(2) ok1 within_budget_usage [of "w_db w'" "w_db w1" k b] show ?thesis by simp
    next
      case False
      then have usage: "tb_budget_usage (w_db w') = tb_budget_usage (w_db w1) @
          [\<lparr>bu_budget_key = k', bu_action_id = ac_id row, bu_used_at = ac_created_at row\<rparr>]" using facts(2) by simp
      show ?thesis
      proof (cases "k' = k")
        case True
        then have "b' = b" using key k' by simp
        then show ?thesis using within_budget_step [OF ok1 _ usage [unfolded True]] facts(1) False True by simp
      qed (use within_budget_other [OF usage] ok1 in simp)
    qed
  qed
qed

text \<open>What a request does besides storing the action leaves the attempts alone.\<close>

abbreviation keeps_budget :: "string \<Rightarrow> budget_spec \<Rightarrow> 'a op \<Rightarrow> bool" where
  "keeps_budget k b \<equiv> evolves (\<lambda>d d'. within_budget k b d \<longrightarrow> within_budget k b d')"

interpretation budget_frame: db_evolution "\<lambda>d d'. within_budget k b d \<longrightarrow> within_budget k b d'" for k b
  by unfold_locales auto

lemma keeps_budget_usage: "(\<And>w. tb_budget_usage (w_db (snd (m w))) = tb_budget_usage (w_db w)) \<Longrightarrow> keeps_budget k b m"
  by (simp add: evolves_def within_budget_def)

lemma keeps_budget_append_event: "keeps_budget k b (append_event rt now t a et i p)"
proof (rule keeps_budget_usage)
  show "tb_budget_usage (w_db (snd (append_event rt now t a et i p w))) = tb_budget_usage (w_db w)" for w
    by (cases "tb_audit_head (w_db w) = None") (simp_all add: append_event_raise append_event_logged)
qed

lemma keeps_budget_update_actions: "keeps_budget k b (op_exec (update_actions P f))"
  by (rule keeps_budget_usage) (simp add: op_exec_def)

lemma keeps_budget_execute: "keeps_budget k b (op_execute bk argv t m)"
  by (rule keeps_budget_usage) (simp add: op_execute_def)

lemma keeps_budget_denial: "keeps_budget k b (audit_denial bk a t et i c rq)"
  unfolding audit_denial_def by (intro budget_frame.ev_rules keeps_budget_append_event)

lemma keeps_budget_or_denial: "keeps_budget k b m \<Longrightarrow> keeps_budget k b (or_audit_denial bk P a t et i rq m)"
  unfolding or_audit_denial_def by (intro budget_frame.ev_rules keeps_budget_denial)

lemmas budget_rules = budget_frame.ev_rules keeps_budget_append_event keeps_budget_update_actions keeps_budget_execute
  keeps_budget_denial keeps_budget_or_denial

lemma keeps_budget_execute_action: "keeps_budget k b (execute_action bk a i)"
  unfolding execute_action_def prepare_action_def check_integrity_def integrity_conflict_def refuse_by_status_def refuse_pending_def
    check_class_c_approval_def claim_action_def run_action_def finish_action_def log_action_def Let_def
  by (intro budget_rules)

lemma keeps_budget_bind_denial:
  assumes "\<And>x. r = Inr x \<Longrightarrow> keeps_budget k b (f x)"
  shows "keeps_budget k b (op_bind (or_audit_denial bk P a t et i rq (op_lift r)) f)"
proof (cases r)
  case (Inl e)
  have "keeps_budget k b (or_audit_denial bk P a t et i rq (op_lift r))" by (intro budget_rules)
  moreover have "snd (op_bind (or_audit_denial bk P a t et i rq (op_lift r)) f w) = snd (or_audit_denial bk P a t et i rq (op_lift r) w)" for w
  proof (cases "fst (or_audit_denial bk P a t et i rq (op_lift r) w)")
    case (Inr x)
    then have "or_audit_denial bk P a t et i rq (op_lift r) w = (Inr x, snd (or_audit_denial bk P a t et i rq (op_lift r) w))" by (metis prod.collapse)
    then show ?thesis by (simp add: or_audit_denial_Inr op_simps Inl)
  qed (auto simp: op_bind_def split: prod.splits)
  ultimately show ?thesis by (simp add: evolves_def)
next
  case (Inr x)
  have "op_bind (or_audit_denial bk P a t et i rq (op_lift r)) f = f x"
    by (simp add: Inr or_audit_denial_def op_catch_def op_lift_def op_bind_def fun_eq_iff)
  with assms Inr show ?thesis by simp
qed

lemma keeps_budget_store:
  assumes "key = Some k \<Longrightarrow> rk_budget rk = Some b"
  shows "keeps_budget k b (store_action bk (new_action i rq a rk rs m inc pj aj key deadline now) rk)"
  unfolding evolves_def
  by (intro allI impI, rule store_action_within_budget [OF prod.collapse [symmetric]]) (use assms in \<open>simp_all add: new_action_def\<close>)

lemma keeps_budget_request:
  assumes keys: "\<And>rk ps. registry_get (bk_registry bk) rb = Inr rk \<Longrightarrow> budget_key rk ps = Inr (Some k) \<Longrightarrow> rk_budget rk = Some b"
  shows "keeps_budget k b (request_action bk a rq rb ps rs inc m)"
proof -
  have store: "keeps_budget k b (op_bind op_uuid4 (\<lambda>i. op_bind op_now (\<lambda>now.
         op_bind (op_lift (class_c_deadline bk rk now)) (\<lambda>deadline.
         op_bind (op_lift (budget_key rk validated)) (\<lambda>key.
         op_bind (store_action bk (new_action i rq' a rk rs' m inc' pj aj key deadline now) rk) (\<lambda>exhausted.
         op_bind (op_raise_if exhausted (BudgetExceeded i)) (\<lambda>_.
         if rk_action_class rk \<in> {''A'', ''B''} then execute_action bk a i
         else op_bind (op_query (action_of i)) (\<lambda>row.
              case row of None \<Rightarrow> op_raise AssertionError | Some r \<Rightarrow> op_lift (action_public (bk_rt bk) r)))))))))"
    if "authorize_request bk a rb ps = Inr (rk, validated, argv)" for rk validated argv rq' rs' inc' pj aj
  proof -
    have get: "registry_get (bk_registry bk) rb = Inr rk" using that by (auto simp: authorize_request_def)
    show ?thesis
      by (rule budget_frame.ev_bind [OF budget_frame.ev_uuid4] budget_frame.ev_bind [OF budget_frame.ev_now] budget_frame.ev_bind_lift)+
        (rule budget_frame.ev_bind [OF keeps_budget_store], use keys [OF get] in blast,
         intro budget_frame.ev_bind [OF budget_frame.ev_raise_if] budget_frame.ev_if keeps_budget_execute_action budget_frame.ev_rules)
  qed
  show ?thesis unfolding request_action_def Let_def
    by (rule budget_frame.ev_bind_lift keeps_budget_bind_denial)+
      (clarsimp simp only: prod.case split_paired_all,
       intro budget_frame.ev_bind_lift budget_rules store, assumption)
qed

text \<open>
  C19. The budget holds over time: with a loaded registry, any action request, of whatever actor,
  runbook and parameters and however it ends, keeps every budget key of every class B runbook within
  that runbook's limit in each interval of the length of its window.
\<close>

theorem request_within_budget:
  assumes "registry_load xp files = Inr (bk_registry bk)"
    and "registry_get (bk_registry bk) rb0 = Inr rk0" "rk_budget rk0 = Some b" "budget_key rk0 ps0 = Inr (Some k)"
    and "within_budget k b (w_db w)" "request_action bk a rq rb ps rs inc m w = (r, w')"
  shows "within_budget k b (w_db w')"
proof -
  have ok: "registry_ok xp (bk_registry bk)" using registry_load_ok [OF assms(1)] by blast
  have "rk_budget rk = Some b" if "registry_get (bk_registry bk) rb = Inr rk" "budget_key rk ps = Inr (Some k)" for rk ps
  proof -
    have "rk_id rk = rb" "rk_id rk0 = rb0" "runbook_ok xp rk" "runbook_ok xp rk0"
      using registry_get_ok [OF ok] assms(2) that(1) by blast+
    then have "rb = rb0" using budget_key_id that(2) assms(4) by blast
    with that(1) assms(2,3) show ?thesis by simp
  qed
  then have "keeps_budget k b (request_action bk a rq rb ps rs inc m)" by (rule keeps_budget_request)
  with assms(5,6) show ?thesis unfolding evolves_def by (metis snd_conv)
qed

theorem request_within_budget_witness:
  "\<exists>k r w'. budget_key sample_restart [(''service'', JStr ''ollama.service'')] = Inr (Some k) \<and>
     request_action sample_broker ''infra'' request_1 ''local.restart-once.v1'' (JDict [(''service'', JStr ''ollama.service'')])
       ''service is stuck'' None None empty_world = (r, w') \<and>
     within_budget k \<lparr>bs_key_template = ''restart:{service}'', bs_max_attempts = 1, bs_window_seconds = 3600\<rparr> (w_db w')"
proof -
  let ?b = "\<lparr>bs_key_template = ''restart:{service}'', bs_max_attempts = 1, bs_window_seconds = 3600\<rparr>"
  obtain k where k: "budget_key sample_restart [(''service'', JStr ''ollama.service'')] = Inr (Some k)"
    using budget_key_total [OF load_runbook_ok [OF sample_restart_loaded] sample_restart_runs(1)]
    by (auto simp: sample_restart_def)
  have reg: "registry_load sample_executables sample_files = Inr (bk_registry sample_broker)" by (simp add: sample_registry_loaded)
  have get: "registry_get (bk_registry sample_broker) ''local.restart-once.v1'' = Inr sample_restart"
    by (simp add: registry_get_def sample_registry_def) (simp add: sample_health_def sample_restart_def sample_change_def)
  have b: "rk_budget sample_restart = Some ?b" by (simp add: sample_restart_def)
  have "within_budget k ?b (w_db empty_world)" by (simp add: within_budget_def apply_schema_def empty_db_def rowcount_def)
  from request_within_budget [OF reg get b k this] show ?thesis using k by (metis prod.collapse)
qed

section \<open>The output of a command\<close>

text \<open>
  C25. What is kept of a command's output is a prefix of the redacted output of at most the runbook's
  number of bytes, and the whole of it unless the result is marked as truncated; the return code and
  the timeout are those of the executor, and an executor that raised counts as a failure.
\<close>

theorem kept_output_bounded:
  "int (length (utf8_encode (xr_stdout (bound_result n raw)))) \<le> max 0 n \<and>
   int (length (utf8_encode (xr_stderr (bound_result n raw)))) \<le> max 0 n \<and>
   (case raw of
      None \<Rightarrow> xr_return_code (bound_result n raw) = -1 \<and> xr_stdout (bound_result n raw) = []
    | Some x \<Rightarrow>
        xr_return_code (bound_result n raw) = xr_return_code x \<and> xr_timed_out (bound_result n raw) = xr_timed_out x \<and>
        (\<exists>i j. xr_stdout (bound_result n raw) = take i (redact_text (xr_stdout x)) \<and>
               xr_stderr (bound_result n raw) = take j (redact_text (xr_stderr x))) \<and>
        (xr_truncated (bound_result n raw) \<or>
         xr_stdout (bound_result n raw) = redact_text (xr_stdout x) \<and> xr_stderr (bound_result n raw) = redact_text (xr_stderr x)))"
proof -
  have cut: "\<exists>i. truncate_bytes m s = take i s" for m s using truncate_bytes_prefix [of m s] by blast
  have bound: "int (length (utf8_encode (truncate_bytes (nat n) s))) \<le> max 0 n" for s
    using truncate_bytes_bound [of "nat n" s] by simp
  have whole: "truncate_bytes (nat n) s = s" if "\<not> int (length (utf8_encode s)) > n" for s
    by (rule truncate_bytes_id) (use that in linarith)
  have "redact_text [] = []" by code_simp
  then have "truncate_bytes (nat n) (redact_text []) = []" by (simp add: truncate_bytes_def)
  then show ?thesis
    using cut bound whole by (cases raw) (simp_all add: bound_result_def Let_def, blast)
qed

end
