(* ===== verification/Lease_Correct.thy ===== *)
theory Lease_Correct
  imports Broker_Leases Lifecycle_Correct
begin

text \<open>
  The mission queue and the resource locks of \<^verbatim>\<open>mission_control.py\<close>: who is given a mission, who may
  take a lock and what its fencing token is worth, and what a recovery leaves behind.
\<close>

section \<open>The queue\<close>

lemma claim_candidate_None: "claim_candidate projects now d = None \<longleftrightarrow> (\<forall>row\<in>set (joined_missions d). \<not> claimable projects now row)"
proof -
  have "claim_candidate projects now d = None \<longleftrightarrow> filter (claimable projects now) (joined_missions d) = []"
    by (metis (mono_tags, lifting) claim_candidate_def list.exhaust list.simps(4,5) option.distinct(1) length_0_conv length_sort)
  then show ?thesis by (simp add: filter_empty_conv)
qed


lemma append_event_tables:
  assumes "append_event rt ts t a et i p w = (Inr v, w')"
  shows "db_core (w_db w') = db_core (w_db w)"
  using log_only_core [OF append_event_log_only [OF assms]] .

lemmas event_tables = db_core_tables [OF append_event_tables]

lemma op_mission_Inr [op_simps]:
  "op_mission i w = (Inr row, w') \<longleftrightarrow> mission_join i (w_db w) = Some row \<and> w' = w"
  by (auto simp: op_mission_def op_simps split: option.splits)




lemma op_mission_run [op_run]: "mission_join i (w_db w) = Some row \<Longrightarrow> op_bind (op_mission i) f w = f row w"
  by (simp add: op_mission_def op_run)

text \<open>The sample mission under a lease that still runs.\<close>

definition leased_row :: runtime_row where
  "leased_row = take_claim ''infra'' (seconds 62000000000) (sample_clock 100) (default_runtime ''m1'' (seconds 62000000000))"

definition leased_world :: world where
  "leased_world = mission_world\<lparr>w_db := (w_db mission_world)\<lparr>tb_mission_runtime := [leased_row]\<rparr>\<rparr>"

lemma leased_row_simps [simp]:
  "mr_mission_id leased_row = ''m1''" "mr_queue_state leased_row = ''claimed''" "mr_lease_until leased_row = Some (sample_clock 100)"
  by (simp_all add: leased_row_def take_claim_def default_runtime_def)

lemma leased_world_simps [simp]:
  "tb_mission_runtime (w_db leased_world) = [leased_row]" "tb_missions (w_db leased_world) = [sample_mission]"
  "tb_mission_claim_operations (w_db leased_world) = []" "w_clock leased_world = sample_clock" "w_ticks leased_world = 0"
  by (simp_all add: leased_world_def)

lemma leased_not_claimable: "row \<in> set (joined_missions (w_db leased_world)) \<Longrightarrow> \<not> claimable ps (sample_clock 0) row"
  by (auto simp: joined_missions_def runtime_of_def List.map_filter_def claimable_def sample_clock_def)

lemma leased_claim_runs: "\<exists>w'. claim_next sample_broker ''hermes'' request_2 60 None leased_world = (Inr JNull, w')"
proof -
  have "claim_projects sample_broker ''hermes'' None = Inr [''infra-shared'']" by code_simp
  moreover have "claim_candidate [''infra-shared''] (sample_clock 0) (w_db leased_world) = None"
    using leased_not_claimable by (simp add: claim_candidate_None)
  ultimately show ?thesis unfolding claim_next_def claim_in_transaction_def
    by (simp add: op_run sample_facts check_lease_seconds_def transaction_run op_ret_def)
qed


section \<open>Resource locks\<close>

lemma lock_of_Some: "lock_of res d = Some l \<Longrightarrow> l \<in> set (tb_resource_locks d) \<and> lk_resource_id l = res"
  unfolding lock_of_def by (rule select_one_Some)

lemma lock_of_tables: "tb_resource_locks d' = tb_resource_locks d \<Longrightarrow> lock_of res d' = lock_of res d"
  by (simp add: lock_of_def)

lemma select_update_same:
  "select_one P t = Some r \<Longrightarrow> (\<And>x. P x \<Longrightarrow> P (f x)) \<Longrightarrow> select_one P (update_where P f t) = Some (f r)"
  by (induction t) (auto split: if_splits)

lemma select_update_other: "(\<And>x. Q x \<Longrightarrow> \<not> P x) \<Longrightarrow> (\<And>x. P x \<Longrightarrow> \<not> Q (f x)) \<Longrightarrow> select_one Q (update_where P f t) = select_one Q t"
  by (induction t) auto

lemma select_delete:
  "select_one P (delete_where P t) = None"
  "(\<And>x. Q x \<Longrightarrow> \<not> P x) \<Longrightarrow> select_one Q (delete_where P t) = select_one Q t"
  by (simp add: select_one_None) (induction t; auto simp: delete_where_def)

lemma lock_of_upsert: "lock_of (lk_resource_id l) (upsert_lock l d) = Some l"
  by (cases "lock_of (lk_resource_id l) d")
    (auto simp: upsert_lock_def lock_of_def select_one_append select_update_same)

lemma lock_of_upsert_other: "res \<noteq> lk_resource_id l \<Longrightarrow> lock_of res (upsert_lock l d) = lock_of res d"
  using select_update_other [of "\<lambda>x. lk_resource_id x = res" "\<lambda>r. lk_resource_id r = lk_resource_id l" "\<lambda>_. l"]
  by (auto simp: upsert_lock_def lock_of_def select_one_append split: option.split)

lemma unique_upsert:
  assumes "locks.unique (tb_resource_locks d)"
  shows "locks.unique (tb_resource_locks (upsert_lock l d))"
proof (cases "lock_of (lk_resource_id l) d")
  case None
  then have "lk_resource_id l \<notin> lk_resource_id ` set (tb_resource_locks d)" by (auto simp: lock_of_def select_one_None)
  with assms None show ?thesis by (simp add: upsert_lock_def locks.unique_append)
next
  case (Some x)
  have "map lk_resource_id (update_where (\<lambda>r. lk_resource_id r = lk_resource_id l) (\<lambda>_. l) t) = map lk_resource_id t" for t
    by (induction t) auto
  with assms Some show ?thesis by (simp add: upsert_lock_def locks.unique_def)
qed

text \<open>The lock that an acquisition stores.\<close>

definition taken_lock :: "string \<Rightarrow> string \<Rightarrow> string \<Rightarrow> string \<Rightarrow> instant \<Rightarrow> instant \<Rightarrow> lock_row option \<Rightarrow> lock_row" where
  "taken_lock a p m res now lease old =
     \<lparr>lk_resource_id = res, lk_project_id = p, lk_mission_id = m, lk_holder_actor_id = a,
      lk_fencing_token = (case old of None \<Rightarrow> 1 | Some l \<Rightarrow> if held_by m a l then lk_fencing_token l else lk_fencing_token l + 1),
      lk_acquired_at = now, lk_heartbeat_at = now, lk_lease_until = lease\<rparr>"

lemma acquire_lock_Inr:
  assumes "acquire_lock a p m res now lease w = (Inr v, w')"
  shows "(\<forall>l. lock_of res (w_db w) = Some l \<longrightarrow> lk_lease_until l \<le> now \<or> held_by m a l)"
    and "w' = w\<lparr>w_db := upsert_lock (taken_lock a p m res now lease (lock_of res (w_db w))) (w_db w)\<rparr>"
    and "v = lock_public (taken_lock a p m res now lease (lock_of res (w_db w)))"
proof -
  let ?l = "taken_lock a p m res now lease (lock_of res (w_db w))"
  have "lock_of res (upsert_lock ?l (w_db w)) = Some ?l" using lock_of_upsert [of ?l] by (simp add: taken_lock_def)
  then show "(\<forall>l. lock_of res (w_db w) = Some l \<longrightarrow> lk_lease_until l \<le> now \<or> held_by m a l)"
    "w' = w\<lparr>w_db := upsert_lock ?l (w_db w)\<rparr>" "v = lock_public ?l"
    using assms by (auto simp: acquire_lock_def op_simps taken_lock_def [symmetric] Let_def)
qed

lemma lock_operation_Inr:
  assumes "resource_lock_operation bk a rq m res oper n w = (Inr v, w')" "uuid_canon rq = Some rq'"
    and "\<forall>r\<in>set (tb_resource_lock_operations (w_db w)). lo_request_id r \<noteq> rq'"
  obtains p result w1 where "require_lifecycle (bk_rbac bk) a p ''resource.lock'' = Inr ()" "v = JDict result"
    "(if oper = ''acquire'' then acquire_lock a p m res (w_clock w (w_ticks w)) (w_clock w (w_ticks w) + seconds n)
      else renew_or_release_lock a m res oper (w_clock w (w_ticks w)) (w_clock w (w_ticks w) + seconds n))
       (w\<lparr>w_ticks := Suc (w_ticks w)\<rparr>) = (Inr result, w1)"
    "tb_resource_locks (w_db w') = tb_resource_locks (w_db w1)"
proof -
  have prior: "select_one (\<lambda>r. lo_request_id r = rq') (tb_resource_lock_operations (w_db w)) = None"
    using assms(3) by (simp add: select_one_None)
  show thesis
  proof (cases "oper = ''acquire''")
    case True
    show thesis using assms(1,2) prior that unfolding resource_lock_operation_def True
      by (auto simp: op_simps dest!: event_tables(12))
  next
    case False
    show thesis using assms(1,2) prior that unfolding resource_lock_operation_def if_not_P [OF False]
      by (auto simp: op_simps dest!: event_tables(12))
  qed
qed

text \<open>
  C21. An acquisition succeeds only when the resource is free, its lease ran out, or the caller's
  mission already holds it; afterwards the caller's mission holds it for the whole lease. The fencing
  token stays with the holder and grows by one when the lock changes hands. No other lock changes and
  a resource never has two.
\<close>

theorem acquire_excludes_others:
  assumes "acquire_resource_lock bk a rq m res n w = (Inr v, w')" "uuid_canon rq = Some rq'"
    and "\<forall>r\<in>set (tb_resource_lock_operations (w_db w)). lo_request_id r \<noteq> rq'"
    and "locks.unique (tb_resource_locks (w_db w))" "now = w_clock w (w_ticks w)"
  shows "\<exists>l. lock_of res (w_db w') = Some l \<and> held_by m a l \<and> lk_lease_until l = now + seconds n \<and> v = JDict (lock_public l) \<and>
    (case lock_of res (w_db w) of
       None \<Rightarrow> lk_fencing_token l = 1
     | Some old \<Rightarrow> if held_by m a old then lk_fencing_token l = lk_fencing_token old
                   else lk_lease_until old \<le> now \<and> lk_fencing_token l = lk_fencing_token old + 1) \<and>
    locks.unique (tb_resource_locks (w_db w')) \<and>
    (\<forall>other. other \<noteq> res \<longrightarrow> lock_of other (w_db w') = lock_of other (w_db w))"
proof -
  from assms(1) have "resource_lock_operation bk a rq m res ''acquire'' n w = (Inr v, w')" by (simp add: acquire_resource_lock_def)
  from this assms(2,3) obtain p result w1 where "v = JDict result"
    and run: "acquire_lock a p m res now (now + seconds n) (w\<lparr>w_ticks := Suc (w_ticks w)\<rparr>) = (Inr result, w1)"
    and tables: "tb_resource_locks (w_db w') = tb_resource_locks (w_db w1)"
    by (rule lock_operation_Inr) (simp add: assms(5))
  define l where "l = taken_lock a p m res now (now + seconds n) (lock_of res (w_db w))"
  have w1: "tb_resource_locks (w_db w') = tb_resource_locks (upsert_lock l (w_db w))" "v = JDict (lock_public l)"
    and free: "\<forall>l. lock_of res (w_db w) = Some l \<longrightarrow> lk_lease_until l \<le> now \<or> held_by m a l"
    using acquire_lock_Inr [OF run] tables \<open>v = JDict result\<close> by (auto simp: l_def)
  have res: "lk_resource_id l = res" by (simp add: l_def taken_lock_def)
  have "lock_of res (w_db w') = Some l"
    using lock_of_upsert [of l "w_db w"] res lock_of_tables [OF w1(1)] by simp
  moreover have "\<forall>other. other \<noteq> res \<longrightarrow> lock_of other (w_db w') = lock_of other (w_db w)"
    using lock_of_upsert_other [of _ l "w_db w"] res lock_of_tables [OF w1(1)] by simp
  moreover have "locks.unique (tb_resource_locks (w_db w'))" using unique_upsert [OF assms(4)] w1(1) by simp
  moreover have "held_by m a l" "lk_lease_until l = now + seconds n" by (simp_all add: l_def taken_lock_def held_by_def)
  moreover have "case lock_of res (w_db w) of None \<Rightarrow> lk_fencing_token l = 1
     | Some old \<Rightarrow> if held_by m a old then lk_fencing_token l = lk_fencing_token old
                   else lk_lease_until old \<le> now \<and> lk_fencing_token l = lk_fencing_token old + 1"
    using free by (auto simp: l_def taken_lock_def split: option.split)
  ultimately show ?thesis using w1(2) by blast
qed

lemma renew_or_release_Inr:
  assumes "renew_or_release_lock a m res oper now lease w = (Inr v, w')"
  obtains l where "lock_of res (w_db w) = Some l" "held_by m a l"
    "tb_resource_locks (w_db w') = (if oper = ''renew''
       then update_where (\<lambda>r. lk_resource_id r = res) (\<lambda>r. r\<lparr>lk_heartbeat_at := now, lk_lease_until := lease\<rparr>) (tb_resource_locks (w_db w))
       else delete_where (\<lambda>r. lk_resource_id r = res) (tb_resource_locks (w_db w)))"
  using assms by (auto simp: renew_or_release_lock_def op_simps split: option.splits if_splits)

lemma lock_operation_Inl: "resource_lock_operation bk a rq m res oper n w = (Inl e, w') \<Longrightarrow> w_db w' = w_db w"
  by (auto simp: resource_lock_operation_def op_bind_Inl op_lift_def op_raise_if_def op_now_def dest: transaction_rollback)

lemma lock_operation_replay:
  assumes "resource_lock_operation bk a rq m res oper n w = (Inr v, w')" "uuid_canon rq = Some rq'"
    and "\<not> (\<forall>r\<in>set (tb_resource_lock_operations (w_db w)). lo_request_id r \<noteq> rq')"
  shows "w_db w' = w_db w"
proof -
  have "select_one (\<lambda>r. lo_request_id r = rq') (tb_resource_lock_operations (w_db w)) \<noteq> None"
    using assms(3) by (auto simp: select_one_None)
  with assms(1,2) show ?thesis by (auto simp: resource_lock_operation_def op_simps split: if_splits)
qed

text \<open>
  C22. A lock whose lease still runs is nobody else's: whatever lock operation another mission or actor
  performs, on whatever resource and however it ends, the lock stays exactly as it was.
\<close>

theorem live_lock_kept:
  assumes "resource_lock_operation bk a rq m res' oper n w = (r, w')"
    and "lock_of res (w_db w) = Some l" "w_clock w (w_ticks w) < lk_lease_until l" "\<not> held_by m a l"
  shows "lock_of res (w_db w') = Some l"
proof (cases r)
  case (Inl e)
  with assms(1,2) lock_operation_Inl show ?thesis by metis
next
  case (Inr v)
  note run = assms(1) [unfolded Inr]
  from run obtain rq' where rq: "uuid_canon rq = Some rq'" by (auto simp: resource_lock_operation_def op_simps)
  show ?thesis
  proof (cases "\<forall>r\<in>set (tb_resource_lock_operations (w_db w)). lo_request_id r \<noteq> rq'")
    case False
    from lock_operation_replay [OF run rq this] assms(2) show ?thesis by simp
  next
    case True
    from run rq True obtain p result w1 where
      inner: "(if oper = ''acquire'' then acquire_lock a p m res' (w_clock w (w_ticks w)) (w_clock w (w_ticks w) + seconds n)
        else renew_or_release_lock a m res' oper (w_clock w (w_ticks w)) (w_clock w (w_ticks w) + seconds n))
         (w\<lparr>w_ticks := Suc (w_ticks w)\<rparr>) = (Inr result, w1)"
      and tables: "tb_resource_locks (w_db w') = tb_resource_locks (w_db w1)"
      by (rule lock_operation_Inr)
    have "lock_of res (w_db w1) = Some l"
    proof (cases "oper = ''acquire''")
      case True
      note acq = acquire_lock_Inr [OF inner [unfolded if_P [OF True]]]
      have "res \<noteq> res'" using acq(1) assms(2-4) by auto
      then show ?thesis using acq(2) assms(2) by (simp add: lock_of_upsert_other taken_lock_def)
    next
      case False
      from inner [unfolded if_not_P [OF False]] obtain l' where l': "lock_of res' (w_db w) = Some l'" "held_by m a l'"
        and w1: "tb_resource_locks (w_db w1) = (if oper = ''renew''
           then update_where (\<lambda>r. lk_resource_id r = res') (\<lambda>r. r\<lparr>lk_heartbeat_at := w_clock w (w_ticks w), lk_lease_until := w_clock w (w_ticks w) + seconds n\<rparr>) (tb_resource_locks (w_db w))
           else delete_where (\<lambda>r. lk_resource_id r = res') (tb_resource_locks (w_db w)))"
        by (rule renew_or_release_Inr) simp
      have "res \<noteq> res'" using l' assms(2,4) by auto
      then show ?thesis using w1 assms(2) by (auto simp: lock_of_def select_update_other select_delete split: if_splits)
    qed
    with lock_of_tables [OF tables] show ?thesis by simp
  qed
qed

text \<open>A sample lock, taken by the sample mission.\<close>

definition sample_lock :: lock_row where
  "sample_lock = taken_lock ''hermes'' ''infra-shared'' ''m1'' ''host:gpu'' (sample_clock 0) (sample_clock 0 + seconds 60) None"

definition sample_lock_column :: string where
  "sample_lock_column = (case json_column (JDict (lock_public sample_lock)) of Inl _ \<Rightarrow> [] | Inr t \<Rightarrow> t)"

lemma sample_lock_stored: "json_column (JDict (lock_public sample_lock)) = Inr sample_lock_column"
proof -
  have "case json_column (JDict (lock_public sample_lock)) of Inl _ \<Rightarrow> False | Inr _ \<Rightarrow> True" by code_simp
  then show ?thesis by (auto simp: sample_lock_column_def split: sum.splits)
qed

lemma mission_world_join [simp]: "mission_join ''m1'' (w_db mission_world) = Some (sample_mission, default_runtime ''m1'' (seconds 62000000000))"
  by (simp add: mission_join_def runtime_of_def default_runtime_def)

theorem acquire_excludes_others_witness:
  "\<exists>v w' l. acquire_resource_lock sample_broker ''hermes'' request_2 ''m1'' ''host:gpu'' 60 mission_world = (Inr v, w') \<and>
     lock_of ''host:gpu'' (w_db w') = Some l \<and> held_by ''m1'' ''hermes'' l \<and> lk_fencing_token l = 1"
proof -
  have free: "lock_of ''host:gpu'' (w_db mission_world) = None" by (simp add: lock_of_def)
  have taken: "lock_of ''host:gpu'' (upsert_lock sample_lock (w_db mission_world)) = Some sample_lock"
    using lock_of_upsert [of sample_lock] by (simp add: sample_lock_def taken_lock_def)
  have "rx_fullmatch RESOURCE_ID ''host:gpu''" by code_simp
  then have "is_ok (fst (acquire_resource_lock sample_broker ''hermes'' request_2 ''m1'' ''host:gpu'' 60 mission_world))"
    unfolding acquire_resource_lock_def resource_lock_operation_def acquire_lock_def Let_def using free taken sample_lock_stored
    by (simp add: op_run sample_facts check_lease_seconds_def taken_lock_def sample_lock_def upsert_lock_def)
  then obtain v w' where run: "acquire_resource_lock sample_broker ''hermes'' request_2 ''m1'' ''host:gpu'' 60 mission_world = (Inr v, w')"
    by (metis prod.collapse)
  have new: "\<forall>r\<in>set (tb_resource_lock_operations (w_db mission_world)). lo_request_id r \<noteq> request_2"
    and unique: "locks.unique (tb_resource_locks (w_db mission_world))" by (simp_all add: locks.unique_def)
  from acquire_excludes_others [OF run sample_uuids(2) new unique refl] free run show ?thesis by auto
qed

definition lock_world :: world where
  "lock_world = mission_world\<lparr>w_db := upsert_lock sample_lock (w_db mission_world)\<rparr>"

theorem live_lock_kept_witness:
  "\<exists>r w'. resource_lock_operation sample_broker ''infra'' request_2 ''m1'' ''host:gpu'' ''acquire'' 60 lock_world = (r, w') \<and>
     lock_of ''host:gpu'' (w_db w') = Some sample_lock"
proof -
  obtain r w' where run: "resource_lock_operation sample_broker ''infra'' request_2 ''m1'' ''host:gpu'' ''acquire'' 60 lock_world = (r, w')"
    by fastforce
  have "lock_of ''host:gpu'' (w_db lock_world) = Some sample_lock"
    using lock_of_upsert [of sample_lock] by (simp add: lock_world_def sample_lock_def taken_lock_def)
  moreover have "w_clock lock_world (w_ticks lock_world) < lk_lease_until sample_lock" "\<not> held_by ''m1'' ''infra'' sample_lock"
    by (simp_all add: lock_world_def sample_lock_def taken_lock_def held_by_def)
  ultimately show ?thesis using live_lock_kept [OF run] run by blast
qed

section \<open>Where the leases fall short\<close>

text \<open>
  The fencing token does not survive a release: whoever takes the lock next is given token 1 again,
  which an earlier holder already had.
\<close>

theorem fencing_token_restarts:
  assumes "renew_or_release_lock a m res ''release'' now lease w = (Inr v, w1)"
    and "acquire_lock a' p m' res now' lease' w1 = (Inr v', w2)"
  shows "\<exists>l. lock_of res (w_db w2) = Some l \<and> lk_fencing_token l = 1"
proof -
  have "tb_resource_locks (w_db w1) = delete_where (\<lambda>r. lk_resource_id r = res) (tb_resource_locks (w_db w))"
    using assms(1) by (rule renew_or_release_Inr) simp
  then have "lock_of res (w_db w1) = None" by (simp add: lock_of_def select_delete)
  then have "w2 = w1\<lparr>w_db := upsert_lock (taken_lock a' p m' res now' lease' None) (w_db w1)\<rparr>"
    using acquire_lock_Inr(2) [OF assms(2)] by simp
  then show ?thesis using lock_of_upsert [of "taken_lock a' p m' res now' lease' None" "w_db w1"] by (simp add: taken_lock_def)
qed

theorem fencing_token_restarts_witness:
  "\<exists>v w1 v' w2. renew_or_release_lock ''hermes'' ''m1'' ''host:gpu'' ''release'' 0 0 lock_world = (Inr v, w1) \<and>
     acquire_lock ''infra'' ''infra-shared'' ''m2'' ''host:gpu'' 0 0 w1 = (Inr v', w2) \<and>
     (\<exists>l. lock_of ''host:gpu'' (w_db w2) = Some l \<and> lk_fencing_token l = 1)"
proof -
  have lock: "lock_of ''host:gpu'' (w_db lock_world) = Some sample_lock"
    using lock_of_upsert [of sample_lock] by (simp add: lock_world_def sample_lock_def taken_lock_def)
  then have "is_ok (fst (renew_or_release_lock ''hermes'' ''m1'' ''host:gpu'' ''release'' 0 0 lock_world))"
    by (simp add: renew_or_release_lock_def op_run sample_lock_def taken_lock_def held_by_def)
  then obtain v w1 where 1: "renew_or_release_lock ''hermes'' ''m1'' ''host:gpu'' ''release'' 0 0 lock_world = (Inr v, w1)"
    by (metis prod.collapse)
  then have "lock_of ''host:gpu'' (w_db w1) = None"
    by (rule renew_or_release_Inr) (simp add: lock_of_def select_delete)
  then have "is_ok (fst (acquire_lock ''infra'' ''infra-shared'' ''m2'' ''host:gpu'' 0 0 w1))"
    using lock_of_upsert [of "taken_lock ''infra'' ''infra-shared'' ''m2'' ''host:gpu'' 0 0 None" "w_db w1"]
    by (simp add: acquire_lock_def op_run taken_lock_def)
  then obtain v' w2 where 2: "acquire_lock ''infra'' ''infra-shared'' ''m2'' ''host:gpu'' 0 0 w1 = (Inr v', w2)"
    by (metis prod.collapse)
  from fencing_token_restarts [OF 1 2] 1 2 show ?thesis by blast
qed

lemma dict_set_keeps: "(k', v') \<in> set d \<Longrightarrow> k' \<noteq> k \<Longrightarrow> (k', v') \<in> set (dict_set k v d)"
  by (induction k v d rule: dict_set.induct) auto

lemma json_column_Inr: "json_column v = Inr t \<Longrightarrow> t = canonical_json (scrub_payload v)"
  by (simp add: json_column_def Let_def split: if_splits)

text \<open>
  The result of a lock operation is stored scrubbed, and the key of the fencing token is a
  sensitive name: a retry of the same request answers with the marker in place of the token.
\<close>

theorem lock_replay_hides_token:
  assumes "json_column (JDict (lock_public l)) = Inr t"
  shows "\<exists>d. replay_result rt t = Inr (JDict d) \<and> (''fencing_token'', JStr ''[REDACTED]'') \<in> set d"
proof -
  have sensitive: "contains_sensitive_name ''fencing_token''" by code_simp
  obtain d where d: "scrub_payload (JDict (lock_public l)) = JDict d" "(''fencing_token'', JStr ''[REDACTED]'') \<in> set d"
    by (simp add: lock_public_def sensitive)
  have "json_ok (rt_frepr rt) (JDict (lock_public l))" by (simp add: lock_public_def)
  then have ok: "json_ok (rt_frepr rt) (JDict d)" using json_ok_scrub_payload d(1) by metis
  have "t = canonical_json (JDict d)" using json_column_Inr [OF assms] d(1) by (simp only:)
  then have "loads_column rt t = Inr (json_sorted (JDict d))" using canonical.dec_enc [OF ok] by (simp add: loads_column_def)
  then have "replay_result rt t = Inr (JDict (dict_set ''replayed'' (JBool True) (sort_key fst (map (\<lambda>(k, v). (k, json_sorted v)) d))))"
    by (simp add: replay_result_def mark_replayed_def)
  moreover have "(''fencing_token'', JStr ''[REDACTED]'') \<in> set (sort_key fst (map (\<lambda>(k, v). (k, json_sorted v)) d))"
    using imageI [OF d(2), of "\<lambda>(k, v). (k, json_sorted v)"] by simp
  then have "(''fencing_token'', JStr ''[REDACTED]'') \<in> set (dict_set ''replayed'' (JBool True) (sort_key fst (map (\<lambda>(k, v). (k, json_sorted v)) d)))"
    by (rule dict_set_keeps) simp
  ultimately show ?thesis by blast
qed

theorem lock_replay_hides_token_witness:
  "\<exists>d. replay_result sample_runtime sample_lock_column = Inr (JDict d) \<and> (''fencing_token'', JStr ''[REDACTED]'') \<in> set d"
  using lock_replay_hides_token [OF sample_lock_stored] by blast

lemma replay_null: "replay_result rt ''null'' = Inl TypeError"
proof -
  have "json_loads (rt_frepr rt) (canonical_json JNull) = Some JNull" using canonical.dec_enc [of "rt_frepr rt" JNull] by simp
  then show ?thesis by (simp add: replay_result_def loads_column_def mark_replayed_def)
qed

text \<open>
  Retrying a claim that found no mission raises \<^verbatim>\<open>TypeError\<close> instead of answering null again: the
  stored null cannot be marked as replayed.
\<close>

theorem empty_claim_retry_fails:
  assumes "claim_next bk a rq n p w = (Inr JNull, w')" "uuid_canon rq = Some rq'"
    and "\<forall>r\<in>set (tb_mission_claim_operations (w_db w)). co_request_id r \<noteq> rq'"
    and "claim_projects bk a p = Inr projects" "projects \<noteq> []"
  shows "fst (claim_next bk a rq n p w') = Inl TypeError"
proof -
  let ?now = "w_clock w (w_ticks w)"
  have prior: "select_one (\<lambda>r. co_request_id r = rq') (tb_mission_claim_operations (w_db w)) = None"
    using assms(3) by (simp add: select_one_None)
  have checks: "rx_fullmatch ACTOR_ID a" "check_lease_seconds n = Inr ()" and
    run: "claim_in_transaction bk a rq' projects ?now (?now + seconds n) (w\<lparr>w_ticks := Suc (w_ticks w)\<rparr>) = (Inr JNull, w')"
    using assms(1,2,4,5) by (auto simp: claim_next_def op_simps)
  have "claim_candidate projects ?now (w_db w) = None"
    using run prior by (cases "claim_candidate projects ?now (w_db w)") (auto simp: claim_in_transaction_def op_simps runtime_public_def)
  with run prior have "\<exists>r. select_one (\<lambda>r. co_request_id r = rq') (tb_mission_claim_operations (w_db w')) = Some r \<and> co_result_json r = ''null''"
    by (auto simp: claim_in_transaction_def op_simps insert_claim_operation_def select_one_append)
  with checks assms(2,4,5) show ?thesis
    by (clarsimp simp: claim_next_def claim_in_transaction_def op_run validate_actor_def validate_request_id_def)
      (simp add: transaction_def op_run replay_null op_lift_def)
qed

theorem empty_claim_retry_fails_witness:
  "\<exists>w'. claim_next sample_broker ''hermes'' request_2 60 None leased_world = (Inr JNull, w') \<and>
     fst (claim_next sample_broker ''hermes'' request_2 60 None w') = Inl TypeError"
proof -
  have projects: "claim_projects sample_broker ''hermes'' None = Inr [''infra-shared'']" by code_simp
  obtain w' where run: "claim_next sample_broker ''hermes'' request_2 60 None leased_world = (Inr JNull, w')"
    using leased_claim_runs by blast
  from empty_claim_retry_fails [OF run sample_uuids(2) _ projects] run show ?thesis by auto
qed

end
