(* ===== verification/Recovery_Correct.thy ===== *)
theory Recovery_Correct
  imports Lease_Correct Action_Handlers
begin

text \<open>
  \<^verbatim>\<open>recover_after_restart\<close> and the start of the broker: what was interrupted is settled, what was still
  valid is untouched.
\<close>

section \<open>Loops over keys\<close>

lemma op_iter_frame:
  assumes "\<And>x w u w'. g x w = (Inr u, w') \<Longrightarrow> T (w_db w') = T (w_db w)"
  shows "op_iter g xs w = (Inr u, w') \<Longrightarrow> T (w_db w') = T (w_db w)"
  by (induction xs arbitrary: w) (auto simp: op_simps dest: assms)

lemma op_iter_update:
  assumes step: "\<And>x w u w'. g x w = (Inr u, w') \<Longrightarrow> T (w_db w') = update_where (\<lambda>r. key r = x) f (T (w_db w))"
    and f: "\<And>r. key (f r) = key r" "\<And>r. f (f r) = f r"
  shows "op_iter g xs w = (Inr u, w') \<Longrightarrow> T (w_db w') = map (\<lambda>r. if key r \<in> set xs then f r else r) (T (w_db w))"
proof (induction xs arbitrary: w)
  case (Cons x xs)
  then obtain u1 w1 where "g x w = (Inr u1, w1)" "op_iter g xs w1 = (Inr u, w')" by (auto simp: op_simps)
  then have "T (w_db w') = map (\<lambda>r. if key r \<in> set xs then f r else r) (update_where (\<lambda>r. key r = x) f (T (w_db w)))"
    using Cons.IH step by simp
  then show ?case by (auto simp: update_where_def f)
qed (simp add: op_simps)

lemma op_iter_delete:
  assumes step: "\<And>x w u w'. g x w = (Inr u, w') \<Longrightarrow> T (w_db w') = delete_where (\<lambda>r. key r = x) (T (w_db w))"
  shows "op_iter g xs w = (Inr u, w') \<Longrightarrow> T (w_db w') = filter (\<lambda>r. key r \<notin> set xs) (T (w_db w))"
proof (induction xs arbitrary: w)
  case (Cons x xs)
  then obtain u1 w1 where "g x w = (Inr u1, w1)" "op_iter g xs w1 = (Inr u, w')" by (auto simp: op_simps)
  then have "T (w_db w') = filter (\<lambda>r. key r \<notin> set xs) (delete_where (\<lambda>r. key r = x) (T (w_db w)))"
    using Cons.IH step by simp
  then show ?case by (simp add: delete_where_def conj_commute)
qed (simp add: op_simps)

section \<open>The three loops\<close>

definition interrupted :: "instant \<Rightarrow> action_row \<Rightarrow> action_row" where
  "interrupted now r = r\<lparr>ac_status := ''failed'', ac_result_json := Some (canonical_json interrupted_result), ac_updated_at := now\<rparr>"

lemma interrupt_action_tables:
  assumes "interrupt_action bk a now i w = (Inr u, w')"
  shows "tb_actions (w_db w') = update_where (\<lambda>r. ac_id r = i) (interrupted now) (tb_actions (w_db w))"
    and "tb_mission_runtime (w_db w') = tb_mission_runtime (w_db w)" and "tb_resource_locks (w_db w') = tb_resource_locks (w_db w)"
  using assms unfolding interrupt_action_def interrupted_def [abs_def]
  by (auto simp: op_simps dest: event_tables)

lemma requeue_mission_tables:
  assumes "requeue_mission bk a now i w = (Inr u, w')"
  shows "tb_mission_runtime (w_db w') = update_where (\<lambda>r. mr_mission_id r = i) (reset_claim ''queued'' now) (tb_mission_runtime (w_db w))"
    and "tb_actions (w_db w') = tb_actions (w_db w)" and "tb_resource_locks (w_db w') = tb_resource_locks (w_db w)"
  using assms unfolding requeue_mission_def by (auto simp: op_simps update_runtime_def dest: event_tables)

lemma expire_lock_tables:
  assumes "expire_lock bk a now i w = (Inr u, w')"
  shows "tb_resource_locks (w_db w') = delete_where (\<lambda>r. lk_resource_id r = i) (tb_resource_locks (w_db w))"
    and "tb_actions (w_db w') = tb_actions (w_db w)" and "tb_mission_runtime (w_db w') = tb_mission_runtime (w_db w)"
  using assms unfolding expire_lock_def by (auto simp: op_simps dest: event_tables)

definition lease_over :: "instant \<Rightarrow> runtime_row \<Rightarrow> bool" where
  "lease_over now r \<longleftrightarrow> mr_queue_state r = ''claimed'' \<and> (case mr_lease_until r of None \<Rightarrow> False | Some t \<Rightarrow> t \<le> now)"

text \<open>With unique keys, touching the rows whose key was collected is touching the rows that were selected.\<close>

lemma map_selected:
  assumes "distinct (map key t)"
  shows "map (\<lambda>r. if key r \<in> key ` {x \<in> set t. P x} then f r else r) t = map (\<lambda>r. if P r then f r else r) t"
proof (rule map_cong [OF refl])
  fix r
  assume "r \<in> set t"
  with assms have "key r \<in> key ` {x \<in> set t. P x} \<longleftrightarrow> P r" by (auto simp: distinct_map inj_on_def)
  then show "(if key r \<in> key ` {x \<in> set t. P x} then f r else r) = (if P r then f r else r)" by simp
qed

lemma filter_selected:
  assumes "distinct (map key t)"
  shows "filter (\<lambda>r. key r \<notin> key ` {x \<in> set t. P x}) t = filter (\<lambda>r. \<not> P r) t"
proof (rule filter_cong [OF refl])
  fix r
  assume "r \<in> set t"
  with assms show "(key r \<notin> key ` {x \<in> set t. P x}) = (\<not> P r)" by (auto simp: distinct_map inj_on_def)
qed

text \<open>
  C24. After a restart nothing is left in between: exactly the running actions have failed, exactly the
  missions whose lease is over are back in the queue, exactly the locks whose lease is over are gone;
  every other row is as it was, in its place, and the report counts what was done.
\<close>

theorem recovery_settles:
  assumes "recover_after_restart bk a w = (Inr v, w')" "now = w_clock w (w_ticks w)"
    and "actions.unique (tb_actions (w_db w))" "runtimes.unique (tb_mission_runtime (w_db w))" "locks.unique (tb_resource_locks (w_db w))"
  shows "tb_actions (w_db w') = map (\<lambda>r. if ac_status r = ''running'' then interrupted now r else r) (tb_actions (w_db w)) \<and>
    tb_mission_runtime (w_db w') = map (\<lambda>r. if lease_over now r then reset_claim ''queued'' now r else r) (tb_mission_runtime (w_db w)) \<and>
    tb_resource_locks (w_db w') = filter (\<lambda>l. now < lk_lease_until l) (tb_resource_locks (w_db w)) \<and>
    v = JDict [(''interrupted_actions'', JInt (int (rowcount (\<lambda>r. ac_status r = ''running'') (tb_actions (w_db w))))),
      (''requeued_missions'', JInt (int (rowcount (lease_over now) (tb_mission_runtime (w_db w))))),
      (''expired_resource_locks'', JInt (int (rowcount (\<lambda>l. lk_lease_until l \<le> now) (tb_resource_locks (w_db w)))))]"
proof -
  from assms(1) obtain w1 w2 where
    1: "op_iter (interrupt_action bk a now) (running_actions (w_db w)) (w\<lparr>w_ticks := Suc (w_ticks w)\<rparr>) = (Inr (), w1)"
    and 2: "op_iter (requeue_mission bk a now) (expired_claims now (w_db w1)) w1 = (Inr (), w2)"
    and 3: "op_iter (expire_lock bk a now) (expired_locks now (w_db w2)) w2 = (Inr (), w')"
    and v: "v = JDict [(''interrupted_actions'', JInt (int (length (running_actions (w_db w))))),
         (''requeued_missions'', JInt (int (length (expired_claims now (w_db w1))))),
         (''expired_resource_locks'', JInt (int (length (expired_locks now (w_db w2)))))]"
    unfolding recover_after_restart_def assms(2) by (auto simp: op_simps)
  have keys: "set (running_actions d) = ac_id ` {r \<in> set (tb_actions d). ac_status r = ''running''}"
    "set (expired_claims now d) = mr_mission_id ` {r \<in> set (tb_mission_runtime d). lease_over now r}"
    "set (expired_locks now d) = lk_resource_id ` {l \<in> set (tb_resource_locks d). lk_lease_until l \<le> now}" for d
    by (auto simp: running_actions_def expired_claims_def expired_locks_def lease_over_def)
  have counts: "length (running_actions d) = rowcount (\<lambda>r. ac_status r = ''running'') (tb_actions d)"
    "length (expired_claims now d) = rowcount (lease_over now) (tb_mission_runtime d)"
    "length (expired_locks now d) = rowcount (\<lambda>l. lk_lease_until l \<le> now) (tb_resource_locks d)" for d
    by (simp_all add: running_actions_def expired_claims_def expired_locks_def rowcount_def lease_over_def [abs_def])
  have a1: "tb_actions (w_db w1) = map (\<lambda>r. if ac_id r \<in> set (running_actions (w_db w)) then interrupted now r else r) (tb_actions (w_db w))"
    using op_iter_update [where T = tb_actions and key = ac_id, OF interrupt_action_tables(1) _ _ 1] by (simp add: interrupted_def)
  have r1: "tb_mission_runtime (w_db w1) = tb_mission_runtime (w_db w)" "tb_resource_locks (w_db w1) = tb_resource_locks (w_db w)"
    using op_iter_frame [where T = tb_mission_runtime, OF interrupt_action_tables(2) 1] op_iter_frame [where T = tb_resource_locks, OF interrupt_action_tables(3) 1] by simp_all
  have a2: "tb_mission_runtime (w_db w2) = map (\<lambda>r. if mr_mission_id r \<in> set (expired_claims now (w_db w1)) then reset_claim ''queued'' now r else r) (tb_mission_runtime (w_db w1))"
    using op_iter_update [where T = tb_mission_runtime and key = mr_mission_id, OF requeue_mission_tables(1) _ _ 2] by (simp add: reset_claim_def)
  have r2: "tb_actions (w_db w2) = tb_actions (w_db w1)" "tb_resource_locks (w_db w2) = tb_resource_locks (w_db w1)"
    using op_iter_frame [where T = tb_actions, OF requeue_mission_tables(2) 2] op_iter_frame [where T = tb_resource_locks, OF requeue_mission_tables(3) 2] by simp_all
  have a3: "tb_resource_locks (w_db w') = filter (\<lambda>r. lk_resource_id r \<notin> set (expired_locks now (w_db w2))) (tb_resource_locks (w_db w2))"
    by (rule op_iter_delete [where T = tb_resource_locks and key = lk_resource_id, OF expire_lock_tables(1) 3])
  have r3: "tb_actions (w_db w') = tb_actions (w_db w2)" "tb_mission_runtime (w_db w') = tb_mission_runtime (w_db w2)"
    using op_iter_frame [where T = tb_actions, OF expire_lock_tables(2) 3] op_iter_frame [where T = tb_mission_runtime, OF expire_lock_tables(3) 3] by simp_all
  show ?thesis
    using assms(3-5) v a1 a2 a3
    by (simp add: r1 r2 r3 keys counts map_selected filter_selected actions.unique_def runtimes.unique_def locks.unique_def not_le)
qed

text \<open>A crash with a command running and a lock whose lease still runs.\<close>

definition crashed_world :: world where
  "crashed_world = sample_world ((apply_schema empty_db)\<lparr>tb_actions := [set_action_status ''running'' 0 sample_action],
     tb_resource_locks := [sample_lock]\<rparr>)"

lemma crashed_world_simps [simp]:
  "tb_actions (w_db crashed_world) = [set_action_status ''running'' 0 sample_action]"
  "tb_resource_locks (w_db crashed_world) = [sample_lock]" "tb_mission_runtime (w_db crashed_world) = []"
  "tb_audit_head (w_db crashed_world) \<noteq> None" "w_clock crashed_world = sample_clock" "w_ticks crashed_world = 0"
  by (simp_all add: crashed_world_def sample_world_def apply_schema_def empty_db_def)

lemma crashed_world_recovers: "is_ok (fst (recover_after_restart sample_broker ''system-recovery'' crashed_world))"
proof -
  have "rx_fullmatch ACTOR_ID ''system-recovery''" by code_simp
  moreover have "ac_status (set_action_status ''running'' 0 sample_action) = ''running''" by (simp add: set_action_status_def)
  moreover have "\<not> lk_lease_until sample_lock \<le> sample_clock 0" by (simp add: sample_lock_def taken_lock_def)
  ultimately show ?thesis
    using crashed_world_simps(4) unfolding recover_after_restart_def
    by (simp add: op_run validate_actor_def running_actions_def expired_claims_def expired_locks_def interrupt_action_def)
qed

theorem recovery_settles_witness:
  "\<exists>v w'. recover_after_restart sample_broker ''system-recovery'' crashed_world = (Inr v, w') \<and>
     map ac_status (tb_actions (w_db w')) = [''failed''] \<and> tb_resource_locks (w_db w') = [sample_lock]"
proof -
  obtain v w' where run: "recover_after_restart sample_broker ''system-recovery'' crashed_world = (Inr v, w')"
    using crashed_world_recovers by (metis prod.collapse)
  have unique: "actions.unique (tb_actions (w_db crashed_world))" "runtimes.unique (tb_mission_runtime (w_db crashed_world))"
    "locks.unique (tb_resource_locks (w_db crashed_world))"
    by (simp_all add: actions.unique_def runtimes.unique_def locks.unique_def)
  have "sample_clock 0 < lk_lease_until sample_lock" by (simp add: sample_lock_def taken_lock_def)
  with recovery_settles [OF run refl unique] run show ?thesis
    by (simp add: set_action_status_def interrupted_def)
qed

end
