(* ===== verification/Broker_Traces.thy ===== *)
theory Broker_Traces
  imports Broker_Missions Broker_Actions
begin

text \<open>
  \<^verbatim>\<open>mission_control.py\<close>, third part: model traces with the iteration and API-call budgets, incident
  details, and the artifacts attached to actions.
\<close>

section \<open>Model traces\<close>

definition trace_public :: "bool \<Rightarrow> trace_row \<Rightarrow> json" where
  "trace_public replayed t =
     JDict [(''id'', jclip 36 (tr_id t)), (''mission_id'', jclip 36 (tr_mission_id t)),
       (''parent_trace_id'', opt_json JStr (tr_parent_trace_id t)), (''model_role'', jclip 32 (tr_model_role t)),
       (''provider'', jclip 64 (tr_provider t)), (''model_name'', jclip 200 (tr_model_name t)),
       (''reason'', jclip 1000 (tr_reason t)), (''outcome'', jclip 16 (tr_outcome t)),
       (''confidence'', opt_json JFloat (tr_confidence t)), (''input_tokens'', JInt (tr_input_tokens t)),
       (''output_tokens'', JInt (tr_output_tokens t)), (''cost_microunits'', JInt (tr_cost_microunits t)),
       (''started_at'', jstamp (tr_started_at t)), (''finished_at'', opt_json JStr (tr_finished_at t)),
       (''replayed'', JBool replayed)]"

definition is_remote :: "string \<Rightarrow> bool" where
  "is_remote provider \<longleftrightarrow> provider \<notin> {''local'', ''ollama'', ''deterministic''}"

definition trace_of :: "string \<Rightarrow> db \<Rightarrow> trace_row option" where
  "trace_of trace_id d = select_one (\<lambda>t. tr_id t = trace_id) (tb_model_traces d)"

definition check_trace_budget :: "runtime_row \<Rightarrow> bool \<Rightarrow> unit res" where
  "check_trace_budget r remote =
     res_bind (raise_if (mr_iteration_count r \<ge> mr_max_iterations r)
                 (BrokerError ''iteration_budget_exhausted''
                    ''mission iteration budget is exhausted; human escalation is required'' 429 [])) (\<lambda>_.
     raise_if (remote \<and> mr_api_call_count r \<ge> mr_max_api_calls r)
       (BrokerError ''api_call_budget_exhausted''
          ''mission API call budget is exhausted; human escalation is required'' 429 []))"

definition check_parent_trace :: "string \<Rightarrow> string option \<Rightarrow> db \<Rightarrow> unit res" where
  "check_parent_trace mission_id parent_trace_id d =
     (case parent_trace_id of None \<Rightarrow> Inr () | Some p \<Rightarrow>
        raise_if (case trace_of p d of None \<Rightarrow> True | Some t \<Rightarrow> tr_mission_id t \<noteq> mission_id)
          (Conflict ''parent trace is missing or belongs to another mission''))"

definition count_trace :: "trace_row \<Rightarrow> runtime_row \<Rightarrow> runtime_row" where
  "count_trace t r =
     r\<lparr>mr_current_model_role := Some (tr_model_role t), mr_current_model := Some (tr_model_name t),
       mr_iteration_count := mr_iteration_count r + 1,
       mr_api_call_count := mr_api_call_count r + (if is_remote (tr_provider t) then 1 else 0),
       mr_updated_at := tr_started_at t\<rparr>"

definition trace_payload :: "trace_row \<Rightarrow> json option \<Rightarrow> json" where
  "trace_payload t confidence =
     JDict [(''trace_id'', JStr (tr_id t)), (''parent_trace_id'', opt_json JStr (tr_parent_trace_id t)),
       (''model_role'', JStr (tr_model_role t)), (''provider'', JStr (tr_provider t)), (''model_name'', JStr (tr_model_name t)),
       (''reason'', JStr (tr_reason t)), (''outcome'', JStr (tr_outcome t)), (''confidence'', opt_json id confidence),
       (''input_tokens'', JInt (tr_input_tokens t)), (''output_tokens'', JInt (tr_output_tokens t)),
       (''cost_microunits'', JInt (tr_cost_microunits t))]"

definition store_trace :: "broker \<Rightarrow> trace_row \<Rightarrow> json option \<Rightarrow> (bool \<times> trace_row) op" where
  "store_trace bk t confidence =
     transaction (
       op_bind (op_mission (tr_mission_id t)) (\<lambda>row.
       op_bind (op_lift (require_lifecycle (bk_rbac bk) (tr_actor_id t) (mi_project_id (fst row)) ''model.trace.write'')) (\<lambda>_.
       op_bind (op_query (\<lambda>d. select_one (\<lambda>p. tr_request_id p = tr_request_id t) (tb_model_traces d))) (\<lambda>prior.
       case prior of
         Some p \<Rightarrow> op_ret (True, p)
       | None \<Rightarrow>
           op_bind (op_lift (check_trace_budget (snd row) (is_remote (tr_provider t)))) (\<lambda>_.
           op_bind (op_bind (op_query (check_parent_trace (tr_mission_id t) (tr_parent_trace_id t))) op_lift) (\<lambda>_.
           op_bind (op_exec (\<lambda>d. d\<lparr>tb_model_traces := tb_model_traces d @ [t]\<rparr>)) (\<lambda>_.
           op_bind (op_exec (update_runtime (tr_mission_id t) (count_trace t))) (\<lambda>_.
           op_bind (append_event (bk_rt bk) (isoformat (tr_started_at t)) ''model.trace_recorded'' (tr_actor_id t) ''mission''
              (tr_mission_id t) (trace_payload t confidence)) (\<lambda>_.
           op_bind (op_query (trace_of (tr_id t))) (\<lambda>stored.
           case stored of None \<Rightarrow> op_raise AssertionError | Some p \<Rightarrow> op_ret (False, p)))))))))))"

definition record_model_trace ::
  "broker \<Rightarrow> string \<Rightarrow> string \<Rightarrow> string \<Rightarrow> string \<Rightarrow> string \<Rightarrow> string \<Rightarrow> string \<Rightarrow> string \<Rightarrow> json option \<Rightarrow> int \<Rightarrow> int \<Rightarrow> int \<Rightarrow>
   string option \<Rightarrow> string option \<Rightarrow> json op" where
  "record_model_trace bk actor_id request_id mission_id model_role provider model_name reason outcome confidence
      input_tokens output_tokens cost_microunits parent_trace_id finished_at =
     op_bind (op_lift (validate_actor actor_id)) (\<lambda>_.
     op_bind (op_lift (validate_request_id request_id)) (\<lambda>request_id.
     op_bind (op_lift (check_model_role (Some model_role))) (\<lambda>_.
     op_bind (op_raise_if (\<not> rx_fullmatch PROVIDER provider) (invalid_request ''provider is malformed'')) (\<lambda>_.
     op_bind (op_lift (bounded_text 1 200 model_name)) (\<lambda>model_name.
     op_bind (op_lift (bounded_text 1 1000 reason)) (\<lambda>reason.
     op_bind (op_raise_if (outcome \<notin> set TRACE_OUTCOMES) (invalid_request ''outcome is invalid'')) (\<lambda>_.
     op_bind (op_lift (confidence_float confidence)) (\<lambda>conf.
     op_bind (op_lift (res_all (\<lambda>n. raise_if (n < 0) (invalid_request ''must be non-negative''))
                [input_tokens, output_tokens, cost_microunits])) (\<lambda>_.
     op_bind (op_raise_if (case finished_at of None \<Rightarrow> False | Some f \<Rightarrow> \<not> rt_timestamp (bk_rt bk) f)
                (invalid_request ''finished_at is invalid'')) (\<lambda>_.
     op_bind op_uuid4 (\<lambda>trace_id.
     op_bind op_now (\<lambda>now.
     op_bind (store_trace bk
        \<lparr>tr_id = trace_id, tr_request_id = request_id, tr_mission_id = mission_id, tr_parent_trace_id = parent_trace_id,
         tr_actor_id = actor_id, tr_model_role = model_role, tr_provider = provider, tr_model_name = model_name,
         tr_reason = reason, tr_outcome = outcome, tr_confidence = conf, tr_input_tokens = input_tokens,
         tr_output_tokens = output_tokens, tr_cost_microunits = cost_microunits, tr_started_at = now,
         tr_finished_at = finished_at\<rparr> confidence) (\<lambda>(replayed, row).
     op_ret (trace_public replayed row))))))))))))))"

definition list_model_traces :: "broker \<Rightarrow> string \<Rightarrow> string \<Rightarrow> int \<Rightarrow> json list op" where
  "list_model_traces bk actor_id mission_id limit =
     op_bind (op_lift (validate_actor actor_id)) (\<lambda>_.
     op_bind (op_lift (check_page 100 limit)) (\<lambda>_.
     op_bind (op_readable_mission bk actor_id mission_id) (\<lambda>_.
     op_query (\<lambda>d. map (trace_public False) (take (nat limit) (sort_key (\<lambda>t. (tr_started_at t, tr_id t))
        (filter (\<lambda>t. tr_mission_id t = mission_id) (tb_model_traces d))))))))"

section \<open>Incident details\<close>

record incident_patch =
  ip_service :: "string option"
  ip_resource_id :: "string option"
  ip_environment :: "string option"
  ip_symptoms :: "string option"
  ip_impact :: "string option"
  ip_probable_causes :: "string list option"
  ip_confirmed_cause :: "string option"
  ip_resolution :: "string option"
  ip_rollback :: "string option"
  ip_recommendations :: "string list option"
  ip_versions :: "(string \<times> string) list option"

definition incident_columns :: "incident_patch \<Rightarrow> jdict res" where
  "incident_columns p =
     columns [opt_column ''service'' (text_column 0 200) (ip_service p),
       opt_column ''resource_id'' (text_column 0 192) (ip_resource_id p),
       opt_column ''symptoms'' (text_column 0 8000) (ip_symptoms p),
       opt_column ''impact'' (text_column 0 4000) (ip_impact p),
       opt_column ''confirmed_cause'' (text_column 0 4000) (ip_confirmed_cause p),
       opt_column ''resolution'' (text_column 0 8000) (ip_resolution p),
       opt_column ''rollback'' (text_column 0 4000) (ip_rollback p),
       opt_column ''environment'' (pattern_column ENVIRONMENT ''environment is malformed'') (ip_environment p),
       opt_column ''probable_causes_json'' list_column (ip_probable_causes p),
       opt_column ''recommendations_json'' list_column (ip_recommendations p),
       opt_column ''versions_json'' (\<lambda>v. map_sum id JStr (json_column (JDict (map (\<lambda>(k, s). (k, JStr s)) v)))) (ip_versions p)]"

definition set_details_column :: "details_row \<Rightarrow> string \<times> json \<Rightarrow> details_row" where
  "set_details_column r cv =
     (case cv of (c, v) \<Rightarrow>
      if c = ''service'' then r\<lparr>de_service := jstr v\<rparr>
      else if c = ''resource_id'' then r\<lparr>de_resource_id := jstr v\<rparr>
      else if c = ''symptoms'' then r\<lparr>de_symptoms := jstr v\<rparr>
      else if c = ''impact'' then r\<lparr>de_impact := jstr v\<rparr>
      else if c = ''confirmed_cause'' then r\<lparr>de_confirmed_cause := jstr v\<rparr>
      else if c = ''resolution'' then r\<lparr>de_resolution := jstr v\<rparr>
      else if c = ''rollback'' then r\<lparr>de_rollback := jstr v\<rparr>
      else if c = ''environment'' then r\<lparr>de_environment := jstr v\<rparr>
      else if c = ''probable_causes_json'' then r\<lparr>de_probable_causes_json := jstr v\<rparr>
      else if c = ''recommendations_json'' then r\<lparr>de_recommendations_json := jstr v\<rparr>
      else if c = ''versions_json'' then r\<lparr>de_versions_json := jstr v\<rparr>
      else r)"

definition incident_join :: "string \<Rightarrow> db \<Rightarrow> (incident_row \<times> details_row) option" where
  "incident_join incident_id d =
     Option.bind (select_one (\<lambda>i. in_id i = incident_id) (tb_incidents d)) (\<lambda>i.
       map_option (Pair i) (select_one (\<lambda>r. de_incident_id r = in_id i) (tb_incident_details d)))"

definition incident_details_public :: "runtime \<Rightarrow> bool option \<Rightarrow> incident_row \<times> details_row \<Rightarrow> json res" where
  "incident_details_public rt replayed row =
     (case row of (i, r) \<Rightarrow>
      res_bind (loads_column rt (de_probable_causes_json r)) (\<lambda>causes.
      res_bind (loads_column rt (de_recommendations_json r)) (\<lambda>recommendations.
      res_bind (loads_column rt (de_versions_json r)) (\<lambda>versions.
      Inr (JDict ([(''id'', jclip 36 (in_id i)), (''project_id'', jclip 64 (in_project_id i)), (''title'', jclip 240 (in_title i)),
        (''severity'', jclip 16 (in_severity i)), (''status'', jclip 16 (in_status i)), (''service'', jclip 200 (de_service r)),
        (''resource_id'', jclip 192 (de_resource_id r)), (''environment'', jclip 64 (de_environment r)),
        (''symptoms'', jclip 8000 (de_symptoms r)), (''impact'', jclip 4000 (de_impact r)), (''probable_causes'', causes),
        (''confirmed_cause'', jclip 4000 (de_confirmed_cause r)), (''resolution'', jclip 8000 (de_resolution r)),
        (''rollback'', jclip 4000 (de_rollback r)), (''recommendations'', recommendations), (''versions'', versions),
        (''created_at'', jstamp (in_created_at i)), (''updated_at'', jstamp (in_updated_at i))]
        @ (case replayed of None \<Rightarrow> [] | Some b \<Rightarrow> [(''replayed'', JBool b)])))))))"

definition op_incident_join :: "string \<Rightarrow> py_exc \<Rightarrow> (incident_row \<times> details_row) op" where
  "op_incident_join incident_id e =
     op_bind (op_query (incident_join incident_id)) (\<lambda>row.
     case row of None \<Rightarrow> op_raise e | Some r \<Rightarrow> op_ret r)"

definition update_incident_details :: "broker \<Rightarrow> string \<Rightarrow> string \<Rightarrow> string \<Rightarrow> incident_patch \<Rightarrow> json op" where
  "update_incident_details bk actor_id request_id incident_id patch =
     op_bind (op_lift (validate_actor actor_id)) (\<lambda>_.
     op_bind (op_lift (validate_request_id request_id)) (\<lambda>request_id.
     op_bind (op_lift (incident_columns patch)) (\<lambda>values.
     op_bind (op_raise_if (values = []) (invalid_request ''at least one incident field is required'')) (\<lambda>_.
     op_bind (op_lift (json_column (JDict values))) (\<lambda>payload_json.
     op_bind op_now (\<lambda>now.
     op_bind (transaction (
       op_bind (op_query (\<lambda>d. select_one (\<lambda>i. in_id i = incident_id) (tb_incidents d))) (\<lambda>incident.
       case incident of None \<Rightarrow> op_raise (NotFound ''incident'') | Some i \<Rightarrow>
       op_bind (op_lift (require_lifecycle (bk_rbac bk) actor_id (in_project_id i) ''incident.detail.write'')) (\<lambda>_.
       op_bind (op_query (\<lambda>d. select_one (\<lambda>u. up_request_id u = request_id) (tb_incident_updates d))) (\<lambda>prior.
       case prior of
         Some u \<Rightarrow>
           if up_entity_id u \<noteq> incident_id \<or> up_actor_id u \<noteq> actor_id \<or> up_payload_json u \<noteq> payload_json
           then op_raise (Conflict ''request_id was already used for another incident update'')
           else op_bind (op_incident_join incident_id AssertionError) (\<lambda>row. op_ret (True, row))
       | None \<Rightarrow>
           op_bind (op_exec (\<lambda>d. d\<lparr>tb_incident_details := update_where (\<lambda>r. de_incident_id r = incident_id)
              (\<lambda>r. (foldl set_details_column r values)\<lparr>de_updated_at := now\<rparr>) (tb_incident_details d)\<rparr>)) (\<lambda>_.
           op_bind (op_exec (\<lambda>d. d\<lparr>tb_incident_updates := tb_incident_updates d @
              [\<lparr>up_request_id = request_id, up_entity_id = incident_id, up_actor_id = actor_id,
                up_payload_json = payload_json, up_created_at = now\<rparr>]\<rparr>)) (\<lambda>_.
           op_bind (append_event (bk_rt bk) (isoformat now) ''incident.details_updated'' actor_id ''incident'' incident_id
              (fields_payload request_id values)) (\<lambda>_.
           op_bind (op_incident_join incident_id AssertionError) (\<lambda>row. op_ret (False, row)))))))))) (\<lambda>(replayed, row).
     op_lift (incident_details_public (bk_rt bk) (Some replayed) row))))))))"

definition get_incident_details :: "broker \<Rightarrow> string \<Rightarrow> string \<Rightarrow> json op" where
  "get_incident_details bk actor_id incident_id =
     op_bind (op_lift (validate_actor actor_id)) (\<lambda>_.
     op_bind (op_incident_join incident_id (NotFound ''incident'')) (\<lambda>row.
     op_bind (op_lift (require_project (bk_rbac bk) actor_id (in_project_id (fst row)))) (\<lambda>_.
     op_lift (incident_details_public (bk_rt bk) None row))))"

section \<open>Action artifacts\<close>

record artifacts_patch =
  ap_before_digest :: "string option"
  ap_after_digest :: "string option"
  ap_target_version :: "string option"
  ap_rollback_ref :: "string option"
  ap_diff_artifact :: "string option"
  ap_healthcheck :: "jdict option"

definition artifact_columns :: "artifacts_patch \<Rightarrow> jdict res" where
  "artifact_columns p =
     columns [opt_column ''before_digest'' (text_column 1 128) (ap_before_digest p),
       opt_column ''after_digest'' (text_column 1 128) (ap_after_digest p),
       opt_column ''target_version'' (text_column 1 200) (ap_target_version p),
       opt_column ''rollback_ref'' (text_column 1 1000) (ap_rollback_ref p),
       opt_column ''diff_artifact'' (text_column 1 1000) (ap_diff_artifact p),
       opt_column ''healthcheck_json'' (\<lambda>h. map_sum id JStr (json_column (JDict h))) (ap_healthcheck p)]"

definition artifact_column :: "artifacts_row \<Rightarrow> string \<Rightarrow> string option" where
  "artifact_column r c =
     (if c = ''before_digest'' then aa_before_digest r
      else if c = ''after_digest'' then aa_after_digest r
      else if c = ''target_version'' then aa_target_version r
      else if c = ''rollback_ref'' then aa_rollback_ref r
      else if c = ''diff_artifact'' then aa_diff_artifact r
      else if c = ''healthcheck_json'' then Some (aa_healthcheck_json r)
      else None)"

definition set_artifact_column :: "artifacts_row \<Rightarrow> string \<times> json \<Rightarrow> artifacts_row" where
  "set_artifact_column r cv =
     (case cv of (c, v) \<Rightarrow>
      if c = ''before_digest'' then r\<lparr>aa_before_digest := Some (jstr v)\<rparr>
      else if c = ''after_digest'' then r\<lparr>aa_after_digest := Some (jstr v)\<rparr>
      else if c = ''target_version'' then r\<lparr>aa_target_version := Some (jstr v)\<rparr>
      else if c = ''rollback_ref'' then r\<lparr>aa_rollback_ref := Some (jstr v)\<rparr>
      else if c = ''diff_artifact'' then r\<lparr>aa_diff_artifact := Some (jstr v)\<rparr>
      else if c = ''healthcheck_json'' then r\<lparr>aa_healthcheck_json := jstr v\<rparr>
      else r)"

definition recorded :: "string option \<Rightarrow> bool" where
  "recorded current \<longleftrightarrow> current \<notin> {None, Some [], Some ''{}''}"

text \<open>The loop over \<^verbatim>\<open>values.items()\<close>: a recorded column may only be set to the value it has.\<close>

definition check_immutable :: "artifacts_row \<Rightarrow> jdict \<Rightarrow> unit res" where
  "check_immutable existing values =
     res_all (\<lambda>(c, v). raise_if (recorded (artifact_column existing c) \<and> artifact_column existing c \<noteq> Some (jstr v))
                (Conflict ''is immutable once recorded'')) values"

definition artifacts_public :: "runtime \<Rightarrow> bool \<Rightarrow> artifacts_row \<Rightarrow> json res" where
  "artifacts_public rt replayed r =
     res_bind (loads_column rt (aa_healthcheck_json r)) (\<lambda>healthcheck.
     Inr (JDict [(''action_id'', jclip 36 (aa_action_id r)), (''before_digest'', opt_json JStr (aa_before_digest r)),
       (''after_digest'', opt_json JStr (aa_after_digest r)), (''target_version'', opt_json JStr (aa_target_version r)),
       (''rollback_ref'', opt_json JStr (aa_rollback_ref r)), (''diff_artifact'', opt_json JStr (aa_diff_artifact r)),
       (''healthcheck'', healthcheck), (''updated_at'', jstamp (aa_updated_at r)), (''replayed'', JBool replayed)]))"

definition artifacts_of :: "string \<Rightarrow> db \<Rightarrow> artifacts_row option" where
  "artifacts_of action_id d = select_one (\<lambda>r. aa_action_id r = action_id) (tb_action_artifacts d)"

definition default_artifacts :: "string \<Rightarrow> instant \<Rightarrow> artifacts_row" where
  "default_artifacts action_id now =
     \<lparr>aa_action_id = action_id, aa_before_digest = None, aa_after_digest = None, aa_target_version = None,
      aa_rollback_ref = None, aa_diff_artifact = None, aa_healthcheck_json = ''{}'', aa_updated_at = now\<rparr>"

definition store_artifacts :: "broker \<Rightarrow> string \<Rightarrow> string \<Rightarrow> string \<Rightarrow> jdict \<Rightarrow> string \<Rightarrow> instant \<Rightarrow> (bool \<times> artifacts_row) op" where
  "store_artifacts bk actor_id request_id action_id values payload_json now =
     transaction (
       op_bind (op_query (action_of action_id)) (\<lambda>found.
       case found of None \<Rightarrow> op_raise (NotFound ''action'') | Some action \<Rightarrow>
       op_bind (op_lift (require_project (bk_rbac bk) actor_id (ac_project_id action))) (\<lambda>_.
       op_bind (op_raise_if (ac_requested_by action \<noteq> actor_id)
                  (AuthorizationDenied ''only the action requester may attach execution artifacts'')) (\<lambda>_.
       op_bind (op_query (\<lambda>d. select_one (\<lambda>u. up_request_id u = request_id) (tb_action_artifact_updates d))) (\<lambda>prior.
       case prior of
         Some u \<Rightarrow>
           if up_entity_id u \<noteq> action_id \<or> up_actor_id u \<noteq> actor_id \<or> up_payload_json u \<noteq> payload_json
           then op_raise (Conflict ''request_id was already used for other action artifacts'')
           else op_bind (op_query (artifacts_of action_id)) (\<lambda>row.
                case row of None \<Rightarrow> op_raise AssertionError | Some r \<Rightarrow> op_ret (True, r))
       | None \<Rightarrow>
           op_bind (op_query (artifacts_of action_id)) (\<lambda>existing.
           op_bind (case existing of
                      None \<Rightarrow> op_exec (\<lambda>d. d\<lparr>tb_action_artifacts := tb_action_artifacts d @ [default_artifacts action_id now]\<rparr>)
                    | Some r \<Rightarrow> op_lift (check_immutable r values)) (\<lambda>_.
           op_bind (op_exec (\<lambda>d. d\<lparr>tb_action_artifacts := update_where (\<lambda>r. aa_action_id r = action_id)
              (\<lambda>r. (foldl set_artifact_column r values)\<lparr>aa_updated_at := now\<rparr>) (tb_action_artifacts d)\<rparr>)) (\<lambda>_.
           op_bind (op_exec (\<lambda>d. d\<lparr>tb_action_artifact_updates := tb_action_artifact_updates d @
              [\<lparr>up_request_id = request_id, up_entity_id = action_id, up_actor_id = actor_id,
                up_payload_json = payload_json, up_created_at = now\<rparr>]\<rparr>)) (\<lambda>_.
           op_bind (log_action bk now ''action.artifacts_recorded'' actor_id action_id (fields_payload request_id values)) (\<lambda>_.
           op_bind (op_query (artifacts_of action_id)) (\<lambda>row.
           case row of None \<Rightarrow> op_raise AssertionError | Some r \<Rightarrow> op_ret (False, r))))))))))))"

definition record_action_artifacts :: "broker \<Rightarrow> string \<Rightarrow> string \<Rightarrow> string \<Rightarrow> artifacts_patch \<Rightarrow> json op" where
  "record_action_artifacts bk actor_id request_id action_id patch =
     op_bind (op_lift (validate_actor actor_id)) (\<lambda>_.
     op_bind (op_lift (validate_request_id request_id)) (\<lambda>request_id.
     op_bind (op_lift (artifact_columns patch)) (\<lambda>values.
     op_bind (op_raise_if (values = []) (invalid_request ''at least one action artifact is required'')) (\<lambda>_.
     op_bind (op_lift (json_column (JDict values))) (\<lambda>payload_json.
     op_bind op_now (\<lambda>now.
     op_bind (store_artifacts bk actor_id request_id action_id values payload_json now) (\<lambda>(replayed, row).
     op_lift (artifacts_public (bk_rt bk) replayed row))))))))"

definition get_action_artifacts :: "broker \<Rightarrow> string \<Rightarrow> string \<Rightarrow> json op" where
  "get_action_artifacts bk actor_id action_id =
     op_bind (op_lift (validate_actor actor_id)) (\<lambda>_.
     op_bind (op_query (action_of action_id)) (\<lambda>found.
     case found of None \<Rightarrow> op_raise (NotFound ''action'') | Some action \<Rightarrow>
     op_bind (op_lift (require_project (bk_rbac bk) actor_id (ac_project_id action))) (\<lambda>_.
     op_bind (op_query (artifacts_of action_id)) (\<lambda>row.
     case row of None \<Rightarrow> op_ret JNull | Some r \<Rightarrow> op_lift (artifacts_public (bk_rt bk) False r)))))"

section \<open>The log grows and stays linked\<close>

lemma record_model_trace_evolves:
  assumes "\<And>v. confidence = Some v \<Longrightarrow> json_ok (rt_frepr (bk_rt bk)) v"
  shows "evolves (audit_extends (bk_rt bk))
    (record_model_trace bk a rq i ro pr na re ou confidence it ot co pa fi)"
proof -
  have "json_ok (rt_frepr (bk_rt bk)) (trace_payload t confidence)" for t
    using assms by (simp add: trace_payload_def opt_json_def [of id] split: option.splits)
  then show ?thesis
    unfolding record_model_trace_def store_trace_def
    by (intro mission_audit_rules audit_exec audit_append_event) simp_all
qed

lemma update_incident_details_evolves: "evolves (audit_extends (bk_rt bk)) (update_incident_details bk a rq i p)"
  unfolding update_incident_details_def op_incident_join_def
  by (intro mission_audit_rules audit_exec audit_append_event json_ok_fields_payload) simp_all

lemma record_action_artifacts_evolves: "evolves (audit_extends (bk_rt bk)) (record_action_artifacts bk a rq i p)"
  unfolding record_action_artifacts_def store_artifacts_def
  by (intro mission_audit_rules audit_exec audit_log_action json_ok_fields_payload) simp_all

end
