(* ===== verification/Broker_System.thy ===== *)
theory Broker_System
  imports Recovery_Correct Broker_Traces
begin

text \<open>
  The broker as its clients see it: the operations of \<^verbatim>\<open>BrokerService\<close> as requests, served one after
  the other. What every operation keeps, every history keeps.
\<close>

section \<open>Requests\<close>

text \<open>The operations that only read, and those that may write; arguments in the order of the methods.\<close>

datatype read_request =
  ListRunbooks string
| ListOpenMissions string "string option" int
| ListMemoryMissions string string int int
| ListOpenIncidents string "string option" int
| GetMission string string
| GetIncident string string
| GetMissionState string string
| ListCheckpoints string string int
| ListRecords string string int
| ListMemoryHistory string string int int
| ListModelTraces string string int
| GetIncidentDetails string string
| GetActionArtifacts string string
| GetAction string string
| ListActions entity string string int int
| PendingApprovals string
| PendingPublicApprovals int int

datatype request =
  Read read_request
| CreateMission string string string string
| CreateIncident string string string string string
| SetStatus entity string string string string
| RequestAction string string string json string "string option" "string option"
| ExecuteAction string string
| DecideApproval string string string string string "string option" string
| UpdateMissionState string string string mission_patch
| CreateCheckpoint string string string string string "string list" "string list" "string list" "string list"
    "string option" "string option"
| AddRecord string string string string string "string list" "string option" "json option" "string option"
| ClaimNext string string int "string option"
| MissionLease string string string string int
| AcquireLock string string string string int
| LockLease string string string string string int
| RecordTrace string string string string string string string string "json option" int int int "string option" "string option"
| UpdateIncidentDetails string string string incident_patch
| RecordArtifacts string string string artifacts_patch
| Restart

definition listed :: "json list op \<Rightarrow> json op" where
  "listed m = op_bind m (\<lambda>vs. op_ret (JList vs))"

fun read :: "broker \<Rightarrow> read_request \<Rightarrow> json op" where
  "read bk (ListRunbooks a) = listed (op_lift (list_runbooks bk a))"
| "read bk (ListOpenMissions a p n) = listed (list_open_missions bk a p n)"
| "read bk (ListMemoryMissions a p after n) = list_memory_missions bk a p after n"
| "read bk (ListOpenIncidents a p n) = listed (list_open_incidents bk a p n)"
| "read bk (GetMission a i) = get_mission bk a i"
| "read bk (GetIncident a i) = get_incident bk a i"
| "read bk (GetMissionState a i) = get_mission_state bk a i"
| "read bk (ListCheckpoints a i n) = listed (list_checkpoints bk a i n)"
| "read bk (ListRecords a i n) = listed (list_records bk a i n)"
| "read bk (ListMemoryHistory a p after n) = list_memory_history bk a p after n"
| "read bk (ListModelTraces a i n) = listed (list_model_traces bk a i n)"
| "read bk (GetIncidentDetails a i) = get_incident_details bk a i"
| "read bk (GetActionArtifacts a i) = get_action_artifacts bk a i"
| "read bk (GetAction a i) = get_action bk a i"
| "read bk (ListActions e a i n off) = listed (list_actions_for_entity bk e a i n off)"
| "read bk (PendingApprovals a) = listed (pending_approvals bk a)"
| "read bk (PendingPublicApprovals n off) = listed (pending_public_approvals bk n off)"

text \<open>A restart is the construction of \<^verbatim>\<open>BrokerService\<close> over the same database.\<close>

fun handle :: "broker \<Rightarrow> request \<Rightarrow> json op" where
  "handle bk (Read r) = read bk r"
| "handle bk (CreateMission a rq p t) = create_mission bk a rq p t"
| "handle bk (CreateIncident a rq p t s) = create_incident bk a rq p t s"
| "handle bk (SetStatus e a rq i s) = set_entity_status bk e a rq i s"
| "handle bk (RequestAction a rq rb ps rs i m) = request_action bk a rq rb ps rs i m"
| "handle bk (ExecuteAction a i) = execute_action bk a i"
| "handle bk (DecideApproval a rq i d src sid rs) = decide_approval bk a rq i d src sid rs"
| "handle bk (UpdateMissionState a rq i p) = update_mission_state bk a rq i p"
| "handle bk (CreateCheckpoint a rq i ph su de co pe ev ro na) = create_checkpoint bk a rq i ph su de co pe ev ro na"
| "handle bk (AddRecord a rq i k c ev inc conf tr) = add_record bk a rq i k c ev inc conf tr"
| "handle bk (ClaimNext a rq n p) = claim_next bk a rq n p"
| "handle bk (MissionLease a rq i oper n) = mission_lease bk a rq i oper n"
| "handle bk (AcquireLock a rq m r n) = acquire_resource_lock bk a rq m r n"
| "handle bk (LockLease a rq m r oper n) = resource_lock_lease bk a rq m r oper n"
| "handle bk (RecordTrace a rq i ro pr na re out conf it ot co pa fi) = record_model_trace bk a rq i ro pr na re out conf it ot co pa fi"
| "handle bk (UpdateIncidentDetails a rq i p) = update_incident_details bk a rq i p"
| "handle bk (RecordArtifacts a rq i p) = record_action_artifacts bk a rq i p"
| "handle bk Restart = broker_init bk"

fun serve :: "broker \<Rightarrow> request list \<Rightarrow> world \<Rightarrow> world" where
  "serve bk [] w = w"
| "serve bk (r # rs) w = serve bk rs (snd (handle bk r w))"

lemma serve_append: "serve bk (rs @ rs') w = serve bk rs' (serve bk rs w)"
  by (induction rs arbitrary: w) auto

text \<open>A confidence given as a float is given by its \<^verbatim>\<open>repr\<close>.\<close>

fun request_ok :: "runtime \<Rightarrow> request \<Rightarrow> bool" where
  "request_ok rt (AddRecord a rq i k c ev inc conf tr) = (case conf of None \<Rightarrow> True | Some v \<Rightarrow> json_ok (rt_frepr rt) v)"
| "request_ok rt (RecordTrace a rq i ro pr na re out conf it ot co pa fi) = (case conf of None \<Rightarrow> True | Some v \<Rightarrow> json_ok (rt_frepr rt) v)"
| "request_ok rt _ = True"

section \<open>Reads change nothing\<close>

interpretation same_db: db_evolution "\<lambda>d d'. d' = d"
  by unfold_locales auto

lemma op_mission_reads: "evolves (\<lambda>d d'. d' = d) (op_mission i)"
  unfolding op_mission_def by (intro same_db.ev_rules)

lemmas read_defs = listed_def list_open_missions_def list_memory_missions_def list_open_incidents_def get_mission_def
  get_incident_def get_mission_state_def list_checkpoints_def list_records_def list_memory_history_def list_model_traces_def
  op_readable_mission_def get_incident_details_def op_incident_join_def get_action_artifacts_def get_action_def
  list_actions_for_entity_def pending_approvals_def pending_public_approvals_def

lemma read_evolves: "evolves (\<lambda>d d'. d' = d) (read bk r)"
  by (cases r; simp only: read.simps read_defs; intro same_db.ev_rules op_mission_reads)

section \<open>Every operation extends the log\<close>

lemma evolves_mono: "evolves R m \<Longrightarrow> (\<And>d d'. R d d' \<Longrightarrow> R' d d') \<Longrightarrow> evolves R' m"
  by (simp add: evolves_def)

lemma broker_init_evolves: "evolves (audit_extends (bk_rt bk)) (broker_init bk)"
  unfolding broker_init_def by (intro audit_rules recover_after_restart_evolves)

lemma acquire_resource_lock_evolves: "evolves (audit_extends (bk_rt bk)) (acquire_resource_lock bk a rq m r n)"
  unfolding acquire_resource_lock_def by (rule resource_lock_operation_evolves)

lemma handle_evolves: "request_ok (bk_rt bk) r \<Longrightarrow> evolves (audit_extends (bk_rt bk)) (handle bk r)"
proof (cases r)
  case (Read x)
  then show ?thesis by (auto intro: evolves_mono [OF read_evolves] audit.refl)
qed (auto intro!: create_mission_evolves create_incident_evolves set_entity_status_evolves request_action_evolves
    execute_action_evolves decide_approval_evolves update_mission_state_evolves create_checkpoint_evolves add_record_evolves
    claim_next_evolves mission_lease_evolves acquire_resource_lock_evolves resource_lock_lease_evolves record_model_trace_evolves
    update_incident_details_evolves record_action_artifacts_evolves broker_init_evolves split: option.splits)

lemma serve_evolves:
  "(\<And>r. r \<in> set rs \<Longrightarrow> request_ok (bk_rt bk) r) \<Longrightarrow> audit_extends (bk_rt bk) (w_db w) (w_db (serve bk rs w))"
proof (induction rs arbitrary: w)
  case (Cons r rs)
  have "audit_extends (bk_rt bk) (w_db w) (w_db (snd (handle bk r w)))"
    using handle_evolves [of bk r] Cons.prems by (simp add: evolves_def)
  then show ?case using audit.trans Cons by simp
qed (simp add: audit.refl)

end
