(* ===== verification/System_Correct.thy ===== *)
theory System_Correct
  imports Broker_System
begin

text \<open>
  Invariants of every history of requests: the audit log verifies and only grows, the mission queue
  and the locks are well formed, and the checkpoints of a mission are numbered without gaps.
\<close>

section \<open>The log\<close>

text \<open>
  C16. From a new database, after any requests of any clients, successful or not and across restarts,
  the audit chain verifies, every event is scrubbed, and what the log held before is still its
  beginning.
\<close>

theorem history_log_verifies:
  assumes "initialize 0 False empty_db = Inr (w_db w)" "list_all (request_ok (bk_rt bk)) (rs @ rs')"
  shows "vf_valid (verify_audit_chain (bk_rt bk) (w_db (serve bk (rs @ rs') w))) \<and>
    list_all event_clean (tb_events (w_db (serve bk (rs @ rs') w))) \<and>
    (\<exists>new. tb_events (w_db (serve bk (rs @ rs') w)) = tb_events (w_db (serve bk rs w)) @ new)"
proof -
  have "w_db w = apply_schema empty_db" using assms(1) by (simp add: initialize_def)
  then have start: "tb_events (w_db w) = []" "tb_audit_head (w_db w) = Some (0, GENESIS_HASH)"
    by (simp_all add: apply_schema_def empty_db_def)
  have ok: "audit_ok (bk_rt bk) (w_db w)" using start by (simp add: audit_ok_def log.linked_def log.tip_def)
  have "audit_extends (bk_rt bk) (w_db w) (w_db (serve bk (rs @ rs') w))"
    "audit_extends (bk_rt bk) (w_db (serve bk rs w)) (w_db (serve bk (rs @ rs') w))"
    using assms(2) serve_evolves [of "rs @ rs'" bk w] serve_evolves [of rs' bk "serve bk rs w"]
    by (auto simp: serve_append list_all_iff)
  with ok start audit_ok_valid show ?thesis unfolding audit_extends_def by auto
qed

text \<open>A creation, a restart and a refused request.\<close>

definition sample_requests :: "request list" where
  "sample_requests = [CreateMission ''hermes'' request_1 ''infra-shared'' ''Rotate logs'', Restart,
     CreateMission ''mallory'' request_2 ''infra-shared'' ''Rotate logs'']"

theorem history_log_verifies_witness:
  "vf_valid (verify_audit_chain (bk_rt sample_broker) (w_db (serve sample_broker sample_requests empty_world)))"
proof -
  have "initialize 0 False empty_db = Inr (w_db empty_world)" by (simp add: initialize_def)
  moreover have "list_all (request_ok (bk_rt sample_broker)) (sample_requests @ [])" by (simp add: sample_requests_def)
  ultimately show ?thesis using history_log_verifies [of empty_world sample_broker sample_requests "[]"] by simp
qed

section \<open>The mission tables\<close>

definition runtime_ok :: "runtime_row \<Rightarrow> bool" where
  "runtime_ok r \<longleftrightarrow> 0 \<le> mr_priority r \<and> mr_priority r \<le> 100 \<and> 1 \<le> mr_max_iterations r \<and> mr_max_iterations r \<le> 100 \<and>
     0 \<le> mr_max_api_calls r \<and> mr_max_api_calls r \<le> 100 \<and> 0 \<le> mr_api_call_count r \<and> mr_api_call_count r \<le> mr_iteration_count r \<and>
     mr_queue_state r \<in> {''queued'', ''claimed'', ''blocked'', ''done''} \<and>
     (mr_queue_state r = ''claimed'' \<longleftrightarrow> mr_claimed_by r \<noteq> None) \<and> (mr_queue_state r = ''claimed'' \<longrightarrow> mr_lease_until r \<noteq> None)"

definition numbered :: "db \<Rightarrow> bool" where
  "numbered d \<longleftrightarrow> (\<forall>m. let cs = filter (\<lambda>c. cp_mission_id c = m) (tb_mission_checkpoints d) in
     map cp_sequence cs = map int [1..<Suc (length cs)])"

definition missions_ok :: "db \<Rightarrow> bool" where
  "missions_ok d \<longleftrightarrow> runtimes.unique (tb_mission_runtime d) \<and> list_all runtime_ok (tb_mission_runtime d) \<and>
     locks.unique (tb_resource_locks d) \<and> list_all (\<lambda>l. 1 \<le> lk_fencing_token l) (tb_resource_locks d) \<and> numbered d"

abbreviation keeps_missions :: "'a op \<Rightarrow> bool" where
  "keeps_missions \<equiv> evolves (\<lambda>d d'. missions_ok d \<longrightarrow> missions_ok d')"

interpretation mission_frame: db_evolution "\<lambda>d d'. missions_ok d \<longrightarrow> missions_ok d'"
  by unfold_locales auto

subsection \<open>Statements on other tables\<close>

lemma missions_ok_frame:
  assumes "tb_mission_runtime d' = tb_mission_runtime d" "tb_resource_locks d' = tb_resource_locks d"
    "tb_mission_checkpoints d' = tb_mission_checkpoints d"
  shows "missions_ok d' = missions_ok d"
  using assms by (simp add: missions_ok_def numbered_def)

lemma keeps_exec:
  assumes "\<And>d. tb_mission_runtime (g d) = tb_mission_runtime d \<and> tb_resource_locks (g d) = tb_resource_locks d \<and>
    tb_mission_checkpoints (g d) = tb_mission_checkpoints d"
  shows "keeps_missions (op_exec g)"
  using assms by (intro mission_frame.ev_exec) (metis missions_ok_frame)

lemma keeps_tables:
  "keeps_missions (op_exec (\<lambda>d. d\<lparr>tb_approvals := g1 d\<rparr>))" "keeps_missions (op_exec (\<lambda>d. d\<lparr>tb_budget_usage := g2 d\<rparr>))"
  "keeps_missions (op_exec (\<lambda>d. d\<lparr>tb_mission_updates := g3 d\<rparr>))" "keeps_missions (op_exec (\<lambda>d. d\<lparr>tb_mission_records := g4 d\<rparr>))"
  "keeps_missions (op_exec (\<lambda>d. d\<lparr>tb_resource_lock_operations := g5 d\<rparr>))" "keeps_missions (op_exec (\<lambda>d. d\<lparr>tb_model_traces := g6 d\<rparr>))"
  "keeps_missions (op_exec (\<lambda>d. d\<lparr>tb_action_artifacts := g7 d\<rparr>))" "keeps_missions (op_exec (\<lambda>d. d\<lparr>tb_action_artifact_updates := g8 d\<rparr>))"
  "keeps_missions (op_exec (\<lambda>d. d\<lparr>tb_incident_details := g9 d\<rparr>))" "keeps_missions (op_exec (\<lambda>d. d\<lparr>tb_incident_updates := g10 d\<rparr>))"
  "keeps_missions (op_exec (\<lambda>d. d\<lparr>tb_actions := g11 d\<rparr>))" "keeps_missions (op_exec (update_actions P f))"
  "keeps_missions (op_exec (insert_action a))" "keeps_missions (op_exec (insert_incident i))"
  "keeps_missions (op_exec (insert_status_change e c))" "keeps_missions (op_exec (update_entity_status e i' st now))"
  "keeps_missions (op_exec (insert_claim_operation co))"
  by (rule keeps_exec, simp add: update_actions_def insert_action_def insert_incident_def
      insert_status_change_def update_entity_status_def insert_claim_operation_def split: entity.split)+

lemma missions_append_event: "keeps_missions (append_event rt now t a et i p)"
proof -
  have "missions_ok (w_db (snd (append_event rt now t a et i p w))) = missions_ok (w_db w)" for w
    by (rule missions_ok_frame; cases "tb_audit_head (w_db w) = None") (simp_all add: append_event_raise append_event_logged)
  then show ?thesis by (simp add: evolves_def)
qed

lemma keeps_log_action: "keeps_missions (log_action bk now t a i p)"
  unfolding log_action_def by (intro mission_frame.ev_rules missions_append_event)

lemma missions_denial: "keeps_missions (audit_denial bk a t et i c rq)"
  unfolding audit_denial_def by (intro mission_frame.ev_rules missions_append_event)

lemma missions_or_denial: "keeps_missions m \<Longrightarrow> keeps_missions (or_audit_denial bk P a t et i rq m)"
  unfolding or_audit_denial_def by (intro mission_frame.ev_rules missions_denial)

lemma missions_execute: "keeps_missions (op_execute bk argv t m)"
  by (simp add: evolves_def op_execute_def)

lemma keeps_op_mission: "keeps_missions (op_mission i)"
  unfolding op_mission_def by (intro mission_frame.ev_rules)

lemmas missions_rules = mission_frame.ev_rules keeps_tables missions_append_event keeps_log_action missions_denial missions_or_denial
  missions_execute keeps_op_mission

subsection \<open>Statements on the mission tables\<close>

lemma missions_ok_runtime:
  assumes "\<And>r. runtime_ok r \<Longrightarrow> runtime_ok (f r)" "\<And>r. mr_mission_id (f r) = mr_mission_id r" "missions_ok d"
  shows "missions_ok (d\<lparr>tb_mission_runtime := update_where P f (tb_mission_runtime d)\<rparr>)"
  using assms unfolding missions_ok_def numbered_def
  by (simp add: runtimes.unique_update) (auto simp: list_all_iff set_update_where)

lemma keeps_update_runtime:
  "(\<And>r. runtime_ok r \<Longrightarrow> runtime_ok (f r)) \<Longrightarrow> (\<And>r. mr_mission_id (f r) = mr_mission_id r) \<Longrightarrow>
   keeps_missions (op_exec (update_runtime i f))"
  unfolding update_runtime_def by (intro mission_frame.ev_exec impI missions_ok_runtime)

lemma runtime_ok_reset: "s \<in> {''queued'', ''blocked'', ''done''} \<Longrightarrow> runtime_ok r \<Longrightarrow> runtime_ok (reset_claim s now r)"
  by (auto simp: runtime_ok_def reset_claim_def)

lemma reset_claim_id [simp]: "mr_mission_id (reset_claim s now r) = mr_mission_id r"
  by (simp add: reset_claim_def)

lemma keeps_insert_mission: "keeps_missions (op_exec (insert_mission m))"
proof (intro mission_frame.ev_exec impI)
  fix d
  assume "missions_ok d"
  then show "missions_ok (insert_mission m d)"
    unfolding missions_ok_def numbered_def insert_mission_def ignore_runtime_def
    by (simp add: runtimes.unique_append) (simp add: runtime_ok_def default_runtime_def)
qed

lemma missions_ok_locks:
  assumes "missions_ok d" "locks.unique t" "list_all (\<lambda>l. 1 \<le> lk_fencing_token l) t"
  shows "missions_ok (d\<lparr>tb_resource_locks := t\<rparr>)"
  using assms by (simp add: missions_ok_def numbered_def)

lemma keeps_delete_locks: "keeps_missions (op_exec (\<lambda>d. d\<lparr>tb_resource_locks := delete_where P (tb_resource_locks d)\<rparr>))"
proof (intro mission_frame.ev_exec impI)
  fix d
  assume d: "missions_ok d"
  then show "missions_ok (d\<lparr>tb_resource_locks := delete_where P (tb_resource_locks d)\<rparr>)"
    by (rule missions_ok_locks) (use d in \<open>auto simp: missions_ok_def locks.unique_delete list_all_iff\<close>)
qed

lemma keeps_renew_locks:
  "keeps_missions (op_exec (\<lambda>d. d\<lparr>tb_resource_locks := update_where P (\<lambda>r. r\<lparr>lk_heartbeat_at := h, lk_lease_until := l\<rparr>) (tb_resource_locks d)\<rparr>))"
proof (intro mission_frame.ev_exec impI)
  fix d
  assume d: "missions_ok d"
  then show "missions_ok (d\<lparr>tb_resource_locks := update_where P (\<lambda>r. r\<lparr>lk_heartbeat_at := h, lk_lease_until := l\<rparr>) (tb_resource_locks d)\<rparr>)"
    by (rule missions_ok_locks) (use d in \<open>auto simp: missions_ok_def locks.unique_update list_all_iff set_update_where\<close>)
qed

lemma acquire_lock_db:
  "w_db (snd (acquire_lock a p m res now lease w)) \<in>
     {w_db w, upsert_lock (taken_lock a p m res now lease (lock_of res (w_db w))) (w_db w)}"
  by (simp add: acquire_lock_def op_run taken_lock_def Let_def split: option.split)

lemma keeps_acquire_lock: "keeps_missions (acquire_lock a p m res now lease)"
  unfolding evolves_def
proof (intro allI impI)
  fix w :: world
  assume ok: "missions_ok (w_db w)"
  let ?l = "taken_lock a p m res now lease (lock_of res (w_db w))"
  have tokens: "\<forall>l\<in>set (tb_resource_locks (w_db w)). 1 \<le> lk_fencing_token l"
    using ok by (simp add: missions_ok_def list_all_iff)
  then have "1 \<le> lk_fencing_token ?l"
    using lock_of_Some by (fastforce simp: taken_lock_def split: option.split)
  then have "list_all (\<lambda>l. 1 \<le> lk_fencing_token l) (tb_resource_locks (upsert_lock ?l (w_db w)))"
    using tokens by (auto simp: upsert_lock_def list_all_iff set_update_where)
  moreover have "locks.unique (tb_resource_locks (upsert_lock ?l (w_db w)))"
    using ok unique_upsert by (simp add: missions_ok_def)
  ultimately have "missions_ok (upsert_lock ?l (w_db w))"
    using missions_ok_locks [OF ok] by (simp add: upsert_lock_def)
  then show "missions_ok (w_db (snd (acquire_lock a p m res now lease w)))"
    using ok acquire_lock_db [of a p m res now lease w] by auto
qed

text \<open>A checkpoint takes the number after the last one of its mission.\<close>

lemma next_sequence_numbered:
  assumes "numbered d"
  shows "next_sequence m d = int (length (filter (\<lambda>c. cp_mission_id c = m) (tb_mission_checkpoints d))) + 1"
proof -
  have "foldl max 0 (map int [1..<Suc n]) = int n" for n
    by (induction n) (simp_all add: upt_Suc_append)
  then show ?thesis using assms by (simp add: next_sequence_def numbered_def Let_def del: upt_Suc)
qed

lemma numbered_append:
  assumes "numbered d" "cp_sequence c = next_sequence (cp_mission_id c) d"
  shows "numbered (d\<lparr>tb_mission_checkpoints := tb_mission_checkpoints d @ [c]\<rparr>)"
  using assms next_sequence_numbered [OF assms(1), of "cp_mission_id c"]
  by (auto simp: numbered_def Let_def)

lemma keeps_insert_checkpoint:
  assumes "\<And>x. keeps_missions (k x)"
  shows "keeps_missions (op_bind (op_query (next_sequence (cp_mission_id c))) (\<lambda>sequence.
     op_bind (op_exec (\<lambda>d. d\<lparr>tb_mission_checkpoints := tb_mission_checkpoints d @ [c\<lparr>cp_sequence := sequence\<rparr>]\<rparr>)) (\<lambda>_. k sequence)))"
proof (rule mission_frame.ev_query_exec [OF _ assms], rule impI)
  fix d
  assume ok: "missions_ok d"
  let ?c = "c\<lparr>cp_sequence := next_sequence (cp_mission_id c) d\<rparr>"
  have "numbered (d\<lparr>tb_mission_checkpoints := tb_mission_checkpoints d @ [?c]\<rparr>)"
    using ok numbered_append [of d ?c] by (simp add: missions_ok_def)
  with ok show "missions_ok (d\<lparr>tb_mission_checkpoints := tb_mission_checkpoints d @ [?c]\<rparr>)"
    by (simp add: missions_ok_def)
qed

subsection \<open>The columns an update may set\<close>

definition column_ok :: "string \<times> json \<Rightarrow> bool" where
  "column_ok cv \<longleftrightarrow>
     (fst cv = ''priority'' \<longrightarrow> (\<exists>i. snd cv = JInt i \<and> 0 \<le> i \<and> i \<le> 100)) \<and>
     (fst cv = ''max_iterations'' \<longrightarrow> (\<exists>i. snd cv = JInt i \<and> 1 \<le> i \<and> i \<le> 100)) \<and>
     (fst cv = ''max_api_calls'' \<longrightarrow> (\<exists>i. snd cv = JInt i \<and> 0 \<le> i \<and> i \<le> 100))"

lemma set_runtime_column_fields:
  "mr_priority (set_runtime_column r (c, v)) = (if c = ''priority'' then jint v else mr_priority r)"
  "mr_max_iterations (set_runtime_column r (c, v)) = (if c = ''max_iterations'' then jint v else mr_max_iterations r)"
  "mr_max_api_calls (set_runtime_column r (c, v)) = (if c = ''max_api_calls'' then jint v else mr_max_api_calls r)"
  "mr_api_call_count (set_runtime_column r (c, v)) = mr_api_call_count r"
  "mr_iteration_count (set_runtime_column r (c, v)) = mr_iteration_count r"
  "mr_queue_state (set_runtime_column r (c, v)) = mr_queue_state r"
  "mr_claimed_by (set_runtime_column r (c, v)) = mr_claimed_by r"
  "mr_lease_until (set_runtime_column r (c, v)) = mr_lease_until r"
  unfolding set_runtime_column_def prod.case by simp_all

lemma runtime_ok_column:
  assumes "column_ok cv" "runtime_ok r"
  shows "runtime_ok (set_runtime_column r cv)"
proof (cases cv)
  case (Pair c v)
  have "c = ''priority'' \<Longrightarrow> 0 \<le> jint v \<and> jint v \<le> 100" "c = ''max_iterations'' \<Longrightarrow> 1 \<le> jint v \<and> jint v \<le> 100"
    "c = ''max_api_calls'' \<Longrightarrow> 0 \<le> jint v \<and> jint v \<le> 100"
    using assms(1) by (auto simp: column_ok_def Pair jint_def)
  then show ?thesis using assms(2) unfolding runtime_ok_def Pair set_runtime_column_fields
    by (cases "c = ''priority''"; cases "c = ''max_iterations''"; cases "c = ''max_api_calls''"; simp)
qed

lemma runtime_ok_touch: "runtime_ok (r\<lparr>mr_updated_at := now\<rparr>) = runtime_ok r"
  by (simp add: runtime_ok_def)

lemma runtime_ok_columns: "list_all column_ok vs \<Longrightarrow> runtime_ok r \<Longrightarrow> runtime_ok (set_runtime_columns vs now r)"
proof -
  assume "list_all column_ok vs" "runtime_ok r"
  then have "runtime_ok (foldl set_runtime_column r vs)"
    by (induction vs arbitrary: r) (auto simp: runtime_ok_column)
  then show ?thesis by (simp only: set_runtime_columns_def runtime_ok_touch)
qed

lemma set_runtime_column_id [simp]: "mr_mission_id (set_runtime_column r cv) = mr_mission_id r"
  by (simp add: set_runtime_column_def split: prod.split)

lemma set_runtime_columns_id [simp]: "mr_mission_id (set_runtime_columns vs now r) = mr_mission_id r"
proof -
  have "mr_mission_id (foldl set_runtime_column r vs) = mr_mission_id r" by (induction vs arbitrary: r) auto
  then show ?thesis by (simp add: set_runtime_columns_def)
qed

lemma columns_Inr: "columns cs = Inr vs \<Longrightarrow> v \<in> set vs \<Longrightarrow> \<exists>c\<in>set cs. \<exists>xs. c = Inr xs \<and> v \<in> set xs"
proof (induction cs arbitrary: vs)
  case (Cons c cs)
  then obtain xs ys where "c = Inr xs" "columns cs = Inr ys" "vs = xs @ ys"
    by (cases c; cases "res_map id cs") (auto simp: columns_def)
  with Cons show ?case by auto
qed (simp add: columns_def)

lemma opt_column_Inr: "opt_column name f x = Inr vs \<Longrightarrow> v \<in> set vs \<Longrightarrow> \<exists>y j. x = Some y \<and> f y = Inr j \<and> v = (name, j)"
  by (cases x; cases "f (the x)") (auto simp: opt_column_def)

lemma mission_columns_ok:
  assumes "mission_columns rt p = Inr vs"
  shows "list_all column_ok vs"
proof -
  have "column_ok v" if v: "v \<in> set vs" for v
    using columns_Inr [OF assms [unfolded mission_columns_def] v]
    by (auto dest!: opt_column_Inr simp: column_ok_def int_column_def split: if_splits)
  then show ?thesis by (simp add: list_all_iff)
qed

subsection \<open>The operations\<close>

lemma keeps_create: "keeps_missions (create_mission bk a rq p t)" "keeps_missions (create_incident bk a rq p t s)"
  unfolding create_mission_def create_incident_def by (intro missions_rules keeps_insert_mission)+

lemma keeps_runtime_lambda:
  "(\<And>r. runtime_ok r \<Longrightarrow> runtime_ok (f r)) \<Longrightarrow> (\<And>r. mr_mission_id (f r) = mr_mission_id r) \<Longrightarrow>
   keeps_missions (op_exec (\<lambda>d. d\<lparr>tb_mission_runtime := update_where P f (tb_mission_runtime d)\<rparr>))"
  by (intro mission_frame.ev_exec impI missions_ok_runtime)

lemma keeps_status: "keeps_missions (set_entity_status bk e a rq i s)"
proof -
  have "queue_state_for s \<in> {''queued'', ''blocked'', ''done''}" by (simp add: queue_state_for_def)
  note reset = runtime_ok_reset [OF this]
  have "keeps_missions (mission_status_effects bk a i s now)" for now
    unfolding mission_status_effects_def
    by (intro missions_rules keeps_delete_locks keeps_runtime_lambda reset reset_claim_id)
  then show ?thesis unfolding set_entity_status_def Let_def by (intro missions_rules)
qed

lemma keeps_execute_action: "keeps_missions (execute_action bk a i)"
  unfolding execute_action_def prepare_action_def check_integrity_def integrity_conflict_def refuse_by_status_def refuse_pending_def
    check_class_c_approval_def claim_action_def run_action_def finish_action_def Let_def
  by (intro missions_rules)

lemma keeps_request_action: "keeps_missions (request_action bk a rq rb ps rs i m)"
  unfolding request_action_def store_action_def reserve_budget_def Let_def
  by (intro missions_rules keeps_execute_action)

lemma keeps_decide_approval: "keeps_missions (decide_approval bk a rq i dc src sid rs)"
  unfolding decide_approval_def decide_in_transaction_def expire_request_def record_decision_def Let_def
  by (intro missions_rules ev_outcome)

lemma keeps_update_mission: "keeps_missions (update_mission_state bk a rq i p)"
  unfolding update_mission_state_def
  by (rule mission_frame.ev_bind_lift)+
    (intro missions_rules keeps_update_runtime runtime_ok_columns mission_columns_ok set_runtime_columns_id; assumption)

lemma runtime_ok_summary:
  "runtime_ok (r\<lparr>mr_summary := a, mr_current_step := b, mr_remaining_steps_json := c, mr_next_action := d,
     mr_current_model_role := e, mr_current_model := f, mr_updated_at := g\<rparr>) = runtime_ok r"
  by (simp add: runtime_ok_def)

lemma keeps_checkpoint: "keeps_missions (create_checkpoint bk a rq i ph su de co pe ev ro na)"
proof -
  have "keeps_missions (store_checkpoint bk c pl)" for c pl
    unfolding store_checkpoint_def
    by (rule mission_frame.ev_transaction, rule mission_frame.ev_bind [OF keeps_op_mission],
        rule mission_frame.ev_bind [OF mission_frame.ev_lift], rule mission_frame.ev_bind [OF mission_frame.ev_query],
        rule mission_frame.ev_option, rule keeps_insert_checkpoint)
      (intro missions_rules keeps_update_runtime; simp add: runtime_ok_summary)+
  then show ?thesis unfolding create_checkpoint_def by (intro missions_rules)
qed

lemma keeps_record: "keeps_missions (add_record bk a rq i k c ev inc conf tr)"
  unfolding add_record_def store_record_def by (intro missions_rules)

lemma keeps_claim: "keeps_missions (claim_next bk a rq n p)"
  unfolding claim_next_def claim_in_transaction_def
  by (intro missions_rules keeps_update_runtime) (simp_all add: take_claim_def runtime_ok_def)

lemma keeps_lease: "keeps_missions (mission_lease bk a rq i oper n)"
proof -
  have beat: "runtime_ok r \<Longrightarrow> runtime_ok (r\<lparr>mr_heartbeat_at := h, mr_lease_until := Some l, mr_updated_at := u\<rparr>)" for r h l u
    by (auto simp: runtime_ok_def)
  show ?thesis unfolding mission_lease_def
    by (intro missions_rules keeps_update_runtime) (simp_all add: beat runtime_ok_reset)
qed

lemma keeps_lock: "keeps_missions (resource_lock_operation bk a rq m r oper n)"
  unfolding resource_lock_operation_def renew_or_release_lock_def
  by (intro missions_rules keeps_acquire_lock keeps_renew_locks keeps_delete_locks)

lemma keeps_locks: "keeps_missions (acquire_resource_lock bk a rq m r n)" "keeps_missions (resource_lock_lease bk a rq m r oper n)"
  unfolding acquire_resource_lock_def resource_lock_lease_def by (intro missions_rules keeps_lock)+

lemma keeps_trace: "keeps_missions (record_model_trace bk a rq i ro pr na re ou conf it ot co pa fi)"
  unfolding record_model_trace_def store_trace_def
  by (intro missions_rules keeps_update_runtime) (auto simp: count_trace_def runtime_ok_def)

lemma keeps_details: "keeps_missions (update_incident_details bk a rq i p)"
  unfolding update_incident_details_def op_incident_join_def by (intro missions_rules)

lemma keeps_artifacts: "keeps_missions (record_action_artifacts bk a rq i pa)"
  unfolding record_action_artifacts_def store_artifacts_def by (intro missions_rules)

lemma keeps_init: "keeps_missions (broker_init bk)"
  unfolding broker_init_def recover_after_restart_def interrupt_action_def requeue_mission_def expire_lock_def
  by (intro missions_rules keeps_update_runtime keeps_delete_locks) (simp_all add: runtime_ok_reset)

lemma handle_keeps_missions: "keeps_missions (handle bk r)"
proof (cases r)
  case (Read x)
  then show ?thesis by (auto intro: evolves_mono [OF read_evolves])
qed (simp_all add: keeps_create keeps_status keeps_request_action keeps_execute_action keeps_decide_approval keeps_update_mission
    keeps_checkpoint keeps_record keeps_claim keeps_lease keeps_locks keeps_trace keeps_details keeps_artifacts keeps_init)

lemma serve_keeps_missions: "missions_ok (w_db w) \<Longrightarrow> missions_ok (w_db (serve bk rs w))"
proof (induction rs arbitrary: w)
  case (Cons r rs)
  then have "missions_ok (w_db (snd (handle bk r w)))" using handle_keeps_missions unfolding evolves_def by blast
  with Cons.IH show ?case by simp
qed simp

text \<open>
  C18. After any history of requests from a new database, the mission tables are well formed: one queue
  entry per mission, priorities and budgets in their ranges, a claim exactly in the claimed state and
  with a lease, at most one lock per resource, each with a positive token, and the checkpoints of
  every mission numbered 1, 2, 3 and so on in the order they were made.
\<close>

theorem history_missions_ok:
  assumes "initialize 0 False empty_db = Inr (w_db w)" "d = w_db (serve bk rs w)"
  shows "distinct (map mr_mission_id (tb_mission_runtime d)) \<and> list_all runtime_ok (tb_mission_runtime d) \<and>
    distinct (map lk_resource_id (tb_resource_locks d)) \<and> list_all (\<lambda>l. 1 \<le> lk_fencing_token l) (tb_resource_locks d) \<and>
    (\<forall>m. map cp_sequence (filter (\<lambda>c. cp_mission_id c = m) (tb_mission_checkpoints d)) =
       map int [1..<Suc (length (filter (\<lambda>c. cp_mission_id c = m) (tb_mission_checkpoints d)))])"
proof -
  have "w_db w = apply_schema empty_db" using assms(1) by (simp add: initialize_def)
  then have "missions_ok (w_db w)"
    by (simp add: missions_ok_def numbered_def apply_schema_def empty_db_def runtimes.unique_def locks.unique_def)
  then have "missions_ok d" unfolding assms(2) by (rule serve_keeps_missions)
  then show ?thesis unfolding missions_ok_def numbered_def Let_def runtimes.unique_def locks.unique_def by blast
qed

theorem history_missions_ok_witness:
  "list_all runtime_ok (tb_mission_runtime (w_db (serve sample_broker sample_requests empty_world)))"
proof -
  have "initialize 0 False empty_db = Inr (w_db empty_world)" by (simp add: initialize_def)
  from history_missions_ok [OF this refl] show ?thesis by blast
qed

end
