(* ===== verification/Py_Number.thy ===== *)
theory Py_Number
  imports Complex_Main Py_Time
begin

text \<open>
  Python's numbers beyond \<^verbatim>\<open>int\<close>. A finite \<^verbatim>\<open>float\<close> is the rational it denotes, and each operation is
  the exact one followed by \<open>fl\<close>, the rounding to 53 significant bits (half to even, gradual underflow
  below \<^verbatim>\<open>2**-1022\<close>); the magnitudes the code reaches stay far below overflow. A \<^verbatim>\<open>decimal.Decimal\<close> is a
  rational as well, and an operation rounds to the 28 significant digits of the default context. The
  lemmas: the order of magnitude brackets a number, rounding is monotone, and it leaves alone what is
  representable.
\<close>

section \<open>Rounding to a number of significant digits\<close>

text \<open>The exponents of the powers of \<open>b\<close> below and above a positive number.\<close>

lemma div_less_iff_int: "0 < b \<Longrightarrow> a div b < c \<longleftrightarrow> a < c * b" for a b c :: int
proof
  assume b: "0 < b" and "a div b < c"
  then have "b * (a div b + 1) \<le> b * c" by (intro mult_left_mono) auto
  moreover have "a < b * (a div b) + b" using pos_mod_bound [OF b, of a] mult_div_mod_eq [of b a] by linarith
  ultimately show "a < c * b" by (simp add: algebra_simps)
next
  assume b: "0 < b" and a: "a < c * b"
  show "a div b < c"
  proof (rule ccontr)
    assume "\<not> a div b < c"
    then have "b * c \<le> b * (a div b)" using b by (intro mult_left_mono) auto
    also have "b * (a div b) \<le> a" using pos_mod_sign [OF b, of a] mult_div_mod_eq [of b a] by linarith
    finally show False using a by (simp add: mult.commute)
  qed
qed

lemma le_div_iff_int: "0 < b \<Longrightarrow> c \<le> a div b \<longleftrightarrow> c * b \<le> a" for a b c :: int
  using div_less_iff_int [of b a c] by linarith

function floor_log :: "int \<Rightarrow> int \<Rightarrow> nat" where
  "floor_log b n = (if b \<le> 1 \<or> n < b then 0 else Suc (floor_log b (n div b)))"
  by pat_completeness auto
termination
proof (relation "measure (nat \<circ> snd)")
  fix b n :: int
  assume "\<not> (b \<le> 1 \<or> n < b)"
  then show "((b, n div b), b, n) \<in> measure (nat \<circ> snd)" by (simp add: int_div_less_self)
qed simp

function ceil_log :: "int \<Rightarrow> int \<Rightarrow> nat" where
  "ceil_log b n = (if b \<le> 1 \<or> n \<le> 1 then 0 else Suc (ceil_log b ((n + b - 1) div b)))"
  by pat_completeness auto
termination
proof (relation "measure (nat \<circ> snd)")
  fix b n :: int
  assume "\<not> (b \<le> 1 \<or> n \<le> 1)"
  then have bn: "1 < b" "1 < n" by auto
  then have "0 < (n - 1) * (b - 1)" by simp
  then have "n + b - 1 < n * b" by (simp add: algebra_simps)
  with bn have "(n + b - 1) div b < n" by (simp add: div_less_iff_int)
  with bn show "((b, (n + b - 1) div b), b, n) \<in> measure (nat \<circ> snd)" by simp
qed simp

declare floor_log.simps [simp del] ceil_log.simps [simp del]

definition magnitude :: "int \<Rightarrow> rat \<Rightarrow> int" where
  "magnitude b x = (if 1 \<le> x then int (floor_log b \<lfloor>x\<rfloor>) else - int (ceil_log b \<lceil>1 / x\<rceil>))"

definition round_half_even :: "rat \<Rightarrow> int" where
  "round_half_even x =
     (let q = \<lfloor>x\<rfloor>; r = x - of_int q in
      if r < 1 / 2 then q else if 1 / 2 < r then q + 1 else if even q then q else q + 1)"

definition round_unit :: "rat \<Rightarrow> rat \<Rightarrow> rat" where
  "round_unit u x = of_int (round_half_even (x / u)) * u"

text \<open>\<^verbatim>\<open>float\<close>: 53 bits; \<^verbatim>\<open>Decimal\<close>: 28 digits.\<close>

definition fl :: "rat \<Rightarrow> rat" where
  "fl x = (if x = 0 then 0 else round_unit (2 powi max (magnitude 2 \<bar>x\<bar> - 52) (-1074)) x)"

definition dec_round :: "rat \<Rightarrow> rat" where
  "dec_round x = (if x = 0 then 0 else round_unit (10 powi (magnitude 10 \<bar>x\<bar> - 27)) x)"

text \<open>\<^verbatim>\<open>int(x)\<close> truncates.\<close>

definition py_int :: "rat \<Rightarrow> int" where
  "py_int x = (if 0 \<le> x then \<lfloor>x\<rfloor> else \<lceil>x\<rceil>)"

section \<open>Reading a number\<close>

text \<open>
  A float arrives as its \<^verbatim>\<open>repr\<close>, a decimal literal; \<open>None\<close> stands for \<^verbatim>\<open>nan\<close> and the infinities, of
  which every comparison the code makes fails. \<^verbatim>\<open>float(n)\<close> of an integer beyond the largest float raises.
\<close>

definition exponent_part :: "string \<Rightarrow> int \<times> string" where
  "exponent_part s =
     (if \<not> starts_with ''e'' s then (0, s)
      else let sign = starts_with ''e-'' s;
               r = drop (if sign \<or> starts_with ''e+'' s then 2 else 1) s;
               n = int (digits_val (takeWhile is_digit r))
           in (if sign then - n else n, dropWhile is_digit r))"

definition decimal_literal :: "string \<Rightarrow> rat option" where
  "decimal_literal s =
     (let neg = starts_with ''-'' s;
          s = (if neg then tl s else s);
          whole = takeWhile is_digit s;
          rest = dropWhile is_digit s;
          frac = (if starts_with ''.'' rest then takeWhile is_digit (tl rest) else []);
          rest = (if starts_with ''.'' rest then dropWhile is_digit (tl rest) else rest);
          (e, rest) = exponent_part rest;
          x = of_nat (digits_val (whole @ frac)) * 10 powi (e - int (length frac))
      in if whole = [] \<or> rest \<noteq> [] then None else Some (if neg then - x else x))"

definition py_float :: "json \<Rightarrow> rat option res" where
  "py_float v =
     (case v of
        JInt i \<Rightarrow> if \<bar>i\<bar> < 2 ^ 1024 - 2 ^ 970 then Inr (Some (fl (of_int i))) else Inl OverflowError
      | JFloat s \<Rightarrow> Inr (map_option fl (decimal_literal s))
      | _ \<Rightarrow> Inl TypeError)"

text \<open>
  Where the sign of a zero can be told, a finite float is a \<open>flt\<close>: \<^verbatim>\<open>-0.0\<close>, which compares equal to \<^verbatim>\<open>0.0\<close> but
  prints with its sign, or the number it denotes. A literal that is negative and rounds to zero is \<^verbatim>\<open>-0.0\<close>.
\<close>

datatype flt = Flt rat | NegZero

fun fval :: "flt \<Rightarrow> rat" where
  "fval (Flt x) = x"
| "fval NegZero = 0"

definition float_of :: "json \<Rightarrow> flt option res" where
  "float_of v =
     (let negative = (case v of JFloat s \<Rightarrow> starts_with ''-'' s | _ \<Rightarrow> False) in
      res_bind (py_float v) (\<lambda>f. Inr (map_option (\<lambda>x. if x = 0 \<and> negative then NegZero else Flt x) f)))"

section \<open>The order of magnitude\<close>

lemma floor_log_bounds: "1 < b \<Longrightarrow> 0 < n \<Longrightarrow> b ^ floor_log b n \<le> n \<and> n < b ^ Suc (floor_log b n)"
proof (induction b n rule: floor_log.induct)
  case (1 b n)
  show ?case
  proof (cases "n < b")
    case True
    with 1 show ?thesis by (simp add: floor_log.simps)
  next
    case False
    let ?k = "floor_log b (n div b)"
    have "0 < n div b" using False "1.prems" by (simp add: pos_imp_zdiv_pos_iff)
    with 1 False have IH: "b ^ ?k \<le> n div b" "n div b < b ^ Suc ?k" by auto
    have "b ^ ?k * b \<le> n" "n < b ^ Suc ?k * b" using IH "1.prems" by (simp_all only: le_div_iff_int div_less_iff_int)
    then show ?thesis using False "1.prems" by (simp add: floor_log.simps [of b n] mult.commute)
  qed
qed

lemma ceil_log_0_iff: "1 < b \<Longrightarrow> ceil_log b n = 0 \<longleftrightarrow> n \<le> 1"
  by (simp add: ceil_log.simps [of b n])

lemma ceil_log_bounds: "1 < b \<Longrightarrow> 0 < n \<Longrightarrow> n \<le> b ^ ceil_log b n \<and> (1 < n \<longrightarrow> b ^ (ceil_log b n - 1) < n)"
proof (induction b n rule: ceil_log.induct)
  case (1 b n)
  show ?case
  proof (cases "n \<le> 1")
    case True
    with 1 show ?thesis by (simp add: ceil_log.simps)
  next
    case False
    let ?m = "(n + b - 1) div b"
    let ?k = "ceil_log b ?m"
    have b: "0 < b" using "1.prems" by simp
    have m: "0 < ?m" using False "1.prems" by (simp add: pos_imp_zdiv_pos_iff)
    with 1 False have IH: "?m \<le> b ^ ?k" "1 < ?m \<longrightarrow> b ^ (?k - 1) < ?m" by auto
    have "n \<le> ?m * b" using div_less_iff_int [OF b, of "n + b - 1" "?m + 1"] by (simp add: algebra_simps)
    also have "\<dots> \<le> b ^ ?k * b" using IH(1) b by simp
    finally have up: "n \<le> b ^ Suc ?k" by (simp only: power_Suc mult.commute)
    moreover have "b ^ ?k < n"
    proof (cases "1 < ?m")
      case True
      with IH(2) have "b ^ (?k - 1) + 1 \<le> ?m" by simp
      then have "(b ^ (?k - 1) + 1) * b \<le> n + b - 1" by (simp only: le_div_iff_int [OF b])
      moreover have "?k \<noteq> 0" using True "1.prems" ceil_log_0_iff [of b ?m] by linarith
      then have "b ^ ?k = b ^ (?k - 1) * b" by (simp add: power_eq_if mult.commute)
      ultimately show ?thesis by (simp add: algebra_simps)
    next
      case False
      then have "?k = 0" using "1.prems" ceil_log_0_iff [of b ?m] by linarith
      then show ?thesis using \<open>\<not> n \<le> 1\<close> by simp
    qed
    ultimately show ?thesis using False "1.prems" by (simp add: ceil_log.simps [of b n])
  qed
qed

lemma magnitude_bounds:
  assumes "1 < b" "0 < x"
  shows "of_int b powi magnitude b x \<le> x \<and> x < of_int b powi (magnitude b x + 1)"
proof (cases "1 \<le> x")
  case True
  let ?k = "floor_log b \<lfloor>x\<rfloor>"
  have "0 < \<lfloor>x\<rfloor>" using True by simp
  from floor_log_bounds [OF assms(1) this] have "b ^ ?k \<le> \<lfloor>x\<rfloor>" "\<lfloor>x\<rfloor> < b ^ Suc ?k" by auto
  then have "of_int (b ^ ?k) \<le> x" "x < of_int (b ^ Suc ?k)" by (simp_all only: le_floor_iff floor_less_iff)
  with True show ?thesis by (simp add: magnitude_def power_int_add_1 power_int_of_nat mult.commute)
next
  case False
  let ?n = "\<lceil>1 / x\<rceil>"
  let ?k = "ceil_log b ?n"
  have "1 < 1 / x" using False assms(2) by simp
  then have n: "1 < ?n" by (simp add: less_ceiling_iff)
  then have "0 < ?n" by linarith
  from ceil_log_bounds [OF assms(1) this] n have up: "?n \<le> b ^ ?k" and low: "b ^ (?k - 1) < ?n" by (blast, blast)
  have k: "?k \<noteq> 0" using n ceil_log_0_iff [OF assms(1), of ?n] by linarith
  have up': "1 / x \<le> of_int (b ^ ?k)" and low': "of_int (b ^ (?k - 1)) < 1 / x"
    using up low by (simp_all only: ceiling_le_iff less_ceiling_iff)
  have b: "(0 :: rat) < of_int b" using assms(1) by simp
  have "1 \<le> x * of_int b ^ ?k" using up' assms(2) by (simp add: field_simps)
  then have "inverse (of_int b ^ ?k) \<le> x" using b by (simp add: field_simps)
  moreover have "x < inverse (of_int b ^ (?k - 1))" using low' assms(2) b by (simp add: field_simps)
  moreover have m: "magnitude b x = - int ?k" using False by (simp add: magnitude_def)
  moreover have "magnitude b x + 1 = - int (?k - 1)" using k m by simp
  ultimately show ?thesis by (simp only: power_int_minus power_int_of_nat)
qed

section \<open>Rounding\<close>

lemma round_half_even_le: "x \<le> of_int n \<Longrightarrow> round_half_even x \<le> n"
proof -
  assume x: "x \<le> of_int n"
  show ?thesis
  proof (cases "x = of_int n")
    case True
    then show ?thesis by (simp add: round_half_even_def Let_def)
  next
    case False
    with x have "\<lfloor>x\<rfloor> < n" by (simp add: floor_less_iff)
    then show ?thesis by (auto simp: round_half_even_def Let_def)
  qed
qed

lemma round_half_even_ge: "of_int n \<le> x \<Longrightarrow> n \<le> round_half_even x"
proof -
  assume "of_int n \<le> x"
  then have "n \<le> \<lfloor>x\<rfloor>" by (simp add: le_floor_iff)
  moreover have "\<lfloor>x\<rfloor> \<le> round_half_even x" by (simp add: round_half_even_def Let_def)
  ultimately show ?thesis by (rule order_trans)
qed

lemma round_half_even_of_int [simp]: "round_half_even (of_int n) = n"
  by (simp add: round_half_even_def Let_def)

lemma round_half_even_mono: "x \<le> y \<Longrightarrow> round_half_even x \<le> round_half_even y"
proof (cases "\<lfloor>x\<rfloor> = \<lfloor>y\<rfloor>")
  case True
  assume "x \<le> y"
  with True show ?thesis by (auto simp: round_half_even_def Let_def)
next
  case False
  assume "x \<le> y"
  with False have "\<lfloor>x\<rfloor> + 1 \<le> \<lfloor>y\<rfloor>" using floor_mono [of x y] by linarith
  moreover have "round_half_even x \<le> \<lfloor>x\<rfloor> + 1" by (auto simp: round_half_even_def Let_def)
  moreover have "\<lfloor>y\<rfloor> \<le> round_half_even y" by (auto simp: round_half_even_def Let_def)
  ultimately show ?thesis by linarith
qed

lemma round_unit_exact: "u \<noteq> 0 \<Longrightarrow> x = of_int n * u \<Longrightarrow> round_unit u x = x"
  by (simp add: round_unit_def)

lemma round_unit_mono: "0 < u \<Longrightarrow> x \<le> y \<Longrightarrow> round_unit u x \<le> round_unit u y"
  by (simp add: round_unit_def round_half_even_mono divide_right_mono)

lemma round_unit_le: "0 < u \<Longrightarrow> x \<le> of_int n * u \<Longrightarrow> round_unit u x \<le> of_int n * u"
  by (simp add: round_unit_def round_half_even_le pos_divide_le_eq)

lemma round_unit_ge: "0 < u \<Longrightarrow> of_int n * u \<le> x \<Longrightarrow> of_int n * u \<le> round_unit u x"
  by (simp add: round_unit_def round_half_even_ge pos_le_divide_eq)

lemma magnitude_mono: "1 < b \<Longrightarrow> 0 < x \<Longrightarrow> x \<le> y \<Longrightarrow> magnitude b x \<le> magnitude b y"
proof (rule ccontr)
  assume b: "1 < b" and x: "0 < x" "x \<le> y" and "\<not> magnitude b x \<le> magnitude b y"
  then have "magnitude b y + 1 \<le> magnitude b x" by simp
  then have "of_int b powi (magnitude b y + 1) \<le> (of_int b powi magnitude b x :: rat)" using b by (intro power_int_increasing) auto
  with magnitude_bounds [OF b, of x] magnitude_bounds [OF b, of y] x show False by fastforce
qed

text \<open>What fits in the digits is left alone: an integer multiple of the unit of its magnitude.\<close>

lemma dec_round_exact:
  assumes "x = of_int n / 10 ^ k" "\<bar>n\<bar> < 10 ^ 28"
  shows "dec_round x = x"
proof (cases "x = 0")
  case True
  then show ?thesis by (simp add: dec_round_def)
next
  case False
  let ?m = "magnitude 10 \<bar>x\<bar>"
  have "10 powi ?m \<le> \<bar>x\<bar>" using magnitude_bounds [of 10 "\<bar>x\<bar>"] False by simp
  moreover have "\<bar>x\<bar> < 10 powi (28 - int k)"
  proof -
    have "(of_int \<bar>n\<bar> :: rat) < of_int (10 ^ 28)" using assms(2) by (simp only: of_int_less_iff)
    then have "\<bar>x\<bar> < 10 ^ 28 / 10 ^ k" using assms(1) by (simp add: abs_divide divide_strict_right_mono)
    then show ?thesis by (simp add: power_int_diff power_int_of_nat)
  qed
  ultimately have "(10 :: rat) powi ?m < 10 powi (28 - int k)" by simp
  then have "?m < 28 - int k" by (metis leI linorder_not_less one_le_numeral power_int_increasing)
  then have "?m - 27 \<le> - int k" by simp
  then obtain j where j: "- int k = (?m - 27) + int j" unfolding zle_iff_zadd by blast
  have "x = of_int n * 10 powi (- int k)" using assms(1) by (simp add: power_int_minus power_int_of_nat divide_inverse)
  also have "\<dots> = of_int (n * 10 ^ j) * 10 powi (?m - 27)" by (simp add: j power_int_add power_int_of_nat)
  finally have "round_unit (10 powi (?m - 27)) x = x" by (rule round_unit_exact [rotated]) simp
  with False show ?thesis by (simp add: dec_round_def)
qed

end
