(* ===== verification/Orch_Base.thy ===== *)
theory Orch_Base
  imports Py_Number Py_Op
begin

text \<open>
  The data of the orchestrator (\<^verbatim>\<open>orchestrator/src/ops_orchestrator\<close>): the enums and frozen dataclasses
  of \<^verbatim>\<open>models.py\<close>, those of \<^verbatim>\<open>config.py\<close> that routing uses, the rows of its SQLite schema
  (\<^verbatim>\<open>database.py\<close>), and the world its handlers run in. Fields that Python types as \<^verbatim>\<open>float\<close> are
  values of \<open>flt\<close> (thresholds, which are only compared, the rationals they denote); columns that hold a rendering of the clock are kept as instants.
\<close>

section \<open>Requests and results (models.py)\<close>

text \<open>\<^verbatim>\<open>[A-Za-z0-9][A-Za-z0-9._:-]{0,127}\<close>, the identifiers of missions and projects.\<close>

definition ascii_alnum :: "char \<Rightarrow> bool" where
  "ascii_alnum c \<longleftrightarrow> in_ranges [(48, 57), (65, 90), (97, 122)] c"

definition safe_identifier :: "string \<Rightarrow> bool" where
  "safe_identifier s \<longleftrightarrow>
     s \<noteq> [] \<and> length s \<le> 128 \<and> ascii_alnum (hd s) \<and>
     list_all (\<lambda>c. ascii_alnum c \<or> c = CHR ''.'' \<or> c = CHR ''_'' \<or> c = CHR '':'' \<or> c = CHR ''-'') (tl s)"

datatype role = TINY | LOCAL_OPS | REASONING | PREMIUM | CODER | EMBEDDING | RERANKER

datatype task_type = OBSERVE | ANALYZE | PLAN | SUMMARIZE | CODE | EMBED | RERANK

datatype risk = LOW | MEDIUM | HIGH | CRITICAL

datatype urgency = ROUTINE | NORMAL | URGENT | EMERGENCY

definition role_value :: "role \<Rightarrow> string" where
  "role_value r = (case r of TINY \<Rightarrow> ''ROLE_TINY'' | LOCAL_OPS \<Rightarrow> ''ROLE_LOCAL_OPS'' | REASONING \<Rightarrow> ''ROLE_REASONING''
     | PREMIUM \<Rightarrow> ''ROLE_PREMIUM'' | CODER \<Rightarrow> ''ROLE_CODER'' | EMBEDDING \<Rightarrow> ''ROLE_EMBEDDING'' | RERANKER \<Rightarrow> ''ROLE_RERANKER'')"

definition task_value :: "task_type \<Rightarrow> string" where
  "task_value t = (case t of OBSERVE \<Rightarrow> ''OBSERVE'' | ANALYZE \<Rightarrow> ''ANALYZE'' | PLAN \<Rightarrow> ''PLAN'' | SUMMARIZE \<Rightarrow> ''SUMMARIZE''
     | CODE \<Rightarrow> ''CODE'' | EMBED \<Rightarrow> ''EMBED'' | RERANK \<Rightarrow> ''RERANK'')"

definition risk_value :: "risk \<Rightarrow> string" where
  "risk_value r = (case r of LOW \<Rightarrow> ''LOW'' | MEDIUM \<Rightarrow> ''MEDIUM'' | HIGH \<Rightarrow> ''HIGH'' | CRITICAL \<Rightarrow> ''CRITICAL'')"

definition urgency_value :: "urgency \<Rightarrow> string" where
  "urgency_value u = (case u of ROUTINE \<Rightarrow> ''ROUTINE'' | NORMAL \<Rightarrow> ''NORMAL'' | URGENT \<Rightarrow> ''URGENT'' | EMERGENCY \<Rightarrow> ''EMERGENCY'')"

text \<open>The members of each enum in definition order.\<close>

definition all_roles :: "role list" where
  "all_roles = [TINY, LOCAL_OPS, REASONING, PREMIUM, CODER, EMBEDDING, RERANKER]"

record prompt_context =
  cx_instructions :: string
  cx_mission :: string
  cx_current_state :: string
  cx_relevant_memories :: "string list"
  cx_tool_results :: "string list"

definition sections :: "prompt_context \<Rightarrow> (string \<times> string) list" where
  "sections c =
     [(''instructions'', cx_instructions c), (''mission'', cx_mission c)] @
     (if cx_current_state c \<noteq> [] then [(''current_state'', cx_current_state c)] else []) @
     map (Pair ''relevant_memory'') (cx_relevant_memories c) @ map (Pair ''tool_result'') (cx_tool_results c)"

definition character_count :: "prompt_context \<Rightarrow> int" where
  "character_count c = sum_list (map (\<lambda>(_, v). int (length v)) (sections c))"

definition estimated_tokens :: "prompt_context \<Rightarrow> int" where
  "estimated_tokens c = max 1 ((character_count c + 2) div 3)"

record model_request =
  rq_mission_id :: string
  rq_project_id :: string
  rq_task_type :: task_type
  rq_risk :: risk
  rq_complexity :: flt
  rq_impact :: flt
  rq_confidence :: flt
  rq_urgency :: urgency
  rq_deterministic_available :: bool
  rq_remote_allowed :: bool
  rq_context :: prompt_context
  rq_requested_max_cost_usd :: "string option"
  rq_verification_mode :: bool

record provider_result =
  pv_status :: string
  pv_confidence :: flt
  pv_summary :: string
  pv_plan :: "string list"
  pv_proposal :: "string option"
  pv_input_tokens :: int
  pv_output_tokens :: int
  pv_raw_usage_known :: bool
  pv_verification :: "string option"

record executor_result =
  er_role :: role
  er_provider_id :: string
  er_account_id :: "string option"
  er_chat_family :: "string option"
  er_model :: string
  er_confidence :: flt
  er_summary :: string
  er_plan :: "string list"
  er_proposal :: "string option"

record verification_outcome =
  vo_required :: bool
  vo_status :: string
  vo_role :: "role option"
  vo_provider_id :: "string option"
  vo_account_id :: "string option"
  vo_chat_family :: "string option"
  vo_model :: "string option"
  vo_confidence :: "flt option"
  vo_summary :: "string option"

record route_decision =
  rd_route_id :: string
  rd_mission_id :: string
  rd_selected_role :: "role option"
  rd_selected_provider :: "string option"
  rd_selected_model :: "string option"
  rd_disposition :: string
  rd_reason :: string
  rd_confidence :: flt
  rd_summary :: string
  rd_plan :: "string list"
  rd_proposal :: "string option"
  rd_requires_human_approval :: bool
  rd_degraded :: bool
  rd_trace_sequence :: int
  rd_executor_result :: "executor_result option"
  rd_verification :: "verification_outcome option"

section \<open>Configuration (config.py)\<close>

record limits =
  lm_max_section_chars :: int
  lm_max_context_chars :: int
  lm_max_context_tokens :: int
  lm_max_memories :: int
  lm_max_tool_results :: int
  lm_max_iterations :: int
  lm_max_provider_calls :: int
  lm_max_output_tokens :: int

record thresholds =
  th_high_confidence :: rat
  th_medium_confidence :: rat
  th_simple_complexity :: rat
  th_complex_complexity :: rat
  th_minimum_provider_confidence :: rat

record budget_limits =
  bl_daily_calls :: int
  bl_monthly_calls :: int
  bl_daily_tokens :: int
  bl_monthly_tokens :: int
  bl_daily_cost :: int
  bl_monthly_cost :: int
  bl_mission_cost :: int

record account_budget =
  ab_account_id :: string
  ab_daily_calls :: int
  ab_monthly_calls :: int
  ab_daily_tokens :: int
  ab_monthly_tokens :: int
  ab_daily_cost :: int
  ab_monthly_cost :: int
  ab_task_calls :: int
  ab_task_tokens :: int
  ab_task_cost :: int

record price_tier =
  pt_max_input_tokens :: int
  pt_input_price :: int
  pt_output_price :: int

record provider_config =
  pc_provider_id :: string
  pc_account_id :: "string option"
  pc_capability_profile :: string
  pc_role :: role
  pc_kind :: string
  pc_location :: string
  pc_model :: "string option"
  pc_model_env :: "string option"
  pc_input_price :: "string option"
  pc_input_price_env :: "string option"
  pc_output_price :: "string option"
  pc_output_price_env :: "string option"
  pc_price_tiers :: "price_tier list"
  pc_chat_family :: "string option"
  pc_budget :: budget_limits

section \<open>Tables (database.py)\<close>

record usage_row =
  ur_call_id :: string
  ur_route_id :: string
  ur_mission_id :: string
  ur_provider_id :: string
  ur_account_id :: "string option"
  ur_role :: string
  ur_model :: string
  ur_location :: string
  ur_reason :: string
  ur_created_at :: instant
  ur_completed_at :: "instant option"
  ur_status :: string
  ur_reserved_input :: int
  ur_reserved_output :: int
  ur_actual_input :: "int option"
  ur_actual_output :: "int option"
  ur_reserved_cost :: int
  ur_actual_cost :: "int option"
  ur_error_code :: "string option"

record event_facts =
  ef_mission_id :: string
  ef_route_id :: string
  ef_event_type :: string
  ef_role :: "string option"
  ef_provider_id :: "string option"
  ef_model :: "string option"
  ef_location :: "string option"
  ef_reason :: string
  ef_risk :: string
  ef_complexity :: flt
  ef_impact :: flt
  ef_confidence_in :: "flt option"
  ef_confidence_out :: "flt option"
  ef_input_tokens :: int
  ef_output_tokens :: int
  ef_cost :: int

record model_trace_row =
  mt_event_id :: string
  mt_sequence :: int
  mt_created_at :: instant
  mt_facts :: event_facts
  mt_previous_hash :: string
  mt_event_hash :: string

record run_row =
  rr_route_id :: string
  rr_mission_id :: string
  rr_project_id :: string
  rr_task_type :: string
  rr_risk :: string
  rr_complexity :: flt
  rr_impact :: flt
  rr_requested_role :: "string option"
  rr_final_role :: "string option"
  rr_final_provider :: "string option"
  rr_status :: string
  rr_reason :: string
  rr_started_at :: instant
  rr_completed_at :: "instant option"
  rr_duration_ms :: "int option"

record validation_row =
  va_route_id :: string
  va_mission_id :: string
  va_project_id :: string
  va_task_type :: string
  va_role :: string
  va_provider_id :: string
  va_account_id :: "string option"
  va_model :: string
  va_outcome :: string
  va_quality_milli :: int
  va_corrections :: int
  va_evidence_kind :: string
  va_recorded_at :: instant

record score =
  sc_provider_id :: string
  sc_account_id :: "string option"
  sc_model :: string
  sc_estimated_cost :: int
  sc_attempt_count :: int
  sc_completed_attempts :: int
  sc_uncertain_attempts :: int
  sc_validation_count :: int
  sc_successful_validations :: int
  sc_posterior_quality :: int
  sc_quality_adjustment :: int
  sc_observed_latency :: "int option"
  sc_latency_samples :: int
  sc_latency_target :: "int option"
  sc_latency_sufficient :: bool
  sc_latency_adjustment :: int
  sc_adjustment :: int
  sc_adaptive_cost :: int

record score_row =
  sr_audit_id :: string
  sr_route_id :: string
  sr_task_type :: string
  sr_role :: string
  sr_score :: score
  sr_rank :: int
  sr_created_at :: instant

text \<open>The tables routing touches; \<open>od_counters\<close> maps a metric key and its rendered labels to a value.\<close>

record odb =
  od_usage :: "usage_row list"
  od_trace :: "model_trace_row list"
  od_runs :: "run_row list"
  od_counters :: "((string \<times> string) \<times> int) list"
  od_validations :: "validation_row list"
  od_scores :: "score_row list"

section \<open>The world of the orchestrator\<close>

text \<open>
  \<open>orchestrator\<close> is a started \<^verbatim>\<open>OrchestratorService\<close>: its configuration, its environment, the capability
  profiles of its catalogue, and what the model takes from outside. \<open>oc_available\<close> and \<open>oc_invoke\<close> are the
  two methods of the \<^verbatim>\<open>Provider\<close> protocol (\<^verbatim>\<open>providers.py\<close>), whose answers may change from one call to the
  next, hence the index; \<open>oc_lock\<close> says whether the n-th \<^verbatim>\<open>local_model_lock.acquire(timeout)\<close> succeeds;
  \<open>oc_sha256\<close> is \<^verbatim>\<open>hashlib.sha256(b).hexdigest()\<close>, \<open>oc_frepr\<close> the \<^verbatim>\<open>repr\<close> of a finite float, and
  \<open>oc_elapsed_ms\<close> SQLite's rounded difference of two \<^verbatim>\<open>julianday\<close> values in milliseconds.
\<close>

record orchestrator =
  oc_limits :: limits
  oc_thresholds :: thresholds
  oc_account_budgets :: "(string \<times> account_budget) list"
  oc_providers :: "role \<Rightarrow> provider_config list"
  oc_environment :: "string \<rightharpoonup> string"
  oc_profiles :: "(string \<times> (string \<times> int) list) list"
  oc_available :: "nat \<Rightarrow> provider_config \<Rightarrow> bool \<times> string"
  oc_invoke :: "nat \<Rightarrow> provider_config \<Rightarrow> model_request \<Rightarrow> int \<Rightarrow> provider_result res"
  oc_lock :: "nat \<Rightarrow> bool"
  oc_sha256 :: "nat list \<Rightarrow> string"
  oc_frepr :: "flt \<Rightarrow> string"
  oc_elapsed_ms :: "instant \<Rightarrow> instant \<Rightarrow> int"

text \<open>
  The world adds the tape of \<^verbatim>\<open>time.monotonic\<close> readings, the number of availability probes, the log of
  \<^verbatim>\<open>invoke\<close> calls, and the state of the local model lock: attempts so far, and whether it is held.
\<close>

record oworld = "odb pworld" +
  ow_monotonic :: "nat \<Rightarrow> rat"
  ow_reads :: nat
  ow_probes :: nat
  ow_calls :: "(provider_config \<times> model_request \<times> int) list"
  ow_lock_attempts :: nat
  ow_lock_held :: bool

type_synonym 'a oop = "oworld \<Rightarrow> 'a res \<times> oworld"

definition op_monotonic :: "rat oop" where
  "op_monotonic = (\<lambda>w. (Inr (ow_monotonic w (ow_reads w)), w\<lparr>ow_reads := Suc (ow_reads w)\<rparr>))"

definition op_available :: "orchestrator \<Rightarrow> provider_config \<Rightarrow> (bool \<times> string) oop" where
  "op_available oc p = (\<lambda>w. (Inr (oc_available oc (ow_probes w) p), w\<lparr>ow_probes := Suc (ow_probes w)\<rparr>))"

definition op_invoke :: "orchestrator \<Rightarrow> provider_config \<Rightarrow> model_request \<Rightarrow> int \<Rightarrow> provider_result oop" where
  "op_invoke oc p rq n = (\<lambda>w. (oc_invoke oc (length (ow_calls w)) p rq n, w\<lparr>ow_calls := ow_calls w @ [(p, rq, n)]\<rparr>))"

definition op_acquire :: "orchestrator \<Rightarrow> bool oop" where
  "op_acquire oc = (\<lambda>w. let ok = oc_lock oc (ow_lock_attempts w) in
     (Inr ok, w\<lparr>ow_lock_attempts := Suc (ow_lock_attempts w), ow_lock_held := (ow_lock_held w \<or> ok)\<rparr>))"

definition op_release :: "unit oop" where
  "op_release = (\<lambda>w. (Inr (), w\<lparr>ow_lock_held := False\<rparr>))"

text \<open>\<^verbatim>\<open>try: m finally: h\<close>, and \<^verbatim>\<open>if c: m\<close>.\<close>

definition op_finally :: "'a oop \<Rightarrow> unit oop \<Rightarrow> 'a oop" where
  "op_finally m h = (\<lambda>w. case m w of (r, w') \<Rightarrow> (case h w' of (Inl e, w'') \<Rightarrow> (Inl e, w'') | (Inr _, w'') \<Rightarrow> (r, w'')))"

definition op_when :: "bool \<Rightarrow> unit oop \<Rightarrow> unit oop" where
  "op_when c m = (if c then m else op_ret ())"

text \<open>\<^verbatim>\<open>try: m except Exception as exc: h(exc)\<close>, with the result of the body handed to \<^verbatim>\<open>else\<close>.\<close>

definition op_try :: "('d, 'z, 'a) pop \<Rightarrow> ('d, 'z, py_exc + 'a) pop" where
  "op_try m = (\<lambda>w. case m w of (r, w') \<Rightarrow> (Inr r, w'))"

text \<open>An integer bound to an \<^verbatim>\<open>INTEGER\<close> column must fit in 64 bits.\<close>

definition int64 :: "int \<Rightarrow> bool" where
  "int64 i \<longleftrightarrow> - (2 ^ 63) \<le> i \<and> i < 2 ^ 63"

definition bind_ints :: "int list \<Rightarrow> unit res" where
  "bind_ints xs = raise_if (\<not> list_all int64 xs) OverflowError"

section \<open>JSON as \<^verbatim>\<open>json.dumps(..., ensure_ascii=True)\<close> writes it\<close>

definition ascii_esc :: "char \<Rightarrow> string" where
  "ascii_esc c = (if of_char c < (127 :: nat) then json_esc c else [CHR 0x5C, CHR ''u''] @ hex_pad 4 (of_char c))"

definition ascii_quote :: "string \<Rightarrow> string" where
  "ascii_quote s = CHR 0x22 # concat (map ascii_esc s) @ [CHR 0x22]"

text \<open>Compact separators; \<open>sk\<close> is \<^verbatim>\<open>sort_keys\<close>.\<close>

fun ascii_json :: "bool \<Rightarrow> json \<Rightarrow> string" where
  "ascii_json sk JNull = ''null''"
| "ascii_json sk (JBool b) = (if b then ''true'' else ''false'')"
| "ascii_json sk (JInt i) = int_str i"
| "ascii_json sk (JFloat f) = float_json f"
| "ascii_json sk (JStr s) = ascii_quote s"
| "ascii_json sk (JList xs) = ''['' @ join '','' (map (ascii_json sk) xs) @ '']''"
| "ascii_json sk (JDict kvs) =
     (let items = map (\<lambda>(k, v). (k, ascii_json sk v)) kvs in
      ''{'' @ join '','' (map (\<lambda>(k, t). ascii_quote k @ '':'' @ t) (if sk then sort_key fst items else items)) @ ''}'')"

definition opt_str :: "string option \<Rightarrow> json" where
  "opt_str x = (case x of None \<Rightarrow> JNull | Some s \<Rightarrow> JStr s)"

end
