(* ===== verification/Orch_Routing.thy ===== *)
theory Orch_Routing
  imports Orch_Base
begin

text \<open>
  The pure part of routing: \<^verbatim>\<open>routing.py\<close> (which roles a request is offered to, in which order),
  \<^verbatim>\<open>capability_routing.py\<close> (the hard minimums a deployment must meet), the token estimate of
  \<^verbatim>\<open>providers.py\<close>, and the methods of \<^verbatim>\<open>ProviderConfig\<close> that give a call its model and its prices.
\<close>

section \<open>Routing plans (routing.py)\<close>

record routing_plan =
  rp_roles :: "role list"
  rp_reason :: string
  rp_deterministic :: bool

abbreviation routed_to :: "role list \<Rightarrow> string \<Rightarrow> routing_plan" where
  "routed_to roles reason \<equiv> \<lparr>rp_roles = roles, rp_reason = reason, rp_deterministic = False\<rparr>"

text \<open>\<^verbatim>\<open>int(self.max_context_tokens * 0.75)\<close>: the product is exact for every configurable bound.\<close>

definition large_context :: "int \<Rightarrow> int" where
  "large_context max_context_tokens = py_int (fl (of_int max_context_tokens * (3 / 4)))"

definition plan :: "thresholds \<Rightarrow> int \<Rightarrow> model_request \<Rightarrow> routing_plan" where
  "plan th max_context_tokens rq =
     (if rq_deterministic_available rq
      then \<lparr>rp_roles = [], rp_reason = ''an explicitly available deterministic tool takes priority'', rp_deterministic = True\<rparr>
      else if rq_task_type rq = EMBED then routed_to [EMBEDDING] ''embedding task requires the embedding role''
      else if rq_task_type rq = RERANK then routed_to [RERANKER] ''reranking task requires the reranker role''
      else if rq_task_type rq = CODE
      then routed_to [CODER, PREMIUM] ''missing code starts with isolated coders and escalates to premium only after failure''
      else if rq_risk rq = CRITICAL
      then routed_to [PREMIUM] ''critical risk justifies the exceptional premium tier and still requires human approval''
      else if rq_risk rq = HIGH
      then routed_to [REASONING, PREMIUM] ''high risk starts with expert reasoning and escalates to premium only on failure''
      else if fval (rq_impact rq) \<ge> 3 / 4
      then routed_to [REASONING, PREMIUM] ''high potential impact requires expert reasoning before any premium escalation''
      else if estimated_tokens (rq_context rq) \<ge> large_context max_context_tokens
      then routed_to [REASONING, PREMIUM] ''large bounded context requires expert reasoning before any premium escalation''
      else if fval (rq_confidence rq) < th_medium_confidence th
      then routed_to [REASONING, PREMIUM] ''low confidence requires expert reasoning before any premium escalation''
      else if fval (rq_complexity rq) \<ge> th_complex_complexity th
      then routed_to [REASONING, PREMIUM] ''high complexity requires expert reasoning before any premium escalation''
      else if rq_urgency rq = EMERGENCY \<and> fval (rq_complexity rq) > th_simple_complexity th
      then routed_to [REASONING, PREMIUM] ''urgent non-trivial analysis requires expert reasoning before any premium escalation''
      else if fval (rq_confidence rq) \<ge> th_high_confidence th \<and> fval (rq_complexity rq) \<le> th_simple_complexity th \<and>
              fval (rq_impact rq) \<le> 1 / 4 \<and> rq_risk rq = LOW
      then routed_to [TINY, LOCAL_OPS, REASONING, PREMIUM] ''simple low-risk high-confidence work starts with the least-cost capable API tier''
      else routed_to [LOCAL_OPS, REASONING, PREMIUM] ''moderate work starts with the standard API tier and escalates only if needed'')"

section \<open>Capability requirements (capability_routing.py)\<close>

definition RISK_RELIABILITY :: "risk \<Rightarrow> int" where
  "RISK_RELIABILITY r = (case r of LOW \<Rightarrow> 5 | MEDIUM \<Rightarrow> 6 | HIGH \<Rightarrow> 8 | CRITICAL \<Rightarrow> 9)"

definition complexity_level :: "rat \<Rightarrow> int" where
  "complexity_level c = py_int (fl (fl (c * 3) + 1 / 2))"

text \<open>\<^verbatim>\<open>0.60\<close> as a float.\<close>

definition requirements_for :: "model_request \<Rightarrow> (string \<times> int) list" where
  "requirements_for rq =
     (let complexity = complexity_level (fval (rq_complexity rq));
          uncertainty = (if fval (rq_confidence rq) < fl (60 / 100) then 1 else 0);
          reliability = RISK_RELIABILITY (rq_risk rq);
          factuality = min 9 reliability;
          common = [(''instructions'', min 9 (5 + complexity div 2)), (''reliability'', reliability)];
          result =
            (case rq_task_type rq of
               OBSERVE \<Rightarrow> common @ [(''general'', 4 + complexity), (''factuality'', factuality)]
             | SUMMARIZE \<Rightarrow> common @ [(''general'', 5 + complexity), (''factuality'', factuality), (''multilingual'', 6)]
             | CODE \<Rightarrow> common @ [(''reasoning'', min 9 (5 + complexity + uncertainty)), (''code'', min 10 (7 + complexity)),
                 (''tools'', 7), (''agentic'', min 9 (6 + complexity))]
             | PLAN \<Rightarrow> common @ [(''reasoning'', min 10 (5 + complexity + uncertainty)), (''tools'', min 9 (6 + complexity)),
                 (''agentic'', min 9 (6 + complexity)), (''factuality'', factuality)]
             | _ \<Rightarrow> common @ [(''reasoning'', min 10 (4 + complexity + uncertainty)), (''factuality'', factuality),
                 (''general'', min 9 (4 + complexity))]);
          result = result @ (if rq_urgency rq = EMERGENCY then [(''speed'', 4)] else [])
      in if rq_task_type rq \<in> {EMBED, RERANK} then []
         else map (\<lambda>(key, value). (key, max 0 (min 10 value))) (sort_key fst result))"

text \<open>Whether the profile passes, the deficits, and the total positive margin.\<close>

definition profile_get :: "(string \<times> int) list \<Rightarrow> string \<Rightarrow> int \<Rightarrow> int" where
  "profile_get profile dimension missing = (case map_of profile dimension of None \<Rightarrow> missing | Some v \<Rightarrow> v)"

definition capability_check :: "(string \<times> int) list \<Rightarrow> (string \<times> int) list \<Rightarrow> bool \<times> (string \<times> int) list \<times> int" where
  "capability_check profile requirements =
     (let deficits = map (\<lambda>(d, m). (d, m - profile_get profile d (-1))) (filter (\<lambda>(d, m). profile_get profile d (-1) < m) requirements);
          margin = sum_list (map (\<lambda>(d, m). max 0 (profile_get profile d 0 - m)) requirements)
      in (deficits = [], deficits, margin))"

section \<open>Token estimates (providers.py)\<close>

text \<open>The length in bytes of \<^verbatim>\<open>FIXED_SYSTEM_PROMPT\<close>.\<close>

definition system_prompt_bytes :: int where
  "system_prompt_bytes = 951"

text \<open>\<^verbatim>\<open>f"{x:.3f}"\<close> of a number that is not less than zero.\<close>

definition fixed3 :: "flt \<Rightarrow> string" where
  "fixed3 x = (let n = round_half_even (fval x * 1000) in (if x = NegZero then ''-'' else []) @ int_str (n div 1000) @ ''.'' @ dec_pad 3 (n mod 1000))"

definition escape_markup :: "string \<Rightarrow> string" where
  "escape_markup s =
     concat (map (\<lambda>c. if c = CHR ''&'' then [CHR 0x5C] @ ''u0026'' else if c = CHR ''<'' then [CHR 0x5C] @ ''u003c''
                   else if c = CHR ''>'' then [CHR 0x5C] @ ''u003e'' else [c]) s)"

definition context_section :: "nat \<Rightarrow> string \<times> string \<Rightarrow> string" where
  "context_section index s =
     ''CONTEXT_SECTION='' @ escape_markup (ascii_json False
        (JDict [(''index'', JInt (int index)), (''label'', JStr (fst s)), (''content'', JStr (snd s))]))"

definition render_prompt :: "model_request \<Rightarrow> string" where
  "render_prompt rq =
     join [chr_nl]
       ([(if rq_verification_mode rq then ''MODE=INDEPENDENT_VERIFICATION'' else ''MODE=EXECUTION''),
         ''TASK_TYPE='' @ task_value (rq_task_type rq), ''RISK='' @ risk_value (rq_risk rq),
         ''IMPACT='' @ fixed3 (rq_impact rq), ''URGENCY='' @ urgency_value (rq_urgency rq), ''PROJECT='' @ rq_project_id rq] @
        map (\<lambda>(i, s). context_section i s) (enumerate 1 (sections (rq_context rq))))"

abbreviation utf8_len :: "string \<Rightarrow> int" where
  "utf8_len s \<equiv> int (length (utf8_encode s))"

abbreviation chat_kinds :: "string set" where
  "chat_kinds \<equiv> {''ollama_chat'', ''openai_chat'', ''openai_responses'', ''anthropic_chat''}"

definition conservative_input_tokens :: "model_request \<Rightarrow> string \<Rightarrow> int res" where
  "conservative_input_tokens rq kind =
     (let c = rq_context rq in
      if kind \<in> chat_kinds then Inr (system_prompt_bytes + utf8_len (render_prompt rq) + 2048)
      else if kind \<in> {''ollama_embedding'', ''openai_embedding''} then Inr (max 1 (utf8_len (cx_mission c) + 64))
      else if kind = ''http_rerank''
      then Inr (max 1 (utf8_len (cx_mission c) + sum_list (map utf8_len (cx_relevant_memories c)) + 512))
      else Inl (ConfigurationError (''provider kind '' @ kind @ '' has no token estimate'')))"

section \<open>Models and prices of a deployment (config.py)\<close>

text \<open>
  \<^verbatim>\<open>Decimal(text)\<close>: \<open>None\<close> where it raises, \<open>Some None\<close> for the infinities and NaNs. White space around
  the number and underscores anywhere are dropped.
\<close>

definition decimal_of_text :: "string \<Rightarrow> rat option option" where
  "decimal_of_text text =
     (let s = map to_lower (filter (\<lambda>c. c \<noteq> CHR ''_'') (py_strip text));
          neg = starts_with ''-'' s;
          s = (if neg \<or> starts_with ''+'' s then tl s else s);
          whole = takeWhile is_digit s;
          rest = dropWhile is_digit s;
          frac = (if starts_with ''.'' rest then takeWhile is_digit (tl rest) else []);
          rest = (if starts_with ''.'' rest then dropWhile is_digit (tl rest) else rest);
          expo = exponent_part rest;
          x = of_nat (digits_val (whole @ frac)) * 10 powi (fst expo - int (length frac));
          word = takeWhile (\<lambda>c. \<not> is_digit c) s
      in if word \<in> {''inf'', ''infinity''} \<and> word = s \<or> word \<in> {''nan'', ''snan''} \<and> list_all is_digit (drop (length word) s) then Some None
         else if whole @ frac = [] \<or> snd expo \<noteq> [] \<or> (rest \<noteq> [] \<and> \<not> is_digit (last rest)) then None
         else Some (Some (if neg then - x else x)))"

definition usd_to_microusd :: "string option \<Rightarrow> string \<Rightarrow> bool \<Rightarrow> int res" where
  "usd_to_microusd value label require_positive =
     (case value of
        None \<Rightarrow> Inl (ConfigurationError (label @ '' must be a decimal string''))
      | Some text \<Rightarrow>
          (case decimal_of_text text of
             None \<Rightarrow> Inl (ConfigurationError (label @ '' is not a decimal''))
           | Some None \<Rightarrow> Inl (ConfigurationError (label @ '' must be finite''))
           | Some (Some amount) \<Rightarrow>
               let minimum = (if require_positive then 1 / 1000000 else 0); scaled = dec_round (amount * 1000000) in
               if amount < minimum \<or> amount > 1000000 then Inl (ConfigurationError (label @ '' is outside the accepted range''))
               else if scaled \<noteq> of_int \<lfloor>scaled\<rfloor> then Inl (ConfigurationError (label @ '' supports at most six decimal places''))
               else Inr \<lfloor>scaled\<rfloor>))"

definition from_env :: "(string \<rightharpoonup> string) \<Rightarrow> string option \<Rightarrow> string option \<Rightarrow> string option" where
  "from_env env name static =
     (case name of Some n \<Rightarrow> if n \<noteq> [] then Some (case env n of None \<Rightarrow> [] | Some v \<Rightarrow> v) else static | None \<Rightarrow> static)"

definition resolved_model :: "(string \<rightharpoonup> string) \<Rightarrow> provider_config \<Rightarrow> string res" where
  "resolved_model env p =
     (let value = py_strip (case from_env env (pc_model_env p) (pc_model p) of None \<Rightarrow> [] | Some v \<Rightarrow> v) in
      if value = [] \<or> length value > 200 then Inl (ConfigurationError (''provider '' @ pc_provider_id p @ '' has no valid model''))
      else Inr value)"

text \<open>Input and output price in micro-USD per million tokens; \<open>input_tokens = None\<close> is the availability check.\<close>

definition price_microusd_per_million :: "(string \<rightharpoonup> string) \<Rightarrow> provider_config \<Rightarrow> int option \<Rightarrow> (int \<times> int) res" where
  "price_microusd_per_million env p input_tokens =
     (if pc_location p = ''local'' then Inr (0, 0)
      else if pc_price_tiers p \<noteq> [] then
        (case input_tokens of
           None \<Rightarrow> Inr (pt_input_price (hd (pc_price_tiers p)), pt_output_price (hd (pc_price_tiers p)))
         | Some n \<Rightarrow>
             if n < 0 then Inl (ConfigurationError (''provider '' @ pc_provider_id p @ '' input token estimate is invalid''))
             else (case find (\<lambda>t. n \<le> pt_max_input_tokens t) (pc_price_tiers p) of
                None \<Rightarrow> Inl (ConfigurationError (''provider '' @ pc_provider_id p @ '' input tokens exceed configured price tiers''))
              | Some t \<Rightarrow> Inr (pt_input_price t, pt_output_price t)))
      else
        res_bind (usd_to_microusd (from_env env (pc_input_price_env p) (pc_input_price p)) (pc_provider_id p @ '' input price'') True) (\<lambda>i.
        res_bind (usd_to_microusd (from_env env (pc_output_price_env p) (pc_output_price p)) (pc_provider_id p @ '' output price'') True) (\<lambda>j.
        Inr (i, j))))"

end
