(* ===== verification/Orch_Store.thy ===== *)
theory Orch_Store
  imports Orch_Base
begin

text \<open>
  \<^verbatim>\<open>orchestrator/src/ops_orchestrator/database.py\<close> and \<^verbatim>\<open>trace.py\<close>: the statements on task runs, metric
  counters, validated outcomes and score audits, and the hash-chained model trace. Each
  \<^verbatim>\<open>with self.connect()\<close> block that begins \<^verbatim>\<open>IMMEDIATE\<close> is a \<open>transaction\<close>: leaving it by an exception
  closes the connection and rolls back. SQLite's \<^verbatim>\<open>SUM\<close> and \<^verbatim>\<open>value + 1\<close> are exact here; they are as
  long as the totals stay below \<open>2^63\<close>.
\<close>

section \<open>Rendered time stamps\<close>

text \<open>\<^verbatim>\<open>utc_now\<close> renders with an offset; \<^verbatim>\<open>LIKE 'prefix%'\<close> compares the beginning of the text.\<close>

definition iso_offset :: "instant \<Rightarrow> string" where
  "iso_offset t = butlast (isoformat t) @ ''+00:00''"

definition created_like :: "string \<Rightarrow> instant \<Rightarrow> bool" where
  "created_like prefix t = starts_with prefix (iso_offset t)"

definition day_prefix :: "instant \<Rightarrow> string" where
  "day_prefix t = take 10 (iso_offset t)"

definition month_prefix :: "instant \<Rightarrow> string" where
  "month_prefix t = take 7 (iso_offset t)"

text \<open>\<^verbatim>\<open>ORDER BY column DESC\<close>; rows that tie stay in rowid order.\<close>

definition order_desc :: "('r \<Rightarrow> int) \<Rightarrow> 'r list \<Rightarrow> 'r list" where
  "order_desc f rs = sort_key (\<lambda>r. - f r) rs"

definition first_row :: "'r list \<Rightarrow> 'r option" where
  "first_row rs = (case rs of [] \<Rightarrow> None | r # _ \<Rightarrow> Some r)"

text \<open>A \<^verbatim>\<open>REAL\<close> column does not keep the sign of a zero: \<^verbatim>\<open>-0.0\<close> is read back as \<^verbatim>\<open>0.0\<close>.\<close>

fun real_column :: "flt \<Rightarrow> flt" where
  "real_column NegZero = Flt 0"
| "real_column (Flt x) = Flt x"

interpretation usage: keyed_table ur_call_id .
interpretation runs: keyed_table rr_route_id .
interpretation validations: keyed_table va_route_id .

section \<open>Metric counters\<close>

definition labels_json :: "(string \<times> string) list \<Rightarrow> string" where
  "labels_json labels = ascii_json True (JDict (map (\<lambda>(k, v). (k, JStr v)) labels))"

definition bump :: "string \<times> string \<Rightarrow> int \<Rightarrow> odb \<Rightarrow> odb" where
  "bump key amount d =
     d\<lparr>od_counters := (if key \<in> fst ` set (od_counters d)
                        then map (\<lambda>(k, v). (k, if k = key then v + amount else v)) (od_counters d)
                        else od_counters d @ [(key, amount)])\<rparr>"

definition increment :: "string \<Rightarrow> (string \<times> string) list \<Rightarrow> int \<Rightarrow> unit oop" where
  "increment metric_key labels amount =
     op_bind (op_raise_if (amount < 0) ValueError) (\<lambda>_.
     transaction (
       op_bind (op_lift (bind_ints [amount])) (\<lambda>_.
       op_exec (bump (metric_key, labels_json labels) amount))))"

definition signal_metric :: "string \<Rightarrow> (string \<times> (string \<times> string) list) option" where
  "signal_metric signal =
     (if signal = ''mission_succeeded'' then Some (''mission_outcomes'', [(''outcome'', ''succeeded'')])
      else if signal = ''mission_failed'' then Some (''mission_outcomes'', [(''outcome'', ''failed'')])
      else if signal = ''tool_error'' then Some (''tool_errors'', [])
      else if signal = ''memory_search'' then Some (''memory_searches'', [])
      else None)"

definition record_signal :: "string \<Rightarrow> string \<Rightarrow> unit oop" where
  "record_signal signal project_id =
     op_bind (op_raise_if (\<not> safe_identifier project_id) (ValidationError ''project_id must be a safe bounded identifier'')) (\<lambda>_.
     case signal_metric signal of
       None \<Rightarrow> op_raise (ValidationError ''unsupported metric signal'')
     | Some (metric, labels) \<Rightarrow> increment metric (labels @ [(''project'', project_id)]) 1)"

section \<open>Task runs\<close>

definition start_run :: "string \<Rightarrow> model_request \<Rightarrow> string option \<Rightarrow> string \<Rightarrow> unit oop" where
  "start_run route_id rq requested_role reason =
     transaction (
       op_bind (op_query (\<lambda>d. select_one (\<lambda>r. rr_mission_id r = rq_mission_id rq) (od_runs d))) (\<lambda>existing.
       op_bind (op_raise_if (case existing of None \<Rightarrow> False | Some r \<Rightarrow> rr_project_id r \<noteq> rq_project_id rq)
                  (ValidationError ''mission_id is already bound to another project'')) (\<lambda>_.
       op_bind op_now (\<lambda>now.
       op_bind (op_query (\<lambda>d. select_one (\<lambda>r. rr_route_id r = route_id) (od_runs d))) (\<lambda>duplicate.
       op_bind (op_raise_if (duplicate \<noteq> None) IntegrityError) (\<lambda>_.
       op_exec (\<lambda>d. d\<lparr>od_runs := od_runs d @
         [\<lparr>rr_route_id = route_id, rr_mission_id = rq_mission_id rq, rr_project_id = rq_project_id rq,
           rr_task_type = task_value (rq_task_type rq), rr_risk = risk_value (rq_risk rq), rr_complexity = real_column (rq_complexity rq),
           rr_impact = real_column (rq_impact rq), rr_requested_role = requested_role, rr_final_role = None, rr_final_provider = None,
           rr_status = ''running'', rr_reason = reason, rr_started_at = now, rr_completed_at = None,
           rr_duration_ms = None\<rparr>]\<rparr>)))))))"

definition finish_run :: "string \<Rightarrow> string \<Rightarrow> string \<Rightarrow> int \<Rightarrow> string option \<Rightarrow> string option \<Rightarrow> unit oop" where
  "finish_run route_id status reason duration_ms final_role final_provider =
     transaction (
       op_bind op_now (\<lambda>now.
       op_bind (op_lift (bind_ints [duration_ms])) (\<lambda>_.
       op_bind (op_query (\<lambda>d. rowcount (\<lambda>r. rr_route_id r = route_id \<and> rr_status r = ''running'') (od_runs d))) (\<lambda>changed.
       op_bind (op_exec (\<lambda>d. d\<lparr>od_runs := update_where (\<lambda>r. rr_route_id r = route_id \<and> rr_status r = ''running'')
          (\<lambda>r. r\<lparr>rr_status := status, rr_reason := reason, rr_completed_at := Some now, rr_duration_ms := Some duration_ms,
                 rr_final_role := final_role, rr_final_provider := final_provider\<rparr>) (od_runs d)\<rparr>)) (\<lambda>_.
       op_raise_if (changed \<noteq> 1) (RuntimeError ''mission run state transition failed''))))))"

definition latest_run :: "string \<Rightarrow> odb \<Rightarrow> run_row option" where
  "latest_run mission_id d = first_row (order_desc rr_started_at (filter (\<lambda>r. rr_mission_id r = mission_id) (od_runs d)))"

section \<open>Account ownership of earlier reservations\<close>

definition bind_provider_account :: "string \<times> string option \<Rightarrow> unit oop" where
  "bind_provider_account entry =
     (case entry of
        (provider_id, None) \<Rightarrow>
          op_bind (op_query (\<lambda>d. select_one (\<lambda>r. ur_provider_id r = provider_id \<and> ur_account_id r \<noteq> None) (od_usage d))) (\<lambda>conflicting.
          op_raise_if (conflicting \<noteq> None)
            (ConfigurationError (''historical account binding removed for provider '' @ provider_id)))
      | (provider_id, Some account_id) \<Rightarrow>
          op_bind (op_query (\<lambda>d. select_one (\<lambda>r. ur_provider_id r = provider_id \<and> ur_account_id r \<noteq> None \<and>
                               ur_account_id r \<noteq> Some account_id) (od_usage d))) (\<lambda>conflicting.
          op_bind (op_raise_if (conflicting \<noteq> None)
            (ConfigurationError (''historical account binding changed for provider '' @ provider_id))) (\<lambda>_.
          op_exec (\<lambda>d. d\<lparr>od_usage := update_where (\<lambda>r. ur_provider_id r = provider_id \<and> ur_account_id r = None)
             (\<lambda>r. r\<lparr>ur_account_id := Some account_id\<rparr>) (od_usage d)\<rparr>))))"

definition bind_provider_accounts :: "(string \<times> string option) list \<Rightarrow> unit oop" where
  "bind_provider_accounts provider_accounts = transaction (op_iter bind_provider_account (sort_key fst provider_accounts))"

section \<open>Validated outcomes\<close>

definition record_model_validation ::
  "string \<Rightarrow> string \<Rightarrow> string \<Rightarrow> string \<Rightarrow> int \<Rightarrow> int \<Rightarrow> string \<Rightarrow> (string \<times> string option) list \<Rightarrow> validation_row oop" where
  "record_model_validation route_id mission_id project_id outcome quality corrections evidence_kind provider_accounts =
     transaction (
       op_bind (op_query (\<lambda>d. select_one (\<lambda>r. rr_route_id r = route_id) (od_runs d))) (\<lambda>found.
       case found of
         None \<Rightarrow> op_raise (ValidationError ''route_id does not identify a recorded task'')
       | Some run \<Rightarrow>
           op_bind (op_raise_if (rr_mission_id run \<noteq> mission_id \<or> rr_project_id run \<noteq> project_id)
                      (ValidationError ''outcome identity does not match the recorded route'')) (\<lambda>_.
           case (rr_status run = ''routed'', rr_final_provider run, rr_final_role run) of
             (True, Some provider_id, Some role) \<Rightarrow>
               op_bind (op_raise_if (provider_id = [] \<or> role = [])
                          (ValidationError ''only a routed model result can receive an outcome'')) (\<lambda>_.
               op_bind (op_query (\<lambda>d. first_row (order_desc (\<lambda>r. case ur_completed_at r of None \<Rightarrow> -1 | Some t \<Rightarrow> t)
                          (filter (\<lambda>r. ur_route_id r = route_id \<and> ur_provider_id r = provider_id \<and> ur_status r = ''completed'')
                                  (od_usage d))))) (\<lambda>usage.
               case usage of
                 None \<Rightarrow> op_raise (ValidationError ''routed model result has no completed usage record'')
               | Some u \<Rightarrow>
                   op_bind op_now (\<lambda>now.
                   op_bind (op_query (\<lambda>d. select_one (\<lambda>r. va_route_id r = route_id) (od_validations d))) (\<lambda>prior.
                   let row = \<lparr>va_route_id = route_id, va_mission_id = mission_id, va_project_id = project_id,
                              va_task_type = rr_task_type run, va_role = role, va_provider_id = provider_id,
                              va_account_id = (case map_of provider_accounts provider_id of None \<Rightarrow> None | Some a \<Rightarrow> a),
                              va_model = ur_model u, va_outcome = outcome, va_quality_milli = quality,
                              va_corrections = corrections, va_evidence_kind = evidence_kind, va_recorded_at = now\<rparr> in
                   op_bind (op_raise_if (prior \<noteq> None \<or> outcome \<notin> {''succeeded'', ''failed''} \<or> quality < 0 \<or> 1000 < quality \<or>
                              corrections < 0 \<or> 1000 < corrections \<or>
                              evidence_kind \<notin> {''deterministic_test'', ''human_review'', ''production_observation''})
                              (ValidationError ''an outcome is already recorded for this route'')) (\<lambda>_.
                   op_bind (op_exec (\<lambda>d. d\<lparr>od_validations := od_validations d @ [row]\<rparr>)) (\<lambda>_.
                   op_bind (op_exec (bump (''validated_model_outcomes'',
                      labels_json [(''outcome'', outcome), (''project'', project_id), (''task_type'', rr_task_type run)]) 1)) (\<lambda>_.
                   op_ret row)))))))
           | _ \<Rightarrow> op_raise (ValidationError ''only a routed model result can receive an outcome''))))"

text \<open>
  The history of one candidate: the status of its latest attempts with the duration of those that
  completed, and its latest validations.
\<close>

definition history_attempts :: "string \<Rightarrow> string \<Rightarrow> string \<Rightarrow> string option \<Rightarrow> nat \<Rightarrow> odb \<Rightarrow> usage_row list" where
  "history_attempts task_type provider_id model usage_role maximum_rows d =
     take maximum_rows (order_desc ur_created_at
       (filter (\<lambda>u. ur_provider_id u = provider_id \<and> ur_model u = model \<and> (usage_role = None \<or> Some (ur_role u) = usage_role) \<and>
                    (\<exists>r\<in>set (od_runs d). rr_route_id r = ur_route_id u \<and> rr_task_type r = task_type)) (od_usage d)))"

definition attempt_latency :: "orchestrator \<Rightarrow> usage_row \<Rightarrow> int option" where
  "attempt_latency oc u =
     (if ur_status u = ''completed''
      then map_option (\<lambda>t. max 0 (min 300000 (oc_elapsed_ms oc (ur_created_at u) t))) (ur_completed_at u) else None)"

definition history_validations :: "string \<Rightarrow> string \<Rightarrow> string \<Rightarrow> string option \<Rightarrow> nat \<Rightarrow> odb \<Rightarrow> validation_row list" where
  "history_validations task_type provider_id model usage_role maximum_rows d =
     take maximum_rows (order_desc va_recorded_at
       (filter (\<lambda>v. va_task_type v = task_type \<and> va_provider_id v = provider_id \<and> va_model v = model \<and>
                    (usage_role = None \<or> Some (va_role v) = usage_role)) (od_validations d)))"

section \<open>Score audits\<close>

definition score_in_bounds :: "score \<Rightarrow> int \<Rightarrow> bool" where
  "score_in_bounds s rank \<longleftrightarrow>
     0 \<le> sc_estimated_cost s \<and> 0 \<le> sc_attempt_count s \<and> 0 \<le> sc_completed_attempts s \<and> 0 \<le> sc_uncertain_attempts s \<and>
     0 \<le> sc_validation_count s \<and> 0 \<le> sc_successful_validations s \<and> 0 \<le> sc_posterior_quality s \<and> sc_posterior_quality s \<le> 1000 \<and>
     -150000 \<le> sc_quality_adjustment s \<and> sc_quality_adjustment s \<le> 150000 \<and>
     (case sc_observed_latency s of None \<Rightarrow> True | Some v \<Rightarrow> 0 \<le> v \<and> v \<le> 300000) \<and>
     0 \<le> sc_latency_samples s \<and> sc_latency_samples s \<le> 500 \<and>
     (case sc_latency_target s of None \<Rightarrow> True | Some v \<Rightarrow> 1 \<le> v \<and> v \<le> 300000) \<and>
     -150000 \<le> sc_latency_adjustment s \<and> sc_latency_adjustment s \<le> 150000 \<and>
     -150000 \<le> sc_adjustment s \<and> sc_adjustment s \<le> 150000 \<and> 0 \<le> sc_adaptive_cost s \<and> 1 \<le> rank"

definition insert_score :: "string \<Rightarrow> string \<Rightarrow> string \<Rightarrow> instant \<Rightarrow> score \<times> int \<Rightarrow> unit oop" where
  "insert_score route_id task_type role created_at entry =
     (case entry of (s, rank) \<Rightarrow>
        op_bind op_uuid4 (\<lambda>audit_id.
        op_bind (op_lift (bind_ints [sc_estimated_cost s, sc_adaptive_cost s])) (\<lambda>_.
        op_bind (op_query (\<lambda>d. select_one (\<lambda>r. sr_audit_id r = audit_id \<or> sr_route_id r = route_id \<and> sr_role r = role \<and>
                   sc_provider_id (sr_score r) = sc_provider_id s) (od_scores d))) (\<lambda>prior.
        op_bind (op_raise_if (prior \<noteq> None \<or> \<not> score_in_bounds s rank) IntegrityError) (\<lambda>_.
        op_exec (\<lambda>d. d\<lparr>od_scores := od_scores d @
          [\<lparr>sr_audit_id = audit_id, sr_route_id = route_id, sr_task_type = task_type, sr_role = role, sr_score = s,
            sr_rank = rank, sr_created_at = created_at\<rparr>]\<rparr>))))))"

definition record_adaptive_score_audit :: "string \<Rightarrow> string \<Rightarrow> string \<Rightarrow> (score \<times> int) list \<Rightarrow> unit oop" where
  "record_adaptive_score_audit route_id task_type role scores =
     op_bind (op_raise_if (scores = [] \<or> length scores > 64) ValueError) (\<lambda>_.
     op_bind op_now (\<lambda>created_at.
     transaction (op_iter (insert_score route_id task_type role created_at) scores)))"

definition adaptive_score_audit :: "string \<Rightarrow> int \<Rightarrow> odb \<Rightarrow> score_row list res" where
  "adaptive_score_audit route_id limit d =
     (if limit < 1 \<or> 100 < limit then Inl ValueError
      else Inr (take (nat limit) (sort_key (\<lambda>r. (sr_created_at r, sr_role r, sr_rank r))
                  (filter (\<lambda>r. sr_route_id r = route_id) (od_scores d)))))"

section \<open>The model trace (trace.py)\<close>

definition ZERO_HASH :: string where
  "ZERO_HASH = replicate 64 (CHR ''0'')"

definition TRACE_EVENTS :: "string set" where
  "TRACE_EVENTS =
     {''ROUTE'', ''MODEL_START'', ''MODEL_RESULT'', ''MODEL_FAILURE'', ''BUDGET_BLOCK'', ''ESCALATION'', ''CAPABILITY_REJECT'',
      ''RETURN_LOCAL'', ''RETURN_CONTROL_PLANE'', ''HUMAN_ESCALATION'', ''DETERMINISTIC'', ''VERIFICATION_START'',
      ''VERIFICATION_RESULT'', ''VERIFICATION_FAILURE''}"

definition float_opt :: "orchestrator \<Rightarrow> flt option \<Rightarrow> json" where
  "float_opt oc x = (case x of None \<Rightarrow> JNull | Some v \<Rightarrow> JFloat (oc_frepr oc v))"

definition trace_canonical :: "orchestrator \<Rightarrow> string \<Rightarrow> int \<Rightarrow> instant \<Rightarrow> event_facts \<Rightarrow> string \<Rightarrow> json" where
  "trace_canonical oc event_id sequence created_at f previous_hash =
     JDict [(''event_id'', JStr event_id), (''mission_id'', JStr (ef_mission_id f)), (''route_id'', JStr (ef_route_id f)),
       (''sequence'', JInt sequence), (''created_at'', JStr (iso_offset created_at)), (''event_type'', JStr (ef_event_type f)),
       (''role'', opt_str (ef_role f)), (''provider_id'', opt_str (ef_provider_id f)), (''model'', opt_str (ef_model f)),
       (''location'', opt_str (ef_location f)), (''reason'', JStr (ef_reason f)), (''risk'', JStr (ef_risk f)),
       (''complexity'', JFloat (oc_frepr oc (ef_complexity f))), (''impact'', JFloat (oc_frepr oc (ef_impact f))),
       (''confidence_in'', float_opt oc (ef_confidence_in f)), (''confidence_out'', float_opt oc (ef_confidence_out f)),
       (''input_tokens'', JInt (ef_input_tokens f)), (''output_tokens'', JInt (ef_output_tokens f)),
       (''cost_microusd'', JInt (ef_cost f)), (''previous_hash'', JStr previous_hash)]"

text \<open>The event as its row holds it.\<close>

definition stored_facts :: "event_facts \<Rightarrow> event_facts" where
  "stored_facts f =
     f\<lparr>ef_complexity := real_column (ef_complexity f), ef_impact := real_column (ef_impact f),
       ef_confidence_in := map_option real_column (ef_confidence_in f),
       ef_confidence_out := map_option real_column (ef_confidence_out f)\<rparr>"

definition trace_hash :: "orchestrator \<Rightarrow> string \<Rightarrow> int \<Rightarrow> instant \<Rightarrow> event_facts \<Rightarrow> string \<Rightarrow> string" where
  "trace_hash oc event_id sequence created_at f previous_hash =
     oc_sha256 oc (utf8_encode (ascii_json True (trace_canonical oc event_id sequence created_at f previous_hash)))"

definition mission_trace_rows :: "string \<Rightarrow> odb \<Rightarrow> model_trace_row list" where
  "mission_trace_rows mission_id d = filter (\<lambda>r. ef_mission_id (mt_facts r) = mission_id) (od_trace d)"

text \<open>A mission has far fewer than \<open>2^63\<close> events, so that \<^verbatim>\<open>sequence\<close> always fits its column.\<close>

definition trace_append :: "orchestrator \<Rightarrow> event_facts \<Rightarrow> int oop" where
  "trace_append oc facts =
     op_bind (op_raise_if (ef_event_type facts \<notin> TRACE_EVENTS) ValueError) (\<lambda>_.
     op_bind op_uuid4 (\<lambda>event_id.
     op_bind op_now (\<lambda>created_at.
     transaction (
       op_bind (op_query (\<lambda>d. first_row (order_desc mt_sequence (mission_trace_rows (ef_mission_id facts) d)))) (\<lambda>previous.
       let sequence = (case previous of None \<Rightarrow> 1 | Some r \<Rightarrow> mt_sequence r + 1);
           previous_hash = (case previous of None \<Rightarrow> ZERO_HASH | Some r \<Rightarrow> mt_event_hash r);
           hashed = facts\<lparr>ef_reason := take 1000 (ef_reason facts)\<rparr>;
           row = \<lparr>mt_event_id = event_id, mt_sequence = sequence, mt_created_at = created_at, mt_facts = stored_facts hashed,
                  mt_previous_hash = previous_hash,
                  mt_event_hash = trace_hash oc event_id sequence created_at hashed previous_hash\<rparr> in
       op_bind (op_lift (bind_ints [ef_input_tokens facts, ef_output_tokens facts, ef_cost facts])) (\<lambda>_.
       op_bind (op_query (\<lambda>d. select_one (\<lambda>r. mt_event_id r = event_id) (od_trace d))) (\<lambda>duplicate.
       op_bind (op_raise_if (duplicate \<noteq> None) IntegrityError) (\<lambda>_.
       op_bind (op_exec (\<lambda>d. d\<lparr>od_trace := od_trace d @ [row]\<rparr>)) (\<lambda>_.
       op_ret sequence)))))))))"

fun verify_rows_from :: "orchestrator \<Rightarrow> string \<Rightarrow> model_trace_row list \<Rightarrow> bool" where
  "verify_rows_from oc previous_hash [] = True"
| "verify_rows_from oc previous_hash (r # rs) =
     (let calculated = trace_hash oc (mt_event_id r) (mt_sequence r) (mt_created_at r) (mt_facts r) previous_hash in
      if mt_previous_hash r \<noteq> previous_hash \<or> mt_event_hash r \<noteq> calculated then False
      else verify_rows_from oc calculated rs)"

definition trace_verify :: "orchestrator \<Rightarrow> string \<Rightarrow> odb \<Rightarrow> bool" where
  "trace_verify oc mission_id d = verify_rows_from oc ZERO_HASH (sort_key mt_sequence (mission_trace_rows mission_id d))"

text \<open>The latest \<open>limit\<close> events (1 to 500), oldest first.\<close>

definition trace_list :: "string \<Rightarrow> int \<Rightarrow> odb \<Rightarrow> model_trace_row list" where
  "trace_list mission_id limit d =
     rev (take (nat (min (max limit 1) 500)) (order_desc mt_sequence (mission_trace_rows mission_id d)))"

end
