(* ===== verification/Orch_Adaptive.thy ===== *)
theory Orch_Adaptive
  imports Orch_Store
begin

text \<open>
  \<^verbatim>\<open>orchestrator/src/ops_orchestrator/adaptive.py\<close>: the adjustment of a deployment's estimated cost by
  what was observed of it, and the bounds it stays within. Python's \<^verbatim>\<open>//\<close> is \<open>div\<close>.
\<close>

abbreviation (input) "BASELINE_QUALITY_MILLI \<equiv> 750 :: int"
abbreviation (input) "PRIOR_WEIGHT_UNITS \<equiv> 48 :: int"
abbreviation (input) "VALIDATION_WEIGHT_UNITS \<equiv> 4 :: int"
abbreviation (input) "ATTEMPT_WEIGHT_UNITS \<equiv> 1 :: int"
abbreviation (input) "MINIMUM_VALIDATIONS \<equiv> 5 :: int"
abbreviation (input) "MINIMUM_ATTEMPTS \<equiv> 8 :: int"
abbreviation (input) "MAXIMUM_HISTORY_ROWS \<equiv> 500 :: nat"
abbreviation (input) "MAXIMUM_ADJUSTMENT_PPM \<equiv> 150000 :: int"
abbreviation (input) "MINIMUM_LATENCY_SAMPLES \<equiv> 5 :: int"

definition LATENCY_POLICY :: "urgency \<Rightarrow> int \<times> int" where
  "LATENCY_POLICY u =
     (case u of ROUTINE \<Rightarrow> (12000, 25000) | NORMAL \<Rightarrow> (8000, 50000) | URGENT \<Rightarrow> (4000, 100000) | EMERGENCY \<Rightarrow> (2000, 150000))"

definition median :: "int list \<Rightarrow> int option" where
  "median values =
     (if values = [] then None
      else let ordered = sort values; middle = length ordered div 2 in
           if odd (length ordered) then Some (ordered ! middle)
           else Some ((ordered ! (middle - 1) + ordered ! middle) div 2))"

text \<open>A number kept within \<open>\<plusminus>bound\<close>.\<close>

abbreviation clamp :: "int \<Rightarrow> int \<Rightarrow> int" where
  "clamp bound x \<equiv> max (- bound) (min bound x)"

definition validation_points :: "validation_row \<Rightarrow> int" where
  "validation_points v =
     (let base = (if va_outcome v = ''succeeded'' then va_quality_milli v else min (va_quality_milli v) 250)
      in max 0 (base - min (va_corrections v) 5 * 40))"

definition posterior_quality :: "validation_row list \<Rightarrow> int \<Rightarrow> int \<Rightarrow> int" where
  "posterior_quality validations attempt_count completed_attempts =
     (let denominator = PRIOR_WEIGHT_UNITS + int (length validations) * VALIDATION_WEIGHT_UNITS +
                        attempt_count * ATTEMPT_WEIGHT_UNITS;
          numerator = PRIOR_WEIGHT_UNITS * BASELINE_QUALITY_MILLI +
                      VALIDATION_WEIGHT_UNITS * sum_list (map validation_points validations) +
                      ATTEMPT_WEIGHT_UNITS * completed_attempts * BASELINE_QUALITY_MILLI
      in max 0 (min 1000 ((numerator + denominator div 2) div denominator)))"

definition quality_adjustment :: "int \<Rightarrow> int \<Rightarrow> int \<Rightarrow> int" where
  "quality_adjustment validation_count attempt_count posterior =
     (if validation_count \<ge> MINIMUM_VALIDATIONS \<or> attempt_count \<ge> MINIMUM_ATTEMPTS
      then clamp MAXIMUM_ADJUSTMENT_PPM ((BASELINE_QUALITY_MILLI - posterior) * 500) else 0)"

definition latency_adjustment :: "urgency option \<Rightarrow> int list \<Rightarrow> int" where
  "latency_adjustment urgency samples =
     (case (urgency, median samples) of
        (Some u, Some observed) \<Rightarrow>
          if int (length samples) \<ge> MINIMUM_LATENCY_SAMPLES
          then clamp 1000000 (((observed - fst (LATENCY_POLICY u)) * 1000000) div fst (LATENCY_POLICY u)) *
               snd (LATENCY_POLICY u) div 1000000
          else 0
      | _ \<Rightarrow> 0)"

definition adaptive_cost :: "int \<Rightarrow> int \<Rightarrow> int" where
  "adaptive_cost estimated_cost adjustment = (estimated_cost * (1000000 + adjustment) + 1000000 - 1) div 1000000"

definition candidate_score ::
  "orchestrator \<Rightarrow> string \<Rightarrow> string \<Rightarrow> string option \<Rightarrow> string \<Rightarrow> int \<Rightarrow> urgency option \<Rightarrow> string option \<Rightarrow> odb \<Rightarrow> score res" where
  "candidate_score oc task_type provider_id account_id model estimated_cost urgency usage_role d =
     (if estimated_cost < 0 then Inl ValueError
      else
        let attempts = history_attempts task_type provider_id model usage_role MAXIMUM_HISTORY_ROWS d;
            validations = history_validations task_type provider_id model usage_role MAXIMUM_HISTORY_ROWS d;
            attempt_count = int (length attempts);
            completed = int (length (filter (\<lambda>u. ur_status u = ''completed'') attempts));
            samples = List.map_filter (attempt_latency oc) attempts;
            validation_count = int (length validations);
            posterior = posterior_quality validations attempt_count completed;
            quality = quality_adjustment validation_count attempt_count posterior;
            latency = latency_adjustment urgency samples;
            adjustment = clamp MAXIMUM_ADJUSTMENT_PPM (quality + latency)
        in Inr \<lparr>sc_provider_id = provider_id, sc_account_id = account_id, sc_model = model,
                 sc_estimated_cost = estimated_cost, sc_attempt_count = attempt_count, sc_completed_attempts = completed,
                 sc_uncertain_attempts = attempt_count - completed, sc_validation_count = validation_count,
                 sc_successful_validations = int (length (filter (\<lambda>v. va_outcome v = ''succeeded'') validations)),
                 sc_posterior_quality = posterior, sc_quality_adjustment = quality, sc_observed_latency = median samples,
                 sc_latency_samples = int (length samples),
                 sc_latency_target = map_option (\<lambda>u. fst (LATENCY_POLICY u)) urgency,
                 sc_latency_sufficient = (int (length samples) \<ge> MINIMUM_LATENCY_SAMPLES),
                 sc_latency_adjustment = latency, sc_adjustment = adjustment,
                 sc_adaptive_cost = adaptive_cost estimated_cost adjustment\<rparr>)"

end
