(* ===== verification/Orch_Budget.thy ===== *)
theory Orch_Budget
  imports Orch_Store
begin

text \<open>
  \<^verbatim>\<open>orchestrator/src/ops_orchestrator/budget.py\<close>: the ledger of model calls. A call is reserved at its
  worst case before it is made, and settled once, as completed with its actual usage or as uncertain
  with the reservation kept.
\<close>

section \<open>Costs\<close>

text \<open>
  The sum in \<^verbatim>\<open>Decimal\<close> arithmetic; \<^verbatim>\<open>quantize\<close> to an integer raises when the result needs more than
  the 28 digits of the context.
\<close>

definition estimated_cost_microusd :: "int \<Rightarrow> int \<Rightarrow> int \<times> int \<Rightarrow> int res" where
  "estimated_cost_microusd input_tokens output_tokens prices =
     (let amount = dec_round (dec_round (dec_round (of_int (input_tokens * fst prices)) +
                                         dec_round (of_int (output_tokens * snd prices))) / 1000000)
      in if \<bar>\<lceil>amount\<rceil>\<bar> \<ge> 10 ^ 28 then Inl DecimalInvalidOperation else Inr \<lceil>amount\<rceil>)"

section \<open>Totals\<close>

record usage_total =
  ut_calls :: int
  ut_tokens :: int
  ut_cost :: int

definition row_tokens :: "usage_row \<Rightarrow> int" where
  "row_tokens r =
     (if ur_status r = ''completed''
      then (case (ur_actual_input r, ur_actual_output r) of (Some i, Some j) \<Rightarrow> i + j | _ \<Rightarrow> 0)
      else ur_reserved_input r + ur_reserved_output r)"

definition row_cost :: "usage_row \<Rightarrow> int" where
  "row_cost r =
     (if ur_status r = ''completed'' then (case ur_actual_cost r of Some c \<Rightarrow> c | None \<Rightarrow> 0) else ur_reserved_cost r)"

definition total_of :: "usage_row list \<Rightarrow> usage_total" where
  "total_of rs = \<lparr>ut_calls = int (length rs), ut_tokens = sum_list (map row_tokens rs), ut_cost = sum_list (map row_cost rs)\<rparr>"

text \<open>\<^verbatim>\<open>created_at LIKE prefix\<close> with the optional \<^verbatim>\<open>mission_id\<close> or \<^verbatim>\<open>route_id\<close> condition.\<close>

definition aggregate :: "string \<Rightarrow> string \<Rightarrow> string option \<Rightarrow> odb \<Rightarrow> usage_total" where
  "aggregate provider_id prefix mission_id d =
     total_of (filter (\<lambda>r. ur_provider_id r = provider_id \<and> created_like prefix (ur_created_at r) \<and>
                           (mission_id = None \<or> Some (ur_mission_id r) = mission_id)) (od_usage d))"

definition aggregate_account :: "string \<Rightarrow> string \<Rightarrow> string option \<Rightarrow> odb \<Rightarrow> usage_total" where
  "aggregate_account account_id prefix route_id d =
     total_of (filter (\<lambda>r. ur_account_id r = Some account_id \<and> created_like prefix (ur_created_at r) \<and>
                           (route_id = None \<or> Some (ur_route_id r) = route_id)) (od_usage d))"

definition route_cost :: "string \<Rightarrow> odb \<Rightarrow> int" where
  "route_cost route_id d = sum_list (map row_cost (filter (\<lambda>r. ur_route_id r = route_id) (od_usage d)))"

section \<open>Reserving\<close>

record reservation =
  rv_call_id :: string
  rv_input_tokens :: int
  rv_output_tokens :: int
  rv_cost :: int

text \<open>\<^verbatim>\<open>for prospective, limit, period, dimension in checks\<close>.\<close>

definition check_caps :: "string \<Rightarrow> (int \<times> int \<times> string \<times> string) list \<Rightarrow> unit res" where
  "check_caps who checks =
     res_all (\<lambda>(prospective, limit, period, dimension). raise_if (prospective > limit) (ProviderBudgetExceeded who period dimension)) checks"

definition provider_checks :: "budget_limits \<Rightarrow> usage_total \<Rightarrow> usage_total \<Rightarrow> usage_total \<Rightarrow> int \<Rightarrow> int \<Rightarrow> (int \<times> int \<times> string \<times> string) list" where
  "provider_checks l day month mission tokens cost =
     [(ut_calls day + 1, bl_daily_calls l, ''daily'', ''calls''),
      (ut_calls month + 1, bl_monthly_calls l, ''monthly'', ''calls''),
      (ut_tokens day + tokens, bl_daily_tokens l, ''daily'', ''tokens''),
      (ut_tokens month + tokens, bl_monthly_tokens l, ''monthly'', ''tokens''),
      (ut_cost day + cost, bl_daily_cost l, ''daily'', ''cost''),
      (ut_cost month + cost, bl_monthly_cost l, ''monthly'', ''cost''),
      (ut_cost mission + cost, bl_mission_cost l, ''mission'', ''cost'')]"

definition account_checks :: "account_budget \<Rightarrow> usage_total \<Rightarrow> usage_total \<Rightarrow> usage_total \<Rightarrow> int \<Rightarrow> int \<Rightarrow> (int \<times> int \<times> string \<times> string) list" where
  "account_checks l day month task tokens cost =
     [(ut_calls day + 1, ab_daily_calls l, ''account_daily'', ''calls''),
      (ut_calls month + 1, ab_monthly_calls l, ''account_monthly'', ''calls''),
      (ut_tokens day + tokens, ab_daily_tokens l, ''account_daily'', ''tokens''),
      (ut_tokens month + tokens, ab_monthly_tokens l, ''account_monthly'', ''tokens''),
      (ut_cost day + cost, ab_daily_cost l, ''account_daily'', ''cost''),
      (ut_cost month + cost, ab_monthly_cost l, ''account_monthly'', ''cost''),
      (ut_calls task + 1, ab_task_calls l, ''account_task'', ''calls''),
      (ut_tokens task + tokens, ab_task_tokens l, ''account_task'', ''tokens''),
      (ut_cost task + cost, ab_task_cost l, ''account_task'', ''cost'')]"

definition check_account :: "orchestrator \<Rightarrow> provider_config \<Rightarrow> string \<Rightarrow> instant \<Rightarrow> int \<Rightarrow> int \<Rightarrow> odb \<Rightarrow> unit res" where
  "check_account oc p route_id now tokens cost d =
     (case pc_account_id p of
        None \<Rightarrow> Inr ()
      | Some account_id \<Rightarrow>
          (case map_of (oc_account_budgets oc) account_id of
             None \<Rightarrow> Inl (ConfigurationError (''provider '' @ pc_provider_id p @ '' has no shared account budget''))
           | Some l \<Rightarrow>
               check_caps (''account:'' @ account_id)
                 (account_checks l (aggregate_account account_id (day_prefix now) None d)
                    (aggregate_account account_id (month_prefix now) None d)
                    (aggregate_account account_id [] (Some route_id) d) tokens cost)))"

definition check_limits :: "orchestrator \<Rightarrow> provider_config \<Rightarrow> string \<Rightarrow> string \<Rightarrow> int option \<Rightarrow> instant \<Rightarrow> int \<Rightarrow> int \<Rightarrow> odb \<Rightarrow> unit res" where
  "check_limits oc p route_id mission_id requested_max_cost now tokens cost d =
     res_bind (raise_if (case requested_max_cost of None \<Rightarrow> False | Some m \<Rightarrow> route_cost route_id d + cost > m)
                 (ProviderBudgetExceeded (pc_provider_id p) ''request'' ''max_cost'')) (\<lambda>_.
     res_bind (check_caps (pc_provider_id p)
                 (provider_checks (pc_budget p) (aggregate (pc_provider_id p) (day_prefix now) None d)
                    (aggregate (pc_provider_id p) (month_prefix now) None d)
                    (aggregate (pc_provider_id p) [] (Some mission_id) d) tokens cost)) (\<lambda>_.
     check_account oc p route_id now tokens cost d))"

definition reservation_row ::
  "provider_config \<Rightarrow> string \<Rightarrow> string \<Rightarrow> string \<Rightarrow> string \<Rightarrow> string \<Rightarrow> string \<Rightarrow> instant \<Rightarrow> int \<Rightarrow> int \<Rightarrow> int \<Rightarrow> usage_row" where
  "reservation_row p call_id route_id mission_id role model reason created_at input_tokens output_tokens cost =
     \<lparr>ur_call_id = call_id, ur_route_id = route_id, ur_mission_id = mission_id, ur_provider_id = pc_provider_id p,
      ur_account_id = pc_account_id p, ur_role = role, ur_model = model, ur_location = pc_location p,
      ur_reason = take 500 reason, ur_created_at = created_at, ur_completed_at = None, ur_status = ''reserved'',
      ur_reserved_input = input_tokens, ur_reserved_output = output_tokens, ur_actual_input = None,
      ur_actual_output = None, ur_reserved_cost = cost, ur_actual_cost = None, ur_error_code = None\<rparr>"

definition reserve ::
  "orchestrator \<Rightarrow> string \<Rightarrow> string \<Rightarrow> provider_config \<Rightarrow> string \<Rightarrow> string \<Rightarrow> int \<Rightarrow> int \<Rightarrow> int option \<Rightarrow> int \<times> int \<Rightarrow>
   string option \<Rightarrow> reservation oop" where
  "reserve oc route_id mission_id p model reason input_tokens max_output_tokens requested_max_cost prices usage_role =
     op_bind (op_raise_if (case usage_role of None \<Rightarrow> False | Some r \<Rightarrow> r \<noteq> ''ROLE_VERIFIER'') ValueError) (\<lambda>_.
     op_bind (op_lift (estimated_cost_microusd input_tokens max_output_tokens prices)) (\<lambda>cost.
     op_bind op_now (\<lambda>now.
     op_bind op_uuid4 (\<lambda>call_id.
     transaction (
       op_bind (op_query (check_limits oc p route_id mission_id requested_max_cost now (input_tokens + max_output_tokens) cost)) (\<lambda>verdict.
       op_bind (op_lift verdict) (\<lambda>_.
       op_bind op_now (\<lambda>created_at.
       op_bind (op_lift (bind_ints [input_tokens, max_output_tokens, cost])) (\<lambda>_.
       op_bind (op_query (\<lambda>d. select_one (\<lambda>r. ur_call_id r = call_id) (od_usage d))) (\<lambda>duplicate.
       op_bind (op_raise_if (duplicate \<noteq> None \<or> input_tokens < 0 \<or> max_output_tokens < 0 \<or> cost < 0 \<or>
                  pc_location p \<notin> {''local'', ''remote''}) IntegrityError) (\<lambda>_.
       op_bind (op_exec (\<lambda>d. d\<lparr>od_usage := od_usage d @
          [reservation_row p call_id route_id mission_id
             (case usage_role of None \<Rightarrow> role_value (pc_role p) | Some r \<Rightarrow> r)
             model reason created_at input_tokens max_output_tokens cost]\<rparr>)) (\<lambda>_.
       op_ret \<lparr>rv_call_id = call_id, rv_input_tokens = input_tokens, rv_output_tokens = max_output_tokens, rv_cost = cost\<rparr>))))))))))))"

section \<open>Settling\<close>

text \<open>
  \<^verbatim>\<open>UPDATE ... WHERE call_id = ? AND status = 'reserved'\<close>, which must change one row; \<open>valid\<close> says whether
  the new values pass the \<^verbatim>\<open>CHECK\<close> constraints.
\<close>

definition settle :: "string \<Rightarrow> bool \<Rightarrow> (usage_row \<Rightarrow> usage_row) \<Rightarrow> unit oop" where
  "settle call_id valid f =
     op_bind (op_query (\<lambda>d. rowcount (\<lambda>r. ur_call_id r = call_id \<and> ur_status r = ''reserved'') (od_usage d))) (\<lambda>changed.
     op_bind (op_raise_if (changed \<noteq> 0 \<and> \<not> valid) IntegrityError) (\<lambda>_.
     op_bind (op_exec (\<lambda>d. d\<lparr>od_usage := update_where (\<lambda>r. ur_call_id r = call_id \<and> ur_status r = ''reserved'') f (od_usage d)\<rparr>)) (\<lambda>_.
     op_raise_if (changed \<noteq> 1) (RuntimeError ''budget reservation state transition failed''))))"

definition completed_row :: "instant \<Rightarrow> int \<Rightarrow> int \<Rightarrow> int \<Rightarrow> usage_row \<Rightarrow> usage_row" where
  "completed_row now input_tokens output_tokens cost r =
     r\<lparr>ur_status := ''completed'', ur_completed_at := Some now, ur_actual_input := Some input_tokens,
       ur_actual_output := Some output_tokens, ur_actual_cost := Some cost\<rparr>"

definition complete :: "reservation \<Rightarrow> int \<Rightarrow> int \<Rightarrow> int \<times> int \<Rightarrow> int oop" where
  "complete rv input_tokens output_tokens prices =
     op_bind (op_raise_if (input_tokens < 0 \<or> output_tokens < 0) ValueError) (\<lambda>_.
     op_bind (op_lift (estimated_cost_microusd input_tokens output_tokens prices)) (\<lambda>cost.
     op_bind (transaction (
       op_bind op_now (\<lambda>now.
       op_bind (op_lift (bind_ints [input_tokens, output_tokens, cost])) (\<lambda>_.
       settle (rv_call_id rv) (0 \<le> cost) (completed_row now input_tokens output_tokens cost))))) (\<lambda>_.
     op_ret cost)))"

definition uncertain_row :: "instant \<Rightarrow> string \<Rightarrow> int \<Rightarrow> int \<Rightarrow> int \<Rightarrow> usage_row \<Rightarrow> usage_row" where
  "uncertain_row now error_code input_tokens output_tokens cost r =
     r\<lparr>ur_status := ''uncertain'', ur_completed_at := Some now, ur_error_code := Some (take 100 error_code),
       ur_reserved_input := input_tokens, ur_reserved_output := output_tokens, ur_reserved_cost := cost\<rparr>"

text \<open>\<^verbatim>\<open>input_tokens or 0\<close>, then the maximum with the reservation; the cost never goes down either.\<close>

definition retained_tokens :: "int \<Rightarrow> int option \<Rightarrow> int" where
  "retained_tokens reserved tokens = max reserved (case tokens of None \<Rightarrow> 0 | Some n \<Rightarrow> n)"

definition mark_uncertain :: "reservation \<Rightarrow> string \<Rightarrow> int option \<Rightarrow> int option \<Rightarrow> (int \<times> int) option \<Rightarrow> unit oop" where
  "mark_uncertain rv error_code input_tokens output_tokens prices =
     (let retained_input = retained_tokens (rv_input_tokens rv) input_tokens;
          retained_output = retained_tokens (rv_output_tokens rv) output_tokens in
      op_bind (op_lift (case prices of None \<Rightarrow> Inr (rv_cost rv)
                        | Some ps \<Rightarrow> res_bind (estimated_cost_microusd retained_input retained_output ps)
                                       (\<lambda>c. Inr (max (rv_cost rv) c)))) (\<lambda>retained_cost.
      transaction (
        op_bind op_now (\<lambda>now.
        op_bind (op_lift (bind_ints [retained_input, retained_output, retained_cost])) (\<lambda>_.
        settle (rv_call_id rv) (0 \<le> retained_input \<and> 0 \<le> retained_output \<and> 0 \<le> retained_cost)
          (uncertain_row now error_code retained_input retained_output retained_cost))))))"

section \<open>Reading the ledger\<close>

definition budget_summary_rows :: "odb \<Rightarrow> ((string \<times> string) \<times> usage_total) list" where
  "budget_summary_rows d =
     map (\<lambda>(p, s). ((p, s), total_of (filter (\<lambda>r. ur_provider_id r = p \<and> ur_status r = s) (od_usage d))))
       (sort (remdups (map (\<lambda>r. (ur_provider_id r, ur_status r)) (od_usage d))))"

definition current_periods :: "provider_config \<Rightarrow> (usage_total \<times> usage_total) oop" where
  "current_periods p =
     op_bind op_now (\<lambda>now. op_query (\<lambda>d. (aggregate (pc_provider_id p) (day_prefix now) None d,
                                            aggregate (pc_provider_id p) (month_prefix now) None d)))"

definition current_account_periods :: "string \<Rightarrow> (usage_total \<times> usage_total) oop" where
  "current_account_periods account_id =
     op_bind op_now (\<lambda>now. op_query (\<lambda>d. (aggregate_account account_id (day_prefix now) None d,
                                            aggregate_account account_id (month_prefix now) None d)))"

end
