(* ===== verification/Orch_Service.thy ===== *)
theory Orch_Service
  imports Orch_Routing Orch_Adaptive Orch_Budget
begin

text \<open>
  \<^verbatim>\<open>orchestrator/src/ops_orchestrator/service.py\<close>: a request is planned, offered role by role to the
  deployments of the role in order of adaptive cost, each call reserved, traced, made, and settled; the
  result of an important task is verified by an independent deployment; what cannot be answered safely
  goes to a human. A \<^verbatim>\<open>continue\<close>, \<^verbatim>\<open>break\<close> or \<^verbatim>\<open>return\<close> inside the loop over deployments is a value of
  \<open>flow\<close>, and the local variables of the loop are the record \<open>plan_state\<close>.
\<close>

section \<open>Events\<close>

definition route_event :: "model_request \<Rightarrow> string \<Rightarrow> string \<Rightarrow> string \<Rightarrow> flt option \<Rightarrow> event_facts" where
  "route_event rq route_id event_type reason confidence =
     \<lparr>ef_mission_id = rq_mission_id rq, ef_route_id = route_id, ef_event_type = event_type, ef_role = None,
      ef_provider_id = None, ef_model = None, ef_location = None, ef_reason = reason, ef_risk = risk_value (rq_risk rq),
      ef_complexity = rq_complexity rq, ef_impact = rq_impact rq, ef_confidence_in = confidence,
      ef_confidence_out = None, ef_input_tokens = 0, ef_output_tokens = 0, ef_cost = 0\<rparr>"

definition provider_event ::
  "model_request \<Rightarrow> string \<Rightarrow> string \<Rightarrow> string \<Rightarrow> string \<Rightarrow> provider_config \<Rightarrow> string option \<Rightarrow> flt option \<Rightarrow> event_facts" where
  "provider_event rq route_id event_type reason role p model confidence =
     (route_event rq route_id event_type reason confidence)
       \<lparr>ef_role := Some role, ef_provider_id := Some (pc_provider_id p), ef_model := model, ef_location := Some (pc_location p)\<rparr>"

text \<open>\<^verbatim>\<open>type(exc).__name__\<close> and \<^verbatim>\<open>str(exc)\<close>.\<close>

definition exc_name :: "py_exc \<Rightarrow> string" where
  "exc_name e =
     (case e of ConfigurationError _ \<Rightarrow> ''ConfigurationError'' | ValidationError _ \<Rightarrow> ''ValidationError''
      | ProviderUnavailable _ \<Rightarrow> ''ProviderUnavailable'' | ProviderProtocolError _ \<Rightarrow> ''ProviderProtocolError''
      | ProviderBudgetExceeded _ _ _ \<Rightarrow> ''BudgetExceeded'' | OverflowError \<Rightarrow> ''OverflowError''
      | DecimalInvalidOperation \<Rightarrow> ''InvalidOperation'' | IntegrityError \<Rightarrow> ''IntegrityError'' | MemoryFault c m \<Rightarrow> c | OtherError n \<Rightarrow> n
      | BrokerError _ _ _ _ \<Rightarrow> ''BrokerError'' | AuthorizationDenied _ \<Rightarrow> ''AuthorizationDenied'' | NotFound _ \<Rightarrow> ''NotFound''
      | Conflict _ \<Rightarrow> ''Conflict'' | ApprovalRequired _ \<Rightarrow> ''ApprovalRequired'' | BudgetExceeded _ \<Rightarrow> ''BudgetExceeded''
      | PolicyValidationError _ \<Rightarrow> ''PolicyValidationError'' | RunbookValidationError _ \<Rightarrow> ''RunbookValidationError''
      | RuntimeError _ \<Rightarrow> ''RuntimeError'' | AssertionError \<Rightarrow> ''AssertionError'' | TypeError \<Rightarrow> ''TypeError''
      | KeyError \<Rightarrow> ''KeyError'' | ValueError \<Rightarrow> ''ValueError'' | JSONDecodeError \<Rightarrow> ''JSONDecodeError'')"

definition is_configuration_error :: "py_exc \<Rightarrow> bool" where
  "is_configuration_error e \<longleftrightarrow> (case e of ConfigurationError _ \<Rightarrow> True | _ \<Rightarrow> False)"

definition budget_text :: "string \<Rightarrow> string \<Rightarrow> string \<Rightarrow> string" where
  "budget_text who period dimension = ''budget blocked for '' @ who @ '': '' @ period @ '' '' @ dimension"

definition call_labels :: "string \<Rightarrow> provider_config \<Rightarrow> string \<Rightarrow> string \<Rightarrow> (string \<times> string) list" where
  "call_labels role p model status =
     [(''role'', role), (''provider'', pc_provider_id p), (''model'', model), (''location'', pc_location p), (''status'', status)]"

section \<open>Ordering deployments\<close>

definition profile_scores :: "orchestrator \<Rightarrow> string \<Rightarrow> (string \<times> int) list res" where
  "profile_scores oc profile_id =
     (case map_of (oc_profiles oc) profile_id of
        None \<Rightarrow> Inl (ConfigurationError (''runtime references unknown capability profile: '' @ profile_id))
      | Some p \<Rightarrow> Inr p)"

text \<open>Model, estimated input tokens and prices of a call.\<close>

definition call_terms :: "orchestrator \<Rightarrow> model_request \<Rightarrow> provider_config \<Rightarrow> (string \<times> int \<times> int \<times> int) res" where
  "call_terms oc rq p =
     res_bind (resolved_model (oc_environment oc) p) (\<lambda>model.
     res_bind (conservative_input_tokens rq (pc_kind p)) (\<lambda>n.
     res_bind (price_microusd_per_million (oc_environment oc) p (Some n)) (\<lambda>prices. Inr (model, n, prices))))"

definition ranked_estimate :: "orchestrator \<Rightarrow> model_request \<Rightarrow> provider_config \<Rightarrow> int \<Rightarrow> (string \<times> int) res" where
  "ranked_estimate oc rq p output_reservation =
     (case res_bind (call_terms oc rq p) (\<lambda>(model, n, prices).
             res_bind (estimated_cost_microusd n output_reservation prices) (\<lambda>cost. Inr (model, cost))) of
        Inl (ConfigurationError _) \<Rightarrow> Inr (''unresolved-runtime-model'', 2 ^ 62)
      | r \<Rightarrow> r)"

record candidate =
  cd_cost :: int
  cd_latency :: int
  cd_estimate :: int
  cd_margin :: int
  cd_index :: int
  cd_role :: role
  cd_provider :: provider_config
  cd_score :: score

definition candidate_of ::
  "orchestrator \<Rightarrow> model_request \<Rightarrow> role \<Rightarrow> string \<Rightarrow> int \<Rightarrow> int \<Rightarrow> int \<Rightarrow> provider_config \<Rightarrow> odb \<Rightarrow> candidate res" where
  "candidate_of oc rq role usage_role output_reservation margin index p d =
     res_bind (ranked_estimate oc rq p output_reservation) (\<lambda>(model, cost).
     res_bind (candidate_score oc (task_value (rq_task_type rq)) (pc_provider_id p) (pc_account_id p) model cost
                 (Some (rq_urgency rq)) (Some usage_role) d) (\<lambda>s.
     Inr \<lparr>cd_cost = sc_adaptive_cost s,
          cd_latency = (if sc_latency_sufficient s then (case sc_observed_latency s of Some v \<Rightarrow> v | None \<Rightarrow> 0)
                        else (case sc_latency_target s of Some v \<Rightarrow> v | None \<Rightarrow> 0)),
          cd_estimate = cost, cd_margin = margin, cd_index = index, cd_role = role, cd_provider = p, cd_score = s\<rparr>))"

definition candidate_order :: "candidate \<Rightarrow> int \<times> int \<times> int \<times> int \<times> int" where
  "candidate_order c = (cd_cost c, cd_latency c, cd_estimate c, - cd_margin c, cd_index c)"

definition deficit_text :: "(string \<times> int) list \<Rightarrow> string" where
  "deficit_text deficits = join '', '' (map (\<lambda>(d, n). d @ '':-'' @ int_str n) (sort_key fst deficits))"

definition audit_order :: "orchestrator \<Rightarrow> string \<Rightarrow> model_request \<Rightarrow> string \<Rightarrow> candidate list \<Rightarrow> candidate list oop" where
  "audit_order oc route_id rq usage_role candidates =
     (let ranked = sort_key candidate_order candidates in
      op_bind (op_when (ranked \<noteq> []) (record_adaptive_score_audit route_id (task_value (rq_task_type rq)) usage_role
                 (map (\<lambda>(i, c). (cd_score c, int i)) (enumerate 1 ranked)))) (\<lambda>_.
      op_ret ranked))"

text \<open>\<^verbatim>\<open>_providers_by_estimated_cost\<close>: one step per deployment of the role.\<close>

definition output_bound :: "orchestrator \<Rightarrow> role \<Rightarrow> int" where
  "output_bound oc role = (if role \<in> {EMBEDDING, RERANKER} then 0 else lm_max_output_tokens (oc_limits oc))"

fun rank_providers :: "orchestrator \<Rightarrow> string \<Rightarrow> role \<Rightarrow> model_request \<Rightarrow> int \<Rightarrow> provider_config list \<Rightarrow> candidate list oop" where
  "rank_providers oc route_id role rq index [] = op_ret []"
| "rank_providers oc route_id role rq index (p # ps) =
     op_bind (op_lift (profile_scores oc (pc_capability_profile p))) (\<lambda>profile.
     case capability_check profile (requirements_for rq) of (capable, deficits, margin) \<Rightarrow>
     if \<not> capable then
       op_bind (trace_append oc (provider_event rq route_id ''CAPABILITY_REJECT''
          (''profile='' @ pc_capability_profile p @ '' below hard minimums: '' @ deficit_text deficits)
          (role_value role) p None (Some (rq_confidence rq)))) (\<lambda>_.
       rank_providers oc route_id role rq (index + 1) ps)
     else
       op_bind (op_query (candidate_of oc rq role (role_value role) (output_bound oc role) margin index p)) (\<lambda>r.
       op_bind (op_lift r) (\<lambda>c.
       op_bind (rank_providers oc route_id role rq (index + 1) ps) (\<lambda>cs. op_ret (c # cs)))))"

definition providers_by_estimated_cost :: "orchestrator \<Rightarrow> string \<Rightarrow> role \<Rightarrow> provider_config list \<Rightarrow> model_request \<Rightarrow> provider_config list oop" where
  "providers_by_estimated_cost oc route_id role providers rq =
     op_bind (rank_providers oc route_id role rq 0 providers) (\<lambda>candidates.
     op_bind (audit_order oc route_id rq (role_value role) candidates) (\<lambda>ranked.
     op_ret (map cd_provider ranked)))"

section \<open>Making a reserved call\<close>

text \<open>
  What \<^verbatim>\<open>invoke\<close> returned is checked, priced and settled; an exception anywhere on the way is kept with
  the result, if there was one, and the prices to value it at. The local model lock is released in the
  \<^verbatim>\<open>finally\<close> of this block.
\<close>

type_synonym call_failure = "py_exc \<times> provider_result option \<times> int \<times> int"

definition reconcile ::
  "orchestrator \<Rightarrow> provider_config \<Rightarrow> py_exc option \<Rightarrow> string \<Rightarrow> provider_result \<Rightarrow> int \<Rightarrow> int \<Rightarrow> int \<times> int \<Rightarrow>
   (py_exc \<times> int \<times> int) + int \<times> int" where
  "reconcile oc p refusal exceeded result estimated_input output_reservation prices =
     (case refusal of
        Some e \<Rightarrow> Inl (e, prices)
      | None \<Rightarrow>
          (case price_microusd_per_million (oc_environment oc) p (Some (pv_input_tokens result)) of
             Inl e \<Rightarrow> Inl (e, if pc_price_tiers p \<noteq> [] \<and> is_configuration_error e
                             then (pt_input_price (last (pc_price_tiers p)), pt_output_price (last (pc_price_tiers p)))
                             else prices)
           | Inr actual \<Rightarrow>
               if pv_input_tokens result > estimated_input \<or> pv_output_tokens result > output_reservation
               then Inl (ProviderProtocolError exceeded, actual) else Inr actual))"

definition run_call ::
  "orchestrator \<Rightarrow> provider_config \<Rightarrow> model_request \<Rightarrow> reservation \<Rightarrow> (provider_result \<Rightarrow> py_exc option) \<Rightarrow> string \<Rightarrow>
   int \<Rightarrow> int \<Rightarrow> int \<times> int \<Rightarrow> (call_failure + provider_result \<times> int) oop" where
  "run_call oc p rq rv refusal exceeded estimated_input output_reservation prices =
     op_bind (op_try (op_invoke oc p rq (lm_max_output_tokens (oc_limits oc)))) (\<lambda>answer.
     case answer of
       Inl e \<Rightarrow> op_ret (Inl (e, None, prices))
     | Inr result \<Rightarrow>
         (case reconcile oc p (refusal result) exceeded result estimated_input output_reservation prices of
            Inl (e, actual) \<Rightarrow> op_ret (Inl (e, Some result, actual))
          | Inr actual \<Rightarrow>
              op_bind (op_try (complete rv (pv_input_tokens result) (pv_output_tokens result) actual)) (\<lambda>settled.
              case settled of
                Inl e \<Rightarrow> op_ret (Inl (e, Some result, actual))
              | Inr cost \<Rightarrow> op_ret (Inr (result, cost)))))"

definition mark_failed :: "reservation \<Rightarrow> call_failure \<Rightarrow> unit oop" where
  "mark_failed rv failure =
     (case failure of (e, result, actual) \<Rightarrow>
        mark_uncertain rv (exc_name e) (map_option pv_input_tokens result) (map_option pv_output_tokens result) (Some actual))"

text \<open>A \<^verbatim>\<open>BudgetExceeded\<close> of \<^verbatim>\<open>reserve\<close> is counted and traced.\<close>

definition budget_blocked ::
  "orchestrator \<Rightarrow> model_request \<Rightarrow> string \<Rightarrow> role \<Rightarrow> provider_config \<Rightarrow> string \<Rightarrow> string \<Rightarrow> string \<Rightarrow> string \<Rightarrow> unit oop" where
  "budget_blocked oc rq route_id role p model who period dimension =
     op_bind (increment ''budget_blocked'' [(''provider'', who), (''period'', period)] 1) (\<lambda>_.
     op_bind (trace_append oc (provider_event rq route_id ''BUDGET_BLOCK'' (budget_text who period dimension) (role_value role) p
                (Some model) (Some (rq_confidence rq)))) (\<lambda>_. op_ret ()))"

end
