(* ===== verification/Orch_Route.thy ===== *)
theory Orch_Route
  imports Orch_Verify
begin

text \<open>
  The routing loop of \<^verbatim>\<open>orchestrator/src/ops_orchestrator/service.py\<close>: \<^verbatim>\<open>route_request\<close>, \<^verbatim>\<open>_invoke_plan\<close> with its
  two nested loops, and the decisions they end in.
\<close>

section \<open>Ending a route\<close>

text \<open>\<^verbatim>\<open>max(0, int((time.monotonic() - started) * 1000))\<close>.\<close>

definition finish :: "rat \<Rightarrow> string \<Rightarrow> route_decision \<Rightarrow> unit oop" where
  "finish started status decision =
     op_bind op_monotonic (\<lambda>ended.
     let duration = max 0 (py_int (fl (fl (ended - started) * 1000))) in
     op_bind (finish_run (rd_route_id decision) status (rd_reason decision) duration
                (map_option role_value (rd_selected_role decision)) (rd_selected_provider decision)) (\<lambda>_.
     op_bind (increment ''routing_outcomes'' [(''outcome'', status)] 1) (\<lambda>_.
     increment ''routing_duration_milliseconds'' [] duration)))"

definition human_escalation ::
  "orchestrator \<Rightarrow> string \<Rightarrow> rat \<Rightarrow> model_request \<Rightarrow> string \<Rightarrow> bool \<Rightarrow> executor_result option \<Rightarrow> verification_outcome option \<Rightarrow>
   route_decision oop" where
  "human_escalation oc route_id started rq reason degraded executor verification =
     op_bind (trace_append oc (route_event rq route_id ''HUMAN_ESCALATION'' reason (Some (rq_confidence rq)))) (\<lambda>sequence.
     op_bind (increment ''human_escalations'' [(''reason'', ''no_safe_model_result'')] 1) (\<lambda>_.
     let decision = \<lparr>rd_route_id = route_id, rd_mission_id = rq_mission_id rq, rd_selected_role = None,
        rd_selected_provider = None, rd_selected_model = None, rd_disposition = ''human_escalation_required'',
        rd_reason = reason, rd_confidence = Flt 0,
        rd_summary = ''No bounded, sufficiently confident model result is available. Stop and escalate to a human.'',
        rd_plan = [], rd_proposal = None, rd_requires_human_approval = True, rd_degraded = degraded,
        rd_trace_sequence = sequence, rd_executor_result = executor, rd_verification = verification\<rparr> in
     op_bind (finish started ''escalated'' decision) (\<lambda>_. op_ret decision)))"

definition successful_decision ::
  "orchestrator \<Rightarrow> string \<Rightarrow> model_request \<Rightarrow> role \<Rightarrow> provider_config \<Rightarrow> string \<Rightarrow> provider_result \<Rightarrow> string \<Rightarrow> bool \<Rightarrow> int \<Rightarrow>
   executor_result \<Rightarrow> verification_outcome \<Rightarrow> route_decision oop" where
  "successful_decision oc route_id rq role p model result reason degraded sequence executor verification =
     (let critical = (rq_risk rq = CRITICAL);
          decision = (\<lambda>disposition approval sequence.
            \<lparr>rd_route_id = route_id, rd_mission_id = rq_mission_id rq, rd_selected_role = Some role,
             rd_selected_provider = Some (pc_provider_id p), rd_selected_model = Some model, rd_disposition = disposition,
             rd_reason = reason, rd_confidence = pv_confidence result, rd_summary = pv_summary result,
             rd_plan = pv_plan result, rd_proposal = pv_proposal result, rd_requires_human_approval = approval,
             rd_degraded = degraded, rd_trace_sequence = sequence, rd_executor_result = Some executor,
             rd_verification = Some verification\<rparr>) in
      if role = CODER then op_ret (decision ''code_proposal_review_tests_git_required'' True sequence)
      else if role \<in> {EMBEDDING, RERANKER} then op_ret (decision ''data_ready'' critical sequence)
      else if role \<in> {REASONING, PREMIUM} then
        op_bind (trace_append oc ((provider_event rq route_id ''RETURN_CONTROL_PLANE''
           ''expert or premium output returns to deterministic tools and the human approval boundary''
           (role_value role) p (Some model) (Some (pv_confidence result)))
             \<lparr>ef_location := Some ''control-plane'', ef_confidence_out := Some (pv_confidence result)\<rparr>)) (\<lambda>sequence.
        op_ret (decision ''plan_ready_for_control_plane_validation'' critical sequence))
      else op_ret (decision (if critical then ''human_approval_required'' else ''advisory_ready'') critical sequence))"

section \<open>One deployment\<close>

record plan_state =
  ps_calls :: int
  ps_iterations :: int
  ps_previous :: "role option"
  ps_degraded :: bool
  ps_reason :: string
  ps_handoffs :: "string list"

datatype flow = Next plan_state | Stop plan_state | Done route_decision

text \<open>What the loops do not change: identifiers, the request, its plan and its cost limit.\<close>

record route_context =
  xc_route_id :: string
  xc_started :: rat
  xc_request :: model_request
  xc_plan :: routing_plan
  xc_max_cost :: "int option"

definition NO_PROVIDER :: string where
  "NO_PROVIDER = ''no configured provider accepted the request''"

definition with_handoffs :: "orchestrator \<Rightarrow> model_request \<Rightarrow> string list \<Rightarrow> model_request" where
  "with_handoffs oc rq handoffs =
     (if handoffs = [] then rq
      else
        let latest = drop (length handoffs - 3) handoffs;
            state = py_strip (cx_current_state (rq_context rq) @ [chr_nl] @ ''UNTRUSTED_PRIOR_MODEL_HANDOFFS:'' @ [chr_nl] @
                              join [chr_nl] latest);
            context = (rq_context rq)\<lparr>cx_current_state := state\<rparr>;
            l = oc_limits oc in
        if int (length state) > lm_max_section_chars l \<or> \<not> within_context l context then rq
        else rq\<lparr>rq_context := context\<rparr>)"

definition handoff_text :: "role \<Rightarrow> provider_config \<Rightarrow> provider_result \<Rightarrow> string" where
  "handoff_text role p result =
     role_value role @ ''/'' @ pc_provider_id p @ '' confidence='' @ fixed3 (pv_confidence result) @ '': '' @
     take 1000 (pv_summary result)"

definition executor_refusal :: "role \<Rightarrow> provider_result \<Rightarrow> py_exc option" where
  "executor_refusal role result =
     (let empty = (case pv_proposal result of None \<Rightarrow> True | Some t \<Rightarrow> t = []) in
      if pv_verification result \<noteq> None then Some (ProviderProtocolError ''executor returned a verification-only field'')
      else if role = CODER \<and> empty then Some (ProviderProtocolError ''coder returned no reviewable proposal'')
      else if role \<in> {EMBEDDING, RERANKER} \<and> empty then Some (ProviderProtocolError ''data provider returned no structured payload'')
      else None)"

text \<open>A deployment passed over: the reason is traced and becomes the last reason.\<close>

definition model_failure ::
  "orchestrator \<Rightarrow> route_context \<Rightarrow> role \<Rightarrow> provider_config \<Rightarrow> string option \<Rightarrow> string \<Rightarrow> plan_state \<Rightarrow> flow oop" where
  "model_failure oc xc role p model reason st =
     op_bind (trace_append oc (provider_event (xc_request xc) (xc_route_id xc) ''MODEL_FAILURE'' reason (role_value role) p model
                (Some (rq_confidence (xc_request xc))))) (\<lambda>_.
     op_ret (Next (st\<lparr>ps_reason := reason\<rparr>)))"

definition executor_of :: "role \<Rightarrow> provider_config \<Rightarrow> string \<Rightarrow> provider_result \<Rightarrow> executor_result" where
  "executor_of role p model result =
     \<lparr>er_role = role, er_provider_id = pc_provider_id p, er_account_id = pc_account_id p, er_chat_family = pc_chat_family p,
      er_model = model, er_confidence = pv_confidence result, er_summary = pv_summary result, er_plan = pv_plan result,
      er_proposal = pv_proposal result\<rparr>"

definition not_required :: verification_outcome where
  "not_required =
     \<lparr>vo_required = False, vo_status = ''not_required'', vo_role = None, vo_provider_id = None, vo_account_id = None,
      vo_chat_family = None, vo_model = None, vo_confidence = None, vo_summary = None\<rparr>"

text \<open>A confident result: verified if the task is important, then decided.\<close>

definition conclude ::
  "orchestrator \<Rightarrow> route_context \<Rightarrow> role \<Rightarrow> provider_config \<Rightarrow> string \<Rightarrow> provider_result \<Rightarrow> int \<Rightarrow> plan_state \<Rightarrow> route_decision oop" where
  "conclude oc xc role p model result sequence st =
     (let rq = xc_request xc; x = executor_of role p model result in
      op_bind (if important_task rq
               then verify_executor_result oc (xc_route_id xc) rq x (ps_calls st) (ps_iterations st) (xc_max_cost xc)
               else op_ret (not_required, False)) (\<lambda>(verification, verification_degraded).
      let degraded = (ps_degraded st \<or> verification_degraded) in
      if important_task rq \<and> vo_status verification \<noteq> ''agreed'' then
        human_escalation oc (xc_route_id xc) (xc_started xc) rq ''important model result was not independently verified''
          degraded (Some x) (Some verification)
      else
        op_bind (successful_decision oc (xc_route_id xc) rq role p model result (rp_reason (xc_plan xc)) degraded sequence x
                   verification) (\<lambda>decision.
        op_bind (finish (xc_started xc) ''routed'' decision) (\<lambda>_. op_ret decision))))"

text \<open>What a settled call leads to.\<close>

definition judge_result ::
  "orchestrator \<Rightarrow> route_context \<Rightarrow> role \<Rightarrow> provider_config \<Rightarrow> string \<Rightarrow> provider_result \<Rightarrow> int \<Rightarrow> plan_state \<Rightarrow> flow oop" where
  "judge_result oc xc role p model result cost st =
     (let rq = xc_request xc; event = (\<lambda>kind reason confidence.
            provider_event rq (xc_route_id xc) kind reason (role_value role) p (Some model) (Some confidence)) in
      op_bind (increment ''model_calls'' (call_labels (role_value role) p model ''ok'') 1) (\<lambda>_.
      op_bind (trace_append oc ((event ''MODEL_RESULT'' (''structured result status='' @ pv_status result) (rq_confidence rq))
         \<lparr>ef_confidence_out := Some (pv_confidence result), ef_input_tokens := pv_input_tokens result,
          ef_output_tokens := pv_output_tokens result, ef_cost := cost\<rparr>)) (\<lambda>sequence.
      if pv_status result = ''refuse'' then
        op_bind (human_escalation oc (xc_route_id xc) (xc_started xc) rq ''provider refused the request'' (ps_degraded st) None None)
          (\<lambda>decision. op_ret (Done decision))
      else if pv_status result = ''escalate'' \<or> fval (pv_confidence result) < th_minimum_provider_confidence (oc_thresholds oc) then
        let reason = ''provider requested escalation or returned insufficient confidence'' in
        op_bind (increment ''escalations'' [(''from_role'', role_value role), (''to_role'', role_value role)] 1) (\<lambda>_.
        op_bind (trace_append oc (event ''ESCALATION'' reason (pv_confidence result))) (\<lambda>_.
        op_ret (Next (st\<lparr>ps_reason := reason, ps_handoffs := ps_handoffs st @ [handoff_text role p result]\<rparr>))))
      else
        op_bind (conclude oc xc role p model result sequence st) (\<lambda>decision. op_ret (Done decision)))))"

text \<open>A reserved call: \<open>local\<close> says that the local model lock is held.\<close>

definition call_provider ::
  "orchestrator \<Rightarrow> route_context \<Rightarrow> role \<Rightarrow> provider_config \<Rightarrow> string \<Rightarrow> model_request \<Rightarrow> string \<Rightarrow> int \<Rightarrow> int \<times> int \<Rightarrow> reservation \<Rightarrow>
   bool \<Rightarrow> plan_state \<Rightarrow> flow oop" where
  "call_provider oc xc role p model effective call_reason estimated_input prices rv local_lock st =
     (let rq = xc_request xc; event = (\<lambda>kind reason.
            provider_event rq (xc_route_id xc) kind reason (role_value role) p (Some model) (Some (rq_confidence rq)));
          st = st\<lparr>ps_calls := ps_calls st + 1\<rparr> in
      op_bind (trace_append oc ((event ''MODEL_START'' call_reason)\<lparr>ef_input_tokens := estimated_input\<rparr>)) (\<lambda>_.
      op_bind (run_call oc p effective rv (executor_refusal role) ''actual provider usage exceeded the reserved token bound''
                 estimated_input (output_bound oc role) prices) (\<lambda>outcome.
      op_bind (op_when local_lock op_release) (\<lambda>_.
      case outcome of
        Inl failure \<Rightarrow>
          let reason = pc_provider_id p @ '' failed safely: '' @ exc_name (fst failure) in
          op_bind (mark_failed rv failure) (\<lambda>_.
          op_bind (increment ''model_calls'' (call_labels (role_value role) p model ''failed'') 1) (\<lambda>_.
          op_bind (trace_append oc ((event ''MODEL_FAILURE'' reason)
             \<lparr>ef_input_tokens := rv_input_tokens rv, ef_output_tokens := rv_output_tokens rv, ef_cost := rv_cost rv\<rparr>)) (\<lambda>_.
          op_ret (Next (st\<lparr>ps_reason := reason\<rparr>)))))
      | Inr (result, cost) \<Rightarrow> judge_result oc xc role p model result cost st))))"

definition reserve_and_call ::
  "orchestrator \<Rightarrow> route_context \<Rightarrow> role \<Rightarrow> provider_config \<Rightarrow> string \<Rightarrow> model_request \<Rightarrow> int \<Rightarrow> int \<times> int \<Rightarrow> plan_state \<Rightarrow> flow oop" where
  "reserve_and_call oc xc role p model effective estimated_input prices st =
     (let rq = xc_request xc;
          call_reason = (if ps_reason st = NO_PROVIDER then rp_reason (xc_plan xc) else ''handoff after: '' @ ps_reason st);
          local_lock = (pc_location p = ''local'') in
      op_bind (if local_lock then op_acquire oc else op_ret True) (\<lambda>acquired.
      if \<not> acquired then
        model_failure oc xc role p (Some model) (pc_provider_id p @ '' local inference lock timed out'') st
      else
        op_bind (op_try (reserve oc (xc_route_id xc) (rq_mission_id rq) p model call_reason estimated_input (output_bound oc role)
                   (xc_max_cost xc) prices None)) (\<lambda>reserved.
        case reserved of
          Inl (ProviderBudgetExceeded who period dimension) \<Rightarrow>
            op_bind (op_when local_lock op_release) (\<lambda>_.
            op_bind (budget_blocked oc rq (xc_route_id xc) role p model who period dimension) (\<lambda>_.
            op_ret (Next (st\<lparr>ps_reason := budget_text who period dimension\<rparr>))))
        | Inl e \<Rightarrow> op_bind (op_when local_lock op_release) (\<lambda>_. op_raise e)
        | Inr rv \<Rightarrow> call_provider oc xc role p model effective call_reason estimated_input prices rv local_lock st)))"

definition configuration_invalid :: "provider_config \<Rightarrow> py_exc \<Rightarrow> plan_state \<Rightarrow> flow oop" where
  "configuration_invalid p e st =
     (case e of
        ConfigurationError message \<Rightarrow>
          op_ret (Next (st\<lparr>ps_reason := pc_provider_id p @ '' configuration invalid: '' @ message\<rparr>))
      | _ \<Rightarrow> op_raise e)"

definition try_provider :: "orchestrator \<Rightarrow> route_context \<Rightarrow> role \<Rightarrow> provider_config \<Rightarrow> plan_state \<Rightarrow> flow oop" where
  "try_provider oc xc role p st =
     (let rq = xc_request xc in
      if pc_location p = ''remote'' \<and> \<not> rq_remote_allowed rq then
        model_failure oc xc role p None (pc_provider_id p @ '' blocked: remote context egress was not explicitly authorized'') st
      else
        op_bind (op_available oc p) (\<lambda>availability.
        if \<not> fst availability then
          model_failure oc xc role p None (pc_provider_id p @ '' unavailable: '' @ snd availability)
            (st\<lparr>ps_degraded := (ps_degraded st \<or> pc_location p = ''remote'')\<rparr>)
        else if ps_calls st \<ge> lm_max_provider_calls (oc_limits oc) then
          op_ret (Stop (st\<lparr>ps_reason := ''maximum provider calls reached''\<rparr>))
        else
          (case resolved_model (oc_environment oc) p of
             Inl e \<Rightarrow> configuration_invalid p e st
           | Inr model \<Rightarrow>
               let effective = with_handoffs oc rq (ps_handoffs st) in
               op_bind (op_lift (conservative_input_tokens effective (pc_kind p))) (\<lambda>estimated_input.
               case price_microusd_per_million (oc_environment oc) p (Some estimated_input) of
                 Inl e \<Rightarrow> configuration_invalid p e st
               | Inr prices \<Rightarrow> reserve_and_call oc xc role p model effective estimated_input prices st))))"

section \<open>The loops\<close>

fun try_providers :: "orchestrator \<Rightarrow> route_context \<Rightarrow> role \<Rightarrow> provider_config list \<Rightarrow> plan_state \<Rightarrow> flow oop" where
  "try_providers oc xc role [] st = op_ret (Next st)"
| "try_providers oc xc role (p # ps) st =
     op_bind (try_provider oc xc role p st) (\<lambda>r.
     case r of Next st' \<Rightarrow> try_providers oc xc role ps st' | Stop st' \<Rightarrow> op_ret (Stop st') | Done d \<Rightarrow> op_ret (Done d))"

text \<open>Entering a role: an escalation from the previous one is counted and traced.\<close>

definition enter_role :: "orchestrator \<Rightarrow> route_context \<Rightarrow> role \<Rightarrow> plan_state \<Rightarrow> unit oop" where
  "enter_role oc xc role st =
     (case ps_previous st of
        None \<Rightarrow> op_ret ()
      | Some previous \<Rightarrow>
          op_bind (increment ''escalations'' [(''from_role'', role_value previous), (''to_role'', role_value role)] 1) (\<lambda>_.
          op_bind (trace_append oc ((route_event (xc_request xc) (xc_route_id xc) ''ESCALATION'' (ps_reason st)
             (Some (rq_confidence (xc_request xc))))\<lparr>ef_role := Some (role_value role)\<rparr>)) (\<lambda>_. op_ret ())))"

fun try_roles :: "orchestrator \<Rightarrow> route_context \<Rightarrow> role list \<Rightarrow> plan_state \<Rightarrow> route_decision oop" where
  "try_roles oc xc [] st =
     human_escalation oc (xc_route_id xc) (xc_started xc) (xc_request xc) (ps_reason st) (ps_degraded st) None None"
| "try_roles oc xc (role # rs) st =
     (let st = st\<lparr>ps_iterations := ps_iterations st + 1\<rparr> in
      if ps_iterations st > lm_max_iterations (oc_limits oc) then
        human_escalation oc (xc_route_id xc) (xc_started xc) (xc_request xc) ''maximum orchestration iterations reached''
          (ps_degraded st) None None
      else
        op_bind (enter_role oc xc role st) (\<lambda>_.
        op_bind (providers_by_estimated_cost oc (xc_route_id xc) role (oc_providers oc role)
                   (with_handoffs oc (xc_request xc) (ps_handoffs st))) (\<lambda>providers.
        op_bind (try_providers oc xc role providers (st\<lparr>ps_previous := Some role\<rparr>)) (\<lambda>r.
        case r of Done d \<Rightarrow> op_ret d | Next st' \<Rightarrow> try_roles oc xc rs st' | Stop st' \<Rightarrow> try_roles oc xc rs st'))))"

section \<open>Entry points\<close>

text \<open>\<^verbatim>\<open>int(Decimal(value) * Decimal(1_000_000))\<close>, of a text \<^verbatim>\<open>parse_route_request\<close> accepted.\<close>

definition cost_limit_microusd :: "string option \<Rightarrow> int option res" where
  "cost_limit_microusd value =
     (case value of
        None \<Rightarrow> Inr None
      | Some text \<Rightarrow>
          (case decimal_of_text text of Some (Some amount) \<Rightarrow> Inr (Some (py_int (dec_round (amount * 1000000)))) | _ \<Rightarrow> Inl ValueError))"

definition invoke_plan :: "orchestrator \<Rightarrow> string \<Rightarrow> rat \<Rightarrow> model_request \<Rightarrow> routing_plan \<Rightarrow> route_decision oop" where
  "invoke_plan oc route_id started rq rplan =
     op_bind (op_lift (cost_limit_microusd (rq_requested_max_cost_usd rq))) (\<lambda>max_cost.
     try_roles oc \<lparr>xc_route_id = route_id, xc_started = started, xc_request = rq, xc_plan = rplan, xc_max_cost = max_cost\<rparr>
       (rp_roles rplan)
       \<lparr>ps_calls = 0, ps_iterations = 0, ps_previous = None, ps_degraded = False, ps_reason = NO_PROVIDER, ps_handoffs = []\<rparr>)"

definition deterministic_decision :: "orchestrator \<Rightarrow> string \<Rightarrow> rat \<Rightarrow> model_request \<Rightarrow> routing_plan \<Rightarrow> route_decision oop" where
  "deterministic_decision oc route_id started rq rplan =
     op_bind (trace_append oc (route_event rq route_id ''DETERMINISTIC''
        ''model call suppressed because an authorized deterministic path was declared available'' (Some (rq_confidence rq)))) (\<lambda>sequence.
     let decision = \<lparr>rd_route_id = route_id, rd_mission_id = rq_mission_id rq, rd_selected_role = None,
        rd_selected_provider = None, rd_selected_model = None, rd_disposition = ''deterministic_tool_required'',
        rd_reason = rp_reason rplan, rd_confidence = rq_confidence rq,
        rd_summary = ''Use the separately authorized deterministic tool; no model was called.'', rd_plan = [],
        rd_proposal = None, rd_requires_human_approval = (rq_risk rq = CRITICAL), rd_degraded = False,
        rd_trace_sequence = sequence, rd_executor_result = None, rd_verification = None\<rparr> in
     op_bind (finish started ''routed'' decision) (\<lambda>_. op_ret decision))"

definition route_request :: "orchestrator \<Rightarrow> model_request \<Rightarrow> route_decision oop" where
  "route_request oc rq =
     op_bind op_uuid4 (\<lambda>route_id.
     op_bind op_monotonic (\<lambda>started.
     let rplan = plan (oc_thresholds oc) (lm_max_context_tokens (oc_limits oc)) rq;
         requested_role = (case rp_roles rplan of [] \<Rightarrow> None | r # _ \<Rightarrow> Some (role_value r)) in
     op_bind (start_run route_id rq requested_role (rp_reason rplan)) (\<lambda>_.
     op_bind (increment ''missions_received'' [] 1) (\<lambda>_.
     op_bind (trace_append oc ((route_event rq route_id ''ROUTE'' (rp_reason rplan) (Some (rq_confidence rq)))
        \<lparr>ef_role := requested_role\<rparr>)) (\<lambda>_.
     if rp_deterministic rplan then deterministic_decision oc route_id started rq rplan
     else invoke_plan oc route_id started rq rplan)))))"

end
