(* ===== verification/Orch_Parse.thy ===== *)
theory Orch_Parse
  imports Orch_Route Py_Regex
begin

text \<open>
  The way in: \<^verbatim>\<open>parse_route_request\<close> of \<^verbatim>\<open>orchestrator/src/ops_orchestrator/models.py\<close> and the
  authorization of \<^verbatim>\<open>POST /v1/route\<close> in \<^verbatim>\<open>api.py\<close>, from the decoded JSON body to the decision.
\<close>

section \<open>Checks\<close>

definition dict_get :: "jdict \<Rightarrow> string \<Rightarrow> json \<Rightarrow> json" where
  "dict_get d k missing = (case map_of d k of None \<Rightarrow> missing | Some v \<Rightarrow> v)"

definition strict_keys :: "jdict \<Rightarrow> string list \<Rightarrow> string \<Rightarrow> unit res" where
  "strict_keys d allowed location =
     (let unexpected = sort (remdups (filter (\<lambda>k. k \<notin> set allowed) (map fst d))) in
      raise_if (unexpected \<noteq> []) (ValidationError (''unknown '' @ location @ '' fields: '' @ join '', '' unexpected)))"

definition request_text :: "json \<Rightarrow> string \<Rightarrow> int \<Rightarrow> bool \<Rightarrow> string res" where
  "request_text value field maximum required =
     (case value of
        JStr s \<Rightarrow>
          let s = py_strip s in
          if required \<and> s = [] then Inl (ValidationError (field @ '' must not be empty''))
          else if int (length s) > maximum then Inl (ValidationError (field @ '' exceeds '' @ int_str maximum @ '' characters''))
          else Inr s
      | _ \<Rightarrow> Inl (ValidationError (field @ '' must be a string'')))"

definition request_texts :: "json list \<Rightarrow> string \<Rightarrow> int \<Rightarrow> string list res" where
  "request_texts items field maximum = res_map (\<lambda>v. request_text v field maximum True) items"

text \<open>\<^verbatim>\<open>_enum\<close>: the member whose value is the upper-cased text.\<close>

definition parse_enum :: "('e \<Rightarrow> string) \<Rightarrow> 'e list \<Rightarrow> json \<Rightarrow> string \<Rightarrow> 'e res" where
  "parse_enum value_of members value field =
     (case value of
        JStr s \<Rightarrow> (case find (\<lambda>e. value_of e = map to_upper s) members of
                     None \<Rightarrow> Inl (ValidationError (''invalid '' @ field)) | Some e \<Rightarrow> Inr e)
      | _ \<Rightarrow> Inl (ValidationError (field @ '' must be a string'')))"

definition all_tasks :: "task_type list" where
  "all_tasks = [OBSERVE, ANALYZE, PLAN, SUMMARIZE, CODE, EMBED, RERANK]"

definition all_risks :: "risk list" where
  "all_risks = [LOW, MEDIUM, HIGH, CRITICAL]"

definition all_urgencies :: "urgency list" where
  "all_urgencies = [ROUTINE, NORMAL, URGENT, EMERGENCY]"

definition cost_literal :: "string \<Rightarrow> bool" where
  "cost_literal s \<longleftrightarrow>
     (let whole = takeWhile is_digit s; rest = dropWhile is_digit s in
      whole \<noteq> [] \<and> (whole = ''0'' \<or> hd whole \<noteq> CHR ''0'') \<and>
      (rest = [] \<or> starts_with ''.'' rest \<and> list_all is_digit (tl rest) \<and> tl rest \<noteq> [] \<and> length (tl rest) \<le> 6))"

text \<open>\<^verbatim>\<open>0.0 <= float(number) <= 1.0\<close>; a bool is no number.\<close>

definition is_number :: "json \<Rightarrow> bool" where
  "is_number v \<longleftrightarrow> (case v of JInt _ \<Rightarrow> True | JFloat _ \<Rightarrow> True | _ \<Rightarrow> False)"

definition unit_number :: "json \<Rightarrow> string \<Rightarrow> flt res" where
  "unit_number v field =
     res_bind (raise_if (\<not> is_number v) (ValidationError (field @ '' must be a number''))) (\<lambda>_.
     res_bind (float_of v) (\<lambda>f.
     case f of
       Some x \<Rightarrow> if 0 \<le> fval x \<and> fval x \<le> 1 then Inr x else Inl (ValidationError (field @ '' must be between 0 and 1''))
     | None \<Rightarrow> Inl (ValidationError (field @ '' must be between 0 and 1''))))"

definition parse_bool :: "json \<Rightarrow> string \<Rightarrow> bool res" where
  "parse_bool v field = (case v of JBool b \<Rightarrow> Inr b | _ \<Rightarrow> Inl (ValidationError (field @ '' must be boolean'')))"

definition request_strings :: "json \<Rightarrow> string \<Rightarrow> int \<Rightarrow> json list res" where
  "request_strings v field maximum =
     (case v of
        JList xs \<Rightarrow> if int (length xs) > maximum
                    then Inl (ValidationError (field @ '' must contain at most '' @ int_str maximum @ '' strings'')) else Inr xs
      | _ \<Rightarrow> Inl (ValidationError (field @ '' must contain at most '' @ int_str maximum @ '' strings'')))"

section \<open>The request\<close>

definition parse_context :: "limits \<Rightarrow> json \<Rightarrow> prompt_context res" where
  "parse_context l value =
     (case value of
        JDict c \<Rightarrow>
          res_bind (strict_keys c [''instructions'', ''mission'', ''current_state'', ''relevant_memories'', ''tool_results''] ''context'') (\<lambda>_.
          res_bind (request_strings (dict_get c ''relevant_memories'' (JList [])) ''relevant_memories'' (lm_max_memories l)) (\<lambda>memories.
          res_bind (request_strings (dict_get c ''tool_results'' (JList [])) ''tool_results'' (lm_max_tool_results l)) (\<lambda>tools.
          let n = lm_max_section_chars l in
          res_bind (request_text (dict_get c ''instructions'' JNull) ''instructions'' n True) (\<lambda>instructions.
          res_bind (request_text (dict_get c ''mission'' JNull) ''mission'' n True) (\<lambda>mission.
          res_bind (request_text (dict_get c ''current_state'' (JStr [])) ''current_state'' n False) (\<lambda>current_state.
          res_bind (request_texts memories ''relevant_memory'' n) (\<lambda>memories.
          res_bind (request_texts tools ''tool_result'' n) (\<lambda>tools.
          let context = \<lparr>cx_instructions = instructions, cx_mission = mission, cx_current_state = current_state,
                         cx_relevant_memories = memories, cx_tool_results = tools\<rparr> in
          res_bind (raise_if (character_count context > lm_max_context_chars l)
                      (ValidationError ''minimal context character limit exceeded'')) (\<lambda>_.
          res_bind (raise_if (estimated_tokens context > lm_max_context_tokens l)
                      (ValidationError ''minimal context token limit exceeded'')) (\<lambda>_.
          Inr context))))))))))
      | _ \<Rightarrow> Inl (ValidationError ''context must be an object''))"

definition parse_cost :: "json \<Rightarrow> string option res" where
  "parse_cost v =
     (case v of
        JNull \<Rightarrow> Inr None
      | JStr s \<Rightarrow> if cost_literal s then Inr (Some s)
                  else Inl (ValidationError ''requested_max_cost_usd must be a non-negative decimal string'')
      | _ \<Rightarrow> Inl (ValidationError ''requested_max_cost_usd must be a non-negative decimal string''))"

definition REQUEST_FIELDS :: "string list" where
  "REQUEST_FIELDS =
     [''mission_id'', ''project_id'', ''task_type'', ''risk'', ''complexity'', ''impact'', ''confidence'', ''urgency'',
      ''deterministic_available'', ''context'', ''remote_allowed'', ''requested_max_cost_usd'']"

definition parse_route_request :: "limits \<Rightarrow> json \<Rightarrow> model_request res" where
  "parse_route_request l payload =
     (case payload of
        JDict d \<Rightarrow>
          res_bind (strict_keys d REQUEST_FIELDS ''request'') (\<lambda>_.
          res_bind (request_text (dict_get d ''mission_id'' JNull) ''mission_id'' 128 True) (\<lambda>mission_id.
          res_bind (request_text (dict_get d ''project_id'' JNull) ''project_id'' 128 True) (\<lambda>project_id.
          res_bind (raise_if (\<not> safe_identifier mission_id \<or> \<not> safe_identifier project_id)
                      (ValidationError ''mission_id and project_id must be safe identifiers'')) (\<lambda>_.
          res_bind (unit_number (dict_get d ''complexity'' JNull) ''complexity'') (\<lambda>complexity.
          res_bind (unit_number (dict_get d ''impact'' JNull) ''impact'') (\<lambda>impact.
          res_bind (unit_number (dict_get d ''confidence'' JNull) ''confidence'') (\<lambda>confidence.
          res_bind (parse_bool (dict_get d ''deterministic_available'' JNull) ''deterministic_available'') (\<lambda>deterministic.
          res_bind (parse_bool (dict_get d ''remote_allowed'' (JBool False)) ''remote_allowed'') (\<lambda>remote.
          res_bind (parse_context l (dict_get d ''context'' JNull)) (\<lambda>context.
          res_bind (parse_cost (dict_get d ''requested_max_cost_usd'' JNull)) (\<lambda>cost.
          res_bind (parse_enum task_value all_tasks (dict_get d ''task_type'' JNull) ''task_type'') (\<lambda>task.
          res_bind (parse_enum risk_value all_risks (dict_get d ''risk'' JNull) ''risk'') (\<lambda>risk.
          res_bind (parse_enum urgency_value all_urgencies (dict_get d ''urgency'' (JStr ''NORMAL'')) ''urgency'') (\<lambda>urgency.
          Inr \<lparr>rq_mission_id = mission_id, rq_project_id = project_id, rq_task_type = task, rq_risk = risk,
               rq_complexity = complexity, rq_impact = impact, rq_confidence = confidence, rq_urgency = urgency,
               rq_deterministic_available = deterministic, rq_remote_allowed = remote, rq_context = context,
               rq_requested_max_cost_usd = cost, rq_verification_mode = False\<rparr>))))))))))))))
      | _ \<Rightarrow> Inl (ValidationError ''request must be an object''))"

definition route :: "orchestrator \<Rightarrow> json \<Rightarrow> route_decision oop" where
  "route oc payload = op_bind (op_lift (parse_route_request (oc_limits oc) payload)) (route_request oc)"

section \<open>Authorization (api.py)\<close>

record route_grant =
  rg_username :: string
  rg_projects :: "string list"
  rg_remote_allowed :: bool

definition find_grant :: "(string \<times> route_grant) list \<Rightarrow> string \<Rightarrow> string \<Rightarrow> route_grant option" where
  "find_grant grants username project_id =
     (case map_of grants username of
        None \<Rightarrow> None
      | Some g \<Rightarrow> if project_id \<in> set (rg_projects g) then Some g else None)"

definition authorize_project :: "(string \<times> route_grant) list \<Rightarrow> string \<Rightarrow> json \<Rightarrow> route_grant res" where
  "authorize_project grants username project_id =
     (case project_id of
        JStr p \<Rightarrow> (case find_grant grants username p of None \<Rightarrow> Inl (OtherError ''AccessDenied'') | Some g \<Rightarrow> Inr g)
      | _ \<Rightarrow> Inl (ValidationError ''project_id must be a string''))"

text \<open>A caller may opt out of remote processing, never in.\<close>

definition authorized_route_payload :: "(string \<times> route_grant) list \<Rightarrow> string \<Rightarrow> json \<Rightarrow> json res" where
  "authorized_route_payload grants username payload =
     (case payload of
        JDict d \<Rightarrow>
          res_bind (authorize_project grants username (dict_get d ''project_id'' JNull)) (\<lambda>grant.
          res_bind (parse_bool (dict_get d ''remote_allowed'' (JBool False)) ''remote_allowed'') (\<lambda>requested.
          Inr (JDict (dict_set ''remote_allowed'' (JBool (requested \<and> rg_remote_allowed grant)) d))))
      | _ \<Rightarrow> Inl (ValidationError ''request must be an object''))"

definition post_route :: "orchestrator \<Rightarrow> (string \<times> route_grant) list \<Rightarrow> string \<Rightarrow> json \<Rightarrow> route_decision oop" where
  "post_route oc grants username payload = op_bind (op_lift (authorized_route_payload grants username payload)) (route oc)"

end
