(* ===== verification/Sample_Orchestrator.thy ===== *)
theory Sample_Orchestrator
  imports Orch_Parse
begin

text \<open>
  A small orchestrator on which the properties are evaluated: one deployment per chat role, all remote,
  on two accounts and two model families, with prices of one and two dollars per million tokens. Every
  call answers with a confident result, and verifiers agree.
\<close>

definition sample_limits :: limits where
  "sample_limits = \<lparr>lm_max_section_chars = 4096, lm_max_context_chars = 16384, lm_max_context_tokens = 4096, lm_max_memories = 8,
     lm_max_tool_results = 8, lm_max_iterations = 4, lm_max_provider_calls = 3, lm_max_output_tokens = 512\<rparr>"

definition sample_thresholds :: thresholds where
  "sample_thresholds = \<lparr>th_high_confidence = 3 / 4, th_medium_confidence = 1 / 2, th_simple_complexity = 1 / 4,
     th_complex_complexity = 3 / 4, th_minimum_provider_confidence = 1 / 2\<rparr>"

definition sample_budget :: budget_limits where
  "sample_budget = \<lparr>bl_daily_calls = 10, bl_monthly_calls = 100, bl_daily_tokens = 100000, bl_monthly_tokens = 1000000,
     bl_daily_cost = 1000000, bl_monthly_cost = 5000000, bl_mission_cost = 500000\<rparr>"

definition sample_account :: "string \<Rightarrow> account_budget" where
  "sample_account a = \<lparr>ab_account_id = a, ab_daily_calls = 10, ab_monthly_calls = 100, ab_daily_tokens = 100000,
     ab_monthly_tokens = 1000000, ab_daily_cost = 1000000, ab_monthly_cost = 5000000, ab_task_calls = 4, ab_task_tokens = 50000,
     ab_task_cost = 200000\<rparr>"

definition sample_provider :: "string \<Rightarrow> role \<Rightarrow> string \<Rightarrow> string \<Rightarrow> provider_config" where
  "sample_provider i r account family = \<lparr>pc_provider_id = i, pc_account_id = Some account, pc_capability_profile = ''strong'',
     pc_role = r, pc_kind = ''openai_chat'', pc_location = ''remote'', pc_model = Some ''m1'', pc_model_env = None,
     pc_input_price = None, pc_input_price_env = None, pc_output_price = None, pc_output_price_env = None,
     pc_price_tiers = [\<lparr>pt_max_input_tokens = 100000, pt_input_price = 1000000, pt_output_price = 2000000\<rparr>],
     pc_chat_family = Some family, pc_budget = sample_budget\<rparr>"

definition sample_providers :: "role \<Rightarrow> provider_config list" where
  "sample_providers r =
     (case r of LOCAL_OPS \<Rightarrow> [sample_provider ''p-ops'' LOCAL_OPS ''acc-a'' ''fam-a'']
      | REASONING \<Rightarrow> [sample_provider ''p-expert'' REASONING ''acc-a'' ''fam-a'']
      | PREMIUM \<Rightarrow> [sample_provider ''p-premium'' PREMIUM ''acc-b'' ''fam-b''] | _ \<Rightarrow> [])"

definition sample_answer :: "model_request \<Rightarrow> provider_result" where
  "sample_answer rq = \<lparr>pv_status = ''ok'', pv_confidence = Flt (3 / 4), pv_summary = ''done'', pv_plan = [], pv_proposal = None,
     pv_input_tokens = 100, pv_output_tokens = 50, pv_raw_usage_known = True,
     pv_verification = (if rq_verification_mode rq then Some ''agree'' else None)\<rparr>"

definition sample_profile :: "(string \<times> int) list" where
  "sample_profile = [(''instructions'', 10), (''reliability'', 10), (''general'', 10), (''factuality'', 10), (''reasoning'', 10),
     (''code'', 10), (''tools'', 10), (''agentic'', 10), (''multilingual'', 10), (''speed'', 10)]"

definition sample_orchestrator :: orchestrator where
  "sample_orchestrator = \<lparr>oc_limits = sample_limits, oc_thresholds = sample_thresholds,
     oc_account_budgets = [(''acc-a'', sample_account ''acc-a''), (''acc-b'', sample_account ''acc-b'')],
     oc_providers = sample_providers, oc_environment = Map.empty, oc_profiles = [(''strong'', sample_profile)],
     oc_available = (\<lambda>_ _. (True, ''configured'')), oc_invoke = (\<lambda>_ _ rq _. Inr (sample_answer rq)), oc_lock = (\<lambda>_. True),
     oc_sha256 = (\<lambda>bytes. map (\<lambda>_. CHR ''f'') (take 64 bytes)), oc_frepr = (\<lambda>_. ''0.5''), oc_elapsed_ms = (\<lambda>a b. (b - a) div 1000)\<rparr>"

definition sample_context :: prompt_context where
  "sample_context = \<lparr>cx_instructions = ''check'', cx_mission = ''why'', cx_current_state = [], cx_relevant_memories = [], cx_tool_results = []\<rparr>"

definition sample_request :: "risk \<Rightarrow> model_request" where
  "sample_request r = \<lparr>rq_mission_id = ''m-1'', rq_project_id = ''infra'', rq_task_type = ANALYZE, rq_risk = r, rq_complexity = Flt (1 / 2),
     rq_impact = Flt (1 / 2), rq_confidence = Flt (5 / 8), rq_urgency = NORMAL, rq_deterministic_available = False, rq_remote_allowed = True,
     rq_context = sample_context, rq_requested_max_cost_usd = None, rq_verification_mode = False\<rparr>"

definition empty_odb :: odb where
  "empty_odb = \<lparr>od_usage = [], od_trace = [], od_runs = [], od_counters = [], od_validations = [], od_scores = []\<rparr>"

definition orch_clock :: "nat \<Rightarrow> instant" where
  "orch_clock n = seconds (63000000000 + int n)"

definition orch_uuid :: "nat \<Rightarrow> string" where
  "orch_uuid n = ''00000000-0000-4000-8000-00000000'' @ hex_pad 4 (int n)"

definition sample_oworld :: "odb \<Rightarrow> oworld" where
  "sample_oworld d = \<lparr>w_db = d, w_clock = orch_clock, w_ticks = 0, w_uuids = orch_uuid, w_drawn = 0, ow_monotonic = (\<lambda>_. 0),
     ow_reads = 0, ow_probes = 0, ow_calls = [], ow_lock_attempts = 0, ow_lock_held = False\<rparr>"

end
