(* ===== verification/Op_Logic.thy ===== *)
theory Op_Logic
  imports Py_Op
begin

text \<open>
  Five ways to reason about a handler without running it, each a set of rules over its statements.
  \<open>yields Q m\<close>: whatever \<open>m\<close> returns satisfies \<open>Q\<close>. \<open>changes R m\<close>: the worlds before and after \<open>m\<close> are
  related by \<open>R\<close>, whichever way it ends; the locale \<open>world_evolution\<close> proves it for relations that are
  reflexive, transitive and survive a rollback. \<open>returns I m\<close>: from a world that satisfies \<open>I\<close>, \<open>m\<close> does
  not raise, and \<open>I\<close> holds again afterwards. \<open>hoare P m Q E\<close> relates the world before to the value and the
  world after; \<open>holds I V m\<close> is the case in which an invariant is kept and \<open>V\<close> is known of the value.
\<close>

section \<open>What a handler returns\<close>

definition yields :: "('a \<Rightarrow> bool) \<Rightarrow> ('w \<Rightarrow> 'a res \<times> 'w) \<Rightarrow> bool" where
  "yields Q m \<longleftrightarrow> (\<forall>w x w'. m w = (Inr x, w') \<longrightarrow> Q x)"

lemma yieldsD: "yields Q m \<Longrightarrow> m w = (Inr x, w') \<Longrightarrow> Q x"
  by (auto simp: yields_def)

lemma yields_ret: "Q x \<Longrightarrow> yields Q (op_ret x)"
  by (simp add: yields_def op_ret_def)

lemma yields_raise: "yields Q (op_raise e)"
  by (simp add: yields_def op_raise_def)

lemma yields_any: "yields (\<lambda>_. True) m"
  by (simp add: yields_def)

lemma yields_bind: "(\<And>x. yields Q (f x)) \<Longrightarrow> yields Q (op_bind m f)"
  by (auto simp: yields_def op_bind_Inr)

lemma yields_bind_value: "yields P m \<Longrightarrow> (\<And>x. P x \<Longrightarrow> yields Q (f x)) \<Longrightarrow> yields Q (op_bind m f)"
  unfolding yields_def op_bind_Inr by blast

lemma yields_if: "(c \<Longrightarrow> yields Q a) \<Longrightarrow> (\<not> c \<Longrightarrow> yields Q b) \<Longrightarrow> yields Q (if c then a else b)"
  by simp

lemma yields_prod: "(\<And>x y. z = (x, y) \<Longrightarrow> yields Q (b x y)) \<Longrightarrow> yields Q (case z of (x, y) \<Rightarrow> b x y)"
  by (cases z) simp

lemma yields_sum:
  "(\<And>x. z = Inl x \<Longrightarrow> yields Q (a x)) \<Longrightarrow> (\<And>x. z = Inr x \<Longrightarrow> yields Q (b x)) \<Longrightarrow> yields Q (case z of Inl x \<Rightarrow> a x | Inr x \<Rightarrow> b x)"
  by (cases z) simp_all

lemma yields_option:
  "(z = None \<Longrightarrow> yields Q a) \<Longrightarrow> (\<And>x. z = Some x \<Longrightarrow> yields Q (b x)) \<Longrightarrow> yields Q (case z of None \<Rightarrow> a | Some x \<Rightarrow> b x)"
  by (cases z) simp_all

lemma yields_query: "(\<And>d. yields Q (f (q d))) \<Longrightarrow> yields Q (op_bind (op_query q) f)"
  by (auto simp: yields_def op_bind_Inr op_query_Inr)

lemma yields_mono: "yields P m \<Longrightarrow> (\<And>x. P x \<Longrightarrow> Q x) \<Longrightarrow> yields Q m"
  by (auto simp: yields_def)

section \<open>How a handler changes the world\<close>

definition changes :: "('w \<Rightarrow> 'w \<Rightarrow> bool) \<Rightarrow> ('w \<Rightarrow> 'a res \<times> 'w) \<Rightarrow> bool" where
  "changes R m \<longleftrightarrow> (\<forall>w. R w (snd (m w)))"

locale world_evolution =
  fixes R :: "('d, 'z) pworld_scheme \<Rightarrow> ('d, 'z) pworld_scheme \<Rightarrow> bool"
  assumes refl: "R w w"
    and trans: "R a b \<Longrightarrow> R b c \<Longrightarrow> R a c"
    and rollback: "R a b \<Longrightarrow> R a (b\<lparr>w_db := w_db a\<rparr>)"
    and tick: "R w (w\<lparr>w_ticks := Suc (w_ticks w)\<rparr>)"
    and draw: "R w (w\<lparr>w_drawn := Suc (w_drawn w)\<rparr>)"
begin

lemma ch_ret: "changes R (op_ret x)"
  by (simp add: changes_def op_ret_def refl)

lemma ch_raise: "changes R (op_raise e)"
  by (simp add: changes_def op_raise_def refl)

lemma ch_lift: "changes R (op_lift r)"
  by (simp add: changes_def op_lift_def refl)

lemma ch_raise_if: "changes R (op_raise_if c e)"
  by (simp add: op_raise_if_def ch_lift)

lemma ch_query: "changes R (op_query f)"
  by (simp add: changes_def op_query_def refl)

lemma ch_now: "changes R op_now"
  by (simp add: changes_def op_now_def tick)

lemma ch_uuid4: "changes R op_uuid4"
  by (simp add: changes_def op_uuid4_def draw)

lemma ch_bind: "changes R m \<Longrightarrow> (\<And>x. changes R (f x)) \<Longrightarrow> changes R (op_bind m f)"
  unfolding changes_def op_bind_def by (auto split: prod.splits sum.splits) (metis trans snd_conv)+

lemma ch_transaction: "changes R m \<Longrightarrow> changes R (transaction m)"
  unfolding changes_def transaction_def by (auto split: prod.splits sum.splits) (metis rollback snd_conv)+

lemma ch_catch: "changes R m \<Longrightarrow> (\<And>e. changes R (h e)) \<Longrightarrow> changes R (op_catch m P h)"
  unfolding changes_def op_catch_def by (auto split: prod.splits sum.splits) (metis trans snd_conv)+

lemma ch_iter: "(\<And>x. changes R (f x)) \<Longrightarrow> changes R (op_iter f xs)"
  by (induction xs) (simp_all add: ch_ret ch_bind)

lemma ch_if: "changes R a \<Longrightarrow> changes R b \<Longrightarrow> changes R (if c then a else b)"
  by simp

lemma ch_option: "changes R a \<Longrightarrow> (\<And>x. changes R (b x)) \<Longrightarrow> changes R (case z of None \<Rightarrow> a | Some x \<Rightarrow> b x)"
  by (cases z) auto

lemma ch_prod: "(\<And>x y. changes R (b x y)) \<Longrightarrow> changes R (case z of (x, y) \<Rightarrow> b x y)"
  by (cases z) auto

lemma ch_sum: "(\<And>x. changes R (a x)) \<Longrightarrow> (\<And>x. changes R (b x)) \<Longrightarrow> changes R (case z of Inl x \<Rightarrow> a x | Inr x \<Rightarrow> b x)"
  by (cases z) auto

lemmas ch_rules = ch_catch ch_ret ch_raise ch_lift ch_raise_if ch_query ch_now ch_uuid4 ch_transaction ch_iter ch_if ch_option
  ch_prod ch_sum ch_bind

end

section \<open>That a handler returns\<close>

definition returns :: "('w \<Rightarrow> bool) \<Rightarrow> ('w \<Rightarrow> 'a res \<times> 'w) \<Rightarrow> bool" where
  "returns I m \<longleftrightarrow> (\<forall>w. I w \<longrightarrow> (\<exists>x w'. m w = (Inr x, w') \<and> I w'))"

lemma returnsD: "returns I m \<Longrightarrow> I w \<Longrightarrow> \<exists>x w'. m w = (Inr x, w') \<and> I w'"
  by (simp add: returns_def)

lemma rt_ret: "returns I (op_ret x)"
  by (simp add: returns_def op_ret_def)

lemma rt_lift: "is_ok r \<Longrightarrow> returns I (op_lift r)"
  by (auto simp: returns_def op_lift_def)

lemma rt_raise_if: "\<not> c \<Longrightarrow> returns I (op_raise_if c e)"
  by (simp add: returns_def op_raise_if_def op_lift_def)

lemma rt_query: "returns I (op_query f)"
  by (simp add: returns_def op_query_def)

lemma rt_bind: "returns I m \<Longrightarrow> (\<And>x. returns I (f x)) \<Longrightarrow> returns I (op_bind m f)"
  unfolding returns_def op_bind_def by fastforce

text \<open>With what is known of the value: that \<open>m\<close> yields only values satisfying \<open>P\<close>.\<close>

lemma rt_bind_value: "returns I m \<Longrightarrow> yields P m \<Longrightarrow> (\<And>x. P x \<Longrightarrow> returns I (f x)) \<Longrightarrow> returns I (op_bind m f)"
  unfolding returns_def yields_def op_bind_def by fastforce

lemma rt_bind_lift: "r = Inr x \<Longrightarrow> returns I (f x) \<Longrightarrow> returns I (op_bind (op_lift r) f)"
  by (simp add: returns_def op_bind_def op_lift_def)

lemma rt_transaction: "returns I m \<Longrightarrow> returns I (transaction m)"
  unfolding returns_def by (metis transaction_run)

lemma rt_if: "(c \<Longrightarrow> returns I a) \<Longrightarrow> (\<not> c \<Longrightarrow> returns I b) \<Longrightarrow> returns I (if c then a else b)"
  by simp

lemma rt_option: "(z = None \<Longrightarrow> returns I a) \<Longrightarrow> (\<And>x. z = Some x \<Longrightarrow> returns I (b x)) \<Longrightarrow> returns I (case z of None \<Rightarrow> a | Some x \<Rightarrow> b x)"
  by (cases z) auto

section \<open>Before and after\<close>

text \<open>
  \<open>hoare P m Q E\<close>: from a world that satisfies \<open>P\<close>, \<open>m\<close> either returns a value and a world that satisfy
  \<open>Q\<close> or raises in a world that satisfies \<open>E\<close>.
\<close>

definition hoare :: "('w \<Rightarrow> bool) \<Rightarrow> ('w \<Rightarrow> 'a res \<times> 'w) \<Rightarrow> ('a \<Rightarrow> 'w \<Rightarrow> bool) \<Rightarrow> ('w \<Rightarrow> bool) \<Rightarrow> bool" where
  "hoare P m Q E \<longleftrightarrow> (\<forall>w. P w \<longrightarrow> (case m w of (Inr x, w') \<Rightarrow> Q x w' | (Inl e, w') \<Rightarrow> E w'))"

lemma hoareI:
  "(\<And>w x w'. P w \<Longrightarrow> m w = (Inr x, w') \<Longrightarrow> Q x w') \<Longrightarrow> (\<And>w e w'. P w \<Longrightarrow> m w = (Inl e, w') \<Longrightarrow> E w') \<Longrightarrow> hoare P m Q E"
  unfolding hoare_def by (auto split: prod.splits sum.splits)

lemma hoare_Inr: "hoare P m Q E \<Longrightarrow> P w \<Longrightarrow> m w = (Inr x, w') \<Longrightarrow> Q x w'"
  unfolding hoare_def by fastforce

lemma hoare_Inl: "hoare P m Q E \<Longrightarrow> P w \<Longrightarrow> m w = (Inl e, w') \<Longrightarrow> E w'"
  unfolding hoare_def by fastforce

lemma h_conseq: "hoare P m Q E \<Longrightarrow> (\<And>w. P' w \<Longrightarrow> P w) \<Longrightarrow> (\<And>x w. Q x w \<Longrightarrow> Q' x w) \<Longrightarrow> (\<And>w. E w \<Longrightarrow> E' w) \<Longrightarrow> hoare P' m Q' E'"
  by (rule hoareI) (blast dest: hoare_Inr hoare_Inl)+

lemma h_bind: "hoare P m Q E \<Longrightarrow> (\<And>x. hoare (Q x) (f x) S E) \<Longrightarrow> hoare P (op_bind m f) S E"
  by (rule hoareI) (auto simp: op_bind_Inr op_bind_Inl dest: hoare_Inr hoare_Inl)

lemma h_ret: "(\<And>w. P w \<Longrightarrow> Q x w) \<Longrightarrow> hoare P (op_ret x) Q E"
  by (simp add: hoare_def op_ret_def)

lemma h_raise: "(\<And>w. P w \<Longrightarrow> E w) \<Longrightarrow> hoare P (op_raise e) Q E"
  by (simp add: hoare_def op_raise_def)

lemma h_if: "(c \<Longrightarrow> hoare P a Q E) \<Longrightarrow> (\<not> c \<Longrightarrow> hoare P b Q E) \<Longrightarrow> hoare P (if c then a else b) Q E"
  by simp

lemma h_false: "(\<And>w. \<not> P w) \<Longrightarrow> hoare P m Q E"
  by (simp add: hoare_def)

section \<open>An invariant, and what is returned under it\<close>

definition holds :: "('w \<Rightarrow> bool) \<Rightarrow> ('w \<Rightarrow> 'a \<Rightarrow> bool) \<Rightarrow> ('w \<Rightarrow> 'a res \<times> 'w) \<Rightarrow> bool" where
  "holds I V m \<longleftrightarrow> hoare I m (\<lambda>x w. I w \<and> V w x) I"

abbreviation keeps_inv :: "('w \<Rightarrow> bool) \<Rightarrow> ('w \<Rightarrow> 'a res \<times> 'w) \<Rightarrow> bool" where
  "keeps_inv I m \<equiv> holds I (\<lambda>_ _. True) m"

lemma holdsI: "(\<And>w r w'. I w \<Longrightarrow> m w = (r, w') \<Longrightarrow> I w' \<and> (\<forall>x. r = Inr x \<longrightarrow> V w' x)) \<Longrightarrow> holds I V m"
  unfolding holds_def by (rule hoareI) blast+

lemma holdsD: "holds I V m \<Longrightarrow> I w \<Longrightarrow> m w = (r, w') \<Longrightarrow> I w' \<and> (\<forall>x. r = Inr x \<longrightarrow> V w' x)"
  unfolding holds_def by (cases r) (auto dest: hoare_Inr hoare_Inl)

lemma holds_snd: "holds I V m \<Longrightarrow> I w \<Longrightarrow> I (snd (m w))"
  by (metis holdsD prod.collapse)

lemma holds_mono: "holds I V m \<Longrightarrow> (\<And>w x. I w \<Longrightarrow> V w x \<Longrightarrow> V' w x) \<Longrightarrow> holds I V' m"
  by (rule holdsI) (blast dest: holdsD)

lemma holds_keeps: "holds I V m \<Longrightarrow> keeps_inv I m"
  by (erule holds_mono) simp

lemma holds_ret: "(\<And>w. I w \<Longrightarrow> V w x) \<Longrightarrow> holds I V (op_ret x)"
  by (rule holdsI) (auto simp: op_ret_def)

lemma holds_raise: "holds I V (op_raise e)"
  by (rule holdsI) (auto simp: op_raise_def)

lemma holds_lift: "(\<And>w x. I w \<Longrightarrow> r = Inr x \<Longrightarrow> V w x) \<Longrightarrow> holds I V (op_lift r)"
  by (rule holdsI) (auto simp: op_lift_def)

lemma holds_query: "(\<And>w. I w \<Longrightarrow> V w (q (w_db w))) \<Longrightarrow> holds I V (op_query q)"
  by (rule holdsI) (auto simp: op_query_def)

lemma holds_value: "holds I (\<lambda>_. U) m \<Longrightarrow> (\<And>x. U x \<Longrightarrow> holds I V (f x)) \<Longrightarrow> holds I V (op_bind m f)"
  by (rule holdsI) (auto simp: op_bind_def split: prod.splits sum.splits dest!: holdsD)

lemma holds_skip: "keeps_inv I m \<Longrightarrow> (\<And>x. holds I V (f x)) \<Longrightarrow> holds I V (op_bind m f)"
  by (rule holds_value)

lemma holds_bind_lift: "(\<And>x. r = Inr x \<Longrightarrow> holds I V (f x)) \<Longrightarrow> holds I V (op_bind (op_lift r) f)"
  by (rule holdsI) (cases r, auto simp: op_bind_def op_lift_def dest: holdsD)

lemma holds_if: "(c \<Longrightarrow> holds I V a) \<Longrightarrow> (\<not> c \<Longrightarrow> holds I V b) \<Longrightarrow> holds I V (if c then a else b)"
  by simp

lemma holds_option:
  "(z = None \<Longrightarrow> holds I V a) \<Longrightarrow> (\<And>x. z = Some x \<Longrightarrow> holds I V (b x)) \<Longrightarrow> holds I V (case z of None \<Rightarrow> a | Some x \<Rightarrow> b x)"
  by (cases z) simp_all

lemma holds_prod: "(\<And>x y. z = (x, y) \<Longrightarrow> holds I V (b x y)) \<Longrightarrow> holds I V (case z of (x, y) \<Rightarrow> b x y)"
  by (cases z) simp

lemma holds_sum:
  "(\<And>x. z = Inl x \<Longrightarrow> holds I V (a x)) \<Longrightarrow> (\<And>x. z = Inr x \<Longrightarrow> holds I V (b x)) \<Longrightarrow> holds I V (case z of Inl x \<Rightarrow> a x | Inr x \<Rightarrow> b x)"
  by (cases z) simp_all

text \<open>An evolution of the database that an invariant survives keeps the invariant.\<close>

lemma holds_evolves: "evolves R m \<Longrightarrow> (\<And>w w'. I w \<Longrightarrow> R (w_db w) (w_db w') \<Longrightarrow> I w') \<Longrightarrow> keeps_inv I m"
  by (rule holdsI) (metis evolves_def snd_conv)

lemmas holds_rules = holds_ret holds_raise holds_if holds_option holds_prod holds_sum

end
