(* ===== verification/Route_Safety.thy ===== *)
theory Route_Safety
  imports Sample_Orchestrator Op_Logic
begin

text \<open>
  Which calls a route makes: every call of a provider is paid for by a reservation of its own, there are
  at most as many as the configuration allows, and none leaves the host unless the request and the
  caller's grant allow it.
\<close>

section \<open>Calls and reservations\<close>

text \<open>The provider calls and the reservations made since the world \<open>w0\<close>.\<close>

definition new_calls :: "oworld \<Rightarrow> oworld \<Rightarrow> (provider_config \<times> model_request \<times> int) list" where
  "new_calls w0 w = drop (length (ow_calls w0)) (ow_calls w)"

definition made :: "oworld \<Rightarrow> oworld \<Rightarrow> int" where
  "made w0 w = int (length (ow_calls w)) - int (length (ow_calls w0))"

definition reserved :: "oworld \<Rightarrow> oworld \<Rightarrow> int" where
  "reserved w0 w = int (length (od_usage (w_db w))) - int (length (od_usage (w_db w0)))"

abbreviation account :: "oworld \<Rightarrow> int \<Rightarrow> int \<Rightarrow> oworld \<Rightarrow> bool" where
  "account w0 k j w \<equiv> made w0 w = k \<and> reserved w0 w = j"

text \<open>A route that ends with an exception may have made a reservation it did not use.\<close>

definition within_calls :: "orchestrator \<Rightarrow> oworld \<Rightarrow> oworld \<Rightarrow> bool" where
  "within_calls oc w0 w \<longleftrightarrow>
     made w0 w \<le> reserved w0 w \<and> reserved w0 w \<le> made w0 w + 1 \<and> reserved w0 w \<le> max 0 (lm_max_provider_calls (oc_limits oc))"

text \<open>Statements that neither call a provider nor add a reservation.\<close>

definition no_call :: "oworld \<Rightarrow> oworld \<Rightarrow> bool" where
  "no_call a b \<longleftrightarrow> ow_calls b = ow_calls a \<and> length (od_usage (w_db b)) = length (od_usage (w_db a))"

interpretation nc: world_evolution no_call
  by unfold_locales (auto simp: no_call_def)

lemma nc_exec: "(\<And>d. length (od_usage (g d)) = length (od_usage d)) \<Longrightarrow> changes no_call (op_exec g)"
  by (simp add: changes_def no_call_def op_exec_def)

lemma nc_monotonic: "changes no_call op_monotonic"
  by (simp add: changes_def no_call_def op_monotonic_def)

lemma nc_available: "changes no_call (op_available oc p)"
  by (simp add: changes_def no_call_def op_available_def)

lemma nc_acquire: "changes no_call (op_acquire oc)"
  by (simp add: changes_def no_call_def op_acquire_def Let_def)

lemma nc_release: "changes no_call op_release"
  by (simp add: changes_def no_call_def op_release_def)

lemma nc_when: "changes no_call m \<Longrightarrow> changes no_call (op_when c m)"
  by (simp add: op_when_def nc.ch_ret)

lemma nc_try: "changes no_call m \<Longrightarrow> changes no_call (op_try m)"
  by (auto simp: changes_def op_try_def split: prod.splits) (metis snd_conv)

named_theorems nc_intros "handlers without calls"
lemmas [nc_intros] = nc.ch_rules nc_monotonic nc_available nc_acquire nc_release nc_when nc_try

lemma nc_increment [nc_intros]: "changes no_call (increment m l n)"
  unfolding increment_def by (intro nc_intros nc_exec) (simp add: bump_def)

lemma nc_trace [nc_intros]: "changes no_call (trace_append oc f)"
  unfolding trace_append_def Let_def by (intro nc_intros nc_exec) simp

lemma nc_start [nc_intros]: "changes no_call (start_run i rq r t)"
  unfolding start_run_def by (intro nc_intros nc_exec) simp

lemma nc_finish_run [nc_intros]: "changes no_call (finish_run i s r n a b)"
  unfolding finish_run_def by (intro nc_intros nc_exec) simp

lemma nc_audit [nc_intros]: "changes no_call (record_adaptive_score_audit i t r xs)"
  unfolding record_adaptive_score_audit_def insert_score_def by (intro nc_intros nc_exec) simp

lemma nc_settle: "changes no_call (settle i b f)"
  unfolding settle_def by (intro nc_intros nc_exec) (simp add: update_where_def)

lemma nc_complete [nc_intros]: "changes no_call (complete rv i j ps)"
  unfolding complete_def by (intro nc_intros nc_settle)

lemma nc_uncertain [nc_intros]: "changes no_call (mark_uncertain rv c i j ps)"
  unfolding mark_uncertain_def Let_def by (intro nc_intros nc_settle)

lemma nc_mark_failed [nc_intros]: "changes no_call (mark_failed rv f)"
  unfolding mark_failed_def by (intro nc_intros)

lemma nc_blocked [nc_intros]: "changes no_call (budget_blocked oc rq i r p m a b c)"
  unfolding budget_blocked_def by (intro nc_intros)

lemma nc_order [nc_intros]: "changes no_call (audit_order oc i rq u cs)"
  unfolding audit_order_def Let_def by (intro nc_intros)

lemma nc_rank [nc_intros]: "changes no_call (rank_providers oc i r rq n ps)"
  by (induction ps arbitrary: n) (simp_all add: nc.ch_ret nc_intros)

lemma nc_providers [nc_intros]: "changes no_call (providers_by_estimated_cost oc i r ps rq)"
  unfolding providers_by_estimated_cost_def by (intro nc_intros)

lemma nc_rank_verifiers [nc_intros]: "changes no_call (rank_verifiers oc i rq x n ps)"
proof (induction ps arbitrary: n)
  case (Cons rp ps)
  then show ?case by (cases rp) (simp add: nc_intros)
qed (simp add: nc.ch_ret)

lemma nc_candidates [nc_intros]: "changes no_call (verification_candidates oc i rq x)"
  unfolding verification_candidates_def by (intro nc_intros)

lemma nc_failure [nc_intros]: "changes no_call (verification_failure oc i rq s t v m c y)"
  unfolding verification_failure_def by (intro nc_intros)

lemma nc_early [nc_intros]: "changes no_call (early_failure oc i rq s t)"
  unfolding early_failure_def by (intro nc_intros)

lemma nc_verdict [nc_intros]: "changes no_call (verdict oc i rq x r p m result c)"
  unfolding verdict_def by (intro nc_intros)

lemma nc_finish [nc_intros]: "changes no_call (finish t s d)"
  unfolding finish_def Let_def by (intro nc_intros)

lemma nc_escalation [nc_intros]: "changes no_call (human_escalation oc i t rq s b x v)"
  unfolding human_escalation_def Let_def by (intro nc_intros)

lemma nc_successful [nc_intros]: "changes no_call (successful_decision oc i rq r p m result t b n x v)"
  unfolding successful_decision_def Let_def by (intro nc_intros)

lemma nc_model_failure [nc_intros]: "changes no_call (model_failure oc xc r p m t st)"
  unfolding model_failure_def by (intro nc_intros)

lemma nc_enter [nc_intros]: "changes no_call (enter_role oc xc r st)"
  unfolding enter_role_def by (intro nc_intros)

lemma nc_deterministic [nc_intros]: "changes no_call (deterministic_decision oc i t rq pl)"
  unfolding deterministic_decision_def Let_def by (intro nc_intros)

section \<open>Counting\<close>

abbreviation fits :: "orchestrator \<Rightarrow> int \<Rightarrow> int \<Rightarrow> bool" where
  "fits oc k j \<equiv> k \<le> j \<and> j \<le> k + 1 \<and> j \<le> max 0 (lm_max_provider_calls (oc_limits oc))"

definition settled :: "orchestrator \<Rightarrow> oworld \<Rightarrow> oworld \<Rightarrow> bool" where
  "settled oc w0 w \<longleftrightarrow> made w0 w = reserved w0 w \<and> reserved w0 w \<le> max 0 (lm_max_provider_calls (oc_limits oc))"

lemma account_keeps: "no_call a b \<Longrightarrow> account w0 k j a \<Longrightarrow> account w0 k j b"
  by (simp add: no_call_def made_def reserved_def)

lemma h_keep: "changes no_call m \<Longrightarrow> fits oc k j \<Longrightarrow> hoare (account w0 k j) m (\<lambda>_. account w0 k j) (within_calls oc w0)"
proof (rule hoareI)
  fix w r w'
  assume m: "changes no_call m" and w: "account w0 k j w" and "fits oc k j"
  have step: "account w0 k j w'" if "m w = (r, w')" for r :: "'a res" and w'
    using m w that account_keeps by (metis changes_def snd_conv)
  show "m w = (Inr x, w') \<Longrightarrow> account w0 k j w'" for x w' by (rule step)
  show "m w = (Inl e, w') \<Longrightarrow> within_calls oc w0 w'" for e w'
    using step \<open>fits oc k j\<close> by (simp add: within_calls_def)
qed

lemma h_step:
  "changes no_call m \<Longrightarrow> fits oc k j \<Longrightarrow> (\<And>x. hoare (account w0 k j) (f x) Q (within_calls oc w0)) \<Longrightarrow>
   hoare (account w0 k j) (op_bind m f) Q (within_calls oc w0)"
  by (rule h_bind [OF h_keep])

lemma h_done: "changes no_call m \<Longrightarrow> fits oc k k \<Longrightarrow> hoare (account w0 k k) m (\<lambda>_. settled oc w0) (within_calls oc w0)"
  by (rule h_conseq [OF h_keep]) (auto simp: settled_def)

text \<open>A reservation that succeeds adds one row; one that fails adds none.\<close>

lemma reserve_adds:
  assumes "fits oc k k" "k < max 0 (lm_max_provider_calls (oc_limits oc))"
  shows "hoare (account w0 k k) (op_try (reserve oc i mi p m t a b c ps u))
           (\<lambda>r. account w0 k (case r of Inl _ \<Rightarrow> k | Inr _ \<Rightarrow> k + 1)) (within_calls oc w0)"
proof (rule hoareI)
  fix w x w'
  assume w: "account w0 k k w" and run: "op_try (reserve oc i mi p m t a b c ps u) w = (Inr x, w')"
  show "account w0 k (case x of Inl _ \<Rightarrow> k | Inr _ \<Rightarrow> k + 1) w'"
  proof (cases x)
    case (Inl e)
    then have "reserve oc i mi p m t a b c ps u w = (Inl e, w')"
      using run by (auto simp: op_try_def split: prod.splits)
    then have "no_call w w'"
      unfolding reserve_def
      by (auto simp: op_bind_Inl op_simps op_raise_if_def op_lift_def op_now_def op_uuid4_def transaction_Inl no_call_def op_query_def
            op_exec_def op_ret_def raise_if_def)
    then show ?thesis using w Inl by (simp add: account_keeps)
  next
    case (Inr rv)
    then have "reserve oc i mi p m t a b c ps u w = (Inr rv, w')"
      using run by (auto simp: op_try_def split: prod.splits)
    then have "ow_calls w' = ow_calls w \<and> length (od_usage (w_db w')) = Suc (length (od_usage (w_db w)))"
      unfolding reserve_def by (auto simp: op_simps)
    then show ?thesis using w Inr by (simp add: made_def reserved_def)
  qed
qed (auto simp: op_try_def split: prod.splits)

text \<open>The call itself, whatever it answers.\<close>

lemma invoke_counts:
  "hoare (account w0 k (k + 1)) (op_try (op_invoke oc p rq n)) (\<lambda>_. account w0 (k + 1) (k + 1)) (within_calls oc w0)"
  by (rule hoareI) (auto simp: op_try_def op_invoke_def made_def reserved_def split: prod.splits)

lemma run_call_counts:
  assumes "fits oc k (k + 1)"
  shows "hoare (account w0 k (k + 1)) (run_call oc p rq rv f t n j ps) (\<lambda>_. account w0 (k + 1) (k + 1)) (within_calls oc w0)"
  unfolding run_call_def
  by (rule h_bind [OF invoke_counts], rule h_keep) (use assms in \<open>auto intro!: nc_intros\<close>)

section \<open>Verification\<close>

text \<open>What a step over the candidates leaves: the counts follow the number of attempts.\<close>

definition verify_post :: "orchestrator \<Rightarrow> oworld \<Rightarrow> int \<Rightarrow> verify_state + verification_outcome \<Rightarrow> oworld \<Rightarrow> bool" where
  "verify_post oc w0 calls r w \<longleftrightarrow>
     (case r of
        Inl st \<Rightarrow> account w0 (calls + vs_attempted st) (calls + vs_attempted st) w \<and> fits oc (calls + vs_attempted st) (calls + vs_attempted st)
      | Inr v \<Rightarrow> settled oc w0 w)"

lemma h_ret_account: "(\<And>w. account w0 k j w \<Longrightarrow> Q x w) \<Longrightarrow> hoare (account w0 k j) (op_ret x) Q E"
  by (rule h_ret)

lemma h_raise_account: "fits oc k j \<Longrightarrow> hoare (account w0 k j) (op_raise e) Q (within_calls oc w0)"
  by (rule h_raise) (simp add: within_calls_def)

lemma verifier_call_counts:
  assumes k: "k = calls + vs_attempted st" "fits oc k (k + 1)"
  shows "hoare (account w0 k (k + 1)) (verifier_call oc i rq vrq x role p m n ps rv st) (verify_post oc w0 calls) (within_calls oc w0)"
proof -
  have fits: "fits oc (k + 1) (k + 1)" using k by simp
  note step = h_step [OF _ fits]
  have outcome: "hoare (account w0 (k + 1) (k + 1))
      (case r of
         Inl failure \<Rightarrow>
           op_bind (mark_failed rv failure) (\<lambda>_. op_bind (increment a b c) (\<lambda>_.
           op_bind (verification_failure oc i rq s (t failure) v m' d e) (\<lambda>y.
           op_ret (Inl (st\<lparr>vs_attempted := vs_attempted st + 1, vs_failure := Some y, vs_degraded := True\<rparr>)))))
       | Inr (result, cost) \<Rightarrow> op_bind (verdict oc i rq x role p m result cost) (\<lambda>v. op_ret (Inr v)))
      (verify_post oc w0 calls) (within_calls oc w0)" for r a b c s t v m' d e
  proof (cases r)
    case (Inl failure)
    show ?thesis
      unfolding Inl sum.case
      by (intro step nc_intros h_ret_account) (use k fits in \<open>auto simp: verify_post_def algebra_simps\<close>)
  next
    case (Inr z)
    then show ?thesis
      by (cases z) (use fits in \<open>auto intro!: step nc_intros h_ret_account simp: verify_post_def settled_def\<close>)
  qed
  show ?thesis
    unfolding verifier_call_def
    by (rule h_step [OF nc_trace k(2)], rule h_bind [OF run_call_counts [OF k(2)]], rule outcome)
qed

lemma try_verifier_counts:
  assumes k: "k = calls + vs_attempted st" "k < lm_max_provider_calls (oc_limits oc)" "fits oc k k"
  shows "hoare (account w0 k k) (try_verifier oc i rq vrq x m role p st) (verify_post oc w0 calls) (within_calls oc w0)"
proof -
  have room: "k < max 0 (lm_max_provider_calls (oc_limits oc))" and fits: "fits oc k (k + 1)" using k by simp_all
  have skip: "hoare (account w0 k k) (op_ret (Inl st')) (verify_post oc w0 calls) (within_calls oc w0)"
    if "vs_attempted st' = vs_attempted st" for st'
    by (rule h_ret_account) (use k that in \<open>simp add: verify_post_def\<close>)
  have reserved: "hoare (account w0 k (case r of Inl _ \<Rightarrow> k | Inr _ \<Rightarrow> k + 1))
      (case r of
         Inl (ProviderBudgetExceeded who period dimension) \<Rightarrow>
           op_bind (budget_blocked oc rq i role p model who period dimension) (\<lambda>_. op_ret (Inl st))
       | Inl e \<Rightarrow> op_raise e
       | Inr rv \<Rightarrow> verifier_call oc i rq vrq x role p model n prices rv st) (verify_post oc w0 calls) (within_calls oc w0)"
    for r model n prices
  proof (cases r)
    case (Inl e)
    then show ?thesis
      by (cases e) (use k(3) in \<open>auto intro!: h_step nc_intros skip h_raise_account\<close>)
  next
    case (Inr rv)
    then show ?thesis by (simp add: verifier_call_counts [OF k(1) fits])
  qed
  have terms: "hoare (account w0 k k)
      (case r of
         Inl (ConfigurationError _) \<Rightarrow> op_ret (Inl (st\<lparr>vs_degraded := b\<rparr>))
       | Inl e \<Rightarrow> op_raise e
       | Inr (model, n, prices) \<Rightarrow>
           op_bind (op_try (reserve oc i (rq_mission_id rq) p model t n l m prices u)) (\<lambda>reserved.
           case reserved of
             Inl (ProviderBudgetExceeded who period dimension) \<Rightarrow>
               op_bind (budget_blocked oc rq i role p model who period dimension) (\<lambda>_. op_ret (Inl st))
           | Inl e \<Rightarrow> op_raise e
           | Inr rv \<Rightarrow> verifier_call oc i rq vrq x role p model n prices rv st)) (verify_post oc w0 calls) (within_calls oc w0)"
    for r b t l u
  proof (cases r)
    case (Inl e)
    then show ?thesis
      by (cases e) (use k(3) in \<open>auto intro!: skip h_raise_account\<close>)
  next
    case (Inr z)
    then show ?thesis
      by (cases z) (auto intro!: h_bind [OF reserve_adds [OF k(3) room]] reserved)
  qed
  show ?thesis
    unfolding try_verifier_def Let_def
    by (intro h_step [OF nc_available k(3)] h_if skip terms) simp
qed

lemma try_verifiers_count:
  assumes "fits oc (calls + vs_attempted st) (calls + vs_attempted st)"
  shows "hoare (account w0 (calls + vs_attempted st) (calls + vs_attempted st))
           (try_verifiers oc i rq vrq x m calls iterations ps st) (\<lambda>_. settled oc w0) (within_calls oc w0)"
  using assms
proof (induction ps arbitrary: st)
  case Nil
  then show ?case by (intro h_done) (auto intro!: nc_intros split: option.split)
next
  case (Cons rp ps)
  obtain role p where rp: "rp = (role, p)" by (cases rp)
  let ?k = "calls + vs_attempted st"
  have rest: "hoare (verify_post oc w0 calls r)
      (case r of Inl st' \<Rightarrow> try_verifiers oc i rq vrq x m calls iterations ps st' | Inr v \<Rightarrow> op_ret (v, b)) (\<lambda>_. settled oc w0) (within_calls oc w0)"
    for r b
  proof (cases r)
    case (Inl st')
    show ?thesis
    proof (cases "fits oc (calls + vs_attempted st') (calls + vs_attempted st')")
      case True
      show ?thesis
        unfolding Inl sum.case
        by (rule h_conseq [OF Cons.IH [OF True]]) (simp_all add: verify_post_def)
    next
      case False
      then show ?thesis by (intro h_false) (auto simp: Inl verify_post_def)
    qed
  next
    case (Inr v)
    then show ?thesis by (auto intro!: h_ret simp: verify_post_def)
  qed
  show ?case
  proof (cases "\<not> rq_remote_allowed rq")
    case True
    then show ?thesis by (simp add: rp Cons)
  next
    case remote: False
    show ?thesis
    proof (cases "verifier_slot oc calls iterations st")
      case True
      then have "?k < lm_max_provider_calls (oc_limits oc)" by (simp add: verifier_slot_def)
      note step = try_verifier_counts [OF refl this Cons.prems]
      show ?thesis
        using remote True by (simp add: rp h_bind [OF step rest])
    next
      case False
      with remote have eq: "try_verifiers oc i rq vrq x m calls iterations (rp # ps) st =
          (case vs_failure st of Some v \<Rightarrow> op_ret (v, vs_degraded st)
           | None \<Rightarrow> op_bind (verification_failure oc i rq ''limit_reached''
               ''global provider-call or iteration limit prevents verification'' None None None None) (\<lambda>v. op_ret (v, vs_degraded st)))"
        by (simp add: rp)
      show ?thesis
        unfolding eq by (intro h_done Cons.prems nc_intros)
    qed
  qed
qed

lemma verify_counts:
  assumes k: "fits oc k k"
  shows "hoare (account w0 k k) (verify_executor_result oc i rq x k iterations m) (\<lambda>_. settled oc w0) (within_calls oc w0)"
proof -
  note early = h_done [OF nc_early k]
  have loop: "hoare (account w0 k k) (try_verifiers oc i rq vrq x m k iterations ps \<lparr>vs_degraded = False, vs_attempted = 0, vs_failure = None\<rparr>)
      (\<lambda>_. settled oc w0) (within_calls oc w0)" for vrq ps
    using try_verifiers_count [where calls = k and st = "\<lparr>vs_degraded = False, vs_attempted = 0, vs_failure = None\<rparr>"] k by simp
  show ?thesis
    unfolding verify_executor_result_def by (auto split: option.split intro!: h_if early h_step [OF nc_candidates k] loop)
qed

section \<open>The routing loop\<close>

text \<open>Before each step the counts are the number of calls the loop knows of.\<close>

definition flow_post :: "orchestrator \<Rightarrow> oworld \<Rightarrow> flow \<Rightarrow> oworld \<Rightarrow> bool" where
  "flow_post oc w0 f w \<longleftrightarrow>
     (case f of
        Next st \<Rightarrow> account w0 (ps_calls st) (ps_calls st) w \<and> fits oc (ps_calls st) (ps_calls st)
      | Stop st \<Rightarrow> account w0 (ps_calls st) (ps_calls st) w \<and> fits oc (ps_calls st) (ps_calls st)
      | Done d \<Rightarrow> settled oc w0 w)"

lemma settled_keeps: "no_call a b \<Longrightarrow> settled oc w0 a \<Longrightarrow> settled oc w0 b"
  by (simp add: no_call_def settled_def made_def reserved_def)

lemma settled_within: "settled oc w0 w \<Longrightarrow> within_calls oc w0 w"
  by (simp add: settled_def within_calls_def)

lemma settled_stays:
  assumes "changes no_call m"
  shows "hoare (settled oc w0) m (\<lambda>_. settled oc w0) (within_calls oc w0)"
proof (rule hoareI)
  fix w r w'
  assume w: "settled oc w0 w"
  have step: "settled oc w0 w'" if "m w = (r, w')" for r w'
    using assms w that settled_keeps by (metis changes_def snd_conv)
  show "m w = (Inr x, w') \<Longrightarrow> settled oc w0 w'" for x w' by (rule step)
  show "m w = (Inl e, w') \<Longrightarrow> within_calls oc w0 w'" for e w' using step settled_within by blast
qed

lemma conclude_counts:
  assumes k: "k = ps_calls st" "fits oc k k"
  shows "hoare (account w0 k k) (conclude oc xc role p m result n st) (\<lambda>_. settled oc w0) (within_calls oc w0)"
proof -
  let ?x = "executor_of role p m result"
  have v: "hoare (account w0 k k)
      (if important_task (xc_request xc)
       then verify_executor_result oc i (xc_request xc) ?x (ps_calls st) l c else op_ret (not_required, False))
      (\<lambda>_. settled oc w0) (within_calls oc w0)" for i l c
    unfolding k(1) [symmetric] by (intro h_if verify_counts k h_done nc.ch_ret)
  show ?thesis
    unfolding conclude_def Let_def
    by (rule h_bind [OF v], rule settled_stays) (intro nc_intros)
qed

lemma judge_counts:
  assumes k: "k = ps_calls st" "fits oc k k"
  shows "hoare (account w0 k k) (judge_result oc xc role p m result c st) (flow_post oc w0) (within_calls oc w0)"
proof -
  have finished: "hoare (account w0 k k) (op_bind d (\<lambda>x. op_ret (Done x))) (flow_post oc w0) (within_calls oc w0)"
    if "hoare (account w0 k k) d (\<lambda>_. settled oc w0) (within_calls oc w0)" for d
    by (rule h_bind [OF that], rule h_ret) (simp add: flow_post_def)
  note step = h_step [OF _ k(2)]
  show ?thesis
    unfolding judge_result_def Let_def
    apply (rule step [OF nc_increment], rule step [OF nc_trace], rule h_if)
     apply (rule finished, rule h_done [OF nc_escalation k(2)])
    apply (rule h_if)
     apply (intro step nc_intros h_ret_account)
     apply (use k in \<open>simp add: flow_post_def\<close>)
    apply (rule finished, rule conclude_counts [OF k])
    done
qed

lemma call_provider_counts:
  assumes k: "k = ps_calls st" "fits oc k (k + 1)"
  shows "hoare (account w0 k (k + 1)) (call_provider oc xc role p m e t n ps rv l st) (flow_post oc w0) (within_calls oc w0)"
proof -
  have fits: "fits oc (k + 1) (k + 1)" using k by simp
  note step = h_step [OF _ fits]
  show ?thesis
    unfolding call_provider_def Let_def
    apply (rule h_step [OF nc_trace k(2)], rule h_bind [OF run_call_counts [OF k(2)]])
    apply (rule step [OF nc_when [OF nc_release]])
    subgoal for s outcome
    proof (cases outcome)
      case (Inl failure)
      show ?thesis
        unfolding Inl sum.case
        by (intro step nc_intros h_ret_account) (use k fits in \<open>auto simp: flow_post_def\<close>)
    next
      case (Inr z)
      show ?thesis
        by (cases z) (use k fits in \<open>auto simp: Inr intro!: judge_counts\<close>)
    qed
    done
qed

lemma reserve_and_call_counts:
  assumes k: "k = ps_calls st" "k < lm_max_provider_calls (oc_limits oc)" "fits oc k k"
  shows "hoare (account w0 k k) (reserve_and_call oc xc role p m e n ps st) (flow_post oc w0) (within_calls oc w0)"
proof -
  have room: "k < max 0 (lm_max_provider_calls (oc_limits oc))" and fits: "fits oc k (k + 1)" using k by simp_all
  note step = h_step [OF _ k(3)]
  have next_post: "hoare (account w0 k k) (op_ret (Next (st\<lparr>ps_reason := t\<rparr>))) (flow_post oc w0) (within_calls oc w0)" for t
    by (rule h_ret_account) (use k in \<open>simp add: flow_post_def\<close>)
  have failed: "hoare (account w0 k k) (model_failure oc xc role p a t st) (flow_post oc w0) (within_calls oc w0)" for a t
    unfolding model_failure_def by (rule step [OF nc_trace], rule next_post)
  have reserved: "hoare (account w0 k (case r of Inl _ \<Rightarrow> k | Inr _ \<Rightarrow> k + 1))
      (case r of
         Inl (ProviderBudgetExceeded who period dimension) \<Rightarrow>
           op_bind (op_when l op_release) (\<lambda>_. op_bind (budget_blocked oc rq i role p m who period dimension) (\<lambda>_.
           op_ret (Next (st\<lparr>ps_reason := budget_text who period dimension\<rparr>))))
       | Inl e \<Rightarrow> op_bind (op_when l op_release) (\<lambda>_. op_raise e)
       | Inr rv \<Rightarrow> call_provider oc xc role p m e n' ps' rp rv l st) (flow_post oc w0) (within_calls oc w0)"
    for r l rq i n' ps' rp
  proof (cases r)
    case (Inl x)
    then show ?thesis
      by (cases x) (use k(3) in \<open>auto intro!: h_step nc_intros next_post h_raise_account\<close>)
  next
    case (Inr rv)
    then show ?thesis by (simp add: call_provider_counts [OF k(1) fits])
  qed
  show ?thesis
    unfolding reserve_and_call_def Let_def
    by (rule step, intro nc.ch_if nc_acquire nc.ch_ret, rule h_if, rule failed, rule h_bind [OF reserve_adds [OF k(3) room]], rule reserved)
qed

lemma try_provider_counts:
  assumes k: "k = ps_calls st" "fits oc k k"
  shows "hoare (account w0 k k) (try_provider oc xc role p st) (flow_post oc w0) (within_calls oc w0)"
proof -
  note step = h_step [OF _ k(2)]
  have next_post: "hoare (account w0 k k) (op_ret (Next st')) (flow_post oc w0) (within_calls oc w0)" if "ps_calls st' = ps_calls st" for st'
    by (rule h_ret_account) (use k that in \<open>simp add: flow_post_def\<close>)
  have stop_post: "hoare (account w0 k k) (op_ret (Stop (st\<lparr>ps_reason := t\<rparr>))) (flow_post oc w0) (within_calls oc w0)" for t
    by (rule h_ret_account) (use k in \<open>simp add: flow_post_def\<close>)
  have failed: "hoare (account w0 k k) (model_failure oc xc role p a t st') (flow_post oc w0) (within_calls oc w0)"
    if "ps_calls st' = ps_calls st" for a t st'
    unfolding model_failure_def by (rule step [OF nc_trace], rule next_post) (simp add: that)
  have invalid: "hoare (account w0 k k) (configuration_invalid p e st) (flow_post oc w0) (within_calls oc w0)" for e
    unfolding configuration_invalid_def using k(2) by (auto split: py_exc.split intro!: next_post h_raise_account)
  have lifted: "changes no_call (op_lift r)" for r :: "int res" by (rule nc.ch_lift)
  have priced: "hoare (account w0 k k)
      (case r of Inl e \<Rightarrow> configuration_invalid p e st | Inr prices \<Rightarrow> reserve_and_call oc xc role p model e' n prices st)
      (flow_post oc w0) (within_calls oc w0)"
    if "\<not> lm_max_provider_calls (oc_limits oc) \<le> ps_calls st" for r model e' n
  proof (cases r)
    case (Inr prices)
    show ?thesis unfolding Inr sum.case by (rule reserve_and_call_counts) (use that k in auto)
  qed (simp add: invalid)
  have named: "hoare (account w0 k k)
      (case r of Inl e \<Rightarrow> configuration_invalid p e st
       | Inr model \<Rightarrow> op_bind (op_lift (conservative_input_tokens e (pc_kind p))) (\<lambda>n.
           case price_microusd_per_million env p (Some n) of Inl e \<Rightarrow> configuration_invalid p e st
           | Inr prices \<Rightarrow> reserve_and_call oc xc role p model e n prices st)) (flow_post oc w0) (within_calls oc w0)"
    if "\<not> lm_max_provider_calls (oc_limits oc) \<le> ps_calls st" for r e env
    by (cases r) (auto intro!: invalid step lifted priced that)
  show ?thesis
    unfolding try_provider_def Let_def
    by (intro h_if failed step [OF nc_available] stop_post named) simp_all
qed

lemma flow_cases:
  assumes "\<And>st. fits oc (ps_calls st) (ps_calls st) \<Longrightarrow> hoare (account w0 (ps_calls st) (ps_calls st)) (g st) Q (within_calls oc w0)"
    and "\<And>st. fits oc (ps_calls st) (ps_calls st) \<Longrightarrow> hoare (account w0 (ps_calls st) (ps_calls st)) (h st) Q (within_calls oc w0)"
    and "\<And>d. hoare (settled oc w0) (k d) Q (within_calls oc w0)"
  shows "hoare (flow_post oc w0 f) (case f of Next st \<Rightarrow> g st | Stop st \<Rightarrow> h st | Done d \<Rightarrow> k d) Q (within_calls oc w0)"
proof (cases f)
  case (Next st)
  show ?thesis
  proof (cases "fits oc (ps_calls st) (ps_calls st)")
    case True
    show ?thesis unfolding Next flow.case by (rule h_conseq [OF assms(1) [OF True]]) (simp_all add: flow_post_def)
  next
    case False
    then show ?thesis unfolding Next by (intro h_false) (auto simp: flow_post_def)
  qed
next
  case (Stop st)
  show ?thesis
  proof (cases "fits oc (ps_calls st) (ps_calls st)")
    case True
    show ?thesis unfolding Stop flow.case by (rule h_conseq [OF assms(2) [OF True]]) (simp_all add: flow_post_def)
  next
    case False
    then show ?thesis unfolding Stop by (intro h_false) (auto simp: flow_post_def)
  qed
next
  case (Done d)
  show ?thesis unfolding Done flow.case by (rule h_conseq [OF assms(3)]) (simp_all add: flow_post_def)
qed

lemma try_providers_count:
  "fits oc (ps_calls st) (ps_calls st) \<Longrightarrow>
   hoare (account w0 (ps_calls st) (ps_calls st)) (try_providers oc xc role ps st) (flow_post oc w0) (within_calls oc w0)"
proof (induction ps arbitrary: st)
  case Nil
  then show ?case by (auto intro!: h_ret_account simp: flow_post_def)
next
  case (Cons p ps)
  show ?case
    unfolding try_providers.simps
    by (rule h_bind [OF try_provider_counts [OF refl Cons.prems]], rule flow_cases)
       (auto intro!: Cons.IH h_ret_account h_ret simp: flow_post_def [of _ _ "Stop _"] flow_post_def [of _ _ "Done _"])
qed

lemma try_roles_count:
  "fits oc (ps_calls st) (ps_calls st) \<Longrightarrow>
   hoare (account w0 (ps_calls st) (ps_calls st)) (try_roles oc xc rs st) (\<lambda>_. settled oc w0) (within_calls oc w0)"
proof (induction rs arbitrary: st)
  case Nil
  then show ?case by (simp add: h_done nc_escalation)
next
  case (Cons role rs)
  note over = h_done [OF _ Cons.prems] and step = h_step [OF _ Cons.prems]
  have providers: "hoare (account w0 (ps_calls st) (ps_calls st)) (try_providers oc xc role ps (st\<lparr>ps_iterations := n, ps_previous := q\<rparr>))
      (flow_post oc w0) (within_calls oc w0)" for ps n q
    using try_providers_count [where st = "st\<lparr>ps_iterations := n, ps_previous := q\<rparr>"] Cons.prems by simp
  show ?case
    unfolding try_roles.simps Let_def
    apply (rule h_if)
     apply (rule over, rule nc_escalation)
    apply (rule step [OF nc_enter], rule step [OF nc_providers], rule h_bind)
     apply (simp, rule providers)
    apply (rule flow_cases)
      apply (auto intro!: Cons.IH h_ret)
    done
qed

lemma invoke_plan_counts: "hoare (account w0 0 0) (invoke_plan oc i t rq pl) (\<lambda>_. settled oc w0) (within_calls oc w0)"
proof -
  have zero: "fits oc 0 0" by simp
  have loop: "hoare (account w0 0 0)
      (try_roles oc xc rs \<lparr>ps_calls = 0, ps_iterations = 0, ps_previous = None, ps_degraded = False, ps_reason = r, ps_handoffs = []\<rparr>)
      (\<lambda>_. settled oc w0) (within_calls oc w0)" for xc rs r
    using try_roles_count [where st = "\<lparr>ps_calls = 0, ps_iterations = 0, ps_previous = None, ps_degraded = False, ps_reason = r, ps_handoffs = []\<rparr>"]
    by simp
  show ?thesis
    unfolding invoke_plan_def by (rule h_step [OF nc.ch_lift zero], rule loop)
qed

lemma nc_uuid: "changes no_call op_uuid4" by (rule nc.ch_uuid4)

lemma route_counts: "hoare (account w0 0 0) (route_request oc rq) (\<lambda>_. settled oc w0) (within_calls oc w0)"
proof -
  have zero: "fits oc 0 0" by simp
  note step = h_step [OF _ zero]
  show ?thesis
    unfolding route_request_def Let_def
    by (intro step [OF nc_uuid] step [OF nc_monotonic] step [OF nc_start] step [OF nc_increment] step [OF nc_trace] h_if
          h_done [OF nc_deterministic zero] invoke_plan_counts)
qed

text \<open>
  C5. A route makes at most \<open>max_provider_calls\<close> provider calls, executor and verifier calls together, and
  none without a reservation of its own in the budget ledger. When it returns a decision there are
  exactly as many new reservations as calls; when it raises, at most one reservation is left unused.
\<close>
theorem calls_reserved_and_bounded:
  "case route_request oc rq w of
     (Inr d, w') \<Rightarrow> made w w' = reserved w w' \<and> made w w' \<le> max 0 (lm_max_provider_calls (oc_limits oc))
   | (Inl e, w') \<Rightarrow> made w w' \<le> reserved w w' \<and> reserved w w' \<le> made w w' + 1 \<and>
                   made w w' \<le> max 0 (lm_max_provider_calls (oc_limits oc))"
proof -
  have start: "account w 0 0 w" by (simp add: made_def reserved_def)
  show ?thesis
    using hoare_Inr [OF route_counts start] hoare_Inl [OF route_counts start]
    by (auto split: prod.split sum.split simp: settled_def within_calls_def) force+
qed

section \<open>Remote calls\<close>

text \<open>Only the end of the call log changes, and what is added may leave the host only if \<open>b\<close> holds.\<close>

definition egress :: "bool \<Rightarrow> oworld \<Rightarrow> oworld \<Rightarrow> bool" where
  "egress b v w \<longleftrightarrow> (\<exists>cs. ow_calls w = ow_calls v @ cs \<and> (\<forall>(p, rq, n)\<in>set cs. pc_location p = ''remote'' \<longrightarrow> b))"

interpretation eg: world_evolution "egress b"
proof unfold_locales
  fix u v w :: oworld
  assume "egress b u v" "egress b v w"
  then obtain cs ds where "ow_calls v = ow_calls u @ cs" "ow_calls w = ow_calls v @ ds"
      "\<forall>(p, rq, n)\<in>set (cs @ ds). pc_location p = ''remote'' \<longrightarrow> b"
    unfolding egress_def by fastforce
  then show "egress b u w" unfolding egress_def by (intro exI [of _ "cs @ ds"]) auto
qed (auto simp: egress_def)

lemma no_call_egress: "changes no_call m \<Longrightarrow> changes (egress b) m"
  by (auto simp: changes_def no_call_def egress_def)

named_theorems eg_intros "statements that respect the egress rule"
lemmas [eg_intros] = eg.ch_rules
lemmas [THEN no_call_egress, eg_intros] = nc_monotonic nc_available nc_acquire nc_release nc_increment nc_trace nc_start nc_finish_run
  nc_audit nc_complete nc_uncertain nc_mark_failed nc_blocked nc_order nc_providers nc_candidates nc_failure nc_early nc_verdict
  nc_finish nc_escalation nc_successful nc_model_failure nc_enter nc_deterministic

lemma eg_when [eg_intros]: "changes (egress b) m \<Longrightarrow> changes (egress b) (op_when c m)"
  by (simp add: op_when_def eg.ch_ret)

lemma eg_try [eg_intros]: "changes (egress b) m \<Longrightarrow> changes (egress b) (op_try m)"
  by (auto simp: changes_def op_try_def split: prod.splits) (metis snd_conv)

lemma eg_invoke: "(pc_location p = ''remote'' \<Longrightarrow> b) \<Longrightarrow> changes (egress b) (op_invoke oc p rq n)"
  by (auto simp: changes_def egress_def op_invoke_def)

lemma eg_exec: "changes (egress b) (op_exec g)"
  by (simp add: changes_def egress_def op_exec_def)

lemma eg_reserve [eg_intros]: "changes (egress b) (reserve oc i mi p m t a c k ps u)"
  unfolding reserve_def by (intro eg_intros eg_exec)

lemma eg_run_call: "(pc_location p = ''remote'' \<Longrightarrow> b) \<Longrightarrow> changes (egress b) (run_call oc p rq rv f t n j ps)"
  unfolding run_call_def by (intro eg_intros eg_invoke) simp_all

lemma eg_verifier_call: "b \<Longrightarrow> changes (egress b) (verifier_call oc i rq vrq x role p m n ps rv st)"
  unfolding verifier_call_def by (intro eg_intros eg_run_call) simp_all

lemma eg_try_verifier: "b \<Longrightarrow> changes (egress b) (try_verifier oc i rq vrq x m role p st)"
  unfolding try_verifier_def Let_def
  by (auto split: sum.split py_exc.split prod.split intro!: eg_intros eg_verifier_call)

lemma eg_verifiers: "changes (egress (rq_remote_allowed rq)) (try_verifiers oc i rq vrq x m calls iterations ps st)"
proof (induction ps arbitrary: st)
  case Nil
  then show ?case by (auto split: option.split intro!: eg_intros)
next
  case (Cons rp ps)
  obtain role p where rp: "rp = (role, p)" by (cases rp)
  show ?case
    by (cases "rq_remote_allowed rq")
       (use Cons in \<open>auto simp: rp split: option.split sum.split intro!: eg_intros eg_try_verifier\<close>)
qed

lemma eg_verify [eg_intros]: "changes (egress (rq_remote_allowed rq)) (verify_executor_result oc i rq x calls iterations m)"
  unfolding verify_executor_result_def by (intro eg_intros eg_verifiers)

lemma eg_conclude [eg_intros]: "changes (egress (rq_remote_allowed (xc_request xc))) (conclude oc xc role p m result n st)"
  unfolding conclude_def Let_def by (intro eg_intros)

lemma eg_judge [eg_intros]: "changes (egress (rq_remote_allowed (xc_request xc))) (judge_result oc xc role p m result c st)"
  unfolding judge_result_def Let_def by (intro eg_intros)

lemma eg_reserve_and_call:
  assumes "pc_location p = ''remote'' \<Longrightarrow> rq_remote_allowed (xc_request xc)"
  shows "changes (egress (rq_remote_allowed (xc_request xc))) (reserve_and_call oc xc role p m e n ps st)"
proof -
  have call: "changes (egress (rq_remote_allowed (xc_request xc))) (call_provider oc xc role p m e t n ps rv l st)" for t rv l
    unfolding call_provider_def Let_def by (intro eg_intros eg_run_call assms)
  show ?thesis
    unfolding reserve_and_call_def Let_def by (auto split: sum.split py_exc.split intro!: eg_intros call)
qed

lemma eg_try_provider: "changes (egress (rq_remote_allowed (xc_request xc))) (try_provider oc xc role p st)"
  unfolding try_provider_def Let_def configuration_invalid_def
  by (auto split: sum.split py_exc.split intro!: eg_intros eg_reserve_and_call)

lemma eg_providers [eg_intros]: "changes (egress (rq_remote_allowed (xc_request xc))) (try_providers oc xc role ps st)"
  by (induction ps arbitrary: st) (auto split: flow.split intro!: eg_intros eg_try_provider)

lemma eg_roles [eg_intros]: "changes (egress (rq_remote_allowed (xc_request xc))) (try_roles oc xc rs st)"
  by (induction rs arbitrary: st) (auto split: flow.split simp: Let_def intro!: eg_intros)

lemma eg_plan [eg_intros]: "changes (egress (rq_remote_allowed rq)) (invoke_plan oc i t rq pl)"
  unfolding invoke_plan_def by (intro eg_intros) (metis eg_roles route_context.select_convs(3))

lemma eg_route: "changes (egress (rq_remote_allowed rq)) (route_request oc rq)"
  unfolding route_request_def Let_def by (intro eg_intros)

text \<open>The request body asks for remote processing and the caller's grant for its project allows it.\<close>

definition remote_granted :: "(string \<times> route_grant) list \<Rightarrow> string \<Rightarrow> json \<Rightarrow> bool" where
  "remote_granted grants username payload \<longleftrightarrow>
     (case payload of
        JDict d \<Rightarrow>
          dict_get d ''remote_allowed'' (JBool False) = JBool True \<and>
          (case dict_get d ''project_id'' JNull of
             JStr p \<Rightarrow> (case find_grant grants username p of Some g \<Rightarrow> rg_remote_allowed g | None \<Rightarrow> False)
           | _ \<Rightarrow> False)
      | _ \<Rightarrow> False)"

definition remote_calls :: "oworld \<Rightarrow> oworld \<Rightarrow> (provider_config \<times> model_request \<times> int) list" where
  "remote_calls w0 w = filter (\<lambda>(p, rq, n). pc_location p = ''remote'') (new_calls w0 w)"

lemma parsed_remote:
  assumes "parse_route_request l (JDict d) = Inr rq" "map_of d ''remote_allowed'' = Some (JBool b)"
  shows "rq_remote_allowed rq = b"
  using assms unfolding parse_route_request_def
  by (auto simp: parse_bool_def dict_get_def)

lemma authorized_remote:
  assumes auth: "authorized_route_payload grants username payload = Inr payload'" and rq: "parse_route_request l payload' = Inr rq"
  shows "rq_remote_allowed rq = remote_granted grants username payload"
proof -
  obtain d where d: "payload = JDict d"
    using auth by (cases payload) (auto simp: authorized_route_payload_def)
  obtain grant requested where g: "authorize_project grants username (dict_get d ''project_id'' JNull) = Inr grant"
      "parse_bool (dict_get d ''remote_allowed'' (JBool False)) ''remote_allowed'' = Inr requested"
      "payload' = JDict (dict_set ''remote_allowed'' (JBool (requested \<and> rg_remote_allowed grant)) d)"
    using auth d by (auto simp: authorized_route_payload_def)
  have "rq_remote_allowed rq = (requested \<and> rg_remote_allowed grant)"
    using rq unfolding g(3) by (rule parsed_remote) simp
  then show ?thesis
    using g(1,2) d by (auto simp: remote_granted_def authorize_project_def parse_bool_def split: json.splits option.splits)
qed

lemma eg_post: "changes (egress (remote_granted grants username payload)) (post_route oc grants username payload)"
proof -
  have "egress (remote_granted grants username payload) w (snd (post_route oc grants username payload w))" for w
  proof (cases "res_bind (authorized_route_payload grants username payload) (parse_route_request (oc_limits oc))")
    case (Inl e)
    then have "snd (post_route oc grants username payload w) = w"
      by (auto simp: post_route_def route_def op_bind_def op_lift_def split: sum.splits)
    then show ?thesis by (simp add: eg.refl)
  next
    case (Inr rq)
    then obtain payload' where p: "authorized_route_payload grants username payload = Inr payload'"
        "parse_route_request (oc_limits oc) payload' = Inr rq"
      by auto
    then have "post_route oc grants username payload w = route_request oc rq w"
      by (simp add: post_route_def route_def op_bind_def op_lift_def)
    then show ?thesis using eg_route [of rq oc] authorized_remote [OF p] by (simp add: changes_def)
  qed
  then show ?thesis by (simp add: changes_def)
qed

text \<open>
  C4. \<^verbatim>\<open>POST /v1/route\<close> sends nothing to a remote provider, neither for execution nor for verification,
  unless the body asks for remote processing and the caller's grant for exactly that project permits it;
  and it never alters the record of earlier calls.
\<close>
theorem remote_only_when_granted:
  assumes "\<not> remote_granted grants username payload"
  shows "remote_calls w (snd (post_route oc grants username payload w)) = [] \<and>
         take (length (ow_calls w)) (ow_calls (snd (post_route oc grants username payload w))) = ow_calls w"
  using eg_post [of grants username payload oc] assms
  by (auto simp: changes_def egress_def remote_calls_def new_calls_def filter_empty_conv dest!: spec [of _ w])

definition sample_body :: "(string \<times> json) list \<Rightarrow> json" where
  "sample_body extra = JDict ([(''project_id'', JStr ''infra''), (''mission_id'', JStr ''m-1'')] @ extra)"

definition sample_grants :: "(string \<times> route_grant) list" where
  "sample_grants = [(''hermes'', \<lparr>rg_username = ''hermes'', rg_projects = [''infra''], rg_remote_allowed = False\<rparr>)]"

lemma remote_only_when_granted_witness:
  "\<not> remote_granted sample_grants ''hermes'' (sample_body [(''remote_allowed'', JBool True)]) \<and>
   remote_calls (sample_oworld empty_odb)
     (snd (post_route sample_orchestrator sample_grants ''hermes'' (sample_body [(''remote_allowed'', JBool True)]) (sample_oworld empty_odb))) = []"
proof -
  have h: "\<not> remote_granted sample_grants ''hermes'' (sample_body [(''remote_allowed'', JBool True)])"
    by (simp add: remote_granted_def sample_grants_def sample_body_def dict_get_def find_grant_def)
  show ?thesis using h remote_only_when_granted [OF h, of "sample_oworld empty_odb" sample_orchestrator] by simp
qed

end
