(* ===== verification/Route_Decision.thy ===== *)
theory Route_Decision
  imports Route_Safety
begin

text \<open>
  What a decision of the orchestrator promises, in terms of the calls it was made from: the result is the
  answer of a provider called during the route and is never less confident than the configured minimum; an
  important result was agreed to in the recorded answer of a verifier on another account and another model
  family that was shown this result; a critical task and a code proposal wait for a human.
\<close>

section \<open>What the calls answered\<close>

type_synonym call_log = "(provider_config \<times> model_request \<times> int) list"

text \<open>The i-th call of the log: the deployment, what it was sent and what it answered.\<close>

definition call_answer :: "orchestrator \<Rightarrow> call_log \<Rightarrow> nat \<Rightarrow> (provider_config \<times> model_request \<times> provider_result) option" where
  "call_answer oc l i =
     (case l ! i of (p, rq, k) \<Rightarrow> (case oc_invoke oc i p rq k of Inr result \<Rightarrow> Some (p, rq, result) | Inl _ \<Rightarrow> None))"

abbreviation answered :: "orchestrator \<Rightarrow> nat \<Rightarrow> call_log \<Rightarrow> provider_config \<Rightarrow> model_request \<Rightarrow> provider_result \<Rightarrow> bool" where
  "answered oc n l p rq result \<equiv> \<exists>i\<in>{n..<length l}. call_answer oc l i = Some (p, rq, result)"

definition later :: "call_log \<Rightarrow> call_log \<Rightarrow> bool" where
  "later l l' \<longleftrightarrow> (\<exists>t. l' = l @ t)"

lemma later_refl: "later l l"
  by (simp add: later_def)

lemma later_trans: "later a b \<Longrightarrow> later b c \<Longrightarrow> later a c"
  by (auto simp: later_def)

lemma later_answer: "later l l' \<Longrightarrow> i < length l \<Longrightarrow> call_answer oc l' i = call_answer oc l i"
  by (auto simp: later_def call_answer_def nth_append)

lemma later_length: "later l l' \<Longrightarrow> length l \<le> length l'"
  by (auto simp: later_def)

lemma later_some:
  assumes "later l l'" "\<exists>i\<in>{n..<length l}. Q (call_answer oc l i)"
  shows "\<exists>i\<in>{n..<length l'}. Q (call_answer oc l' i)"
proof -
  obtain i where "i \<in> {n..<length l}" "Q (call_answer oc l i)" using assms(2) by blast
  then show ?thesis
    using later_answer [OF assms(1), of i oc] later_length [OF assms(1)] by (intro bexI [of _ i]) simp_all
qed

lemma answered_later: "answered oc n l p rq result \<Longrightarrow> later l l' \<Longrightarrow> answered oc n l' p rq result"
  by (rule later_some)

text \<open>From a log that extends \<open>l\<close>, the log is only extended, and \<open>V\<close> holds of the log and the value.\<close>

abbreviation logs :: "call_log \<Rightarrow> (call_log \<Rightarrow> 'a \<Rightarrow> bool) \<Rightarrow> 'a oop \<Rightarrow> bool" where
  "logs l V m \<equiv> holds (\<lambda>w. later l (ow_calls w)) (\<lambda>w. V (ow_calls w)) m"

lemma logs_bind:
  assumes "logs l A m" "\<And>l' x. later l l' \<Longrightarrow> A l' x \<Longrightarrow> logs l' V (f x)"
  shows "logs l V (op_bind m f)"
proof (rule holdsI)
  fix w r w'
  assume w: "later l (ow_calls w)" and run: "op_bind m f w = (r, w')"
  obtain r1 w1 where m: "m w = (r1, w1)" by (cases "m w")
  note first = holdsD [OF assms(1) w m]
  show "later l (ow_calls w') \<and> (\<forall>x. r = Inr x \<longrightarrow> V (ow_calls w') x)"
  proof (cases r1)
    case (Inl e)
    then show ?thesis using run m first by (auto simp: op_bind_def)
  next
    case (Inr x)
    then have "f x w1 = (r, w')" using run m by (simp add: op_bind_def)
    with holdsD [OF assms(2) later_refl this] first Inr later_trans show ?thesis by blast
  qed
qed

lemma logs_keep: "changes (egress True) m \<Longrightarrow> logs l (\<lambda>_ _. True) m"
proof (rule holdsI)
  fix w r w'
  assume "changes (egress True) m" "later l (ow_calls w)" "m w = (r, w')"
  then have "later (ow_calls w) (ow_calls w')"
    unfolding changes_def egress_def later_def by (metis snd_conv)
  with \<open>later l (ow_calls w)\<close> show "later l (ow_calls w') \<and> (\<forall>x. r = Inr x \<longrightarrow> True)"
    by (auto intro: later_trans)
qed

lemma logs_step: "changes (egress True) m \<Longrightarrow> (\<And>x. logs l V (f x)) \<Longrightarrow> logs l V (op_bind m f)"
  by (rule holds_skip [OF logs_keep])

lemma logs_yields: "changes (egress True) m \<Longrightarrow> yields P m \<Longrightarrow> logs l (\<lambda>_. P) m"
  by (rule holdsI) (auto dest: yieldsD holdsD [OF logs_keep])

lemma logs_value: "changes (egress True) m \<Longrightarrow> yields P m \<Longrightarrow> (\<And>x. P x \<Longrightarrow> logs l V (f x)) \<Longrightarrow> logs l V (op_bind m f)"
  by (rule holds_value [OF logs_yields])

text \<open>A value that was already known at \<open>l\<close>.\<close>

lemma logs_ret: "(\<And>l'. later l l' \<Longrightarrow> V l' x) \<Longrightarrow> logs l V (op_ret x)"
  by (rule holds_ret) simp

lemma run_call_answer:
  assumes "n \<le> length l"
  shows "logs l (\<lambda>l' r. case r of Inl _ \<Rightarrow> True | Inr (result, cost) \<Rightarrow> answered oc n l' p rq result \<and> refusal result = None)
           (run_call oc p rq rv refusal t e j ps)"
proof -
  have call: "logs l (\<lambda>l' a. \<forall>result. a = Inr result \<longrightarrow> answered oc n l' p rq result) (op_try (op_invoke oc p rq k))" for k
  proof (rule holdsI)
    fix w :: oworld and r w'
    assume w: "later l (ow_calls w)" and run: "op_try (op_invoke oc p rq k) w = (r, w')"
    then have "length (ow_calls w) \<in> {n..<length (ow_calls w @ [(p, rq, k)])}" using assms later_length [OF w] by simp
    moreover have "call_answer oc (ow_calls w @ [(p, rq, k)]) (length (ow_calls w)) = Some (p, rq, result)"
      if "oc_invoke oc (length (ow_calls w)) p rq k = Inr result" for result
      using that by (simp add: call_answer_def)
    ultimately show "later l (ow_calls w') \<and> (\<forall>x. r = Inr x \<longrightarrow> (\<forall>result. x = Inr result \<longrightarrow> answered oc n (ow_calls w') p rq result))"
      using run w by (fastforce simp: op_try_def op_invoke_def later_def)
  qed
  have refused: "reconcile oc p (refusal result) t result e j ps = Inr x \<Longrightarrow> refusal result = None" for result x
    by (auto simp: reconcile_def split: option.splits)
  have settled: "logs l' (\<lambda>l' r. case r of Inl _ \<Rightarrow> True | Inr (result, cost) \<Rightarrow> answered oc n l' p rq result \<and> refusal result = None)
      (op_bind (op_try (complete rv a b x)) (\<lambda>settled.
       case settled of Inl e \<Rightarrow> op_ret (Inl (e, Some result, x)) | Inr cost \<Rightarrow> op_ret (Inr (result, cost))))"
    if "answered oc n l' p rq result" "reconcile oc p (refusal result) t result e j ps = Inr x" for l' result x a b
    by (intro logs_step eg_intros) (auto split: sum.split intro!: logs_ret refused [OF that(2)] answered_later [OF that(1)])
  show ?thesis
    unfolding run_call_def
    by (rule logs_bind [OF call]) (auto split: sum.split intro!: logs_ret settled)
qed

section \<open>Verification\<close>

text \<open>What the outcome says of the answer \<open>result\<close> of the deployment \<open>p\<close>, which agreed and was confident.\<close>

definition agreement :: "orchestrator \<Rightarrow> provider_config \<Rightarrow> provider_result \<Rightarrow> verification_outcome \<Rightarrow> bool" where
  "agreement oc p result v \<longleftrightarrow>
     pv_status result = ''ok'' \<and> pv_verification result = Some ''agree'' \<and>
     th_minimum_provider_confidence (oc_thresholds oc) \<le> fval (pv_confidence result) \<and>
     vo_required v \<and> vo_provider_id v = Some (pc_provider_id p) \<and> vo_account_id v = pc_account_id p \<and>
     vo_chat_family v = pc_chat_family p \<and> vo_confidence v = Some (pv_confidence result) \<and> vo_summary v = Some (pv_summary result)"

text \<open>
  An agreeing verifier that is independent of the executor: one of the calls from the \<open>n\<close>-th on sent it the
  executor's result \<open>x\<close> for verification, and its answer is the agreement.
\<close>

definition verified :: "orchestrator \<Rightarrow> nat \<Rightarrow> call_log \<Rightarrow> model_request \<Rightarrow> executor_result \<Rightarrow> verification_outcome \<Rightarrow> bool" where
  "verified oc n l rq x v \<longleftrightarrow>
     vo_status v = ''agreed'' \<and> vo_required v \<and> vo_account_id v \<noteq> None \<and> vo_chat_family v \<noteq> None \<and>
     vo_account_id v \<noteq> er_account_id x \<and> vo_chat_family v \<noteq> er_chat_family x \<and>
     (\<exists>i\<in>{n..<length l}. case call_answer oc l i of None \<Rightarrow> False
        | Some (p, vrq, result) \<Rightarrow> verification_request oc rq x = Some vrq \<and> independent x p \<and> agreement oc p result v)"

lemma verifiedI:
  assumes "answered oc n l p vrq result" "verification_request oc rq x = Some vrq" "independent x p" "agreement oc p result v"
    "vo_status v = ''agreed''"
  shows "verified oc n l rq x v"
proof -
  obtain i where i: "i \<in> {n..<length l}" "call_answer oc l i = Some (p, vrq, result)" using assms(1) by blast
  have "\<exists>i\<in>{n..<length l}. case call_answer oc l i of None \<Rightarrow> False
          | Some (p, vrq, result) \<Rightarrow> verification_request oc rq x = Some vrq \<and> independent x p \<and> agreement oc p result v"
    by (rule bexI [OF _ i(1)]) (simp add: i(2) assms)
  then show ?thesis using assms by (auto simp: verified_def agreement_def independent_def)
qed

lemma verified_later: "verified oc n l rq x v \<Longrightarrow> later l l' \<Longrightarrow> verified oc n l' rq x v"
  unfolding verified_def
  using later_some [where Q = "\<lambda>a. case a of None \<Rightarrow> False
     | Some (p, vrq, result) \<Rightarrow> verification_request oc rq x = Some vrq \<and> independent x p \<and> agreement oc p result v"] by blast

abbreviation sound_outcome :: "orchestrator \<Rightarrow> nat \<Rightarrow> call_log \<Rightarrow> model_request \<Rightarrow> executor_result \<Rightarrow> verification_outcome \<Rightarrow> bool" where
  "sound_outcome oc n l rq x v \<equiv> vo_status v = ''agreed'' \<longrightarrow> verified oc n l rq x v"

lemma failure_not_agreed: "s \<noteq> ''agreed'' \<Longrightarrow> yields (\<lambda>v. vo_status v \<noteq> ''agreed'') (verification_failure oc i rq s t p m c y)"
  unfolding verification_failure_def by (intro yields_bind yields_ret) (simp add: failed_verification_def)

lemma candidate_of_provider: "yields (\<lambda>c. cd_provider c = p) (op_lift (candidate_of oc rq role u k m n p d))"
  by (auto simp: yields_def op_lift_def candidate_of_def res_bind_def split: sum.splits)

lemma rank_verifiers_independent: "yields (\<lambda>cs. \<forall>c\<in>set cs. independent x (cd_provider c)) (rank_verifiers oc i rq x n ps)"
proof (induction ps arbitrary: n)
  case (Cons rp ps)
  obtain role p where rp: "rp = (role, p)" by (cases rp)
  have pick: "yields (\<lambda>cs. \<forall>c\<in>set cs. independent x (cd_provider c))
      (op_bind (op_lift (candidate_of oc rq role u k m n p d)) (\<lambda>c. op_bind (rank_verifiers oc i rq x (n + 1) ps) (\<lambda>cs. op_ret (c # cs))))"
    if "independent x p" for u k m d
    by (rule yields_bind_value [OF candidate_of_provider], rule yields_bind_value [OF Cons.IH], rule yields_ret) (use that in auto)
  show ?case
  proof (cases "independent x p")
    case True
    then show ?thesis
      unfolding rp rank_verifiers.simps
      apply (simp only: not_True_eq_False if_False)
      apply (rule yields_bind, rule yields_prod, rule yields_prod, rule yields_if)
       apply (rule yields_bind, rule Cons.IH)
      apply (rule yields_query, erule pick)
      done
  qed (simp add: rp Cons.IH)
qed (simp add: yields_ret)

lemma candidates_independent: "yields (\<lambda>ps. \<forall>(role, p)\<in>set ps. independent x p) (verification_candidates oc i rq x)"
  unfolding verification_candidates_def audit_order_def Let_def
proof (intro yields_bind_value [OF rank_verifiers_independent])
  fix cs :: "candidate list"
  assume cs: "\<forall>c\<in>set cs. independent x (cd_provider c)"
  show "yields (\<lambda>ps. \<forall>(role, p)\<in>set ps. independent x p)
      (op_bind (op_bind (op_when (sort_key candidate_order cs \<noteq> []) z) (\<lambda>_. op_ret (sort_key candidate_order cs)))
        (\<lambda>ranked. op_ret (map (\<lambda>c. (cd_role c, cd_provider c)) ranked)))" for z
    by (rule yields_bind_value [where P = "\<lambda>ranked. ranked = sort_key candidate_order cs"])
      (use cs in \<open>auto intro!: yields_bind yields_ret\<close>)
qed

lemma verdict_agrees: "yields (\<lambda>v. vo_status v = ''agreed'' \<longrightarrow> agreement oc p result v) (verdict oc i rq x role p m result cost)"
  unfolding verdict_def
  by (intro yields_bind yields_if yields_ret yields_mono [OF failure_not_agreed]) (simp_all add: agreement_def verifier_agrees_def)

text \<open>A step over the candidates keeps a failure that is not an agreement, or ends with a sound outcome.\<close>

abbreviation pending :: "verify_state \<Rightarrow> bool" where
  "pending st \<equiv> \<forall>v. vs_failure st = Some v \<longrightarrow> vo_status v \<noteq> ''agreed''"

definition sound_step ::
  "orchestrator \<Rightarrow> nat \<Rightarrow> model_request \<Rightarrow> executor_result \<Rightarrow> call_log \<Rightarrow> verify_state + verification_outcome \<Rightarrow> bool" where
  "sound_step oc n rq x l r \<longleftrightarrow> (case r of Inl st \<Rightarrow> pending st | Inr v \<Rightarrow> sound_outcome oc n l rq x v)"

lemma verifier_call_sound:
  assumes "n \<le> length l" "verification_request oc rq x = Some vrq" "independent x p"
  shows "logs l (sound_step oc n rq x) (verifier_call oc i rq' vrq x role p m e prices rv st)"
proof -
  have failed: "logs l' (sound_step oc n rq x)
      (op_bind (verification_failure oc i rq' ''failed'' t v k c y) (\<lambda>v. op_ret (Inl (st\<lparr>vs_attempted := a, vs_failure := Some v, vs_degraded := True\<rparr>))))"
    for l' t v k c y a
    by (rule logs_value [OF _ failure_not_agreed]) (auto intro!: eg_intros logs_ret simp: sound_step_def)
  have ok: "logs l' (sound_step oc n rq x) (op_bind (verdict oc i rq' x role p m result cost) (\<lambda>v. op_ret (Inr v)))"
    if "answered oc n l' p vrq result" for l' result cost
    by (rule logs_value [OF _ verdict_agrees])
      (auto intro!: eg_intros logs_ret verifiedI [OF answered_later [OF that] assms(2,3)] simp: sound_step_def)
  show ?thesis
    unfolding verifier_call_def
    by (rule logs_step, rule eg_intros, rule logs_bind [OF run_call_answer [OF assms(1)]])
      (auto split: sum.split prod.split intro!: logs_step eg_intros failed ok)
qed

lemma try_verifier_sound:
  assumes "n \<le> length l" "verification_request oc rq x = Some vrq" "independent x p" "pending st"
  shows "logs l (sound_step oc n rq x) (try_verifier oc i rq' vrq x m role p st)"
proof -
  have skip: "logs l (sound_step oc n rq x) (op_ret (Inl st'))" if "pending st'" for st'
    using that by (intro logs_ret) (simp add: sound_step_def)
  show ?thesis
    unfolding try_verifier_def Let_def
    by (intro logs_step holds_if eg_intros)
       (auto split: sum.split py_exc.split prod.split
          intro!: skip holds_raise logs_step eg_intros verifier_call_sound assms simp: assms(4))
qed

lemma try_verifiers_sound:
  "\<forall>(role, p)\<in>set ps. independent x p \<Longrightarrow> pending st \<Longrightarrow> n \<le> length l \<Longrightarrow> verification_request oc rq x = Some vrq \<Longrightarrow>
   logs l (\<lambda>l' (v, _). sound_outcome oc n l' rq x v) (try_verifiers oc i rq' vrq x m calls iterations ps st)"
proof (induction ps arbitrary: st l)
  case Nil
  then show ?case
    by (auto split: option.split intro!: logs_ret eg_intros logs_value [OF _ failure_not_agreed])
next
  case (Cons rp ps)
  obtain role p where rp: "rp = (role, p)" by (cases rp)
  have step: "logs l (\<lambda>l' (v, _). sound_outcome oc n l' rq x v)
      (op_bind (try_verifier oc i rq' vrq x m role p st) (\<lambda>r.
        case r of Inl st' \<Rightarrow> try_verifiers oc i rq' vrq x m calls iterations ps st' | Inr v \<Rightarrow> op_ret (v, vs_degraded st)))"
  proof (rule logs_bind [OF try_verifier_sound])
    fix l' r
    assume "later l l'" "sound_step oc n rq x l' r"
    then show "logs l' (\<lambda>l' (v, _). sound_outcome oc n l' rq x v)
        (case r of Inl st' \<Rightarrow> try_verifiers oc i rq' vrq x m calls iterations ps st' | Inr v \<Rightarrow> op_ret (v, vs_degraded st))"
    proof (cases r)
      case (Inl st')
      with Cons.prems later_length [OF \<open>later l l'\<close>] \<open>sound_step oc n rq x l' r\<close> show ?thesis
        by (simp add: sound_step_def Cons.IH)
    next
      case (Inr v)
      with \<open>sound_step oc n rq x l' r\<close> show ?thesis
        by (auto simp: sound_step_def intro: logs_ret verified_later)
    qed
  qed (use Cons.prems rp in auto)
  have limit: "logs l (\<lambda>l' (v, _). sound_outcome oc n l' rq x v)
      (case vs_failure st of Some v \<Rightarrow> op_ret (v, vs_degraded st)
       | None \<Rightarrow> op_bind (verification_failure oc i rq' ''limit_reached'' t None None None None) (\<lambda>v. op_ret (v, vs_degraded st)))" for t
    using Cons.prems(2) by (auto split: option.split intro!: logs_ret eg_intros logs_value [OF _ failure_not_agreed])
  show ?case
    using Cons.prems unfolding rp try_verifiers.simps by (intro holds_if Cons.IH step limit) auto
qed

lemma early_failure_sound: "s \<noteq> ''agreed'' \<Longrightarrow> logs l (\<lambda>l' (v, _). sound_outcome oc n l' rq x v) (early_failure oc i rq' s t)"
  unfolding early_failure_def by (rule logs_value [OF _ failure_not_agreed]) (auto intro!: eg_intros logs_ret)

lemma verify_sound:
  "n \<le> length l \<Longrightarrow> logs l (\<lambda>l' (v, _). sound_outcome oc n l' rq x v) (verify_executor_result oc i rq x calls iterations m)"
  unfolding verify_executor_result_def
  by (intro holds_if early_failure_sound holds_option logs_value [OF _ candidates_independent] try_verifiers_sound eg_intros) simp_all

section \<open>Decisions\<close>

text \<open>
  The executor's result is what a call from the \<open>n\<close>-th on answered to the request, up to the context the
  earlier answers were added to; it neither refused nor escalated, and has the form its role requires.
\<close>

definition executed :: "orchestrator \<Rightarrow> nat \<Rightarrow> call_log \<Rightarrow> model_request \<Rightarrow> role \<Rightarrow> executor_result \<Rightarrow> bool" where
  "executed oc n l rq role x \<longleftrightarrow>
     (\<exists>i\<in>{n..<length l}. case call_answer oc l i of None \<Rightarrow> False
        | Some (p, q, result) \<Rightarrow>
            q\<lparr>rq_context := rq_context rq\<rparr> = rq \<and> x = executor_of role p (er_model x) result \<and>
            pv_status result \<noteq> ''refuse'' \<and> pv_status result \<noteq> ''escalate'' \<and> executor_refusal role result = None)"

lemma executedI:
  assumes "answered oc n l p q result" "q\<lparr>rq_context := rq_context rq\<rparr> = rq" "pv_status result \<noteq> ''refuse''"
    "pv_status result \<noteq> ''escalate''" "executor_refusal role result = None"
  shows "executed oc n l rq role (executor_of role p m result)"
proof -
  obtain i where i: "i \<in> {n..<length l}" "call_answer oc l i = Some (p, q, result)" using assms(1) by blast
  show ?thesis
    unfolding executed_def by (rule bexI [OF _ i(1)]) (simp add: i(2) assms, simp add: executor_of_def)
qed

lemma executed_later: "executed oc n l rq role x \<Longrightarrow> later l l' \<Longrightarrow> executed oc n l' rq role x"
  unfolding executed_def
  using later_some [where Q = "\<lambda>a. case a of None \<Rightarrow> False | Some (p, q, result) \<Rightarrow>
     q\<lparr>rq_context := rq_context rq\<rparr> = rq \<and> x = executor_of role p (er_model x) result \<and>
     pv_status result \<noteq> ''refuse'' \<and> pv_status result \<noteq> ''escalate'' \<and> executor_refusal role result = None"] by blast

text \<open>
  Without a selected role the decision carries no provider, plan or proposal, and waits for a human
  unless a deterministic tool was available. With one, the role is in the plan of the request, the
  decision says what the executor's call answered, and the answer was confident; a critical task and a
  coder's proposal wait for a human; and the result of an important task was verified.
\<close>

definition sound_decision :: "orchestrator \<Rightarrow> nat \<Rightarrow> model_request \<Rightarrow> call_log \<Rightarrow> route_decision \<Rightarrow> bool" where
  "sound_decision oc n rq l d \<longleftrightarrow>
     (case (rd_selected_role d, rd_executor_result d, rd_verification d) of
        (Some role, Some x, Some v) \<Rightarrow>
          role \<in> set (rp_roles (plan (oc_thresholds oc) (lm_max_context_tokens (oc_limits oc)) rq)) \<and>
          executed oc n l rq role x \<and>
          er_role x = role \<and> rd_selected_provider d = Some (er_provider_id x) \<and> rd_confidence d = er_confidence x \<and>
          rd_summary d = er_summary x \<and> rd_plan d = er_plan x \<and> rd_proposal d = er_proposal x \<and>
          th_minimum_provider_confidence (oc_thresholds oc) \<le> fval (rd_confidence d) \<and>
          (rq_risk rq = CRITICAL \<or> role = CODER \<longrightarrow> rd_requires_human_approval d) \<and>
          (important_task rq \<longrightarrow> verified oc n l rq x v)
      | (None, _, _) \<Rightarrow>
          rd_selected_provider d = None \<and> rd_plan d = [] \<and> rd_proposal d = None \<and>
          (rd_requires_human_approval d \<or> rq_deterministic_available rq)
      | _ \<Rightarrow> False)"

lemma sound_decision_later: "sound_decision oc n rq l d \<Longrightarrow> later l l' \<Longrightarrow> sound_decision oc n rq l' d"
  unfolding sound_decision_def by (auto split: option.splits intro: executed_later verified_later)

lemma escalation_yields: "yields (\<lambda>d. \<forall>l. sound_decision oc n rq l d) (human_escalation oc i t rq s b x v)"
  unfolding human_escalation_def Let_def by (intro yields_bind yields_ret) (simp add: sound_decision_def)

lemma escalation_sound: "logs l (sound_decision oc n rq) (human_escalation oc i t rq s b x v)"
  by (rule holds_mono [OF logs_yields [OF _ escalation_yields]]) (auto intro!: eg_intros)

definition sound_flow :: "orchestrator \<Rightarrow> nat \<Rightarrow> model_request \<Rightarrow> call_log \<Rightarrow> flow \<Rightarrow> bool" where
  "sound_flow oc n rq l f \<longleftrightarrow> (case f of Done d \<Rightarrow> sound_decision oc n rq l d | _ \<Rightarrow> True)"

abbreviation planned :: "orchestrator \<Rightarrow> route_context \<Rightarrow> role \<Rightarrow> bool" where
  "planned oc xc role \<equiv> role \<in> set (rp_roles (plan (oc_thresholds oc) (lm_max_context_tokens (oc_limits oc)) (xc_request xc)))"

text \<open>What is known of a call whose answer is judged.\<close>

definition judged :: "orchestrator \<Rightarrow> nat \<Rightarrow> route_context \<Rightarrow> call_log \<Rightarrow> role \<Rightarrow> provider_config \<Rightarrow> string \<Rightarrow> provider_result \<Rightarrow> bool" where
  "judged oc n xc l role p m result \<longleftrightarrow>
     planned oc xc role \<and> n \<le> length l \<and> executed oc n l (xc_request xc) role (executor_of role p m result) \<and>
     th_minimum_provider_confidence (oc_thresholds oc) \<le> fval (pv_confidence result)"

lemma judged_later: "judged oc n xc l role p m result \<Longrightarrow> later l l' \<Longrightarrow> judged oc n xc l' role p m result"
  unfolding judged_def using later_length [of l l'] by (auto intro: executed_later)

lemma successful_sound:
  assumes "judged oc n xc l role p m result"
    "important_task (xc_request xc) \<longrightarrow> verified oc n l (xc_request xc) (executor_of role p m result) v"
  shows "yields (sound_decision oc n (xc_request xc) l)
           (successful_decision oc i (xc_request xc) role p m result r b k (executor_of role p m result) v)"
  unfolding successful_decision_def Let_def using assms
  by (intro yields_if yields_bind yields_ret) (auto simp: sound_decision_def executor_of_def judged_def)

lemma conclude_sound:
  assumes "judged oc n xc l role p m result"
  shows "logs l (sound_decision oc n (xc_request xc)) (conclude oc xc role p m result k st)"
proof -
  let ?x = "executor_of role p m result"
  have v: "logs l (\<lambda>l' (v, _). sound_outcome oc n l' (xc_request xc) ?x v)
      (if important_task (xc_request xc) then verify_executor_result oc i (xc_request xc) ?x c j t else op_ret (not_required, False))"
    for i c j t
    by (intro holds_if verify_sound logs_ret) (use assms in \<open>simp_all add: not_required_def judged_def\<close>)
  have routed: "logs l' (sound_decision oc n (xc_request xc))
      (op_bind (successful_decision oc i (xc_request xc) role p m result r b k ?x v) (\<lambda>d. op_bind (finish t s d) (\<lambda>_. op_ret d)))"
    if "later l l'" "important_task (xc_request xc) \<longrightarrow> verified oc n l' (xc_request xc) ?x v" for l' i r b v t s
    by (rule logs_value [OF _ successful_sound [OF judged_later [OF assms that(1)] that(2)]])
      (rule eg_intros, intro logs_step eg_intros logs_ret, rule sound_decision_later)
  show ?thesis
    unfolding conclude_def Let_def
    by (rule logs_bind [OF v]) (clarify, intro holds_if escalation_sound routed; simp)
qed

lemma judge_sound:
  assumes "planned oc xc role" "answered oc n l p q result" "q\<lparr>rq_context := rq_context (xc_request xc)\<rparr> = xc_request xc"
    "executor_refusal role result = None"
  shows "logs l (sound_flow oc n (xc_request xc)) (judge_result oc xc role p m result c st)"
proof -
  have decided: "logs l (sound_flow oc n (xc_request xc)) (op_bind h (\<lambda>d. op_ret (Done d)))"
    if "logs l (sound_decision oc n (xc_request xc)) h" for h
    by (rule logs_bind [OF that], rule logs_ret) (auto simp: sound_flow_def intro: sound_decision_later)
  show ?thesis
    unfolding judge_result_def Let_def
    by (intro logs_step eg_intros holds_if decided escalation_sound conclude_sound logs_ret)
      (use assms in \<open>auto simp: sound_flow_def judged_def intro!: executedI\<close>)
qed

lemma failure_flow_sound: "logs l (sound_flow oc n rq) (model_failure oc xc role p m t st)"
  unfolding model_failure_def by (intro logs_step eg_intros logs_ret) (simp add: sound_flow_def)

lemma call_provider_sound:
  assumes "planned oc xc role" "n \<le> length l" "e\<lparr>rq_context := rq_context (xc_request xc)\<rparr> = xc_request xc"
  shows "logs l (sound_flow oc n (xc_request xc)) (call_provider oc xc role p m e t k prices rv lk st)"
proof -
  have failed: "logs l' (sound_flow oc n (xc_request xc)) (op_ret (Next st'))" for l' st'
    by (rule logs_ret) (simp add: sound_flow_def)
  show ?thesis
    unfolding call_provider_def Let_def
    by (rule logs_step, rule eg_intros, rule logs_bind [OF run_call_answer [OF assms(2)]], rule logs_step, intro eg_intros)
      (auto split: sum.split intro!: logs_step eg_intros failed judge_sound [OF assms(1) _ assms(3)])
qed

lemma handoffs_context: "(with_handoffs oc rq hs)\<lparr>rq_context := rq_context rq\<rparr> = rq"
  by (simp add: with_handoffs_def Let_def)

lemma reserve_and_call_sound:
  assumes "planned oc xc role" "n \<le> length l" "e\<lparr>rq_context := rq_context (xc_request xc)\<rparr> = xc_request xc"
  shows "logs l (sound_flow oc n (xc_request xc)) (reserve_and_call oc xc role p m e k prices st)"
proof -
  have failed: "logs l (sound_flow oc n (xc_request xc)) (op_ret (Next st'))" for st'
    by (rule logs_ret) (simp add: sound_flow_def)
  show ?thesis
    unfolding reserve_and_call_def Let_def
    by (intro logs_step holds_if eg_intros failure_flow_sound)
      (auto split: sum.split py_exc.split intro!: logs_step eg_intros failed holds_raise call_provider_sound assms)
qed

lemma try_provider_sound:
  assumes "planned oc xc role" "n \<le> length l"
  shows "logs l (sound_flow oc n (xc_request xc)) (try_provider oc xc role p st)"
proof -
  have goes_on: "logs l (sound_flow oc n (xc_request xc)) (op_ret (Next st'))" "logs l (sound_flow oc n (xc_request xc)) (op_ret (Stop st'))" for st'
    by (auto intro!: logs_ret simp: sound_flow_def)
  show ?thesis
    unfolding try_provider_def Let_def configuration_invalid_def
    by (intro logs_step holds_if eg_intros failure_flow_sound)
      (auto split: sum.split py_exc.split intro!: logs_step eg_intros goes_on holds_raise reserve_and_call_sound assms handoffs_context)
qed

lemma flow_sound: "sound_flow oc n rq l f \<Longrightarrow> later l l' \<Longrightarrow> sound_flow oc n rq l' f"
  by (auto simp: sound_flow_def split: flow.splits intro: sound_decision_later)

lemma try_providers_sound:
  "planned oc xc role \<Longrightarrow> n \<le> length l \<Longrightarrow> logs l (sound_flow oc n (xc_request xc)) (try_providers oc xc role ps st)"
proof (induction ps arbitrary: st l)
  case (Cons p ps)
  have rest: "logs l' (sound_flow oc n (xc_request xc))
      (case f of Next st' \<Rightarrow> try_providers oc xc role ps st' | Stop st' \<Rightarrow> op_ret (Stop st') | Done d \<Rightarrow> op_ret (Done d))"
    if "later l l'" "sound_flow oc n (xc_request xc) l' f" for l' f
    by (cases f) (use that Cons.prems later_length [OF that(1)] in \<open>simp_all add: Cons.IH logs_ret flow_sound\<close>)
  show ?case
    unfolding try_providers.simps by (rule logs_bind [OF try_provider_sound [OF Cons.prems] rest])
qed (simp add: logs_ret sound_flow_def)

lemma try_roles_sound:
  "\<forall>role\<in>set rs. planned oc xc role \<Longrightarrow> n \<le> length l \<Longrightarrow> logs l (sound_decision oc n (xc_request xc)) (try_roles oc xc rs st)"
proof (induction rs arbitrary: st l)
  case (Cons role rs)
  have planned: "planned oc xc role" using Cons.prems by simp
  have rest: "logs l' (sound_decision oc n (xc_request xc))
      (case f of Done d \<Rightarrow> op_ret d | Next st' \<Rightarrow> try_roles oc xc rs st' | Stop st' \<Rightarrow> try_roles oc xc rs st')"
    if "later l l'" "sound_flow oc n (xc_request xc) l' f" for l' f
    using that Cons.prems later_length [OF that(1)]
    by (cases f) (auto intro!: Cons.IH logs_ret simp: sound_flow_def intro: sound_decision_later)
  show ?case
    unfolding try_roles.simps Let_def
    by (rule holds_if, rule escalation_sound, rule logs_step, rule eg_intros, rule logs_step, rule eg_intros,
        rule logs_bind [OF try_providers_sound [OF planned Cons.prems(2)] rest])
qed (simp add: escalation_sound)

lemma deterministic_sound:
  "rp_deterministic (plan th k rq) \<Longrightarrow> logs l (sound_decision oc n rq) (deterministic_decision oc i t rq (plan th k rq))"
  unfolding deterministic_decision_def Let_def
  by (intro logs_step eg_intros logs_ret) (auto simp: sound_decision_def plan_def split: if_splits)

lemma route_request_sound: "logs l (sound_decision oc (length l) rq) (route_request oc rq)"
  unfolding route_request_def Let_def invoke_plan_def
  by (intro logs_step eg_intros holds_if deterministic_sound) (auto intro!: try_roles_sound [where xc = "\<lparr>xc_route_id = _, xc_started = _, xc_request = rq, xc_plan = _, xc_max_cost = _\<rparr>", simplified])

text \<open>
  C3. A decision of the orchestrator is sound, for every deployment, provider answer and database, in terms
  of the provider calls this route made: an answer is what a call made during the route answered, under
  a role the plan offered, neither refused nor escalated, and meets the confidence threshold; an important
  task is answered only if an entry of the call log shows a verifier on another known account and of
  another known model family that was sent this very result and answered that it agrees, with status ok
  and the minimum confidence; critical risk and code proposals require human approval; and a decision
  without a model result carries no plan or proposal and requires a human, unless a deterministic tool
  was declared available.
\<close>
theorem route_decision_sound:
  "case route_request oc rq w of
     (Inr d, w') \<Rightarrow> sound_decision oc (length (ow_calls w)) rq (ow_calls w') d | (Inl e, w') \<Rightarrow> True"
  using holdsD [OF route_request_sound [of "ow_calls w" oc rq] later_refl]
  by (auto split: prod.split sum.split)

end
