(* ===== verification/Ledger_Correct.thy ===== *)
theory Ledger_Correct
  imports Sample_Orchestrator
begin

text \<open>
  The budget ledger and the adaptive score: what a successful reservation guarantees of every cap, where
  that guarantee ends, and how far history can move the cost a deployment is ranked by.
\<close>

section \<open>The adaptive score\<close>

lemma median_in: "median xs = Some m \<Longrightarrow> \<forall>x\<in>set xs. a \<le> x \<and> x \<le> b \<Longrightarrow> a \<le> m \<and> m \<le> b"
proof -
  assume m: "median xs = Some m" and xs: "\<forall>x\<in>set xs. a \<le> x \<and> x \<le> b"
  have ne: "xs \<noteq> []" using m by (auto simp: median_def)
  have mid: "length xs div 2 < length xs" "length xs div 2 - 1 < length xs" using ne by (auto simp: length_greater_0_conv [symmetric] simp del: length_greater_0_conv)
  have nth: "a \<le> sort xs ! i \<and> sort xs ! i \<le> b" if "i < length xs" for i
    using xs that by (metis length_sort nth_mem set_sort)
  show ?thesis
    using m ne nth [OF mid(1)] nth [OF mid(2)]
    by (auto simp: median_def Let_def split: if_splits)
qed

lemma clamp_bounds: "0 \<le> b \<Longrightarrow> - b \<le> clamp b x \<and> clamp b x \<le> (b :: int)"
  by auto

lemma latency_policy_bounds:
  "1 \<le> fst (LATENCY_POLICY u) \<and> fst (LATENCY_POLICY u) \<le> 300000 \<and> 0 \<le> snd (LATENCY_POLICY u) \<and> snd (LATENCY_POLICY u) \<le> 150000"
  by (cases u) (simp_all add: LATENCY_POLICY_def)

lemma scaled_bounds:
  fixes g m :: int
  assumes "- 1000000 \<le> g" "g \<le> 1000000" "0 \<le> m" "m \<le> 150000"
  shows "- 150000 \<le> g * m div 1000000 \<and> g * m div 1000000 \<le> 150000"
proof -
  have "(- m) * 1000000 div 1000000 \<le> g * m div 1000000" "g * m div 1000000 \<le> m * 1000000 div 1000000"
    using mult_right_mono [of "- 1000000" g m] mult_right_mono [of g 1000000 m] assms
    by (intro zdiv_mono1; simp)+
  then show ?thesis using assms by simp
qed

lemma latency_adjustment_bounds: "- 150000 \<le> latency_adjustment u xs \<and> latency_adjustment u xs \<le> 150000"
proof -
  have "- 150000 \<le> clamp 1000000 g * snd (LATENCY_POLICY v) div 1000000 \<and> clamp 1000000 g * snd (LATENCY_POLICY v) div 1000000 \<le> 150000" for g v
    using latency_policy_bounds [of v] by (intro scaled_bounds) auto
  note step = this
  show ?thesis
  proof (cases "u = None \<or> median xs = None \<or> length xs < 5")
    case True
    then show ?thesis by (auto simp: latency_adjustment_def split: option.split)
  next
    case False
    then obtain v m where "u = Some v" "median xs = Some m" "\<not> length xs < 5" by auto
    then show ?thesis using step [of "(m - fst (LATENCY_POLICY v)) * 1000000 div fst (LATENCY_POLICY v)" v] by (simp only: latency_adjustment_def) simp
  qed
qed

lemma posterior_bounds: "0 \<le> posterior_quality vs a c \<and> posterior_quality vs a c \<le> 1000"
  unfolding posterior_quality_def Let_def by (simp only: max.cobounded1 max.bounded_iff min.cobounded1) simp

lemma quality_adjustment_bounds: "- 150000 \<le> quality_adjustment v a p \<and> quality_adjustment v a p \<le> 150000"
  using clamp_bounds [of 150000 "(750 - p) * 500"] unfolding quality_adjustment_def by presburger

lemma attempt_latency_bounds: "x \<in> set (List.map_filter (attempt_latency oc) us) \<Longrightarrow> 0 \<le> x \<and> x \<le> 300000"
  by (auto simp: List.map_filter_def attempt_latency_def split: if_splits)

lemma map_filter_length: "length (List.map_filter f xs) \<le> length xs"
  by (simp add: List.map_filter_def)

lemma adaptive_cost_bounds:
  assumes "0 \<le> cost" "- 150000 \<le> a" "a \<le> 150000"
  shows "850000 * cost \<le> 1000000 * adaptive_cost cost a \<and> 1000000 * adaptive_cost cost a \<le> 1150000 * cost + 999999"
proof -
  define t where "t = cost * (1000000 + a)"
  have scaled: "850000 * cost \<le> t" "t \<le> 1150000 * cost" unfolding t_def
    using mult_right_mono [of "-150000" a cost] mult_right_mono [of a 150000 cost] assms by (simp_all add: algebra_simps)
  have "t \<le> 1000000 * ((t + 1000000 - 1) div 1000000) \<and> 1000000 * ((t + 1000000 - 1) div 1000000) \<le> t + 999999"
    using mult_div_mod_eq [of 1000000 "t + 1000000 - 1"] pos_mod_bound [of 1000000 "t + 1000000 - 1"]
      pos_mod_sign [of 1000000 "t + 1000000 - 1"] by linarith
  then show ?thesis unfolding adaptive_cost_def t_def [symmetric] using scaled by linarith
qed

text \<open>
  C26. History moves the cost a deployment is ranked by at most 15 percent away from its estimate, in either
  direction, and the score that records it satisfies every \<^verbatim>\<open>CHECK\<close> constraint of the audit table, so it can
  always be stored.
\<close>
theorem adaptive_cost_bounded:
  assumes "0 \<le> cost" "1 \<le> rank"
  shows "\<exists>s. candidate_score oc task provider account model cost urgency usage_role d = Inr s \<and>
             sc_estimated_cost s = cost \<and> score_in_bounds s rank \<and>
             850000 * cost \<le> 1000000 * sc_adaptive_cost s \<and> 1000000 * sc_adaptive_cost s \<le> 1150000 * cost + 999999"
proof -
  let ?us = "history_attempts task provider model usage_role 500 d"
  let ?xs = "List.map_filter (attempt_latency oc) ?us"
  have us: "length ?us \<le> 500" by (simp add: history_attempts_def)
  have xs: "length ?xs \<le> 500" using map_filter_length [of "attempt_latency oc" ?us] us by simp
  have observed: "0 \<le> m \<and> m \<le> 300000" if "median ?xs = Some m" for m
    using that by (rule median_in) (use attempt_latency_bounds in blast)
  obtain s where s: "candidate_score oc task provider account model cost urgency usage_role d = Inr s"
    using assms(1) by (simp add: candidate_score_def Let_def)
  note fields = s [unfolded candidate_score_def Let_def if_not_P [OF assms(1) [THEN leD]] sum.inject, symmetric]
  have adjustment: "sc_adjustment s = clamp 150000 (sc_quality_adjustment s + sc_latency_adjustment s)"
    and cost: "sc_adaptive_cost s = adaptive_cost cost (sc_adjustment s)" "sc_estimated_cost s = cost"
    and latency: "sc_latency_adjustment s = latency_adjustment urgency ?xs" "sc_observed_latency s = median ?xs"
      "sc_latency_samples s = int (length ?xs)" "sc_latency_target s = map_option (\<lambda>u. fst (LATENCY_POLICY u)) urgency"
    and quality: "\<exists>v a p. sc_quality_adjustment s = quality_adjustment v a p"
      "\<exists>vs a c. sc_posterior_quality s = posterior_quality vs a c"
    and counts: "0 \<le> sc_attempt_count s" "0 \<le> sc_completed_attempts s" "0 \<le> sc_uncertain_attempts s"
      "0 \<le> sc_validation_count s" "0 \<le> sc_successful_validations s"
    unfolding fields by (simp_all only: score.select_convs) auto
  have bounds: "- 150000 \<le> sc_adjustment s" "sc_adjustment s \<le> 150000" unfolding adjustment by simp_all
  have "850000 * cost \<le> 1000000 * sc_adaptive_cost s \<and> 1000000 * sc_adaptive_cost s \<le> 1150000 * cost + 999999"
    unfolding cost by (rule adaptive_cost_bounds) (use assms bounds in auto)
  moreover have "score_in_bounds s rank"
  proof -
    have "0 \<le> sc_posterior_quality s" "sc_posterior_quality s \<le> 1000" "- 150000 \<le> sc_quality_adjustment s" "sc_quality_adjustment s \<le> 150000"
      using quality posterior_bounds quality_adjustment_bounds by metis+
    moreover have "case sc_observed_latency s of None \<Rightarrow> True | Some v \<Rightarrow> 0 \<le> v \<and> v \<le> 300000"
      unfolding latency using observed by (auto split: option.split)
    moreover have "case sc_latency_target s of None \<Rightarrow> True | Some v \<Rightarrow> 1 \<le> v \<and> v \<le> 300000"
      unfolding latency using latency_policy_bounds by (auto split: option.split)
    moreover have "0 \<le> sc_adaptive_cost s" using calculation \<open>850000 * cost \<le> 1000000 * sc_adaptive_cost s \<and> _\<close> assms by linarith
    ultimately show ?thesis
      unfolding score_in_bounds_def using bounds counts cost assms xs latency latency_adjustment_bounds by simp
  qed
  ultimately show ?thesis using s cost by blast
qed

lemma adaptive_cost_bounded_witness:
  "\<exists>s. candidate_score sample_orchestrator ''ANALYZE'' ''p-ops'' None ''m1'' 1000 (Some NORMAL) None empty_odb = Inr s \<and>
       850000000 \<le> 1000000 * sc_adaptive_cost s \<and> 1000000 * sc_adaptive_cost s \<le> 1150999999"
  using adaptive_cost_bounded [of 1000 1 sample_orchestrator "''ANALYZE''" "''p-ops''" None "''m1''" "Some NORMAL" None empty_odb] by auto

section \<open>Reservations and caps\<close>

text \<open>Every cap that applies to a call of deployment \<open>p\<close>, on the day and in the month of \<open>t\<close>.\<close>

definition provider_capped :: "provider_config \<Rightarrow> string \<Rightarrow> instant \<Rightarrow> odb \<Rightarrow> bool" where
  "provider_capped p mission_id t d \<longleftrightarrow>
     (let l = pc_budget p; day = aggregate (pc_provider_id p) (day_prefix t) None d;
          month = aggregate (pc_provider_id p) (month_prefix t) None d;
          mission = aggregate (pc_provider_id p) [] (Some mission_id) d in
      ut_calls day \<le> bl_daily_calls l \<and> ut_calls month \<le> bl_monthly_calls l \<and>
      ut_tokens day \<le> bl_daily_tokens l \<and> ut_tokens month \<le> bl_monthly_tokens l \<and>
      ut_cost day \<le> bl_daily_cost l \<and> ut_cost month \<le> bl_monthly_cost l \<and> ut_cost mission \<le> bl_mission_cost l)"

definition account_capped :: "orchestrator \<Rightarrow> provider_config \<Rightarrow> string \<Rightarrow> instant \<Rightarrow> odb \<Rightarrow> bool" where
  "account_capped oc p route_id t d \<longleftrightarrow>
     (case pc_account_id p of
        None \<Rightarrow> True
      | Some a \<Rightarrow>
          (case map_of (oc_account_budgets oc) a of
             None \<Rightarrow> False
           | Some l \<Rightarrow>
               let day = aggregate_account a (day_prefix t) None d; month = aggregate_account a (month_prefix t) None d;
                   task = aggregate_account a [] (Some route_id) d in
               ut_calls day \<le> ab_daily_calls l \<and> ut_calls month \<le> ab_monthly_calls l \<and>
               ut_tokens day \<le> ab_daily_tokens l \<and> ut_tokens month \<le> ab_monthly_tokens l \<and>
               ut_cost day \<le> ab_daily_cost l \<and> ut_cost month \<le> ab_monthly_cost l \<and>
               ut_calls task \<le> ab_task_calls l \<and> ut_tokens task \<le> ab_task_tokens l \<and> ut_cost task \<le> ab_task_cost l))"

definition request_capped :: "string \<Rightarrow> int option \<Rightarrow> odb \<Rightarrow> bool" where
  "request_capped route_id max_cost d \<longleftrightarrow> (case max_cost of None \<Rightarrow> True | Some m \<Rightarrow> route_cost route_id d \<le> m)"

lemma starts_with_take: "starts_with (take n s) s"
  by (induction s arbitrary: n) (auto simp: take_Cons split: nat.split)

lemma same_day_like:
  assumes "day_prefix t = day_prefix u"
  shows "created_like (day_prefix t) u" "created_like (month_prefix t) u" "month_prefix t = month_prefix u"
proof -
  have "month_prefix v = take 7 (day_prefix v)" for v by (simp add: month_prefix_def day_prefix_def)
  then show m: "month_prefix t = month_prefix u" using assms by simp
  show "created_like (day_prefix t) u" unfolding assms by (simp add: created_like_def day_prefix_def starts_with_take)
  show "created_like (month_prefix t) u" unfolding m by (simp add: created_like_def month_prefix_def starts_with_take)
qed

text \<open>Adding a fresh reservation to a total that counts it.\<close>

definition added :: "usage_total \<Rightarrow> int \<Rightarrow> int \<Rightarrow> usage_total" where
  "added u tokens cost = \<lparr>ut_calls = ut_calls u + 1, ut_tokens = ut_tokens u + tokens, ut_cost = ut_cost u + cost\<rparr>"

lemma total_snoc: "total_of (rs @ [r]) = added (total_of rs) (row_tokens r) (row_cost r)"
  by (simp add: total_of_def added_def)

lemma reserved_row:
  "row_tokens (reservation_row p c i mi ro m t tm a b k) = a + b" "row_cost (reservation_row p c i mi ro m t tm a b k) = k"
  by (simp_all add: row_tokens_def row_cost_def reservation_row_def)

lemma check_caps_ok: "check_caps who cs = Inr u \<longleftrightarrow> list_all (\<lambda>(v, l, _). v \<le> l) cs"
  by (fastforce simp: check_caps_def res_all_Inr_iff list_all_iff raise_if_def split: if_splits)

lemma aggregate_snoc:
  assumes "ur_provider_id r = i" "created_like t (ur_created_at r)" "m = None \<or> Some (ur_mission_id r) = m"
  shows "aggregate i t m (d\<lparr>od_usage := od_usage d @ [r]\<rparr>) = added (aggregate i t m d) (row_tokens r) (row_cost r)"
  using assms by (auto simp: aggregate_def total_snoc)

lemma aggregate_account_snoc:
  assumes "ur_account_id r = Some a" "created_like t (ur_created_at r)" "i = None \<or> Some (ur_route_id r) = i"
  shows "aggregate_account a t i (d\<lparr>od_usage := od_usage d @ [r]\<rparr>) = added (aggregate_account a t i d) (row_tokens r) (row_cost r)"
  using assms by (auto simp: aggregate_account_def total_snoc)

lemma row_fields [simp]:
  "ur_provider_id (reservation_row p c i mi ro m t tm a b k) = pc_provider_id p"
  "ur_account_id (reservation_row p c i mi ro m t tm a b k) = pc_account_id p"
  "ur_created_at (reservation_row p c i mi ro m t tm a b k) = tm"
  "ur_mission_id (reservation_row p c i mi ro m t tm a b k) = mi"
  "ur_route_id (reservation_row p c i mi ro m t tm a b k) = i"
  "ur_call_id (reservation_row p c i mi ro m t tm a b k) = c"
  "ur_status (reservation_row p c i mi ro m t tm a b k) = ''reserved''"
  by (simp_all add: reservation_row_def)

lemma like_all [simp]: "created_like [] t"
  by (simp add: created_like_def)

lemma provider_checks_kept:
  assumes day: "day_prefix now = day_prefix tm"
    and ok: "list_all (\<lambda>(v, l, _). v \<le> l)
      (provider_checks (pc_budget p) (aggregate (pc_provider_id p) (day_prefix now) None d)
         (aggregate (pc_provider_id p) (month_prefix now) None d) (aggregate (pc_provider_id p) [] (Some mi) d) (a + b) k)"
  shows "provider_capped p mi tm (d\<lparr>od_usage := od_usage d @ [reservation_row p c i mi ro m t tm a b k]\<rparr>)"
proof -
  note like = same_day_like(1,2) [OF refl, of tm] and month = same_day_like(3) [OF day]
  show ?thesis
    unfolding provider_capped_def Let_def
    using ok by (simp add: aggregate_snoc like reserved_row added_def provider_checks_def day month add.assoc add.left_commute)
qed

lemma account_checks_kept:
  assumes day: "day_prefix now = day_prefix tm" and ok: "check_account oc p i now (a + b) k d = Inr ()"
  shows "account_capped oc p i tm (d\<lparr>od_usage := od_usage d @ [reservation_row p c i mi ro m t tm a b k]\<rparr>)"
proof (cases "pc_account_id p")
  case (Some acc)
  note like = same_day_like(1,2) [OF refl, of tm] and month = same_day_like(3) [OF day]
  obtain l where l: "map_of (oc_account_budgets oc) acc = Some l"
    using ok Some by (auto simp: check_account_def split: option.splits)
  have "list_all (\<lambda>(v, l, _). v \<le> l)
      (account_checks l (aggregate_account acc (day_prefix tm) None d) (aggregate_account acc (month_prefix tm) None d)
         (aggregate_account acc [] (Some i) d) (a + b) k)"
    using ok Some l by (simp add: check_account_def check_caps_ok day month)
  then show ?thesis
    unfolding account_capped_def Let_def Some option.case l
    by (simp add: aggregate_account_snoc like Some reserved_row added_def account_checks_def add.assoc)
qed (simp add: account_capped_def)

lemma request_check_kept:
  "(case mx of None \<Rightarrow> True | Some m' \<Rightarrow> route_cost i d + k \<le> m') \<Longrightarrow>
   request_capped i mx (d\<lparr>od_usage := od_usage d @ [reservation_row p c i mi ro m t tm a b k]\<rparr>)"
  by (auto simp: request_capped_def route_cost_def reserved_row split: option.splits)

lemma check_limits_ok:
  "check_limits oc p i mi mx now n k d = Inr () \<longleftrightarrow>
     (case mx of None \<Rightarrow> True | Some m' \<Rightarrow> route_cost i d + k \<le> m') \<and>
     list_all (\<lambda>(v, l, _). v \<le> l)
       (provider_checks (pc_budget p) (aggregate (pc_provider_id p) (day_prefix now) None d)
          (aggregate (pc_provider_id p) (month_prefix now) None d) (aggregate (pc_provider_id p) [] (Some mi) d) n k) \<and>
     check_account oc p i now n k d = Inr ()"
  by (auto simp: check_limits_def check_caps_ok raise_if_def split: option.splits)

lemma reserve_Inl: "reserve oc i mi p m t a b mx ps u w = (Inl e, w') \<Longrightarrow> w_db w' = w_db w"
  unfolding reserve_def
  by (auto simp: op_bind_Inl op_simps op_raise_if_def op_lift_def op_now_def op_uuid4_def transaction_Inl op_query_def op_exec_def
        op_ret_def raise_if_def)

lemma reserve_run:
  assumes "estimated_cost_microusd a b ps = Inr k" "check_limits oc p i mi mx (w_clock w (w_ticks w)) (a + b) k (w_db w) = Inr ()"
    and "int64 a" "int64 b" "int64 k" "0 \<le> a" "0 \<le> b" "0 \<le> k" "pc_location p \<in> {''local'', ''remote''}"
    and "\<forall>r\<in>set (od_usage (w_db w)). ur_call_id r \<noteq> w_uuids w (w_drawn w)"
  shows "\<exists>rv w'. reserve oc i mi p m t a b mx ps None w = (Inr rv, w') \<and>
     w_db w' = (w_db w)\<lparr>od_usage := od_usage (w_db w) @
       [reservation_row p (w_uuids w (w_drawn w)) i mi (role_value (pc_role p)) m t (w_clock w (Suc (w_ticks w))) a b k]\<rparr>"
proof -
  have fresh: "select_one (\<lambda>r. ur_call_id r = w_uuids w (w_drawn w)) (od_usage (w_db w)) = None"
    using assms(10) by (simp add: select_one_def find_None_iff)
  show ?thesis
    using assms(1-9)
    by (simp add: reserve_def op_run_bind transaction_def op_bind_def op_lift_def op_query_def op_now_def op_uuid4_def op_raise_if_def raise_if_def
          op_exec_def op_ret_def fresh bind_ints_def)
qed

text \<open>
  C12. A successful reservation adds exactly one reserved row to the ledger, at the estimated cost of its
  tokens, and afterwards every cap still holds: the deployment's daily and monthly calls, tokens and cost,
  the mission's cost, the shared account's daily, monthly and per-task limits, and the request's own cost
  limit. A refused one changes nothing. This holds when the two readings of the clock, before and after the
  write lock is taken, fall on the same day.
\<close>
theorem reserve_keeps_caps:
  assumes "day_prefix (w_clock w (w_ticks w)) = day_prefix (w_clock w (Suc (w_ticks w)))"
  shows "case reserve oc i mi p m t a b mx ps u w of
           (Inl e, w') \<Rightarrow> w_db w' = w_db w
         | (Inr rv, w') \<Rightarrow>
             let tm = w_clock w (Suc (w_ticks w)); r = last (od_usage (w_db w')) in
             od_usage (w_db w') = od_usage (w_db w) @ [r] \<and> ur_call_id r = rv_call_id rv \<and> ur_status r = ''reserved'' \<and>
             estimated_cost_microusd a b ps = Inr (row_cost r) \<and> row_tokens r = a + b \<and>
             provider_capped p mi tm (w_db w') \<and> account_capped oc p i tm (w_db w') \<and> request_capped i mx (w_db w')"
proof (cases "reserve oc i mi p m t a b mx ps u w")
  case (Pair r w')
  show ?thesis
  proof (cases r)
    case (Inl e)
    then show ?thesis using Pair reserve_Inl by auto
  next
    case (Inr rv)
    let ?now = "w_clock w (w_ticks w)" and ?tm = "w_clock w (Suc (w_ticks w))"
    obtain k c ro where k: "estimated_cost_microusd a b ps = Inr k"
      and ok: "check_limits oc p i mi mx ?now (a + b) k (w_db w) = Inr ()" and c: "rv_call_id rv = c"
      and db: "w_db w' = (w_db w)\<lparr>od_usage := od_usage (w_db w) @ [reservation_row p c i mi ro m t ?tm a b k]\<rparr>"
      using Pair Inr unfolding reserve_def by (auto simp: op_simps)
    show ?thesis
      using ok provider_checks_kept [OF assms] account_checks_kept [OF assms] request_check_kept
      by (simp add: Pair Inr Let_def db c k reserved_row check_limits_ok)
  qed
qed

definition sample_reserve :: "reservation oop" where
  "sample_reserve = reserve sample_orchestrator ''r-1'' ''m-1'' (sample_provider ''p-ops'' LOCAL_OPS ''acc-a'' ''fam-a'') ''m1'' ''why'' 900 100
     (Some 2000) (1000000, 2000000) None"

lemma sample_day: "day_prefix (orch_clock 0) = day_prefix (orch_clock (Suc 0))"
  by code_simp

lemma sample_reserve_ok: "map_sum (\<lambda>_. ()) rv_cost (fst (sample_reserve (sample_oworld empty_odb))) = Inr 1100"
  by code_simp

lemma reserve_keeps_caps_witness:
  "\<exists>rv w'. sample_reserve (sample_oworld empty_odb) = (Inr rv, w') \<and> length (od_usage (w_db w')) = 1 \<and>
     provider_capped (sample_provider ''p-ops'' LOCAL_OPS ''acc-a'' ''fam-a'') ''m-1'' (orch_clock 1) (w_db w') \<and>
     request_capped ''r-1'' (Some 2000) (w_db w')"
proof -
  have "day_prefix (w_clock (sample_oworld empty_odb) (w_ticks (sample_oworld empty_odb))) =
      day_prefix (w_clock (sample_oworld empty_odb) (Suc (w_ticks (sample_oworld empty_odb))))"
    using sample_day by (simp add: sample_oworld_def)
  note kept = reserve_keeps_caps [OF this, where oc = sample_orchestrator and i = "''r-1''" and mi = "''m-1''" and
      p = "sample_provider ''p-ops'' LOCAL_OPS ''acc-a'' ''fam-a''" and m = "''m1''" and t = "''why''" and a = 900 and b = 100 and
      mx = "Some 2000" and ps = "(1000000, 2000000)" and u = None, folded sample_reserve_def]
  obtain rv w' where run: "sample_reserve (sample_oworld empty_odb) = (Inr rv, w')"
    using sample_reserve_ok by (cases "sample_reserve (sample_oworld empty_odb)"; cases "fst (sample_reserve (sample_oworld empty_odb))") auto
  have "od_usage (w_db (sample_oworld empty_odb)) = []" "w_clock (sample_oworld empty_odb) (Suc (w_ticks (sample_oworld empty_odb))) = orch_clock 1"
    by (simp_all add: sample_oworld_def empty_odb_def)
  note kept = kept [unfolded run prod.case sum.case Let_def this append_Nil]
  have "length (od_usage (w_db w')) = 1" using arg_cong [OF kept [THEN conjunct1], of length] by simp
  then show ?thesis using kept run by simp
qed

section \<open>Midnight\<close>

text \<open>A clock whose second reading is the first instant of the next day, and a ledger in which that day is used up.\<close>

definition midnight :: instant where
  "midnight = seconds (86400 * 730000)"

definition full_day :: odb where
  "full_day = empty_odb\<lparr>od_usage := [reservation_row (sample_provider ''p-ops'' LOCAL_OPS ''acc-a'' ''fam-a'') ''c-0'' ''r-0'' ''m-0''
     ''ROLE_LOCAL_OPS'' ''m1'' ''why'' midnight 0 0 0]\<rparr>"

definition tight_provider :: provider_config where
  "tight_provider = (sample_provider ''p-ops'' LOCAL_OPS ''acc-a'' ''fam-a'')\<lparr>pc_budget := sample_budget\<lparr>bl_daily_calls := 1\<rparr>\<rparr>"

definition late_world :: oworld where
  "late_world = (sample_oworld full_day)\<lparr>w_clock := (\<lambda>n. if n = 0 then midnight - 1 else midnight)\<rparr>"

lemma late_limits: "check_limits sample_orchestrator tight_provider ''r-1'' ''m-1'' None (midnight - 1) 1000 1100 full_day = Inr ()"
  by code_simp

lemma late_cost: "estimated_cost_microusd 900 100 (1000000, 2000000) = Inr 1100"
  by code_simp

lemma full_day_calls: "ut_calls (aggregate ''p-ops'' (day_prefix midnight) None full_day) = 1"
  using same_day_like(1) [OF refl, of midnight] by (simp add: aggregate_def full_day_def total_of_def empty_odb_def sample_provider_def)

text \<open>
  C28. The caps are checked for the day that was read before the write lock was awaited, while the row is
  stamped with the time of the insertion: a reservation that straddles midnight succeeds although the
  new day's calls were already used up, and exceeds the daily cap.
\<close>
theorem midnight_exceeds_cap:
  "case reserve sample_orchestrator ''r-1'' ''m-1'' tight_provider ''m1'' ''why'' 900 100 None (1000000, 2000000) None late_world of
     (Inr rv, w') \<Rightarrow> ut_calls (aggregate ''p-ops'' (day_prefix midnight) None (w_db w')) = 2 \<and> bl_daily_calls (pc_budget tight_provider) = 1
   | _ \<Rightarrow> False"
proof -
  have world: "w_db late_world = full_day" "w_clock late_world 0 = midnight - 1" "w_clock late_world (Suc 0) = midnight"
      "w_ticks late_world = 0" "w_uuids late_world (w_drawn late_world) = orch_uuid 0"
    by (simp_all add: late_world_def sample_oworld_def)
  have p: "pc_provider_id tight_provider = ''p-ops''" "pc_location tight_provider = ''remote''" "bl_daily_calls (pc_budget tight_provider) = 1"
    by (simp_all add: tight_provider_def sample_provider_def)
  have fresh: "\<forall>r\<in>set (od_usage full_day). ur_call_id r \<noteq> orch_uuid 0"
    by (simp add: full_day_def orch_uuid_def)
  obtain rv w' where run: "reserve sample_orchestrator ''r-1'' ''m-1'' tight_provider ''m1'' ''why'' 900 100 None (1000000, 2000000) None late_world = (Inr rv, w')"
    and db: "w_db w' = full_day\<lparr>od_usage := od_usage full_day @ [reservation_row tight_provider (orch_uuid 0) ''r-1'' ''m-1''
      (role_value (pc_role tight_provider)) ''m1'' ''why'' midnight 900 100 1100]\<rparr>"
    using reserve_run [OF late_cost, of sample_orchestrator tight_provider "''r-1''" "''m-1''" None late_world "''m1''" "''why''"] late_limits fresh
    by (auto simp: world p int64_def)
  show ?thesis
    unfolding run prod.case sum.case db
    using full_day_calls same_day_like(1) [OF refl, of midnight] by (simp add: aggregate_snoc p added_def)
qed

end
