(* ===== verification/Orch_Frame.thy ===== *)
theory Orch_Frame
  imports Orch_Parse Op_Logic
begin

text \<open>
  The interface between the routing loops and the store. \<open>route_frame\<close> lists what routing does to the world
  and assumes that each keeps an invariant \<open>I\<close>: a trace event as long as its floats are \<open>plain\<close>, the end of
  a run as long as the run is the route's own, the settlement of a reservation as long as it was made by
  the route. What the operations keep, a whole route keeps, however it ends. The theories on the trace, the
  ledger and the calls interpret the locale.
\<close>

section \<open>The floats of a request and of an event\<close>

definition plain_request :: "(flt \<Rightarrow> bool) \<Rightarrow> model_request \<Rightarrow> bool" where
  "plain_request P rq \<longleftrightarrow> P (rq_complexity rq) \<and> P (rq_impact rq) \<and> P (rq_confidence rq)"

abbreviation plain_option :: "(flt \<Rightarrow> bool) \<Rightarrow> flt option \<Rightarrow> bool" where
  "plain_option P c \<equiv> \<forall>x. c = Some x \<longrightarrow> P x"

definition plain_facts :: "(flt \<Rightarrow> bool) \<Rightarrow> event_facts \<Rightarrow> bool" where
  "plain_facts P f \<longleftrightarrow>
     P (ef_complexity f) \<and> P (ef_impact f) \<and> plain_option P (ef_confidence_in f) \<and> plain_option P (ef_confidence_out f)"

lemma plain_route_event [simp]: "plain_facts P (route_event rq i t r c) \<longleftrightarrow> P (rq_complexity rq) \<and> P (rq_impact rq) \<and> plain_option P c"
  by (auto simp: plain_facts_def route_event_def)

lemma plain_provider_event [simp]: "plain_facts P (provider_event rq i t r role p m c) \<longleftrightarrow> plain_facts P (route_event rq i t r c)"
  by (auto simp: plain_facts_def route_event_def provider_event_def)

lemma plain_updates [simp]:
  "plain_facts P (f\<lparr>ef_role := a\<rparr>) = plain_facts P f" "plain_facts P (f\<lparr>ef_input_tokens := n\<rparr>) = plain_facts P f"
  "plain_facts P (f\<lparr>ef_output_tokens := n\<rparr>) = plain_facts P f" "plain_facts P (f\<lparr>ef_cost := n\<rparr>) = plain_facts P f"
  "plain_facts P (f\<lparr>ef_location := a\<rparr>) = plain_facts P f" "plain_facts P (f\<lparr>ef_provider_id := a\<rparr>) = plain_facts P f"
  "plain_facts P (f\<lparr>ef_model := a\<rparr>) = plain_facts P f"
  by (simp_all add: plain_facts_def)

lemma plain_out: "plain_facts P f \<Longrightarrow> P x \<Longrightarrow> plain_facts P (f\<lparr>ef_confidence_out := Some x\<rparr>)"
  by (simp add: plain_facts_def)

lemma plain_handoffs [simp]: "plain_request P (with_handoffs oc rq hs) = plain_request P rq"
  by (simp add: with_handoffs_def plain_request_def Let_def)

lemma plain_verification: "verification_request oc rq x = Some vrq \<Longrightarrow> plain_request P vrq = plain_request P rq"
  by (auto simp: verification_request_def plain_request_def Let_def split: if_splits)

section \<open>The interface\<close>

locale route_frame =
  fixes oc :: orchestrator
    and I :: "oworld \<Rightarrow> bool"
    and own_run :: "string \<Rightarrow> bool"
    and own_call :: "reservation \<Rightarrow> bool"
    and plain :: "flt \<Rightarrow> bool"
  assumes silent: "\<And>w w'. w_db w' = w_db w \<Longrightarrow> ow_calls w' = ow_calls w \<Longrightarrow> I w \<Longrightarrow> I w'"
    and invoke: "\<And>p rq n. holds I (\<lambda>_ r. plain (pv_confidence r)) (op_invoke oc p rq n)"
    and increment: "\<And>m l n. keeps_inv I (increment m l n)"
    and append: "\<And>f. plain_facts plain f \<Longrightarrow> keeps_inv I (trace_append oc f)"
    and start: "\<And>i rq r t. holds I (\<lambda>_ _. own_run i) (start_run i rq r t)"
    and finish_run: "\<And>i s t n a b. own_run i \<Longrightarrow> keeps_inv I (finish_run i s t n a b)"
    and audit: "\<And>i t r xs. keeps_inv I (record_adaptive_score_audit i t r xs)"
    and reserve: "\<And>i mi p m t a c k ps u. holds I (\<lambda>_. own_call) (reserve oc i mi p m t a c k ps u)"
    and complete: "\<And>rv a c ps. own_call rv \<Longrightarrow> keeps_inv I (complete rv a c ps)"
    and uncertain: "\<And>rv e a c ps. own_call rv \<Longrightarrow> keeps_inv I (mark_uncertain rv e a c ps)"
begin

lemma monotonic: "keeps_inv I op_monotonic"
  by (rule holdsI) (auto simp: op_monotonic_def intro: silent)

lemma available: "keeps_inv I (op_available oc p)"
  by (rule holdsI) (auto simp: op_available_def intro: silent)

lemma acquire: "keeps_inv I (op_acquire oc)"
  by (rule holdsI) (auto simp: op_acquire_def Let_def intro: silent)

lemma release: "keeps_inv I op_release"
  by (rule holdsI) (auto simp: op_release_def intro: silent)

lemma draw: "keeps_inv I op_uuid4"
  by (rule holdsI) (auto simp: op_uuid4_def intro: silent)

lemma guarded: "keeps_inv I m \<Longrightarrow> keeps_inv I (op_when c m)"
  by (simp add: op_when_def holds_ret)

lemma attempt: "holds I (\<lambda>_. V) m \<Longrightarrow> holds I (\<lambda>_ r. \<forall>x. r = Inr x \<longrightarrow> V x) (op_try m)"
  by (rule holdsI) (auto simp: op_try_def split: prod.splits dest: holdsD)

lemmas quiet = monotonic available acquire release draw guarded increment audit holds_keeps [OF holds_query] holds_keeps [OF holds_lift]

lemmas steps = holds_rules holds_skip quiet append

lemma run_call:
  assumes "own_call rv"
  shows "holds I (\<lambda>_ r. \<forall>result cost. r = Inr (result, cost) \<longrightarrow> plain (pv_confidence result)) (run_call oc p rq rv f t n j ps)"
proof -
  have settled: "keeps_inv I (op_try (complete rv a b c))" for a b c
    using attempt [OF complete [OF assms]] by (rule holds_keeps)
  show ?thesis
    unfolding run_call_def
    by (rule holds_value [OF attempt [OF invoke]]) (auto split: sum.split intro!: holds_skip settled holds_ret)
qed

lemma mark_failed: "own_call rv \<Longrightarrow> keeps_inv I (mark_failed rv f)"
  unfolding mark_failed_def by (intro holds_prod uncertain)

lemma budget_blocked: "plain_request plain rq \<Longrightarrow> keeps_inv I (budget_blocked oc rq i r p m a b c)"
  unfolding budget_blocked_def by (intro steps) (simp_all add: plain_request_def)

lemma audit_order: "keeps_inv I (audit_order oc i rq u cs)"
  unfolding audit_order_def Let_def by (intro steps) simp_all

lemma rank_providers: "plain_request plain rq \<Longrightarrow> keeps_inv I (rank_providers oc i r rq n ps)"
proof (induction ps arbitrary: n)
  case (Cons p ps)
  then show ?case unfolding rank_providers.simps by (intro steps) (simp_all add: plain_request_def)
qed (simp add: holds_ret)

lemma providers: "plain_request plain rq \<Longrightarrow> keeps_inv I (providers_by_estimated_cost oc i r ps rq)"
  unfolding providers_by_estimated_cost_def by (intro steps rank_providers audit_order) simp_all

section \<open>Verification\<close>

lemma rank_verifiers: "plain_request plain rq \<Longrightarrow> keeps_inv I (rank_verifiers oc i rq x n ps)"
proof (induction ps arbitrary: n)
  case (Cons rp ps)
  obtain role p where rp: "rp = (role, p)" by (cases rp)
  from Cons show ?case unfolding rp rank_verifiers.simps by (intro steps) (simp_all add: plain_request_def)
qed (simp add: holds_ret)

lemma candidates: "plain_request plain rq \<Longrightarrow> keeps_inv I (verification_candidates oc i rq x)"
  unfolding verification_candidates_def by (intro steps rank_verifiers audit_order) simp_all

lemma failure: "plain_request plain rq \<Longrightarrow> plain_option plain c \<Longrightarrow> keeps_inv I (verification_failure oc i rq s t v m c y)"
  unfolding verification_failure_def by (intro steps) (simp_all add: plain_request_def)

lemma early: "plain_request plain rq \<Longrightarrow> keeps_inv I (early_failure oc i rq s t)"
  unfolding early_failure_def by (intro steps failure) simp_all

lemma verdict:
  "plain_request plain rq \<Longrightarrow> plain (er_confidence x) \<Longrightarrow> plain (pv_confidence result) \<Longrightarrow> keeps_inv I (verdict oc i rq x r p m result c)"
  unfolding verdict_def by (intro steps failure) (simp_all add: plain_request_def plain_out)

lemma verifier_call:
  assumes "plain_request plain rq" "plain (er_confidence x)" "own_call rv"
  shows "keeps_inv I (verifier_call oc i rq vrq x role p m n ps rv st)"
  unfolding verifier_call_def
  by (rule holds_skip [OF append], use assms in \<open>simp add: plain_request_def\<close>, rule holds_value [OF run_call [OF assms(3)]])
    (auto split: sum.split intro!: holds_rules holds_skip increment mark_failed failure verdict assms)

lemma try_verifier:
  assumes "plain_request plain rq" "plain (er_confidence x)"
  shows "keeps_inv I (try_verifier oc i rq vrq x m role p st)"
proof -
  have reserved: "keeps_inv I (op_bind (op_try (reserve oc i mi p m t a c k ps u)) (\<lambda>reserved.
      case reserved of
        Inl (ProviderBudgetExceeded who period dimension) \<Rightarrow> op_bind (budget_blocked oc rq i role p m who period dimension) (\<lambda>_. op_ret (Inl st))
      | Inl e \<Rightarrow> op_raise e
      | Inr rv \<Rightarrow> verifier_call oc i rq vrq x role p m n prices rv st))" for mi m t a c k ps u n prices
    by (rule holds_value [OF attempt [OF reserve]])
      (auto split: sum.split py_exc.split intro!: holds_rules holds_skip budget_blocked verifier_call assms)
  show ?thesis
    unfolding try_verifier_def Let_def
    by (intro holds_skip available) (auto split: sum.split py_exc.split prod.split intro!: holds_ret holds_raise reserved)
qed

lemma verifiers:
  assumes "plain_request plain rq" "plain (er_confidence x)"
  shows "keeps_inv I (try_verifiers oc i rq vrq x m calls iterations ps st)"
proof (induction ps arbitrary: st)
  case Nil
  then show ?case by (auto split: option.split intro!: holds_ret holds_skip failure assms)
next
  case (Cons rp ps)
  then show ?case by (cases rp) (auto split: option.split sum.split intro!: holds_ret holds_skip failure try_verifier assms)
qed

lemma verify:
  "plain_request plain rq \<Longrightarrow> plain (er_confidence x) \<Longrightarrow> keeps_inv I (verify_executor_result oc i rq x calls iterations m)"
  unfolding verify_executor_result_def
  by (auto split: option.split simp: plain_verification intro!: holds_if early holds_skip candidates verifiers)

section \<open>Decisions\<close>

lemma finished: "own_run (rd_route_id d) \<Longrightarrow> keeps_inv I (finish t s d)"
  unfolding finish_def Let_def by (intro steps finish_run)

lemma escalation: "plain_request plain rq \<Longrightarrow> own_run i \<Longrightarrow> keeps_inv I (human_escalation oc i t rq s b x v)"
  unfolding human_escalation_def Let_def by (intro steps finished) (simp_all add: plain_request_def)

lemma successful:
  "plain_request plain rq \<Longrightarrow> plain (pv_confidence result) \<Longrightarrow>
     holds I (\<lambda>_ d. rd_route_id d = i) (successful_decision oc i rq r p m result t b n x v)"
  unfolding successful_decision_def Let_def by (intro steps) (simp_all add: plain_request_def plain_out)

lemma conclude:
  assumes "plain_request plain (xc_request xc)" "plain (pv_confidence result)" "own_run (xc_route_id xc)"
  shows "keeps_inv I (conclude oc xc role p m result n st)"
proof -
  have x: "plain (er_confidence (executor_of role p m result))" using assms(2) by (simp add: executor_of_def)
  show ?thesis
    unfolding conclude_def Let_def
    by (rule holds_skip, intro holds_if verify holds_ret assms x, simp)
      (intro holds_prod holds_if escalation holds_value [OF successful] holds_skip finished holds_ret assms; simp add: assms)
qed

lemma judge:
  assumes "plain_request plain (xc_request xc)" "plain (pv_confidence result)" "own_run (xc_route_id xc)"
  shows "keeps_inv I (judge_result oc xc role p m result c st)"
proof -
  have facts: "plain (rq_complexity (xc_request xc))" "plain (rq_impact (xc_request xc))" "plain (rq_confidence (xc_request xc))"
    using assms(1) by (simp_all add: plain_request_def)
  show ?thesis
    unfolding judge_result_def Let_def
    by (intro holds_skip increment append holds_if escalation conclude holds_ret assms) (simp_all add: plain_out facts assms)
qed

lemma model_failure: "plain_request plain (xc_request xc) \<Longrightarrow> keeps_inv I (model_failure oc xc r p m t st)"
  unfolding model_failure_def by (intro steps) (simp_all add: plain_request_def)

lemma call_provider:
  assumes "plain_request plain (xc_request xc)" "own_run (xc_route_id xc)" "own_call rv"
  shows "keeps_inv I (call_provider oc xc role p m e t n ps rv l st)"
proof -
  have facts: "plain (rq_complexity (xc_request xc))" "plain (rq_impact (xc_request xc))" "plain (rq_confidence (xc_request xc))"
    using assms(1) by (simp_all add: plain_request_def)
  show ?thesis
    unfolding call_provider_def Let_def
    by (rule holds_skip [OF append], simp add: facts, rule holds_value [OF run_call [OF assms(3)]])
      (auto split: sum.split intro!: holds_ret holds_skip guarded release mark_failed increment append judge assms simp: facts)
qed

lemma reserve_and_call:
  assumes "plain_request plain (xc_request xc)" "own_run (xc_route_id xc)"
  shows "keeps_inv I (reserve_and_call oc xc role p m e n ps st)"
  unfolding reserve_and_call_def Let_def
  by (intro holds_skip holds_if acquire holds_ret model_failure assms holds_value [OF attempt [OF reserve]])
    (auto split: sum.split py_exc.split intro!: holds_ret holds_raise holds_skip guarded release budget_blocked call_provider assms)

lemma try_provider:
  assumes "plain_request plain (xc_request xc)" "own_run (xc_route_id xc)"
  shows "keeps_inv I (try_provider oc xc role p st)"
  unfolding try_provider_def Let_def configuration_invalid_def
  by (auto split: sum.split py_exc.split
      intro!: holds_if holds_skip available quiet(10) model_failure reserve_and_call holds_ret holds_raise assms)

lemma try_providers:
  "plain_request plain (xc_request xc) \<Longrightarrow> own_run (xc_route_id xc) \<Longrightarrow> keeps_inv I (try_providers oc xc role ps st)"
  by (induction ps arbitrary: st) (auto split: flow.split intro!: holds_ret holds_skip try_provider)

lemma enter: "plain_request plain (xc_request xc) \<Longrightarrow> keeps_inv I (enter_role oc xc r st)"
  unfolding enter_role_def by (intro steps) (simp_all add: plain_request_def)

lemma try_roles:
  "plain_request plain (xc_request xc) \<Longrightarrow> own_run (xc_route_id xc) \<Longrightarrow> keeps_inv I (try_roles oc xc rs st)"
  by (induction rs arbitrary: st)
    (auto split: flow.split simp: Let_def intro!: holds_ret holds_skip escalation enter providers try_providers)

lemma deterministic: "plain_request plain rq \<Longrightarrow> own_run i \<Longrightarrow> keeps_inv I (deterministic_decision oc i t rq pl)"
  unfolding deterministic_decision_def Let_def by (intro steps finished) (simp_all add: plain_request_def)

lemma route_request: "plain_request plain rq \<Longrightarrow> keeps_inv I (route_request oc rq)"
  unfolding route_request_def Let_def invoke_plan_def
  by (intro holds_skip draw monotonic holds_value [OF start] increment append holds_if deterministic try_roles quiet(10))
    (simp_all add: plain_request_def)

lemma post_route:
  assumes "\<And>payload' rq. authorized_route_payload grants username payload = Inr payload' \<Longrightarrow>
    parse_route_request (oc_limits oc) payload' = Inr rq \<Longrightarrow> plain_request plain rq"
  shows "keeps_inv I (post_route oc grants username payload)"
  unfolding post_route_def route_def by (intro holds_bind_lift route_request assms)

end

end
