(* ===== verification/Trace_Correct.thy ===== *)
theory Trace_Correct
  imports Orch_Frame Sample_Orchestrator
begin

text \<open>
  What routing does to the orchestrator's records: the hash-chained trace of every mission verifies after
  any route, settled reservations and earlier events are never rewritten, and counters only grow. Both
  are instances of the interface of \<open>Orch_Frame\<close>, so they hold however a route ends.
\<close>

section \<open>Records are kept\<close>

text \<open>The counters as the table's primary key has them: every stored counter is at least what it was.\<close>

definition counters_grow :: "((string \<times> string) \<times> int) list \<Rightarrow> ((string \<times> string) \<times> int) list \<Rightarrow> bool" where
  "counters_grow cs cs' \<longleftrightarrow> grows (\<lambda>(k, n) (k', n'). k' = k \<and> n \<le> n') cs cs'"

text \<open>The rows of \<open>d\<close> are still there, as they were; \<open>d'\<close> may have more.\<close>

definition history_kept :: "odb \<Rightarrow> odb \<Rightarrow> bool" where
  "history_kept d d' \<longleftrightarrow>
     grows (=) (od_usage d) (od_usage d') \<and> grows (=) (od_trace d) (od_trace d') \<and> grows (=) (od_runs d) (od_runs d') \<and>
     counters_grow (od_counters d) (od_counters d') \<and> od_validations d' = od_validations d \<and> grows (=) (od_scores d) (od_scores d')"

lemma grows_eq_iff: "grows (=) xs ys \<longleftrightarrow> (\<exists>zs. ys = xs @ zs)"
  unfolding grows_def list.rel_eq by (metis append_eq_conv_conj append_take_drop_id length_append le_add1)

lemma grows_eq_snoc: "grows (=) xs ys \<Longrightarrow> grows (=) xs (ys @ zs)"
  by (auto simp: grows_eq_iff)

lemma grows_eq_set: "grows (=) xs ys \<Longrightarrow> set xs \<subseteq> set ys"
  by (auto simp: grows_eq_iff)

lemma grows_eq_update: "grows (=) xs ys \<Longrightarrow> (\<And>x. x \<in> set xs \<Longrightarrow> \<not> P x) \<Longrightarrow> grows (=) xs (update_where P f ys)"
  by (auto simp: grows_eq_iff update_where_idem)

lemma history_refl: "history_kept d d"
  by (simp add: history_kept_def counters_grow_def grows_refl case_prod_beta)

lemma counters_trans: "counters_grow as bs \<Longrightarrow> counters_grow bs cs \<Longrightarrow> counters_grow as cs"
  unfolding counters_grow_def by (rule grows_trans [where P = "\<lambda>(k, n) (k', n'). k' = k \<and> n \<le> n'"]) auto

text \<open>A statement keeps what was there before the request.\<close>

abbreviation keeps_from :: "odb \<Rightarrow> odb \<Rightarrow> odb \<Rightarrow> bool" where
  "keeps_from d0 d d' \<equiv> history_kept d0 d \<longrightarrow> history_kept d0 d'"

interpretation hk: db_evolution "keeps_from d0" for d0
  by unfold_locales auto

lemma bump_keeps: "0 \<le> n \<Longrightarrow> keeps_from d0 d (bump key n d)"
proof
  assume n: "0 \<le> n" and kept: "history_kept d0 d"
  have "counters_grow (od_counters d) (od_counters (bump key n d))"
  proof (cases "key \<in> fst ` set (od_counters d)")
    case True
    have "list_all2 (\<lambda>(k, n) (k', n'). k' = k \<and> n \<le> n') cs (map (\<lambda>(k, v). (k, if k = key then v + n else v)) cs)" for cs
      using n by (induction cs) auto
    then show ?thesis using True by (simp add: bump_def counters_grow_def grows_def)
  next
    case False
    then show ?thesis by (simp add: bump_def counters_grow_def grows_snoc case_prod_beta)
  qed
  from counters_trans [OF _ this] kept have "counters_grow (od_counters d0) (od_counters (bump key n d))"
    by (simp add: history_kept_def)
  then show "history_kept d0 (bump key n d)"
    using kept by (simp add: history_kept_def bump_def)
qed

lemma hk_increment: "evolves (keeps_from d0) (increment m l n)"
  unfolding increment_def op_raise_if_def raise_if_def
  by (rule hk.ev_bind_lift, intro hk.ev_rules hk.ev_exec) (auto intro: bump_keeps [rule_format] split: if_splits)

lemma hk_append: "evolves (keeps_from d0) (trace_append oc f)"
  unfolding trace_append_def Let_def by (intro hk.ev_rules hk.ev_exec) (simp add: history_kept_def grows_eq_snoc)

lemma hk_start: "evolves (keeps_from d0) (start_run i rq r t)"
  unfolding start_run_def by (intro hk.ev_rules hk.ev_exec) (simp add: history_kept_def grows_eq_snoc)

lemma hk_finish: "i \<notin> rr_route_id ` set (od_runs d0) \<Longrightarrow> evolves (keeps_from d0) (finish_run i s t n a b)"
  unfolding finish_run_def by (intro hk.ev_rules hk.ev_exec) (auto simp: history_kept_def intro!: grows_eq_update)

lemma hk_audit: "evolves (keeps_from d0) (record_adaptive_score_audit i t r xs)"
  unfolding record_adaptive_score_audit_def insert_score_def by (intro hk.ev_rules hk.ev_exec) (simp add: history_kept_def grows_eq_snoc)

lemma hk_reserve: "evolves (keeps_from d0) (reserve oc i mi p m t a c k ps u)"
  unfolding reserve_def by (intro hk.ev_rules hk.ev_exec) (simp add: history_kept_def grows_eq_snoc)

lemma hk_settle: "c \<notin> ur_call_id ` set (od_usage d0) \<Longrightarrow> evolves (keeps_from d0) (settle c v f)"
  unfolding settle_def by (intro hk.ev_rules hk.ev_exec) (auto simp: history_kept_def intro!: grows_eq_update)

lemma hk_complete: "rv_call_id rv \<notin> ur_call_id ` set (od_usage d0) \<Longrightarrow> evolves (keeps_from d0) (complete rv a c ps)"
  unfolding complete_def by (intro hk.ev_rules hk_settle)

lemma hk_uncertain: "rv_call_id rv \<notin> ur_call_id ` set (od_usage d0) \<Longrightarrow> evolves (keeps_from d0) (mark_uncertain rv e a c ps)"
  unfolding mark_uncertain_def Let_def by (intro hk.ev_rules hk_settle)

text \<open>The run that was started and the call that was reserved were not there before.\<close>

lemma start_fresh: "start_run i rq r t w = (Inr u, w') \<Longrightarrow> history_kept d0 (w_db w) \<Longrightarrow> i \<notin> rr_route_id ` set (od_runs d0)"
  unfolding start_run_def history_kept_def using grows_eq_set [of "od_runs d0" "od_runs (w_db w)"]
  by (auto simp: op_simps select_one_None)

lemma reserve_fresh:
  "reserve oc i mi p m t a c k ps u w = (Inr rv, w') \<Longrightarrow> history_kept d0 (w_db w) \<Longrightarrow> rv_call_id rv \<notin> ur_call_id ` set (od_usage d0)"
  unfolding reserve_def history_kept_def using grows_eq_set [of "od_usage d0" "od_usage (w_db w)"]
  by (auto simp: op_simps select_one_None)

lemma kept_statement: "evolves (keeps_from d0) m \<Longrightarrow> keeps_inv (\<lambda>w. history_kept d0 (w_db w)) m"
  by (erule holds_evolves) simp

lemma with_value: "keeps_inv I m \<Longrightarrow> (\<And>w x w'. m w = (Inr x, w') \<Longrightarrow> I w \<Longrightarrow> V x) \<Longrightarrow> holds I (\<lambda>_. V) m"
proof (rule holdsI)
  fix w r w'
  assume keeps: "keeps_inv I m" and val: "\<And>w x w'. m w = (Inr x, w') \<Longrightarrow> I w \<Longrightarrow> V x" and run: "I w" "m w = (r, w')"
  then show "I w' \<and> (\<forall>x. r = Inr x \<longrightarrow> V x)"
    using holdsD [OF keeps run] val [OF _ run(1)] by auto
qed

interpretation kept: route_frame oc "\<lambda>w. history_kept d0 (w_db w)" "\<lambda>i. i \<notin> rr_route_id ` set (od_runs d0)"
  "\<lambda>rv. rv_call_id rv \<notin> ur_call_id ` set (od_usage d0)" "\<lambda>_. True" for oc d0
proof unfold_locales
  show "holds (\<lambda>w. history_kept d0 (w_db w)) (\<lambda>_ _. i \<notin> rr_route_id ` set (od_runs d0)) (start_run i rq r t)" for i rq r t
    by (rule with_value [OF kept_statement [OF hk_start]]) (rule start_fresh)
  show "holds (\<lambda>w. history_kept d0 (w_db w)) (\<lambda>_ rv. rv_call_id rv \<notin> ur_call_id ` set (od_usage d0)) (reserve oc i mi p m t a c k ps u)"
    for i mi p m t a c k ps u
    by (rule with_value [OF kept_statement [OF hk_reserve]]) (rule reserve_fresh)
  show "holds (\<lambda>w. history_kept d0 (w_db w)) (\<lambda>_ r. True) (op_invoke oc p rq n)" for p rq n
    by (rule holdsI) (auto simp: op_invoke_def)
qed (auto intro!: kept_statement hk_increment hk_append hk_finish hk_audit hk_complete hk_uncertain)

text \<open>
  C17. No request to \<^verbatim>\<open>POST /v1/route\<close>, whatever its body and however it ends, rewrites a record that was there
  before it: every reservation and its settlement, trace event, run, validated outcome and score audit of an
  earlier or concurrent task stays exactly as it was, since a request settles only the reservations and
  finishes only the run it made itself; and no counter decreases.
\<close>
theorem route_keeps_history: "history_kept (w_db w) (w_db (snd (post_route oc grants username payload w)))"
  by (rule holds_snd [OF kept.post_route]) (simp_all add: history_refl plain_request_def)

section \<open>The trace verifies\<close>

text \<open>A mission's events are numbered from 1 without gaps, in the order they were stored, and linked.\<close>

definition mission_trace_ok :: "orchestrator \<Rightarrow> string \<Rightarrow> odb \<Rightarrow> bool" where
  "mission_trace_ok oc mission_id d \<longleftrightarrow>
     (let rows = mission_trace_rows mission_id d in
      map mt_sequence rows = map int [1..<Suc (length rows)] \<and> verify_rows_from oc ZERO_HASH rows)"

definition trace_ok :: "orchestrator \<Rightarrow> odb \<Rightarrow> bool" where
  "trace_ok oc d \<longleftrightarrow> list_all (\<lambda>r. mission_trace_ok oc (ef_mission_id (mt_facts r)) d) (od_trace d)"

lemma mission_trace_ok_all: "trace_ok oc d \<Longrightarrow> mission_trace_ok oc m d"
proof (cases "mission_trace_rows m d")
  case Nil
  then show ?thesis by (simp add: mission_trace_ok_def)
next
  case (Cons r rs)
  then have "r \<in> set (od_trace d)" "ef_mission_id (mt_facts r) = m"
    by (auto simp: mission_trace_rows_def filter_eq_Cons_iff)
  then show "trace_ok oc d \<Longrightarrow> ?thesis" by (auto simp: trace_ok_def list_all_iff)
qed

lemma trace_okI: "(\<And>m. mission_trace_ok oc m d) \<Longrightarrow> trace_ok oc d"
  by (simp add: trace_ok_def list_all_iff)

text \<open>The hash the next event links to.\<close>

definition tip_of :: "model_trace_row list \<Rightarrow> string" where
  "tip_of rows = (if rows = [] then ZERO_HASH else mt_event_hash (last rows))"

lemma verify_snoc:
  "verify_rows_from oc h (rows @ [r]) \<longleftrightarrow>
     verify_rows_from oc h rows \<and>
     (let tip = (if rows = [] then h else mt_event_hash (last rows)) in
      mt_previous_hash r = tip \<and>
      mt_event_hash r = trace_hash oc (mt_event_id r) (mt_sequence r) (mt_created_at r) (mt_facts r) tip)"
  by (induction oc h rows rule: verify_rows_from.induct) (auto simp: Let_def)

lemma sequences_sorted:
  assumes "map mt_sequence rows = map int [1..<Suc (length rows)]"
  shows "sorted (map mt_sequence rows)" "distinct (map mt_sequence rows)"
  unfolding assms by (simp_all add: distinct_map sorted_map sorted_wrt_upt del: upt_Suc)

lemma sort_trace: "map mt_sequence rows = map int [1..<Suc (length rows)] \<Longrightarrow> sort_key mt_sequence rows = rows"
  by (rule sort_key_id_if_sorted) (rule sequences_sorted)

lemma order_trace:
  assumes "map mt_sequence rows = map int [1..<Suc (length rows)]"
  shows "order_desc mt_sequence rows = rev rows"
proof -
  have inj: "inj_on mt_sequence (set rows)" "distinct rows"
    using sequences_sorted(2) [OF assms] by (auto simp: distinct_map)
  show ?thesis
    unfolding order_desc_def
  proof (rule map_sorted_distinct_set_unique [where f = "\<lambda>r. - mt_sequence r"])
    show "inj_on (\<lambda>r. - mt_sequence r) (set (sort_key (\<lambda>r. - mt_sequence r) rows) \<union> set (rev rows))"
      using inj by (auto simp: inj_on_def)
    show "sorted (map (\<lambda>r. - mt_sequence r) (rev rows))"
      using sequences_sorted(1) [OF assms] by (simp add: sorted_map sorted_wrt_rev)
  qed (use inj in \<open>auto simp: distinct_map inj_on_def\<close>)
qed

lemma trace_verifies: "mission_trace_ok oc m d \<Longrightarrow> trace_verify oc m d"
  by (simp add: mission_trace_ok_def trace_verify_def sort_trace Let_def)

text \<open>The row an append stores.\<close>

definition next_row :: "orchestrator \<Rightarrow> string \<Rightarrow> instant \<Rightarrow> event_facts \<Rightarrow> model_trace_row list \<Rightarrow> model_trace_row" where
  "next_row oc event_id created_at facts rows =
     (let hashed = facts\<lparr>ef_reason := take 1000 (ef_reason facts)\<rparr>; n = int (length rows) + 1 in
      \<lparr>mt_event_id = event_id, mt_sequence = n, mt_created_at = created_at, mt_facts = stored_facts hashed,
       mt_previous_hash = tip_of rows, mt_event_hash = trace_hash oc event_id n created_at hashed (tip_of rows)\<rparr>)"

text \<open>A row holds what was hashed when no float of the event is \<^verbatim>\<open>-0.0\<close>.\<close>

abbreviation unsigned :: "flt \<Rightarrow> bool" where
  "unsigned x \<equiv> x \<noteq> NegZero"

lemma real_column_unsigned: "unsigned x \<Longrightarrow> real_column x = x"
  by (cases x) simp_all

lemma stored_facts_plain: "plain_facts unsigned f \<Longrightarrow> stored_facts f = f"
proof -
  assume plain: "plain_facts unsigned f"
  then have "map_option real_column (ef_confidence_in f) = ef_confidence_in f" "map_option real_column (ef_confidence_out f) = ef_confidence_out f"
    by (auto simp: plain_facts_def real_column_unsigned intro!: option.map_ident_strong)
  then show ?thesis using plain by (simp add: stored_facts_def plain_facts_def real_column_unsigned)
qed

lemma stored_mission [simp]: "ef_mission_id (stored_facts f) = ef_mission_id f"
  by (simp add: stored_facts_def)

lemma next_row_ok:
  assumes ok: "trace_ok oc d" and plain: "plain_facts unsigned f"
    and r: "r = next_row oc i t f (mission_trace_rows (ef_mission_id f) d)"
  shows "trace_ok oc (d\<lparr>od_trace := od_trace d @ [r]\<rparr>)"
proof (rule trace_okI)
  fix m
  have m: "mission_trace_ok oc m d" by (rule mission_trace_ok_all [OF ok])
  have stored: "stored_facts (f\<lparr>ef_reason := t\<rparr>) = f\<lparr>ef_reason := t\<rparr>" for t
    using plain by (intro stored_facts_plain) (simp add: plain_facts_def)
  show "mission_trace_ok oc m (d\<lparr>od_trace := od_trace d @ [r]\<rparr>)"
  proof (cases "ef_mission_id f = m")
    case True
    then have "mission_trace_rows m (d\<lparr>od_trace := od_trace d @ [r]\<rparr>) = mission_trace_rows m d @ [r]"
      by (simp add: mission_trace_rows_def r next_row_def Let_def)
    then show ?thesis
      using m True by (simp add: mission_trace_ok_def Let_def verify_snoc r next_row_def tip_of_def stored)
  next
    case False
    then have "mission_trace_rows m (d\<lparr>od_trace := od_trace d @ [r]\<rparr>) = mission_trace_rows m d"
      by (simp add: mission_trace_rows_def r next_row_def Let_def)
    then show ?thesis using m by (simp add: mission_trace_ok_def)
  qed
qed

lemma previous_row:
  assumes "mission_trace_ok oc m d"
  shows "first_row (order_desc mt_sequence (mission_trace_rows m d)) =
           (if mission_trace_rows m d = [] then None else Some (last (mission_trace_rows m d)))"
    and "mission_trace_rows m d \<noteq> [] \<Longrightarrow> mt_sequence (last (mission_trace_rows m d)) = int (length (mission_trace_rows m d))"
proof -
  let ?rows = "mission_trace_rows m d"
  have n: "map mt_sequence ?rows = map int [1..<Suc (length ?rows)]" using assms by (simp add: mission_trace_ok_def Let_def)
  show "first_row (order_desc mt_sequence ?rows) = (if ?rows = [] then None else Some (last ?rows))"
    unfolding order_trace [OF n] by (cases ?rows rule: rev_cases) (simp_all add: first_row_def)
  show "?rows \<noteq> [] \<Longrightarrow> mt_sequence (last ?rows) = int (length ?rows)"
    using arg_cong [OF n, of last] by (simp add: last_map Suc_le_eq)
qed

lemma append_Inr:
  assumes run: "trace_append oc f w = (Inr n, w')" and ok: "trace_ok oc (w_db w)"
  shows "w_db w' = (w_db w)\<lparr>od_trace := od_trace (w_db w) @
           [next_row oc (w_uuids w (w_drawn w)) (w_clock w (w_ticks w)) f (mission_trace_rows (ef_mission_id f) (w_db w))]\<rparr>"
  using run previous_row [OF mission_trace_ok_all [OF ok, of "ef_mission_id f"]]
  unfolding trace_append_def Let_def
  by (auto simp: op_simps next_row_def tip_of_def Let_def split: if_splits)

lemma append_Inl: "trace_append oc f w = (Inl e, w') \<Longrightarrow> w_db w' = w_db w"
  unfolding trace_append_def Let_def
  by (auto simp: op_bind_Inl op_simps op_raise_if_def op_lift_def op_now_def op_uuid4_def transaction_Inl op_query_def op_exec_def
        op_ret_def raise_if_def)

definition trace_kept :: "orchestrator \<Rightarrow> odb \<Rightarrow> odb \<Rightarrow> bool" where
  "trace_kept oc d d' \<longleftrightarrow> (trace_ok oc d \<longrightarrow> trace_ok oc d')"

interpretation tk: db_evolution "trace_kept oc" for oc
  by unfold_locales (simp_all add: trace_kept_def)

lemma tk_append:
  assumes "plain_facts unsigned f"
  shows "evolves (trace_kept oc) (trace_append oc f)"
  unfolding evolves_def trace_kept_def
proof (intro allI impI)
  fix w :: oworld assume ok: "trace_ok oc (w_db w)"
  show "trace_ok oc (w_db (snd (trace_append oc f w)))"
  proof (cases "trace_append oc f w")
    case (Pair r w')
    then show ?thesis
      using append_Inl [of oc f w] append_Inr [OF _ ok] next_row_ok [OF ok assms refl] ok by (cases r) auto
  qed
qed

lemma tk_exec: "(\<And>d. od_trace (g d) = od_trace d) \<Longrightarrow> evolves (trace_kept oc) (op_exec g)"
  by (rule tk.ev_exec) (simp add: trace_kept_def trace_ok_def mission_trace_ok_def mission_trace_rows_def)

lemma tk_settle: "evolves (trace_kept oc) (settle c v f)"
  unfolding settle_def by (intro tk.ev_rules tk_exec) simp

lemma tk_statements:
  "evolves (trace_kept oc) (increment m l n)" "evolves (trace_kept oc) (start_run i rq role t)" "evolves (trace_kept oc) (finish_run i s t k a b)"
  "evolves (trace_kept oc) (record_adaptive_score_audit i t u scores)" "evolves (trace_kept oc) (reserve oc i mi p mo t x c y ps usage)"
  "evolves (trace_kept oc) (complete rv x c ps)" "evolves (trace_kept oc) (mark_uncertain rv t ox oy ops)"
  by (auto simp: increment_def bump_def start_run_def finish_run_def record_adaptive_score_audit_def insert_score_def reserve_def complete_def
        mark_uncertain_def Let_def intro!: tk.ev_rules tk_exec tk_settle)

text \<open>No deployment answers with a confidence of \<^verbatim>\<open>-0.0\<close>, and the request has none either.\<close>

definition unsigned_answers :: "orchestrator \<Rightarrow> bool" where
  "unsigned_answers oc \<longleftrightarrow> (\<forall>n p rq k r. oc_invoke oc n p rq k = Inr r \<longrightarrow> unsigned (pv_confidence r))"

definition unsigned_payload :: "json \<Rightarrow> bool" where
  "unsigned_payload payload \<longleftrightarrow>
     (\<forall>d. payload = JDict d \<longrightarrow>
        (\<forall>k\<in>set [''complexity'', ''impact'', ''confidence'']. float_of (dict_get d k JNull) \<noteq> Inr (Some NegZero)))"

lemma unit_number_float: "unit_number v k = Inr x \<Longrightarrow> float_of v = Inr (Some x)"
  by (auto simp: unit_number_def split: option.splits if_splits)

lemma unsigned_request:
  assumes "unsigned_payload payload" "authorized_route_payload grants username payload = Inr payload'" "parse_route_request l payload' = Inr rq"
  shows "plain_request unsigned rq"
proof -
  obtain d v where d: "payload = JDict d" "payload' = JDict (dict_set ''remote_allowed'' v d)"
    using assms(2) by (auto simp: authorized_route_payload_def split: json.splits)
  have get: "dict_get (dict_set ''remote_allowed'' v d) k JNull = dict_get d k JNull" if "k \<noteq> ''remote_allowed''" for k
    using that by (simp add: dict_get_def)
  obtain f g h where "unit_number (dict_get d ''complexity'' JNull) f = Inr (rq_complexity rq)"
      "unit_number (dict_get d ''impact'' JNull) g = Inr (rq_impact rq)"
      "unit_number (dict_get d ''confidence'' JNull) h = Inr (rq_confidence rq)"
    using assms(3) unfolding d(2) parse_route_request_def by (auto simp: get)
  from this [THEN unit_number_float] show ?thesis
    using assms(1) d(1) by (auto simp: unsigned_payload_def plain_request_def)
qed

text \<open>An answer without \<^verbatim>\<open>-0.0\<close> is part of the invariant, so that the interface holds of every orchestrator.\<close>

interpretation traced: route_frame oc "\<lambda>w. unsigned_answers oc \<and> trace_ok oc (w_db w)" "\<lambda>_. True" "\<lambda>_. True" unsigned for oc
proof unfold_locales
  show "holds (\<lambda>w. unsigned_answers oc \<and> trace_ok oc (w_db w)) (\<lambda>_ r. unsigned (pv_confidence r)) (op_invoke oc p rq n)" for p rq n
    by (rule holdsI) (auto simp: op_invoke_def unsigned_answers_def)
qed (auto intro!: holds_evolves [where R = "trace_kept oc"] tk_statements tk_append simp: trace_kept_def)

text \<open>
  C15. If the trace of every mission verified before a request to \<^verbatim>\<open>POST /v1/route\<close>, it does after it, however the
  request ends: events are numbered without gaps, and each hash covers the event and the hash before. This
  needs that no number of the request and no confidence a deployment answers is \<^verbatim>\<open>-0.0\<close>, which passes the
  checks, is hashed with its sign and read back without it.
\<close>
theorem route_trace_verifies:
  assumes "trace_ok oc (w_db w)" "unsigned_payload payload" "unsigned_answers oc"
  shows "trace_ok oc (w_db (snd (post_route oc grants username payload w))) \<and>
         trace_verify oc m (w_db (snd (post_route oc grants username payload w)))"
proof -
  have "unsigned_answers oc \<and> trace_ok oc (w_db (snd (post_route oc grants username payload w)))"
    by (rule holds_snd [OF traced.post_route]) (use assms unsigned_request in auto)
  then show ?thesis by (auto intro: trace_verifies mission_trace_ok_all)
qed

text \<open>
  An orchestrator whose digest keeps the beginning of what is hashed, and whose numbers show their sign. The
  request is granted and takes the deterministic path, which stores two events.
\<close>

definition marked_orchestrator :: orchestrator where
  "marked_orchestrator = sample_orchestrator
     \<lparr>oc_sha256 := (\<lambda>b. map char_of (take 64 b)), oc_frepr := (\<lambda>x. if x = NegZero then ''-0.0'' else if fval x = 0 then ''0.0'' else ''0.5'')\<rparr>"

definition sample_grant :: "(string \<times> route_grant) list" where
  "sample_grant = [(''hermes'', \<lparr>rg_username = ''hermes'', rg_projects = [''infra''], rg_remote_allowed = True\<rparr>)]"

definition sample_payload :: "json \<Rightarrow> json" where
  "sample_payload complexity =
     JDict [(''mission_id'', JStr ''m-1''), (''project_id'', JStr ''infra''), (''task_type'', JStr ''analyze''), (''risk'', JStr ''low''),
       (''complexity'', complexity), (''impact'', JFloat ''0.5''), (''confidence'', JFloat ''0.625''),
       (''deterministic_available'', JBool True), (''remote_allowed'', JBool True),
       (''context'', JDict [(''instructions'', JStr ''check''), (''mission'', JStr ''why'')])]"

lemma sample_floats:
  "float_of (JFloat ''0.5'') = Inr (Some (Flt (1 / 2)))" "float_of (JFloat ''0.625'') = Inr (Some (Flt (5 / 8)))"
  "float_of (JFloat ''-0.0'') = Inr (Some NegZero)"
  by code_simp+

lemma sample_fields:
  "request_text (JStr ''m-1'') ''mission_id'' 128 True = Inr ''m-1''" "request_text (JStr ''infra'') ''project_id'' 128 True = Inr ''infra''"
  "parse_enum task_value all_tasks (JStr ''analyze'') ''task_type'' = Inr ANALYZE"
  "parse_enum risk_value all_risks (JStr ''low'') ''risk'' = Inr LOW"
  "parse_enum urgency_value all_urgencies (JStr ''NORMAL'') ''urgency'' = Inr NORMAL"
  "safe_identifier ''m-1''" "safe_identifier ''infra''"
  "parse_context sample_limits (JDict [(''instructions'', JStr ''check''), (''mission'', JStr ''why'')]) = Inr sample_context"
  by code_simp+

text \<open>The request as it is parsed.\<close>

definition plain_sample :: "flt \<Rightarrow> model_request" where
  "plain_sample x = (sample_request LOW)\<lparr>rq_complexity := x, rq_deterministic_available := True\<rparr>"

lemma sample_accepted:
  assumes "float_of c = Inr (Some x)" "is_number c" "0 \<le> fval x" "fval x \<le> 1"
  shows "post_route marked_orchestrator sample_grant ''hermes'' (sample_payload c) w = route_request marked_orchestrator (plain_sample x) w"
proof -
  have granted: "authorized_route_payload sample_grant ''hermes'' (sample_payload c) = Inr (sample_payload c)"
    by (simp add: authorized_route_payload_def sample_payload_def dict_get_def authorize_project_def find_grant_def sample_grant_def
        res_bind_def parse_bool_def)
  have limits: "oc_limits marked_orchestrator = sample_limits" by (simp add: marked_orchestrator_def sample_orchestrator_def)
  have "parse_route_request sample_limits (sample_payload c) = Inr (plain_sample x)"
    by (simp add: parse_route_request_def sample_payload_def dict_get_def res_bind_def parse_bool_def strict_keys_def REQUEST_FIELDS_def
        raise_if_def sample_fields parse_cost_def sample_floats unit_number_def assms is_number_def [of "JFloat _"] plain_sample_def sample_request_def)
  then show ?thesis by (simp add: post_route_def route_def granted limits op_bind_def op_lift_def)
qed

lemma sample_events:
  "map (ef_event_type \<circ> mt_facts) (od_trace (w_db (snd (route_request marked_orchestrator (plain_sample (Flt (1 / 2))) (sample_oworld empty_odb))))) =
     [''ROUTE'', ''DETERMINISTIC'']"
  by code_simp

lemma signed_events:
  "\<not> trace_verify marked_orchestrator ''m-1'' (w_db (snd (route_request marked_orchestrator (plain_sample NegZero) (sample_oworld empty_odb))))"
  by code_simp

lemma route_trace_verifies_witness:
  "let w = snd (post_route marked_orchestrator sample_grant ''hermes'' (sample_payload (JFloat ''0.5'')) (sample_oworld empty_odb)) in
     map (ef_event_type \<circ> mt_facts) (od_trace (w_db w)) = [''ROUTE'', ''DETERMINISTIC''] \<and> trace_verify marked_orchestrator ''m-1'' (w_db w)"
proof -
  have "trace_ok marked_orchestrator (w_db (sample_oworld empty_odb))"
    by (simp add: trace_ok_def sample_oworld_def empty_odb_def)
  moreover have "unsigned_payload (sample_payload (JFloat ''0.5''))"
    by (simp add: unsigned_payload_def sample_payload_def dict_get_def sample_floats)
  moreover have "unsigned_answers marked_orchestrator"
    by (auto simp: unsigned_answers_def marked_orchestrator_def sample_orchestrator_def sample_answer_def)
  ultimately show ?thesis
    using route_trace_verifies [of marked_orchestrator "sample_oworld empty_odb" "sample_payload (JFloat ''0.5'')" sample_grant "''hermes''" "''m-1''"]
    by (simp add: sample_events sample_accepted [OF sample_floats(1)] is_number_def Let_def)
qed

text \<open>
  The hypothesis is needed: a request whose complexity is \<^verbatim>\<open>-0.0\<close> is accepted, and its own events do not verify
  afterwards, because the row gives back \<^verbatim>\<open>0.0\<close> for what was hashed as \<^verbatim>\<open>-0.0\<close>.
\<close>
lemma negative_zero_breaks_trace:
  "\<not> trace_verify marked_orchestrator ''m-1''
       (w_db (snd (post_route marked_orchestrator sample_grant ''hermes'' (sample_payload (JFloat ''-0.0'')) (sample_oworld empty_odb))))"
  using signed_events by (simp add: sample_accepted [OF sample_floats(3)] is_number_def)

end
