(* ===== verification/Mem_Base.thy ===== *)
theory Mem_Base
  imports Py_Op Py_Regex Py_Number "HOL-Library.List_Lexorder" "HOL-Library.Char_ord"
begin

text \<open>
  The memory service (\<^verbatim>\<open>memory/src/ops_memory\<close>): its exceptions (\<^verbatim>\<open>errors.py\<close>), the policies and limits of
  \<^verbatim>\<open>config.py\<close>, the access rules of \<^verbatim>\<open>security.py\<close> and the parsing of requests in \<^verbatim>\<open>models.py\<close>. What the
  interpreter or the host computes is a field of the configuration: SHA-256, \<^verbatim>\<open>repr(float(literal))\<close>,
  \<^verbatim>\<open>datetime.fromisoformat\<close> (the instant in microseconds since year 1 and the offset, if the text has one),
  the test of \<^verbatim>\<open>urllib\<close> for a bracketed host, the user database, and the vector of the feature-hashing
  embedding, whose double-precision arithmetic is not modelled.
\<close>

section \<open>Exceptions\<close>

abbreviation authentication_error :: "string \<Rightarrow> py_exc" where
  "authentication_error m \<equiv> MemoryFault ''authentication_failed'' m"

abbreviation authorization_error :: "string \<Rightarrow> py_exc" where
  "authorization_error m \<equiv> MemoryFault ''authorization_denied'' m"

abbreviation validation_error :: "string \<Rightarrow> py_exc" where
  "validation_error m \<equiv> MemoryFault ''validation_error'' m"

abbreviation secret_detected :: "string \<Rightarrow> py_exc" where
  "secret_detected m \<equiv> MemoryFault ''secret_detected'' m"

abbreviation not_found_error :: "string \<Rightarrow> py_exc" where
  "not_found_error m \<equiv> MemoryFault ''not_found'' m"

abbreviation conflict_error :: "string \<Rightarrow> py_exc" where
  "conflict_error m \<equiv> MemoryFault ''conflict'' m"

abbreviation backend_unavailable :: "string \<Rightarrow> py_exc" where
  "backend_unavailable m \<equiv> MemoryFault ''backend_unavailable'' m"

abbreviation memory_protocol_error :: "string \<Rightarrow> py_exc" where
  "memory_protocol_error m \<equiv> MemoryFault ''protocol_error'' m"

abbreviation memory_configuration_error :: "string \<Rightarrow> py_exc" where
  "memory_configuration_error m \<equiv> MemoryFault ''configuration_error'' m"

text \<open>\<^verbatim>\<open>except BackendUnavailableError\<close>, \<^verbatim>\<open>except NotFoundError\<close>; \<^verbatim>\<open>SecretDetectedError\<close> is a \<^verbatim>\<open>ValidationError\<close>.\<close>

definition has_code :: "string list \<Rightarrow> py_exc \<Rightarrow> bool" where
  "has_code codes e \<longleftrightarrow> (case e of MemoryFault c _ \<Rightarrow> c \<in> set codes | _ \<Rightarrow> False)"

definition is_backend_unavailable :: "py_exc \<Rightarrow> bool" where
  "is_backend_unavailable e = has_code [''backend_unavailable''] e"

definition is_validation_error :: "py_exc \<Rightarrow> bool" where
  "is_validation_error e = has_code [''validation_error'', ''secret_detected''] e"

definition is_not_found :: "py_exc \<Rightarrow> bool" where
  "is_not_found e = has_code [''not_found''] e"

definition exc_text :: "py_exc \<Rightarrow> string" where
  "exc_text e = (case e of MemoryFault _ m \<Rightarrow> m | _ \<Rightarrow> [])"

section \<open>Text\<close>

text \<open>\<^verbatim>\<open>repr\<close> of a string and of a list of strings, as the messages print them.\<close>

definition repr_char :: "char \<Rightarrow> char \<Rightarrow> string" where
  "repr_char q c =
     (if c = q \<or> c = CHR 0x5C then [CHR 0x5C, c]
      else if c = CHR 0x0A then [CHR 0x5C, CHR ''n'']
      else if c = CHR 0x0D then [CHR 0x5C, CHR ''r'']
      else if c = CHR 0x09 then [CHR 0x5C, CHR ''t'']
      else if in_ranges [(0, 31), (127, 160), (173, 173)] c then [CHR 0x5C, CHR ''x''] @ hex_pad 2 (of_char c)
      else [c])"

definition repr_str :: "string \<Rightarrow> string" where
  "repr_str s =
     (let q = (if CHR 0x27 \<in> set s \<and> CHR 0x22 \<notin> set s then CHR 0x22 else CHR 0x27)
      in q # concat (map (repr_char q) s) @ [q])"

definition repr_strs :: "string list \<Rightarrow> string" where
  "repr_strs ss = ''['' @ join '', '' (map repr_str ss) @ '']''"

text \<open>\<^verbatim>\<open>str\<close> of a decoded JSON value.\<close>

fun py_repr :: "json \<Rightarrow> string" where
  "py_repr JNull = ''None''"
| "py_repr (JBool b) = (if b then ''True'' else ''False'')"
| "py_repr (JInt i) = int_str i"
| "py_repr (JFloat f) = f"
| "py_repr (JStr s) = repr_str s"
| "py_repr (JList xs) = ''['' @ join '', '' (map py_repr xs) @ '']''"
| "py_repr (JDict kvs) = ''{'' @ join '', '' (map (\<lambda>(k, t). repr_str k @ '': '' @ t) (map (\<lambda>(k, v). (k, py_repr v)) kvs)) @ ''}''"

definition py_str :: "json \<Rightarrow> string" where
  "py_str v = (case v of JStr s \<Rightarrow> s | _ \<Rightarrow> py_repr v)"

text \<open>\<^verbatim>\<open>str.casefold\<close>, as code points: two characters of the alphabet fold outside of it or to two letters.\<close>

definition casefold_char :: "char \<Rightarrow> nat list" where
  "casefold_char c =
     (if in_ranges [(65, 90), (192, 214), (216, 222)] c then [of_char c + 32]
      else if of_char c = (181 :: nat) then [956]
      else if of_char c = (223 :: nat) then [115, 115]
      else [of_char c])"

definition casefold :: "string \<Rightarrow> nat list" where
  "casefold s = concat (map casefold_char s)"

definition utf8_point :: "nat \<Rightarrow> nat list" where
  "utf8_point n = (if n < 128 then [n] else [192 + n div 64, 128 + n mod 64])"

text \<open>The maximal runs of elements that satisfy \<open>P\<close>: \<^verbatim>\<open>split()\<close> and \<^verbatim>\<open>findall\<close> of a repeated class.\<close>

fun runs_of :: "('c \<Rightarrow> bool) \<Rightarrow> 'c list \<Rightarrow> 'c list \<Rightarrow> 'c list list" where
  "runs_of P acc [] = (if acc = [] then [] else [rev acc])"
| "runs_of P acc (c # s) =
     (if P c then runs_of P (c # acc) s
      else if acc = [] then runs_of P [] s else rev acc # runs_of P [] s)"

text \<open>\<^verbatim>\<open>json.dumps(value, sort_keys=True, ensure_ascii=False)\<close> with the default separators.\<close>

fun spaced_json :: "json \<Rightarrow> string" where
  "spaced_json (JList xs) = ''['' @ join '', '' (map spaced_json xs) @ '']''"
| "spaced_json (JDict kvs) =
     ''{'' @ join '', '' (map (\<lambda>(k, t). json_quote k @ '': '' @ t)
                     (sort_key fst (map (\<lambda>(k, v). (k, spaced_json v)) kvs))) @ ''}''"
| "spaced_json v = canonical_json v"

section \<open>Configuration\<close>

text \<open>
  The fields of \<^verbatim>\<open>ActorPolicy\<close> and, of \<^verbatim>\<open>MemoryConfig\<close>, those the service reads after start-up.
\<close>

record actor_policy =
  ap_name :: string
  ap_unix_users :: "string list"
  ap_roles :: "string list"
  ap_grantable_roles :: "string list"
  ap_projects :: "string list"
  ap_environments :: "string list"
  ap_max_classification :: string
  ap_capabilities :: "string list"
  ap_source_types :: "string list"
  ap_authoritative_source_types :: "string list"

record api_provider_config =
  pa_protocol :: string
  pa_enabled :: bool
  pa_model :: string
  pa_daily_call_budget :: int

record memory_config =
  mc_actors :: "(string \<times> actor_policy) list"
  mc_source_truth :: "(string \<times> string list) list"
  mc_max_content_bytes :: int
  mc_candidate_limit :: int
  mc_result_limit :: int
  mc_fallback_scan_limit :: int
  mc_allow_degraded_reads :: bool
  mc_allow_degraded_writes :: bool
  mc_observation_ttl_days :: int
  mc_stale_after_days :: int
  mc_dimensions :: int
  mc_api_dimensions :: int
  mc_embedding_model :: string
  mc_min_local_confidence :: rat
  mc_embedding_api :: api_provider_config
  mc_reranker_model :: string
  mc_reranker_api :: api_provider_config
  mc_collection :: string
  mc_space :: string
  mc_sha256 :: "nat list \<Rightarrow> string"
  mc_frepr :: "string \<Rightarrow> string"
  mc_fromisoformat :: "string \<Rightarrow> (instant \<times> int option) option"
  mc_bracketed_host :: "string \<Rightarrow> bool"
  mc_uid :: "string \<Rightarrow> int option"
  mc_local_vector :: "string \<Rightarrow> string list"

definition CLASSIFICATIONS :: "string list" where
  "CLASSIFICATIONS = [''public'', ''internal'', ''restricted'', ''confidential'']"

definition MEMORY_KINDS :: "string list" where
  "MEMORY_KINDS = [''noise'', ''conversation'', ''observation'', ''information'', ''decision'', ''rule'', ''procedure'',
     ''incident'', ''summary'']"

definition TIERS :: "string list" where
  "TIERS = [''working'', ''cold'']"

fun index_of :: "'a list \<Rightarrow> 'a \<Rightarrow> int option" where
  "index_of [] x = None"
| "index_of (y # ys) x = (if x = y then Some 0 else map_option (\<lambda>i. i + 1) (index_of ys x))"

definition classification_rank :: "string \<Rightarrow> int res" where
  "classification_rank value =
     (case index_of CLASSIFICATIONS value of
        Some i \<Rightarrow> Inr i | None \<Rightarrow> Inl (memory_configuration_error (''unknown classification: '' @ value)))"

definition resolved_uids :: "memory_config \<Rightarrow> actor_policy \<Rightarrow> int list" where
  "resolved_uids c a = List.map_filter (mc_uid c) (ap_unix_users a)"

text \<open>\<^verbatim>\<open>and\<close> stops at the first false operand: the ranks are only compared in a permitted project and environment.\<close>

definition permits_scope :: "actor_policy \<Rightarrow> string \<Rightarrow> string \<Rightarrow> string \<Rightarrow> bool res" where
  "permits_scope a project environment classification =
     (if \<not> (project \<in> set (ap_projects a) \<or> ''*'' \<in> set (ap_projects a)) then Inr False
      else if \<not> (environment \<in> set (ap_environments a) \<or> ''*'' \<in> set (ap_environments a)) then Inr False
      else res_bind (classification_rank classification) (\<lambda>r.
           res_bind (classification_rank (ap_max_classification a)) (\<lambda>m. Inr (r \<le> m))))"

end
