(* ===== verification/Mem_Models.thy ===== *)
theory Mem_Models
  imports Mem_Base
begin

text \<open>
  \<^verbatim>\<open>memory/src/ops_memory/models.py\<close> and \<^verbatim>\<open>security.py\<close>: a request body becomes an \<open>ingest_request\<close> or a
  \<open>search_request\<close> or is refused, in the order of the code's checks. A time stamp is kept as an instant
  truncated to the second, which is what \<^verbatim>\<open>isoformat(timespec="seconds")\<close> in UTC renders.
\<close>

section \<open>Time stamps\<close>

definition whole_second :: "instant \<Rightarrow> instant" where
  "whole_second t = t div 1000000 * 1000000"

text \<open>The end of year 9999; \<^verbatim>\<open>astimezone\<close> and adding a \<^verbatim>\<open>timedelta\<close> raise beyond the range.\<close>

definition LAST_INSTANT :: instant where
  "LAST_INSTANT = 3652059 * 86400 * 1000000"

definition in_range :: "instant \<Rightarrow> instant res" where
  "in_range t = (if 0 \<le> t \<and> t < LAST_INSTANT then Inr t else Inl OverflowError)"

text \<open>\<^verbatim>\<open>value.replace("Z", "+00:00")\<close>.\<close>

definition expand_z :: "string \<Rightarrow> string" where
  "expand_z s = concat (map (\<lambda>c. if c = CHR ''Z'' then ''+00:00'' else [c]) s)"

definition parse_timestamp :: "memory_config \<Rightarrow> json \<Rightarrow> string \<Rightarrow> instant res" where
  "parse_timestamp c value name =
     (case value of
        JStr s \<Rightarrow>
          (case mc_fromisoformat c (expand_z s) of
             None \<Rightarrow> Inl (validation_error (name @ '' must be an ISO-8601 timestamp''))
           | Some (t, None) \<Rightarrow> Inl (validation_error (name @ '' must include a timezone''))
           | Some (t, Some offset) \<Rightarrow> res_bind (in_range (t - offset)) (\<lambda>u. Inr (whole_second u)))
      | _ \<Rightarrow> Inl (validation_error (name @ '' must be an ISO-8601 timestamp'')))"

definition parse_optional_timestamp :: "memory_config \<Rightarrow> json \<Rightarrow> string \<Rightarrow> instant option res" where
  "parse_optional_timestamp c value name =
     (case value of JNull \<Rightarrow> Inr None | _ \<Rightarrow> res_bind (parse_timestamp c value name) (\<lambda>t. Inr (Some t)))"

section \<open>Fields\<close>

definition field_or :: "jdict \<Rightarrow> string \<Rightarrow> json \<Rightarrow> json" where
  "field_or d k missing = (case map_of d k of None \<Rightarrow> missing | Some v \<Rightarrow> v)"

definition required_string :: "jdict \<Rightarrow> string \<Rightarrow> int \<Rightarrow> string res" where
  "required_string d name maximum =
     (case field_or d name JNull of
        JStr s \<Rightarrow>
          let s = py_strip s in
          if s = [] then Inl (validation_error (name @ '' must be a non-empty string''))
          else if int (length s) > maximum \<or> chr_nul \<in> set s then Inl (validation_error (name @ '' is invalid or too long''))
          else Inr s
      | _ \<Rightarrow> Inl (validation_error (name @ '' must be a non-empty string'')))"

definition unknown_fields :: "jdict \<Rightarrow> string list \<Rightarrow> string \<Rightarrow> unit res" where
  "unknown_fields d allowed what =
     (let unknown = sort (remdups (filter (\<lambda>k. k \<notin> set allowed) (map fst d))) in
      raise_if (unknown \<noteq> []) (validation_error (what @ '': '' @ repr_strs unknown)))"

definition json_strings :: "(string \<Rightarrow> bool) \<Rightarrow> json list \<Rightarrow> string list option" where
  "json_strings P xs = those (map (\<lambda>v. case v of JStr s \<Rightarrow> if P s then Some s else None | _ \<Rightarrow> None) xs)"

text \<open>\<^verbatim>\<open>str(uuid.UUID(str(value)))\<close>: of the other values, no rendering has 32 hexadecimal digits.\<close>

definition uuid_of_json :: "json \<Rightarrow> string option" where
  "uuid_of_json v = (case v of JStr s \<Rightarrow> uuid_canon s | JInt i \<Rightarrow> uuid_canon (int_str i) | _ \<Rightarrow> None)"

section \<open>Secrets\<close>

definition rx_opt :: "rx \<Rightarrow> rx" where
  "rx_opt r = RRep 0 (Some 1) r"

definition rx_spaces :: rx where
  "rx_spaces = RCls False [(9, 13), (28, 32), (133, 133), (160, 160)]"

definition PRIVATE_KEY :: rx where
  "PRIVATE_KEY = RSeq (rx_lit ''-----BEGIN '') (RSeq (rx_opt (rx_alts [rx_lit ''RSA '', rx_lit ''EC '', rx_lit ''OPENSSH '']))
     (rx_lit ''PRIVATE KEY-----''))"

definition SECRET_ASSIGNMENT :: rx where
  "SECRET_ASSIGNMENT = RSeq RBound (RSeq
     (rx_alts [rx_lit ''password'', rx_lit ''passwd'', rx_lit ''secret'',
        RSeq (rx_lit ''api'') (RSeq (rx_opt (RCls False [(95, 95), (45, 45)])) (rx_lit ''key'')),
        RSeq (rx_lit ''access'') (RSeq (rx_opt (RCls False [(95, 95), (45, 45)])) (rx_lit ''token''))])
     (RSeq (RRep 0 None rx_spaces) (RSeq (RCls False [(58, 58), (61, 61)]) (RSeq (RRep 0 None rx_spaces)
     (RRep 8 None (RCls True [(9, 13), (28, 32), (133, 133), (160, 160), (44, 44), (59, 59)]))))))"

definition SECRET_BEARER :: rx where
  "SECRET_BEARER = RSeq RBound (RSeq (rx_lit ''Bearer'') (RSeq (RRep 1 None rx_spaces)
     (RSeq (RRep 16 None (RCls False [(65, 90), (97, 122), (48, 57), (46, 46), (95, 95), (126, 126), (43, 43), (47, 47), (45, 45)]))
     (RRep 0 None (RCls False [(61, 61)])))))"

definition API_TOKEN :: rx where
  "API_TOKEN = RSeq RBound (RSeq (rx_alts [rx_lit ''sk'', rx_lit ''ghp'', rx_lit ''glpat'']) (RSeq (rx_lit ''-'')
     (RSeq (RRep 16 None (RCls False [(65, 90), (97, 122), (48, 57), (95, 95), (45, 45)])) RBound)))"

definition SECRET_PATTERNS :: "rx list" where
  "SECRET_PATTERNS = [PRIVATE_KEY, SECRET_ASSIGNMENT, SECRET_BEARER, API_TOKEN]"

definition looks_secret :: "string \<Rightarrow> bool" where
  "looks_secret s = list_ex (\<lambda>p. rx_search True p s) SECRET_PATTERNS"

definition check_for_secrets :: "string \<Rightarrow> jdict \<Rightarrow> unit res" where
  "check_for_secrets content metadata =
     raise_if (looks_secret (content @ [chr_nl] @ spaced_json (JDict metadata)))
       (secret_detected ''content resembles a secret; store secrets in OpenBao'')"

section \<open>The URI of a source\<close>

text \<open>
  \<^verbatim>\<open>urllib.parse.urlparse\<close>, as far as the check looks: scheme, network location, query and fragment. In
  the model's alphabet no character normalises to a delimiter, so \<^verbatim>\<open>_checknetloc\<close> never raises.
\<close>

definition split_at :: "char \<Rightarrow> string \<Rightarrow> string \<times> string option" where
  "split_at c s =
     (let a = takeWhile (\<lambda>x. x \<noteq> c) s in
      (a, if length a < length s then Some (drop (Suc (length a)) s) else None))"

definition scheme_char :: "char \<Rightarrow> bool" where
  "scheme_char c = in_ranges [(97, 122), (65, 90), (48, 57), (43, 43), (45, 45), (46, 46)] c"

record split_url =
  su_scheme :: string
  su_netloc :: string
  su_query :: string
  su_fragment :: string

definition urlsplit :: "(string \<Rightarrow> bool) \<Rightarrow> string \<Rightarrow> split_url res" where
  "urlsplit bracketed_host value =
     (let url = filter (\<lambda>c. c \<notin> {CHR 0x09, CHR 0x0A, CHR 0x0D}) (dropWhile (\<lambda>c. of_char c \<le> (32 :: nat)) value);
          (head, after) = split_at (CHR '':'') url;
          has_scheme = (after \<noteq> None \<and> head \<noteq> [] \<and> in_ranges [(97, 122), (65, 90)] (hd head) \<and> list_all scheme_char head);
          scheme = (if has_scheme then map to_lower head else []);
          url = (if has_scheme then the after else url);
          has_netloc = starts_with ''//'' url;
          netloc = (if has_netloc then takeWhile (\<lambda>c. c \<notin> {CHR ''/'', CHR ''?'', CHR ''#''}) (drop 2 url) else []);
          url = (if has_netloc then drop (2 + length netloc) url else url);
          open_br = (CHR ''['' \<in> set netloc);
          close_br = (CHR '']'' \<in> set netloc)
      in res_bind (raise_if (open_br \<noteq> close_br) ValueError) (\<lambda>_.
         res_bind (raise_if (open_br \<and> close_br \<and>
                     \<not> bracketed_host (fst (split_at (CHR '']'') (the (snd (split_at (CHR ''['') netloc)))))) ValueError) (\<lambda>_.
         let (url, fragment) = split_at (CHR ''#'') url; (url, query) = split_at (CHR ''?'') url in
         Inr \<lparr>su_scheme = scheme, su_netloc = netloc, su_query = (case query of None \<Rightarrow> [] | Some q \<Rightarrow> q),
              su_fragment = (case fragment of None \<Rightarrow> [] | Some f \<Rightarrow> f)\<rparr>)))"

text \<open>\<^verbatim>\<open>username\<close> and \<^verbatim>\<open>password\<close> are the two parts of what precedes the last \<^verbatim>\<open>@\<close>.\<close>

definition userinfo :: "string \<Rightarrow> (string \<times> string option) option" where
  "userinfo netloc =
     (if CHR ''@'' \<in> set netloc then Some (split_at (CHR '':'') (rev (tl (dropWhile (\<lambda>c. c \<noteq> CHR ''@'') (rev netloc))))) else None)"

definition has_credentials :: "string \<Rightarrow> bool" where
  "has_credentials netloc \<longleftrightarrow>
     (case userinfo netloc of None \<Rightarrow> False
      | Some (user, password) \<Rightarrow> user \<noteq> [] \<or> password \<notin> {None, Some []})"

definition validate_source_uri :: "memory_config \<Rightarrow> string \<Rightarrow> string res" where
  "validate_source_uri c value =
     res_bind (urlsplit (mc_bracketed_host c) value) (\<lambda>u.
     res_bind (raise_if (su_scheme u = [] \<or> list_ex is_space value)
                 (validation_error ''source_uri must be an absolute URI without whitespace'')) (\<lambda>_.
     res_bind (raise_if (has_credentials (su_netloc u) \<or> su_query u \<noteq> [] \<or> su_fragment u \<noteq> [])
                 (validation_error ''source_uri must not contain credentials, query string or fragment'')) (\<lambda>_.
     Inr value)))"

section \<open>Metadata\<close>

definition ALLOWED_METADATA_KEYS :: "string list" where
  "ALLOWED_METADATA_KEYS = [''server'', ''service'', ''version'', ''severity'', ''agent'', ''status'', ''incident_id'', ''mission_id'',
     ''deployment_id'', ''owner'', ''tags'']"

definition short_string :: "json \<Rightarrow> bool" where
  "short_string v \<longleftrightarrow> (case v of JStr s \<Rightarrow> s \<noteq> [] \<and> length s \<le> 64 | _ \<Rightarrow> False)"

definition check_metadata_item :: "string \<times> json \<Rightarrow> unit res" where
  "check_metadata_item kv =
     (case kv of (key, item) \<Rightarrow>
        (case item of
           JList parts \<Rightarrow> raise_if (key \<noteq> ''tags'' \<or> \<not> list_all short_string parts)
                            (validation_error (''metadata.'' @ key @ '' must be a list of short strings''))
         | JStr _ \<Rightarrow> Inr () | JInt _ \<Rightarrow> Inr () | JBool _ \<Rightarrow> Inr ()
         | _ \<Rightarrow> Inl (validation_error (''metadata.'' @ key @ '' has an unsupported value''))))"

definition validate_metadata :: "json \<Rightarrow> jdict res" where
  "validate_metadata value =
     (case value of
        JNull \<Rightarrow> Inr []
      | JDict d \<Rightarrow>
          res_bind (unknown_fields d ALLOWED_METADATA_KEYS ''unsupported metadata keys'') (\<lambda>_.
          res_bind (raise_if (length (utf8_encode (spaced_json (JDict d))) > 16384) (validation_error ''metadata is too large'')) (\<lambda>_.
          res_bind (res_all check_metadata_item d) (\<lambda>_. Inr d)))
      | _ \<Rightarrow> Inl (validation_error ''metadata must be an object''))"

section \<open>An ingestion request\<close>

record ingest_request =
  ig_actor :: string
  ig_content :: string
  ig_project :: string
  ig_environment :: string
  ig_classification :: string
  ig_category :: string
  ig_kind :: string
  ig_tier :: string
  ig_allowed_roles :: "string list"
  ig_source_type :: string
  ig_source_uri :: string
  ig_source_ref :: string
  ig_source_authority :: string
  ig_metadata :: jdict
  ig_importance :: rat
  ig_valid_from :: instant
  ig_valid_until :: "instant option"
  ig_supersedes_id :: "string option"
  ig_reviewed :: bool
  ig_promote :: bool

definition INGEST_FIELDS :: "string list" where
  "INGEST_FIELDS = [''actor'', ''content'', ''project'', ''environment'', ''classification'', ''category'', ''kind'', ''tier'',
     ''allowed_roles'', ''source_type'', ''source_uri'', ''source_ref'', ''source_authority'', ''metadata'', ''importance'',
     ''valid_from'', ''valid_until'', ''supersedes_id'', ''reviewed'', ''promote'']"

definition parse_roles :: "json \<Rightarrow> string list res" where
  "parse_roles v =
     (case v of
        JList xs \<Rightarrow>
          (case json_strings (\<lambda>s. s \<noteq> [] \<and> length s \<le> 128) xs of
             Some roles \<Rightarrow>
               if 1 \<le> length roles \<and> length roles \<le> 32
               then if \<not> distinct roles \<or> ''*'' \<in> set roles then Inl (validation_error ''allowed_roles contains duplicates or wildcard'')
                    else Inr roles
               else Inl (validation_error ''allowed_roles must be a non-empty string list'')
           | None \<Rightarrow> Inl (validation_error ''allowed_roles must be a non-empty string list''))
      | _ \<Rightarrow> Inl (validation_error ''allowed_roles must be a non-empty string list''))"

definition parse_importance :: "json \<Rightarrow> rat res" where
  "parse_importance v =
     (case v of
        JInt i \<Rightarrow> if 0 \<le> i \<and> i \<le> 1 then Inr (of_int i) else Inl (validation_error ''importance must be between 0 and 1'')
      | JFloat s \<Rightarrow>
          (case py_float v of
             Inr (Some x) \<Rightarrow> if 0 \<le> x \<and> x \<le> 1 then Inr x else Inl (validation_error ''importance must be between 0 and 1'')
           | _ \<Rightarrow> Inl (validation_error ''importance must be between 0 and 1''))
      | _ \<Rightarrow> Inl (validation_error ''importance must be between 0 and 1''))"

definition parse_supersedes :: "json \<Rightarrow> string option res" where
  "parse_supersedes v =
     (case v of JNull \<Rightarrow> Inr None
      | _ \<Rightarrow> (case uuid_of_json v of None \<Rightarrow> Inl (validation_error ''supersedes_id must be a UUID'') | Some u \<Rightarrow> Inr (Some u)))"

definition two_bools :: "json \<Rightarrow> json \<Rightarrow> string \<Rightarrow> (bool \<times> bool) res" where
  "two_bools a b message =
     (case (a, b) of (JBool x, JBool y) \<Rightarrow> Inr (x, y) | _ \<Rightarrow> Inl (validation_error message))"

text \<open>\<^verbatim>\<open>str(data.get("tier", "cold"))\<close>: only a string renders as one of the two tiers.\<close>

definition parse_tier :: "json \<Rightarrow> string res" where
  "parse_tier v =
     (case v of JStr s \<Rightarrow> if s \<in> set TIERS then Inr s else Inl (validation_error ''unknown memory tier'')
      | _ \<Rightarrow> Inl (validation_error ''unknown memory tier''))"

definition source_text :: "string \<Rightarrow> string \<Rightarrow> string \<Rightarrow> string \<Rightarrow> string \<Rightarrow> string" where
  "source_text content source_type source_uri source_ref source_authority =
     join [chr_nl] [content, source_type, source_uri, source_ref, source_authority]"

text \<open>\<^verbatim>\<open>IngestRequest.from_dict\<close>; \<open>now\<close> is \<^verbatim>\<open>utc_now()\<close>.\<close>

definition parse_ingest :: "memory_config \<Rightarrow> instant \<Rightarrow> json \<Rightarrow> ingest_request res" where
  "parse_ingest c now data =
     (case data of
        JDict d \<Rightarrow>
          res_bind (unknown_fields d INGEST_FIELDS ''unknown ingestion fields'') (\<lambda>_.
          res_bind (required_string d ''content'' (mc_max_content_bytes c)) (\<lambda>content.
          res_bind (raise_if (int (length (utf8_encode content)) > mc_max_content_bytes c)
                      (validation_error ''content exceeds max_content_bytes'')) (\<lambda>_.
          res_bind (required_string d ''classification'' 32) (\<lambda>classification.
          res_bind (raise_if (classification \<notin> set CLASSIFICATIONS) (validation_error ''unknown classification'')) (\<lambda>_.
          res_bind (required_string d ''kind'' 32) (\<lambda>kind.
          res_bind (raise_if (kind \<notin> set MEMORY_KINDS) (validation_error ''unknown memory kind'')) (\<lambda>_.
          res_bind (parse_tier (field_or d ''tier'' (JStr ''cold''))) (\<lambda>tier.
          res_bind (parse_roles (field_or d ''allowed_roles'' JNull)) (\<lambda>roles.
          res_bind (validate_metadata (field_or d ''metadata'' JNull)) (\<lambda>metadata.
          res_bind (required_string d ''source_type'' 64) (\<lambda>source_type.
          res_bind (required_string d ''source_uri'' 2048) (\<lambda>uri.
          res_bind (validate_source_uri c uri) (\<lambda>source_uri.
          res_bind (required_string d ''source_ref'' 512) (\<lambda>source_ref.
          res_bind (required_string d ''source_authority'' 128) (\<lambda>source_authority.
          res_bind (check_for_secrets (source_text content source_type source_uri source_ref source_authority) metadata) (\<lambda>_.
          res_bind (parse_importance (field_or d ''importance'' (JFloat ''0.5''))) (\<lambda>importance.
          res_bind (parse_supersedes (field_or d ''supersedes_id'' JNull)) (\<lambda>supersedes.
          res_bind (two_bools (field_or d ''reviewed'' (JBool False)) (field_or d ''promote'' (JBool False))
                      ''reviewed and promote must be booleans'') (\<lambda>(reviewed, promote).
          res_bind (required_string d ''actor'' 128) (\<lambda>actor.
          res_bind (required_string d ''project'' 128) (\<lambda>project.
          res_bind (required_string d ''environment'' 64) (\<lambda>environment.
          res_bind (required_string d ''category'' 128) (\<lambda>category.
          res_bind (case map_of d ''valid_from'' of None \<Rightarrow> Inr now | Some v \<Rightarrow> parse_timestamp c v ''valid_from'') (\<lambda>valid_from.
          res_bind (parse_optional_timestamp c (field_or d ''valid_until'' JNull) ''valid_until'') (\<lambda>valid_until.
          Inr \<lparr>ig_actor = actor, ig_content = content, ig_project = project, ig_environment = environment,
               ig_classification = classification, ig_category = category, ig_kind = kind, ig_tier = tier,
               ig_allowed_roles = roles, ig_source_type = source_type, ig_source_uri = source_uri, ig_source_ref = source_ref,
               ig_source_authority = source_authority, ig_metadata = metadata, ig_importance = importance,
               ig_valid_from = valid_from, ig_valid_until = valid_until, ig_supersedes_id = supersedes,
               ig_reviewed = reviewed, ig_promote = promote\<rparr>)))))))))))))))))))))))))
      | _ \<Rightarrow> Inl (validation_error ''request must be an object''))"

section \<open>A search request\<close>

record search_request =
  sq_actor :: string
  sq_query :: string
  sq_project :: string
  sq_environment :: string
  sq_max_classification :: string
  sq_categories :: "string list"
  sq_kinds :: "string list"
  sq_top_k :: int
  sq_candidate_limit :: int
  sq_important :: bool
  sq_allow_api :: bool

definition SEARCH_FIELDS :: "string list" where
  "SEARCH_FIELDS = [''actor'', ''query'', ''project'', ''environment'', ''max_classification'', ''categories'', ''kinds'', ''top_k'',
     ''candidate_limit'', ''important'', ''allow_api'']"

definition string_list_of :: "(string \<Rightarrow> bool) \<Rightarrow> json \<Rightarrow> string \<Rightarrow> string list res" where
  "string_list_of P v message =
     (case v of
        JList xs \<Rightarrow> (case json_strings P xs of None \<Rightarrow> Inl (validation_error message) | Some ss \<Rightarrow> Inr ss)
      | _ \<Rightarrow> Inl (validation_error message))"

definition bounded_int :: "int \<Rightarrow> int \<Rightarrow> json \<Rightarrow> string \<Rightarrow> int res" where
  "bounded_int lo hi v name =
     (case v of
        JInt i \<Rightarrow> if lo \<le> i \<and> i \<le> hi then Inr i
                  else Inl (validation_error (name @ '' must be between '' @ int_str lo @ '' and '' @ int_str hi))
      | _ \<Rightarrow> Inl (validation_error (name @ '' must be between '' @ int_str lo @ '' and '' @ int_str hi)))"

definition parse_search :: "int \<Rightarrow> int \<Rightarrow> json \<Rightarrow> search_request res" where
  "parse_search result_limit candidate_limit data =
     (case data of
        JDict d \<Rightarrow>
          res_bind (unknown_fields d SEARCH_FIELDS ''unknown search fields'') (\<lambda>_.
          res_bind (required_string d ''max_classification'' 32) (\<lambda>classification.
          res_bind (raise_if (classification \<notin> set CLASSIFICATIONS) (validation_error ''unknown classification'')) (\<lambda>_.
          res_bind (required_string d ''query'' 16384) (\<lambda>query.
          res_bind (check_for_secrets query []) (\<lambda>_.
          res_bind (string_list_of (\<lambda>s. s \<noteq> []) (field_or d ''categories'' (JList [])) ''categories must be a string list'') (\<lambda>categories.
          res_bind (string_list_of (\<lambda>s. s \<in> set MEMORY_KINDS) (field_or d ''kinds'' (JList []))
                      ''kinds contains an invalid memory kind'') (\<lambda>kinds.
          res_bind (raise_if (length categories > 32 \<or> \<not> distinct categories)
                      (validation_error ''categories is too large or contains duplicates'')) (\<lambda>_.
          res_bind (raise_if (length kinds > 16 \<or> \<not> distinct kinds)
                      (validation_error ''kinds is too large or contains duplicates'')) (\<lambda>_.
          res_bind (bounded_int 1 result_limit (field_or d ''top_k'' (JInt result_limit)) ''top_k'') (\<lambda>top_k.
          res_bind (bounded_int 10 candidate_limit (field_or d ''candidate_limit'' (JInt candidate_limit)) ''candidate_limit'') (\<lambda>candidates.
          res_bind (two_bools (field_or d ''important'' (JBool False)) (field_or d ''allow_api'' (JBool False))
                      ''important and allow_api must be booleans'') (\<lambda>(important, allow_api).
          res_bind (required_string d ''actor'' 128) (\<lambda>actor.
          res_bind (required_string d ''project'' 128) (\<lambda>project.
          res_bind (required_string d ''environment'' 64) (\<lambda>environment.
          Inr \<lparr>sq_actor = actor, sq_query = query, sq_project = project, sq_environment = environment,
               sq_max_classification = classification, sq_categories = categories, sq_kinds = kinds, sq_top_k = top_k,
               sq_candidate_limit = candidates, sq_important = important, sq_allow_api = allow_api\<rparr>)))))))))))))))
      | _ \<Rightarrow> Inl (validation_error ''request must be an object''))"

section \<open>Access rules\<close>

definition authenticate :: "memory_config \<Rightarrow> string \<Rightarrow> int \<Rightarrow> actor_policy res" where
  "authenticate c name peer_uid =
     (case map_of (mc_actors c) name of
        None \<Rightarrow> Inl (authentication_error ''unknown actor'')
      | Some a \<Rightarrow> if peer_uid \<in> set (resolved_uids c a) then Inr a
                  else Inl (authentication_error ''actor does not match the Unix peer identity''))"

definition require_capability :: "actor_policy \<Rightarrow> string \<Rightarrow> unit res" where
  "require_capability a capability =
     raise_if (capability \<notin> set (ap_capabilities a)) (authorization_error (''actor lacks capability: '' @ capability))"

definition authorize_ingest :: "actor_policy \<Rightarrow> ingest_request \<Rightarrow> unit res" where
  "authorize_ingest a rq =
     res_bind (permits_scope a (ig_project rq) (ig_environment rq) (ig_classification rq)) (\<lambda>ok.
     res_bind (raise_if (\<not> ok) (authorization_error ''memory scope is not authorized'')) (\<lambda>_.
     res_bind (raise_if (\<not> set (ig_allowed_roles rq) \<subseteq> set (ap_grantable_roles a))
                 (authorization_error ''actor cannot grant one or more allowed_roles'')) (\<lambda>_.
     res_bind (raise_if (ig_source_type rq \<notin> set (ap_source_types a))
                 (authorization_error ''source_type is not authorized for this actor'')) (\<lambda>_.
     raise_if (ig_reviewed rq \<and> ''review'' \<notin> set (ap_capabilities a))
       (authorization_error ''actor cannot mark memory as reviewed'')))))"

definition authorize_search :: "actor_policy \<Rightarrow> search_request \<Rightarrow> unit res" where
  "authorize_search a rq =
     res_bind (permits_scope a (sq_project rq) (sq_environment rq) (sq_max_classification rq)) (\<lambda>ok.
     raise_if (\<not> ok) (authorization_error ''search scope is not authorized''))"

end
