(* ===== verification/Mem_Store.thy ===== *)
theory Mem_Store
  imports Mem_Models
begin

text \<open>
  \<^verbatim>\<open>memory/src/ops_memory/storage.py\<close>: the SQLite catalogue. Every method opens a connection of its own and
  commits at its end; leaving it by an exception closes the connection, which rolls back, so a method that
  writes is a \<open>transaction\<close>. Time stamps are instants truncated to the second; the columns that hold JSON
  hold its text. An \<^verbatim>\<open>AUTOINCREMENT\<close> key is the position of its row, since no row is ever deleted.
\<close>

section \<open>Tables\<close>

record memory_row =
  mm_id :: string
  mm_content :: string
  mm_project :: string
  mm_environment :: string
  mm_classification :: string
  mm_classification_rank :: int
  mm_category :: string
  mm_kind :: string
  mm_tier :: string
  mm_allowed_roles_json :: string
  mm_source_type :: string
  mm_source_uri :: string
  mm_source_ref :: string
  mm_source_authority :: string
  mm_authority_status :: string
  mm_metadata_json :: string
  mm_importance :: rat
  mm_content_hash :: string
  mm_dedup_key :: string
  mm_vector_model :: string
  mm_vector_json :: string
  mm_qdrant_state :: string
  mm_qdrant_error :: "string option"
  mm_valid_from :: instant
  mm_valid_until :: "instant option"
  mm_invalidated_at :: "instant option"
  mm_invalid_reason :: "string option"
  mm_stale_at :: "instant option"
  mm_supersedes_id :: "string option"
  mm_superseded_by_id :: "string option"
  mm_reviewed :: bool
  mm_created_by :: string
  mm_created_at :: instant
  mm_updated_at :: instant

record source_row =
  so_memory_id :: string
  so_type :: string
  so_uri :: string
  so_ref :: string
  so_first_seen_at :: instant

record access_row =
  ax_occurred_at :: instant
  ax_actor :: string
  ax_operation :: string
  ax_project :: "string option"
  ax_environment :: "string option"
  ax_classification :: "string option"
  ax_target_id :: "string option"
  ax_query_hash :: "string option"
  ax_outcome :: string
  ax_detail :: string

record provider_call =
  pl_id :: int
  pl_occurred_at :: instant
  pl_actor :: string
  pl_operation :: string
  pl_provider :: string
  pl_model :: string
  pl_outcome :: string

record maintenance_row =
  mt_id :: string
  mt_started_at :: instant
  mt_finished_at :: instant
  mt_expired :: nat
  mt_marked_stale :: nat
  mt_reindexed :: nat
  mt_failures :: nat

record api_vector =
  av_space :: string
  av_memory_id :: string
  av_content_hash :: string
  av_vector_json :: string

record memory_db =
  md_memories :: "memory_row list"
  md_sources :: "source_row list"
  md_summary_members :: "(string \<times> string) list"
  md_audit :: "access_row list"
  md_calls :: "provider_call list"
  md_maintenance :: "maintenance_row list"
  md_vectors :: "api_vector list"

interpretation memories: keyed_table mm_id .

text \<open>What \<^verbatim>\<open>_row_to_record\<close> makes of a row.\<close>

record memory_record =
  rc_row :: memory_row
  rc_allowed_roles :: json
  rc_metadata :: json
  rc_stale :: bool

definition record_id :: "memory_record \<Rightarrow> string" where
  "record_id r = mm_id (rc_row r)"

definition row_to_record :: "memory_config \<Rightarrow> memory_row \<Rightarrow> memory_record res" where
  "row_to_record c row =
     (case (json_loads (mc_frepr c) (mm_allowed_roles_json row), json_loads (mc_frepr c) (mm_metadata_json row)) of
        (Some roles, Some metadata) \<Rightarrow>
          Inr \<lparr>rc_row = row, rc_allowed_roles = roles, rc_metadata = metadata, rc_stale = (mm_stale_at row \<noteq> None)\<rparr>
      | _ \<Rightarrow> Inl JSONDecodeError)"

text \<open>The strings of a list of roles.\<close>

definition role_names :: "json \<Rightarrow> string list" where
  "role_names v =
     (case v of JList xs \<Rightarrow> List.map_filter (\<lambda>x. case x of JStr s \<Rightarrow> Some s | _ \<Rightarrow> None) xs | _ \<Rightarrow> [])"

text \<open>\<^verbatim>\<open>SecurityPolicy.record_visible\<close>; \<^verbatim>\<open>and\<close> evaluates the last rank only for a permitted scope and a common role.\<close>

definition record_visible :: "actor_policy \<Rightarrow> memory_record \<Rightarrow> bool res" where
  "record_visible a r =
     (let row = rc_row r in
      res_bind (permits_scope a (mm_project row) (mm_environment row) (mm_classification row)) (\<lambda>ok.
      if \<not> ok \<or> set (role_names (rc_allowed_roles r)) \<inter> set (ap_roles a) = {} then Inr False
      else res_bind (classification_rank (mm_classification row)) (\<lambda>k.
           res_bind (classification_rank (ap_max_classification a)) (\<lambda>m. Inr (k \<le> m)))))"

section \<open>The world of the service\<close>

text \<open>
  A call to Qdrant is one step: what the client raised, that it succeeded, or the hits it returned, whose
  scores are finite numbers. The log keeps each call, the collection it goes to, and whether it succeeded.
  The two HTTP APIs answer with the part of the JSON body the code reads, or the exception it raised.
\<close>

record qdrant_payload =
  qp_content :: string
  qp_project :: string
  qp_environment :: string
  qp_classification :: string
  qp_classification_rank :: int
  qp_category :: string
  qp_kind :: string
  qp_allowed_roles :: json
  qp_source_type :: string
  qp_source_uri :: string
  qp_source_ref :: string
  qp_source_authority :: string
  qp_authority_status :: string
  qp_metadata :: json
  qp_importance :: rat
  qp_tier :: string
  qp_valid_from :: instant
  qp_valid_until :: "instant option"

record qdrant_filter =
  qf_project :: string
  qf_environment :: string
  qf_max_rank :: int
  qf_roles :: "string list"
  qf_categories :: "string list"
  qf_kinds :: "string list"
  qf_limit :: int

type_synonym vector = "json list"

datatype qdrant_request =
    QEnsure int
  | QUpsert string vector qdrant_payload
  | QDelete string
  | QSearch vector qdrant_filter
  | QHealth

datatype qdrant_reply = QFailed py_exc | QDone | QHits "(string \<times> rat) list"

datatype api_reply = AFailed py_exc | AAnswer json

record memory_world = "memory_db pworld" +
  mw_qdrant :: "nat \<Rightarrow> qdrant_reply"
  mw_qdrant_log :: "(string \<times> qdrant_request \<times> bool) list"
  mw_ensured :: "string list"
  mw_embedding :: "nat \<Rightarrow> api_reply"
  mw_embedding_log :: "(string \<times> string) list"
  mw_reranking :: "nat \<Rightarrow> api_reply"
  mw_reranking_log :: "(string \<times> string list \<times> int) list"

type_synonym 'a mop = "memory_world \<Rightarrow> 'a res \<times> memory_world"

text \<open>\<^verbatim>\<open>utc_now()\<close>.\<close>

definition utc_now :: "instant mop" where
  "utc_now = op_bind op_now (\<lambda>t. op_ret (whole_second t))"

definition day_start :: "instant \<Rightarrow> instant" where
  "day_start t = t div 86400000000 * 86400000000"

section \<open>The audit trail and the budget of provider calls\<close>

definition log_access :: "access_row \<Rightarrow> memory_db \<Rightarrow> memory_db" where
  "log_access a d = d\<lparr>md_audit := md_audit d @ [a]\<rparr>"

record access_facts =
  af_project :: "string option"
  af_environment :: "string option"
  af_classification :: "string option"
  af_target_id :: "string option"
  af_query :: "string option"
  af_detail :: string

definition no_facts :: access_facts where
  "no_facts = \<lparr>af_project = None, af_environment = None, af_classification = None, af_target_id = None, af_query = None,
     af_detail = []\<rparr>"

definition scope_facts :: "string \<Rightarrow> string \<Rightarrow> string \<Rightarrow> access_facts" where
  "scope_facts project environment classification =
     no_facts\<lparr>af_project := Some project, af_environment := Some environment, af_classification := Some classification\<rparr>"

definition audit :: "memory_config \<Rightarrow> string \<Rightarrow> string \<Rightarrow> string \<Rightarrow> access_facts \<Rightarrow> unit mop" where
  "audit c actor operation outcome f =
     op_bind utc_now (\<lambda>now.
     op_exec (log_access
       \<lparr>ax_occurred_at = now, ax_actor = actor, ax_operation = operation, ax_project = af_project f,
        ax_environment = af_environment f, ax_classification = af_classification f, ax_target_id = af_target_id f,
        ax_query_hash = map_option (\<lambda>q. mc_sha256 c (utf8_encode q)) (af_query f), ax_outcome = outcome,
        ax_detail = take 512 (af_detail f)\<rparr>))"

text \<open>The calls that count against today's budget.\<close>

definition counted :: "string \<Rightarrow> string \<Rightarrow> instant \<Rightarrow> provider_call \<Rightarrow> bool" where
  "counted provider model since p \<longleftrightarrow>
     pl_provider p = provider \<and> pl_model p = model \<and> since \<le> pl_occurred_at p \<and> pl_outcome p \<noteq> ''budget_denied''"

definition add_call :: "provider_call \<Rightarrow> memory_db \<Rightarrow> memory_db" where
  "add_call p d = d\<lparr>md_calls := md_calls d @ [p]\<rparr>"

definition reserve_provider_call :: "string \<Rightarrow> string \<Rightarrow> string \<Rightarrow> string \<Rightarrow> int \<Rightarrow> int option mop" where
  "reserve_provider_call actor operation provider model daily_budget =
     op_bind op_now (\<lambda>t.
     transaction (
       op_bind (op_query (\<lambda>d. rowcount (counted provider model (day_start t)) (md_calls d))) (\<lambda>used.
       let outcome = (if daily_budget > 0 \<and> int used < daily_budget then ''reserved'' else ''budget_denied'') in
       op_bind utc_now (\<lambda>now.
       op_bind (op_query (\<lambda>d. int (length (md_calls d)) + 1)) (\<lambda>i.
       op_bind (op_exec (add_call
          \<lparr>pl_id = i, pl_occurred_at = now, pl_actor = actor, pl_operation = operation, pl_provider = provider,
           pl_model = model, pl_outcome = outcome\<rparr>)) (\<lambda>_.
       op_ret (if outcome = ''reserved'' then Some i else None)))))))"

definition settle_call :: "int \<Rightarrow> string \<Rightarrow> memory_db \<Rightarrow> memory_db" where
  "settle_call call_id outcome d =
     d\<lparr>md_calls := update_where (\<lambda>p. pl_id p = call_id \<and> pl_outcome p = ''reserved'') (\<lambda>p. p\<lparr>pl_outcome := outcome\<rparr>) (md_calls d)\<rparr>"

definition complete_provider_call :: "int \<Rightarrow> string \<Rightarrow> unit mop" where
  "complete_provider_call call_id outcome =
     op_bind (op_raise_if (outcome \<notin> {''success'', ''failed''}) ValueError) (\<lambda>_.
     transaction (
       op_bind (op_query (\<lambda>d. rowcount (\<lambda>p. pl_id p = call_id \<and> pl_outcome p = ''reserved'') (md_calls d))) (\<lambda>changed.
       op_bind (op_exec (settle_call call_id outcome)) (\<lambda>_.
       op_raise_if (changed \<noteq> 1) (RuntimeError ''provider call reservation is not active'')))))"

section \<open>Writing memories\<close>

text \<open>\<^verbatim>\<open>_dedup_key\<close>: the digests of the normalised content and of the scope it is stored in.\<close>

definition fold_space :: "nat \<Rightarrow> bool" where
  "fold_space n \<longleftrightarrow> list_ex (\<lambda>(lo, hi). lo \<le> n \<and> n \<le> hi) [(9, 13), (28, 32), (133, 133), (160, 160)]"

definition normalize_content :: "string \<Rightarrow> nat list" where
  "normalize_content s =
     (case runs_of (\<lambda>n. \<not> fold_space n) [] (casefold s) of [] \<Rightarrow> []
      | w # ws \<Rightarrow> w @ concat (map (\<lambda>v. 32 # v) ws))"

definition content_hash :: "memory_config \<Rightarrow> string \<Rightarrow> string" where
  "content_hash c content = mc_sha256 c (concat (map utf8_point (normalize_content content)))"

definition dedup_key :: "memory_config \<Rightarrow> ingest_request \<Rightarrow> string" where
  "dedup_key c rq =
     mc_sha256 c (utf8_encode (join [CHR 0x1F]
       [ig_project rq, ig_environment rq, ig_classification rq, ig_category rq, ig_kind rq, ig_tier rq,
        join '','' (sort (ig_allowed_roles rq)), content_hash c (ig_content rq)]))"

definition row_current :: "instant \<Rightarrow> memory_row \<Rightarrow> bool" where
  "row_current now r \<longleftrightarrow>
     mm_invalidated_at r = None \<and> mm_superseded_by_id r = None \<and> mm_valid_from r \<le> now \<and>
     (case mm_valid_until r of None \<Rightarrow> True | Some u \<Rightarrow> now < u)"

text \<open>\<^verbatim>\<open>ORDER BY column DESC\<close>; rows that tie stay in rowid order.\<close>

definition latest_first :: "('r \<Rightarrow> int) \<Rightarrow> 'r list \<Rightarrow> 'r list" where
  "latest_first f rs = sort_key (\<lambda>r. - f r) rs"

definition find_duplicate :: "string \<Rightarrow> instant \<Rightarrow> memory_db \<Rightarrow> memory_row option" where
  "find_duplicate key now d =
     select_one (\<lambda>_. True) (latest_first mm_created_at (filter (\<lambda>r. mm_dedup_key r = key \<and> row_current now r) (md_memories d)))"

definition add_source :: "source_row \<Rightarrow> memory_db \<Rightarrow> memory_db" where
  "add_source s d =
     (if list_ex (\<lambda>o'. so_memory_id o' = so_memory_id s \<and> so_type o' = so_type s \<and> so_uri o' = so_uri s \<and> so_ref o' = so_ref s)
           (md_sources d)
      then d else d\<lparr>md_sources := md_sources d @ [s]\<rparr>)"

definition source_of :: "ingest_request \<Rightarrow> string \<Rightarrow> instant \<Rightarrow> source_row" where
  "source_of rq memory_id now =
     \<lparr>so_memory_id = memory_id, so_type = ig_source_type rq, so_uri = ig_source_uri rq, so_ref = ig_source_ref rq,
      so_first_seen_at = now\<rparr>"

definition update_memories :: "(memory_row \<Rightarrow> bool) \<Rightarrow> (memory_row \<Rightarrow> memory_row) \<Rightarrow> memory_db \<Rightarrow> memory_db" where
  "update_memories P f d = d\<lparr>md_memories := update_where P f (md_memories d)\<rparr>"

definition memory_row_of ::
  "memory_config \<Rightarrow> ingest_request \<Rightarrow> string \<Rightarrow> int \<Rightarrow> vector \<Rightarrow> string \<Rightarrow> string \<Rightarrow> instant \<Rightarrow> memory_row" where
  "memory_row_of c rq i rank vec model authority now =
     \<lparr>mm_id = i, mm_content = ig_content rq, mm_project = ig_project rq, mm_environment = ig_environment rq,
      mm_classification = ig_classification rq, mm_classification_rank = rank, mm_category = ig_category rq,
      mm_kind = ig_kind rq, mm_tier = ig_tier rq,
      mm_allowed_roles_json = canonical_json (JList (map JStr (ig_allowed_roles rq))),
      mm_source_type = ig_source_type rq, mm_source_uri = ig_source_uri rq, mm_source_ref = ig_source_ref rq,
      mm_source_authority = ig_source_authority rq, mm_authority_status = authority,
      mm_metadata_json = canonical_json (JDict (ig_metadata rq)), mm_importance = ig_importance rq,
      mm_content_hash = content_hash c (ig_content rq), mm_dedup_key = dedup_key c rq,
      mm_vector_model = model, mm_vector_json = canonical_json (JList vec), mm_qdrant_state = ''pending'',
      mm_qdrant_error = None, mm_valid_from = ig_valid_from rq, mm_valid_until = ig_valid_until rq,
      mm_invalidated_at = None, mm_invalid_reason = None, mm_stale_at = None, mm_supersedes_id = ig_supersedes_id rq,
      mm_superseded_by_id = None, mm_reviewed = ig_reviewed rq, mm_created_by = ig_actor rq, mm_created_at = now,
      mm_updated_at = now\<rparr>"

text \<open>The record that is to be superseded must exist, share project and environment, and be current.\<close>

definition check_superseded :: "ingest_request \<Rightarrow> memory_db \<Rightarrow> string option res" where
  "check_superseded rq d =
     (case ig_supersedes_id rq of
        None \<Rightarrow> Inr None
      | Some i \<Rightarrow>
          (case select_one (\<lambda>r. mm_id r = i) (md_memories d) of
             None \<Rightarrow> Inl (not_found_error ''superseded memory does not exist'')
           | Some old \<Rightarrow>
               res_bind (raise_if (mm_project old \<noteq> ig_project rq \<or> mm_environment old \<noteq> ig_environment rq)
                           (conflict_error ''supersession cannot cross project or environment'')) (\<lambda>_.
               res_bind (raise_if (mm_superseded_by_id old \<noteq> None \<or> mm_invalidated_at old \<noteq> None)
                           (conflict_error ''superseded memory is not current'')) (\<lambda>_.
               Inr (Some (mm_id old))))))"

definition supersede :: "string \<Rightarrow> instant \<Rightarrow> memory_row \<Rightarrow> memory_row" where
  "supersede new now r = r\<lparr>mm_superseded_by_id := Some new, mm_qdrant_state := ''delete_pending'', mm_updated_at := now\<rparr>"

definition insert_memory :: "memory_row \<Rightarrow> memory_db \<Rightarrow> memory_db" where
  "insert_memory r d = d\<lparr>md_memories := md_memories d @ [r]\<rparr>"

text \<open>\<^verbatim>\<open>MemoryCatalog.ingest\<close>: the record, whether it is a duplicate, and the superseded record.\<close>

definition store_row ::
  "memory_config \<Rightarrow> ingest_request \<Rightarrow> vector \<Rightarrow> string \<Rightarrow> string \<Rightarrow> string \<Rightarrow> instant \<Rightarrow> (memory_row \<times> bool \<times> string option) mop" where
  "store_row c rq vec model authority i now =
     op_bind (op_query (\<lambda>d. if ig_supersedes_id rq = None then find_duplicate (dedup_key c rq) now d else None)) (\<lambda>duplicate.
     case duplicate of
       Some old \<Rightarrow>
         op_bind (op_exec (add_source (source_of rq (mm_id old) now))) (\<lambda>_. op_ret (old, True, None))
     | None \<Rightarrow>
         op_bind (op_query (check_superseded rq)) (\<lambda>checked.
         op_bind (op_lift checked) (\<lambda>superseded.
         op_bind (op_lift (classification_rank (ig_classification rq))) (\<lambda>rank.
         op_bind (op_query (\<lambda>d. list_ex (\<lambda>r. mm_id r = i) (md_memories d))) (\<lambda>taken.
         op_bind (op_raise_if taken IntegrityError) (\<lambda>_.
         let row = memory_row_of c rq i rank vec model authority now in
         op_bind (op_exec (insert_memory row)) (\<lambda>_.
         op_bind (op_exec (add_source (source_of rq i now))) (\<lambda>_.
         op_bind (op_exec (case superseded of None \<Rightarrow> id | Some s \<Rightarrow> update_memories (\<lambda>r. mm_id r = s) (supersede i now))) (\<lambda>_.
         op_ret (row, False, superseded))))))))))"

definition store_memory ::
  "memory_config \<Rightarrow> ingest_request \<Rightarrow> vector \<Rightarrow> string \<Rightarrow> string \<Rightarrow> (memory_record \<times> bool \<times> string option) mop" where
  "store_memory c rq vec model authority =
     op_bind utc_now (\<lambda>now.
     op_bind op_uuid4 (\<lambda>i.
     op_bind (transaction (store_row c rq vec model authority i now)) (\<lambda>(row, duplicate, superseded).
     op_bind (op_lift (row_to_record c row)) (\<lambda>r. op_ret (r, duplicate, superseded)))))"

section \<open>Reading and updating\<close>

definition get_memory :: "memory_config \<Rightarrow> string \<Rightarrow> memory_record mop" where
  "get_memory c i =
     op_bind (op_query (\<lambda>d. select_one (\<lambda>r. mm_id r = i) (md_memories d))) (\<lambda>row.
     case row of
       None \<Rightarrow> op_raise (not_found_error ''memory does not exist'')
     | Some r \<Rightarrow> op_lift (row_to_record c r))"

definition records_of :: "memory_config \<Rightarrow> memory_row list \<Rightarrow> memory_record list mop" where
  "records_of c rows = op_lift (res_map (row_to_record c) rows)"

definition by_ids :: "string list \<Rightarrow> memory_record list \<Rightarrow> memory_record list" where
  "by_ids ids rs = List.map_filter (\<lambda>i. find (\<lambda>r. record_id r = i) rs) ids"

definition get_many :: "memory_config \<Rightarrow> string list \<Rightarrow> memory_record list mop" where
  "get_many c ids =
     op_bind (op_query (\<lambda>d. filter (\<lambda>r. mm_id r \<in> set ids) (md_memories d))) (\<lambda>rows.
     op_bind (records_of c rows) (\<lambda>rs. op_ret (by_ids ids rs)))"

definition mark_row :: "string \<Rightarrow> string option \<Rightarrow> instant \<Rightarrow> memory_row \<Rightarrow> memory_row" where
  "mark_row state error now r =
     r\<lparr>mm_qdrant_state := state,
       mm_qdrant_error := (case error of Some e \<Rightarrow> if e = [] then None else Some (take 512 e) | None \<Rightarrow> None),
       mm_updated_at := now\<rparr>"

definition mark_qdrant :: "string \<Rightarrow> string \<Rightarrow> string option \<Rightarrow> unit mop" where
  "mark_qdrant i state error =
     op_bind utc_now (\<lambda>now. op_exec (update_memories (\<lambda>r. mm_id r = i) (mark_row state error now)))"

definition invalidate_row :: "instant \<Rightarrow> string \<Rightarrow> memory_row \<Rightarrow> memory_row" where
  "invalidate_row now reason r =
     r\<lparr>mm_invalidated_at := Some now, mm_invalid_reason := Some reason, mm_qdrant_state := ''delete_pending'', mm_updated_at := now\<rparr>"

definition invalidate_memory :: "memory_config \<Rightarrow> string \<Rightarrow> string \<Rightarrow> memory_record mop" where
  "invalidate_memory c i reason =
     op_bind utc_now (\<lambda>now.
     op_bind (transaction (
       op_bind (op_query (\<lambda>d. select_one (\<lambda>r. mm_id r = i) (md_memories d))) (\<lambda>row.
       case row of
         None \<Rightarrow> op_raise (not_found_error ''memory does not exist'')
       | Some r \<Rightarrow>
           op_bind (op_exec (if mm_invalidated_at r = None then update_memories (\<lambda>r. mm_id r = i) (invalidate_row now reason) else id)) (\<lambda>_.
           op_ret (if mm_invalidated_at r = None then invalidate_row now reason r else r)))))
       (\<lambda>row. op_lift (row_to_record c row)))"

definition is_current :: "memory_record \<Rightarrow> bool mop" where
  "is_current r = op_bind utc_now (\<lambda>now. op_ret (row_current now (rc_row r)))"

definition pending_for_reindex :: "memory_config \<Rightarrow> memory_record list mop" where
  "pending_for_reindex c =
     op_bind (op_query (\<lambda>d. take 500 (sort_key mm_updated_at (filter (\<lambda>r. mm_qdrant_state r \<in> {''pending'', ''failed''} \<and>
        mm_invalidated_at r = None \<and> mm_superseded_by_id r = None) (md_memories d))))) (records_of c)"

definition pending_deletions :: "memory_config \<Rightarrow> memory_record list mop" where
  "pending_deletions c =
     op_bind (op_query (\<lambda>d. take 500 (sort_key mm_updated_at (filter (\<lambda>r. mm_qdrant_state r = ''delete_pending'') (md_memories d)))))
       (records_of c)"

definition add_members :: "(string \<times> string) list \<Rightarrow> memory_db \<Rightarrow> memory_db" where
  "add_members ms d =
     d\<lparr>md_summary_members := foldl (\<lambda>ls m. if m \<in> set ls then ls else ls @ [m]) (md_summary_members d) ms\<rparr>"

definition link_summary :: "string \<Rightarrow> string list \<Rightarrow> unit mop" where
  "link_summary summary_id member_ids =
     op_exec (add_members (map (\<lambda>i. (summary_id, i)) member_ids))"

section \<open>Ageing\<close>

definition expires :: "instant \<Rightarrow> memory_row \<Rightarrow> bool" where
  "expires now r \<longleftrightarrow>
     (case mm_valid_until r of None \<Rightarrow> False | Some u \<Rightarrow> u \<le> now) \<and> mm_invalidated_at r = None"

definition goes_stale :: "instant \<Rightarrow> memory_row \<Rightarrow> bool" where
  "goes_stale limit r \<longleftrightarrow>
     mm_updated_at r < limit \<and> mm_stale_at r = None \<and> mm_invalidated_at r = None \<and> mm_superseded_by_id r = None \<and>
     mm_kind r \<in> {''observation'', ''information'', ''incident'', ''summary''}"

definition stale_row :: "instant \<Rightarrow> memory_row \<Rightarrow> memory_row" where
  "stale_row now r = r\<lparr>mm_stale_at := Some now, mm_updated_at := now\<rparr>"

definition consolidate_lifecycle :: "int \<Rightarrow> (nat \<times> nat) mop" where
  "consolidate_lifecycle stale_after_days =
     op_bind op_now (\<lambda>t.
     let now = whole_second t in
     op_bind (op_lift (in_range (t - stale_after_days * 86400000000))) (\<lambda>u.
     let limit = whole_second u in
     transaction (
       op_bind (op_query (\<lambda>d. rowcount (expires now) (md_memories d))) (\<lambda>expired.
       op_bind (op_exec (update_memories (expires now) (invalidate_row now ''validity_expired''))) (\<lambda>_.
       op_bind (op_query (\<lambda>d. rowcount (goes_stale limit) (md_memories d))) (\<lambda>stale.
       op_bind (op_exec (update_memories (goes_stale limit) (stale_row now))) (\<lambda>_.
       op_ret (expired, stale))))))))"

definition add_run :: "maintenance_row \<Rightarrow> memory_db \<Rightarrow> memory_db" where
  "add_run m d = d\<lparr>md_maintenance := md_maintenance d @ [m]\<rparr>"

definition record_maintenance :: "instant \<Rightarrow> nat \<Rightarrow> nat \<Rightarrow> nat \<Rightarrow> nat \<Rightarrow> string mop" where
  "record_maintenance started expired stale reindexed failures =
     op_bind op_uuid4 (\<lambda>i.
     op_bind utc_now (\<lambda>now.
     op_bind (op_query (\<lambda>d. list_ex (\<lambda>m. mt_id m = i) (md_maintenance d))) (\<lambda>taken.
     op_bind (op_raise_if taken IntegrityError) (\<lambda>_.
     op_bind (op_exec (add_run
        \<lparr>mt_id = i, mt_started_at = started, mt_finished_at = now, mt_expired = expired, mt_marked_stale = stale,
         mt_reindexed = reindexed, mt_failures = failures\<rparr>)) (\<lambda>_.
     op_ret i)))))"

record memory_stats =
  ms_total :: nat
  ms_current :: nat
  ms_indexed :: nat
  ms_pending :: nat
  ms_stale :: nat
  ms_provider_calls :: "((string \<times> string \<times> string) \<times> nat) list"

text \<open>\<^verbatim>\<open>GROUP BY provider, model, outcome\<close>, the groups in ascending order.\<close>

definition call_groups :: "provider_call list \<Rightarrow> ((string \<times> string \<times> string) \<times> nat) list" where
  "call_groups cs =
     (let key = (\<lambda>p. [pl_provider p, pl_model p, pl_outcome p]);
          keys = sort (remdups (map key cs))
      in map (\<lambda>k. ((k ! 0, k ! 1, k ! 2), rowcount (\<lambda>p. key p = k) cs)) keys)"

definition catalog_stats :: "memory_stats mop" where
  "catalog_stats = op_query (\<lambda>d.
     \<lparr>ms_total = length (md_memories d),
      ms_current = rowcount (\<lambda>r. mm_invalidated_at r = None \<and> mm_superseded_by_id r = None) (md_memories d),
      ms_indexed = rowcount (\<lambda>r. mm_qdrant_state r = ''indexed'') (md_memories d),
      ms_pending = rowcount (\<lambda>r. mm_qdrant_state r \<in> {''pending'', ''failed''}) (md_memories d),
      ms_stale = rowcount (\<lambda>r. mm_stale_at r \<noteq> None) (md_memories d),
      ms_provider_calls = call_groups (md_calls d)\<rparr>)"

end
