(* ===== verification/Mem_Index.thy ===== *)
theory Mem_Index
  imports Mem_Store
begin

text \<open>
  \<^verbatim>\<open>qdrant.py\<close>, \<^verbatim>\<open>embedding.py\<close>, \<^verbatim>\<open>semantic_index.py\<close> and \<^verbatim>\<open>rerank.py\<close> of \<^verbatim>\<open>memory/src/ops_memory\<close>: the vector
  index and its collection per embedding space, the local and the remote embedding, and the two rerankers.
  The arithmetic of the scores is that of \<open>Py_Number\<close>.
\<close>

section \<open>Qdrant\<close>

definition qdrant_call :: "string \<Rightarrow> qdrant_request \<Rightarrow> qdrant_reply mop" where
  "qdrant_call collection q =
     (\<lambda>w. let r = mw_qdrant w (length (mw_qdrant_log w));
              ok = (case r of QFailed _ \<Rightarrow> False | _ \<Rightarrow> True);
              w = w\<lparr>mw_qdrant_log := mw_qdrant_log w @ [(collection, q, ok)]\<rparr>
          in (case r of QFailed e \<Rightarrow> (Inl e, w) | _ \<Rightarrow> (Inr r, w)))"

definition ensure_collection :: "string \<Rightarrow> int \<Rightarrow> unit mop" where
  "ensure_collection collection dimensions =
     (\<lambda>w. if collection \<in> set (mw_ensured w) then (Inr (), w)
          else op_bind (qdrant_call collection (QEnsure dimensions)) (\<lambda>_ w. (Inr (), w\<lparr>mw_ensured := collection # mw_ensured w\<rparr>)) w)"

definition payload_of :: "memory_record \<Rightarrow> qdrant_payload" where
  "payload_of r =
     (let row = rc_row r in
      \<lparr>qp_content = mm_content row, qp_project = mm_project row, qp_environment = mm_environment row,
       qp_classification = mm_classification row, qp_classification_rank = mm_classification_rank row,
       qp_category = mm_category row, qp_kind = mm_kind row, qp_allowed_roles = rc_allowed_roles r,
       qp_source_type = mm_source_type row, qp_source_uri = mm_source_uri row, qp_source_ref = mm_source_ref row,
       qp_source_authority = mm_source_authority row, qp_authority_status = mm_authority_status row,
       qp_metadata = rc_metadata r, qp_importance = mm_importance row, qp_tier = mm_tier row,
       qp_valid_from = mm_valid_from row, qp_valid_until = mm_valid_until row\<rparr>)"

definition qdrant_upsert :: "string \<Rightarrow> int \<Rightarrow> memory_record \<Rightarrow> vector \<Rightarrow> unit mop" where
  "qdrant_upsert collection dimensions r vec =
     op_bind (op_raise_if (int (length vec) \<noteq> dimensions)
                (backend_unavailable ''refusing vector with unexpected dimension'')) (\<lambda>_.
     op_bind (qdrant_call collection (QUpsert (record_id r) vec (payload_of r))) (\<lambda>_. op_ret ()))"

definition qdrant_delete :: "string \<Rightarrow> string \<Rightarrow> unit mop" where
  "qdrant_delete collection i = op_bind (qdrant_call collection (QDelete i)) (\<lambda>_. op_ret ())"

definition qdrant_search :: "string \<Rightarrow> vector \<Rightarrow> qdrant_filter \<Rightarrow> (string \<times> rat) list mop" where
  "qdrant_search collection vec f =
     op_bind (qdrant_call collection (QSearch vec f)) (\<lambda>r.
     case r of QHits hits \<Rightarrow> op_ret hits
     | _ \<Rightarrow> op_raise (backend_unavailable ''Qdrant search response is invalid''))"

section \<open>Embeddings\<close>

definition token_char :: "char \<Rightarrow> bool" where
  "token_char c \<longleftrightarrow> is_word c \<or> c \<in> set ''./:@-''"

definition tokenize :: "string \<Rightarrow> nat list list" where
  "tokenize s = map casefold (filter (\<lambda>t. length t > 1) (runs_of token_char [] s))"

record embedding_result =
  em_vector :: vector
  em_model :: string
  em_provider :: string
  em_confidence :: rat

definition local_embed :: "memory_config \<Rightarrow> string \<Rightarrow> embedding_result" where
  "local_embed c text =
     \<lparr>em_vector = map JFloat (mc_local_vector c text), em_model = mc_embedding_model c, em_provider = ''local'',
      em_confidence = (let tokens = tokenize text in
                       if tokens = [] then 0 else min 1 (of_nat (length (remdups tokens)) / 8))\<rparr>"

text \<open>\<^verbatim>\<open>type(item) in (int, float) and math.isfinite(item)\<close>; \<^verbatim>\<open>isfinite\<close> raises for an integer beyond the floats.\<close>

definition finite_number :: "json \<Rightarrow> bool res" where
  "finite_number v =
     (case v of
        JInt _ \<Rightarrow> res_bind (py_float v) (\<lambda>x. Inr (x \<noteq> None))
      | JFloat _ \<Rightarrow> res_bind (py_float v) (\<lambda>x. Inr (x \<noteq> None))
      | _ \<Rightarrow> Inr False)"

fun all_res :: "('a \<Rightarrow> bool res) \<Rightarrow> 'a list \<Rightarrow> bool res" where
  "all_res P [] = Inr True"
| "all_res P (x # xs) = res_bind (P x) (\<lambda>b. if b then all_res P xs else Inr False)"

definition to_float :: "memory_config \<Rightarrow> json \<Rightarrow> json" where
  "to_float c v = (case v of JInt i \<Rightarrow> JFloat (mc_frepr c (int_str i)) | _ \<Rightarrow> v)"

definition check_vector :: "memory_config \<Rightarrow> json \<Rightarrow> vector res" where
  "check_vector c v =
     (case v of
        JList xs \<Rightarrow>
          res_bind (raise_if (int (length xs) \<noteq> mc_api_dimensions c)
                      (validation_error ''embedding API returned an unexpected vector dimension'')) (\<lambda>_.
          res_bind (all_res finite_number xs) (\<lambda>ok.
          res_bind (raise_if (\<not> ok) (validation_error ''embedding API returned an invalid vector'')) (\<lambda>_.
          Inr (map (to_float c) xs))))
      | _ \<Rightarrow> Inl (validation_error ''embedding API returned an unexpected vector dimension''))"

definition embedding_request :: "string \<Rightarrow> string \<Rightarrow> json mop" where
  "embedding_request text input_type =
     (\<lambda>w. let r = mw_embedding w (length (mw_embedding_log w));
              w = w\<lparr>mw_embedding_log := mw_embedding_log w @ [(text, input_type)]\<rparr>
          in (case r of AFailed e \<Rightarrow> (Inl e, w) | AAnswer v \<Rightarrow> (Inr v, w)))"

definition api_embed :: "memory_config \<Rightarrow> string \<Rightarrow> string \<Rightarrow> embedding_result mop" where
  "api_embed c text input_type =
     op_bind (op_raise_if (\<not> pa_enabled (mc_embedding_api c)) (backend_unavailable ''embedding API is disabled'')) (\<lambda>_.
     op_bind (op_raise_if (text = [] \<or> length (utf8_encode text) > 32768)
                (backend_unavailable ''embedding input exceeds the bounded API request'')) (\<lambda>_.
     op_bind (embedding_request text input_type) (\<lambda>v.
     op_bind (op_lift (check_vector c v)) (\<lambda>vec.
     op_ret \<lparr>em_vector = vec, em_model = pa_model (mc_embedding_api c), em_provider = ''api'', em_confidence = 1\<rparr>))))"

section \<open>The index of remote embeddings\<close>

definition api_collection :: "memory_config \<Rightarrow> string" where
  "api_collection c = mc_collection c @ ''_api_'' @ mc_space c"

definition has_records :: "memory_config \<Rightarrow> bool mop" where
  "has_records c = op_query (\<lambda>d. list_ex (\<lambda>v. av_space v = mc_space c) (md_vectors d))"

record reindex_result =
  ri_indexed :: "string list"
  ri_pending :: "string list"

definition cached_vector :: "memory_config \<Rightarrow> string \<Rightarrow> string \<Rightarrow> memory_db \<Rightarrow> string option" where
  "cached_vector c i digest d =
     map_option av_vector_json (select_one (\<lambda>v. av_space v = mc_space c \<and> av_memory_id v = i \<and> av_content_hash v = digest) (md_vectors d))"

definition cache_vector :: "memory_config \<Rightarrow> string \<Rightarrow> string \<Rightarrow> string \<Rightarrow> memory_db \<Rightarrow> memory_db" where
  "cache_vector c i digest text d =
     d\<lparr>md_vectors := delete_where (\<lambda>v. av_space v = mc_space c \<and> av_memory_id v = i) (md_vectors d) @
        [\<lparr>av_space = mc_space c, av_memory_id = i, av_content_hash = digest, av_vector_json = text\<rparr>]\<rparr>"

text \<open>\<^verbatim>\<open>tuple(json.loads(text))\<close>.\<close>

definition load_tuple :: "memory_config \<Rightarrow> string \<Rightarrow> json list res" where
  "load_tuple c text =
     (case json_loads (mc_frepr c) text of
        None \<Rightarrow> Inl JSONDecodeError
      | Some (JList xs) \<Rightarrow> Inr xs
      | Some (JStr s) \<Rightarrow> Inr (map (\<lambda>x. JStr [x]) s)
      | Some (JDict kvs) \<Rightarrow> Inr (map (JStr \<circ> fst) kvs)
      | Some _ \<Rightarrow> Inl TypeError)"

definition index_vector :: "memory_config \<Rightarrow> memory_record \<Rightarrow> vector \<Rightarrow> reindex_result \<Rightarrow> reindex_result mop" where
  "index_vector c r vec result =
     op_catch
       (op_bind (qdrant_upsert (api_collection c) (mc_api_dimensions c) r vec) (\<lambda>_.
        op_ret (result\<lparr>ri_indexed := ri_indexed result @ [record_id r]\<rparr>)))
       is_backend_unavailable
       (\<lambda>_. op_ret (result\<lparr>ri_pending := ri_pending result @ [record_id r]\<rparr>))"

fun reindex_records :: "memory_config \<Rightarrow> string \<Rightarrow> memory_record list \<Rightarrow> reindex_result \<Rightarrow> reindex_result mop" where
  "reindex_records c actor [] result = op_ret result"
| "reindex_records c actor (r # rs) result =
     (let api = mc_embedding_api c; text = mm_content (rc_row r); digest = mc_sha256 c (utf8_encode text) in
      op_bind (op_query (cached_vector c (record_id r) digest)) (\<lambda>cached.
      case cached of
        Some t \<Rightarrow>
          op_bind (op_lift (load_tuple c t)) (\<lambda>vec.
          op_bind (index_vector c r vec result) (\<lambda>result. reindex_records c actor rs result))
      | None \<Rightarrow>
          op_bind (reserve_provider_call actor ''reindex'' ''embedding-api'' (pa_model api) (pa_daily_call_budget api)) (\<lambda>call.
          case call of
            None \<Rightarrow> op_bind op_now (\<lambda>_. op_ret (result\<lparr>ri_pending := ri_pending result @ map record_id (r # rs)\<rparr>))
          | Some i \<Rightarrow>
              op_bind (op_catch (op_bind (api_embed c text ''document'') (\<lambda>e. op_ret (Some (em_vector e))))
                         (\<lambda>e. is_backend_unavailable e \<or> is_validation_error e)
                         (\<lambda>_. op_bind (complete_provider_call i ''failed'') (\<lambda>_. op_ret None))) (\<lambda>embedded.
              case embedded of
                None \<Rightarrow> reindex_records c actor rs (result\<lparr>ri_pending := ri_pending result @ [record_id r]\<rparr>)
              | Some vec \<Rightarrow>
                  op_bind (complete_provider_call i ''success'') (\<lambda>_.
                  op_bind (op_exec (cache_vector c (record_id r) digest (spaced_json (JList vec)))) (\<lambda>_.
                  op_bind (index_vector c r vec result) (\<lambda>result. reindex_records c actor rs result)))))))"

definition semantic_reindex :: "memory_config \<Rightarrow> string \<Rightarrow> memory_record list \<Rightarrow> reindex_result mop" where
  "semantic_reindex c actor records =
     op_bind (op_raise_if (\<not> pa_enabled (mc_embedding_api c)) (backend_unavailable ''embedding API is disabled'')) (\<lambda>_.
     op_bind (ensure_collection (api_collection c) (mc_api_dimensions c)) (\<lambda>_.
     reindex_records c actor records \<lparr>ri_indexed = [], ri_pending = []\<rparr>))"

section \<open>Reranking\<close>

text \<open>A candidate of a search: its record and its semantic score.\<close>

type_synonym scored = "memory_record \<times> rat"

definition authority_weight :: "string \<Rightarrow> rat" where
  "authority_weight s =
     (if s = ''authoritative'' then 1 else if s = ''verified'' then fl (8 / 10) else if s = ''derived'' then fl (45 / 100)
      else if s = ''historical'' then 1 / 4 else 0)"

fun is_infix :: "'c list \<Rightarrow> 'c list \<Rightarrow> bool" where
  "is_infix p [] = (p = [])"
| "is_infix p (c # s) = (take (length p) (c # s) = p \<or> is_infix p s)"

text \<open>The shared part of two sets of tokens.\<close>

definition token_overlap :: "nat list list \<Rightarrow> nat list list \<Rightarrow> rat" where
  "token_overlap qs ts =
     (let union = remdups (qs @ ts) in
      if union = [] then 0
      else fl (of_nat (length (filter (\<lambda>t. t \<in> set qs \<and> t \<in> set ts) union)) / of_nat (length union)))"

definition strip_points :: "nat list \<Rightarrow> nat list" where
  "strip_points s = rev (dropWhile fold_space (rev (dropWhile fold_space s)))"

definition recency :: "instant \<Rightarrow> instant \<Rightarrow> rat" where
  "recency now created =
     (let age_days = max 0 (fl (fl (of_int (now - created) / 1000000) / 86400)) in
      fl (1 / fl (1 + fl (age_days / 180))))"

text \<open>\<^verbatim>\<open>round(x, 8)\<close> of a float.\<close>

definition round8 :: "rat \<Rightarrow> rat" where
  "round8 x = fl (of_int (round_half_even (x * 100000000)) / 100000000)"

definition local_score :: "string \<Rightarrow> instant \<Rightarrow> scored \<Rightarrow> rat" where
  "local_score query now cand =
     (case cand of (r, semantic) \<Rightarrow>
      let row = rc_row r;
          overlap = token_overlap (tokenize query) (tokenize (mm_content row));
          phrase = strip_points (casefold query);
          phrase_score = (if phrase \<noteq> [] \<and> is_infix phrase (casefold (mm_content row)) then 1 else 0 :: rat);
          s1 = fl (fl (37 / 100) * semantic);
          s2 = fl (s1 + fl (fl (3 / 10) * overlap));
          s3 = fl (s2 + fl (fl (8 / 100) * phrase_score));
          s4 = fl (s3 + fl (fl (1 / 10) * authority_weight (mm_authority_status row)));
          s5 = fl (s4 + fl (fl (1 / 10) * mm_importance row));
          s6 = fl (s5 + fl (fl (5 / 100) * recency now (mm_created_at row)))
      in round8 s6)"

definition by_score :: "(memory_record \<times> rat) list \<Rightarrow> (memory_record \<times> rat) list" where
  "by_score rs = sort_key (\<lambda>(r, s). - s) (sort_key (\<lambda>(r, s). record_id r) rs)"

definition local_rerank :: "string \<Rightarrow> scored list \<Rightarrow> int \<Rightarrow> (memory_record \<times> rat) list mop" where
  "local_rerank query cands top_k =
     op_bind op_now (\<lambda>now.
     op_ret (take (nat top_k) (by_score (map (\<lambda>cand. (fst cand, local_score query now cand)) cands))))"

lemma local_rerank_code [code]:
  "local_rerank query cands top_k w =
     (case op_now w of
        (Inr now, w') \<Rightarrow> (Inr (take (nat top_k) (by_score (map (\<lambda>cand. (fst cand, local_score query now cand)) cands))), w')
      | (Inl e, w') \<Rightarrow> (Inl e, w'))"
  by (simp add: local_rerank_def op_bind_def op_now_def op_ret_def)

text \<open>The results of the remote reranker: each names a candidate by its position, and none twice.\<close>

definition rerank_failed :: "string \<Rightarrow> py_exc" where
  "rerank_failed kind = backend_unavailable (''reranker API failed: '' @ kind)"

fun check_ranking :: "memory_record list \<Rightarrow> int list \<Rightarrow> json list \<Rightarrow> (memory_record \<times> rat) list res" where
  "check_ranking cands seen [] = Inr []"
| "check_ranking cands seen (JDict d # items) =
     (case (map_of d ''index'', map_of d ''relevance_score'') of
        (Some i, Some s) \<Rightarrow>
          (case i of
             JInt n \<Rightarrow>
               res_bind (raise_if (n < 0 \<or> int (length cands) \<le> n \<or> n \<in> set seen) (rerank_failed ''ValueError'')) (\<lambda>_.
               res_bind (finite_number s) (\<lambda>ok.
               res_bind (raise_if (\<not> ok) (rerank_failed ''ValueError'')) (\<lambda>_.
               res_bind (py_float s) (\<lambda>x.
               case x of
                 None \<Rightarrow> Inl (rerank_failed ''ValueError'')
               | Some f \<Rightarrow>
                   res_bind (raise_if (\<not> (0 \<le> f \<and> f \<le> 1)) (rerank_failed ''ValueError'')) (\<lambda>_.
                   res_bind (check_ranking cands (n # seen) items) (\<lambda>rest. Inr ((cands ! nat n, f) # rest)))))))
           | _ \<Rightarrow> Inl (rerank_failed ''ValueError''))
      | _ \<Rightarrow> Inl (rerank_failed ''KeyError''))"
| "check_ranking cands seen (_ # items) = Inl (rerank_failed ''TypeError'')"

definition rerank_request :: "string \<Rightarrow> string list \<Rightarrow> int \<Rightarrow> json mop" where
  "rerank_request query documents top_k =
     (\<lambda>w. let r = mw_reranking w (length (mw_reranking_log w));
              w = w\<lparr>mw_reranking_log := mw_reranking_log w @ [(query, documents, top_k)]\<rparr>
          in (case r of AFailed e \<Rightarrow> (Inl e, w) | AAnswer v \<Rightarrow> (Inr v, w)))"

definition api_rerank :: "memory_config \<Rightarrow> string \<Rightarrow> scored list \<Rightarrow> int \<Rightarrow> (memory_record \<times> rat) list mop" where
  "api_rerank c query cands top_k =
     op_bind (op_raise_if (\<not> pa_enabled (mc_reranker_api c)) (backend_unavailable ''reranker API is disabled'')) (\<lambda>_.
     if cands = [] then op_ret []
     else
       let documents = map (\<lambda>cand. mm_content (rc_row (fst cand))) cands in
       op_bind (op_raise_if (length (utf8_encode query) + sum_list (map (\<lambda>s. length (utf8_encode s)) documents) > 65536)
                  (backend_unavailable ''reranker input exceeds the bounded API request'')) (\<lambda>_.
       op_bind (rerank_request query documents top_k) (\<lambda>v.
       case v of
         JList items \<Rightarrow>
           op_bind (op_raise_if (int (length items) > top_k) (rerank_failed ''ValueError'')) (\<lambda>_.
           op_lift (check_ranking (map fst cands) [] items))
       | _ \<Rightarrow> op_raise (rerank_failed ''ValueError''))))"

end
