(* ===== verification/Mem_Service.thy ===== *)
theory Mem_Service
  imports Mem_Index
begin

text \<open>
  \<^verbatim>\<open>memory/src/ops_memory/service.py\<close> and the dispatcher of \<^verbatim>\<open>protocol.py\<close>: ingestion, search, reading,
  invalidation, summaries, reindexing and maintenance, each for an actor bound to the Unix identity of the
  peer. A dict the code builds for the response is a record; its keys are the fields.
\<close>

section \<open>Views\<close>

record public_memory =
  pm_id :: string
  pm_content :: string
  pm_project :: string
  pm_environment :: string
  pm_classification :: string
  pm_category :: string
  pm_kind :: string
  pm_tier :: string
  pm_allowed_roles :: json
  pm_source_type :: string
  pm_source_uri :: string
  pm_source_ref :: string
  pm_source_authority :: string
  pm_authority_status :: string
  pm_metadata :: json
  pm_importance :: rat
  pm_valid_from :: instant
  pm_valid_until :: "instant option"
  pm_invalidated_at :: "instant option"
  pm_invalid_reason :: "string option"
  pm_stale_at :: "instant option"
  pm_stale :: bool
  pm_supersedes_id :: "string option"
  pm_superseded_by_id :: "string option"
  pm_reviewed :: bool
  pm_created_by :: string
  pm_created_at :: instant
  pm_updated_at :: instant
  pm_qdrant_state :: string
  pm_verify_against :: "string list"

definition source_truth :: "memory_config \<Rightarrow> string \<Rightarrow> string list" where
  "source_truth c category = (case map_of (mc_source_truth c) category of None \<Rightarrow> [] | Some ss \<Rightarrow> ss)"

definition public_record :: "memory_config \<Rightarrow> memory_record \<Rightarrow> public_memory" where
  "public_record c r =
     (let row = rc_row r in
      \<lparr>pm_id = mm_id row, pm_content = mm_content row, pm_project = mm_project row, pm_environment = mm_environment row,
       pm_classification = mm_classification row, pm_category = mm_category row, pm_kind = mm_kind row, pm_tier = mm_tier row,
       pm_allowed_roles = rc_allowed_roles r, pm_source_type = mm_source_type row, pm_source_uri = mm_source_uri row,
       pm_source_ref = mm_source_ref row, pm_source_authority = mm_source_authority row,
       pm_authority_status = mm_authority_status row, pm_metadata = rc_metadata r, pm_importance = mm_importance row,
       pm_valid_from = mm_valid_from row, pm_valid_until = mm_valid_until row, pm_invalidated_at = mm_invalidated_at row,
       pm_invalid_reason = mm_invalid_reason row, pm_stale_at = mm_stale_at row, pm_stale = rc_stale r,
       pm_supersedes_id = mm_supersedes_id row, pm_superseded_by_id = mm_superseded_by_id row, pm_reviewed = mm_reviewed row,
       pm_created_by = mm_created_by row, pm_created_at = mm_created_at row, pm_updated_at = mm_updated_at row,
       pm_qdrant_state = mm_qdrant_state row, pm_verify_against = source_truth c (mm_category row)\<rparr>)"

record limited_memory =
  lm_id :: string
  lm_project :: string
  lm_environment :: string
  lm_classification :: string
  lm_category :: string
  lm_kind :: string
  lm_allowed_roles :: json
  lm_qdrant_state :: string

definition limited_record :: "memory_record \<Rightarrow> limited_memory" where
  "limited_record r =
     (let row = rc_row r in
      \<lparr>lm_id = mm_id row, lm_project = mm_project row, lm_environment = mm_environment row, lm_classification = mm_classification row,
       lm_category = mm_category row, lm_kind = mm_kind row, lm_allowed_roles = rc_allowed_roles r, lm_qdrant_state = mm_qdrant_state row\<rparr>)"

datatype memory_view = FullView public_memory | LimitedView limited_memory

text \<open>The \<^verbatim>\<open>id\<close> of a view, and a record whose \<^verbatim>\<open>qdrant_state\<close> was overwritten in memory.\<close>

definition view_id :: "memory_view \<Rightarrow> string" where
  "view_id v = (case v of FullView p \<Rightarrow> pm_id p | LimitedView l \<Rightarrow> lm_id l)"

definition with_state :: "string \<Rightarrow> memory_record \<Rightarrow> memory_record" where
  "with_state s r = r\<lparr>rc_row := (rc_row r)\<lparr>mm_qdrant_state := s\<rparr>\<rparr>"

section \<open>Actors, authority, escalation\<close>

definition actor_for :: "memory_config \<Rightarrow> string \<Rightarrow> int \<Rightarrow> string \<Rightarrow> actor_policy res" where
  "actor_for c name peer_uid capability =
     res_bind (authenticate c name peer_uid) (\<lambda>a. res_bind (require_capability a capability) (\<lambda>_. Inr a))"

definition DURABLE_KINDS :: "string list" where
  "DURABLE_KINDS = [''information'', ''decision'', ''rule'', ''procedure'', ''incident'', ''summary'']"

definition REVIEW_REQUIRED_KINDS :: "string list" where
  "REVIEW_REQUIRED_KINDS = [''decision'', ''rule'', ''procedure'']"

definition authority_status :: "memory_config \<Rightarrow> actor_policy \<Rightarrow> ingest_request \<Rightarrow> string" where
  "authority_status c a rq =
     (if ig_source_type rq \<in> {''llm'', ''model'', ''generated''} then ''derived''
      else if ig_source_type rq \<in> set (source_truth c (ig_category rq)) \<and>
              ig_source_type rq \<in> set (ap_authoritative_source_types a) \<and> ig_reviewed rq then ''authoritative''
      else if ig_reviewed rq then ''verified''
      else if ig_kind rq \<in> {''incident'', ''summary''} then ''historical''
      else ''derived'')"

definition embed :: "memory_config \<Rightarrow> string \<Rightarrow> string \<Rightarrow> string \<Rightarrow> bool \<Rightarrow> bool \<Rightarrow> embedding_result mop" where
  "embed c actor operation text allow_api important =
     (let local_result = local_embed c text; api = mc_embedding_api c;
          escalate = (allow_api \<and> (important \<or> em_confidence local_result < mc_min_local_confidence c)) in
      if \<not> escalate \<or> \<not> pa_enabled api then op_ret local_result
      else
        op_bind (has_records c) (\<lambda>some.
        if \<not> some then op_ret local_result
        else
          op_bind (reserve_provider_call actor operation ''embedding-api'' (pa_model api) (pa_daily_call_budget api)) (\<lambda>call.
          case call of
            None \<Rightarrow> op_ret local_result
          | Some i \<Rightarrow>
              op_bind (op_catch (op_bind (api_embed c text (if pa_protocol api \<in> {''voyage'', ''jina''} then ''query'' else ''document''))
                                   (\<lambda>e. op_ret (Some e)))
                         (\<lambda>e. is_backend_unavailable e \<or> is_validation_error e)
                         (\<lambda>_. op_bind (complete_provider_call i ''failed'') (\<lambda>_. op_ret None))) (\<lambda>result.
              case result of
                None \<Rightarrow> op_ret local_result
              | Some e \<Rightarrow> op_bind (complete_provider_call i ''success'') (\<lambda>_. op_ret e)))))"

definition rerank :: "memory_config \<Rightarrow> string \<Rightarrow> string \<Rightarrow> scored list \<Rightarrow> int \<Rightarrow> bool \<Rightarrow> bool \<Rightarrow> ((memory_record \<times> rat) list \<times> string) mop" where
  "rerank c actor query cands top_k allow_api important =
     (let api = mc_reranker_api c;
          fallback = op_bind (local_rerank query cands top_k) (\<lambda>rs. op_ret (rs, ''local'')) in
      if \<not> (allow_api \<and> important \<and> pa_enabled api) then fallback
      else
        op_bind (reserve_provider_call actor ''search'' ''reranker-api'' (pa_model api) (pa_daily_call_budget api)) (\<lambda>call.
        case call of
          None \<Rightarrow> fallback
        | Some i \<Rightarrow>
            op_bind (op_catch (op_bind (api_rerank c query cands top_k) (\<lambda>rs. op_ret (Some rs)))
                       is_backend_unavailable
                       (\<lambda>_. op_bind (complete_provider_call i ''failed'') (\<lambda>_. op_ret None))) (\<lambda>result.
            case result of
              None \<Rightarrow> fallback
            | Some rs \<Rightarrow> op_bind (complete_provider_call i ''success'') (\<lambda>_. op_ret (rs, ''api'')))))"

section \<open>Ingestion\<close>

datatype ingest_result =
    Ignored string
  | Stored bool bool string memory_view  \<comment> \<open>deduplicated, degraded, embedding provider, memory\<close>

text \<open>An observation without an end of validity gets the configured one.\<close>

definition with_expiry :: "memory_config \<Rightarrow> ingest_request \<Rightarrow> ingest_request mop" where
  "with_expiry c rq =
     (if ig_kind rq = ''observation'' \<and> ig_valid_until rq = None
      then op_bind op_now (\<lambda>t.
           op_bind (op_lift (in_range (t + mc_observation_ttl_days c * 86400000000))) (\<lambda>u.
           op_ret (rq\<lparr>ig_valid_until := Some (whole_second u)\<rparr>)))
      else op_ret rq)"

text \<open>Whether the request would show the memory to more than could see the one it supersedes.\<close>

definition widens :: "ingest_request \<Rightarrow> memory_record \<Rightarrow> bool res" where
  "widens rq previous =
     res_bind (classification_rank (ig_classification rq)) (\<lambda>new.
     res_bind (classification_rank (mm_classification (rc_row previous))) (\<lambda>old.
     Inr (new < old \<or> \<not> set (ig_allowed_roles rq) \<subseteq> set (role_names (rc_allowed_roles previous)))))"

definition check_supersession :: "memory_config \<Rightarrow> actor_policy \<Rightarrow> ingest_request \<Rightarrow> unit mop" where
  "check_supersession c a rq =
     (case ig_supersedes_id rq of
        None \<Rightarrow> op_ret ()
      | Some i \<Rightarrow>
          op_bind (op_catch (get_memory c i) is_not_found
                     (\<lambda>_. op_raise (not_found_error ''superseded memory does not exist''))) (\<lambda>previous.
          op_bind (op_lift (record_visible a previous)) (\<lambda>visible.
          op_bind (op_raise_if (\<not> visible) (not_found_error ''superseded memory does not exist'')) (\<lambda>_.
          op_bind (op_lift (widens rq previous)) (\<lambda>widening.
          op_bind (op_raise_if (widening \<and> ''declassify'' \<notin> set (ap_capabilities a))
                     (authorization_error ''supersession would widen memory visibility'')) (\<lambda>_.
          op_raise_if (ig_category rq \<noteq> mm_category (rc_row previous) \<and> ''reclassify'' \<notin> set (ap_capabilities a))
            (authorization_error ''supersession cannot change category'')))))))"

definition ingest_facts :: "ingest_request \<Rightarrow> access_facts" where
  "ingest_facts rq = scope_facts (ig_project rq) (ig_environment rq) (ig_classification rq)"

text \<open>Indexing the new record and removing the superseded one; the state the record ends in, or the exception.\<close>

definition drop_superseded :: "memory_config \<Rightarrow> string option \<Rightarrow> unit mop" where
  "drop_superseded c superseded =
     (case superseded of
        None \<Rightarrow> op_ret ()
      | Some s \<Rightarrow>
          op_catch (op_bind (qdrant_delete (mc_collection c) s) (\<lambda>_. mark_qdrant s ''deleted'' None)) is_backend_unavailable
            (\<lambda>_. mark_qdrant s ''delete_pending'' (Some ''Qdrant unavailable'')))"

definition index_record :: "memory_config \<Rightarrow> ingest_request \<Rightarrow> memory_record \<Rightarrow> vector \<Rightarrow> string option \<Rightarrow> (memory_record \<times> bool) mop" where
  "index_record c rq r vec superseded =
     op_catch
       (op_bind (ensure_collection (mc_collection c) (mc_dimensions c)) (\<lambda>_.
        op_bind (qdrant_upsert (mc_collection c) (mc_dimensions c) r vec) (\<lambda>_.
        op_bind (mark_qdrant (record_id r) ''indexed'' None) (\<lambda>_.
        op_bind (drop_superseded c superseded) (\<lambda>_.
        op_ret (with_state ''indexed'' r, False))))))
       is_backend_unavailable
       (\<lambda>e. op_bind (mark_qdrant (record_id r) ''failed'' (Some (exc_text e))) (\<lambda>_.
            if mc_allow_degraded_writes c then op_ret (with_state ''failed'' r, True)
            else op_bind (audit c (ig_actor rq) ''ingest'' ''backend_unavailable'' ((ingest_facts rq)\<lparr>af_target_id := Some (record_id r)\<rparr>)) (\<lambda>_.
                 op_raise e)))"

definition stored_view :: "memory_config \<Rightarrow> actor_policy \<Rightarrow> memory_record \<Rightarrow> memory_view res" where
  "stored_view c a r =
     res_bind (record_visible a r) (\<lambda>visible. Inr (if visible then FullView (public_record c r) else LimitedView (limited_record r)))"

definition admit :: "memory_config \<Rightarrow> actor_policy \<Rightarrow> ingest_request \<Rightarrow> ingest_result mop" where
  "admit c a rq =
     op_bind (with_expiry c rq) (\<lambda>rq.
     op_bind (op_raise_if (case ig_valid_until rq of None \<Rightarrow> False | Some u \<Rightarrow> u \<le> ig_valid_from rq)
                (validation_error ''valid_until must be after valid_from'')) (\<lambda>_.
     op_bind (check_supersession c a rq) (\<lambda>_.
     op_bind (embed c (ig_actor rq) ''ingest'' (ig_content rq) False False) (\<lambda>e.
     op_bind (store_memory c rq (em_vector e) (em_model e) (authority_status c a rq)) (\<lambda>(r, duplicate, superseded).
     op_bind (if duplicate then op_ret (r, False) else index_record c rq r (em_vector e) superseded) (\<lambda>(r, degraded).
     op_bind (audit c (ig_actor rq) ''ingest'' (if duplicate then ''deduplicated'' else if degraded then ''degraded'' else ''stored'')
                ((ingest_facts rq)\<lparr>af_target_id := Some (record_id r),
                   af_detail := ''kind='' @ ig_kind rq @ '';source='' @ ig_source_type rq\<rparr>)) (\<lambda>_.
     op_bind (op_lift (stored_view c a r)) (\<lambda>view.
     op_ret (Stored duplicate degraded (em_provider e) view)))))))))"

definition ingest :: "memory_config \<Rightarrow> json \<Rightarrow> int \<Rightarrow> ingest_result mop" where
  "ingest c raw peer_uid =
     op_bind utc_now (\<lambda>now.
     op_bind (op_lift (parse_ingest c now raw)) (\<lambda>rq.
     op_bind (op_lift (actor_for c (ig_actor rq) peer_uid ''write'')) (\<lambda>a.
     op_bind (op_lift (authorize_ingest a rq)) (\<lambda>_.
     op_bind (op_raise_if (ig_category rq = ''secrets'' \<or> ig_source_type rq = ''openbao-secret'')
                (validation_error ''secrets belong in OpenBao and cannot enter semantic memory'')) (\<lambda>_.
     if ig_kind rq \<in> {''noise'', ''conversation''} \<and> \<not> ig_promote rq then
       op_bind (audit c (ig_actor rq) ''ingest'' ''ignored'' ((ingest_facts rq)\<lparr>af_detail := ''selective_ingestion:'' @ ig_kind rq\<rparr>)) (\<lambda>_.
       op_ret (Ignored (ig_kind rq)))
     else
       op_bind (op_raise_if (ig_kind rq \<in> set REVIEW_REQUIRED_KINDS \<and> \<not> ig_reviewed rq)
                  (validation_error (ig_kind rq @ '' memory requires reviewed=true''))) (\<lambda>_.
       op_bind (op_raise_if (ig_source_type rq = ''zulip'' \<and> ig_kind rq \<in> set DURABLE_KINDS \<and> \<not> ig_promote rq)
                  (validation_error ''durable Zulip memory requires explicit promote=true'')) (\<lambda>_.
       admit c a rq)))))))"

section \<open>Search\<close>

record search_result =
  sr_results :: "(public_memory \<times> rat) list"
  sr_candidate_count :: nat
  sr_backend :: string
  sr_degraded :: bool
  sr_embedding :: "string \<times> string"
  sr_reranker :: "string \<times> string"

text \<open>Scores of two vector spaces are combined by rank.\<close>

fun add_ranks :: "nat \<Rightarrow> (string \<times> rat) list \<Rightarrow> (string \<times> rat) list \<Rightarrow> (string \<times> rat) list" where
  "add_ranks n [] scores = scores"
| "add_ranks n ((i, _) # hits) scores =
     add_ranks (Suc n) hits
       (dict_set i (fl ((case map_of scores i of None \<Rightarrow> 0 | Some x \<Rightarrow> x) + fl (1 / of_nat (n + 1)))) scores)"

definition merge_hits :: "(string \<times> rat) list \<Rightarrow> (string \<times> rat) list \<Rightarrow> int \<Rightarrow> (string \<times> rat) list" where
  "merge_hits local_hits remote_hits limit =
     (let scores = add_ranks 0 remote_hits (add_ranks 0 local_hits []) in
      take (nat limit) (map (\<lambda>(i, s). (i, min (fl (s / 2)) 1)) (sort_key (\<lambda>(i, s). - s) (sort_key fst scores))))"

definition last_score :: "(string \<times> rat) list \<Rightarrow> string \<Rightarrow> rat" where
  "last_score hits i = (case map_of (rev hits) i of None \<Rightarrow> 0 | Some s \<Rightarrow> s)"

definition search_filter :: "search_request \<Rightarrow> actor_policy \<Rightarrow> int \<Rightarrow> qdrant_filter" where
  "search_filter rq a rank =
     \<lparr>qf_project = sq_project rq, qf_environment = sq_environment rq, qf_max_rank = rank, qf_roles = ap_roles a,
      qf_categories = sq_categories rq, qf_kinds = sq_kinds rq, qf_limit = sq_candidate_limit rq\<rparr>"

text \<open>The second filter, on the records of the catalogue.\<close>

definition keeps :: "actor_policy \<Rightarrow> search_request \<Rightarrow> memory_record \<Rightarrow> bool mop" where
  "keeps a rq r =
     (let row = rc_row r in
      op_bind (is_current r) (\<lambda>current.
      if \<not> current then op_ret False
      else
        op_bind (op_lift (record_visible a r)) (\<lambda>visible.
        if \<not> visible \<or> mm_project row \<noteq> sq_project rq \<or> mm_environment row \<noteq> sq_environment rq then op_ret False
        else
          op_bind (op_lift (classification_rank (mm_classification row))) (\<lambda>k.
          op_bind (op_lift (classification_rank (sq_max_classification rq))) (\<lambda>m.
          op_ret (k \<le> m \<and> (sq_categories rq = [] \<or> mm_category row \<in> set (sq_categories rq)) \<and>
                  (sq_kinds rq = [] \<or> mm_kind row \<in> set (sq_kinds rq))))))))"

fun filter_records :: "actor_policy \<Rightarrow> search_request \<Rightarrow> memory_record list \<Rightarrow> memory_record list mop" where
  "filter_records a rq [] = op_ret []"
| "filter_records a rq (r # rs) =
     op_bind (keeps a rq r) (\<lambda>keep.
     op_bind (filter_records a rq rs) (\<lambda>rest. op_ret (if keep then r # rest else rest)))"

definition vector_candidates ::
  "memory_config \<Rightarrow> actor_policy \<Rightarrow> search_request \<Rightarrow> embedding_result \<Rightarrow> (scored list \<times> embedding_result) mop" where
  "vector_candidates c a rq e =
     op_bind (op_lift (classification_rank (sq_max_classification rq))) (\<lambda>rank.
     let f = search_filter rq a rank in
     op_bind (qdrant_search (mc_collection c) (em_vector (local_embed c (sq_query rq))) f) (\<lambda>local_hits.
     op_bind (if em_provider e = ''api''
              then op_catch (op_bind (qdrant_search (api_collection c) (em_vector e) f) (\<lambda>remote_hits.
                               op_ret (merge_hits local_hits remote_hits (sq_candidate_limit rq), e)))
                     is_backend_unavailable
                     (\<lambda>_. op_ret (local_hits, local_embed c (sq_query rq)))
              else op_ret (local_hits, e)) (\<lambda>(hits, e).
     op_bind (get_many c (map fst hits)) (\<lambda>rs.
     op_bind (filter_records a rq rs) (\<lambda>kept.
     op_ret (map (\<lambda>r. (r, last_score hits (record_id r))) kept, e))))))"

text \<open>\<^verbatim>\<open>fallback_candidates\<close> of the catalogue: the lexical search without the index.\<close>

definition matches_filter :: "search_request \<Rightarrow> int \<Rightarrow> instant \<Rightarrow> memory_row \<Rightarrow> bool" where
  "matches_filter rq rank now r \<longleftrightarrow>
     mm_project r = sq_project rq \<and> mm_environment r = sq_environment rq \<and> mm_classification_rank r \<le> rank \<and>
     row_current now r \<and> (sq_categories rq = [] \<or> mm_category r \<in> set (sq_categories rq)) \<and>
     (sq_kinds rq = [] \<or> mm_kind r \<in> set (sq_kinds rq))"

definition fallback_candidates :: "memory_config \<Rightarrow> search_request \<Rightarrow> string list \<Rightarrow> int \<Rightarrow> scored list mop" where
  "fallback_candidates c rq roles scan_limit =
     op_bind utc_now (\<lambda>now.
     op_bind (op_lift (classification_rank (sq_max_classification rq))) (\<lambda>rank.
     op_bind (op_query (\<lambda>d. take (nat scan_limit) (latest_first mm_updated_at (filter (matches_filter rq rank now) (md_memories d))))) (\<lambda>rows.
     op_bind (records_of c rows) (\<lambda>rs.
     let scored = map (\<lambda>r. (r, token_overlap (tokenize (sq_query rq)) (tokenize (mm_content (rc_row r))))) rs;
         visible = filter (\<lambda>(r, s). set (role_names (rc_allowed_roles r)) \<inter> set roles \<noteq> {} \<and> s > 0) scored
     in op_ret (take (nat scan_limit)
          (sort_key (\<lambda>(r, s). - s) (sort_key (\<lambda>(r, s). - mm_importance (rc_row r)) (sort_key (\<lambda>(r, s). record_id r) visible))))))))"

text \<open>
  The score of a stale candidate is halved. A record that is listed twice is one object, whose score is
  then halved at each listing.
\<close>

definition halve :: "rat \<Rightarrow> rat" where
  "halve s = fl (s / 2)"

definition stale_scores :: "scored list \<Rightarrow> scored list" where
  "stale_scores cands =
     map (\<lambda>(r, s). (r, if rc_stale r then (halve ^^ length (filter (\<lambda>(r', _). record_id r' = record_id r) cands)) s else s)) cands"

definition search_candidates ::
  "memory_config \<Rightarrow> actor_policy \<Rightarrow> search_request \<Rightarrow> embedding_result \<Rightarrow> (scored list \<times> embedding_result \<times> string) mop" where
  "search_candidates c a rq e =
     op_catch (op_bind (vector_candidates c a rq e) (\<lambda>(cands, e). op_ret (cands, e, ''qdrant'')))
       is_backend_unavailable
       (\<lambda>err.
          if \<not> mc_allow_degraded_reads c then
            op_bind (audit c (sq_actor rq) ''search'' ''backend_unavailable''
                       ((scope_facts (sq_project rq) (sq_environment rq) (sq_max_classification rq))\<lparr>af_query := Some (sq_query rq)\<rparr>)) (\<lambda>_.
            op_raise err)
          else
            op_bind (fallback_candidates c rq (ap_roles a) (mc_fallback_scan_limit c)) (\<lambda>cands.
            op_ret (take (nat (sq_candidate_limit rq)) cands, e, ''sqlite-lexical-degraded'')))"

definition search_memories :: "memory_config \<Rightarrow> json \<Rightarrow> int \<Rightarrow> search_result mop" where
  "search_memories c raw peer_uid =
     op_bind (op_lift (parse_search (mc_result_limit c) (mc_candidate_limit c) raw)) (\<lambda>rq.
     op_bind (op_lift (actor_for c (sq_actor rq) peer_uid ''read'')) (\<lambda>a.
     op_bind (op_lift (authorize_search a rq)) (\<lambda>_.
     op_bind (op_raise_if (sq_allow_api rq \<and> ''api-escalate'' \<notin> set (ap_capabilities a))
                (authorization_error ''actor cannot request an external provider'')) (\<lambda>_.
     op_bind (embed c (sq_actor rq) ''search'' (sq_query rq) (sq_allow_api rq) (sq_important rq)) (\<lambda>e.
     op_bind (search_candidates c a rq e) (\<lambda>(cands, e, backend).
     op_bind (rerank c (sq_actor rq) (sq_query rq) (stale_scores cands) (sq_top_k rq) (sq_allow_api rq) (sq_important rq)) (\<lambda>(ranked, provider).
     let results = map (\<lambda>(r, s). (public_record c r, s)) ranked; degraded = (backend \<noteq> ''qdrant'') in
     op_bind (audit c (sq_actor rq) ''search'' (if degraded then ''degraded'' else ''success'')
                ((scope_facts (sq_project rq) (sq_environment rq) (sq_max_classification rq))\<lparr>af_query := Some (sq_query rq),
                   af_detail := ''backend='' @ backend @ '';results='' @ nat_str (length results)\<rparr>)) (\<lambda>_.
     op_ret \<lparr>sr_results = results, sr_candidate_count = length cands, sr_backend = backend, sr_degraded = degraded,
             sr_embedding = (em_provider e, em_model e),
             sr_reranker = (provider, if provider = ''api'' then pa_model (mc_reranker_api c) else mc_reranker_model c)\<rparr>))))))))"

section \<open>Reading and invalidating\<close>

definition require_visible :: "actor_policy \<Rightarrow> memory_record \<Rightarrow> unit mop" where
  "require_visible a r =
     op_bind (op_lift (record_visible a r)) (\<lambda>visible. op_raise_if (\<not> visible) (not_found_error ''memory does not exist''))"

definition record_facts :: "memory_record \<Rightarrow> access_facts" where
  "record_facts r = scope_facts (mm_project (rc_row r)) (mm_environment (rc_row r)) (mm_classification (rc_row r))"

definition read_memory :: "memory_config \<Rightarrow> string \<Rightarrow> int \<Rightarrow> string \<Rightarrow> public_memory mop" where
  "read_memory c actor_name peer_uid record_id' =
     op_bind (op_lift (actor_for c actor_name peer_uid ''read'')) (\<lambda>a.
     case uuid_canon record_id' of
       None \<Rightarrow> op_raise (validation_error ''id must be a UUID'')
     | Some i \<Rightarrow>
         op_bind (get_memory c i) (\<lambda>r.
         op_bind (require_visible a r) (\<lambda>_.
         op_bind (audit c actor_name ''get'' ''success'' ((record_facts r)\<lparr>af_target_id := Some i\<rparr>)) (\<lambda>_.
         op_ret (public_record c r)))))"

text \<open>\<^verbatim>\<open>str(raw.get(key, ""))\<close>.\<close>

definition field_text :: "jdict \<Rightarrow> string \<Rightarrow> string" where
  "field_text d k = py_str (field_or d k (JStr []))"

definition invalidate :: "memory_config \<Rightarrow> json \<Rightarrow> int \<Rightarrow> public_memory mop" where
  "invalidate c raw peer_uid =
     (case raw of
        JDict d \<Rightarrow>
          op_bind (op_lift (unknown_fields d [''actor'', ''id'', ''reason''] ''unknown invalidation fields'')) (\<lambda>_.
          let actor_name = field_text d ''actor''; i = field_text d ''id''; reason = py_strip (field_text d ''reason'') in
          op_bind (op_lift (actor_for c actor_name peer_uid ''invalidate'')) (\<lambda>a.
          op_bind (op_raise_if (reason = [] \<or> length reason > 512)
                     (validation_error ''reason must be non-empty and at most 512 characters'')) (\<lambda>_.
          op_bind (op_lift (check_for_secrets reason [])) (\<lambda>_.
          op_bind (get_memory c i) (\<lambda>r.
          op_bind (require_visible a r) (\<lambda>_.
          op_bind (invalidate_memory c i reason) (\<lambda>result.
          op_bind (op_catch (op_bind (qdrant_delete (mc_collection c) i) (\<lambda>_.
                             op_bind (mark_qdrant i ''deleted'' None) (\<lambda>_. op_ret (with_state ''deleted'' result))))
                     is_backend_unavailable
                     (\<lambda>_. op_ret (with_state ''delete_pending'' result))) (\<lambda>result.
          op_bind (audit c actor_name ''invalidate'' ''success'' ((record_facts r)\<lparr>af_target_id := Some i, af_detail := reason\<rparr>)) (\<lambda>_.
          op_ret (public_record c result))))))))))
      | _ \<Rightarrow> op_raise (validation_error ''request must be an object''))"

definition reindex_api :: "memory_config \<Rightarrow> string \<Rightarrow> int \<Rightarrow> json \<Rightarrow> reindex_result mop" where
  "reindex_api c actor_name peer_uid ids =
     op_bind (op_lift (actor_for c actor_name peer_uid ''write'')) (\<lambda>a.
     op_bind (op_raise_if (''api-escalate'' \<notin> set (ap_capabilities a))
                (authorization_error ''actor cannot request an external provider'')) (\<lambda>_.
     op_bind (op_lift (string_list_of (\<lambda>_. True) ids ''reindex requires 1 to 20 distinct memory IDs'')) (\<lambda>ids.
     op_bind (op_raise_if (ids = [] \<or> length ids > 20 \<or> \<not> distinct ids)
                (validation_error ''reindex requires 1 to 20 distinct memory IDs'')) (\<lambda>_.
     op_bind (get_many c ids) (\<lambda>rs.
     op_bind (op_raise_if (length rs \<noteq> length ids) (not_found_error ''one or more memories are not available'')) (\<lambda>_.
     op_bind (op_iter (\<lambda>r.
        op_bind (is_current r) (\<lambda>current.
        op_bind (op_raise_if (\<not> current) (not_found_error ''one or more memories are not available'')) (\<lambda>_.
        op_bind (op_lift (record_visible a r)) (\<lambda>visible.
        op_raise_if (\<not> visible) (not_found_error ''one or more memories are not available''))))) rs) (\<lambda>_.
     op_bind (semantic_reindex c actor_name rs) (\<lambda>result.
     op_bind (audit c actor_name ''reindex_api'' (if ri_pending result \<noteq> [] then ''partial'' else ''success'')
                (no_facts\<lparr>af_detail := mc_space c\<rparr>)) (\<lambda>_.
     op_ret result)))))))))"

end
