(* ===== verification/Mem_Dispatch.thy ===== *)
theory Mem_Dispatch
  imports Mem_Service
begin

text \<open>
  Summaries, maintenance, statistics and the dispatcher: the rest of \<^verbatim>\<open>service.py\<close> and \<^verbatim>\<open>Dispatcher.dispatch\<close>
  of \<^verbatim>\<open>protocol.py\<close>, which turns every exception into an error response.
\<close>

section \<open>Summaries\<close>

definition summary_lines :: "string \<Rightarrow> string \<Rightarrow> json \<Rightarrow> string list res" where
  "summary_lines field title value =
     (let values =
        (case value of
           JStr s \<Rightarrow> Inr [s]
         | JList xs \<Rightarrow> (case json_strings (\<lambda>s. py_strip s \<noteq> []) xs of
                         Some ss \<Rightarrow> Inr ss
                       | None \<Rightarrow> Inl (validation_error (''summary.'' @ field @ '' must be text or a string list'')))
         | _ \<Rightarrow> Inl (validation_error (''summary.'' @ field @ '' must be text or a string list'')))
      in if value \<in> {JNull, JStr [], JList []} then Inr []
         else res_bind values (\<lambda>vs. Inr ((title @ '':'') # map (\<lambda>s. ''- '' @ py_strip s) vs)))"

definition SUMMARY_FIELDS :: "(string \<times> string) list" where
  "SUMMARY_FIELDS = [(''objective'', ''Objective''), (''decisions'', ''Decisions''), (''changes'', ''Changes''), (''open_items'', ''Open Items'')]"

definition summary_content :: "json \<Rightarrow> string res" where
  "summary_content structured =
     (case structured of
        JDict d \<Rightarrow>
          res_bind (raise_if (\<not> set (map fst d) \<subseteq> set (map fst SUMMARY_FIELDS)) (validation_error ''summary contains unsupported fields'')) (\<lambda>_.
          res_bind (res_map (\<lambda>(field, title). summary_lines field title (field_or d field JNull)) SUMMARY_FIELDS) (\<lambda>parts.
          res_bind (raise_if (concat parts = []) (validation_error ''summary must not be empty'')) (\<lambda>_.
          Inr (join [chr_nl] (concat parts)))))
      | _ \<Rightarrow> Inl (validation_error ''summary must be an object''))"

text \<open>The first record of the highest classification, and the roles all records share.\<close>

fun highest :: "memory_record \<Rightarrow> int \<Rightarrow> memory_record list \<Rightarrow> memory_record res" where
  "highest best k [] = Inr best"
| "highest best k (r # rs) =
     res_bind (classification_rank (mm_classification (rc_row r))) (\<lambda>n. if k < n then highest r n rs else highest best k rs)"

definition max_classification :: "memory_record list \<Rightarrow> string res" where
  "max_classification rs =
     (case rs of [] \<Rightarrow> Inl ValueError
      | r # rest \<Rightarrow> res_bind (classification_rank (mm_classification (rc_row r))) (\<lambda>k.
          res_bind (highest r k rest) (\<lambda>best. Inr (mm_classification (rc_row best)))))"

definition common_roles :: "actor_policy \<Rightarrow> memory_record list \<Rightarrow> string list" where
  "common_roles a rs =
     (let candidates = (case rs of [] \<Rightarrow> [] | r # _ \<Rightarrow> remdups (role_names (rc_allowed_roles r))) in
      filter (\<lambda>role. list_all (\<lambda>r. role \<in> set (role_names (rc_allowed_roles r))) rs \<and> role \<in> set (ap_grantable_roles a)) candidates)"

definition summary_body ::
  "string \<Rightarrow> string \<Rightarrow> memory_record \<Rightarrow> string \<Rightarrow> string \<Rightarrow> string list \<Rightarrow> string \<Rightarrow> json \<Rightarrow> json \<Rightarrow> jdict" where
  "summary_body actor_name content member classification category roles digest metadata importance =
     [(''actor'', JStr actor_name), (''content'', JStr content), (''project'', JStr (mm_project (rc_row member))),
      (''environment'', JStr (mm_environment (rc_row member))), (''classification'', JStr classification), (''category'', JStr category),
      (''kind'', JStr ''summary''), (''tier'', JStr ''cold''), (''allowed_roles'', JList (map JStr roles)),
      (''source_type'', JStr ''memory-consolidation''), (''source_uri'', JStr (''memory://summary/'' @ digest)),
      (''source_ref'', JStr digest), (''source_authority'', JStr ''ops-memory''), (''metadata'', metadata),
      (''importance'', importance), (''reviewed'', JBool True), (''promote'', JBool True)]"

definition all_visible :: "actor_policy \<Rightarrow> memory_record list \<Rightarrow> bool res" where
  "all_visible a rs = all_res (record_visible a) rs"

definition summarize :: "memory_config \<Rightarrow> json \<Rightarrow> int \<Rightarrow> ingest_result mop" where
  "summarize c raw peer_uid =
     (case raw of
        JDict d \<Rightarrow>
          op_bind (op_lift (unknown_fields d [''actor'', ''record_ids'', ''summary'', ''category'', ''metadata'', ''importance'']
                              ''unknown summary fields'')) (\<lambda>_.
          let actor_name = field_text d ''actor'' in
          op_bind (op_lift (actor_for c actor_name peer_uid ''summarize'')) (\<lambda>a.
          op_bind (op_lift (case field_or d ''record_ids'' JNull of
                      JList xs \<Rightarrow> if 1 \<le> length xs \<and> length xs \<le> 100 then Inr xs
                                  else Inl (validation_error ''record_ids must contain between 1 and 100 IDs'')
                    | _ \<Rightarrow> Inl (validation_error ''record_ids must contain between 1 and 100 IDs''))) (\<lambda>xs.
          op_bind (op_lift (case those (map uuid_of_json xs) of None \<Rightarrow> Inl (validation_error ''record_ids contains an invalid UUID'')
                            | Some ids \<Rightarrow> Inr ids)) (\<lambda>ids.
          op_bind (op_raise_if (\<not> distinct ids) (validation_error ''record_ids contains duplicates'')) (\<lambda>_.
          op_bind (get_many c ids) (\<lambda>rs.
          op_bind (op_raise_if (length rs \<noteq> length ids) (not_found_error ''one or more memories do not exist'')) (\<lambda>_.
          op_bind (op_lift (all_visible a rs)) (\<lambda>visible.
          op_bind (op_raise_if (\<not> visible) (not_found_error ''one or more memories do not exist'')) (\<lambda>_.
          op_bind (op_raise_if (list_ex (\<lambda>r. (mm_project (rc_row r), mm_environment (rc_row r)) \<noteq>
                                              (mm_project (rc_row (hd rs)), mm_environment (rc_row (hd rs)))) rs)
                     (conflict_error ''summary members must share project and environment'')) (\<lambda>_.
          op_bind (op_lift (summary_content (field_or d ''summary'' JNull))) (\<lambda>content.
          op_bind (op_lift (check_for_secrets content [])) (\<lambda>_.
          op_bind (op_lift (max_classification rs)) (\<lambda>classification.
          let roles = sort (common_roles a rs) in
          op_bind (op_raise_if (roles = []) (authorization_error ''summary has no common authorized audience'')) (\<lambda>_.
          op_bind (ingest c (JDict (summary_body actor_name content (hd rs) classification
                                      (py_str (field_or d ''category'' (JStr ''mission-summary''))) roles
                                      (mc_sha256 c (utf8_encode (join [chr_nl] ids)))
                                      (field_or d ''metadata'' (JDict [])) (field_or d ''importance'' (JFloat ''0.7''))))
                     peer_uid) (\<lambda>result.
          case result of
            Ignored _ \<Rightarrow> op_raise KeyError
          | Stored _ _ _ view \<Rightarrow>
              op_bind (link_summary (view_id view) ids) (\<lambda>_. op_ret result))))))))))))))))
      | _ \<Rightarrow> op_raise (validation_error ''request must be an object''))"

section \<open>Maintenance\<close>

text \<open>\<^verbatim>\<open>float(item)\<close> of a stored vector; the column never holds a text.\<close>

definition float_item :: "memory_config \<Rightarrow> json \<Rightarrow> json res" where
  "float_item c v =
     (case v of
        JFloat f \<Rightarrow> Inr v
      | JInt i \<Rightarrow> res_bind (py_float v) (\<lambda>_. Inr (to_float c v))
      | JBool b \<Rightarrow> Inr (JFloat (if b then ''1.0'' else ''0.0''))
      | JStr _ \<Rightarrow> Inl ValueError
      | _ \<Rightarrow> Inl TypeError)"

definition stored_vector :: "memory_config \<Rightarrow> memory_row \<Rightarrow> vector res" where
  "stored_vector c row = res_bind (load_tuple c (mm_vector_json row)) (res_map (float_item c))"

definition is_reindex_failure :: "py_exc \<Rightarrow> bool" where
  "is_reindex_failure e \<longleftrightarrow> is_backend_unavailable e \<or> e \<in> {TypeError, ValueError, JSONDecodeError}"

text \<open>Both loops stop at the first record that fails; they return how many were handled and how many failed.\<close>

fun process_deletions :: "memory_config \<Rightarrow> memory_record list \<Rightarrow> nat mop" where
  "process_deletions c [] = op_ret 0"
| "process_deletions c (r # rs) =
     op_bind (op_catch
        (op_bind (qdrant_delete (mc_collection c) (record_id r)) (\<lambda>_.
         op_bind (mark_qdrant (record_id r) ''deleted'' None) (\<lambda>_. op_ret True)))
        is_backend_unavailable
        (\<lambda>e. op_bind (mark_qdrant (record_id r) ''delete_pending'' (Some (exc_text e))) (\<lambda>_. op_ret False))) (\<lambda>ok.
     if ok then process_deletions c rs else op_ret 1)"

fun process_reindex :: "memory_config \<Rightarrow> memory_record list \<Rightarrow> (nat \<times> nat) mop" where
  "process_reindex c [] = op_ret (0, 0)"
| "process_reindex c (r # rs) =
     op_bind (op_catch
        (op_bind (op_lift (stored_vector c (rc_row r))) (\<lambda>vec.
         op_bind (qdrant_upsert (mc_collection c) (mc_dimensions c) r vec) (\<lambda>_.
         op_bind (mark_qdrant (record_id r) ''indexed'' None) (\<lambda>_. op_ret True))))
        is_reindex_failure
        (\<lambda>e. op_bind (mark_qdrant (record_id r) ''failed'' (Some (exc_text e))) (\<lambda>_. op_ret False))) (\<lambda>ok.
     if ok then op_bind (process_reindex c rs) (\<lambda>(n, failures). op_ret (Suc n, failures)) else op_ret (0, 1))"

definition sync_index :: "memory_config \<Rightarrow> (nat \<times> nat) mop" where
  "sync_index c =
     op_bind (op_catch (op_bind (ensure_collection (mc_collection c) (mc_dimensions c)) (\<lambda>_. op_ret True))
                is_backend_unavailable (\<lambda>_. op_ret False)) (\<lambda>ready.
     if \<not> ready then op_ret (0, 1)
     else
       op_bind (pending_deletions c) (\<lambda>gone.
       op_bind (process_deletions c gone) (\<lambda>failed.
       op_bind (pending_for_reindex c) (\<lambda>due.
       op_bind (process_reindex c due) (\<lambda>(n, failures).
       op_ret (n, failed + failures))))))"

record maintenance_result =
  mn_run_id :: string
  mn_expired :: nat
  mn_marked_stale :: nat
  mn_reindexed :: nat
  mn_failures :: nat
  mn_degraded :: bool

definition maintain :: "memory_config \<Rightarrow> string \<Rightarrow> int \<Rightarrow> maintenance_result mop" where
  "maintain c actor_name peer_uid =
     op_bind (op_lift (actor_for c actor_name peer_uid ''maintenance'')) (\<lambda>_.
     op_bind utc_now (\<lambda>started.
     op_bind (consolidate_lifecycle (mc_stale_after_days c)) (\<lambda>(expired, stale).
     op_bind (sync_index c) (\<lambda>(reindexed, failures).
     op_bind (record_maintenance started expired stale reindexed failures) (\<lambda>run_id.
     op_bind (audit c actor_name ''maintain'' (if failures > 0 then ''partial'' else ''success'') (no_facts\<lparr>af_detail := run_id\<rparr>)) (\<lambda>_.
     op_ret \<lparr>mn_run_id = run_id, mn_expired = expired, mn_marked_stale = stale, mn_reindexed = reindexed, mn_failures = failures,
             mn_degraded = (failures > 0)\<rparr>))))))"

section \<open>Health and statistics\<close>

record health_result =
  hr_status :: string
  hr_qdrant :: string
  hr_degraded_reads :: bool
  hr_degraded_writes :: bool
  hr_stats :: memory_stats

definition health :: "memory_config \<Rightarrow> string \<Rightarrow> int \<Rightarrow> health_result mop" where
  "health c actor_name peer_uid =
     op_bind (op_lift (actor_for c actor_name peer_uid ''health'')) (\<lambda>_.
     op_bind (op_catch (op_bind (qdrant_call (mc_collection c) QHealth) (\<lambda>_. op_ret True)) is_backend_unavailable (\<lambda>_. op_ret False)) (\<lambda>ok.
     op_bind catalog_stats (\<lambda>stats.
     op_ret \<lparr>hr_status = (if ok then ''ok'' else ''degraded''), hr_qdrant = (if ok then ''ok'' else ''unavailable''),
             hr_degraded_reads = mc_allow_degraded_reads c, hr_degraded_writes = mc_allow_degraded_writes c, hr_stats = stats\<rparr>)))"

definition stats :: "memory_config \<Rightarrow> string \<Rightarrow> int \<Rightarrow> memory_stats mop" where
  "stats c actor_name peer_uid =
     op_bind (op_lift (actor_for c actor_name peer_uid ''stats'')) (\<lambda>_. catalog_stats)"

section \<open>The dispatcher\<close>

datatype memory_answer =
    HealthAnswer health_result
  | StatsAnswer memory_stats
  | IngestAnswer ingest_result
  | ReindexAnswer reindex_result
  | SearchAnswer search_result
  | MemoryAnswer public_memory
  | MaintainAnswer maintenance_result

record memory_response =
  rs_request_id :: "string option"
  rs_result :: "(string \<times> string) + memory_answer"

definition error_response :: "json \<Rightarrow> py_exc \<Rightarrow> memory_response" where
  "error_response request_id e =
     \<lparr>rs_request_id = (case request_id of JStr s \<Rightarrow> Some s | _ \<Rightarrow> None),
      rs_result = Inl (case e of MemoryFault code message \<Rightarrow> (code, message)
                       | _ \<Rightarrow> (''internal_error'', ''internal memory service error''))\<rparr>"

text \<open>\<^verbatim>\<open>version != 1\<close>, which a float can equal.\<close>

definition is_version_one :: "json \<Rightarrow> bool" where
  "is_version_one v \<longleftrightarrow> (case v of JInt i \<Rightarrow> i = 1 | JFloat _ \<Rightarrow> py_float v = Inr (Some 1) | _ \<Rightarrow> False)"

definition as_answer :: "('a \<Rightarrow> memory_answer) \<Rightarrow> 'a mop \<Rightarrow> memory_answer mop" where
  "as_answer f m = op_bind m (\<lambda>x. op_ret (f x))"

definition run_operation :: "memory_config \<Rightarrow> string \<Rightarrow> string \<Rightarrow> jdict \<Rightarrow> int \<Rightarrow> memory_answer mop" where
  "run_operation c operation actor payload peer_uid =
     (let body = JDict (dict_set ''actor'' (JStr actor) payload) in
      if operation = ''health'' then
        op_bind (op_raise_if (payload \<noteq> []) (validation_error ''health payload must be empty'')) (\<lambda>_.
        as_answer HealthAnswer (health c actor peer_uid))
      else if operation = ''stats'' then
        op_bind (op_raise_if (payload \<noteq> []) (validation_error ''stats payload must be empty'')) (\<lambda>_.
        as_answer StatsAnswer (stats c actor peer_uid))
      else if operation = ''ingest'' then as_answer IngestAnswer (ingest c body peer_uid)
      else if operation = ''reindex_api'' then
        op_bind (op_raise_if (set (map fst payload) \<noteq> {''ids''}) (validation_error ''reindex_api requires only ids'')) (\<lambda>_.
        as_answer ReindexAnswer (reindex_api c actor peer_uid (field_or payload ''ids'' JNull)))
      else if operation = ''search'' then as_answer SearchAnswer (search_memories c body peer_uid)
      else if operation = ''get'' then
        op_bind (op_raise_if (set (map fst payload) \<noteq> {''id''}) (validation_error ''get payload must contain only id'')) (\<lambda>_.
        case field_or payload ''id'' JNull of
          JStr i \<Rightarrow> as_answer MemoryAnswer (read_memory c actor peer_uid i)
        | _ \<Rightarrow> op_raise (validation_error ''payload.id is required''))
      else if operation = ''invalidate'' then as_answer MemoryAnswer (invalidate c body peer_uid)
      else if operation = ''summarize'' then as_answer IngestAnswer (summarize c body peer_uid)
      else if operation = ''maintain'' then
        op_bind (op_raise_if (payload \<noteq> []) (validation_error ''maintain payload must be empty'')) (\<lambda>_.
        as_answer MaintainAnswer (maintain c actor peer_uid))
      else op_raise (memory_protocol_error ''unknown operation''))"

definition ENVELOPE_FIELDS :: "string list" where
  "ENVELOPE_FIELDS = [''version'', ''request_id'', ''operation'', ''actor'', ''payload'']"

definition read_envelope :: "jdict \<Rightarrow> (string \<times> string \<times> jdict) res" where
  "read_envelope d =
     (let request_id = field_or d ''request_id'' JNull in
      res_bind (raise_if (\<not> (case request_id of JStr s \<Rightarrow> s \<noteq> [] \<and> length s \<le> 128 | _ \<Rightarrow> False))
                  (memory_protocol_error ''request_id must be a short non-empty string'')) (\<lambda>_.
      case (field_or d ''operation'' JNull, field_or d ''actor'' JNull) of
        (JStr operation, JStr actor) \<Rightarrow>
          (case field_or d ''payload'' (JDict []) of
             JDict payload \<Rightarrow> Inr (operation, actor, payload)
           | _ \<Rightarrow> Inl (memory_protocol_error ''payload must be an object''))
      | _ \<Rightarrow> Inl (memory_protocol_error ''operation and actor are required strings'')))"

definition check_envelope :: "jdict \<Rightarrow> unit res" where
  "check_envelope d =
     (let unknown = sort (remdups (filter (\<lambda>k. k \<notin> set ENVELOPE_FIELDS) (map fst d))) in
      res_bind (raise_if (unknown \<noteq> []) (memory_protocol_error (''unknown envelope fields: '' @ repr_strs unknown))) (\<lambda>_.
      raise_if (\<not> is_version_one (field_or d ''version'' JNull)) (memory_protocol_error ''unsupported protocol version'')))"

definition responds :: "json \<Rightarrow> memory_answer mop \<Rightarrow> memory_world \<Rightarrow> memory_response \<times> memory_world" where
  "responds request_id m w =
     (case m w of
        (Inl e, w') \<Rightarrow> (error_response request_id e, w')
      | (Inr x, w') \<Rightarrow> (\<lparr>rs_request_id = (case request_id of JStr s \<Rightarrow> Some s | _ \<Rightarrow> None), rs_result = Inr x\<rparr>, w'))"

definition dispatch :: "memory_config \<Rightarrow> json \<Rightarrow> int \<Rightarrow> memory_world \<Rightarrow> memory_response \<times> memory_world" where
  "dispatch c request peer_uid w =
     (case request of
        JDict d \<Rightarrow>
          (case check_envelope d of
             Inl e \<Rightarrow> (error_response JNull e, w)
           | Inr _ \<Rightarrow>
               responds (field_or d ''request_id'' JNull)
                 (op_bind (op_lift (read_envelope d)) (\<lambda>(operation, actor, payload). run_operation c operation actor payload peer_uid)) w)
      | _ \<Rightarrow> (error_response JNull (memory_protocol_error ''request must be an object''), w))"

end
