(* ===== verification/Mem_Frame.thy ===== *)
theory Mem_Frame
  imports Mem_Dispatch Op_Logic
begin

text \<open>
  How the service may change its catalogue. The locale \<open>catalog_evolution\<close> fixes a relation between the
  databases before and after, asks that the statements of the catalogue keep it, and concludes that every
  request does, however it ends. What a request must satisfy to reach \<^verbatim>\<open>MemoryCatalog.ingest\<close> is the predicate
  \<open>admissible\<close>.
\<close>

section \<open>What reaches the catalogue\<close>

definition secret_free :: "string \<Rightarrow> string \<Rightarrow> string \<Rightarrow> string \<Rightarrow> string \<Rightarrow> jdict \<Rightarrow> bool" where
  "secret_free content source_type source_uri source_ref source_authority metadata \<longleftrightarrow>
     \<not> looks_secret (source_text content source_type source_uri source_ref source_authority @ [chr_nl] @ spaced_json (JDict metadata))"

definition admissible :: "memory_config \<Rightarrow> ingest_request \<Rightarrow> bool" where
  "admissible c rq \<longleftrightarrow>
     ig_classification rq \<in> set CLASSIFICATIONS \<and> ig_allowed_roles rq \<noteq> [] \<and>
     py_strip (ig_project rq) = ig_project rq \<and> py_strip (ig_environment rq) = ig_environment rq \<and>
     json_ok (mc_frepr c) (JDict (ig_metadata rq)) \<and>
     (case ig_valid_until rq of None \<Rightarrow> True | Some u \<Rightarrow> ig_valid_from rq < u) \<and>
     secret_free (ig_content rq) (ig_source_type rq) (ig_source_uri rq) (ig_source_ref rq) (ig_source_authority rq) (ig_metadata rq)"

text \<open>The parser's part of it: everything but the window of validity.\<close>

definition well_formed :: "memory_config \<Rightarrow> ingest_request \<Rightarrow> bool" where
  "well_formed c rq \<longleftrightarrow>
     ig_classification rq \<in> set CLASSIFICATIONS \<and> ig_allowed_roles rq \<noteq> [] \<and>
     py_strip (ig_project rq) = ig_project rq \<and> py_strip (ig_environment rq) = ig_environment rq \<and>
     json_ok (mc_frepr c) (JDict (ig_metadata rq)) \<and>
     secret_free (ig_content rq) (ig_source_type rq) (ig_source_uri rq) (ig_source_ref rq) (ig_source_authority rq) (ig_metadata rq)"

lemma json_ok_field: "json_ok fr (JDict d) \<Longrightarrow> json_ok fr v \<Longrightarrow> json_ok fr (field_or d k v)"
  by (auto simp: field_or_def list_all_iff split: option.split dest: map_of_SomeD)

lemma validate_metadata_ok: "json_ok fr v \<Longrightarrow> validate_metadata v = Inr d \<Longrightarrow> json_ok fr (JDict d)"
  by (cases v) (auto simp: validate_metadata_def)

lemma parse_roles_nonempty: "parse_roles v = Inr roles \<Longrightarrow> roles \<noteq> []"
  by (auto simp: parse_roles_def split: json.splits option.splits if_splits)

lemma required_string_stripped: "required_string d name n = Inr s \<Longrightarrow> py_strip s = s"
  by (auto simp: required_string_def Let_def split: json.splits if_splits)

lemma parse_ingest_ok:
  assumes "json_ok (mc_frepr c) raw" "parse_ingest c now raw = Inr rq"
  shows "well_formed c rq"
proof (cases raw)
  case (JDict d)
  have metadata: "json_ok (mc_frepr c) (field_or d ''metadata'' JNull)" using assms(1) JDict by (intro json_ok_field) auto
  show ?thesis
    using assms(2) metadata
    by (auto simp: parse_ingest_def JDict well_formed_def check_for_secrets_def secret_free_def
             dest: validate_metadata_ok parse_roles_nonempty required_string_stripped)
qed (use assms(2) in \<open>auto simp: parse_ingest_def\<close>)

section \<open>The interface\<close>

context db_evolution begin

lemma ev_silent: "(\<And>w. w_db (snd (m w)) = w_db w) \<Longrightarrow> evolves R m"
  by (simp add: evolves_def refl)

lemma ev_bind_value: "evolves R m \<Longrightarrow> yields P m \<Longrightarrow> (\<And>x. P x \<Longrightarrow> evolves R (f x)) \<Longrightarrow> evolves R (op_bind m f)"
  unfolding evolves_def op_bind_def yields_def by (auto split: prod.splits sum.splits) (metis trans snd_conv)+

lemma ev_raise_if_bind: "(\<not> b \<Longrightarrow> evolves R (f ())) \<Longrightarrow> evolves R (op_bind (op_raise_if b e) f)"
  by (cases b) (auto simp: evolves_def op_bind_def op_raise_if_def op_lift_def raise_if_def refl)

lemma ev_query_row:
  assumes "\<And>d. R d (g (q d) d)"
  shows "evolves R (op_bind (op_query q) (\<lambda>x. op_exec (g x)))"
  using assms by (simp add: evolves_def op_bind_def op_query_def op_exec_def)

end

text \<open>Requests to the index leave the database alone, but for the state of the indexing.\<close>

locale index_evolution = db_evolution R for R :: "memory_db \<Rightarrow> memory_db \<Rightarrow> bool" +
  fixes c :: memory_config
  assumes log: "R d (log_access a d)"
    and mark: "R d (update_memories (\<lambda>r. mm_id r = i) (mark_row s e now) d)"
begin

lemma now: "evolves R utc_now"
  by (simp add: utc_now_def ev_bind ev_now ev_ret)

lemma audits: "evolves R (audit c actor operation outcome f)"
  by (simp add: audit_def ev_bind now ev_exec log)

lemma qdrant: "evolves R (qdrant_call collection q)"
  by (rule ev_silent) (simp add: qdrant_call_def Let_def split: qdrant_reply.split)

lemma ensure: "evolves R (ensure_collection collection n)"
  by (rule ev_silent) (auto simp: ensure_collection_def qdrant_call_def op_bind_def Let_def split: prod.splits sum.splits qdrant_reply.splits)

lemma upsert: "evolves R (qdrant_upsert collection n r vec)"
  unfolding qdrant_upsert_def by (intro ev_rules qdrant)

lemma delete: "evolves R (qdrant_delete collection i)"
  unfolding qdrant_delete_def by (intro ev_rules qdrant)

lemma marks: "evolves R (mark_qdrant i s e)"
  unfolding mark_qdrant_def by (intro ev_rules now ev_exec mark)

lemma drops: "evolves R (drop_superseded c s)"
  unfolding drop_superseded_def by (intro ev_rules delete marks)

lemma indexes: "evolves R (index_record c rq r vec s)"
  unfolding index_record_def by (intro ev_rules ensure upsert marks drops audits)

end

locale catalog_evolution = index_evolution R c for R :: "memory_db \<Rightarrow> memory_db \<Rightarrow> bool" and c :: memory_config +
  assumes call: "R d (add_call p d)"
    and settle: "R d (settle_call n s d)"
    and cache: "R d (cache_vector c i digest t d)"
    and members: "R d (add_members ms d)"
    and run: "R d (add_run m d)"
    and invalidation: "select_one (\<lambda>r. mm_id r = i) (md_memories d) = Some r \<Longrightarrow> mm_invalidated_at r = None \<Longrightarrow>
      R d (update_memories (\<lambda>r. mm_id r = i) (invalidate_row now reason) d)"
    and expiry: "R d (update_memories (expires now) (invalidate_row now ''validity_expired'') d)"
    and ageing: "R d (update_memories (goes_stale before) (stale_row now) d)"
    and store: "admissible c rq \<Longrightarrow> evolves R (store_memory c rq vec model authority :: (memory_record \<times> bool \<times> string option) mop)"
begin

lemma embedding: "evolves R (embedding_request text t)"
  by (rule ev_silent) (simp add: embedding_request_def Let_def split: api_reply.split)

lemma reranking: "evolves R (rerank_request query docs k)"
  by (rule ev_silent) (simp add: rerank_request_def Let_def split: api_reply.split)

lemma vectors: "evolves R (qdrant_search collection vec f)"
  unfolding qdrant_search_def by (intro ev_bind qdrant) (auto intro: ev_rules split: qdrant_reply.split)

lemma reserves: "evolves R (reserve_provider_call actor operation provider model budget)"
  unfolding reserve_provider_call_def Let_def by (intro ev_rules now ev_exec call)

lemma completes: "evolves R (complete_provider_call i outcome)"
  unfolding complete_provider_call_def by (intro ev_rules ev_exec settle)

lemma gets: "evolves R (get_memory c i)"
  unfolding get_memory_def by (intro ev_rules)

lemma get_manys: "evolves R (get_many c ids)"
  unfolding get_many_def records_of_def by (intro ev_rules)

lemma currents: "evolves R (is_current r)"
  unfolding is_current_def by (intro ev_rules now)

lemma api_embeds: "evolves R (api_embed c text t)"
  unfolding api_embed_def by (intro ev_rules embedding)

lemma embeds: "evolves R (embed c actor operation text allow important)"
  unfolding embed_def Let_def has_records_def by (intro ev_rules reserves completes api_embeds)

lemma api_reranks: "evolves R (api_rerank c query cands k)"
  unfolding api_rerank_def Let_def
  by (intro ev_bind ev_raise_if ev_if ev_ret reranking) (auto intro: ev_rules split: json.split)

lemma local_reranks: "evolves R (local_rerank query cands k)"
  unfolding local_rerank_def by (intro ev_rules)

lemma reranks: "evolves R (rerank c actor query cands k allow important)"
  unfolding rerank_def Let_def by (intro ev_rules reserves completes api_reranks local_reranks)

text \<open>Ingestion.\<close>

lemma expiries: "evolves R (with_expiry c rq)"
  unfolding with_expiry_def by (intro ev_rules)

lemma supersessions: "evolves R (check_supersession c a rq)"
  unfolding check_supersession_def by (intro ev_rules gets)

lemma expiry_keeps: "well_formed c rq \<Longrightarrow> yields (well_formed c) (with_expiry c rq)"
  unfolding with_expiry_def
  by (intro yields_if yields_bind yields_ret) (simp_all add: well_formed_def)

lemma admits:
  assumes "well_formed c rq"
  shows "evolves R (admit c a rq)"
proof -
  have keeps: "evolves R (op_bind (check_supersession c a rq) k)" if "admissible c rq" "\<And>x. evolves R (k x)" for rq k
    by (intro ev_bind supersessions that)
  have stores: "evolves R (op_bind (store_memory c rq vec model authority) k)" if "admissible c rq" "\<And>x. evolves R (k x)" for rq vec model authority k
    by (intro ev_bind store that)
  show ?thesis
    unfolding admit_def
    by (rule ev_bind_value [OF expiries expiry_keeps [OF assms]], rule ev_raise_if_bind)
      (intro keeps ev_bind embeds stores ev_prod ev_if ev_ret indexes audits ev_lift;
        simp add: admissible_def well_formed_def split: option.splits)
qed

lemma ingests:
  assumes "json_ok (mc_frepr c) raw"
  shows "evolves R (ingest c raw peer)"
  unfolding ingest_def
  by (intro ev_bind [OF now] ev_bind_lift ev_bind ev_raise_if ev_if audits ev_ret admits)
    (rule parse_ingest_ok [OF assms], assumption)

lemma summary_body_ok:
  "json_ok fr metadata \<Longrightarrow> json_ok fr importance \<Longrightarrow>
     json_ok fr (JDict (summary_body actor content r classification category roles digest metadata importance))"
  by (simp add: summary_body_def list_all_iff)

lemma links: "evolves R (link_summary i ids)"
  unfolding link_summary_def by (intro ev_exec members)

lemma summarizes:
  assumes raw: "json_ok (mc_frepr c) raw" and half: "json_ok (mc_frepr c) (JFloat ''0.7'')"
  shows "evolves R (summarize c raw peer)"
proof (cases raw)
  case (JDict d)
  have fields: "json_ok (mc_frepr c) (field_or d ''metadata'' (JDict []))" "json_ok (mc_frepr c) (field_or d ''importance'' (JFloat ''0.7''))"
    using raw half JDict by (auto intro!: json_ok_field)
  have summary: "evolves R (ingest c (JDict (summary_body actor content r classification category roles digest
      (field_or d ''metadata'' (JDict [])) (field_or d ''importance'' (JFloat ''0.7'')))) peer)"
    for actor content r classification category roles digest
    by (intro ingests summary_body_ok fields)
  have rest: "evolves R (case result of Ignored _ \<Rightarrow> op_raise KeyError
      | Stored _ _ _ view \<Rightarrow> op_bind (link_summary (view_id view) ids) (\<lambda>_. op_ret result))" for result ids
    by (cases result) (auto intro: ev_rules links)
  show ?thesis
    unfolding summarize_def JDict json.case Let_def
    by (intro ev_bind ev_lift ev_raise_if get_manys summary rest)
qed (auto simp: summarize_def intro: ev_raise)

text \<open>Search.\<close>

lemma keep: "evolves R (keeps a rq r)"
  unfolding keeps_def Let_def by (intro ev_rules currents)

lemma filters: "evolves R (filter_records a rq rs)"
  by (induction rs) (auto intro!: ev_rules keep)

lemma candidates: "evolves R (vector_candidates c a rq e)"
  unfolding vector_candidates_def Let_def by (intro ev_rules vectors get_manys filters)

lemma fallbacks: "evolves R (fallback_candidates c rq roles n)"
  unfolding fallback_candidates_def records_of_def Let_def by (intro ev_rules now)

lemma search_candidate: "evolves R (search_candidates c a rq e)"
  unfolding search_candidates_def by (intro ev_rules candidates audits fallbacks)

lemma searches: "evolves R (search_memories c raw peer)"
  unfolding search_memories_def Let_def by (intro ev_rules embeds search_candidate reranks audits)

text \<open>Reading, invalidation, maintenance.\<close>

lemma visible: "evolves R (require_visible a r)"
  unfolding require_visible_def by (intro ev_rules)

lemma reads: "evolves R (read_memory c actor peer i)"
  unfolding read_memory_def by (intro ev_rules gets visible audits)

lemma invalidations: "evolves R (invalidate_memory c i reason)"
proof -
  have step: "evolves R (transaction (op_bind (op_query (\<lambda>d. select_one (\<lambda>r. mm_id r = i) (md_memories d))) (\<lambda>row.
       case row of
         None \<Rightarrow> op_raise (not_found_error ''memory does not exist'')
       | Some r \<Rightarrow>
           op_bind (op_exec (if mm_invalidated_at r = None then update_memories (\<lambda>r. mm_id r = i) (invalidate_row t reason) else id)) (\<lambda>_.
           op_ret (if mm_invalidated_at r = None then invalidate_row t reason r else r)))) :: memory_row mop)" for t
    by (rule ev_transaction)
      (auto simp: evolves_def op_bind_def op_query_def op_exec_def op_ret_def op_raise_def refl intro: invalidation split: option.split)
  show ?thesis unfolding invalidate_memory_def by (intro ev_bind now step ev_lift)
qed

lemma invalidates: "evolves R (invalidate c raw peer)"
proof (cases raw)
  case (JDict d)
  show ?thesis
    unfolding invalidate_def JDict json.case Let_def
    by (intro ev_bind ev_lift ev_raise_if ev_catch ev_ret gets visible invalidations delete marks audits)
qed (auto simp: invalidate_def intro: ev_raise)

lemma deletions: "evolves R (process_deletions c rs)"
  by (induction rs) (auto intro!: ev_rules delete marks)

lemma reindexes: "evolves R (process_reindex c rs)"
  by (induction rs) (auto intro!: ev_rules upsert marks)

lemma consolidations: "evolves R (consolidate_lifecycle n)"
  unfolding consolidate_lifecycle_def Let_def by (intro ev_rules ev_exec expiry ageing)

lemma syncs: "evolves R (sync_index c)"
  unfolding sync_index_def pending_deletions_def pending_for_reindex_def records_of_def
  by (intro ev_rules ensure deletions reindexes)

lemma runs: "evolves R (record_maintenance t e s n k)"
  unfolding record_maintenance_def by (intro ev_rules now ev_exec run)

lemma maintains: "evolves R (maintain c actor peer)"
  unfolding maintain_def by (intro ev_rules now consolidations syncs runs audits)

lemma index_vectors: "evolves R (index_vector c r vec result)"
  unfolding index_vector_def by (intro ev_rules upsert)

lemma reindex_all: "evolves R (reindex_records c actor rs result)"
proof (induction rs arbitrary: result)
  case (Cons r rs)
  show ?case
    unfolding reindex_records.simps Let_def
    by (intro ev_bind ev_query ev_option ev_lift index_vectors Cons.IH reserves ev_now ev_ret ev_catch api_embeds completes ev_exec cache)
qed (simp add: ev_ret)

lemma api_reindexes: "evolves R (reindex_api c actor peer ids)"
  unfolding reindex_api_def semantic_reindex_def
  by (intro ev_rules get_manys currents ensure reindex_all audits)

lemma healths: "evolves R (health c actor peer)"
  unfolding health_def catalog_stats_def by (intro ev_rules qdrant)

lemma statistics: "evolves R (stats c actor peer)"
  unfolding stats_def catalog_stats_def by (intro ev_rules)

text \<open>Every request.\<close>

lemma operations:
  assumes payload: "json_ok (mc_frepr c) (JDict payload)" and half: "json_ok (mc_frepr c) (JFloat ''0.7'')"
  shows "evolves R (run_operation c operation actor payload peer)"
proof -
  have body: "json_ok (mc_frepr c) (JDict (dict_set ''actor'' (JStr actor) payload))"
    using payload dict_set_set [of "''actor''" "JStr actor" payload] by (auto simp: dict_set_distinct list_all_iff)
  have read: "evolves R (case v of JStr i \<Rightarrow> as_answer MemoryAnswer (read_memory c actor peer i)
      | _ \<Rightarrow> op_raise (validation_error ''payload.id is required''))" for v
    by (cases v) (auto simp: as_answer_def intro: ev_rules reads)
  show ?thesis
    unfolding run_operation_def Let_def as_answer_def
    by (intro ev_if ev_bind ev_raise_if ev_ret ev_raise healths statistics ingests [OF body] api_reindexes searches
        invalidates summarizes [OF body half] maintains read [unfolded as_answer_def])
qed

lemma dispatches:
  assumes request: "json_ok (mc_frepr c) request" and half: "json_ok (mc_frepr c) (JFloat ''0.7'')"
  shows "R (w_db w) (w_db (snd (dispatch c request peer w)))"
proof (cases request)
  case (JDict d)
  have payload: "json_ok (mc_frepr c) (JDict p)" if "read_envelope d = Inr (operation, actor, p)" for operation actor p
    using that json_ok_field [of "mc_frepr c" d "JDict []" "''payload''"] request JDict
    by (auto simp: read_envelope_def Let_def split: json.splits)
  have "evolves R (op_bind (op_lift (read_envelope d)) (\<lambda>(operation, actor, payload). run_operation c operation actor payload peer))"
    by (intro ev_bind_lift) (auto intro!: operations half payload)
  then show ?thesis
    unfolding evolves_def dispatch_def JDict json.case responds_def by (auto simp: refl split: sum.split prod.split dest!: spec [of _ w])
qed (simp_all add: dispatch_def refl)

end

end
