(* ===== verification/Mem_Catalog.thy ===== *)
theory Mem_Catalog
  imports Mem_Frame
begin

text \<open>
  What every request keeps of the catalogue: the rows are well formed and linked by supersession in pairs,
  and nothing that was stored is rewritten. Both are relations between the databases before and after, and
  instances of the interface of \<open>Mem_Frame\<close>.
\<close>

section \<open>What \<open>MemoryCatalog.ingest\<close> does\<close>

definition stored_db :: "ingest_request \<Rightarrow> memory_row \<Rightarrow> string option \<Rightarrow> instant \<Rightarrow> memory_db \<Rightarrow> memory_db" where
  "stored_db rq row superseded now d =
     (case superseded of None \<Rightarrow> id | Some s \<Rightarrow> update_memories (\<lambda>r. mm_id r = s) (supersede (mm_id row) now))
       (add_source (source_of rq (mm_id row) now) (insert_memory row d))"

lemma store_row_Inr:
  "store_row c rq vec model authority i now w = (Inr (row, duplicate, superseded), w') \<longleftrightarrow>
     (\<exists>old. ig_supersedes_id rq = None \<and> find_duplicate (dedup_key c rq) now (w_db w) = Some old \<and> row = old \<and> duplicate \<and>
        superseded = None \<and> w' = w\<lparr>w_db := add_source (source_of rq (mm_id old) now) (w_db w)\<rparr>) \<or>
     (ig_supersedes_id rq = None \<longrightarrow> find_duplicate (dedup_key c rq) now (w_db w) = None) \<and> \<not> duplicate \<and>
     check_superseded rq (w_db w) = Inr superseded \<and> i \<notin> mm_id ` set (md_memories (w_db w)) \<and>
     (\<exists>rank. classification_rank (ig_classification rq) = Inr rank \<and> row = memory_row_of c rq i rank vec model authority now \<and>
        w' = w\<lparr>w_db := stored_db rq row superseded now (w_db w)\<rparr>)"
proof (cases "if ig_supersedes_id rq = None then find_duplicate (dedup_key c rq) now (w_db w) else None")
  case None
  then show ?thesis
    by (cases superseded)
      (auto simp: store_row_def op_simps Let_def stored_db_def memory_row_of_def list_ex_iff image_iff split: if_splits)
next
  case (Some old)
  then show ?thesis by (auto simp: store_row_def op_simps split: if_splits)
qed

lemma store_memory_db:
  assumes "store_memory c rq vec model authority w = (res, w')"
  shows "w_db w' = w_db w \<or> (\<exists>s. w_db w' = add_source s (w_db w)) \<or>
    (\<exists>i now rank superseded. i \<notin> mm_id ` set (md_memories (w_db w)) \<and> check_superseded rq (w_db w) = Inr superseded \<and>
       classification_rank (ig_classification rq) = Inr rank \<and>
       w_db w' = stored_db rq (memory_row_of c rq i rank vec model authority now) superseded now (w_db w))"
proof -
  let ?w = "w\<lparr>w_ticks := Suc (w_ticks w), w_drawn := Suc (w_drawn w)\<rparr>"
  let ?now = "whole_second (w_clock w (w_ticks w))" and ?i = "w_uuids w (w_drawn w)"
  obtain res1 w1 where run: "store_row c rq vec model authority ?i ?now ?w = (res1, w1)" by fastforce
  show ?thesis
  proof (cases res1)
    case (Inl e)
    then have "w_db w' = w_db w"
      using assms run by (auto simp: store_memory_def utc_now_def op_bind_def op_now_def op_ret_def op_uuid4_def transaction_def)
    then show ?thesis ..
  next
    case (Inr x)
    obtain row duplicate superseded where x: "x = (row, duplicate, superseded)" by (cases x)
    have db: "w_db w' = w_db w1"
      using assms run Inr x
      by (auto simp: store_memory_def utc_now_def op_bind_def op_now_def op_ret_def op_uuid4_def transaction_def op_lift_def
            split: prod.splits sum.splits)
    have "(\<exists>s. w_db w1 = add_source s (w_db w)) \<or>
        (\<exists>rank. ?i \<notin> mm_id ` set (md_memories (w_db w)) \<and> check_superseded rq (w_db w) = Inr superseded \<and>
           classification_rank (ig_classification rq) = Inr rank \<and>
           w_db w1 = stored_db rq (memory_row_of c rq ?i rank vec model authority ?now) superseded ?now (w_db w))"
      using run unfolding Inr x store_row_Inr
    proof (elim disjE exE conjE)
      fix old
      assume "w1 = ?w\<lparr>w_db := add_source (source_of rq (mm_id old) ?now) (w_db ?w)\<rparr>"
      then show ?thesis by (intro disjI1 exI [where x = "source_of rq (mm_id old) ?now"]) simp
    next
      fix rank
      assume "?i \<notin> mm_id ` set (md_memories (w_db ?w))" "check_superseded rq (w_db ?w) = Inr superseded"
        "classification_rank (ig_classification rq) = Inr rank" "row = memory_row_of c rq ?i rank vec model authority ?now"
        "w1 = ?w\<lparr>w_db := stored_db rq row superseded ?now (w_db ?w)\<rparr>"
      then show ?thesis by (intro disjI2 exI [where x = rank]) simp
    qed
    then show ?thesis unfolding db by blast
  qed
qed

section \<open>The invariant of the catalogue\<close>

definition memory_ok :: "memory_config \<Rightarrow> memory_row \<Rightarrow> bool" where
  "memory_ok c r \<longleftrightarrow>
     classification_rank (mm_classification r) = Inr (mm_classification_rank r) \<and>
     py_strip (mm_project r) = mm_project r \<and> py_strip (mm_environment r) = mm_environment r \<and>
     (\<exists>roles. roles \<noteq> [] \<and> mm_allowed_roles_json r = canonical_json (JList (map JStr roles))) \<and>
     (\<exists>metadata. json_ok (mc_frepr c) (JDict metadata) \<and> mm_metadata_json r = canonical_json (JDict metadata) \<and>
        secret_free (mm_content r) (mm_source_type r) (mm_source_uri r) (mm_source_ref r) (mm_source_authority r) metadata) \<and>
     (case mm_valid_until r of None \<Rightarrow> True | Some u \<Rightarrow> mm_valid_from r < u)"

text \<open>\<open>s\<close> superseded \<open>r\<close>, as seen from either side.\<close>

definition successor :: "memory_row \<Rightarrow> memory_row \<Rightarrow> bool" where
  "successor r s \<longleftrightarrow>
     mm_superseded_by_id r = Some (mm_id s) \<and> mm_supersedes_id s = Some (mm_id r) \<and>
     mm_project s = mm_project r \<and> mm_environment s = mm_environment r"

definition rows_linked :: "memory_row list \<Rightarrow> bool" where
  "rows_linked rs \<longleftrightarrow>
     (\<forall>r\<in>set rs. mm_superseded_by_id r \<noteq> None \<longrightarrow> (\<exists>s\<in>set rs. successor r s)) \<and>
     (\<forall>s\<in>set rs. mm_supersedes_id s \<noteq> None \<longrightarrow> (\<exists>r\<in>set rs. successor r s))"

definition catalog_ok :: "memory_config \<Rightarrow> memory_db \<Rightarrow> bool" where
  "catalog_ok c d \<longleftrightarrow> memories.unique (md_memories d) \<and> (\<forall>r\<in>set (md_memories d). memory_ok c r) \<and> rows_linked (md_memories d)"

text \<open>An update of the columns that change over time keeps it.\<close>

definition same_links :: "memory_row \<Rightarrow> memory_row \<Rightarrow> bool" where
  "same_links r s \<longleftrightarrow>
     mm_id s = mm_id r \<and> mm_superseded_by_id s = mm_superseded_by_id r \<and> mm_supersedes_id s = mm_supersedes_id r \<and>
     mm_project s = mm_project r \<and> mm_environment s = mm_environment r"

lemma successor_same: "same_links r r' \<Longrightarrow> same_links s s' \<Longrightarrow> successor r' s' = successor r s"
  by (simp add: successor_def same_links_def)

lemma rows_linked_update:
  assumes "\<And>r. same_links r (f r)" "rows_linked rs"
  shows "rows_linked (update_where P f rs)"
proof -
  define g where "g r = (if P r then f r else r)" for r
  have g: "same_links r (g r)" for r using assms(1) by (simp add: g_def same_links_def)
  have "update_where P f rs = map g rs" by (simp add: update_where_def g_def)
  moreover have "mm_superseded_by_id (g r) = mm_superseded_by_id r" "mm_supersedes_id (g r) = mm_supersedes_id r" for r
    using g [of r] by (simp_all add: same_links_def)
  ultimately show ?thesis using assms(2) successor_same [OF g g] by (auto simp: rows_linked_def)
qed

lemma catalog_ok_update:
  assumes "\<And>r. same_links r (f r)" "\<And>r. memory_ok c r \<Longrightarrow> memory_ok c (f r)" "catalog_ok c d"
  shows "catalog_ok c (update_memories P f d)"
proof -
  have "memories.unique (update_where P f (md_memories d)) = memories.unique (md_memories d)"
    using assms(1) by (intro memories.unique_update) (simp add: same_links_def)
  moreover have "\<forall>r\<in>set (update_where P f (md_memories d)). memory_ok c r"
    using assms(2,3) by (auto simp: catalog_ok_def update_where_def)
  ultimately show ?thesis
    using assms(3) rows_linked_update [OF assms(1)] by (simp add: catalog_ok_def update_memories_def)
qed

lemma row_changes [simp]:
  "same_links r (mark_row s e now r)" "same_links r (invalidate_row now reason r)" "same_links r (stale_row now r)"
  "memory_ok c (mark_row s e now r) = memory_ok c r" "memory_ok c (invalidate_row now reason r) = memory_ok c r"
  "memory_ok c (stale_row now r) = memory_ok c r" "memory_ok c (supersede i now r) = memory_ok c r"
  by (simp_all add: same_links_def memory_ok_def mark_row_def invalidate_row_def stale_row_def supersede_def split: option.split)

lemma memory_row_of_ok:
  assumes "admissible c rq" "classification_rank (ig_classification rq) = Inr rank"
  shows "memory_ok c (memory_row_of c rq i rank vec model authority now)"
  using assms by (auto simp: memory_ok_def memory_row_of_def admissible_def split: option.split intro!: exI)

text \<open>Storing a row and linking it to the one it supersedes keeps it.\<close>

lemma check_superseded_Inr:
  "check_superseded rq d = Inr superseded \<Longrightarrow>
     superseded = ig_supersedes_id rq \<and>
     (\<forall>i. superseded = Some i \<longrightarrow> (\<exists>old\<in>set (md_memories d). mm_id old = i \<and> mm_project old = ig_project rq \<and>
        mm_environment old = ig_environment rq \<and> mm_superseded_by_id old = None \<and> mm_invalidated_at old = None))"
  by (auto simp: check_superseded_def select_one_def find_Some_iff split: option.splits)

lemma md_memories_simps [simp]:
  "md_memories (add_source src d) = md_memories d" "md_memories (insert_memory r d) = md_memories d @ [r]"
  "md_memories (update_memories P f d) = update_where P f (md_memories d)"
  "md_memories (log_access a d) = md_memories d" "md_memories (add_call p d) = md_memories d"
  "md_memories (settle_call n s' d) = md_memories d" "md_memories (cache_vector c i digest t d) = md_memories d"
  "md_memories (add_members ms d) = md_memories d" "md_memories (add_run m d) = md_memories d"
  by (simp_all add: add_source_def insert_memory_def update_memories_def log_access_def add_call_def settle_call_def
        cache_vector_def add_members_def add_run_def)

lemma catalog_ok_stored:
  assumes ok: "catalog_ok c d" and row: "memory_ok c row" "mm_id row \<notin> mm_id ` set (md_memories d)"
      "mm_superseded_by_id row = None" "mm_supersedes_id row = ig_supersedes_id rq"
      "mm_project row = ig_project rq" "mm_environment row = ig_environment rq"
    and checked: "check_superseded rq d = Inr superseded"
  shows "catalog_ok c (stored_db rq row superseded now d)"
proof -
  let ?new = "mm_id row"
  note old = check_superseded_Inr [OF checked]
  define g where "g r = (if superseded = Some (mm_id r) then supersede ?new now r else r)" for r
  have rows: "md_memories (stored_db rq row superseded now d) = map g (md_memories d @ [row])"
    by (cases superseded) (auto simp: stored_db_def update_where_def g_def intro!: map_cong map_idI [symmetric])
  have id: "mm_id (g r) = mm_id r" for r by (simp add: g_def supersede_def)
  have "superseded \<noteq> Some ?new"
  proof
    assume "superseded = Some ?new"
    with old obtain r where "r \<in> set (md_memories d)" "mm_id r = ?new" by auto
    then show False using row(2) by (metis imageI)
  qed
  then have new: "g row = row" by (simp add: g_def)
  have "memories.unique (md_memories d @ [row])" using ok row(2) by (simp add: catalog_ok_def memories.unique_append)
  then have unique: "memories.unique (map g (md_memories d @ [row]))" by (simp add: memories.unique_def comp_def id)
  have oks: "\<forall>r\<in>set (map g (md_memories d @ [row])). memory_ok c r" using ok row(1) by (auto simp: catalog_ok_def g_def)
  have links: "rows_linked (md_memories d)" using ok by (simp add: catalog_ok_def)
  have kept: "successor (g r) (g s)" if "successor r s" "r \<in> set (md_memories d)" for r s
  proof -
    have "superseded \<noteq> Some (mm_id r)"
    proof
      assume "superseded = Some (mm_id r)"
      then obtain r' where "r' \<in> set (md_memories d)" "mm_id r' = mm_id r" "mm_superseded_by_id r' = None" using old by auto
      with that ok show False by (auto simp: catalog_ok_def successor_def dest: memories.unique_mem_eq)
    qed
    then show ?thesis using that by (auto simp: g_def successor_def supersede_def)
  qed
  have "rows_linked (map g (md_memories d @ [row]))"
    unfolding rows_linked_def
  proof (intro conjI ballI impI)
    fix r assume r: "r \<in> set (map g (md_memories d @ [row]))" "mm_superseded_by_id r \<noteq> None"
    then obtain q where q: "q \<in> set (md_memories d)" "r = g q" using row(3) new by auto
    show "\<exists>s\<in>set (map g (md_memories d @ [row])). successor r s"
    proof (cases "superseded = Some (mm_id q)")
      case True
      then obtain q' where q': "q' \<in> set (md_memories d)" "mm_id q' = mm_id q" "mm_project q' = ig_project rq" "mm_environment q' = ig_environment rq"
        using old by auto
      have "q' = q" using ok q(1) q' by (auto simp: catalog_ok_def dest: memories.unique_mem_eq)
      then have "successor r row" using True old q q' row by (auto simp: g_def successor_def supersede_def)
      then show ?thesis using new by auto
    next
      case False
      then have "mm_superseded_by_id q \<noteq> None" using r q by (simp add: g_def)
      then obtain s where "s \<in> set (md_memories d)" "successor q s" using links q(1) by (auto simp: rows_linked_def)
      then show ?thesis using kept [of q s] q by auto
    qed
  next
    fix s assume s: "s \<in> set (map g (md_memories d @ [row]))" "mm_supersedes_id s \<noteq> None"
    show "\<exists>r\<in>set (map g (md_memories d @ [row])). successor r s"
    proof (cases "s = row")
      case True
      then obtain i where i: "superseded = Some i" using s old row(4) by auto
      then obtain q where q: "q \<in> set (md_memories d)" "mm_id q = i" "mm_project q = ig_project rq" "mm_environment q = ig_environment rq"
        using old by auto
      then have "successor (g q) row" using i old row by (auto simp: g_def successor_def supersede_def)
      then show ?thesis using True q by auto
    next
      case False
      then obtain q where q: "q \<in> set (md_memories d)" "s = g q" using s new by auto
      then have "mm_supersedes_id q \<noteq> None" using s(2) by (auto simp: g_def supersede_def split: if_splits)
      then obtain r where "r \<in> set (md_memories d)" "successor r q" using links q(1) by (auto simp: rows_linked_def)
      then show ?thesis using kept [of r q] q by auto
    qed
  qed
  with unique oks show ?thesis unfolding catalog_ok_def rows by blast
qed

definition keeps_catalog :: "memory_config \<Rightarrow> memory_db \<Rightarrow> memory_db \<Rightarrow> bool" where
  "keeps_catalog c d d' \<longleftrightarrow> (catalog_ok c d \<longrightarrow> catalog_ok c d')"

lemma keeps_catalog_same: "md_memories d' = md_memories d \<Longrightarrow> keeps_catalog c d d'"
  by (simp add: keeps_catalog_def catalog_ok_def)

lemma store_keeps_catalog:
  assumes "admissible c rq"
  shows "evolves (keeps_catalog c) (store_memory c rq vec model authority :: (memory_record \<times> bool \<times> string option) mop)"
  unfolding evolves_def
proof
  fix w :: memory_world
  obtain res w' where run: "store_memory c rq vec model authority w = (res, w')" by fastforce
  have "keeps_catalog c (w_db w) (stored_db rq (memory_row_of c rq i rank vec model authority now) superseded now (w_db w))"
    if "i \<notin> mm_id ` set (md_memories (w_db w))" "check_superseded rq (w_db w) = Inr superseded"
      "classification_rank (ig_classification rq) = Inr rank" for i rank superseded now
    unfolding keeps_catalog_def
    by (intro impI catalog_ok_stored memory_row_of_ok assms that) (simp_all add: memory_row_of_def that)
  with store_memory_db [OF run] show "keeps_catalog c (w_db w) (w_db (snd (store_memory c rq vec model authority w)))"
    by (auto simp: run keeps_catalog_same)
qed

interpretation catalog: catalog_evolution "keeps_catalog c" c for c
proof unfold_locales
  show "admissible c rq \<Longrightarrow> evolves (keeps_catalog c) (store_memory c rq vec model authority :: (memory_record \<times> bool \<times> string option) mop)"
    for rq vec model authority by (rule store_keeps_catalog)
qed (simp_all add: keeps_catalog_same, auto simp: keeps_catalog_def intro: catalog_ok_update)

section \<open>Nothing stored is rewritten\<close>

text \<open>
  Of a memory only the state of its indexing, its staleness and the time of its last change may change
  freely; its invalidation and its successor are set once.
\<close>

definition memory_kept :: "memory_row \<Rightarrow> memory_row \<Rightarrow> bool" where
  "memory_kept r r' \<longleftrightarrow>
     r' = r\<lparr>mm_qdrant_state := mm_qdrant_state r', mm_qdrant_error := mm_qdrant_error r', mm_updated_at := mm_updated_at r',
            mm_stale_at := mm_stale_at r', mm_invalidated_at := mm_invalidated_at r', mm_invalid_reason := mm_invalid_reason r',
            mm_superseded_by_id := mm_superseded_by_id r'\<rparr> \<and>
     (mm_invalidated_at r \<noteq> None \<longrightarrow> mm_invalidated_at r' = mm_invalidated_at r \<and> mm_invalid_reason r' = mm_invalid_reason r) \<and>
     (mm_superseded_by_id r \<noteq> None \<longrightarrow> mm_superseded_by_id r' = mm_superseded_by_id r)"

definition call_kept :: "provider_call \<Rightarrow> provider_call \<Rightarrow> bool" where
  "call_kept p p' \<longleftrightarrow> p' = p \<or> pl_outcome p = ''reserved'' \<and> p' = p\<lparr>pl_outcome := pl_outcome p'\<rparr>"

definition history_of :: "memory_db \<Rightarrow> memory_db \<Rightarrow> bool" where
  "history_of d d' \<longleftrightarrow>
     grows memory_kept (md_memories d) (md_memories d') \<and> grows (=) (md_audit d) (md_audit d') \<and>
     grows (=) (md_sources d) (md_sources d') \<and> grows call_kept (md_calls d) (md_calls d') \<and>
     grows (=) (md_summary_members d) (md_summary_members d') \<and> grows (=) (md_maintenance d) (md_maintenance d')"

definition extends_catalog :: "memory_db \<Rightarrow> memory_db \<Rightarrow> bool" where
  "extends_catalog d d' \<longleftrightarrow> (memories.unique (md_memories d) \<longrightarrow> memories.unique (md_memories d') \<and> history_of d d')"

lemma memory_kept_refl [simp]: "memory_kept r r"
  by (simp add: memory_kept_def)

lemma memory_kept_trans: "memory_kept a b \<Longrightarrow> memory_kept b d \<Longrightarrow> memory_kept a d"
  unfolding memory_kept_def by (cases a, cases b, cases d) auto

lemma call_kept_trans: "call_kept a b \<Longrightarrow> call_kept b d \<Longrightarrow> call_kept a d"
  unfolding call_kept_def by (cases a, cases b, cases d) auto

lemma catalog_history_refl [simp]: "history_of d d"
  by (simp add: history_of_def grows_refl call_kept_def)

lemma kept_grow:
  "grows memory_kept xs ys \<Longrightarrow> grows memory_kept ys zs \<Longrightarrow> grows memory_kept xs zs"
  "grows call_kept ps qs \<Longrightarrow> grows call_kept qs rs \<Longrightarrow> grows call_kept ps rs"
  "grows (=) us vs \<Longrightarrow> grows (=) vs ws \<Longrightarrow> grows (=) us ws"
  using memory_kept_trans call_kept_trans by (auto elim: grows_trans [rotated])

lemma catalog_history_trans: "history_of a b \<Longrightarrow> history_of b d \<Longrightarrow> history_of a d"
  unfolding history_of_def by (auto elim: kept_grow)

lemma foldl_grows: "grows (=) ls (foldl (\<lambda>ls m. if m \<in> set ls then ls else ls @ [m]) ls ms)"
proof (induction ms arbitrary: ls)
  case (Cons m ms)
  show ?case
    using Cons.IH [of "ls @ [m]"] Cons.IH [of ls] grows_snoc [of "(=)" ls "[m]"] by (auto elim: kept_grow)
qed (simp add: grows_refl)

lemma history_statements:
  "history_of d (log_access a d)" "history_of d (add_call p d)" "history_of d (settle_call n s d)"
  "history_of d (cache_vector c i digest t d)" "history_of d (add_members ms d)" "history_of d (add_run m d)"
  "history_of d (add_source src d)" "history_of d (insert_memory r d)"
  by (simp_all add: history_of_def grows_refl grows_snoc call_kept_def log_access_def add_call_def settle_call_def cache_vector_def
        add_members_def add_run_def add_source_def insert_memory_def foldl_grows, rule grows_update) (auto simp: call_kept_def)

lemma history_update:
  "(\<And>r. r \<in> set (md_memories d) \<Longrightarrow> P r \<Longrightarrow> memory_kept r (f r)) \<Longrightarrow> history_of d (update_memories P f d)"
  by (simp add: history_of_def update_memories_def grows_refl call_kept_def)
    (simp add: grows_def update_where_def list_all2_conv_all_nth)

lemma extends_update:
  assumes "\<And>r. mm_id (f r) = mm_id r"
    and "memories.unique (md_memories d) \<Longrightarrow> \<forall>r\<in>set (md_memories d). P r \<longrightarrow> memory_kept r (f r)"
  shows "extends_catalog d (update_memories P f d)"
  using assms by (auto simp: extends_catalog_def memories.unique_update intro: history_update)

lemma memory_kept_updates:
  "memory_kept r (mark_row s e now r)" "memory_kept r (stale_row now r)"
  "mm_invalidated_at r = None \<Longrightarrow> memory_kept r (invalidate_row now reason r)"
  "mm_superseded_by_id r = None \<Longrightarrow> memory_kept r (supersede i now r)"
  by (simp_all add: memory_kept_def mark_row_def stale_row_def invalidate_row_def supersede_def)

lemma update_ids [simp]:
  "mm_id (mark_row s e now r) = mm_id r" "mm_id (stale_row now r) = mm_id r" "mm_id (invalidate_row now reason r) = mm_id r"
  "mm_id (supersede i now r) = mm_id r"
  by (simp_all add: mark_row_def stale_row_def invalidate_row_def supersede_def)

lemma extends_stored:
  assumes fresh: "mm_id row \<notin> mm_id ` set (md_memories d)" and row: "mm_superseded_by_id row = None"
    and checked: "check_superseded rq d = Inr superseded"
  shows "extends_catalog d (stored_db rq row superseded now d)"
proof -
  let ?d = "add_source (source_of rq (mm_id row) now) (insert_memory row d)"
  have stored: "history_of d ?d" by (rule catalog_history_trans [OF history_statements(8) history_statements(7)])
  have "extends_catalog ?d (stored_db rq row superseded now d)"
  proof (cases superseded)
    case None
    then show ?thesis by (simp add: stored_db_def extends_catalog_def)
  next
    case (Some s)
    from check_superseded_Inr [OF checked] Some obtain old where old: "old \<in> set (md_memories d)" "mm_id old = s" "mm_superseded_by_id old = None"
      by auto
    have "memory_kept r (supersede (mm_id row) now r)" if "memories.unique (md_memories ?d)" "r \<in> set (md_memories ?d)" "mm_id r = s" for r
    proof -
      have "r = old" using that old by (auto dest: memories.unique_mem_eq)
      then show ?thesis using old by (simp add: memory_kept_updates)
    qed
    then show ?thesis unfolding stored_db_def Some by (auto intro: extends_update)
  qed
  then show ?thesis
    using stored fresh by (auto simp: extends_catalog_def memories.unique_append intro: catalog_history_trans)
qed

lemma extends_same: "md_memories d' = md_memories d \<Longrightarrow> history_of d d' \<Longrightarrow> extends_catalog d d'"
  by (simp add: extends_catalog_def)

lemma store_extends_catalog:
  "evolves extends_catalog (store_memory c rq vec model authority :: (memory_record \<times> bool \<times> string option) mop)"
  unfolding evolves_def
proof
  fix w :: memory_world
  obtain res w' where run: "store_memory c rq vec model authority w = (res, w')" by fastforce
  have "extends_catalog (w_db w) (stored_db rq (memory_row_of c rq i rank vec model authority now) superseded now (w_db w))"
    if "i \<notin> mm_id ` set (md_memories (w_db w))" "check_superseded rq (w_db w) = Inr superseded" for i rank superseded now
    by (intro extends_stored that) (simp_all add: memory_row_of_def that)
  with store_memory_db [OF run] show "extends_catalog (w_db w) (w_db (snd (store_memory c rq vec model authority w)))"
    by (auto simp: run extends_same history_statements)
qed

interpretation extension: catalog_evolution extends_catalog c for c
proof unfold_locales
  show "extends_catalog a d" if "extends_catalog a b" "extends_catalog b d" for a b d
    using that by (auto simp: extends_catalog_def intro: catalog_history_trans)
  show "extends_catalog d (update_memories (\<lambda>r. mm_id r = i) (invalidate_row now reason) d)"
    if "select_one (\<lambda>r. mm_id r = i) (md_memories d) = Some r" "mm_invalidated_at r = None" for i d r now reason
  proof (rule extends_update)
    show "\<forall>r\<in>set (md_memories d). mm_id r = i \<longrightarrow> memory_kept r (invalidate_row now reason r)" if "memories.unique (md_memories d)"
      using that \<open>select_one _ _ = _\<close> \<open>mm_invalidated_at r = None\<close>
      by (auto dest!: memories.unique_lookup intro!: memory_kept_updates)
  qed simp
  show "extends_catalog d (update_memories (expires now) (invalidate_row now ''validity_expired'') d)" for d now
    by (intro extends_update) (auto simp: expires_def intro: memory_kept_updates)
  show "evolves extends_catalog (store_memory c rq vec model authority :: (memory_record \<times> bool \<times> string option) mop)"
    for rq vec model authority by (rule store_extends_catalog)
qed (auto simp: extends_same history_statements memory_kept_updates intro: extends_update)

end
