(* ===== verification/Sample_Memory.thy ===== *)
theory Sample_Memory
  imports Mem_Dispatch "HOL-Library.Code_Target_Nat"
begin

text \<open>
  A small memory service on which the properties are evaluated: two operators, of which only the first may
  declassify and use the reranking API, a catalogue with one memory, and an index that answers every request. The digest is the
  identity on bytes, so that digests of different texts differ.
\<close>

definition sample_policy :: "string \<Rightarrow> string list \<Rightarrow> actor_policy" where
  "sample_policy name caps = \<lparr>ap_name = name, ap_unix_users = [''ops''], ap_roles = [''ops''], ap_grantable_roles = [''ops'', ''dev''],
     ap_projects = [''*''], ap_environments = [''prod''], ap_max_classification = ''restricted'',
     ap_capabilities = [''read'', ''write'', ''invalidate'', ''summarize'', ''maintenance'', ''review'', ''health'', ''stats''] @ caps,
     ap_source_types = [''ci'', ''memory-consolidation''], ap_authoritative_source_types = [''ci'']\<rparr>"

definition sample_api :: api_provider_config where
  "sample_api = \<lparr>pa_protocol = ''voyage'', pa_enabled = False, pa_model = ''v3'', pa_daily_call_budget = 2\<rparr>"

definition sample_memory_config :: memory_config where
  "sample_memory_config = \<lparr>mc_actors = [(''lead'', sample_policy ''lead'' [''declassify'', ''api-escalate'']), (''ops'', sample_policy ''ops'' [])],
     mc_source_truth = [(''runbook'', [''ci''])], mc_max_content_bytes = 4096, mc_candidate_limit = 20, mc_result_limit = 5,
     mc_fallback_scan_limit = 100, mc_allow_degraded_reads = True, mc_allow_degraded_writes = True, mc_observation_ttl_days = 30,
     mc_stale_after_days = 90, mc_dimensions = 1, mc_api_dimensions = 1, mc_embedding_model = ''hash-1'',
     mc_min_local_confidence = 1 / 2, mc_embedding_api = sample_api, mc_reranker_model = ''local'', mc_reranker_api = sample_api\<lparr>pa_enabled := True\<rparr>,
     mc_collection = ''memories'', mc_space = ''s1'', mc_sha256 = map (\<lambda>n. char_of n), mc_frepr = (\<lambda>s. s),
     mc_fromisoformat = (\<lambda>_. None), mc_bracketed_host = (\<lambda>_. True), mc_uid = (\<lambda>u. if u = ''ops'' then Some 1000 else None),
     mc_local_vector = (\<lambda>_. [''1.0''])\<rparr>"

definition sample_memory_id :: "nat \<Rightarrow> string" where
  "sample_memory_id n = ''00000000-0000-4000-8000-00000000000'' @ [char_of (48 + n)]"

definition sample_ingest :: "string \<Rightarrow> string \<Rightarrow> json \<Rightarrow> jdict" where
  "sample_ingest content classification supersedes =
     [(''actor'', JStr ''ops''), (''content'', JStr content), (''project'', JStr ''infra''), (''environment'', JStr ''prod''),
      (''classification'', JStr classification), (''category'', JStr ''runbook''), (''kind'', JStr ''information''),
      (''allowed_roles'', JList [JStr ''ops'']), (''source_type'', JStr ''ci''), (''source_uri'', JStr ''git://r''),
      (''source_ref'', JStr ''c1''), (''source_authority'', JStr ''git''), (''metadata'', JDict [(''owner'', JStr ''d''), (''agent'', JInt 2)]),
      (''supersedes_id'', supersedes)]"

definition sample_rq :: "string \<Rightarrow> ingest_request" where
  "sample_rq content = \<lparr>ig_actor = ''ops'', ig_content = content, ig_project = ''infra'', ig_environment = ''prod'',
     ig_classification = ''internal'', ig_category = ''runbook'', ig_kind = ''information'', ig_tier = ''cold'',
     ig_allowed_roles = [''ops'', ''dev''], ig_source_type = ''ci'', ig_source_uri = ''git://r'', ig_source_ref = ''c0'',
     ig_source_authority = ''git'', ig_metadata = [(''owner'', JStr ''d'')], ig_importance = 1 / 2, ig_valid_from = 0,
     ig_valid_until = None, ig_supersedes_id = None, ig_reviewed = False, ig_promote = True\<rparr>"

definition sample_memory_row :: "nat \<Rightarrow> string \<Rightarrow> memory_row" where
  "sample_memory_row n content =
     memory_row_of sample_memory_config (sample_rq content) (sample_memory_id n) 1 [JFloat ''1.0''] ''hash-1'' ''derived'' 0"

definition sample_catalog :: memory_db where
  "sample_catalog = \<lparr>md_memories = [sample_memory_row 1 ''run it''], md_sources = [], md_summary_members = [], md_audit = [],
     md_calls = [], md_maintenance = [], md_vectors = []\<rparr>"

definition sample_memory_world :: "memory_db \<Rightarrow> memory_world" where
  "sample_memory_world d = \<lparr>w_db = d, w_clock = (\<lambda>n. 86400000000 + int n * 1000000), w_ticks = 0, w_uuids = (\<lambda>n. sample_memory_id (n + 2)),
     w_drawn = 0, mw_qdrant = (\<lambda>_. QDone), mw_qdrant_log = [], mw_ensured = [], mw_embedding = (\<lambda>_. AAnswer JNull),
     mw_embedding_log = [], mw_reranking = (\<lambda>_. AAnswer (JList [JDict [(''index'', JInt 0), (''relevance_score'', JFloat ''0.5'')]])), mw_reranking_log = []\<rparr>"

definition sample_search :: json where
  "sample_search = JDict [(''actor'', JStr ''lead''), (''query'', JStr ''run''), (''project'', JStr ''infra''), (''environment'', JStr ''prod''),
     (''max_classification'', JStr ''internal''), (''important'', JBool True), (''allow_api'', JBool True)]"

definition sample_hit :: memory_world where
  "sample_hit = (sample_memory_world sample_catalog)\<lparr>mw_qdrant := (\<lambda>_. QHits [(sample_memory_id 1, 1 / 2)])\<rparr>"

definition sample_summary :: jdict where
  "sample_summary = [(''actor'', JStr ''ops''), (''record_ids'', JList [JStr (sample_memory_id 1)]),
     (''summary'', JDict [(''changes'', JStr ''run it'')])]"

end
