(* ===== verification/Mem_Access.thy ===== *)
theory Mem_Access
  imports Mem_Catalog Sample_Memory
begin

text \<open>
  Who sees what. A search returns only records of the catalogue that are current, in the requested scope and
  visible to the authenticated actor, whatever the vector index and the rerankers answer; superseding a
  memory shows it to nobody who could not see the old one, unless the writer may declassify; a summary is
  seen by nobody who could not see every one of its members; and what is stored reads back as it was given.
\<close>

section \<open>Reading leaves the memories alone\<close>

definition quiet :: "memory_world \<Rightarrow> memory_world \<Rightarrow> bool" where
  "quiet w w' \<longleftrightarrow> md_memories (w_db w') = md_memories (w_db w) \<and> w_clock w' = w_clock w \<and> w_ticks w \<le> w_ticks w'"

interpretation quiet: world_evolution quiet
  by unfold_locales (auto simp: quiet_def)

named_theorems quiet_intros "operations that leave the memories alone"

lemmas [quiet_intros] = quiet.ch_rules

lemma quiet_exec: "(\<And>d. md_memories (g d) = md_memories d) \<Longrightarrow> changes quiet (op_exec g)"
  by (simp add: changes_def quiet_def op_exec_def)

lemma quiet_requests [quiet_intros]:
  "changes quiet (qdrant_call collection q)" "changes quiet (embedding_request text t)" "changes quiet (rerank_request query docs k)"
  by (simp_all add: changes_def quiet_def qdrant_call_def embedding_request_def rerank_request_def Let_def
        split: qdrant_reply.split api_reply.split)

lemma quiet_now [quiet_intros]: "changes quiet utc_now"
  unfolding utc_now_def by (intro quiet_intros)

lemma quiet_audit [quiet_intros]: "changes quiet (audit c actor operation outcome f)"
  unfolding audit_def by (intro quiet_intros quiet_exec) simp

lemma quiet_reserve [quiet_intros]: "changes quiet (reserve_provider_call actor operation provider model budget)"
  unfolding reserve_provider_call_def Let_def by (intro quiet_intros quiet_exec) simp

lemma quiet_complete [quiet_intros]: "changes quiet (complete_provider_call i outcome)"
  unfolding complete_provider_call_def by (intro quiet_intros quiet_exec) simp

lemma quiet_search [quiet_intros]: "changes quiet (qdrant_search collection vec f)"
  unfolding qdrant_search_def by (intro quiet.ch_bind quiet_intros) (auto intro: quiet_intros split: qdrant_reply.split)

lemma quiet_api_embed [quiet_intros]: "changes quiet (api_embed c text t)"
  unfolding api_embed_def by (intro quiet_intros)

lemma quiet_embed [quiet_intros]: "changes quiet (embed c actor operation text allow important)"
  unfolding embed_def Let_def has_records_def by (intro quiet_intros)

lemma quiet_get [quiet_intros]: "changes quiet (get_memory c i)"
  unfolding get_memory_def by (intro quiet_intros)

lemma quiet_get_many [quiet_intros]: "changes quiet (get_many c ids)"
  unfolding get_many_def records_of_def by (intro quiet_intros)

lemma quiet_keeps [quiet_intros]: "changes quiet (keeps a rq r)"
  unfolding keeps_def is_current_def Let_def by (intro quiet_intros)

lemma quiet_filter [quiet_intros]: "changes quiet (filter_records a rq rs)"
  by (induction rs) (auto intro!: quiet_intros)

lemma quiet_candidates [quiet_intros]: "changes quiet (vector_candidates c a rq e)"
  unfolding vector_candidates_def Let_def by (intro quiet_intros)

lemma quiet_fallback [quiet_intros]: "changes quiet (fallback_candidates c rq roles n)"
  unfolding fallback_candidates_def records_of_def Let_def by (intro quiet_intros)

lemma quiet_search_candidates [quiet_intros]: "changes quiet (search_candidates c a rq e)"
  unfolding search_candidates_def by (intro quiet_intros)

lemma quiet_api_rerank [quiet_intros]: "changes quiet (api_rerank c query cands k)"
  unfolding api_rerank_def Let_def
  by (intro quiet.ch_bind quiet.ch_raise_if quiet.ch_if quiet.ch_ret quiet_requests) (auto intro: quiet_intros split: json.split)

lemma quiet_rerank [quiet_intros]: "changes quiet (rerank c actor query cands k allow important)"
  unfolding rerank_def local_rerank_def Let_def by (intro quiet_intros)

lemma quietD: "changes quiet m \<Longrightarrow> m w = (r, w') \<Longrightarrow> quiet w w'"
  by (metis changes_def snd_conv)

section \<open>Search\<close>

text \<open>\<open>r\<close> is a record of the catalogue that the actor may see, in the scope of the search, and current at a reading of the clock.\<close>

definition findable :: "memory_config \<Rightarrow> actor_policy \<Rightarrow> search_request \<Rightarrow> memory_world \<Rightarrow> memory_world \<Rightarrow> memory_record \<Rightarrow> bool" where
  "findable c a rq w w' r \<longleftrightarrow>
     rc_row r \<in> set (md_memories (w_db w)) \<and> row_to_record c (rc_row r) = Inr r \<and> record_visible a r = Inr True \<and>
     mm_project (rc_row r) = sq_project rq \<and> mm_environment (rc_row r) = sq_environment rq \<and>
     (\<exists>k m. classification_rank (mm_classification (rc_row r)) = Inr k \<and> classification_rank (sq_max_classification rq) = Inr m \<and> k \<le> m) \<and>
     (sq_categories rq = [] \<or> mm_category (rc_row r) \<in> set (sq_categories rq)) \<and>
     (sq_kinds rq = [] \<or> mm_kind (rc_row r) \<in> set (sq_kinds rq)) \<and>
     (\<exists>n. w_ticks w \<le> n \<and> n < w_ticks w' \<and> row_current (whole_second (w_clock w n)) (rc_row r))"

lemma findable_mono: "findable c a rq w1 w2 r \<Longrightarrow> quiet w w1 \<Longrightarrow> quiet w2 w' \<Longrightarrow> findable c a rq w w' r"
  by (auto simp: findable_def quiet_def) (meson order_less_le_trans order_trans)+

lemma row_to_record_row: "row_to_record c row = Inr r \<Longrightarrow> rc_row r = row"
  by (auto simp: row_to_record_def split: option.splits)

definition in_catalog :: "memory_config \<Rightarrow> memory_world \<Rightarrow> memory_record \<Rightarrow> bool" where
  "in_catalog c w r \<longleftrightarrow> rc_row r \<in> set (md_memories (w_db w)) \<and> row_to_record c (rc_row r) = Inr r"

lemma records_in_catalog:
  "res_map (row_to_record c) rows = Inr rs \<Longrightarrow> set rows \<subseteq> set (md_memories (w_db w)) \<Longrightarrow> r \<in> set rs \<Longrightarrow> in_catalog c w r"
  by (auto simp: res_map_Inr_iff in_catalog_def row_to_record_row dest!: list_all2_set2)

lemma find_member: "find P xs = Some x \<Longrightarrow> x \<in> set xs \<and> P x"
  by (metis find_Some_iff nth_mem)

lemma by_ids_member: "r \<in> set (by_ids ids rs) \<Longrightarrow> r \<in> set rs \<and> record_id r \<in> set ids"
  by (auto simp: by_ids_def List.map_filter_def dest: find_member split: option.splits)

lemma get_many_in_catalog:
  assumes "get_many c ids w = (Inr rs, w')"
  shows "w' = w \<and> (\<forall>r\<in>set rs. in_catalog c w r)"
  using assms by (auto simp: get_many_def records_of_def op_simps dest!: by_ids_member intro: records_in_catalog)

lemma keeps_Inr:
  assumes "keeps a rq r w = (Inr True, w')"
  shows "w' = w\<lparr>w_ticks := Suc (w_ticks w)\<rparr> \<and> row_current (whole_second (w_clock w (w_ticks w))) (rc_row r) \<and>
    record_visible a r = Inr True \<and> mm_project (rc_row r) = sq_project rq \<and> mm_environment (rc_row r) = sq_environment rq \<and>
    (\<exists>k m. classification_rank (mm_classification (rc_row r)) = Inr k \<and> classification_rank (sq_max_classification rq) = Inr m \<and> k \<le> m) \<and>
    (sq_categories rq = [] \<or> mm_category (rc_row r) \<in> set (sq_categories rq)) \<and>
    (sq_kinds rq = [] \<or> mm_kind (rc_row r) \<in> set (sq_kinds rq))"
  using assms by (auto simp: keeps_def is_current_def utc_now_def Let_def op_simps split: if_splits)

lemma filter_findable:
  assumes "filter_records a rq rs w = (Inr kept, w')" "\<forall>r\<in>set rs. in_catalog c w r"
  shows "\<forall>r\<in>set kept. findable c a rq w w' r"
  using assms
proof (induction rs arbitrary: w w' kept)
  case (Cons r rs)
  from Cons.prems(1) obtain keep w1 rest where step: "keeps a rq r w = (Inr keep, w1)" "filter_records a rq rs w1 = (Inr rest, w')"
      "kept = (if keep then r # rest else rest)"
    by (auto simp: op_simps)
  have q: "quiet w w1" "quiet w1 w'" using step by (auto intro: quietD quiet_intros)
  have "\<forall>r\<in>set rs. in_catalog c w1 r" using Cons.prems(2) q(1) by (simp add: in_catalog_def quiet_def)
  with Cons.IH [OF step(2)] have "\<forall>r\<in>set rest. findable c a rq w w' r" using q(1) findable_mono [OF _ q(1)] by (auto simp: quiet_def)
  moreover have "findable c a rq w w' r" if keep
  proof -
    have "keeps a rq r w = (Inr True, w1)" using step(1) that by simp
    from keeps_Inr [OF this] show ?thesis
      using Cons.prems(2) q(2) by (auto simp: findable_def in_catalog_def quiet_def intro!: exI [where x = "w_ticks w"])
  qed
  ultimately show ?case using step(3) by auto
qed (simp add: op_simps)

lemma vector_findable:
  assumes "vector_candidates c a rq e w = (Inr (cands, e'), w')"
  shows "\<forall>r\<in>fst ` set cands. findable c a rq w w' r"
proof -
  obtain rank w0 hits e'' w1 rs kept lh where
    steps: "qdrant_search (mc_collection c) (em_vector (local_embed c (sq_query rq))) (search_filter rq a rank) w = (Inr lh, w0)"
      "(if em_provider e = ''api''
        then op_catch (op_bind (qdrant_search (api_collection c) (em_vector e) (search_filter rq a rank)) (\<lambda>remote_hits.
                         op_ret (merge_hits lh remote_hits (sq_candidate_limit rq), e)))
               is_backend_unavailable (\<lambda>_. op_ret (lh, local_embed c (sq_query rq)))
        else op_ret (lh, e)) w0 = (Inr (hits, e''), w1)"
      "get_many c (map fst hits) w1 = (Inr rs, w1)" "filter_records a rq rs w1 = (Inr kept, w')"
      "cands = map (\<lambda>r. (r, last_score hits (record_id r))) kept"
    using assms unfolding vector_candidates_def Let_def op_bind_Inr op_lift_Inr
    by (clarsimp simp: op_bind_Inr op_ret_Inr) (frule get_many_in_catalog, blast)
  have "quiet w w0" using quiet_search steps(1) by (rule quietD)
  moreover have "changes quiet (if em_provider e = ''api''
        then op_catch (op_bind (qdrant_search (api_collection c) (em_vector e) (search_filter rq a rank)) (\<lambda>remote_hits.
                         op_ret (merge_hits lh remote_hits (sq_candidate_limit rq), e)))
               is_backend_unavailable (\<lambda>_. op_ret (lh, local_embed c (sq_query rq)))
        else op_ret (lh, e))"
    by (intro quiet_intros)
  then have "quiet w0 w1" using steps(2) by (rule quietD)
  ultimately have "quiet w w1" by (rule quiet.trans)
  moreover have "\<forall>r\<in>set kept. findable c a rq w1 w' r"
    using filter_findable [OF steps(4)] get_many_in_catalog [OF steps(3)] by blast
  ultimately show ?thesis using findable_mono steps(5) by (auto simp: quiet_def)
qed

text \<open>The lexical fallback relies on the rank column, on the roles, and on the authorization of the request.\<close>

lemma visibleI:
  assumes "authorize_search a rq = Inr ()" "mm_project (rc_row r) = sq_project rq" "mm_environment (rc_row r) = sq_environment rq"
    and "classification_rank (mm_classification (rc_row r)) = Inr k" "classification_rank (sq_max_classification rq) = Inr m" "k \<le> m"
    and "set (role_names (rc_allowed_roles r)) \<inter> set (ap_roles a) \<noteq> {}"
  shows "record_visible a r = Inr True"
proof -
  from assms(1,5) obtain l where l: "classification_rank (ap_max_classification a) = Inr l" "m \<le> l"
      and scope: "sq_project rq \<in> set (ap_projects a) \<or> ''*'' \<in> set (ap_projects a)"
        "sq_environment rq \<in> set (ap_environments a) \<or> ''*'' \<in> set (ap_environments a)"
    by (simp add: authorize_search_def permits_scope_def split: if_splits) (auto simp: res_bind_Inr_iff)
  then have "permits_scope a (mm_project (rc_row r)) (mm_environment (rc_row r)) (mm_classification (rc_row r)) = Inr True"
    using assms(2-6) by (simp add: permits_scope_def)
  then show ?thesis using assms(4,6,7) l by (simp add: record_visible_def)
qed

lemma fallback_findable:
  assumes "fallback_candidates c rq (ap_roles a) n w = (Inr cands, w')" "catalog_ok c (w_db w)" "authorize_search a rq = Inr ()"
  shows "\<forall>r\<in>fst ` set cands. findable c a rq w w' r"
proof
  fix r assume "r \<in> fst ` set cands"
  let ?now = "whole_second (w_clock w (w_ticks w))"
  from assms(1) obtain rank rows rs where steps: "classification_rank (sq_max_classification rq) = Inr rank"
      "rows = take (nat n) (latest_first mm_updated_at (filter (matches_filter rq rank ?now) (md_memories (w_db w))))"
      "res_map (row_to_record c) rows = Inr rs" "w' = w\<lparr>w_ticks := Suc (w_ticks w)\<rparr>"
      "cands = take (nat n) (sort_key (\<lambda>(r, s). - s) (sort_key (\<lambda>(r, s). - mm_importance (rc_row r)) (sort_key (\<lambda>(r, s). record_id r)
         (filter (\<lambda>(r, s). set (role_names (rc_allowed_roles r)) \<inter> set (ap_roles a) \<noteq> {} \<and> s > 0)
           (map (\<lambda>r. (r, token_overlap (tokenize (sq_query rq)) (tokenize (mm_content (rc_row r))))) rs)))))"
    unfolding fallback_candidates_def utc_now_def records_of_def Let_def by (clarsimp simp: op_simps)
  have r: "r \<in> set rs" "set (role_names (rc_allowed_roles r)) \<inter> set (ap_roles a) \<noteq> {}"
    using \<open>r \<in> _\<close> unfolding steps(5) by (auto dest!: in_set_takeD)
  from r(1) steps(3) have row: "rc_row r \<in> set rows" "row_to_record c (rc_row r) = Inr r"
    by (auto simp: res_map_Inr_iff row_to_record_row dest!: list_all2_set2)
  then have row_in: "rc_row r \<in> set (md_memories (w_db w))" "matches_filter rq rank ?now (rc_row r)"
    using steps(2) by (auto simp: latest_first_def dest!: in_set_takeD)
  moreover have k: "classification_rank (mm_classification (rc_row r)) = Inr (mm_classification_rank (rc_row r))"
    using assms(2) row_in(1) by (auto simp: catalog_ok_def memory_ok_def)
  moreover have "record_visible a r = Inr True"
    using visibleI [OF assms(3) _ _ k steps(1) _ r(2)] row_in(2) by (simp add: matches_filter_def)
  ultimately show "findable c a rq w w' r"
    using row steps(1,4) unfolding findable_def matches_filter_def
    by (auto intro!: exI [where x = "w_ticks w"])
qed

lemma search_candidates_found:
  assumes "search_candidates c a rq e w = (Inr (cands, e', backend), w')" "catalog_ok c (w_db w)" "authorize_search a rq = Inr ()"
  shows "\<forall>r\<in>fst ` set cands. findable c a rq w w' r"
proof -
  from assms(1) consider
      "vector_candidates c a rq e w = (Inr (cands, e'), w')"
    | all err w1 where "op_bind (vector_candidates c a rq e) (\<lambda>(cands, e). op_ret (cands, e, ''qdrant'')) w = (Inl err, w1)"
        "fallback_candidates c rq (ap_roles a) (mc_fallback_scan_limit c) w1 = (Inr all, w')" "cands = take (nat (sq_candidate_limit rq)) all"
    unfolding search_candidates_def op_catch_Inr by (auto simp: op_simps split: if_splits)
  then show ?thesis
  proof cases
    case 2
    have "changes quiet (op_bind (vector_candidates c a rq e) (\<lambda>(cands, e). op_ret (cands, e, ''qdrant'')))"
      by (intro quiet_intros)
    then have q: "quiet w w1" using 2(1) by (rule quietD)
    then have "catalog_ok c (w_db w1)" using assms(2) by (simp add: quiet_def catalog_ok_def)
    from fallback_findable [OF 2(2) this assms(3)] show ?thesis
      using findable_mono [OF _ q] 2(3) by (auto simp: quiet_def dest!: in_set_takeD)
  qed (rule vector_findable)
qed

section \<open>Reranking\<close>

lemma check_ranking_step:
  assumes "check_ranking cands seen (JDict d # items) = Inr ranked"
  shows "\<exists>n f rest. 0 \<le> n \<and> n < int (length cands) \<and> check_ranking cands (n # seen) items = Inr rest \<and> ranked = (cands ! nat n, f) # rest"
proof -
  from assms obtain n s where "map_of d ''index'' = Some (JInt n)" "map_of d ''relevance_score'' = Some s"
    by (auto split: option.splits json.splits)
  then show ?thesis using assms by (auto simp: not_less not_le split: option.splits) blast
qed

lemma check_ranking_sound:
  "check_ranking cands seen items = Inr ranked \<Longrightarrow> fst ` set ranked \<subseteq> set cands \<and> length ranked = length items"
proof (induction items arbitrary: seen ranked)
  case (Cons item items)
  from Cons.prems obtain d where d: "item = JDict d" by (cases item) auto
  from check_ranking_step [OF Cons.prems [unfolded d]] obtain n f rest where "0 \<le> n" "n < int (length cands)"
      "check_ranking cands (n # seen) items = Inr rest" "ranked = (cands ! nat n, f) # rest"
    by blast
  with Cons.IH show ?case by (auto simp: nat_less_iff)
qed simp

definition chosen :: "scored list \<Rightarrow> int \<Rightarrow> (memory_record \<times> rat) list \<Rightarrow> bool" where
  "chosen cands k ranked \<longleftrightarrow> fst ` set ranked \<subseteq> fst ` set cands \<and> length ranked \<le> nat k"

lemma yields_catch: "yields Q m \<Longrightarrow> (\<And>e. yields Q (h e)) \<Longrightarrow> yields Q (op_catch m P h)"
  unfolding yields_def op_catch_Inr by blast

lemma local_rerank_chosen: "yields (chosen cands k) (local_rerank query cands k)"
  unfolding local_rerank_def
proof (intro yields_bind yields_ret)
  fix now
  have "set (take n (by_score (map f cands))) \<subseteq> f ` set cands" for n and f :: "scored \<Rightarrow> memory_record \<times> rat"
    by (auto simp: by_score_def dest!: in_set_takeD)
  from this [of "nat k" "\<lambda>cand. (fst cand, local_score query now cand)"]
  show "chosen cands k (take (nat k) (by_score (map (\<lambda>cand. (fst cand, local_score query now cand)) cands)))"
    by (force simp: chosen_def)
qed

lemma api_rerank_chosen: "yields (chosen cands k) (api_rerank c query cands k)"
proof -
  have "yields (chosen cands k) (case v of
          JList items \<Rightarrow> op_bind (op_raise_if (int (length items) > k) (rerank_failed ''ValueError'')) (\<lambda>_.
            op_lift (check_ranking (map fst cands) [] items))
        | _ \<Rightarrow> op_raise (rerank_failed ''ValueError''))" for v
    by (cases v) (auto simp: yields_def op_simps chosen_def dest!: check_ranking_sound)
  then show ?thesis
    unfolding api_rerank_def Let_def
    by (intro yields_bind yields_if yields_ret) (simp_all add: chosen_def)
qed

lemma rerank_chosen: "yields (\<lambda>(ranked, provider). chosen cands k ranked) (rerank c actor query cands k allow important)"
proof -
  have local: "yields (\<lambda>(ranked, provider). chosen cands k ranked) (op_bind (local_rerank query cands k) (\<lambda>rs. op_ret (rs, ''local'')))"
    by (rule yields_bind_value [OF local_rerank_chosen]) (simp add: yields_ret)
  have remote: "yields (pred_option (chosen cands k)) (op_catch (op_bind (api_rerank c query cands k) (\<lambda>rs. op_ret (Some rs))) P
      (\<lambda>_. op_bind (complete_provider_call i ''failed'') (\<lambda>_. op_ret None)))" for P i
    by (intro yields_catch yields_bind_value [OF api_rerank_chosen] yields_bind yields_ret) simp_all
  show ?thesis
    unfolding rerank_def Let_def
    by (rule yields_if [OF local], rule yields_bind, rule yields_option [OF local], rule yields_bind_value [OF remote],
        rule yields_option [OF local], intro yields_bind yields_ret, simp)
qed

section \<open>What a search shows\<close>

lemma parse_search_limit: "parse_search limit candidates raw = Inr rq \<Longrightarrow> 1 \<le> sq_top_k rq \<and> sq_top_k rq \<le> limit"
  by (auto simp: parse_search_def bounded_int_def split: json.splits if_splits)

lemma stale_scores_records: "fst ` set (stale_scores cands) = fst ` set cands"
  by (force simp: stale_scores_def)

text \<open>
  C6. A search shows only memories of the catalogue that the authenticated actor may see, in the project and
  environment of the request, at most as classified as it asks for, of the categories and kinds it asks for,
  and current at some reading of the clock during the search; and never more than the configured limit. It
  holds whatever Qdrant, the embedding provider and the reranker answer, and in the lexical fallback too.
\<close>

theorem search_confidential:
  assumes "search_memories c raw peer w = (Inr result, w')" "catalog_ok c (w_db w)"
  shows "\<exists>rq a. parse_search (mc_result_limit c) (mc_candidate_limit c) raw = Inr rq \<and> actor_for c (sq_actor rq) peer ''read'' = Inr a \<and>
    int (length (sr_results result)) \<le> mc_result_limit c \<and>
    (\<forall>(m, score)\<in>set (sr_results result). \<exists>r. m = public_record c r \<and> findable c a rq w w' r)"
proof -
  from assms(1) obtain rq a e w1 cands e' backend w2 ranked provider w3 facts where steps:
      "parse_search (mc_result_limit c) (mc_candidate_limit c) raw = Inr rq" "actor_for c (sq_actor rq) peer ''read'' = Inr a"
      "authorize_search a rq = Inr ()"
      "embed c (sq_actor rq) ''search'' (sq_query rq) (sq_allow_api rq) (sq_important rq) w = (Inr e, w1)"
      "search_candidates c a rq e w1 = (Inr (cands, e', backend), w2)"
      "rerank c (sq_actor rq) (sq_query rq) (stale_scores cands) (sq_top_k rq) (sq_allow_api rq) (sq_important rq) w2 = (Inr (ranked, provider), w3)"
      "audit c (sq_actor rq) ''search'' (if backend \<noteq> ''qdrant'' then ''degraded'' else ''success'') facts w3 = (Inr (), w')"
      "sr_results result = map (\<lambda>(r, s). (public_record c r, s)) ranked"
    unfolding search_memories_def Let_def by (clarsimp simp: op_simps simp del: res_bind_simps)
  have quiet: "quiet w w1" "quiet w2 w'"
    using quietD [OF quiet_embed steps(4)] quiet.trans [OF quietD [OF quiet_rerank steps(6)] quietD [OF quiet_audit steps(7)]] .
  then have "catalog_ok c (w_db w1)" using assms(2) by (simp add: quiet_def catalog_ok_def)
  from search_candidates_found [OF steps(5) this steps(3)] have found: "\<forall>r\<in>fst ` set cands. findable c a rq w w' r"
    using findable_mono [OF _ quiet] by blast
  have "chosen (stale_scores cands) (sq_top_k rq) ranked" using yieldsD [OF rerank_chosen steps(6)] by simp
  then have "fst ` set ranked \<subseteq> fst ` set cands" "length ranked \<le> nat (sq_top_k rq)" by (simp_all add: chosen_def stale_scores_records)
  moreover have "findable c a rq w w' r" if "(r, s) \<in> set ranked" for r s
    using that found calculation(1) by force
  ultimately show ?thesis
    using steps(1,2,8) parse_search_limit [OF steps(1)] by (intro exI [where x = rq] exI [where x = a]) auto
qed

lemma sample_admissible: "admissible sample_memory_config (sample_rq ''run it'')"
  by code_simp

lemma sample_catalog_ok: "catalog_ok sample_memory_config sample_catalog"
proof -
  have "classification_rank (ig_classification (sample_rq ''run it'')) = Inr 1" by code_simp
  from memory_row_of_ok [OF sample_admissible this] show ?thesis
    by (simp add: catalog_ok_def memories.unique_def rows_linked_def sample_catalog_def sample_memory_row_def)
      (simp add: memory_row_of_def sample_rq_def)
qed

lemma sample_hit_found:
  "case search_memories sample_memory_config sample_search 1000 sample_hit of (Inr r, w') \<Rightarrow> length (sr_results r) = 1 | _ \<Rightarrow> False"
  by code_simp

theorem search_confidential_witness:
  "\<exists>result w'. search_memories sample_memory_config sample_search 1000 sample_hit = (Inr result, w') \<and> length (sr_results result) = 1 \<and>
     (\<exists>a rq. \<forall>(m, score)\<in>set (sr_results result). \<exists>r. m = public_record sample_memory_config r \<and>
        findable sample_memory_config a rq sample_hit w' r)"
proof -
  obtain result w' where run: "search_memories sample_memory_config sample_search 1000 sample_hit = (Inr result, w')" "length (sr_results result) = 1"
    using sample_hit_found by (auto split: prod.splits sum.splits)
  have "catalog_ok sample_memory_config (w_db sample_hit)" using sample_catalog_ok by (simp add: sample_hit_def sample_memory_world_def)
  from search_confidential [OF run(1) this] run show ?thesis by blast
qed

end
