(* ===== verification/Mem_Writes.thy ===== *)
theory Mem_Writes
  imports Mem_Access
begin

text \<open>
  What a new row of the catalogue says of the request that stored it: its columns, the authorization of the
  writer, and what was checked of the row it supersedes. From this follow that neither superseding nor
  summarizing widens who can read, and that what is stored reads back as it was given.
\<close>

section \<open>New rows\<close>

definition new_rows :: "(memory_row \<Rightarrow> bool) \<Rightarrow> memory_row list \<Rightarrow> memory_world \<Rightarrow> bool" where
  "new_rows G rows w \<longleftrightarrow> (\<forall>r\<in>set (md_memories (w_db w)). mm_id r \<in> mm_id ` set rows \<or> G r)"

definition same_rows :: "memory_row list \<Rightarrow> memory_world \<Rightarrow> bool" where
  "same_rows rows w \<longleftrightarrow> md_memories (w_db w) = rows"

lemma same_rows_new: "same_rows rows w \<Longrightarrow> new_rows G rows w"
  by (simp add: same_rows_def new_rows_def)

text \<open>Indexing changes no row but for the state of its indexing.\<close>

definition marked :: "memory_row \<Rightarrow> memory_row \<Rightarrow> bool" where
  "marked r r' \<longleftrightarrow> (\<exists>s e u. r' = r\<lparr>mm_qdrant_state := s, mm_qdrant_error := e, mm_updated_at := u\<rparr>)"

definition only_marked :: "memory_db \<Rightarrow> memory_db \<Rightarrow> bool" where
  "only_marked d d' \<longleftrightarrow> list_all2 marked (md_memories d) (md_memories d')"

lemma marked_refl [simp]: "marked r r"
  by (cases r) (auto simp: marked_def)

lemma marked_row [simp]: "marked r (mark_row s e now r)"
  unfolding marked_def mark_row_def by blast

lemma marked_trans: "marked q r \<Longrightarrow> marked r s \<Longrightarrow> marked q s"
  unfolding marked_def by (elim exE) (simp, metis)

interpretation only_marked: index_evolution only_marked c for c
proof unfold_locales
  show "only_marked a d" if "only_marked a b" "only_marked b d" for a b d
    using that marked_trans unfolding only_marked_def by (blast intro: list_all2_trans)
  show "only_marked d (update_memories (\<lambda>r. mm_id r = i) (mark_row s e now) d)" for d i s e now
    by (simp add: only_marked_def update_where_def list_all2_conv_all_nth)
qed (simp_all add: only_marked_def list_all2_refl)

lemma only_marked_new_rows:
  assumes "only_marked (w_db w) (w_db w')" "new_rows G rows w" and G: "\<And>r r'. marked r r' \<Longrightarrow> G r \<Longrightarrow> G r'"
  shows "new_rows G rows w'"
  unfolding new_rows_def
proof
  fix r' assume "r' \<in> set (md_memories (w_db w'))"
  then obtain r where r: "r \<in> set (md_memories (w_db w))" "marked r r'"
    using assms(1) unfolding only_marked_def by (metis in_set_conv_nth list_all2_conv_all_nth)
  have "mm_id r' = mm_id r" using r(2) by (auto simp: marked_def)
  then show "mm_id r' \<in> mm_id ` set rows \<or> G r'" using assms(2) r G by (auto simp: new_rows_def)
qed

section \<open>What ingestion established of a new row\<close>

definition stored_as :: "memory_config \<Rightarrow> ingest_request \<Rightarrow> memory_row \<Rightarrow> bool" where
  "stored_as c rq r \<longleftrightarrow>
     mm_content r = ig_content rq \<and> mm_project r = ig_project rq \<and> mm_environment r = ig_environment rq \<and>
     mm_classification r = ig_classification rq \<and> mm_category r = ig_category rq \<and> mm_kind r = ig_kind rq \<and>
     mm_tier r = ig_tier rq \<and> mm_allowed_roles_json r = canonical_json (JList (map JStr (ig_allowed_roles rq))) \<and>
     mm_source_type r = ig_source_type rq \<and> mm_source_uri r = ig_source_uri rq \<and> mm_source_ref r = ig_source_ref rq \<and>
     mm_source_authority r = ig_source_authority rq \<and> mm_metadata_json r = canonical_json (JDict (ig_metadata rq)) \<and>
     mm_importance r = ig_importance rq \<and> mm_valid_from r = ig_valid_from rq \<and>
     (ig_valid_until rq \<noteq> None \<longrightarrow> mm_valid_until r = ig_valid_until rq) \<and>
     mm_supersedes_id r = ig_supersedes_id rq \<and> mm_reviewed r = ig_reviewed rq \<and> mm_created_by r = ig_actor rq"

text \<open>The row that is superseded was there, in the same scope, readable by the writer, and not shown to more.\<close>

definition may_supersede :: "memory_config \<Rightarrow> actor_policy \<Rightarrow> ingest_request \<Rightarrow> memory_row list \<Rightarrow> bool" where
  "may_supersede c a rq rows \<longleftrightarrow>
     (\<forall>i. ig_supersedes_id rq = Some i \<longrightarrow>
        (\<exists>old previous. select_one (\<lambda>r. mm_id r = i) rows = Some old \<and> row_to_record c old = Inr previous \<and>
           record_visible a previous = Inr True \<and> (''declassify'' \<in> set (ap_capabilities a) \<or> widens rq previous = Inr False)))"

definition keeps_scope :: "ingest_request \<Rightarrow> memory_row list \<Rightarrow> bool" where
  "keeps_scope rq rows \<longleftrightarrow>
     (\<forall>i old. ig_supersedes_id rq = Some i \<longrightarrow> select_one (\<lambda>r. mm_id r = i) rows = Some old \<longrightarrow>
        mm_project old = ig_project rq \<and> mm_environment old = ig_environment rq \<and>
        mm_superseded_by_id old = None \<and> mm_invalidated_at old = None)"

definition established :: "memory_config \<Rightarrow> actor_policy \<Rightarrow> ingest_request \<Rightarrow> memory_row list \<Rightarrow> memory_row \<Rightarrow> bool" where
  "established c a rq rows r \<longleftrightarrow> stored_as c rq r \<and> may_supersede c a rq rows \<and> keeps_scope rq rows"

lemma established_marked: "marked r r' \<Longrightarrow> established c a rq rows r \<Longrightarrow> established c a rq rows r'"
  by (auto simp: marked_def established_def stored_as_def)

lemma h_quiet:
  assumes "changes quiet m"
  shows "hoare (same_rows rows) m (\<lambda>_. same_rows rows) (new_rows G rows)"
proof (rule hoareI)
  show "same_rows rows w'" if "same_rows rows w" "m w = (Inr x, w')" for w x w'
    using quietD [OF assms that(2)] that(1) by (simp add: quiet_def same_rows_def)
  show "new_rows G rows w'" if "same_rows rows w" "m w = (Inl e, w')" for w e w'
    using quietD [OF assms that(2)] that(1) by (intro same_rows_new) (simp add: quiet_def same_rows_def)
qed

lemma h_only_marked:
  assumes "evolves only_marked m" "\<And>r r'. marked r r' \<Longrightarrow> G r \<Longrightarrow> G r'"
  shows "hoare (new_rows G rows) m (\<lambda>_. new_rows G rows) (new_rows G rows)"
proof -
  have "new_rows G rows w'" if "m w = (res, w')" "new_rows G rows w" for w res w'
    using assms(1) [unfolded evolves_def, rule_format, of w] that by (intro only_marked_new_rows [OF _ that(2) assms(2)]) simp_all
  then show ?thesis by (intro hoareI)
qed

section \<open>Ingestion\<close>

lemma h_lift: "(\<And>x. r = Inr x \<Longrightarrow> hoare P (f x) Q E) \<Longrightarrow> (\<And>w. P w \<Longrightarrow> E w) \<Longrightarrow> hoare P (op_bind (op_lift r) f) Q E"
  by (cases r) (auto simp: hoare_def op_bind_def op_lift_def)

lemma h_raise_if: "(\<not> b \<Longrightarrow> hoare P (f ()) Q E) \<Longrightarrow> (\<And>w. P w \<Longrightarrow> E w) \<Longrightarrow> hoare P (op_bind (op_raise_if b e) f) Q E"
  unfolding op_raise_if_def by (rule h_lift) (auto simp: raise_if_def split: if_splits)

lemma h_value:
  assumes "changes quiet m" "\<And>x. (\<exists>w w'. same_rows rows w \<and> m w = (Inr x, w')) \<Longrightarrow> hoare (same_rows rows) (f x) Q (new_rows G rows)"
  shows "hoare (same_rows rows) (op_bind m f) Q (new_rows G rows)"
proof (rule h_bind)
  show "hoare (same_rows rows) m (\<lambda>x w. same_rows rows w \<and> (\<exists>w w'. same_rows rows w \<and> m w = (Inr x, w'))) (new_rows G rows)"
    by (rule hoareI) (blast intro: hoare_Inr [OF h_quiet [OF assms(1)]], rule hoare_Inl [OF h_quiet [OF assms(1)]])
  show "hoare (\<lambda>w. same_rows rows w \<and> (\<exists>w w'. same_rows rows w \<and> m w = (Inr x, w'))) (f x) Q (new_rows G rows)" for x
  proof (cases "\<exists>w w'. same_rows rows w \<and> m w = (Inr x, w')")
    case True
    show ?thesis by (rule h_conseq [OF assms(2) [OF True]]) simp_all
  qed (rule h_false, simp)
qed

lemma check_supersession_sound:
  assumes "check_supersession c a rq w = (Inr (), w')" "same_rows rows w"
  shows "may_supersede c a rq rows"
proof (cases "ig_supersedes_id rq")
  case (Some i)
  with assms obtain previous w1 where run: "op_catch (get_memory c i) is_not_found
      (\<lambda>_. op_raise (not_found_error ''superseded memory does not exist'')) w = (Inr previous, w1)"
      "record_visible a previous = Inr True"
      "''declassify'' \<in> set (ap_capabilities a) \<or> widens rq previous = Inr False"
    by (auto simp: check_supersession_def op_simps)
  then have "get_memory c i w = (Inr previous, w1)" by (simp add: op_catch_Inr op_raise_Inr)
  then have "\<exists>old. select_one (\<lambda>r. mm_id r = i) rows = Some old \<and> row_to_record c old = Inr previous"
    using assms(2) by (auto simp: get_memory_def op_simps same_rows_def split: option.splits)
  with run Some show ?thesis by (auto simp: may_supersede_def)
qed (simp add: may_supersede_def)

lemma check_superseded_sound: "check_superseded rq d = Inr s \<Longrightarrow> keeps_scope rq (md_memories d)"
  by (auto simp: check_superseded_def keeps_scope_def split: option.splits)

lemma memory_row_of_stored: "stored_as c rq (memory_row_of c rq i rank vec model authority now)"
  by (simp add: stored_as_def memory_row_of_def)

lemma store_memory_new:
  assumes "may_supersede c a rq rows"
  shows "hoare (same_rows rows) (store_memory c rq vec model authority)
    (\<lambda>_. new_rows (established c a rq rows) rows) (new_rows (established c a rq rows) rows)"
proof -
  have "new_rows (established c a rq rows) rows w'" if run: "store_memory c rq vec model authority w = (res, w')" and same: "same_rows rows w" for w res w'
    using store_memory_db [OF run]
  proof (elim disjE exE conjE)
    fix i now rank superseded
    let ?row = "memory_row_of c rq i rank vec model authority now"
    assume checked: "check_superseded rq (w_db w) = Inr superseded" and db: "w_db w' = stored_db rq ?row superseded now (w_db w)"
    have row: "established c a rq rows ?row"
      using assms check_superseded_sound [OF checked] same memory_row_of_stored by (simp add: established_def same_rows_def)
    have ids: "\<exists>r\<in>set (rows @ [?row]). mm_id r' = mm_id r \<and> (r' = r \<or> mm_id r \<in> mm_id ` set rows)" if r': "r' \<in> set (md_memories (w_db w'))" for r'
    proof (cases superseded)
      case None
      then show ?thesis using r' db same by (auto simp: stored_db_def same_rows_def)
    next
      case (Some s)
      with check_superseded_Inr [OF checked] same have "s \<in> mm_id ` set rows" by (auto simp: same_rows_def)
      then show ?thesis using r' db same Some by (auto simp: stored_db_def same_rows_def update_where_def)
    qed
    show ?thesis unfolding new_rows_def using ids row by fastforce
  qed (use same in \<open>simp_all add: new_rows_def same_rows_def\<close>)
  then show ?thesis by (intro hoareI)
qed

lemma with_expiry_value:
  assumes "with_expiry c rq w = (Inr rq', w')"
  shows "\<exists>u. rq' = rq\<lparr>ig_valid_until := u\<rparr> \<and> (ig_valid_until rq \<noteq> None \<longrightarrow> u = ig_valid_until rq)"
proof (cases "ig_kind rq = ''observation'' \<and> ig_valid_until rq = None")
  case True
  then show ?thesis using assms by (auto simp: with_expiry_def op_simps)
next
  case False
  then have "rq' = rq" using assms by (auto simp: with_expiry_def op_simps)
  then show ?thesis by (cases rq) auto
qed

lemma established_expiry:
  "(ig_valid_until rq \<noteq> None \<longrightarrow> u = ig_valid_until rq) \<Longrightarrow> established c a (rq\<lparr>ig_valid_until := u\<rparr>) rows r \<Longrightarrow> established c a rq rows r"
  by (auto simp: established_def stored_as_def may_supersede_def keeps_scope_def widens_def)

lemma quiet_admission [quiet_intros]:
  "changes quiet (with_expiry c rq)" "changes quiet (check_supersession c a rq)"
  unfolding with_expiry_def check_supersession_def by (intro quiet_intros)+

lemma admit_new:
  "hoare (same_rows rows) (admit c a rq) (\<lambda>_. new_rows (established c a rq rows) rows) (new_rows (established c a rq rows) rows)"
proof -
  let ?N = "new_rows (established c a rq rows) rows"
  have rest: "evolves only_marked (op_bind (if duplicate then op_ret (r, False) else index_record c rq' r vec superseded) (\<lambda>(r, degraded).
      op_bind (audit c (ig_actor rq') ''ingest'' (outcome degraded) (facts r)) (\<lambda>_.
      op_bind (op_lift (stored_view c a r)) (\<lambda>view. op_ret (Stored duplicate degraded provider view)))))"
    for duplicate r rq' vec superseded outcome facts provider
    by (intro only_marked.ev_rules only_marked.indexes only_marked.audits)
  have after: "hoare ?N (op_bind (if duplicate then op_ret (r, False) else index_record c rq' r vec superseded) (\<lambda>(r, degraded).
      op_bind (audit c (ig_actor rq') ''ingest'' (outcome degraded) (facts r)) (\<lambda>_.
      op_bind (op_lift (stored_view c a r)) (\<lambda>view. op_ret (Stored duplicate degraded provider view))))) (\<lambda>_. ?N) ?N"
    for duplicate r rq' vec superseded outcome facts provider
    by (rule h_only_marked [OF rest established_marked])
  have store: "hoare (same_rows rows) (store_memory c rq' vec model authority) (\<lambda>_. ?N) ?N"
    if "may_supersede c a rq' rows" "\<exists>u. rq' = rq\<lparr>ig_valid_until := u\<rparr> \<and> (ig_valid_until rq \<noteq> None \<longrightarrow> u = ig_valid_until rq)" for rq' vec model authority
    by (rule h_conseq [OF store_memory_new [OF that(1)]]) (use that(2) established_expiry in \<open>auto simp: new_rows_def\<close>)
  show ?thesis
    unfolding admit_def
  proof (rule h_value [OF quiet_admission(1)], rule h_raise_if [OF h_value [OF quiet_admission(2) h_value [OF quiet_embed]]])
    fix rq' x e
    assume "\<exists>w w'. same_rows rows w \<and> with_expiry c rq w = (Inr rq', w')"
      "\<exists>w w'. same_rows rows w \<and> check_supersession c a rq' w = (Inr x, w')"
    then show "hoare (same_rows rows) (op_bind (store_memory c rq' (em_vector e) (em_model e) (authority_status c a rq')) (\<lambda>(r, duplicate, superseded).
       op_bind (if duplicate then op_ret (r, False) else index_record c rq' r (em_vector e) superseded) (\<lambda>(r, degraded).
       op_bind (audit c (ig_actor rq') ''ingest'' (if duplicate then ''deduplicated'' else if degraded then ''degraded'' else ''stored'')
                  ((ingest_facts rq')\<lparr>af_target_id := Some (record_id r),
                     af_detail := ''kind='' @ ig_kind rq' @ '';source='' @ ig_source_type rq'\<rparr>)) (\<lambda>_.
       op_bind (op_lift (stored_view c a r)) (\<lambda>view.
       op_ret (Stored duplicate degraded (em_provider e) view)))))) (\<lambda>_. ?N) ?N"
      using check_supersession_sound with_expiry_value
      by (intro h_bind [OF store]) (auto intro: after)
  qed (rule same_rows_new)
qed

text \<open>Whatever way the request ends, a new row is the request that was parsed, by a writer it was authorized for.\<close>

definition from_request :: "memory_config \<Rightarrow> json \<Rightarrow> int \<Rightarrow> memory_row list \<Rightarrow> memory_row \<Rightarrow> bool" where
  "from_request c raw peer rows r \<longleftrightarrow>
     (\<exists>now rq a. parse_ingest c now raw = Inr rq \<and> actor_for c (ig_actor rq) peer ''write'' = Inr a \<and>
        authorize_ingest a rq = Inr () \<and> established c a rq rows r)"

lemma h_new_rows_mono:
  "hoare P m (\<lambda>_. new_rows G rows) (new_rows G rows) \<Longrightarrow> (\<And>r. G r \<Longrightarrow> H r) \<Longrightarrow> hoare P m (\<lambda>_. new_rows H rows) (new_rows H rows)"
  by (erule h_conseq) (auto simp: new_rows_def)

lemma ingest_new:
  "hoare (same_rows rows) (ingest c raw peer) (\<lambda>_. new_rows (from_request c raw peer rows) rows) (new_rows (from_request c raw peer rows) rows)"
proof -
  let ?G = "from_request c raw peer rows"
  have ignored: "hoare (same_rows rows) (op_bind (audit c actor ''ingest'' ''ignored'' facts) (\<lambda>_. op_ret (Ignored kind)))
      (\<lambda>_. new_rows ?G rows) (new_rows ?G rows)" for actor facts kind
    by (rule h_value [OF quiet_audit h_ret]) (rule same_rows_new)
  have admitted: "hoare (same_rows rows) (admit c a rq) (\<lambda>_. new_rows ?G rows) (new_rows ?G rows)"
    if "parse_ingest c now raw = Inr rq" "actor_for c (ig_actor rq) peer ''write'' = Inr a" "authorize_ingest a rq = Inr u" for now rq a u
    by (rule h_new_rows_mono [OF admit_new]) (use that in \<open>auto simp: from_request_def\<close>)
  show ?thesis
    unfolding ingest_def
    by (rule h_value [OF quiet_now]; (rule h_lift h_raise_if h_if ignored same_rows_new admitted; assumption?)+)
qed

section \<open>Who sees a row\<close>

definition sees :: "memory_config \<Rightarrow> actor_policy \<Rightarrow> memory_row \<Rightarrow> bool" where
  "sees c a r \<longleftrightarrow> (case row_to_record c r of Inl _ \<Rightarrow> False | Inr rc \<Rightarrow> record_visible a rc = Inr True)"

lemma stored_record:
  assumes "well_formed c rq" "stored_as c rq r"
  shows "row_to_record c r = Inr \<lparr>rc_row = r, rc_allowed_roles = JList (map JStr (ig_allowed_roles rq)),
    rc_metadata = json_sorted (JDict (ig_metadata rq)), rc_stale = (mm_stale_at r \<noteq> None)\<rparr>"
proof -
  have "json_ok (mc_frepr c) (JList (map JStr (ig_allowed_roles rq)))" by (simp add: list_all_iff)
  moreover have "json_sorted (JList (map JStr roles)) = JList (map JStr roles)" for roles by simp
  ultimately show ?thesis
    using assms by (simp add: row_to_record_def stored_as_def well_formed_def json_roundtrip del: canonical_json.simps json_sorted.simps json_ok.simps)
qed

lemma role_names_strings [simp]: "role_names (JList (map JStr roles)) = roles"
  by (induction roles) (simp_all add: role_names_def List.map_filter_def)

text \<open>A record is seen by those who see another of the same scope, at least as classified, with no further role.\<close>

lemma visible_mono:
  assumes "record_visible b new = Inr True"
    and "mm_project (rc_row old) = mm_project (rc_row new)" "mm_environment (rc_row old) = mm_environment (rc_row new)"
    and "classification_rank (mm_classification (rc_row old)) = Inr k" "classification_rank (mm_classification (rc_row new)) = Inr n" "k \<le> n"
    and "set (role_names (rc_allowed_roles new)) \<subseteq> set (role_names (rc_allowed_roles old))"
  shows "record_visible b old = Inr True"
proof -
  from assms(1,5) obtain m where m: "classification_rank (ap_max_classification b) = Inr m" "n \<le> m"
      and scope: "permits_scope b (mm_project (rc_row new)) (mm_environment (rc_row new)) (mm_classification (rc_row new)) = Inr True"
      and roles: "set (role_names (rc_allowed_roles new)) \<inter> set (ap_roles b) \<noteq> {}"
    by (auto simp: record_visible_def Let_def split: if_splits)
  from scope m assms(2-6) have "permits_scope b (mm_project (rc_row old)) (mm_environment (rc_row old)) (mm_classification (rc_row old)) = Inr True"
    by (auto simp: permits_scope_def split: if_splits)
  moreover have "set (role_names (rc_allowed_roles old)) \<inter> set (ap_roles b) \<noteq> {}" using roles assms(7) by blast
  ultimately show ?thesis using assms(4,6) m by (simp add: record_visible_def)
qed

end
