(* ===== verification/Mem_Visibility.thy ===== *)
theory Mem_Visibility
  imports Mem_Writes
begin

text \<open>
  The audience of a memory: a memory that supersedes another, or that summarizes others, is seen by nobody
  who could not see those; the first may be lifted by the capability \<^verbatim>\<open>declassify\<close>.
\<close>

section \<open>Supersession\<close>

lemma new_row_request:
  assumes "ingest c raw peer w = (res, w')" "r \<in> set (md_memories (w_db w'))" "mm_id r \<notin> mm_id ` set (md_memories (w_db w))"
  shows "from_request c raw peer (md_memories (w_db w)) r"
proof -
  have same: "same_rows (md_memories (w_db w)) w" by (simp add: same_rows_def)
  have "new_rows (from_request c raw peer (md_memories (w_db w))) (md_memories (w_db w)) w'"
    using assms(1) by (cases res) (auto intro: hoare_Inl [OF ingest_new same] hoare_Inr [OF ingest_new same])
  then show ?thesis using assms(2,3) by (auto simp: new_rows_def)
qed

lemma select_member: "select_one P xs = Some x \<Longrightarrow> x \<in> set xs \<and> P x"
  unfolding select_one_def by (rule find_member)

lemma superseding_row:
  assumes "established c a rq rows r" "well_formed c rq" "mm_supersedes_id r = Some i" "\<forall>q\<in>set rows. memory_ok c q"
  shows "\<exists>old\<in>set rows. mm_id old = i \<and> sees c a old \<and>
    (''declassify'' \<in> set (ap_capabilities a) \<or> (\<forall>b. sees c b r \<longrightarrow> sees c b old))"
proof -
  from assms(1,3) have i: "ig_supersedes_id rq = Some i" and stored: "stored_as c rq r"
    by (auto simp: established_def stored_as_def)
  with assms(1) obtain old previous where old: "select_one (\<lambda>r. mm_id r = i) rows = Some old" "row_to_record c old = Inr previous"
      "record_visible a previous = Inr True" "''declassify'' \<in> set (ap_capabilities a) \<or> widens rq previous = Inr False"
    by (auto simp: established_def may_supersede_def)
  from select_member [OF old(1)] have member: "old \<in> set rows" "mm_id old = i" by auto
  have scope: "mm_project old = ig_project rq" "mm_environment old = ig_environment rq"
    using assms(1) i old(1) by (auto simp: established_def keeps_scope_def)
  have previous: "rc_row previous = old" using old(2) by (rule row_to_record_row)
  have "sees c b old" if "widens rq previous = Inr False" "sees c b r" for b
  proof -
    from that(1) previous obtain n k where ranks: "classification_rank (ig_classification rq) = Inr n"
        "classification_rank (mm_classification old) = Inr k" "k \<le> n" "set (ig_allowed_roles rq) \<subseteq> set (role_names (rc_allowed_roles previous))"
      by (auto simp: widens_def not_less)
    from that(2) stored_record [OF assms(2) stored] have "record_visible b \<lparr>rc_row = r, rc_allowed_roles = JList (map JStr (ig_allowed_roles rq)),
        rc_metadata = json_sorted (JDict (ig_metadata rq)), rc_stale = (mm_stale_at r \<noteq> None)\<rparr> = Inr True"
      by (simp add: sees_def)
    from visible_mono [OF this, of previous k n] show ?thesis
      using ranks scope stored old(2) previous by (simp add: sees_def stored_as_def)
  qed
  then show ?thesis using member old by (auto simp: sees_def intro!: bexI [of _ old])
qed

text \<open>The name a request gives as its actor is the one a stored row keeps as its writer.\<close>

lemma parse_ingest_actor:
  assumes "parse_ingest c now raw = Inr rq"
  shows "\<exists>d s. raw = JDict d \<and> map_of d ''actor'' = Some (JStr s) \<and> ig_actor rq = py_strip s"
proof (cases raw)
  case (JDict d)
  with assms have "required_string d ''actor'' 128 = Inr (ig_actor rq)" by (auto simp: parse_ingest_def)
  then show ?thesis
    using JDict by (auto simp: required_string_def field_or_def Let_def split: json.splits option.splits if_splits)
qed (use assms in \<open>auto simp: parse_ingest_def\<close>)

text \<open>
  C7. A memory that supersedes another is readable by nobody who could not read the one it replaces, unless
  its writer holds the capability to declassify; and its writer could read the old one. The writer is the
  actor the request names, which the new row keeps as its creator and whose account the peer was
  authenticated for. This is about every row that one ingestion adds, whether the request then succeeds, is
  degraded or fails.
\<close>

theorem supersession_never_widens:
  assumes "ingest c raw peer w = (res, w')" "json_ok (mc_frepr c) raw" "catalog_ok c (w_db w)"
    and "r \<in> set (md_memories (w_db w'))" "mm_id r \<notin> mm_id ` set (md_memories (w_db w))" "mm_supersedes_id r = Some i"
  shows "\<exists>d s a old. raw = JDict d \<and> map_of d ''actor'' = Some (JStr s) \<and> mm_created_by r = py_strip s \<and>
    actor_for c (mm_created_by r) peer ''write'' = Inr a \<and> old \<in> set (md_memories (w_db w)) \<and> mm_id old = i \<and> sees c a old \<and>
    (''declassify'' \<in> set (ap_capabilities a) \<or> (\<forall>b. sees c b r \<longrightarrow> sees c b old))"
proof -
  from new_row_request [OF assms(1,4,5)] obtain now rq a where rq: "parse_ingest c now raw = Inr rq"
      "actor_for c (ig_actor rq) peer ''write'' = Inr a" "established c a rq (md_memories (w_db w)) r"
    by (auto simp: from_request_def)
  have writer: "mm_created_by r = ig_actor rq" using rq(3) by (auto simp: established_def stored_as_def)
  have ok: "\<forall>q\<in>set (md_memories (w_db w)). memory_ok c q" using assms(3) by (simp add: catalog_ok_def)
  from superseding_row [OF rq(3) parse_ingest_ok [OF assms(2) rq(1)] assms(6) ok] parse_ingest_actor [OF rq(1)] rq(2)
  show ?thesis unfolding writer by blast
qed

text \<open>The second memory of the sample supersedes the first.\<close>

definition sample_superseding :: json where
  "sample_superseding = JDict (sample_ingest ''run it again'' ''internal'' (JStr (sample_memory_id 1)))"

definition sample_superseded :: memory_world where
  "sample_superseded = snd (ingest sample_memory_config sample_superseding 1000 (sample_memory_world sample_catalog))"

lemma sample_superseded_rows:
  "map (\<lambda>r. (mm_id r, mm_supersedes_id r)) (md_memories (w_db sample_superseded)) = [(sample_memory_id 1, None), (sample_memory_id 2, Some (sample_memory_id 1))]"
  by code_simp

lemma sample_superseding_ok: "json_ok (mc_frepr sample_memory_config) sample_superseding"
  by code_simp

lemma sample_new_row:
  "\<exists>r\<in>set (md_memories (w_db sample_superseded)). mm_id r = sample_memory_id 2 \<and> mm_supersedes_id r = Some (sample_memory_id 1) \<and>
     mm_id r \<notin> mm_id ` set (md_memories (w_db (sample_memory_world sample_catalog)))"
proof -
  have "(sample_memory_id 2, Some (sample_memory_id 1)) \<in> (\<lambda>r. (mm_id r, mm_supersedes_id r)) ` set (md_memories (w_db sample_superseded))"
    using arg_cong [OF sample_superseded_rows, of set] by simp
  moreover have "sample_memory_id 2 \<noteq> sample_memory_id 1" by code_simp
  ultimately show ?thesis
    by (auto simp: sample_memory_world_def sample_catalog_def sample_memory_row_def memory_row_of_def)
qed

lemma sample_world_ok: "catalog_ok sample_memory_config (w_db (sample_memory_world sample_catalog))"
  using sample_catalog_ok by (simp add: sample_memory_world_def)

text \<open>The writer of the sample may not declassify.\<close>

lemma sample_writer: "case actor_for sample_memory_config ''ops'' 1000 ''write'' of Inr a \<Rightarrow> ''declassify'' \<notin> set (ap_capabilities a) | Inl e \<Rightarrow> False"
  by code_simp

theorem supersession_never_widens_witness:
  "\<exists>old r. r \<in> set (md_memories (w_db sample_superseded)) \<and> mm_supersedes_id r = Some (sample_memory_id 1) \<and> mm_created_by r = ''ops'' \<and>
     old \<in> set (md_memories sample_catalog) \<and> mm_id old = sample_memory_id 1 \<and>
     (\<forall>b. sees sample_memory_config b r \<longrightarrow> sees sample_memory_config b old)"
proof -
  have run: "ingest sample_memory_config sample_superseding 1000 (sample_memory_world sample_catalog) =
      (fst (ingest sample_memory_config sample_superseding 1000 (sample_memory_world sample_catalog)), sample_superseded)"
    by (simp add: sample_superseded_def)
  from sample_new_row obtain r where r: "r \<in> set (md_memories (w_db sample_superseded))" "mm_supersedes_id r = Some (sample_memory_id 1)"
      "mm_id r \<notin> mm_id ` set (md_memories (w_db (sample_memory_world sample_catalog)))"
    by blast
  from supersession_never_widens [OF run sample_superseding_ok sample_world_ok r(1,3,2)] obtain d s a old where
      raw: "sample_superseding = JDict d" "map_of d ''actor'' = Some (JStr s)" "mm_created_by r = py_strip s"
      "actor_for sample_memory_config (mm_created_by r) 1000 ''write'' = Inr a"
    and old: "old \<in> set (md_memories (w_db (sample_memory_world sample_catalog)))" "mm_id old = sample_memory_id 1"
      "''declassify'' \<in> set (ap_capabilities a) \<or> (\<forall>b. sees sample_memory_config b r \<longrightarrow> sees sample_memory_config b old)"
    by blast
  have "s = ''ops''" using raw(1,2) by (auto simp: sample_superseding_def sample_ingest_def)
  moreover have "py_strip ''ops'' = ''ops''" by code_simp
  ultimately have writer: "mm_created_by r = ''ops''" using raw(3) by simp
  then have "''declassify'' \<notin> set (ap_capabilities a)" using sample_writer raw(4) by simp
  then show ?thesis using old r writer by (auto simp: sample_memory_world_def)
qed

section \<open>What is stored reads back\<close>

lemma memory_kept_stored: "memory_kept r r' \<Longrightarrow> (stored_as c rq r \<longrightarrow> stored_as c rq r') \<and> mm_id r' = mm_id r"
proof -
  assume "memory_kept r r'"
  then obtain s e u t i v b where "r' = r\<lparr>mm_qdrant_state := s, mm_qdrant_error := e, mm_updated_at := u,
      mm_stale_at := t, mm_invalidated_at := i, mm_invalid_reason := v, mm_superseded_by_id := b\<rparr>"
    unfolding memory_kept_def by blast
  then show ?thesis by (simp add: stored_as_def)
qed

lemma history_row:
  assumes "history_of d d'" "r \<in> set (md_memories d)"
  shows "\<exists>r'\<in>set (md_memories d'). memory_kept r r' \<and> mm_id r' = mm_id r"
proof -
  from assms obtain r' where r': "r' \<in> set (md_memories d')" "memory_kept r r'"
    unfolding history_of_def grows_def by (metis in_set_conv_nth in_set_takeD list_all2_conv_all_nth nth_mem)
  with memory_kept_stored show ?thesis by blast
qed

lemma read_memory_row:
  assumes "read_memory c name peer t w = (Inr m, w')" "uuid_canon t = Some i"
  shows "\<exists>r rc. select_one (\<lambda>r. mm_id r = i) (md_memories (w_db w)) = Some r \<and> row_to_record c r = Inr rc \<and> m = public_record c rc"
  using assms by (auto simp: read_memory_def get_memory_def op_simps split: option.splits)

text \<open>
  C11. What was stored reads back: whatever requests came between, a reader who asks for a memory by any
  spelling of its id gets the content, scope, provenance, roles, importance and metadata of the request that
  stored it; the metadata with its keys sorted, as the column holds canonical JSON.
\<close>

theorem stored_memory_reads_back:
  assumes "ingest c raw peer w = (res, w')" "json_ok (mc_frepr c) raw"
    and "r \<in> set (md_memories (w_db w'))" "mm_id r \<notin> mm_id ` set (md_memories (w_db w))"
    and "history_of (w_db w') (w_db v)" "memories.unique (md_memories (w_db v))"
    and "uuid_canon t = Some (mm_id r)" "read_memory c reader reader_peer t v = (Inr m, v')"
  shows "\<exists>now rq. parse_ingest c now raw = Inr rq \<and> pm_id m = mm_id r \<and> pm_content m = ig_content rq \<and> pm_project m = ig_project rq \<and>
    pm_environment m = ig_environment rq \<and> pm_classification m = ig_classification rq \<and> pm_category m = ig_category rq \<and>
    pm_kind m = ig_kind rq \<and> pm_tier m = ig_tier rq \<and> pm_allowed_roles m = JList (map JStr (ig_allowed_roles rq)) \<and>
    pm_source_type m = ig_source_type rq \<and> pm_source_uri m = ig_source_uri rq \<and> pm_source_ref m = ig_source_ref rq \<and>
    pm_source_authority m = ig_source_authority rq \<and> pm_importance m = ig_importance rq \<and> pm_reviewed m = ig_reviewed rq \<and>
    pm_created_by m = ig_actor rq \<and> pm_metadata m = json_sorted (JDict (ig_metadata rq))"
proof -
  from new_row_request [OF assms(1,3,4)] obtain now rq where rq: "parse_ingest c now raw = Inr rq" "stored_as c rq r"
    by (auto simp: from_request_def established_def)
  from history_row [OF assms(5,3)] obtain r' where r': "r' \<in> set (md_memories (w_db v))" "memory_kept r r'" "mm_id r' = mm_id r" by blast
  from read_memory_row [OF assms(8,7)] obtain q rc where q: "select_one (\<lambda>q. mm_id q = mm_id r) (md_memories (w_db v)) = Some q"
      "row_to_record c q = Inr rc" "m = public_record c rc"
    by blast
  have "q = r'" using select_member [OF q(1)] r' assms(6) by (auto dest: memories.unique_mem_eq)
  then have stored: "stored_as c rq q" using memory_kept_stored [OF r'(2)] rq(2) by simp
  have "rc = \<lparr>rc_row = q, rc_allowed_roles = JList (map JStr (ig_allowed_roles rq)), rc_metadata = json_sorted (JDict (ig_metadata rq)),
      rc_stale = (mm_stale_at q \<noteq> None)\<rparr>"
    using q(2) stored_record [OF parse_ingest_ok [OF assms(2) rq(1)] stored] by simp
  then have "pm_id m = mm_id r \<and> pm_content m = ig_content rq \<and> pm_project m = ig_project rq \<and>
    pm_environment m = ig_environment rq \<and> pm_classification m = ig_classification rq \<and> pm_category m = ig_category rq \<and>
    pm_kind m = ig_kind rq \<and> pm_tier m = ig_tier rq \<and> pm_allowed_roles m = JList (map JStr (ig_allowed_roles rq)) \<and>
    pm_source_type m = ig_source_type rq \<and> pm_source_uri m = ig_source_uri rq \<and> pm_source_ref m = ig_source_ref rq \<and>
    pm_source_authority m = ig_source_authority rq \<and> pm_importance m = ig_importance rq \<and> pm_reviewed m = ig_reviewed rq \<and>
    pm_created_by m = ig_actor rq \<and> pm_metadata m = json_sorted (JDict (ig_metadata rq))"
    using q(3) stored \<open>q = r'\<close> r'(3) by (simp add: public_record_def stored_as_def Let_def)
  with rq(1) show ?thesis by blast
qed

lemma sample_read:
  "case read_memory sample_memory_config ''ops'' 1000 (sample_memory_id 2) sample_superseded of (Inr m, v) \<Rightarrow> pm_content m = ''run it again'' | _ \<Rightarrow> False"
  by code_simp

theorem stored_memory_reads_back_witness:
  "\<exists>m v now rq. read_memory sample_memory_config ''ops'' 1000 (sample_memory_id 2) sample_superseded = (Inr m, v) \<and>
     parse_ingest sample_memory_config now sample_superseding = Inr rq \<and> pm_content m = ''run it again'' \<and> pm_content m = ig_content rq \<and>
     pm_metadata m = json_sorted (JDict (ig_metadata rq))"
proof -
  obtain m v where read: "read_memory sample_memory_config ''ops'' 1000 (sample_memory_id 2) sample_superseded = (Inr m, v)" "pm_content m = ''run it again''"
    using sample_read by (auto split: prod.splits sum.splits)
  have run: "ingest sample_memory_config sample_superseding 1000 (sample_memory_world sample_catalog) =
      (fst (ingest sample_memory_config sample_superseding 1000 (sample_memory_world sample_catalog)), sample_superseded)"
    by (simp add: sample_superseded_def)
  from sample_new_row obtain r where r: "r \<in> set (md_memories (w_db sample_superseded))" "mm_id r = sample_memory_id 2"
      "mm_id r \<notin> mm_id ` set (md_memories (w_db (sample_memory_world sample_catalog)))"
    by blast
  have "map mm_id (md_memories (w_db sample_superseded)) = [sample_memory_id 1, sample_memory_id 2]"
    using arg_cong [OF sample_superseded_rows, of "map fst"] by (simp add: comp_def)
  moreover have "distinct [sample_memory_id 1, sample_memory_id 2]" by code_simp
  ultimately have unique: "memories.unique (md_memories (w_db sample_superseded))" by (simp only: memories.unique_def)
  have "uuid_canon (sample_memory_id 2) = Some (mm_id r)" unfolding r(2) by code_simp
  from stored_memory_reads_back [OF run sample_superseding_ok r(1,3) catalog_history_refl unique this read(1)] read show ?thesis by blast
qed

section \<open>Summaries\<close>

lemma classification_stripped: "classification_rank s = Inr k \<Longrightarrow> py_strip s = s"
  by (auto simp: classification_rank_def CLASSIFICATIONS_def py_strip_def is_space_def in_ranges_def split: if_splits option.splits)

lemma parse_roles_strings: "parse_roles (JList (map JStr roles)) = Inr roles' \<Longrightarrow> roles' = roles"
proof -
  have "json_strings P (map JStr roles) = Some ss \<Longrightarrow> ss = roles" for P ss
    by (induction roles arbitrary: ss) (auto simp: json_strings_def split: if_splits option.splits)
  then show "parse_roles (JList (map JStr roles)) = Inr roles' \<Longrightarrow> roles' = roles"
    by (auto simp: parse_roles_def split: option.splits if_splits)
qed

lemma summary_request:
  assumes "parse_ingest c now (JDict (summary_body actor content member classification category roles digest metadata importance)) = Inr rq"
    and "memory_ok c (rc_row member)" "classification_rank classification = Inr k"
  shows "ig_project rq = mm_project (rc_row member) \<and> ig_environment rq = mm_environment (rc_row member) \<and>
    ig_classification rq = classification \<and> ig_allowed_roles rq = roles \<and> ig_supersedes_id rq = None"
  using assms classification_stripped [OF assms(3)]
  by (auto simp: parse_ingest_def summary_body_def field_or_def required_string_def parse_supersedes_def memory_ok_def Let_def
      dest!: parse_roles_strings split: if_splits)

lemma highest_rank:
  "highest best k rs = Inr m \<Longrightarrow> classification_rank (mm_classification (rc_row best)) = Inr k \<Longrightarrow>
     \<exists>n. classification_rank (mm_classification (rc_row m)) = Inr n \<and> k \<le> n \<and>
       (\<forall>r\<in>set rs. \<exists>j. classification_rank (mm_classification (rc_row r)) = Inr j \<and> j \<le> n)"
proof (induction rs arbitrary: best k)
  case (Cons r rs)
  from Cons.prems(1) obtain n where n: "classification_rank (mm_classification (rc_row r)) = Inr n"
      "(if k < n then highest r n rs else highest best k rs) = Inr m"
    by auto
  show ?case
  proof (cases "k < n")
    case True
    with Cons.IH [of r n] n show ?thesis by auto
  next
    case False
    with Cons.IH [of best k] n Cons.prems(2) show ?thesis by auto
  qed
qed simp

lemma max_classification_rank:
  assumes "max_classification rs = Inr classification"
  shows "\<exists>n. classification_rank classification = Inr n \<and>
    (\<forall>r\<in>set rs. \<exists>j. classification_rank (mm_classification (rc_row r)) = Inr j \<and> j \<le> n)"
  using assms by (cases rs) (auto simp: max_classification_def dest!: highest_rank)

text \<open>The memory a fresh ingestion returns is a new row.\<close>

lemma store_memory_fresh:
  assumes "store_memory c rq vec model authority w = (Inr (r, False, superseded), w')"
  shows "record_id r \<notin> mm_id ` set (md_memories (w_db w)) \<and> record_id r \<in> mm_id ` set (md_memories (w_db w'))"
  using assms
  by (auto simp: store_memory_def utc_now_def op_simps store_row_Inr record_id_def memory_row_of_def stored_db_def update_where_def image_image
      dest!: row_to_record_row split: option.splits)

lemma index_record_id: "yields (\<lambda>(r', degraded). record_id r' = record_id r) (index_record c rq r vec superseded)"
  unfolding index_record_def
  by (intro yields_catch yields_bind yields_if yields_ret yields_raise) (simp_all add: record_id_def with_state_def)

lemma stored_view_id: "stored_view c a r = Inr view \<Longrightarrow> view_id view = record_id r"
  by (auto simp: stored_view_def view_id_def public_record_def limited_record_def record_id_def Let_def split: if_splits)

lemma only_marked_ids: "only_marked d d' \<Longrightarrow> mm_id ` set (md_memories d') = mm_id ` set (md_memories d)"
proof -
  assume "only_marked d d'"
  then have "list_all2 marked (md_memories d) (md_memories d')" by (simp add: only_marked_def)
  then have "map mm_id (md_memories d) = map mm_id (md_memories d')"
    by (induction rule: list_all2_induct) (auto simp: marked_def)
  then show ?thesis by (metis list.set_map)
qed

lemma evolvesD: "evolves R m \<Longrightarrow> m w = (res, w') \<Longrightarrow> R (w_db w) (w_db w')"
  by (metis evolves_def snd_conv)

lemma admit_fresh:
  assumes "admit c a rq w = (Inr (Stored False degraded provider view), w')"
  shows "view_id view \<notin> mm_id ` set (md_memories (w_db w)) \<and> view_id view \<in> mm_id ` set (md_memories (w_db w'))"
proof -
  from assms obtain rq' w1 w2 e w3 r superseded w4 degraded r' w5 w6 where steps:
      "with_expiry c rq w = (Inr rq', w1)" "check_supersession c a rq' w1 = (Inr (), w2)"
      "embed c (ig_actor rq') ''ingest'' (ig_content rq') False False w2 = (Inr e, w3)"
      "store_memory c rq' (em_vector e) (em_model e) (authority_status c a rq') w3 = (Inr (r, False, superseded), w4)"
      "index_record c rq' r (em_vector e) superseded w4 = (Inr (r', degraded), w5)"
      "audit c (ig_actor rq') ''ingest'' (if False then ''deduplicated'' else if degraded then ''degraded'' else ''stored'')
         ((ingest_facts rq')\<lparr>af_target_id := Some (record_id r'), af_detail := ''kind='' @ ig_kind rq' @ '';source='' @ ig_source_type rq'\<rparr>) w5 = (Inr (), w')"
      "stored_view c a r' = Inr view"
    unfolding admit_def by (clarsimp simp: op_simps simp del: res_bind_simps)
  have "md_memories (w_db w3) = md_memories (w_db w)"
    using quietD [OF quiet_admission(1) steps(1)] quietD [OF quiet_admission(2) steps(2)] quietD [OF quiet_embed steps(3)]
    by (simp add: quiet_def)
  moreover have "only_marked (w_db w4) (w_db w')"
    using evolvesD [OF only_marked.indexes steps(5)] evolvesD [OF only_marked.audits steps(6)] by (rule only_marked.trans)
  moreover have "view_id view = record_id r"
    using stored_view_id [OF steps(7)] yieldsD [OF index_record_id steps(5)] by simp
  ultimately show ?thesis using store_memory_fresh [OF steps(4)] by (simp add: only_marked_ids)
qed

lemma ingest_fresh:
  assumes "ingest c raw peer w = (Inr (Stored False degraded provider view), w')"
  shows "view_id view \<notin> mm_id ` set (md_memories (w_db w)) \<and> view_id view \<in> mm_id ` set (md_memories (w_db w'))"
proof -
  from assms obtain now w1 a rq where steps: "utc_now w = (Inr now, w1)" "admit c a rq w1 = (Inr (Stored False degraded provider view), w')"
    by (auto simp: ingest_def op_simps split: if_splits)
  have "md_memories (w_db w1) = md_memories (w_db w)" using quietD [OF quiet_now steps(1)] by (simp add: quiet_def)
  then show ?thesis using admit_fresh [OF steps(2)] by simp
qed

lemma get_many_complete:
  assumes "get_many c ids w = (Inr rs, w')" "length rs = length ids" "i \<in> set ids"
  shows "\<exists>r\<in>set rs. record_id r = i \<and> in_catalog c w r"
proof -
  from assms(1) obtain all where rs: "rs = by_ids ids all" by (auto simp: get_many_def op_simps)
  have total: "length (List.map_filter f xs) = length xs \<Longrightarrow> x \<in> set xs \<Longrightarrow> \<exists>y. f x = Some y \<and> y \<in> set (List.map_filter f xs)"
    for f :: "string \<Rightarrow> memory_record option" and xs x
  proof (induction xs)
    case (Cons z xs)
    have "length (List.map_filter f ys) \<le> length ys" for ys by (induction ys) (auto split: option.split)
    from this [of xs] Cons show ?case by (auto split: option.splits)
  qed simp
  from total [OF assms(2) [unfolded rs by_ids_def] assms(3)] rs
  obtain r where "find (\<lambda>r. record_id r = i) all = Some r" "r \<in> set rs" by (auto simp: by_ids_def)
  then show ?thesis using get_many_in_catalog [OF assms(1)] by (auto dest: find_member)
qed

lemma common_roles_shared: "r \<in> set rs \<Longrightarrow> set (common_roles a rs) \<subseteq> set (role_names (rc_allowed_roles r))"
  by (auto simp: common_roles_def list_all_iff Let_def)

text \<open>The members are of one scope, at most as classified as the summary, and allow every role of it.\<close>

lemma summary_row:
  assumes "from_request c (JDict (summary_body actor content (hd rs) classification category (sort (common_roles a rs)) digest metadata importance)) peer rows r"
    and "json_ok (mc_frepr c) metadata" "json_ok (mc_frepr c) importance"
    and "max_classification rs = Inr classification" "m \<in> set rs" "\<forall>q\<in>set rs. memory_ok c (rc_row q) \<and> row_to_record c (rc_row q) = Inr q"
    and "mm_project (rc_row m) = mm_project (rc_row (hd rs))" "mm_environment (rc_row m) = mm_environment (rc_row (hd rs))" "sees c b r"
  shows "sees c b (rc_row m)"
proof -
  from max_classification_rank [OF assms(4)] assms(5) obtain n k where ranks: "classification_rank classification = Inr n"
      "classification_rank (mm_classification (rc_row m)) = Inr k" "k \<le> n"
    by blast
  from assms(1) obtain now rq a' where parsed: "parse_ingest c now (JDict (summary_body actor content (hd rs) classification category
      (sort (common_roles a rs)) digest metadata importance)) = Inr rq" "stored_as c rq r"
    by (auto simp: from_request_def established_def)
  have first: "memory_ok c (rc_row (hd rs))" using assms(5,6) by (cases rs) auto
  note rq = summary_request [OF parsed(1) first ranks(1)]
  have ok: "well_formed c rq" using parse_ingest_ok [OF catalog.summary_body_ok [OF assms(2,3)] parsed(1)] by simp
  have "record_visible b \<lparr>rc_row = r, rc_allowed_roles = JList (map JStr (ig_allowed_roles rq)),
      rc_metadata = json_sorted (JDict (ig_metadata rq)), rc_stale = (mm_stale_at r \<noteq> None)\<rparr> = Inr True"
    using assms(9) stored_record [OF ok parsed(2)] by (simp add: sees_def)
  from visible_mono [OF this, of m k n] show ?thesis
    using rq parsed(2) ranks assms(5-8) common_roles_shared [OF assms(5)] by (simp add: sees_def stored_as_def)
qed

lemma add_members_includes: "set ms \<subseteq> set (md_summary_members (add_members ms d))"
proof -
  have "set ms \<union> set ls \<subseteq> set (foldl (\<lambda>ls m. if m \<in> set ls then ls else ls @ [m]) ls ms)" for ls :: "(string \<times> string) list"
  proof (induction ms arbitrary: ls)
    case (Cons m ms)
    from Cons.IH [of ls] Cons.IH [of "ls @ [m]"] show ?case by auto
  qed simp
  then show ?thesis by (simp add: add_members_def)
qed

lemma stored_case:
  "(case v of Ignored s \<Rightarrow> op_raise e | Stored x y p u \<Rightarrow> f x y p u) w = (Inr z, w') \<longleftrightarrow>
     (\<exists>x y p u. v = Stored x y p u \<and> f x y p u w = (Inr z, w'))"
  by (cases v) (auto simp: op_simps)

text \<open>
  C8. A summary is readable by nobody who could not read every one of the memories it summarizes, and it is
  linked to each of them: for a summary that was stored anew, under the id the response names.
\<close>

theorem summary_never_widens:
  assumes run: "summarize c (JDict d) peer w = (Inr (Stored False degraded provider view), w')"
    and ok: "json_ok (mc_frepr c) (JDict d)" "json_ok (mc_frepr c) (JFloat ''0.7'')" "catalog_ok c (w_db w)"
  shows "\<exists>xs ids r. field_or d ''record_ids'' JNull = JList xs \<and> those (map uuid_of_json xs) = Some ids \<and> ids \<noteq> [] \<and>
    r \<in> set (md_memories (w_db w')) \<and> mm_id r = view_id view \<and> mm_id r \<notin> mm_id ` set (md_memories (w_db w)) \<and>
    (\<forall>i\<in>set ids. (mm_id r, i) \<in> set (md_summary_members (w_db w')) \<and>
       (\<exists>m\<in>set (md_memories (w_db w)). mm_id m = i \<and> (\<forall>b. sees c b r \<longrightarrow> sees c b m)))"
proof -
  let ?body = "\<lambda>actor content rs classification a ids. JDict (summary_body actor content (hd rs) classification
     (py_str (field_or d ''category'' (JStr ''mission-summary''))) (sort (common_roles a rs)) (mc_sha256 c (utf8_encode (join [chr_nl] ids)))
     (field_or d ''metadata'' (JDict [])) (field_or d ''importance'' (JFloat ''0.7'')))"
  from run obtain a xs ids rs classification content w0 w1 where steps:
      "(case field_or d ''record_ids'' JNull of
          JList xs \<Rightarrow> if 1 \<le> length xs \<and> length xs \<le> 100 then Inr xs
                      else Inl (validation_error ''record_ids must contain between 1 and 100 IDs'')
        | _ \<Rightarrow> Inl (validation_error ''record_ids must contain between 1 and 100 IDs'')) = Inr xs"
      "those (map uuid_of_json xs) = Some ids" "get_many c ids w = (Inr rs, w0)" "length rs = length ids"
      "\<forall>r\<in>set rs. mm_project (rc_row r) = mm_project (rc_row (hd rs)) \<and> mm_environment (rc_row r) = mm_environment (rc_row (hd rs))"
      "max_classification rs = Inr classification"
      "ingest c (?body (field_text d ''actor'') content rs classification a ids) peer w0 = (Inr (Stored False degraded provider view), w1)"
      "link_summary (view_id view) ids w1 = (Inr (), w')"
    unfolding summarize_def json.case Let_def
    by (clarsimp simp: op_simps list_ex_iff stored_case simp del: res_bind_simps split: option.splits)
  have w0: "w0 = w" using get_many_in_catalog [OF steps(3)] by simp
  note steps = steps [unfolded w0]
  have xs: "field_or d ''record_ids'' JNull = JList xs" "xs \<noteq> []" using steps(1) by (auto split: json.splits if_splits)
  then have ids: "ids \<noteq> []" using steps(2) by (cases xs) (auto split: option.splits)
  have fields: "json_ok (mc_frepr c) (field_or d ''metadata'' (JDict []))" "json_ok (mc_frepr c) (field_or d ''importance'' (JFloat ''0.7''))"
    using ok by (auto intro!: json_ok_field simp del: json_ok.simps) auto
  have rows: "in_catalog c w q" if "q \<in> set rs" for q using get_many_in_catalog [OF steps(3)] that by blast
  have oks: "\<forall>q\<in>set rs. memory_ok c (rc_row q) \<and> row_to_record c (rc_row q) = Inr q"
    using rows ok(3) by (auto simp: in_catalog_def catalog_ok_def)
  from ingest_fresh [OF steps(7)] obtain r where r: "r \<in> set (md_memories (w_db w1))" "mm_id r = view_id view" "mm_id r \<notin> mm_id ` set (md_memories (w_db w))"
    by auto
  note new = new_row_request [OF steps(7) r(1,3)]
  have w': "w_db w' = add_members (map (Pair (view_id view)) ids) (w_db w1)" using steps(8) by (simp add: link_summary_def op_simps)
  have "\<exists>m\<in>set (md_memories (w_db w)). mm_id m = i \<and> (\<forall>b. sees c b r \<longrightarrow> sees c b m)" if i: "i \<in> set ids" for i
  proof -
    from get_many_complete [OF steps(3,4) i] obtain q where q: "q \<in> set rs" "record_id q = i" "in_catalog c w q" by blast
    have "sees c b (rc_row q)" if "sees c b r" for b
      using summary_row [OF new fields steps(6) q(1) oks _ _ that] steps(5) q(1) by blast
    then show ?thesis using q by (auto simp: in_catalog_def record_id_def)
  qed
  moreover have "(mm_id r, i) \<in> set (md_summary_members (w_db w'))" if "i \<in> set ids" for i
    using that r(2) add_members_includes [of "map (Pair (view_id view)) ids" "w_db w1"] w' by auto
  moreover have "r \<in> set (md_memories (w_db w'))" using r(1) w' by simp
  ultimately show ?thesis using xs(1) steps(2) ids r(2,3) by blast
qed

lemma sample_summarized:
  "case summarize sample_memory_config (JDict sample_summary) 1000 (sample_memory_world sample_catalog) of
     (Inr (Stored duplicate d p view), w') \<Rightarrow> \<not> duplicate | _ \<Rightarrow> False"
  by code_simp

lemma sample_summary_ok: "json_ok (mc_frepr sample_memory_config) (JDict sample_summary)" "json_ok (mc_frepr sample_memory_config) (JFloat ''0.7'')"
  by code_simp+

theorem summary_never_widens_witness:
  "\<exists>d p view w' r i. summarize sample_memory_config (JDict sample_summary) 1000 (sample_memory_world sample_catalog) = (Inr (Stored False d p view), w') \<and>
     r \<in> set (md_memories (w_db w')) \<and> mm_id r = view_id view \<and>
     (\<exists>m\<in>set (md_memories sample_catalog). mm_id m = i \<and> (\<forall>b. sees sample_memory_config b r \<longrightarrow> sees sample_memory_config b m))"
proof -
  obtain d p view w' where run: "summarize sample_memory_config (JDict sample_summary) 1000 (sample_memory_world sample_catalog) =
      (Inr (Stored False d p view), w')"
    using sample_summarized by (auto split: prod.splits sum.splits ingest_result.splits)
  from summary_never_widens [OF run sample_summary_ok sample_world_ok] obtain xs ids r where
    r: "ids \<noteq> []" "r \<in> set (md_memories (w_db w'))" "mm_id r = view_id view"
      "\<forall>i\<in>set ids. (mm_id r, i) \<in> set (md_summary_members (w_db w')) \<and>
         (\<exists>m\<in>set (md_memories (w_db (sample_memory_world sample_catalog))). mm_id m = i \<and> (\<forall>b. sees sample_memory_config b r \<longrightarrow> sees sample_memory_config b m))"
    by blast
  from r(1) obtain i where "i \<in> set ids" by (cases ids) auto
  with r(4) have "\<exists>m\<in>set (md_memories sample_catalog). mm_id m = i \<and> (\<forall>b. sees sample_memory_config b r \<longrightarrow> sees sample_memory_config b m)"
    by (simp add: sample_memory_world_def)
  with run r(2,3) show ?thesis by blast
qed

end
