(* ===== verification/Mem_Requests.thy ===== *)
theory Mem_Requests
  imports Mem_Visibility
begin

text \<open>
  Sequences of requests. Each request of the protocol, whatever it asks and however it ends, keeps the
  invariant of the catalogue and rewrites nothing that was stored.
\<close>

fun serve_requests :: "memory_config \<Rightarrow> (json \<times> int) list \<Rightarrow> memory_world \<Rightarrow> memory_world" where
  "serve_requests c [] w = w"
| "serve_requests c ((request, peer) # rest) w = serve_requests c rest (snd (dispatch c request peer w))"

definition readable_requests :: "memory_config \<Rightarrow> (json \<times> int) list \<Rightarrow> bool" where
  "readable_requests c reqs \<longleftrightarrow> json_ok (mc_frepr c) (JFloat ''0.7'') \<and> (\<forall>(request, peer)\<in>set reqs. json_ok (mc_frepr c) request)"

lemma serve_evolution:
  assumes "readable_requests c reqs" "\<And>d. R d d" "\<And>x y z. R x y \<Longrightarrow> R y z \<Longrightarrow> R x z"
    and "\<And>request peer w. json_ok (mc_frepr c) request \<Longrightarrow> json_ok (mc_frepr c) (JFloat ''0.7'') \<Longrightarrow> R (w_db w) (w_db (snd (dispatch c request peer w)))"
  shows "R (w_db w) (w_db (serve_requests c reqs w))"
  using assms(1)
proof (induction reqs arbitrary: w)
  case (Cons x reqs)
  obtain request peer where x: "x = (request, peer)" by fastforce
  from Cons.prems x have "R (w_db w) (w_db (snd (dispatch c request peer w)))" "readable_requests c reqs"
    by (auto simp: readable_requests_def intro: assms(4))
  with Cons.IH assms(3) x show ?case by (metis serve_requests.simps(2))
qed (simp add: assms(2))

text \<open>
  C9. The catalogue stays consistent under every sequence of requests, of any operation and whether they
  succeed or fail: ids are unique; the rank column is the rank of the classification; the roles and metadata
  columns hold JSON that reads back; nothing stored looks like a secret; a window of validity is not empty;
  and supersession links rows of one project and environment in pairs, from both sides.
\<close>

theorem requests_keep_catalog:
  assumes "readable_requests c reqs" "catalog_ok c (w_db w)"
  shows "catalog_ok c (w_db (serve_requests c reqs w))"
proof -
  have "keeps_catalog c (w_db w) (w_db (serve_requests c reqs w))"
    by (rule serve_evolution [OF assms(1)]) (auto simp: keeps_catalog_def intro: catalog.dispatches [unfolded keeps_catalog_def, rule_format])
  then show ?thesis using assms(2) by (simp add: keeps_catalog_def)
qed

text \<open>
  C10. No request rewrites what is stored. Every memory keeps its content, scope, provenance, roles, metadata,
  times and vector; an invalidation and a successor, once set, stay; audit entries, sources, summary members
  and maintenance runs are only added; and of a call to a paid provider only the outcome of a
  reservation is settled.
\<close>

theorem requests_rewrite_nothing:
  assumes "readable_requests c reqs" "memories.unique (md_memories (w_db w))"
  shows "history_of (w_db w) (w_db (serve_requests c reqs w)) \<and> memories.unique (md_memories (w_db (serve_requests c reqs w)))"
proof -
  have "extends_catalog (w_db w) (w_db (serve_requests c reqs w))"
    by (rule serve_evolution [OF assms(1) extension.refl extension.trans extension.dispatches])
  then show ?thesis using assms(2) by (simp add: extends_catalog_def)
qed

definition sample_memory_requests :: "(json \<times> int) list" where
  "sample_memory_requests =
     [(JDict [(''version'', JInt 1), (''request_id'', JStr ''r1''), (''operation'', JStr ''ingest''), (''actor'', JStr ''ops''),
        (''payload'', JDict (tl (sample_ingest ''run it again'' ''internal'' (JStr (sample_memory_id 1)))))], 1000),
      (JDict [(''version'', JInt 1), (''request_id'', JStr ''r2''), (''operation'', JStr ''maintain''), (''actor'', JStr ''ops'')], 1000)]"

lemma sample_memory_requests_readable: "readable_requests sample_memory_config sample_memory_requests"
  by code_simp

theorem requests_keep_catalog_witness: "catalog_ok sample_memory_config (w_db (serve_requests sample_memory_config sample_memory_requests (sample_memory_world sample_catalog)))"
  by (rule requests_keep_catalog [OF sample_memory_requests_readable sample_world_ok])

theorem requests_rewrite_nothing_witness:
  "history_of sample_catalog (w_db (serve_requests sample_memory_config sample_memory_requests (sample_memory_world sample_catalog)))"
proof -
  have "memories.unique (md_memories (w_db (sample_memory_world sample_catalog)))"
    using sample_world_ok by (simp add: catalog_ok_def)
  from requests_rewrite_nothing [OF sample_memory_requests_readable this] show ?thesis by (simp add: sample_memory_world_def)
qed

end
