(* ===== verification/Mem_Maintenance.thy ===== *)
theory Mem_Maintenance
  imports Mem_Access
begin

text \<open>
  The periodic maintenance: \<^verbatim>\<open>MemoryService.maintain\<close> ages the catalogue and brings the vector index back in
  step with it. The loops stop at their first failure and take at most 500 records each, so what is shown is
  that an index which answers, and a backlog of that size, leave nothing to be done.
\<close>

section \<open>The backlog\<close>

definition deletion_due :: "memory_row \<Rightarrow> bool" where
  "deletion_due r \<longleftrightarrow> mm_qdrant_state r = ''delete_pending''"

definition index_due :: "memory_row \<Rightarrow> bool" where
  "index_due r \<longleftrightarrow> mm_qdrant_state r \<in> {''pending'', ''failed''} \<and> mm_invalidated_at r = None \<and> mm_superseded_by_id r = None"

definition index_settled :: "memory_db \<Rightarrow> bool" where
  "index_settled d \<longleftrightarrow> (\<forall>r\<in>set (md_memories d). \<not> deletion_due r \<and> \<not> index_due r)"

text \<open>Qdrant answers every call; a row can be turned into a point.\<close>

definition qdrant_answers :: "memory_world \<Rightarrow> bool" where
  "qdrant_answers w \<longleftrightarrow> (\<forall>n e. mw_qdrant w n \<noteq> QFailed e)"

definition vector_fits :: "memory_config \<Rightarrow> memory_row \<Rightarrow> bool" where
  "vector_fits c r \<longleftrightarrow> (case stored_vector c r of Inl _ \<Rightarrow> False | Inr vec \<Rightarrow> int (length vec) = mc_dimensions c)"

definition indexable :: "memory_config \<Rightarrow> memory_row \<Rightarrow> bool" where
  "indexable c r \<longleftrightarrow> is_ok (row_to_record c r) \<and> vector_fits c r"

text \<open>The point of a row was written, or deleted.\<close>

definition point_written :: "memory_config \<Rightarrow> memory_world \<Rightarrow> memory_row \<Rightarrow> bool" where
  "point_written c w r \<longleftrightarrow>
     (\<exists>vec p. stored_vector c r = Inr vec \<and> qp_content p = mm_content r \<and> qp_classification p = mm_classification r \<and>
        (mc_collection c, QUpsert (mm_id r) vec p, True) \<in> set (mw_qdrant_log w))"

definition point_deleted :: "memory_config \<Rightarrow> memory_world \<Rightarrow> memory_row \<Rightarrow> bool" where
  "point_deleted c w r \<longleftrightarrow> (mc_collection c, QDelete (mm_id r), True) \<in> set (mw_qdrant_log w)"

lemma memory_ok_reads: "memory_ok c r \<Longrightarrow> is_ok (row_to_record c r)"
proof -
  assume "memory_ok c r"
  then obtain roles metadata where cols: "mm_allowed_roles_json r = canonical_json (JList (map JStr roles))"
      "mm_metadata_json r = canonical_json (JDict metadata)" "json_ok (mc_frepr c) (JDict metadata)"
    unfolding memory_ok_def by blast
  have "json_ok (mc_frepr c) (JList (map JStr roles))" by (simp add: list_all_iff)
  with cols show ?thesis
    by (simp add: row_to_record_def json_roundtrip del: canonical_json.simps json_sorted.simps json_ok.simps)
qed

lemma reads_iff:
  "is_ok (row_to_record c r) \<longleftrightarrow>
     json_loads (mc_frepr c) (mm_allowed_roles_json r) \<noteq> None \<and> json_loads (mc_frepr c) (mm_metadata_json r) \<noteq> None"
  by (auto simp: row_to_record_def split: option.splits)

lemma records_read:
  "\<forall>r\<in>set rows. is_ok (row_to_record c r) \<Longrightarrow> \<exists>rs. res_map (row_to_record c) rows = Inr rs \<and> map rc_row rs = rows"
proof (induction rows)
  case (Cons r rows)
  then obtain x rs where r: "row_to_record c r = Inr x" "res_map (row_to_record c) rows = Inr rs" "map rc_row rs = rows" by auto
  then have "rc_row x = r" by (auto simp: row_to_record_def split: option.splits)
  with r show ?case by simp
qed simp

section \<open>One step of the loops\<close>

text \<open>What stays the same, and that the log of the calls only grows.\<close>

definition calm :: "memory_world \<Rightarrow> memory_world \<Rightarrow> bool" where
  "calm w w' \<longleftrightarrow>
     mw_qdrant w' = mw_qdrant w \<and> w_uuids w' = w_uuids w \<and> w_drawn w' = w_drawn w \<and>
     set (mw_qdrant_log w) \<subseteq> set (mw_qdrant_log w') \<and> md_maintenance (w_db w') = md_maintenance (w_db w)"

lemma calm_refl [simp]: "calm w w"
  by (simp add: calm_def)

lemma calm_trans [trans]: "calm w1 w2 \<Longrightarrow> calm w2 w3 \<Longrightarrow> calm w1 w3"
  by (auto simp: calm_def)

lemma calm_answers: "calm w w' \<Longrightarrow> qdrant_answers w' = qdrant_answers w"
  by (simp add: calm_def qdrant_answers_def)

lemma calm_points:
  "calm w w' \<Longrightarrow> point_written c w r \<Longrightarrow> point_written c w' r"
  "calm w w' \<Longrightarrow> point_deleted c w r \<Longrightarrow> point_deleted c w' r"
  by (auto simp: calm_def point_written_def point_deleted_def)

text \<open>The rows with an id of \<open>ids\<close> get the state \<open>s\<close>, the others are not touched.\<close>

definition restated :: "string set \<Rightarrow> string \<Rightarrow> memory_row \<Rightarrow> memory_row \<Rightarrow> bool" where
  "restated ids s r r' \<longleftrightarrow>
     (if mm_id r \<in> ids then \<exists>e t. r' = r\<lparr>mm_qdrant_state := s, mm_qdrant_error := e, mm_updated_at := t\<rparr> else r' = r)"

definition restates :: "string set \<Rightarrow> string \<Rightarrow> memory_world \<Rightarrow> memory_world \<Rightarrow> bool" where
  "restates ids s w w' \<longleftrightarrow> calm w w' \<and> list_all2 (restated ids s) (md_memories (w_db w)) (md_memories (w_db w'))"

lemma restated_none: "restated {} s = (=)"
  by (auto simp: restated_def fun_eq_iff)

lemma restates_nothing: "calm w w' \<Longrightarrow> md_memories (w_db w') = md_memories (w_db w) \<Longrightarrow> restates {} s w w'"
  by (simp add: restates_def restated_none list.rel_eq)

lemma restated_trans: "restated A s r1 r2 \<Longrightarrow> restated B s r2 r3 \<Longrightarrow> restated (A \<union> B) s r1 r3"
  by (auto simp: restated_def split: if_splits)

lemma restates_trans: "restates A s w1 w2 \<Longrightarrow> restates B s w2 w3 \<Longrightarrow> restates (A \<union> B) s w1 w3"
  unfolding restates_def by (auto intro: calm_trans list_all2_trans [rotated] restated_trans)

lemma restates_calm: "restates A s w w' \<Longrightarrow> calm w w'"
  by (simp add: restates_def)

lemma restates_answers: "restates A s w w' \<Longrightarrow> qdrant_answers w \<Longrightarrow> qdrant_answers w'"
  using calm_answers [OF restates_calm] by blast

lemma mark_runs:
  "\<exists>w'. mark_qdrant i s e w = (Inr (), w') \<and> restates {i} s w w'"
  by (rule exI [where x = "snd (mark_qdrant i s e w)"])
    (auto simp: mark_qdrant_def utc_now_def op_run restates_def calm_def restated_def mark_row_def update_memories_def update_where_def
       list_all2_conv_all_nth)

lemma call_answers:
  assumes "qdrant_answers w"
  shows "\<exists>reply w'. qdrant_call collection q w = (Inr reply, w') \<and> restates {} s w w' \<and> (collection, q, True) \<in> set (mw_qdrant_log w')"
proof (cases "mw_qdrant w (length (mw_qdrant_log w))")
  case (QFailed e)
  then show ?thesis using assms by (simp add: qdrant_answers_def)
qed (auto simp: qdrant_call_def calm_def intro!: restates_nothing)

lemma ensure_answers:
  assumes "qdrant_answers w"
  shows "\<exists>w'. ensure_collection collection n w = (Inr (), w') \<and> restates {} s w w'"
proof (cases "collection \<in> set (mw_ensured w)")
  case False
  from call_answers [OF assms, of collection "QEnsure n" s] obtain reply w'
    where "qdrant_call collection (QEnsure n) w = (Inr reply, w')" "restates {} s w w'" by blast
  then show ?thesis using False by (auto simp: ensure_collection_def op_bind_def restates_def calm_def)
qed (simp add: ensure_collection_def restates_nothing)

section \<open>The loops\<close>

lemma deletions_answered:
  assumes "qdrant_answers w"
  shows "\<exists>w'. process_deletions c rs w = (Inr 0, w') \<and> restates (record_id ` set rs) ''deleted'' w w' \<and>
    (\<forall>r\<in>set rs. point_deleted c w' (rc_row r))"
  using assms
proof (induction rs arbitrary: w)
  case Nil
  then show ?case by (simp add: op_ret_def restates_nothing)
next
  case (Cons r rs)
  from call_answers [OF Cons.prems, of "mc_collection c" "QDelete (record_id r)" "''deleted''"] obtain reply w1
    where call: "qdrant_call (mc_collection c) (QDelete (record_id r)) w = (Inr reply, w1)" "restates {} ''deleted'' w w1"
      "(mc_collection c, QDelete (record_id r), True) \<in> set (mw_qdrant_log w1)" by blast
  obtain w2 where mark: "mark_qdrant (record_id r) ''deleted'' None w1 = (Inr (), w2)" "restates {record_id r} ''deleted'' w1 w2"
    using mark_runs by blast
  from call(2) mark(2) have step: "restates {record_id r} ''deleted'' w w2" using restates_trans by fastforce
  then have "qdrant_answers w2" using Cons.prems by (rule restates_answers)
  from Cons.IH [OF this] obtain w' where rest: "process_deletions c rs w2 = (Inr 0, w')" "restates (record_id ` set rs) ''deleted'' w2 w'"
    "\<forall>r\<in>set rs. point_deleted c w' (rc_row r)" by blast
  have "point_deleted c w1 (rc_row r)" using call(3) by (simp add: point_deleted_def record_id_def)
  then have "point_deleted c w' (rc_row r)" using mark(2) rest(2) by (blast intro: calm_points restates_calm)
  moreover have "process_deletions c (r # rs) w = (Inr 0, w')"
    using call mark rest(1) by (simp add: op_bind_def op_catch_def op_ret_def qdrant_delete_def)
  moreover have "restates (record_id ` set (r # rs)) ''deleted'' w w'" using restates_trans [OF step rest(2)] by simp
  ultimately show ?case using rest(3) by auto
qed

lemma reindex_answered:
  assumes "qdrant_answers w" "\<forall>r\<in>set rs. vector_fits c (rc_row r)"
  shows "\<exists>w'. process_reindex c rs w = (Inr (length rs, 0), w') \<and> restates (record_id ` set rs) ''indexed'' w w' \<and>
    (\<forall>r\<in>set rs. point_written c w' (rc_row r))"
  using assms
proof (induction rs arbitrary: w)
  case Nil
  then show ?case by (simp add: op_ret_def restates_nothing)
next
  case (Cons r rs)
  from Cons.prems(2) obtain vec where vec: "stored_vector c (rc_row r) = Inr vec" "int (length vec) = mc_dimensions c"
    by (auto simp: vector_fits_def split: sum.splits)
  let ?q = "QUpsert (record_id r) vec (payload_of r)"
  from call_answers [OF Cons.prems(1), of "mc_collection c" ?q "''indexed''"] obtain reply w1
    where call: "qdrant_call (mc_collection c) ?q w = (Inr reply, w1)" "restates {} ''indexed'' w w1"
      "(mc_collection c, ?q, True) \<in> set (mw_qdrant_log w1)" by blast
  obtain w2 where mark: "mark_qdrant (record_id r) ''indexed'' None w1 = (Inr (), w2)" "restates {record_id r} ''indexed'' w1 w2"
    using mark_runs by blast
  from call(2) mark(2) have step: "restates {record_id r} ''indexed'' w w2" using restates_trans by fastforce
  then have "qdrant_answers w2" using Cons.prems(1) by (rule restates_answers)
  from Cons.IH [OF this] Cons.prems(2) obtain w' where rest: "process_reindex c rs w2 = (Inr (length rs, 0), w')"
    "restates (record_id ` set rs) ''indexed'' w2 w'" "\<forall>r\<in>set rs. point_written c w' (rc_row r)" by auto
  have "point_written c w1 (rc_row r)"
    using call(3) vec(1) unfolding point_written_def by (intro exI [where x = vec] exI [where x = "payload_of r"]) (simp add: record_id_def payload_of_def Let_def)
  then have "point_written c w' (rc_row r)" using mark(2) rest(2) by (blast intro: calm_points restates_calm)
  moreover have "process_reindex c (r # rs) w = (Inr (length (r # rs), 0), w')"
    using call mark rest(1) vec by (simp add: op_bind_def op_catch_def op_ret_def op_lift_def op_raise_if_def raise_if_def qdrant_upsert_def)
  moreover have "restates (record_id ` set (r # rs)) ''indexed'' w w'" using restates_trans [OF step rest(2)] by simp
  ultimately show ?case using rest(3) by auto
qed

section \<open>The index after the loops\<close>

text \<open>The two queries return the whole backlog when it fits.\<close>

lemma query_answered:
  assumes "rowcount P (md_memories (w_db w)) \<le> 500" "\<forall>r\<in>set (md_memories (w_db w)). is_ok (row_to_record c r)"
  shows "\<exists>rs. op_bind (op_query (\<lambda>d. take 500 (sort_key mm_updated_at (filter P (md_memories d))))) (records_of c) w = (Inr rs, w) \<and>
    rc_row ` set rs = {r \<in> set (md_memories (w_db w)). P r} \<and> length rs = rowcount P (md_memories (w_db w))"
proof -
  let ?rows = "sort_key mm_updated_at (filter P (md_memories (w_db w)))"
  have "take 500 ?rows = ?rows" using assms(1) by (simp add: rowcount_def)
  moreover obtain rs where rs: "res_map (row_to_record c) ?rows = Inr rs" "map rc_row rs = ?rows"
    using records_read [of ?rows c] assms(2) by auto
  ultimately have "op_bind (op_query (\<lambda>d. take 500 (sort_key mm_updated_at (filter P (md_memories d))))) (records_of c) w = (Inr rs, w)"
    by (simp add: op_run records_of_def) (simp add: op_lift_def)
  moreover have "rc_row ` set rs = {r \<in> set (md_memories (w_db w)). P r}" using arg_cong [OF rs(2), of set] by simp
  moreover have "length rs = rowcount P (md_memories (w_db w))" using arg_cong [OF rs(2), of length] by (simp add: rowcount_def)
  ultimately show ?thesis by blast
qed

lemma deletions_pending:
  "pending_deletions c = op_bind (op_query (\<lambda>d. take 500 (sort_key mm_updated_at (filter deletion_due (md_memories d))))) (records_of c)"
  by (simp add: pending_deletions_def deletion_due_def [abs_def])

lemma reindex_pending:
  "pending_for_reindex c = op_bind (op_query (\<lambda>d. take 500 (sort_key mm_updated_at (filter index_due (md_memories d))))) (records_of c)"
  by (simp add: pending_for_reindex_def index_due_def [abs_def])

text \<open>Marking a row does not change what it is a point of.\<close>

lemma restated_points:
  assumes "restated ids s r r'"
  shows "indexable c r' = indexable c r" "point_written c w r' = point_written c w r" "mm_id r' = mm_id r"
  using assms
  by (auto simp: restated_def indexable_def reads_iff vector_fits_def stored_vector_def point_written_def split: if_splits)

lemma rowcount_rel: "list_all2 R xs ys \<Longrightarrow> (\<And>x y. x \<in> set xs \<Longrightarrow> R x y \<Longrightarrow> Q y = P x) \<Longrightarrow> rowcount Q ys = rowcount P xs"
  by (induction rule: list_all2_induct) (auto simp: rowcount_def)

text \<open>The two halves of \<^verbatim>\<open>sync_index\<close>.\<close>

lemma deletion_phase:
  assumes answers: "qdrant_answers w" and unique: "memories.unique (md_memories (w_db w))"
    and rows: "\<forall>r\<in>set (md_memories (w_db w)). indexable c r" and backlog: "rowcount deletion_due (md_memories (w_db w)) \<le> 500"
  shows "\<exists>gone w'. pending_deletions c w = (Inr gone, w) \<and> process_deletions c gone w = (Inr 0, w') \<and> calm w w' \<and>
    list_all2 (\<lambda>r r'. index_due r' = index_due r \<and> \<not> deletion_due r' \<and> indexable c r' \<and>
       (\<forall>v. point_written c v r' = point_written c v r)) (md_memories (w_db w)) (md_memories (w_db w')) \<and>
    (\<forall>r\<in>set (md_memories (w_db w)). deletion_due r \<longrightarrow> point_deleted c w' r)"
proof -
  let ?rows = "\<lambda>w. md_memories (w_db w)"
  obtain gone where gone: "pending_deletions c w = (Inr gone, w)" "rc_row ` set gone = {r \<in> set (?rows w). deletion_due r}"
    using query_answered [of deletion_due w c] backlog rows unfolding deletions_pending by (auto simp: indexable_def)
  obtain w' where deleted: "process_deletions c gone w = (Inr 0, w')" "restates (record_id ` set gone) ''deleted'' w w'"
      "\<forall>r\<in>set gone. point_deleted c w' (rc_row r)"
    using deletions_answered [OF answers] by blast
  have ids: "record_id ` set gone = mm_id ` {r \<in> set (?rows w). deletion_due r}"
    unfolding gone(2) [symmetric] by (auto simp: record_id_def image_iff)
  have row: "index_due r' = index_due r \<and> \<not> deletion_due r' \<and> indexable c r' \<and> (\<forall>v. point_written c v r' = point_written c v r)"
    if r: "r \<in> set (?rows w)" "restated (record_id ` set gone) ''deleted'' r r'" for r r'
  proof -
    have "mm_id r \<in> record_id ` set gone \<longleftrightarrow> deletion_due r"
      using r(1) unique unfolding ids by (auto dest: memories.unique_mem_eq)
    then show ?thesis
      using r rows restated_points [OF r(2)] by (auto simp: restated_def index_due_def deletion_due_def split: if_splits)
  qed
  have "list_all2 (restated (record_id ` set gone) ''deleted'') (?rows w) (?rows w')" using deleted(2) by (simp add: restates_def)
  then have "list_all2 (\<lambda>r r'. index_due r' = index_due r \<and> \<not> deletion_due r' \<and> indexable c r' \<and>
      (\<forall>v. point_written c v r' = point_written c v r)) (?rows w) (?rows w')"
    using row by (rule list.rel_mono_strong)
  moreover have "point_deleted c w' r" if "r \<in> set (?rows w)" "deletion_due r" for r
  proof -
    have "r \<in> rc_row ` set gone" using that unfolding gone(2) by blast
    then show ?thesis using deleted(3) by blast
  qed
  ultimately show ?thesis using gone(1) deleted(1) restates_calm [OF deleted(2)] by blast
qed

lemma reindex_phase:
  assumes answers: "qdrant_answers w"
    and rows: "\<forall>r\<in>set (md_memories (w_db w)). indexable c r \<and> \<not> deletion_due r"
    and backlog: "rowcount index_due (md_memories (w_db w)) \<le> 500"
  shows "\<exists>todo w'. pending_for_reindex c w = (Inr todo, w) \<and>
    process_reindex c todo w = (Inr (rowcount index_due (md_memories (w_db w)), 0), w') \<and> calm w w' \<and> index_settled (w_db w') \<and>
    (\<forall>r\<in>set (md_memories (w_db w)). index_due r \<longrightarrow> point_written c w' r)"
proof -
  let ?rows = "\<lambda>w. md_memories (w_db w)"
  have reads: "\<forall>r\<in>set (?rows w). is_ok (row_to_record c r)" using rows by (simp add: indexable_def)
  obtain todo where todo: "pending_for_reindex c w = (Inr todo, w)" "rc_row ` set todo = {r \<in> set (?rows w). index_due r}"
      "length todo = rowcount index_due (?rows w)"
    using query_answered [OF backlog reads] unfolding reindex_pending [symmetric] by blast
  have fits: "\<forall>r\<in>set todo. vector_fits c (rc_row r)" using todo(2) rows unfolding indexable_def by blast
  from reindex_answered [OF answers fits] obtain w' where indexed: "process_reindex c todo w = (Inr (length todo, 0), w')"
      "restates (record_id ` set todo) ''indexed'' w w'" "\<forall>r\<in>set todo. point_written c w' (rc_row r)" by blast
  have ids: "record_id ` set todo = mm_id ` {r \<in> set (?rows w). index_due r}"
    unfolding todo(2) [symmetric] by (auto simp: record_id_def image_iff)
  have rel: "list_all2 (restated (record_id ` set todo) ''indexed'') (?rows w) (?rows w')" using indexed(2) by (simp add: restates_def)
  have "\<not> deletion_due r' \<and> \<not> index_due r'" if r': "r' \<in> set (?rows w')" for r'
  proof -
    obtain r where r: "r \<in> set (?rows w)" "restated (record_id ` set todo) ''indexed'' r r'" using list_all2_set2 [OF rel r'] by blast
    then have "mm_id r \<in> record_id ` set todo" if "index_due r" using that unfolding ids by blast
    then show ?thesis using r rows by (auto simp: restated_def index_due_def deletion_due_def split: if_splits)
  qed
  moreover have "point_written c w' r" if "r \<in> set (?rows w)" "index_due r" for r
  proof -
    have "r \<in> rc_row ` set todo" using that unfolding todo(2) by blast
    then show ?thesis using indexed(3) by blast
  qed
  ultimately show ?thesis
    using todo(1) indexed(1) restates_calm [OF indexed(2)] unfolding index_settled_def todo(3) by blast
qed

lemma sync_settles:
  assumes answers: "qdrant_answers w" and unique: "memories.unique (md_memories (w_db w))"
    and rows: "\<forall>r\<in>set (md_memories (w_db w)). indexable c r"
    and backlog: "rowcount deletion_due (md_memories (w_db w)) \<le> 500" "rowcount index_due (md_memories (w_db w)) \<le> 500"
  shows "\<exists>w'. sync_index c w = (Inr (rowcount index_due (md_memories (w_db w)), 0), w') \<and> calm w w' \<and> index_settled (w_db w') \<and>
    (\<forall>r\<in>set (md_memories (w_db w)). (deletion_due r \<longrightarrow> point_deleted c w' r) \<and> (index_due r \<longrightarrow> point_written c w' r))"
proof -
  let ?rows = "\<lambda>w. md_memories (w_db w)"
  obtain w0 where ensure: "ensure_collection (mc_collection c) (mc_dimensions c) w = (Inr (), w0)" "restates {} ''deleted'' w w0"
    using ensure_answers [OF answers] by blast
  then have same: "?rows w0 = ?rows w" by (simp add: restates_def restated_none list.rel_eq)
  have answers0: "qdrant_answers w0" by (rule restates_answers [OF ensure(2) answers])
  obtain gone w1 where deleted: "pending_deletions c w0 = (Inr gone, w0)" "process_deletions c gone w0 = (Inr 0, w1)" "calm w0 w1"
      "list_all2 (\<lambda>r r'. index_due r' = index_due r \<and> \<not> deletion_due r' \<and> indexable c r' \<and>
         (\<forall>v. point_written c v r' = point_written c v r)) (?rows w) (?rows w1)"
      "\<forall>r\<in>set (?rows w). deletion_due r \<longrightarrow> point_deleted c w1 r"
    using deletion_phase [OF answers0, unfolded same, OF unique rows backlog(1)] by blast
  have count: "rowcount index_due (?rows w1) = rowcount index_due (?rows w)" by (rule rowcount_rel [OF deleted(4)]) simp
  have rows1: "\<forall>r\<in>set (?rows w1). indexable c r \<and> \<not> deletion_due r" using list_all2_set2 [OF deleted(4)] by blast
  have answers1: "qdrant_answers w1" using calm_answers [OF deleted(3)] answers0 by blast
  obtain todo w2 where indexed: "pending_for_reindex c w1 = (Inr todo, w1)"
      "process_reindex c todo w1 = (Inr (rowcount index_due (?rows w), 0), w2)" "calm w1 w2" "index_settled (w_db w2)"
      "\<forall>r\<in>set (?rows w1). index_due r \<longrightarrow> point_written c w2 r"
    using reindex_phase [OF answers1 rows1, unfolded count, OF backlog(2)] by blast
  have "(deletion_due r \<longrightarrow> point_deleted c w2 r) \<and> (index_due r \<longrightarrow> point_written c w2 r)" if "r \<in> set (?rows w)" for r
    using list_all2_set1 [OF deleted(4) that] indexed(5) deleted(5) that calm_points(2) [OF indexed(3)] by blast
  moreover have "calm w w2" using ensure(2) deleted(3) indexed(3) by (blast intro: calm_trans restates_calm)
  moreover have "sync_index c w = (Inr (rowcount index_due (?rows w), 0), w2)"
    unfolding sync_index_def op_bind_def op_catch_def op_ret_def by (simp add: ensure(1) deleted(1,2) indexed(1,2))
  ultimately show ?thesis using indexed(4) by blast
qed

section \<open>Maintenance\<close>

text \<open>What the ageing of the catalogue does to a row.\<close>

definition aged :: "instant \<Rightarrow> memory_row \<Rightarrow> memory_row \<Rightarrow> bool" where
  "aged now r r' \<longleftrightarrow>
     (if expires now r then r' = invalidate_row now ''validity_expired'' r else r' = r \<or> r' = stale_row now r)"

lemma aged_row:
  assumes "aged now r r'"
  shows "indexable c r' = indexable c r" "point_written c w r' = point_written c w r" "point_deleted c w r' = point_deleted c w r"
    "mm_id r' = mm_id r" "deletion_due r' \<longleftrightarrow> deletion_due r \<or> expires now r" "index_due r' \<longleftrightarrow> index_due r \<and> \<not> expires now r"
  using assms
  by (auto simp: aged_def indexable_def reads_iff vector_fits_def stored_vector_def point_written_def point_deleted_def
      deletion_due_def index_due_def invalidate_row_def stale_row_def split: if_splits)

lemma consolidation_runs:
  assumes "in_range (w_clock w (w_ticks w) - days * 86400000000) = Inr u"
  shows "\<exists>stale w'. consolidate_lifecycle days w =
      (Inr (rowcount (expires (whole_second (w_clock w (w_ticks w)))) (md_memories (w_db w)), stale), w') \<and> calm w w' \<and>
    list_all2 (aged (whole_second (w_clock w (w_ticks w)))) (md_memories (w_db w)) (md_memories (w_db w'))"
proof -
  let ?now = "whole_second (w_clock w (w_ticks w))" and ?rows = "md_memories (w_db w)"
  let ?rows1 = "update_where (expires ?now) (invalidate_row ?now ''validity_expired'') ?rows"
  let ?w' = "w\<lparr>w_ticks := Suc (w_ticks w), w_db := update_memories (goes_stale (whole_second u)) (stale_row ?now)
      (update_memories (expires ?now) (invalidate_row ?now ''validity_expired'') (w_db w))\<rparr>"
  have "consolidate_lifecycle days w = (Inr (rowcount (expires ?now) ?rows, rowcount (goes_stale (whole_second u)) ?rows1), ?w')"
    using assms by (simp add: consolidate_lifecycle_def op_run Let_def) (simp add: transaction_def op_run op_ret_def)
  moreover have "calm w ?w'" by (simp add: calm_def update_memories_def)
  moreover have "list_all2 (aged ?now) ?rows (update_where (goes_stale (whole_second u)) (stale_row ?now) ?rows1)"
    by (auto simp: list_all2_conv_all_nth update_where_def aged_def goes_stale_def invalidate_row_def)
  ultimately show ?thesis by (auto simp: update_memories_def)
qed

lemma run_step: "m w = (Inr x, w') \<Longrightarrow> op_bind m f w = f x w'"
  by (simp add: op_bind_def)

lemma recorded:
  "w_uuids w (w_drawn w) \<notin> mt_id ` set (md_maintenance (w_db w)) \<Longrightarrow>
     \<exists>w'. record_maintenance started expired stale n failures w = (Inr (w_uuids w (w_drawn w)), w') \<and>
       md_memories (w_db w') = md_memories (w_db w) \<and> mw_qdrant_log w' = mw_qdrant_log w"
  by (auto simp: record_maintenance_def utc_now_def op_run list_ex_iff image_iff) (simp add: op_ret_def)

lemma audited:
  "\<exists>w'. audit c actor operation outcome f w = (Inr (), w') \<and> md_memories (w_db w') = md_memories (w_db w) \<and>
     mw_qdrant_log w' = mw_qdrant_log w"
  by (simp add: audit_def utc_now_def op_run)

lemma maintain_runs:
  fixes w :: memory_world
  assumes "actor_for c actor peer ''maintenance'' = Inr a"
    and aged: "consolidate_lifecycle (mc_stale_after_days c) (w\<lparr>w_ticks := Suc (w_ticks w)\<rparr>) = (Inr (expired, stale), w1)"
    and sync: "sync_index c w1 = (Inr (n, 0), w2)"
    and fresh: "w_uuids w2 (w_drawn w2) \<notin> mt_id ` set (md_maintenance (w_db w2))"
  shows "\<exists>run_id w'. maintain c actor peer w =
      (Inr \<lparr>mn_run_id = run_id, mn_expired = expired, mn_marked_stale = stale, mn_reindexed = n, mn_failures = 0, mn_degraded = False\<rparr>, w') \<and>
    md_memories (w_db w') = md_memories (w_db w2) \<and> mw_qdrant_log w' = mw_qdrant_log w2"
proof -
  obtain w3 where run: "record_maintenance (whole_second (w_clock w (w_ticks w))) expired stale n 0 w2 = (Inr (w_uuids w2 (w_drawn w2)), w3)"
      "md_memories (w_db w3) = md_memories (w_db w2)" "mw_qdrant_log w3 = mw_qdrant_log w2"
    using recorded [OF fresh] by blast
  obtain w' where log: "audit c actor ''maintain'' ''success'' (no_facts\<lparr>af_detail := w_uuids w2 (w_drawn w2)\<rparr>) w3 = (Inr (), w')"
      "md_memories (w_db w') = md_memories (w_db w3)" "mw_qdrant_log w' = mw_qdrant_log w3"
    using audited by blast
  have "maintain c actor peer w =
      (Inr \<lparr>mn_run_id = w_uuids w2 (w_drawn w2), mn_expired = expired, mn_marked_stale = stale, mn_reindexed = n, mn_failures = 0,
         mn_degraded = False\<rparr>, w')"
    unfolding maintain_def assms(1) utc_now_def op_run
    by (simp add: run_step [where m = "consolidate_lifecycle _", OF aged] run_step [where m = "sync_index _", OF sync]
        run_step [where m = "record_maintenance _ _ _ _ _", OF run(1)] run_step [where m = "audit _ _ _ _ _", OF log(1)])
      (simp add: op_ret_def)
  then show ?thesis using run log by auto
qed

lemma vector_fits_indexable: "catalog_ok c d \<Longrightarrow> \<forall>r\<in>set (md_memories d). vector_fits c r \<Longrightarrow> \<forall>r\<in>set (md_memories d). indexable c r"
  by (simp add: catalog_ok_def indexable_def memory_ok_reads)

text \<open>
  C36. Maintenance catches up. When Qdrant answers every call and the backlog is within the 500 records a run takes, an
  authorised run reports no failure and how many records expired and were indexed again; afterwards no record
  waits to be indexed or deleted. Qdrant has confirmed the deletion of each point that was due, including
  those of the records that expired just now, and the write of each current record that was not yet indexed,
  with its stored vector and content.
\<close>

theorem maintenance_catches_up:
  fixes w :: memory_world
  defines "rows \<equiv> md_memories (w_db w)" and "now \<equiv> whole_second (w_clock w (Suc (w_ticks w)))"
  assumes actor: "actor_for c actor peer ''maintenance'' = Inr a"
    and answers: "qdrant_answers w"
    and ok: "catalog_ok c (w_db w)" "\<forall>r\<in>set rows. vector_fits c r"
    and backlog: "rowcount (\<lambda>r. deletion_due r \<or> expires now r) rows \<le> 500" "rowcount index_due rows \<le> 500"
    and clock: "in_range (w_clock w (Suc (w_ticks w)) - mc_stale_after_days c * 86400000000) = Inr u"
    and fresh: "w_uuids w (w_drawn w) \<notin> mt_id ` set (md_maintenance (w_db w))"
  shows "\<exists>m w'. maintain c actor peer w = (Inr m, w') \<and> mn_failures m = 0 \<and> \<not> mn_degraded m \<and>
    mn_expired m = rowcount (expires now) rows \<and> mn_reindexed m = rowcount (\<lambda>r. index_due r \<and> \<not> expires now r) rows \<and>
    index_settled (w_db w') \<and>
    (\<forall>r\<in>set rows. (deletion_due r \<or> expires now r \<longrightarrow> point_deleted c w' r) \<and>
       (index_due r \<and> \<not> expires now r \<longrightarrow> point_written c w' r))"
proof -
  let ?w = "w\<lparr>w_ticks := Suc (w_ticks w)\<rparr>"
  obtain stale w1 where aged: "consolidate_lifecycle (mc_stale_after_days c) ?w = (Inr (rowcount (expires now) rows, stale), w1)"
      "calm ?w w1" "list_all2 (aged now) rows (md_memories (w_db w1))"
    using consolidation_runs [of ?w "mc_stale_after_days c" u] clock by (auto simp: rows_def now_def)
  have counts: "rowcount deletion_due (md_memories (w_db w1)) = rowcount (\<lambda>r. deletion_due r \<or> expires now r) rows"
      "rowcount index_due (md_memories (w_db w1)) = rowcount (\<lambda>r. index_due r \<and> \<not> expires now r) rows"
    by (rule rowcount_rel [OF aged(3)], simp add: aged_row)+
  have "rowcount (\<lambda>r. index_due r \<and> \<not> expires now r) rows \<le> rowcount index_due rows"
    by (induction rows) (auto simp: rowcount_def)
  with counts backlog have small: "rowcount deletion_due (md_memories (w_db w1)) \<le> 500" "rowcount index_due (md_memories (w_db w1)) \<le> 500"
    by simp_all
  have "map mm_id (md_memories (w_db w1)) = map mm_id rows"
    using aged(3) by (auto simp: list_all2_conv_all_nth aged_row intro!: nth_equalityI)
  then have unique: "memories.unique (md_memories (w_db w1))" using ok(1) by (simp add: catalog_ok_def memories.unique_def rows_def)
  have indexables: "\<forall>r\<in>set (md_memories (w_db w1)). indexable c r"
    using vector_fits_indexable [OF ok(1)] ok(2) aged_row(1) list_all2_set2 [OF aged(3)] unfolding rows_def by blast
  have answers1: "qdrant_answers w1" using answers calm_answers [OF aged(2)] by (simp add: qdrant_answers_def)
  obtain w2 where sync: "sync_index c w1 = (Inr (rowcount (\<lambda>r. index_due r \<and> \<not> expires now r) rows, 0), w2)" "calm w1 w2"
      "index_settled (w_db w2)"
      "\<forall>r\<in>set (md_memories (w_db w1)). (deletion_due r \<longrightarrow> point_deleted c w2 r) \<and> (index_due r \<longrightarrow> point_written c w2 r)"
    using sync_settles [OF answers1 unique indexables small] unfolding counts by blast
  have points: "(deletion_due r \<or> expires now r \<longrightarrow> point_deleted c w2 r) \<and> (index_due r \<and> \<not> expires now r \<longrightarrow> point_written c w2 r)"
    if r: "r \<in> set rows" for r
  proof -
    obtain r1 where r1: "r1 \<in> set (md_memories (w_db w1))" "aged now r r1" using list_all2_set1 [OF aged(3) r] by blast
    show ?thesis using bspec [OF sync(4) r1(1)] aged_row [OF r1(2)] by simp
  qed
  have fresh2: "w_uuids w2 (w_drawn w2) \<notin> mt_id ` set (md_maintenance (w_db w2))"
    using fresh aged(2) sync(2) by (simp add: calm_def)
  obtain run_id w' where run: "maintain c actor peer w =
      (Inr \<lparr>mn_run_id = run_id, mn_expired = rowcount (expires now) rows, mn_marked_stale = stale,
         mn_reindexed = rowcount (\<lambda>r. index_due r \<and> \<not> expires now r) rows, mn_failures = 0, mn_degraded = False\<rparr>, w')"
      "md_memories (w_db w') = md_memories (w_db w2)" "mw_qdrant_log w' = mw_qdrant_log w2"
    using maintain_runs [OF actor aged(1) sync(1) fresh2] by blast
  then show ?thesis using points sync(3) by (auto simp: index_settled_def point_deleted_def point_written_def)
qed

text \<open>A catalogue with a memory that is not yet indexed and a copy of it that has expired.\<close>

definition sample_backlog :: memory_world where
  "sample_backlog = (sample_memory_world (sample_catalog\<lparr>md_memories := [sample_memory_row 1 ''run it'',
     (sample_memory_row 2 ''run it'')\<lparr>mm_valid_until := Some 5\<rparr>]\<rparr>))\<lparr>w_clock := (\<lambda>n. 10000000000000 + int n * 1000000)\<rparr>"

lemma sample_backlog_ok: "catalog_ok sample_memory_config (w_db sample_backlog)"
proof -
  have "classification_rank (ig_classification (sample_rq ''run it'')) = Inr 1" by code_simp
  from memory_row_of_ok [OF sample_admissible this] have row: "memory_ok sample_memory_config (sample_memory_row n ''run it'')" for n
    by (simp add: sample_memory_row_def)
  moreover have "memory_ok sample_memory_config ((sample_memory_row 2 ''run it'')\<lparr>mm_valid_until := Some 5\<rparr>)"
    using row [of 2] by (simp add: memory_ok_def sample_memory_row_def memory_row_of_def sample_rq_def)
  moreover have "sample_memory_id 1 \<noteq> sample_memory_id 2" by code_simp
  ultimately show ?thesis
    by (simp add: catalog_ok_def memories.unique_def rows_linked_def sample_backlog_def sample_catalog_def sample_memory_world_def)
      (simp add: sample_memory_row_def memory_row_of_def sample_rq_def)
qed

lemma sample_backlog_facts:
  "list_all (vector_fits sample_memory_config) (md_memories (w_db sample_backlog))"
  "map (\<lambda>r. (index_due r, deletion_due r, expires 10000001000000 r)) (md_memories (w_db sample_backlog)) =
     [(True, False, False), (True, False, True)]"
  "in_range (10000001000000 - mc_stale_after_days sample_memory_config * 86400000000) = Inr 2224001000000"
  by code_simp+

lemma sample_maintainer: "case actor_for sample_memory_config ''ops'' 1000 ''maintenance'' of Inr a \<Rightarrow> True | Inl e \<Rightarrow> False"
  by code_simp

theorem maintenance_catches_up_witness:
  "\<exists>m w'. maintain sample_memory_config ''ops'' 1000 sample_backlog = (Inr m, w') \<and> mn_failures m = 0 \<and> mn_expired m = 1 \<and>
     mn_reindexed m = 1 \<and> index_settled (w_db w')"
proof -
  obtain a where actor: "actor_for sample_memory_config ''ops'' 1000 ''maintenance'' = Inr a"
    using sample_maintainer by (auto split: sum.splits)
  have clock: "w_clock sample_backlog (Suc (w_ticks sample_backlog)) = 10000001000000" "whole_second 10000001000000 = 10000001000000"
    by (simp_all add: sample_backlog_def sample_memory_world_def whole_second_def)
  obtain r s where rows: "md_memories (w_db sample_backlog) = [r, s]" "index_due r" "index_due s" "\<not> deletion_due r" "\<not> deletion_due s"
      "\<not> expires 10000001000000 r" "expires 10000001000000 s"
    using sample_backlog_facts(2) by (auto simp: map_eq_Cons_conv)
  have answers: "qdrant_answers sample_backlog" by (simp add: qdrant_answers_def sample_backlog_def sample_memory_world_def)
  have fits: "\<forall>r\<in>set (md_memories (w_db sample_backlog)). vector_fits sample_memory_config r"
    using sample_backlog_facts(1) by (simp add: list_all_iff)
  have fresh: "w_uuids sample_backlog (w_drawn sample_backlog) \<notin> mt_id ` set (md_maintenance (w_db sample_backlog))"
    by (simp add: sample_backlog_def sample_memory_world_def sample_catalog_def)
  show ?thesis
    using maintenance_catches_up [OF actor answers sample_backlog_ok fits _ _ _ fresh, unfolded clock, OF _ _ sample_backlog_facts(3)] rows
    by (auto simp: rowcount_def)
qed

end
