(* ===== verification/Spec2Isabelle.thy ===== *)
theory Spec2Isabelle
  imports Config_Correct Lifecycle_Correct Action_Budget System_Correct Route_Decision Route_Safety Ledger_Correct Trace_Correct Mem_Requests Mem_Maintenance
begin

text \<open>
  A model of the control plane of this repository, with the theorems that make its three services with
  logic of their own correct.

  The program. The broker (\<^verbatim>\<open>broker/src/ops_broker\<close>) is the only component that may act on hosts. Clients
  ask it for runbook actions; class A runs at once, class B within a budget of attempts, class C after
  the approval of a second person. It keeps missions, incidents, a work queue with leases, resource locks
  and a hash-chained audit log in SQLite. The orchestrator (\<^verbatim>\<open>orchestrator/src/ops_orchestrator\<close>) answers
  questions with language models: it plans which roles a request is offered to, ranks the deployments of
  a role, reserves the worst-case cost of a call before making it, settles it after, has important
  results verified by an independent deployment, and escalates to a human what it cannot answer safely.
  The memory service (\<^verbatim>\<open>memory/src/ops_memory\<close>) keeps what the agents should remember in a SQLite catalogue, with
  a Qdrant index beside it that may fail or lag behind; every record has a scope, a classification and the
  roles that may read it. In the modelled code no service calls another: an answer of the orchestrator or a
  memory is advice, and what follows from it goes through the broker's policy.

  Python. Functions that can raise return \<open>py_exc + 'a\<close> (\<open>Prelude\<close>). \<open>Py_Text\<close>, \<open>Py_Json\<close>, \<open>Py_Regex\<close>, \<open>Py_Uuid\<close>,
  \<open>Py_Yaml\<close>, \<open>Py_Number\<close> and \<open>Py_Time\<close> hold what the sources use of the standard library: strings, JSON,
  \<^verbatim>\<open>re\<close>, UUIDs, parsed YAML, floats, \<^verbatim>\<open>Decimal\<close> with its 28 digits, time stamps. A finite float is the
  rational it denotes, and where the sign of a zero can be told, as in what the orchestrator hashes, \<open>flt\<close>
  keeps \<^verbatim>\<open>-0.0\<close> apart. A \<^verbatim>\<open>str\<close> is a HOL \<open>string\<close>, so code points
  above 255 are outside the model. \<open>Py_Op\<close> is the effect type of handlers: a database (one record per
  service, one list of rows per table, in rowid order), the clock and \<^verbatim>\<open>uuid4\<close> as tapes, and transactions that
  restore the database when their body raises. \<open>Op_Logic\<close> has the rules that prove what a handler returns, how it
  changes the world, and what holds before and after it.

  The broker. \<open>Broker_Util\<close> is \<^verbatim>\<open>util.py\<close> (redaction, canonical JSON); \<open>Broker_Store\<close> and \<open>Broker_Audit\<close> are
  \<^verbatim>\<open>database.py\<close> (tables, audit chain and its verifier); \<open>Broker_Policy\<close> is \<^verbatim>\<open>policy.py\<close>; \<open>Broker_Runbooks\<close> is
  \<^verbatim>\<open>runbooks.py\<close> (allowlist, loader, parameters, command lines); \<open>Broker_Base\<close>, \<open>Broker_Lifecycle\<close> and
  \<open>Broker_Actions\<close> are \<^verbatim>\<open>service.py\<close> (missions, incidents, actions, approvals); \<open>Broker_Missions\<close>,
  \<open>Broker_Leases\<close> and \<open>Broker_Traces\<close> are \<^verbatim>\<open>mission_control.py\<close> (context, checkpoints, queue, locks, traces,
  artifacts, recovery). \<open>Broker_System\<close> serves sequences of requests, with restarts. \<open>Sample_Broker\<close> is a small
  configuration on which the theorems are evaluated.

  What is shown of it. \<open>Config_Correct\<close>: whatever the configuration files say, a policy that loads fails
  closed, a grant needs a single role, a command line runs an allowlisted program with declared arguments.
  \<open>Broker_Audit\<close>: the verifier accepts exactly the linked logs, and a log cannot be replaced under the same
  head without a collision of SHA-256. \<open>Action_Machine\<close>, \<open>Action_Handlers\<close> and \<open>Action_Interleaving\<close>: an
  abstract machine of an action's life, the step relation of the transactions of concurrent handlers and
  crashes, and the refinement between them; a started class C action was approved by another person, and
  nothing is started twice. \<open>Action_Budget\<close>: class B attempts stay within every window. \<open>Lease_Correct\<close>,
  \<open>Recovery_Correct\<close>, \<open>Lifecycle_Correct\<close>: queue, locks, restart, status machines, retries and denials.
  \<open>System_Correct\<close>: invariants of every history of requests and restarts.

  The orchestrator. \<open>Orch_Base\<close> has the data of \<^verbatim>\<open>models.py\<close>, \<^verbatim>\<open>config.py\<close> and the tables of \<^verbatim>\<open>database.py\<close>;
  \<open>Orch_Routing\<close> is \<^verbatim>\<open>routing.py\<close>, \<^verbatim>\<open>capability_routing.py\<close> and the prices of \<^verbatim>\<open>config.py\<close>; \<open>Orch_Store\<close> is
  \<^verbatim>\<open>database.py\<close> and \<^verbatim>\<open>trace.py\<close>; \<open>Orch_Adaptive\<close> is \<^verbatim>\<open>adaptive.py\<close>; \<open>Orch_Budget\<close> is \<^verbatim>\<open>budget.py\<close>; \<open>Orch_Service\<close>,
  \<open>Orch_Verify\<close> and \<open>Orch_Route\<close> are the routing loops of \<^verbatim>\<open>service.py\<close>; \<open>Orch_Parse\<close> is the way in, from the
  JSON body and the caller's grant. The providers, the local model lock, SHA-256 and the text of a float
  are parameters, fields of the record \<open>orchestrator\<close>.

  What is shown of it. \<open>Route_Safety\<close>: calls are bounded and each has its reservation, and nothing leaves the
  host without the caller's grant. \<open>Route_Decision\<close>: a decision is what a call in the log of provider calls
  answered, and confident; where the task is important the log also holds the answer of an independent
  verifier that agreed; a human is needed where the risk is critical or code was proposed.
  \<open>Ledger_Correct\<close>: a reservation respects every cap of provider, mission, account, task and request.
  \<open>Orch_Frame\<close> is the interface through which an invariant that the operations of a route keep holds of a whole
  request; \<open>Trace_Correct\<close> instantiates it: no request changes a record that was there before it, and the
  chained trace verifies after it, unless a number in it is \<^verbatim>\<open>-0.0\<close>, for which it is shown to fail.
  \<open>Sample_Orchestrator\<close> is the configuration the theorems are evaluated on.

  The memory service. \<open>Mem_Base\<close> has the exceptions, the configuration of \<^verbatim>\<open>config.py\<close> as a record, and text
  functions; \<open>Mem_Models\<close> is \<^verbatim>\<open>models.py\<close> and \<^verbatim>\<open>security.py\<close> (requests, secrets, visibility); \<open>Mem_Store\<close> is
  \<^verbatim>\<open>storage.py\<close>; \<open>Mem_Index\<close> is \<^verbatim>\<open>qdrant.py\<close>, \<^verbatim>\<open>embedding.py\<close>, \<^verbatim>\<open>semantic_index.py\<close> and \<^verbatim>\<open>rerank.py\<close>;
  \<open>Mem_Service\<close> and \<open>Mem_Dispatch\<close> are \<^verbatim>\<open>service.py\<close> and the dispatcher of \<^verbatim>\<open>protocol.py\<close>. Its world extends that of
  \<open>Py_Op\<close> with one tape of answers each for Qdrant, the embedding API and the reranking API, and a log of
  what they were asked; the hash, the text of a float, \<^verbatim>\<open>fromisoformat\<close>, the passwd database and the local
  feature-hash vector are fields of \<open>memory_config\<close>.

  What is shown of it. \<open>Mem_Frame\<close> is the interface through which a relation between databases, once the
  statements of the catalogue keep it, holds of every request; \<open>Mem_Catalog\<close> instantiates it with the
  invariant of the catalogue and with the history that is never rewritten, and \<open>Mem_Requests\<close> concludes for
  sequences of requests. \<open>Mem_Access\<close>: a search shows nothing the actor may not see, whatever the index
  answers. \<open>Mem_Writes\<close> and \<open>Mem_Visibility\<close>: what a new row says of the request that stored it; superseding
  and summarizing widen no audience, and what is stored reads back. \<open>Mem_Maintenance\<close>: with an index that answers and a
  backlog within a run's 500 records, maintenance leaves nothing to index or delete. \<open>Sample_Memory\<close> is the sample.

  Bounds and fuel. Every recursion is structural or has a measure; the JSON reader and the format-string
  parser are total by measures. Integers bound to SQLite columns must fit in 64 bits, which is where
  \<open>OverflowError\<close> comes from; sums inside SQLite are exact in the model.

  Not modelled. Processes, threads, sockets and files (the broker's command executor, the HTTP and MCP
  front ends, provider adapters, backups, publication); SQLite's own isolation and constraint checks
  beyond those written out; of the memory service the HTTP requests to Qdrant and the APIs, the reading of
  its configuration file, its socket server and MCP server; the Zulip bridge, provider discovery, finance
  snapshots, the Hermes facade, the model catalogue and its previews, metrics, deployment scripts and user
  interfaces. The requests of the memory service are served one after another: what its threads do between
  the transactions of one another is not modelled.
\<close>

end
